(* ===== verification/Prelude.thy ===== *)
theory Prelude
  imports Complex_Main "HOL-Library.Word" "HOL-Library.Multiset"
    "HOL-Library.Char_ord" "HOL-Library.List_Lexorder" "HOL-Library.Product_Lexorder"
begin

text \<open>
  The vocabulary the components share: ASCII case folding and the string operations of the
  language, JSON-like values (\<open>dict\<close> is an insertion-ordered association list), the exceptions
  the code raises, stable sorting, and shell patterns (\<^theory_text>\<open>fnmatch\<close>).
  Strings are lists of characters below 256; case folding is ASCII, which is what host names,
  methods, schemes and header names use.
\<close>

named_theorems guard_defs \<open>definitions the guard proofs unfold\<close>
named_theorems frame_simps \<open>fields an operation leaves alone\<close>

section \<open>Lists\<close>

lemma find_SomeD: "List.find P xs = Some x \<Longrightarrow> x \<in> set xs \<and> P x"
  by (auto simp: find_Some_iff)

lemma find_Some_ex: "List.find P xs \<noteq> None \<longleftrightarrow> (\<exists>x \<in> set xs. P x)"
  by (auto simp: find_None_iff)

lemma find_None_all: "List.find P xs = None \<longleftrightarrow> (\<forall>x \<in> set xs. \<not> P x)"
  by (auto simp: find_None_iff)

section \<open>Exceptions\<close>

text \<open>
  One constructor for each exception class the modelled code raises or catches. A fallible
  operation has type \<open>exn + 'a\<close>.
\<close>

datatype jv =
    JNull
  | JBool bool
  | JInt int
  | JNum rat
  | JStr string
  | JList "jv list"
  | JDict "(string \<times> jv) list"

type_synonym dict = "(string \<times> jv) list"

datatype exn =
    ValueError string
  | NetGuardError string
  | ScopeViolation string string dict
  | EgressViolation string string int string
  | TargetUnreachable string
  | SandboxError string
  | RuntimeError string
  | HttpError string
  | TimeoutExn
  | OtherError string
  | HTTPException int string

section \<open>Strings\<close>

text \<open>\<open>ord(c)\<close> and \<open>chr(n)\<close>.\<close>

definition ord :: "char \<Rightarrow> int" where
  "ord c = of_char c"

definition chr :: "int \<Rightarrow> char" where
  "chr n = char_of n"

lemma ord_chr: "0 \<le> n \<Longrightarrow> n < 256 \<Longrightarrow> ord (chr n) = n"
  by (simp add: ord_def chr_def)

lemma chr_ord [simp]: "chr (ord c) = c"
  by (simp add: ord_def chr_def)

definition is_digit :: "char \<Rightarrow> bool" where
  "is_digit c \<longleftrightarrow> (let n = ord c in 48 \<le> n \<and> n \<le> 57)"

definition is_lower_ascii :: "char \<Rightarrow> bool" where
  "is_lower_ascii c \<longleftrightarrow> (let n = ord c in 97 \<le> n \<and> n \<le> 122)"

definition is_upper_ascii :: "char \<Rightarrow> bool" where
  "is_upper_ascii c \<longleftrightarrow> (let n = ord c in 65 \<le> n \<and> n \<le> 90)"

definition is_alpha :: "char \<Rightarrow> bool" where
  "is_alpha c \<longleftrightarrow> is_lower_ascii c \<or> is_upper_ascii c"

definition is_ascii :: "char \<Rightarrow> bool" where
  "is_ascii c \<longleftrightarrow> ord c < 128"

definition lower_char :: "char \<Rightarrow> char" where
  "lower_char c = (if is_upper_ascii c then chr (ord c + 32) else c)"

definition upper_char :: "char \<Rightarrow> char" where
  "upper_char c = (if is_lower_ascii c then chr (ord c - 32) else c)"

definition str_lower :: "string \<Rightarrow> string" where
  "str_lower s = map lower_char s"

definition str_upper :: "string \<Rightarrow> string" where
  "str_upper s = map upper_char s"

lemma lower_char_idem [simp]: "lower_char (lower_char c) = lower_char c"
  by (auto simp: lower_char_def is_upper_ascii_def Let_def ord_chr)

lemma upper_char_idem [simp]: "upper_char (upper_char c) = upper_char c"
  by (auto simp: upper_char_def is_lower_ascii_def Let_def ord_chr)

lemma str_lower_idem [simp]: "str_lower (str_lower s) = str_lower s"
  by (simp add: str_lower_def)

lemma str_upper_idem [simp]: "str_upper (str_upper s) = str_upper s"
  by (simp add: str_upper_def)

lemma str_lower_Nil [simp]: "str_lower s = [] \<longleftrightarrow> s = []" "str_lower [] = []"
  by (auto simp: str_lower_def)

lemma length_str_lower [simp]: "length (str_lower s) = length s"
  by (simp add: str_lower_def)

lemma str_lower_append [simp]: "str_lower (s @ t) = str_lower s @ str_lower t"
  by (simp add: str_lower_def)

text \<open>\<open>s.startswith(p)\<close>, \<open>s.endswith(p)\<close> and \<open>p in s\<close>.\<close>

fun starts_with :: "string \<Rightarrow> string \<Rightarrow> bool" where
  "starts_with _ [] = True"
| "starts_with [] (_ # _) = False"
| "starts_with (c # s) (p # ps) = (c = p \<and> starts_with s ps)"

definition ends_with :: "string \<Rightarrow> string \<Rightarrow> bool" where
  "ends_with s p = starts_with (rev s) (rev p)"

fun contains_str :: "string \<Rightarrow> string \<Rightarrow> bool" where
  "contains_str [] p = (p = [])"
| "contains_str (c # s) p = (starts_with (c # s) p \<or> contains_str s p)"

lemma starts_with_iff: "starts_with s p \<longleftrightarrow> (\<exists>t. s = p @ t)"
  by (induction s p rule: starts_with.induct) auto

lemma starts_with_refl [simp]: "starts_with s s"
  by (simp add: starts_with_iff)

lemma ends_with_iff: "ends_with s p \<longleftrightarrow> (\<exists>t. s = t @ p)"
proof -
  have "rev s = rev p @ t \<longleftrightarrow> s = rev t @ p" for t
    by (metis rev_append rev_rev_ident)
  then show ?thesis
    by (auto simp: ends_with_def starts_with_iff) (metis rev_rev_ident)
qed

lemma contains_str_iff: "contains_str s p \<longleftrightarrow> (\<exists>u v. s = u @ p @ v)"
proof (induction s)
  case Nil
  then show ?case by auto
next
  case (Cons c s)
  show ?case
  proof
    assume "contains_str (c # s) p"
    then show "\<exists>u v. c # s = u @ p @ v"
      using Cons.IH by (auto simp: starts_with_iff) (metis append_Cons append_Nil)+
  next
    assume "\<exists>u v. c # s = u @ p @ v"
    then obtain u v where eq: "c # s = u @ p @ v" by blast
    show "contains_str (c # s) p"
    proof (cases u)
      case Nil
      with eq have "starts_with (c # s) p" by (auto simp: starts_with_iff)
      then show ?thesis by simp
    next
      case (Cons d u')
      with eq have "s = u' @ p @ v" by simp
      then show ?thesis using Cons.IH by auto
    qed
  qed
qed

lemma contains_str_Nil [simp]: "contains_str s []"
  by (cases s) auto

text \<open>\<open>strip()\<close> with the whitespace of the language below code point 256.\<close>

definition is_space :: "char \<Rightarrow> bool" where
  "is_space c \<longleftrightarrow> (let n = ord c in
     (9 \<le> n \<and> n \<le> 13) \<or> (28 \<le> n \<and> n \<le> 32) \<or> n = 133 \<or> n = 160)"

definition str_strip :: "string \<Rightarrow> string" where
  "str_strip s = rev (dropWhile is_space (rev (dropWhile is_space s)))"

lemma is_space_lower_char [simp]: "is_space (lower_char c) = is_space c"
  by (auto simp: lower_char_def is_space_def is_upper_ascii_def Let_def ord_chr)

lemma dropWhile_lower: "dropWhile is_space (map lower_char s) = map lower_char (dropWhile is_space s)"
  by (induction s) auto

lemma str_strip_lower: "str_strip (str_lower s) = str_lower (str_strip s)"
  by (simp add: str_strip_def str_lower_def dropWhile_lower rev_map)

lemma str_strip_lower_Nil: "str_strip (str_lower s) = [] \<longleftrightarrow> str_strip s = []"
  by (simp add: str_strip_lower)

definition rstrip_char :: "char \<Rightarrow> string \<Rightarrow> string" where
  "rstrip_char c s = rev (dropWhile ((=) c) (rev s))"

text \<open>
  \<open>s.split(sep)\<close> for a one-character separator (always at least one field),
  \<open>s.partition(c)\<close> and \<open>s.rpartition(c)\<close> as (before, found, after).
\<close>

fun split_char :: "char \<Rightarrow> string \<Rightarrow> string list" where
  "split_char c [] = [[]]"
| "split_char c (x # xs) =
     (if x = c then [] # split_char c xs
      else (case split_char c xs of [] \<Rightarrow> [[x]] | y # ys \<Rightarrow> (x # y) # ys))"

fun partition_char :: "char \<Rightarrow> string \<Rightarrow> string \<times> bool \<times> string" where
  "partition_char c [] = ([], False, [])"
| "partition_char c (x # xs) =
     (if x = c then ([], True, xs)
      else (let (a, f, b) = partition_char c xs in (x # a, f, b)))"

definition rpartition_char :: "char \<Rightarrow> string \<Rightarrow> string \<times> bool \<times> string" where
  "rpartition_char c s =
     (let (a, f, b) = partition_char c (rev s)
      in if f then (rev b, True, rev a) else ([], False, s))"

fun join_with :: "string \<Rightarrow> string list \<Rightarrow> string" where
  "join_with sep [] = []"
| "join_with sep [x] = x"
| "join_with sep (x # xs) = x @ sep @ join_with sep xs"

lemma split_char_nonempty [simp]: "split_char c s \<noteq> []"
  by (induction s) (auto split: list.splits)

lemma join_split_char: "join_with [c] (split_char c s) = s"
proof (induction s)
  case Nil
  then show ?case by simp
next
  case (Cons x xs)
  obtain y ys where eq: "split_char c xs = y # ys"
    by (cases "split_char c xs") auto
  with Cons show ?case by (cases ys) auto
qed

lemma split_char_no_sep: "s' \<in> set (split_char c s) \<Longrightarrow> c \<notin> set s'"
  by (induction s arbitrary: s') (auto split: list.splits if_splits)

lemma partition_char_found:
  "partition_char c s = (a, True, b) \<Longrightarrow> s = a @ c # b \<and> c \<notin> set a"
  by (induction s arbitrary: a) (auto split: if_splits prod.splits)

lemma partition_char_missing:
  "partition_char c s = (a, False, b) \<Longrightarrow> a = s \<and> b = [] \<and> c \<notin> set s"
  by (induction s arbitrary: a) (auto split: if_splits prod.splits)

text \<open>\<open>s.replace(p, q)\<close> for a one-character \<open>p\<close>.\<close>

definition replace_char :: "char \<Rightarrow> string \<Rightarrow> string \<Rightarrow> string" where
  "replace_char p q s = concat (map (\<lambda>c. if c = p then q else [c]) s)"

text \<open>Decimal numerals: \<open>str(n)\<close> for an int, and \<open>int(s)\<close> on a string of digits.\<close>

function digits_str :: "int \<Rightarrow> string" where
  "digits_str n = (if n < 10 then [chr (48 + n)] else digits_str (n div 10) @ [chr (48 + n mod 10)])"
  by pat_completeness auto
termination
  by (relation "measure nat") auto

declare digits_str.simps [simp del]

definition int_str :: "int \<Rightarrow> string" where
  "int_str i = (if i < 0 then CHR ''-'' # digits_str (- i) else digits_str i)"

definition nat_str :: "nat \<Rightarrow> string" where
  "nat_str n = int_str (int n)"

definition digits_val :: "string \<Rightarrow> int" where
  "digits_val s = foldl (\<lambda>n c. 10 * n + (ord c - 48)) 0 s"

lemma digits_str_digits: "0 \<le> n \<Longrightarrow> c \<in> set (digits_str n) \<Longrightarrow> is_digit c"
proof (induction n rule: digits_str.induct)
  case (1 n)
  then show ?case
    by (cases "n < 10") (auto simp: digits_str.simps [of n] is_digit_def Let_def ord_chr)
qed

lemma digits_str_nonempty [simp]: "digits_str n \<noteq> []"
  by (subst digits_str.simps) simp

lemma digits_val_digits_str: "0 \<le> n \<Longrightarrow> digits_val (digits_str n) = n"
proof (induction n rule: digits_str.induct)
  case (1 n)
  then show ?case
    by (cases "n < 10") (auto simp: digits_str.simps [of n] digits_val_def ord_chr)
qed

text \<open>\<open>repr(s)\<close> of a string: quote choice and escapes.\<close>

definition hex_digit :: "int \<Rightarrow> char" where
  "hex_digit n = (if n < 10 then chr (48 + n) else chr (87 + n))"

definition repr_char :: "char \<Rightarrow> char \<Rightarrow> string" where
  "repr_char q c = (let n = ord c in
     if c = q \<or> n = 92 then [chr 92, c]
     else if n = 10 then [chr 92, CHR ''n'']
     else if n = 13 then [chr 92, CHR ''r'']
     else if n = 9 then [chr 92, CHR ''t'']
     else if n < 32 \<or> (127 \<le> n \<and> n \<le> 160) \<or> n = 173
       then [chr 92, CHR ''x'', hex_digit (n div 16), hex_digit (n mod 16)]
     else [c])"

definition py_repr :: "string \<Rightarrow> string" where
  "py_repr s = (let q = (if chr 39 \<in> set s \<and> chr 34 \<notin> set s
                         then chr 34 else chr 39)
                in q # concat (map (repr_char q) s) @ [q])"

definition repr_list :: "string list \<Rightarrow> string" where
  "repr_list xs = ''['' @ join_with '', '' (map py_repr xs) @ '']''"

definition repr_ints :: "int list \<Rightarrow> string" where
  "repr_ints xs = ''['' @ join_with '', '' (map int_str xs) @ '']''"

section \<open>Dictionaries\<close>

text \<open>
  A dict is an association list in insertion order. Assignment replaces the value of a key it
  holds in place and appends a new key; \<open>setdefault\<close> keeps a value that is there.
\<close>

fun dset :: "('k \<times> 'v) list \<Rightarrow> 'k \<Rightarrow> 'v \<Rightarrow> ('k \<times> 'v) list" where
  "dset [] k v = [(k, v)]"
| "dset ((k', v') # d) k v = (if k' = k then (k, v) # d else (k', v') # dset d k v)"

definition dget :: "('k \<times> 'v) list \<Rightarrow> 'k \<Rightarrow> 'v option" where
  "dget d k = map_of d k"

definition dkeys :: "('k \<times> 'v) list \<Rightarrow> 'k list" where
  "dkeys d = map fst d"

definition dsetdefault :: "('k \<times> 'v) list \<Rightarrow> 'k \<Rightarrow> 'v \<Rightarrow> ('k \<times> 'v) list" where
  "dsetdefault d k v = (if dget d k = None then d @ [(k, v)] else d)"

definition dpop :: "('k \<times> 'v) list \<Rightarrow> 'k \<Rightarrow> ('k \<times> 'v) list" where
  "dpop d k = filter (\<lambda>(k', _). k' \<noteq> k) d"

definition dwf :: "('k \<times> 'v) list \<Rightarrow> bool" where
  "dwf d \<longleftrightarrow> distinct (dkeys d)"

text \<open>
  The contract the clients of a dict rely on: what a lookup returns after an assignment, and
  that keys stay distinct and keep their insertion order.
\<close>

locale dict_contract =
  fixes empty :: "'d"
    and lookup :: "'d \<Rightarrow> 'k \<Rightarrow> 'v option"
    and assign :: "'d \<Rightarrow> 'k \<Rightarrow> 'v \<Rightarrow> 'd"
    and keys :: "'d \<Rightarrow> 'k list"
    and wf :: "'d \<Rightarrow> bool"
  assumes lookup_empty: "lookup empty k = None"
    and lookup_assign: "lookup (assign d k v) k' = (if k' = k then Some v else lookup d k')"
    and keys_assign: "keys (assign d k v) = (if k \<in> set (keys d) then keys d else keys d @ [k])"
    and keys_empty: "keys empty = []"
    and lookup_keys: "lookup d k \<noteq> None \<longleftrightarrow> k \<in> set (keys d)"
    and wf_keys: "wf d \<longleftrightarrow> distinct (keys d)"
begin

lemma wf_assign: "wf d \<Longrightarrow> wf (assign d k v)"
  by (simp add: wf_keys keys_assign)

lemma wf_empty: "wf empty"
  by (simp add: wf_keys keys_empty)

lemma lookup_fold_assign:
  "lookup (foldl (\<lambda>d (k, v). assign d k v) d xs) k =
     (case map_of (rev xs) k of None \<Rightarrow> lookup d k | Some v \<Rightarrow> Some v)"
  by (induction xs arbitrary: d)
    (auto simp: lookup_assign map_add_def split: option.splits if_splits)

lemma wf_fold_assign: "wf d \<Longrightarrow> wf (foldl (\<lambda>d (k, v). assign d k v) d xs)"
  by (induction xs arbitrary: d) (auto simp: wf_assign)

lemma keys_mono: "set (keys d) \<subseteq> set (keys (assign d k v))"
  by (auto simp: keys_assign)

end

lemma dget_dset: "dget (dset d k v) k' = (if k' = k then Some v else dget d k')"
  by (induction d k v rule: dset.induct) (auto simp: dget_def)

lemma dkeys_dset: "dkeys (dset d k v) = (if k \<in> set (dkeys d) then dkeys d else dkeys d @ [k])"
  by (induction d k v rule: dset.induct) (auto simp: dkeys_def)

lemma dset_new: "k \<notin> set (dkeys d) \<Longrightarrow> dset d k v = d @ [(k, v)]"
  by (induction d k v rule: dset.induct) (auto simp: dkeys_def)

lemma dget_in_keys: "dget d k \<noteq> None \<longleftrightarrow> k \<in> set (dkeys d)"
  by (simp add: dget_def dkeys_def map_of_eq_None_iff)

interpretation py_dict: dict_contract "[]" dget dset dkeys dwf
  by unfold_locales (simp_all only: dget_dset dkeys_dset dget_in_keys dwf_def,
    simp_all add: dget_def dkeys_def)

lemma dget_Nil [simp]: "dget [] k = None"
  by (simp add: dget_def)

lemma dget_Cons [simp]: "dget ((k', v) # d) k = (if k = k' then Some v else dget d k)"
  by (simp add: dget_def)

lemma dset_mem: "(k', v') \<in> set (dset d k v) \<Longrightarrow> (k' = k \<and> v' = v) \<or> (k', v') \<in> set d"
  by (induction d k v rule: dset.induct) (auto split: if_splits)

lemma dset_values: "x \<in> snd ` set (dset d k v) \<Longrightarrow> x = v \<or> x \<in> snd ` set d"
  by (force dest!: dset_mem)

lemma dget_mem: "dget d k = Some v \<Longrightarrow> (k, v) \<in> set d"
  by (simp add: dget_def map_of_SomeD)

lemma dget_dsetdefault:
  "dget (dsetdefault d k v) k' =
     (if k' = k then Some (case dget d k of None \<Rightarrow> v | Some w \<Rightarrow> w) else dget d k')"
  by (auto simp: dsetdefault_def dget_def map_add_def split: option.splits)

text \<open>Truth of a value, \<open>d.get(k)\<close> and \<open>d.get(k, default)\<close>, and \<open>str(v)\<close> on the scalars.\<close>

fun truthy :: "jv \<Rightarrow> bool" where
  "truthy JNull = False"
| "truthy (JBool b) = b"
| "truthy (JInt i) = (i \<noteq> 0)"
| "truthy (JNum r) = (r \<noteq> 0)"
| "truthy (JStr s) = (s \<noteq> [])"
| "truthy (JList xs) = (xs \<noteq> [])"
| "truthy (JDict d) = (d \<noteq> [])"

definition jget :: "dict \<Rightarrow> string \<Rightarrow> jv" where
  "jget d k = (case dget d k of None \<Rightarrow> JNull | Some v \<Rightarrow> v)"

definition jget_or :: "dict \<Rightarrow> string \<Rightarrow> jv \<Rightarrow> jv" where
  "jget_or d k dflt = (case dget d k of None \<Rightarrow> dflt | Some v \<Rightarrow> v)"

fun jstr :: "jv \<Rightarrow> string" where
  "jstr (JStr s) = s"
| "jstr _ = []"

section \<open>Results that may be an exception\<close>

definition sum_bind :: "'e + 'a \<Rightarrow> ('a \<Rightarrow> 'e + 'b) \<Rightarrow> 'e + 'b" where
  "sum_bind r f = (case r of Inl e \<Rightarrow> Inl e | Inr x \<Rightarrow> f x)"

lemma sum_bind_simps [simp]: "sum_bind (Inl e) f = Inl e" "sum_bind (Inr x) f = f x"
  by (simp_all add: sum_bind_def)

lemma sum_bind_Inr: "sum_bind r f = Inr y \<longleftrightarrow> (\<exists>x. r = Inr x \<and> f x = Inr y)"
  by (cases r) simp_all

fun mapM_sum :: "('a \<Rightarrow> 'e + 'b) \<Rightarrow> 'a list \<Rightarrow> 'e + 'b list" where
  "mapM_sum f [] = Inr []"
| "mapM_sum f (x # xs) =
     (case f x of Inl e \<Rightarrow> Inl e
      | Inr y \<Rightarrow> (case mapM_sum f xs of Inl e \<Rightarrow> Inl e | Inr ys \<Rightarrow> Inr (y # ys)))"

fun foldM_sum :: "('b \<Rightarrow> 'a \<Rightarrow> 'e + 'b) \<Rightarrow> 'b \<Rightarrow> 'a list \<Rightarrow> 'e + 'b" where
  "foldM_sum f b [] = Inr b"
| "foldM_sum f b (x # xs) = sum_bind (f b x) (\<lambda>b'. foldM_sum f b' xs)"

lemma mapM_sum_Inr: "mapM_sum f xs = Inr ys \<longleftrightarrow> list_all2 (\<lambda>x y. f x = Inr y) xs ys"
proof (induction xs arbitrary: ys)
  case (Cons x xs)
  show ?case
  proof (cases "f x")
    case (Inr y)
    then show ?thesis
      using Cons.IH by (cases "mapM_sum f xs") (auto simp: list_all2_Cons1)
  qed (simp add: list_all2_Cons1)
qed auto

text \<open>An invariant of the successive states, with the elements folded so far.\<close>

lemma foldM_sum_invariant:
  assumes "foldM_sum f b xs = Inr b'" "P [] b"
    and "\<And>done b x b'. P done b \<Longrightarrow> f b x = Inr b' \<Longrightarrow> P (done @ [x]) b'"
  shows "P xs b'"
proof -
  have "foldM_sum f b xs = Inr b' \<Longrightarrow> P done b \<Longrightarrow> P (done @ xs) b'" for "done"
  proof (induction xs arbitrary: b "done")
    case (Cons x xs)
    then obtain b1 where "f b x = Inr b1" "foldM_sum f b1 xs = Inr b'"
      by (auto simp: sum_bind_Inr)
    with Cons.IH [of b1 "done @ [x]"] assms(3) [OF Cons.prems(2)] show ?case by simp
  qed simp
  with assms(1,2) show ?thesis by fastforce
qed

section \<open>Sorting\<close>

text \<open>
  \<open>sorted(xs, key=k, reverse=True)\<close> keeps equal elements in their order: it is the stable sort
  by the opposite key.
\<close>

definition sort_desc :: "('a \<Rightarrow> int) \<Rightarrow> 'a list \<Rightarrow> 'a list" where
  "sort_desc k xs = sort_key (\<lambda>x. - k x) xs"

lemma mset_sort_desc [simp]: "mset (sort_desc k xs) = mset xs"
  by (simp add: sort_desc_def)

lemma set_sort_desc [simp]: "set (sort_desc k xs) = set xs"
  by (simp add: sort_desc_def)

lemma sorted_sort_desc: "sorted_wrt (\<lambda>x y. k y \<le> k x) (sort_desc k xs)"
proof -
  have "sorted (map (\<lambda>x. - k x) (sort_desc k xs))"
    by (simp add: sort_desc_def)
  then show ?thesis by (simp add: sorted_map)
qed

lemma stable_sort_desc: "filter (\<lambda>x. k x = v) (sort_desc k xs) = filter (\<lambda>x. k x = v) xs"
  using filter_insort_triv sort_key_stable [of "\<lambda>x. - k x" "- v" xs]
  by (simp add: sort_desc_def)

text \<open>\<open>sorted(set(xs))\<close>.\<close>

definition sorted_set :: "('a::linorder) list \<Rightarrow> 'a list" where
  "sorted_set xs = sort (remdups xs)"

lemma set_sorted_set [simp]: "set (sorted_set xs) = set xs"
  by (simp add: sorted_set_def)

lemma distinct_sorted_set [simp]: "distinct (sorted_set xs)"
  by (simp add: sorted_set_def)

section \<open>Shell patterns\<close>

text \<open>
  \<open>fnmatch.fnmatch\<close> on a POSIX system: \<open>*\<close>, \<open>?\<close>, \<open>[seq]\<close> and \<open>[!seq]\<close>; a bracket that never
  closes is a literal, a closing bracket right after the opening one is a member.
\<close>

datatype gtok = GStar | GAny | GSet bool "(char \<times> char) list" | GChr char

fun glob_ranges :: "string \<Rightarrow> (char \<times> char) list" where
  "glob_ranges (a # b # c # rest) =
     (if b = CHR ''-'' then (a, c) # glob_ranges rest else (a, a) # glob_ranges (b # c # rest))"
| "glob_ranges (a # rest) = (a, a) # glob_ranges rest"
| "glob_ranges [] = []"

definition in_ranges :: "char \<Rightarrow> (char \<times> char) list \<Rightarrow> bool" where
  "in_ranges c rs = list_ex (\<lambda>(a, b). ord a \<le> ord c \<and> ord c \<le> ord b) rs"

text \<open>The body of a bracket and the rest of the pattern, or None when it never closes.\<close>

definition glob_bracket :: "string \<Rightarrow> (bool \<times> string \<times> string) option" where
  "glob_bracket s =
     (let (neg, s1) = (case s of [] \<Rightarrow> (False, s) | c # r \<Rightarrow> if c = CHR ''!'' then (True, r) else (False, s));
          (pre, s2) = (case s1 of [] \<Rightarrow> ([], s1) | c # r \<Rightarrow> if c = CHR '']'' then ([c], r) else ([], s1));
          (body, found, rest) = partition_char (CHR '']'') s2
      in if found then Some (neg, pre @ body, rest) else None)"

lemma partition_char_length: "length (snd (snd (partition_char c s))) \<le> length s"
  by (induction s) (auto split: prod.splits)

lemma partition_char_rest: "partition_char c s = (a, f, b) \<Longrightarrow> length b \<le> length s"
  using partition_char_length [of c s] by simp

lemma glob_bracket_length: "glob_bracket s = Some (neg, body, rest) \<Longrightarrow> length rest \<le> length s"
  by (auto simp: glob_bracket_def Let_def dest!: partition_char_rest
      split: list.splits prod.splits if_splits)

function glob_parse :: "string \<Rightarrow> gtok list" where
  "glob_parse [] = []"
| "glob_parse (c # s) =
     (if c = CHR ''*'' then GStar # glob_parse s
      else if c = CHR ''?'' then GAny # glob_parse s
      else if c = CHR ''['' then
        (case glob_bracket s of
           None \<Rightarrow> GChr c # glob_parse s
         | Some (neg, body, rest) \<Rightarrow> GSet neg (glob_ranges body) # glob_parse rest)
      else GChr c # glob_parse s)"
  by pat_completeness auto
termination
  by (relation "measure length") (auto dest: glob_bracket_length)

fun glob_match :: "gtok list \<Rightarrow> string \<Rightarrow> bool" where
  "glob_match [] s = (s = [])"
| "glob_match (GStar # ts) [] = glob_match ts []"
| "glob_match (GStar # ts) (c # s) = (glob_match ts (c # s) \<or> glob_match (GStar # ts) s)"
| "glob_match (_ # ts) [] = False"
| "glob_match (GAny # ts) (c # s) = glob_match ts s"
| "glob_match (GSet neg rs # ts) (c # s) = (in_ranges c rs \<noteq> neg \<and> glob_match ts s)"
| "glob_match (GChr d # ts) (c # s) = (c = d \<and> glob_match ts s)"

definition fnmatch :: "string \<Rightarrow> string \<Rightarrow> bool" where
  "fnmatch name pat = glob_match (glob_parse pat) name"

lemma glob_match_star: "glob_match (GStar # ts) s \<longleftrightarrow> (\<exists>u v. s = u @ v \<and> glob_match ts v)"
proof (induction s)
  case Nil
  then show ?case by simp
next
  case (Cons c s)
  show ?case
  proof
    assume "glob_match (GStar # ts) (c # s)"
    then show "\<exists>u v. c # s = u @ v \<and> glob_match ts v"
      using Cons.IH by (auto intro: exI [of _ "[]"]) (metis append_Cons)
  next
    assume "\<exists>u v. c # s = u @ v \<and> glob_match ts v"
    then show "glob_match (GStar # ts) (c # s)"
      using Cons.IH by (auto simp: Cons_eq_append_conv)
  qed
qed

definition plain_chars :: "string \<Rightarrow> bool" where
  "plain_chars s \<longleftrightarrow> (\<forall>c \<in> set s. c \<noteq> CHR ''*'' \<and> c \<noteq> CHR ''?'' \<and> c \<noteq> CHR ''['')"

lemma glob_parse_plain: "plain_chars s \<Longrightarrow> glob_parse s = map GChr s"
  by (induction s) (auto simp: plain_chars_def)

lemma glob_match_plain: "glob_match (map GChr p) s \<longleftrightarrow> s = p"
  by (induction "map GChr p" s arbitrary: p rule: glob_match.induct) (auto simp: map_eq_Cons_conv)

text \<open>A wildcard host entry \<open>*.suffix\<close> admits exactly the names that end in \<open>.suffix\<close>.\<close>

lemma fnmatch_star_suffix:
  assumes "plain_chars p"
  shows "fnmatch s (CHR ''*'' # p) \<longleftrightarrow> ends_with s p"
  by (simp add: fnmatch_def glob_parse_plain [OF assms] glob_match_star glob_match_plain
      ends_with_iff del: glob_match.simps)

lemma fnmatch_plain: "plain_chars p \<Longrightarrow> fnmatch s p \<longleftrightarrow> s = p"
  by (simp add: fnmatch_def glob_parse_plain glob_match_plain)

end
