(* ===== verification/Enums.thy ===== *)
theory Enums
  imports Prelude
begin

text \<open>
  The enumerations of \<open>app/core/enums.py\<close>. Each member is a constructor, \<open><enum>_value\<close> is
  its string value, and \<open><enum>_of\<close> is the lookup by value (\<open>Environment("lab")\<close>), None
  where Python raises ValueError. Role, intensity and severity carry the order their rank
  tables give them.
\<close>

text \<open>The contract of a string-valued enumeration, with its lookup table as parameter.\<close>

locale str_enum =
  fixes "value" :: "'a \<Rightarrow> string"
    and of_str :: "string \<Rightarrow> 'a option"
    and members :: "'a list"
  assumes of_value: "of_str (value x) = Some x"
    and value_of: "of_str s = Some x \<Longrightarrow> value x = s"
    and members_all: "x \<in> set members"
begin

lemma value_inj: "value x = value y \<longleftrightarrow> x = y"
  by (metis of_value option.inject)

lemma of_str_Some_iff: "of_str s = Some x \<longleftrightarrow> s = value x"
  using of_value value_of by metis

lemma of_str_None: "s \<notin> value ` set members \<Longrightarrow> of_str s = None"
  using members_all value_of by (cases "of_str s") auto

end

definition enum_of :: "('a \<Rightarrow> string) \<Rightarrow> 'a list \<Rightarrow> string \<Rightarrow> 'a option" where
  "enum_of val ms s = List.find (\<lambda>x. val x = s) ms"

lemma enum_of_contract:
  assumes "distinct (map val ms)" "\<And>x. x \<in> set ms"
  shows "str_enum val (enum_of val ms) ms"
proof
  show "enum_of val ms s = Some x \<Longrightarrow> val x = s" for s x
    by (auto simp: enum_of_def find_Some_iff)
  show "x \<in> set ms" for x by (rule assms(2))
  show "enum_of val ms (val x) = Some x" for x
  proof (cases "enum_of val ms (val x)")
    case None
    then show ?thesis using assms(2) by (auto simp: enum_of_def find_None_iff)
  next
    case (Some y)
    then have "val y = val x" by (auto simp: enum_of_def find_Some_iff)
    then have "y = x"
      using assms by (simp add: distinct_map inj_on_def)
    with Some show ?thesis by simp
  qed
qed

datatype role = OWNER | ADMIN | OPERATOR | VIEWER

fun role_value :: "role \<Rightarrow> string" where
  "role_value OWNER = ''owner''"
| "role_value ADMIN = ''admin''"
| "role_value OPERATOR = ''operator''"
| "role_value VIEWER = ''viewer''"

definition role_members :: "role list" where
  "role_members = [OWNER, ADMIN, OPERATOR, VIEWER]"

definition role_of :: "string \<Rightarrow> role option" where
  "role_of = enum_of role_value role_members"

lemma role_members_all [simp]: "x \<in> set role_members"
  by (cases x) (simp_all add: role_members_def)

interpretation role_enum: str_enum role_value role_of role_members
  unfolding role_of_def
  by (rule enum_of_contract) (simp_all add: role_members_def[symmetric], simp add: role_members_def)

datatype environment = PRODUCTION | STAGING | DEVELOPMENT | LAB

fun environment_value :: "environment \<Rightarrow> string" where
  "environment_value PRODUCTION = ''production''"
| "environment_value STAGING = ''staging''"
| "environment_value DEVELOPMENT = ''development''"
| "environment_value LAB = ''lab''"

definition environment_members :: "environment list" where
  "environment_members = [PRODUCTION, STAGING, DEVELOPMENT, LAB]"

definition environment_of :: "string \<Rightarrow> environment option" where
  "environment_of = enum_of environment_value environment_members"

lemma environment_members_all [simp]: "x \<in> set environment_members"
  by (cases x) (simp_all add: environment_members_def)

interpretation environment_enum: str_enum environment_value environment_of environment_members
  unfolding environment_of_def
  by (rule enum_of_contract) (simp_all add: environment_members_def[symmetric], simp add: environment_members_def)

datatype ownership_method = DNS_TXT | HTTP_FILE | MANUAL_ATTESTATION | LAB_BUNDLED

fun ownership_method_value :: "ownership_method \<Rightarrow> string" where
  "ownership_method_value DNS_TXT = ''dns_txt''"
| "ownership_method_value HTTP_FILE = ''http_file''"
| "ownership_method_value MANUAL_ATTESTATION = ''manual_attestation''"
| "ownership_method_value LAB_BUNDLED = ''lab_bundled''"

definition ownership_method_members :: "ownership_method list" where
  "ownership_method_members = [DNS_TXT, HTTP_FILE, MANUAL_ATTESTATION, LAB_BUNDLED]"

definition ownership_method_of :: "string \<Rightarrow> ownership_method option" where
  "ownership_method_of = enum_of ownership_method_value ownership_method_members"

lemma ownership_method_members_all [simp]: "x \<in> set ownership_method_members"
  by (cases x) (simp_all add: ownership_method_members_def)

interpretation ownership_method_enum: str_enum ownership_method_value ownership_method_of ownership_method_members
  unfolding ownership_method_of_def
  by (rule enum_of_contract) (simp_all add: ownership_method_members_def[symmetric], simp add: ownership_method_members_def)

datatype verification_status = VS_PENDING | VS_VERIFIED | VS_FAILED | VS_REVOKED

fun verification_status_value :: "verification_status \<Rightarrow> string" where
  "verification_status_value VS_PENDING = ''pending''"
| "verification_status_value VS_VERIFIED = ''verified''"
| "verification_status_value VS_FAILED = ''failed''"
| "verification_status_value VS_REVOKED = ''revoked''"

definition verification_status_members :: "verification_status list" where
  "verification_status_members = [VS_PENDING, VS_VERIFIED, VS_FAILED, VS_REVOKED]"

definition verification_status_of :: "string \<Rightarrow> verification_status option" where
  "verification_status_of = enum_of verification_status_value verification_status_members"

lemma verification_status_members_all [simp]: "x \<in> set verification_status_members"
  by (cases x) (simp_all add: verification_status_members_def)

interpretation verification_status_enum: str_enum verification_status_value verification_status_of verification_status_members
  unfolding verification_status_of_def
  by (rule enum_of_contract) (simp_all add: verification_status_members_def[symmetric], simp add: verification_status_members_def)

datatype test_intensity = PASSIVE | SAFE_ACTIVE | INVASIVE

fun test_intensity_value :: "test_intensity \<Rightarrow> string" where
  "test_intensity_value PASSIVE = ''passive''"
| "test_intensity_value SAFE_ACTIVE = ''safe_active''"
| "test_intensity_value INVASIVE = ''invasive''"

definition test_intensity_members :: "test_intensity list" where
  "test_intensity_members = [PASSIVE, SAFE_ACTIVE, INVASIVE]"

definition test_intensity_of :: "string \<Rightarrow> test_intensity option" where
  "test_intensity_of = enum_of test_intensity_value test_intensity_members"

lemma test_intensity_members_all [simp]: "x \<in> set test_intensity_members"
  by (cases x) (simp_all add: test_intensity_members_def)

interpretation test_intensity_enum: str_enum test_intensity_value test_intensity_of test_intensity_members
  unfolding test_intensity_of_def
  by (rule enum_of_contract) (simp_all add: test_intensity_members_def[symmetric], simp add: test_intensity_members_def)

datatype assessment_state = CREATED | AUTHORIZED | DISCOVERING | PLANNING | POLICY_CHECK | EXECUTING | VALIDATING | SCORING | REPORTING | COMPLETED | FAILED | CANCELLED

fun assessment_state_value :: "assessment_state \<Rightarrow> string" where
  "assessment_state_value CREATED = ''created''"
| "assessment_state_value AUTHORIZED = ''authorized''"
| "assessment_state_value DISCOVERING = ''discovering''"
| "assessment_state_value PLANNING = ''planning''"
| "assessment_state_value POLICY_CHECK = ''policy_check''"
| "assessment_state_value EXECUTING = ''executing''"
| "assessment_state_value VALIDATING = ''validating''"
| "assessment_state_value SCORING = ''scoring''"
| "assessment_state_value REPORTING = ''reporting''"
| "assessment_state_value COMPLETED = ''completed''"
| "assessment_state_value FAILED = ''failed''"
| "assessment_state_value CANCELLED = ''cancelled''"

definition assessment_state_members :: "assessment_state list" where
  "assessment_state_members = [CREATED, AUTHORIZED, DISCOVERING, PLANNING, POLICY_CHECK, EXECUTING, VALIDATING, SCORING, REPORTING, COMPLETED, FAILED, CANCELLED]"

definition assessment_state_of :: "string \<Rightarrow> assessment_state option" where
  "assessment_state_of = enum_of assessment_state_value assessment_state_members"

lemma assessment_state_members_all [simp]: "x \<in> set assessment_state_members"
  by (cases x) (simp_all add: assessment_state_members_def)

interpretation assessment_state_enum: str_enum assessment_state_value assessment_state_of assessment_state_members
  unfolding assessment_state_of_def
  by (rule enum_of_contract) (simp_all add: assessment_state_members_def[symmetric], simp add: assessment_state_members_def)

datatype job_state = JOB_PENDING | JOB_RUNNING | JOB_SUCCEEDED | JOB_FAILED | JOB_CANCELLED

fun job_state_value :: "job_state \<Rightarrow> string" where
  "job_state_value JOB_PENDING = ''pending''"
| "job_state_value JOB_RUNNING = ''running''"
| "job_state_value JOB_SUCCEEDED = ''succeeded''"
| "job_state_value JOB_FAILED = ''failed''"
| "job_state_value JOB_CANCELLED = ''cancelled''"

definition job_state_members :: "job_state list" where
  "job_state_members = [JOB_PENDING, JOB_RUNNING, JOB_SUCCEEDED, JOB_FAILED, JOB_CANCELLED]"

definition job_state_of :: "string \<Rightarrow> job_state option" where
  "job_state_of = enum_of job_state_value job_state_members"

lemma job_state_members_all [simp]: "x \<in> set job_state_members"
  by (cases x) (simp_all add: job_state_members_def)

interpretation job_state_enum: str_enum job_state_value job_state_of job_state_members
  unfolding job_state_of_def
  by (rule enum_of_contract) (simp_all add: job_state_members_def[symmetric], simp add: job_state_members_def)

datatype severity = SEV_INFO | SEV_LOW | SEV_MEDIUM | SEV_HIGH | SEV_CRITICAL

fun severity_value :: "severity \<Rightarrow> string" where
  "severity_value SEV_INFO = ''info''"
| "severity_value SEV_LOW = ''low''"
| "severity_value SEV_MEDIUM = ''medium''"
| "severity_value SEV_HIGH = ''high''"
| "severity_value SEV_CRITICAL = ''critical''"

definition severity_members :: "severity list" where
  "severity_members = [SEV_INFO, SEV_LOW, SEV_MEDIUM, SEV_HIGH, SEV_CRITICAL]"

definition severity_of :: "string \<Rightarrow> severity option" where
  "severity_of = enum_of severity_value severity_members"

lemma severity_members_all [simp]: "x \<in> set severity_members"
  by (cases x) (simp_all add: severity_members_def)

interpretation severity_enum: str_enum severity_value severity_of severity_members
  unfolding severity_of_def
  by (rule enum_of_contract) (simp_all add: severity_members_def[symmetric], simp add: severity_members_def)

datatype finding_status = SUSPECTED | CONFIRMED | INCONCLUSIVE | REJECTED | FIXED | REGRESSED

fun finding_status_value :: "finding_status \<Rightarrow> string" where
  "finding_status_value SUSPECTED = ''suspected''"
| "finding_status_value CONFIRMED = ''confirmed''"
| "finding_status_value INCONCLUSIVE = ''inconclusive''"
| "finding_status_value REJECTED = ''rejected''"
| "finding_status_value FIXED = ''fixed''"
| "finding_status_value REGRESSED = ''regressed''"

definition finding_status_members :: "finding_status list" where
  "finding_status_members = [SUSPECTED, CONFIRMED, INCONCLUSIVE, REJECTED, FIXED, REGRESSED]"

definition finding_status_of :: "string \<Rightarrow> finding_status option" where
  "finding_status_of = enum_of finding_status_value finding_status_members"

lemma finding_status_members_all [simp]: "x \<in> set finding_status_members"
  by (cases x) (simp_all add: finding_status_members_def)

interpretation finding_status_enum: str_enum finding_status_value finding_status_of finding_status_members
  unfolding finding_status_of_def
  by (rule enum_of_contract) (simp_all add: finding_status_members_def[symmetric], simp add: finding_status_members_def)

datatype confidence = CONF_LOW | CONF_MEDIUM | CONF_HIGH | CONF_CERTAIN

fun confidence_value :: "confidence \<Rightarrow> string" where
  "confidence_value CONF_LOW = ''low''"
| "confidence_value CONF_MEDIUM = ''medium''"
| "confidence_value CONF_HIGH = ''high''"
| "confidence_value CONF_CERTAIN = ''certain''"

definition confidence_members :: "confidence list" where
  "confidence_members = [CONF_LOW, CONF_MEDIUM, CONF_HIGH, CONF_CERTAIN]"

definition confidence_of :: "string \<Rightarrow> confidence option" where
  "confidence_of = enum_of confidence_value confidence_members"

lemma confidence_members_all [simp]: "x \<in> set confidence_members"
  by (cases x) (simp_all add: confidence_members_def)

interpretation confidence_enum: str_enum confidence_value confidence_of confidence_members
  unfolding confidence_of_def
  by (rule enum_of_contract) (simp_all add: confidence_members_def[symmetric], simp add: confidence_members_def)

datatype provenance = OPENAPI | HAR | POSTMAN | GRAPHQL | CRAWL | TRAFFIC | MANUAL

fun provenance_value :: "provenance \<Rightarrow> string" where
  "provenance_value OPENAPI = ''openapi''"
| "provenance_value HAR = ''har''"
| "provenance_value POSTMAN = ''postman''"
| "provenance_value GRAPHQL = ''graphql''"
| "provenance_value CRAWL = ''crawl''"
| "provenance_value TRAFFIC = ''traffic''"
| "provenance_value MANUAL = ''manual''"

definition provenance_members :: "provenance list" where
  "provenance_members = [OPENAPI, HAR, POSTMAN, GRAPHQL, CRAWL, TRAFFIC, MANUAL]"

definition provenance_of :: "string \<Rightarrow> provenance option" where
  "provenance_of = enum_of provenance_value provenance_members"

lemma provenance_members_all [simp]: "x \<in> set provenance_members"
  by (cases x) (simp_all add: provenance_members_def)

interpretation provenance_enum: str_enum provenance_value provenance_of provenance_members
  unfolding provenance_of_def
  by (rule enum_of_contract) (simp_all add: provenance_members_def[symmetric], simp add: provenance_members_def)

datatype check_class = SQLI | XSS | BOLA | AUTHZ | SECURITY_HEADERS | INFO_DISCLOSURE | OPEN_REDIRECT | BUSINESS_LOGIC | BUSINESS_FLOW | LLM_PROMPT_INJECTION

fun check_class_value :: "check_class \<Rightarrow> string" where
  "check_class_value SQLI = ''sqli''"
| "check_class_value XSS = ''xss''"
| "check_class_value BOLA = ''bola''"
| "check_class_value AUTHZ = ''authz''"
| "check_class_value SECURITY_HEADERS = ''security_headers''"
| "check_class_value INFO_DISCLOSURE = ''info_disclosure''"
| "check_class_value OPEN_REDIRECT = ''open_redirect''"
| "check_class_value BUSINESS_LOGIC = ''business_logic''"
| "check_class_value BUSINESS_FLOW = ''business_flow''"
| "check_class_value LLM_PROMPT_INJECTION = ''llm_prompt_injection''"

definition check_class_members :: "check_class list" where
  "check_class_members = [SQLI, XSS, BOLA, AUTHZ, SECURITY_HEADERS, INFO_DISCLOSURE, OPEN_REDIRECT, BUSINESS_LOGIC, BUSINESS_FLOW, LLM_PROMPT_INJECTION]"

definition check_class_of :: "string \<Rightarrow> check_class option" where
  "check_class_of = enum_of check_class_value check_class_members"

lemma check_class_members_all [simp]: "x \<in> set check_class_members"
  by (cases x) (simp_all add: check_class_members_def)

interpretation check_class_enum: str_enum check_class_value check_class_of check_class_members
  unfolding check_class_of_def
  by (rule enum_of_contract) (simp_all add: check_class_members_def[symmetric], simp add: check_class_members_def)

definition TERMINAL_STATES :: "assessment_state list" where
  "TERMINAL_STATES = [COMPLETED, FAILED, CANCELLED]"

text \<open>\<open>ROLE_RANK\<close> (core/auth.py) and the order it induces.\<close>

fun ROLE_RANK :: "role \<Rightarrow> nat" where
  "ROLE_RANK VIEWER = 0"
| "ROLE_RANK OPERATOR = 1"
| "ROLE_RANK ADMIN = 2"
| "ROLE_RANK OWNER = 3"

text \<open>\<open>_INTENSITY_RANK\<close> (security/scope.py and services/planning.py).\<close>

fun INTENSITY_RANK :: "test_intensity \<Rightarrow> nat" where
  "INTENSITY_RANK PASSIVE = 0"
| "INTENSITY_RANK SAFE_ACTIVE = 1"
| "INTENSITY_RANK INVASIVE = 2"

text \<open>\<open>_sev_rank\<close> (checks/headers.py): the index in the list of severities.\<close>

fun sev_rank :: "severity \<Rightarrow> nat" where
  "sev_rank SEV_INFO = 0"
| "sev_rank SEV_LOW = 1"
| "sev_rank SEV_MEDIUM = 2"
| "sev_rank SEV_HIGH = 3"
| "sev_rank SEV_CRITICAL = 4"

lemma ROLE_RANK_inj: "ROLE_RANK a = ROLE_RANK b \<longleftrightarrow> a = b"
  by (cases a; cases b) simp_all

lemma INTENSITY_RANK_inj: "INTENSITY_RANK a = INTENSITY_RANK b \<longleftrightarrow> a = b"
  by (cases a; cases b) simp_all

lemma sev_rank_inj: "sev_rank a = sev_rank b \<longleftrightarrow> a = b"
  by (cases a; cases b) simp_all

instantiation role :: linorder
begin
definition less_eq_role :: "role \<Rightarrow> role \<Rightarrow> bool" where
  "less_eq_role a b \<longleftrightarrow> ROLE_RANK a \<le> ROLE_RANK b"
definition less_role :: "role \<Rightarrow> role \<Rightarrow> bool" where
  "less_role a b \<longleftrightarrow> ROLE_RANK a < ROLE_RANK b"
instance
  by standard (auto simp: less_eq_role_def less_role_def ROLE_RANK_inj)
end

instantiation test_intensity :: linorder
begin
definition less_eq_test_intensity :: "test_intensity \<Rightarrow> test_intensity \<Rightarrow> bool" where
  "less_eq_test_intensity a b \<longleftrightarrow> INTENSITY_RANK a \<le> INTENSITY_RANK b"
definition less_test_intensity :: "test_intensity \<Rightarrow> test_intensity \<Rightarrow> bool" where
  "less_test_intensity a b \<longleftrightarrow> INTENSITY_RANK a < INTENSITY_RANK b"
instance
  by standard (auto simp: less_eq_test_intensity_def less_test_intensity_def INTENSITY_RANK_inj)
end

instantiation severity :: linorder
begin
definition less_eq_severity :: "severity \<Rightarrow> severity \<Rightarrow> bool" where
  "less_eq_severity a b \<longleftrightarrow> sev_rank a \<le> sev_rank b"
definition less_severity :: "severity \<Rightarrow> severity \<Rightarrow> bool" where
  "less_severity a b \<longleftrightarrow> sev_rank a < sev_rank b"
instance
  by standard (auto simp: less_eq_severity_def less_severity_def sev_rank_inj)
end

text \<open>
  The two coercions with a safe default: an unknown environment is production, an unknown
  intensity is passive (security/scope.py, also security/sandbox.py and orchestration/engine.py).
\<close>

definition coerce_env :: "string \<Rightarrow> environment" where
  "coerce_env v = (case environment_of v of Some e \<Rightarrow> e | None \<Rightarrow> PRODUCTION)"

definition coerce_intensity :: "string \<Rightarrow> test_intensity" where
  "coerce_intensity v = (case test_intensity_of v of Some i \<Rightarrow> i | None \<Rightarrow> PASSIVE)"

lemma coerce_env_value [simp]: "coerce_env (environment_value e) = e"
  by (simp add: coerce_env_def environment_enum.of_value)

lemma coerce_intensity_value [simp]: "coerce_intensity (test_intensity_value i) = i"
  by (simp add: coerce_intensity_def test_intensity_enum.of_value)

lemma coerce_env_safe: "coerce_env v \<noteq> PRODUCTION \<Longrightarrow> v = environment_value (coerce_env v)"
  by (auto simp: coerce_env_def split: option.splits dest: environment_enum.value_of)

lemma coerce_intensity_safe: "coerce_intensity v \<noteq> PASSIVE \<Longrightarrow> v = test_intensity_value (coerce_intensity v)"
  by (auto simp: coerce_intensity_def split: option.splits dest: test_intensity_enum.value_of)

end
