(* ===== verification/Netguard.thy ===== *)
theory Netguard
  imports Enums
begin

unbundle bit_operations_syntax

text \<open>
  \<open>app/security/netguard.py\<close>: URL splitting, IP literals and their classification, name
  resolution and the hard-blocked metadata endpoints. \<open>urlsplit\<close> and \<open>ipaddress\<close> are the
  language's library (CPython 3.11, the version of the Docker image) and are written out;
  name resolution is the environment's, a parameter \<open>dns\<close> of every operation that resolves.
\<close>

section \<open>urllib.parse.urlsplit\<close>

record split_url =
  u_scheme :: string
  u_netloc :: string
  u_path :: string
  u_query :: string
  u_fragment :: string

definition scheme_char :: "char \<Rightarrow> bool" where
  "scheme_char c \<longleftrightarrow> is_alpha c \<or> is_digit c \<or> c \<in> set ''+-.''"

definition c0_or_space :: "char \<Rightarrow> bool" where
  "c0_or_space c \<longleftrightarrow> ord c \<le> 32"

definition unsafe_url_byte :: "char \<Rightarrow> bool" where
  "unsafe_url_byte c \<longleftrightarrow> ord c = 9 \<or> ord c = 10 \<or> ord c = 13"

text \<open>\<open>s.split(c, 1)\<close> where the separator may be missing: the part before it and after it.\<close>

definition cut_at :: "char \<Rightarrow> string \<Rightarrow> string \<times> string" where
  "cut_at c s = (let (a, f, b) = partition_char c s in (a, b))"

definition split_scheme :: "string \<Rightarrow> string \<times> string" where
  "split_scheme url =
     (let (pre, found, rest) = partition_char (CHR '':'') url
      in if found \<and> pre \<noteq> [] \<and> is_alpha (hd pre) \<and> list_all scheme_char pre
         then (str_lower pre, rest) else ([], url))"

definition split_netloc :: "string \<Rightarrow> string \<times> string" where
  "split_netloc url = (takeWhile (\<lambda>c. c \<notin> set ''/?#'') url, dropWhile (\<lambda>c. c \<notin> set ''/?#'') url)"

definition hex_char :: "char \<Rightarrow> bool" where
  "hex_char c \<longleftrightarrow> is_digit c \<or> lower_char c \<in> set ''abcdef''"

section \<open>ipaddress.ip_address\<close>

datatype ip_addr = IPv4 "32 word" | IPv6 "128 word"

definition parse_octet :: "string \<Rightarrow> int option" where
  "parse_octet s =
     (if s = [] \<or> \<not> list_all is_digit s \<or> length s > 3 then None
      else if s \<noteq> ''0'' \<and> hd s = CHR ''0'' then None
      else let n = digits_val s in if n > 255 then None else Some n)"

fun mapM_opt :: "('a \<Rightarrow> 'b option) \<Rightarrow> 'a list \<Rightarrow> 'b list option" where
  "mapM_opt f [] = Some []"
| "mapM_opt f (x # xs) =
     (case f x of None \<Rightarrow> None
      | Some y \<Rightarrow> (case mapM_opt f xs of None \<Rightarrow> None | Some ys \<Rightarrow> Some (y # ys)))"

definition parse_ipv4 :: "string \<Rightarrow> 32 word option" where
  "parse_ipv4 s =
     (let os = split_char (CHR ''.'') s
      in if length os \<noteq> 4 then None
         else (case mapM_opt parse_octet os of None \<Rightarrow> None
               | Some ns \<Rightarrow> Some (foldl (\<lambda>a n. push_bit 8 a OR of_int n) 0 ns)))"

definition hex_val :: "char \<Rightarrow> int" where
  "hex_val c = (if is_digit c then ord c - 48 else ord (lower_char c) - 87)"

definition parse_hextet :: "string \<Rightarrow> int option" where
  "parse_hextet s =
     (if s = [] \<or> \<not> list_all hex_char s \<or> length s > 4 then None
      else Some (foldl (\<lambda>n c. 16 * n + hex_val c) 0 s))"

text \<open>An IPv4 suffix counts as two hextets; the two are kept as numbers.\<close>

definition v6_tail :: "string list \<Rightarrow> (string list \<times> int list) option" where
  "v6_tail parts =
     (if CHR ''.'' \<in> set (last parts)
      then (case parse_ipv4 (last parts) of None \<Rightarrow> None
            | Some w \<Rightarrow> Some (butlast parts, [uint (drop_bit 16 w), uint (w AND 0xFFFF)]))
      else Some (parts, []))"

definition empty_inner :: "string list \<Rightarrow> nat \<Rightarrow> nat list" where
  "empty_inner parts n = filter (\<lambda>i. i < length parts \<and> parts ! i = []) [1..<n - 1]"

definition hextets_word :: "int list \<Rightarrow> 128 word" where
  "hextets_word ns = foldl (\<lambda>a n. push_bit 16 a OR of_int n) 0 ns"

definition parse_ipv6_parts :: "string list \<Rightarrow> int list \<Rightarrow> 128 word option" where
  "parse_ipv6_parts parts tail =
     (let n = length parts + length tail
      in if n > 9 then None
      else (case empty_inner parts n of
        [] \<Rightarrow>
          (if n \<noteq> 8 then None
           else (case mapM_opt parse_hextet parts of None \<Rightarrow> None
                 | Some ns \<Rightarrow> Some (hextets_word (ns @ tail))))
      | [k] \<Rightarrow>
          (let hi = (if hd parts = [] then k - 1 else k);
               last_empty = (tail = [] \<and> last parts = []);
               lo = (if last_empty then n - k - 2 else n - k - 1)
           in if hd parts = [] \<and> hi \<noteq> 0 then None
              else if last_empty \<and> lo \<noteq> 0 then None
              else if hi + lo > 7 then None
              else (case (mapM_opt parse_hextet (take hi parts),
                          mapM_opt parse_hextet (drop (n - lo) parts)) of
                      (Some a, Some b) \<Rightarrow>
                        Some (hextets_word (a @ replicate (8 - (hi + lo)) 0 @ b @ tail))
                    | _ \<Rightarrow> None))
      | _ \<Rightarrow> None))"

definition parse_ipv6 :: "string \<Rightarrow> 128 word option" where
  "parse_ipv6 s =
     (let (addr, sep, scope) = partition_char (CHR ''%'') s
      in if CHR ''/'' \<in> set s \<or> (sep \<and> (scope = [] \<or> CHR ''%'' \<in> set scope)) then None
         else let parts = split_char (CHR '':'') addr
              in if length parts < 3 then None
                 else (case v6_tail parts of None \<Rightarrow> None
                       | Some (ps, tail) \<Rightarrow> parse_ipv6_parts ps tail))"

definition ip_address :: "string \<Rightarrow> ip_addr option" where
  "ip_address s =
     (case parse_ipv4 s of Some w \<Rightarrow> Some (IPv4 w)
      | None \<Rightarrow> (case parse_ipv6 s of Some w \<Rightarrow> Some (IPv6 w) | None \<Rightarrow> None))"

text \<open>Membership in a network given by its address and prefix length.\<close>

definition in_net4 :: "32 word \<Rightarrow> 32 word \<times> nat \<Rightarrow> bool" where
  "in_net4 w nt = (case nt of (a, p) \<Rightarrow> drop_bit (32 - p) w = drop_bit (32 - p) a)"

definition in_net6 :: "128 word \<Rightarrow> 128 word \<times> nat \<Rightarrow> bool" where
  "in_net6 w nt = (case nt of (a, p) \<Rightarrow> drop_bit (128 - p) w = drop_bit (128 - p) a)"

definition private4 :: "(32 word \<times> nat) list" where
  "private4 = [(0x00000000, 8), (0x0A000000, 8), (0x7F000000, 8), (0xA9FE0000, 16),
     (0xAC100000, 12), (0xC0000000, 24), (0xC00000AA, 31), (0xC0000200, 24), (0xC0A80000, 16),
     (0xC6120000, 15), (0xC6336400, 24), (0xCB007100, 24), (0xF0000000, 4), (0xFFFFFFFF, 32)]"

definition private4_except :: "(32 word \<times> nat) list" where
  "private4_except = [(0xC0000009, 32), (0xC000000A, 32)]"

definition private6 :: "(128 word \<times> nat) list" where
  "private6 = [(1, 128), (0, 128), (0xFFFF00000000, 96),
     (0x0064FF9B000100000000000000000000, 48), (0x01000000000000000000000000000000, 64),
     (0x20010000000000000000000000000000, 23), (0x20010DB8000000000000000000000000, 32),
     (0x20020000000000000000000000000000, 16), (0xFC000000000000000000000000000000, 7),
     (0xFE800000000000000000000000000000, 10)]"

definition private6_except :: "(128 word \<times> nat) list" where
  "private6_except = [(0x20010001000000000000000000000001, 128),
     (0x20010001000000000000000000000002, 128), (0x20010003000000000000000000000000, 32),
     (0x20010004011200000000000000000000, 48), (0x20010020000000000000000000000000, 28),
     (0x20010030000000000000000000000000, 28)]"

definition reserved6 :: "(128 word \<times> nat) list" where
  "reserved6 = [(0, 8), (0x01000000000000000000000000000000, 8),
     (0x02000000000000000000000000000000, 7), (0x04000000000000000000000000000000, 6),
     (0x08000000000000000000000000000000, 5), (0x10000000000000000000000000000000, 4),
     (0x40000000000000000000000000000000, 3), (0x60000000000000000000000000000000, 3),
     (0x80000000000000000000000000000000, 3), (0xA0000000000000000000000000000000, 3),
     (0xC0000000000000000000000000000000, 3), (0xE0000000000000000000000000000000, 4),
     (0xF0000000000000000000000000000000, 5), (0xF8000000000000000000000000000000, 6),
     (0xFE000000000000000000000000000000, 9)]"

definition ip4_is_private :: "32 word \<Rightarrow> bool" where
  "ip4_is_private w \<longleftrightarrow> list_ex (in_net4 w) private4 \<and> \<not> list_ex (in_net4 w) private4_except"

definition ipv4_mapped :: "128 word \<Rightarrow> 32 word option" where
  "ipv4_mapped w = (if drop_bit 32 w = 0xFFFF then Some (ucast w) else None)"

fun ip_is_private :: "ip_addr \<Rightarrow> bool" where
  "ip_is_private (IPv4 w) = ip4_is_private w"
| "ip_is_private (IPv6 w) =
     (case ipv4_mapped w of Some v \<Rightarrow> ip4_is_private v
      | None \<Rightarrow> list_ex (in_net6 w) private6 \<and> \<not> list_ex (in_net6 w) private6_except)"

fun ip_is_loopback :: "ip_addr \<Rightarrow> bool" where
  "ip_is_loopback (IPv4 w) = in_net4 w (0x7F000000, 8)"
| "ip_is_loopback (IPv6 w) = (w = 1)"

fun ip_is_link_local :: "ip_addr \<Rightarrow> bool" where
  "ip_is_link_local (IPv4 w) = in_net4 w (0xA9FE0000, 16)"
| "ip_is_link_local (IPv6 w) = in_net6 w (0xFE800000000000000000000000000000, 10)"

fun ip_is_reserved :: "ip_addr \<Rightarrow> bool" where
  "ip_is_reserved (IPv4 w) = in_net4 w (0xF0000000, 4)"
| "ip_is_reserved (IPv6 w) = list_ex (in_net6 w) reserved6"

section \<open>URL authority\<close>

definition ipvfuture :: "string \<Rightarrow> bool" where
  "ipvfuture s \<longleftrightarrow> (let (v, f, r) = partition_char (CHR ''.'') s
     in f \<and> r \<noteq> [] \<and> CHR ''\<newline>'' \<notin> set r \<and> v \<noteq> [] \<and> hd v = CHR ''v'' \<and> tl v \<noteq> [] \<and> list_all hex_char (tl v))"

definition bracketed_ok :: "string \<Rightarrow> bool" where
  "bracketed_ok h =
     (if starts_with h ''v'' then ipvfuture h
      else (case ip_address h of Some (IPv6 _) \<Rightarrow> True | _ \<Rightarrow> False))"

definition netloc_ok :: "string \<Rightarrow> bool" where
  "netloc_ok nl =
     (let l = CHR ''['' \<in> set nl; r = CHR '']'' \<in> set nl
      in l = r \<and> (l \<longrightarrow> bracketed_ok (fst (cut_at (CHR '']'') (snd (cut_at (CHR ''['') nl))))))"

definition urlsplit :: "string \<Rightarrow> exn + split_url" where
  "urlsplit raw =
     (let url0 = filter (\<lambda>c. \<not> unsafe_url_byte c) (dropWhile c0_or_space raw);
          (scheme, url1) = split_scheme url0;
          (netloc, url2) = (if starts_with url1 ''//'' then split_netloc (drop 2 url1) else ([], url1));
          (url3, frag) = cut_at (CHR ''#'') url2;
          (path, query) = cut_at (CHR ''?'') url3
      in if \<not> netloc_ok netloc then Inl (ValueError ''Invalid IPv6 URL'')
         else Inr \<lparr>u_scheme = scheme, u_netloc = netloc, u_path = path,
                    u_query = query, u_fragment = frag\<rparr>)"

definition hostinfo :: "string \<Rightarrow> string \<times> string" where
  "hostinfo netloc =
     (let (_, _, hi) = rpartition_char (CHR ''@'') netloc;
          (_, br, bracketed) = partition_char (CHR ''['') hi
      in if br then (let (h, _, p) = partition_char (CHR '']'') bracketed;
                         (_, _, p') = partition_char (CHR '':'') p in (h, p'))
         else (let (h, _, p) = partition_char (CHR '':'') hi in (h, p)))"

text \<open>The \<open>hostname\<close> property: lower case up to a zone id, empty for None.\<close>

definition url_hostname :: "split_url \<Rightarrow> string" where
  "url_hostname u =
     (let (h, f, z) = partition_char (CHR ''%'') (fst (hostinfo (u_netloc u)))
      in str_lower h @ (if f then CHR ''%'' # z else []))"

text \<open>The \<open>port\<close> property raises ValueError when the port is no number in 0..65535.\<close>

definition url_port :: "split_url \<Rightarrow> exn + int option" where
  "url_port u =
     (let p = snd (hostinfo (u_netloc u))
      in if p = [] then Inr None
         else if \<not> list_all is_digit p
           then Inl (ValueError (''Port could not be cast to integer value as '' @ py_repr p))
         else let n = digits_val p
              in if n > 65535 then Inl (ValueError ''Port out of range 0-65535'')
                 else Inr (Some n))"

section \<open>The module's own functions\<close>

definition HARD_BLOCK_IPS :: "string list" where
  "HARD_BLOCK_IPS = [''169.254.169.254'', ''100.100.100.100'', ''fd00:ec2::254'']"

definition HARD_BLOCK_HOSTS :: "string list" where
  "HARD_BLOCK_HOSTS = [''metadata.google.internal'', ''metadata'', ''instance-data'']"

record host_info =
  hi_scheme :: string
  hi_host :: string
  hi_port :: int
  resolved_ips :: "string list"
  is_loopback :: bool
  is_private :: bool
  is_hard_blocked :: bool

definition default_port_for_scheme :: "string \<Rightarrow> int" where
  "default_port_for_scheme s =
     (if str_lower s = ''http'' then 80 else if str_lower s = ''https'' then 443 else 0)"

type_synonym parsed_url = "string \<times> string \<times> int \<times> string"

definition parse_url :: "string \<Rightarrow> exn + parsed_url" where
  "parse_url url =
     (if url = [] \<or> \<not> contains_str url ''://''
      then Inl (NetGuardError (''malformed URL: '' @ py_repr url))
      else case urlsplit url of Inl e \<Rightarrow> Inl e
      | Inr parts \<Rightarrow>
        (let scheme = str_lower (u_scheme parts)
         in if scheme \<noteq> ''http'' \<and> scheme \<noteq> ''https''
            then Inl (NetGuardError (''unsupported scheme '' @ py_repr scheme @ '' (only http/https)''))
            else let host = url_hostname parts
                 in if host = [] then Inl (NetGuardError (''URL has no host: '' @ py_repr url))
                    else case url_port parts of Inl e \<Rightarrow> Inl e
                    | Inr p \<Rightarrow>
                      (let port = (case p of Some n \<Rightarrow> if n = 0 then default_port_for_scheme scheme else n
                                   | None \<Rightarrow> default_port_for_scheme scheme);
                           path = (if u_path parts = [] then ''/'' else u_path parts)
                       in Inr (scheme, str_lower host, port, path))))"

definition classify_ip :: "string \<Rightarrow> bool \<times> bool" where
  "classify_ip ip = (case ip_address ip of None \<Rightarrow> (False, False)
     | Some a \<Rightarrow> (ip_is_loopback a, ip_is_private a \<or> ip_is_link_local a \<or> ip_is_reserved a))"

text \<open>
  What \<open>socket.getaddrinfo\<close> answers for a host and a port at one moment: the addresses, or
  None when it raises gaierror (the message is the resolver's).
\<close>

type_synonym dns = "string \<Rightarrow> int \<Rightarrow> string list option"

definition classify_all :: "string \<Rightarrow> int \<Rightarrow> string list \<Rightarrow> host_info" where
  "classify_all host port ips =
     \<lparr>hi_scheme = ''http'', hi_host = host, hi_port = port, resolved_ips = ips,
      is_loopback = list_ex (\<lambda>ip. fst (classify_ip ip)) ips,
      is_private = list_ex (\<lambda>ip. snd (classify_ip ip)) ips,
      is_hard_blocked = (host \<in> set HARD_BLOCK_HOSTS \<or> list_ex (\<lambda>ip. ip \<in> set HARD_BLOCK_IPS) ips)\<rparr>"

definition resolve_host :: "dns \<Rightarrow> string \<Rightarrow> int \<Rightarrow> bool \<Rightarrow> exn + host_info" where
  "resolve_host dns host port allow_dns =
     (if ip_address host \<noteq> None then Inr (classify_all host port [host])
      else if allow_dns then
        (case dns host port of
           None \<Rightarrow> Inl (NetGuardError (''cannot resolve host '' @ py_repr host))
         | Some infos \<Rightarrow> Inr (classify_all host port (sorted_set infos)))
      else Inr (classify_all host port []))"

definition assert_not_hard_blocked :: "host_info \<Rightarrow> exn + unit" where
  "assert_not_hard_blocked info =
     (if is_hard_blocked info
      then Inl (NetGuardError (''destination '' @ hi_host info @
             '' resolves to a hard-blocked metadata/link-local endpoint''))
      else Inr ())"

section \<open>Lemmas\<close>

lemma set_partition:
  "partition_char c s = (a, f, b) \<Longrightarrow> set a \<subseteq> set s \<and> set b \<subseteq> set s \<and> c \<notin> set a"
  by (cases f) (auto dest: partition_char_found partition_char_missing)

lemma set_rpartition:
  assumes "rpartition_char c s = (a, f, b)"
  shows "set b \<subseteq> set s \<and> c \<notin> set b"
proof -
  obtain a' f' b' where p: "partition_char c (rev s) = (a', f', b')"
    by (cases "partition_char c (rev s)") auto
  from set_partition [OF p] p assms show ?thesis
    by (cases f') (auto simp: rpartition_char_def dest: partition_char_missing)
qed

lemma hostinfo_chars:
  "set (fst (hostinfo nl)) \<subseteq> set nl - {CHR ''@''}"
proof -
  obtain a f hi where r: "rpartition_char (CHR ''@'') nl = (a, f, hi)"
    by (cases "rpartition_char (CHR ''@'') nl") auto
  obtain b br bra where q: "partition_char (CHR ''['') hi = (b, br, bra)"
    by (cases "partition_char (CHR ''['') hi") auto
  have "set (fst (hostinfo nl)) \<subseteq> set hi"
    using set_partition [OF q] r q
    by (auto simp: hostinfo_def Let_def split: prod.splits if_splits dest!: set_partition)
  then show ?thesis using set_rpartition [OF r] by blast
qed

lemma hostinfo_Nil [simp]: "hostinfo [] = ([], [])"
  by (simp add: hostinfo_def rpartition_char_def)

lemma lower_char_not_upper: "is_upper_ascii c \<Longrightarrow> is_lower_ascii (lower_char c)"
  by (auto simp: lower_char_def is_upper_ascii_def is_lower_ascii_def Let_def ord_chr)

lemma lower_char_sep: "\<not> is_lower_ascii d \<Longrightarrow> lower_char c = d \<Longrightarrow> c = d"
  by (metis lower_char_def lower_char_not_upper)

lemma str_lower_sep:
  assumes "\<not> is_lower_ascii d" "d \<in> set (str_lower s)"
  shows "d \<in> set s"
proof -
  from assms(2) obtain c where "c \<in> set s" "lower_char c = d"
    unfolding str_lower_def set_map by (elim imageE) simp
  with lower_char_sep [OF assms(1)] show ?thesis by metis
qed

lemma url_hostname_chars:
  assumes "\<not> is_lower_ascii d" "d \<noteq> CHR ''%''" "d \<in> set (url_hostname u)"
  shows "d \<in> set (u_netloc u) - {CHR ''@''}"
proof -
  obtain h f z where p: "partition_char (CHR ''%'') (fst (hostinfo (u_netloc u))) = (h, f, z)"
    by (cases "partition_char (CHR ''%'') (fst (hostinfo (u_netloc u)))") auto
  have "d \<in> set (str_lower h) \<union> set z"
    using assms(2,3) unfolding url_hostname_def p Let_def prod.case by (auto split: if_splits)
  with set_partition [OF p] hostinfo_chars [of "u_netloc u"] str_lower_sep [OF assms(1)]
  show ?thesis by blast
qed

lemma cut_at_hd: "cut_at c s = (a, b) \<Longrightarrow> a \<noteq> [] \<Longrightarrow> s \<noteq> [] \<and> hd a = hd s \<and> hd s \<noteq> c"
  by (cases s) (auto simp: cut_at_def Let_def split: prod.splits if_splits)

text \<open>The parts of a split URL, named: what its authority and path are taken from.\<close>

lemma urlsplit_parts:
  assumes "urlsplit raw = Inr u"
  obtains t where "u_netloc u = [] \<or> (u_netloc u = fst (split_netloc t) \<and>
      u_path u = fst (cut_at (CHR ''?'') (fst (cut_at (CHR ''#'') (snd (split_netloc t))))))"
proof -
  define url where "url = filter (\<lambda>c. \<not> unsafe_url_byte c) (dropWhile c0_or_space raw)"
  obtain scheme url1 where s: "split_scheme url = (scheme, url1)" by fastforce
  obtain netloc url2 where n:
    "(if starts_with url1 ''//'' then split_netloc (drop 2 url1) else ([], url1)) = (netloc, url2)"
    by fastforce
  obtain url3 frag where f: "cut_at (CHR ''#'') url2 = (url3, frag)" by fastforce
  obtain path query where q: "cut_at (CHR ''?'') url3 = (path, query)" by fastforce
  have "u_netloc u = netloc" "u_path u = path"
    using assms unfolding urlsplit_def Let_def url_def [symmetric] s prod.case n f q
    by (simp_all split: if_splits) (metis split_url.select_convs)+
  moreover have "netloc = [] \<or> (netloc, url2) = split_netloc (drop 2 url1)"
    using n by (auto split: if_splits)
  ultimately show thesis
    by (intro that [of "drop 2 url1"]) (metis f fst_conv q snd_conv)
qed

lemma urlsplit_netloc:
  assumes "urlsplit raw = Inr u"
  shows "set (u_netloc u) \<inter> set ''/?#'' = {}"
proof -
  obtain t where "u_netloc u = [] \<or> u_netloc u = fst (split_netloc t)"
    using urlsplit_parts [OF assms] by metis
  moreover have "set (takeWhile (\<lambda>c. c \<notin> set ''/?#'') t) \<inter> set ''/?#'' = {}"
    using set_takeWhileD by fast
  ultimately show ?thesis by (auto simp: split_netloc_def)
qed

lemma split_netloc_snd: "snd (split_netloc t) = [] \<or> hd (snd (split_netloc t)) \<in> set ''/?#''"
  unfolding split_netloc_def snd_conv by (metis hd_dropWhile)

lemma urlsplit_path:
  assumes "urlsplit raw = Inr u" "u_netloc u \<noteq> []"
  shows "u_path u = [] \<or> hd (u_path u) = CHR ''/''"
proof -
  obtain t where t: "u_path u = fst (cut_at (CHR ''?'') (fst (cut_at (CHR ''#'') (snd (split_netloc t)))))"
    using urlsplit_parts [OF assms(1)] assms(2) by metis
  let ?s = "snd (split_netloc t)"
  let ?a = "fst (cut_at (CHR ''#'') ?s)"
  show ?thesis
  proof (cases "u_path u = []")
    case False
    with t have p: "?a \<noteq> [] \<and> hd (u_path u) = hd ?a \<and> hd ?a \<noteq> CHR ''?''"
      by (metis cut_at_hd surjective_pairing)
    then have "?s \<noteq> [] \<and> hd ?a = hd ?s \<and> hd ?s \<noteq> CHR ''#''"
      by (metis cut_at_hd surjective_pairing)
    with p split_netloc_snd [of t] show ?thesis by simp
  qed simp
qed

lemma digits_val_nonneg: "list_all is_digit s \<Longrightarrow> 0 \<le> digits_val s"
proof -
  have "0 \<le> n \<Longrightarrow> list_all is_digit s \<Longrightarrow> 0 \<le> foldl (\<lambda>n c. 10 * n + (ord c - 48)) n s" for n
    by (induction s arbitrary: n) (auto simp: is_digit_def Let_def)
  then show "list_all is_digit s \<Longrightarrow> 0 \<le> digits_val s" by (simp add: digits_val_def)
qed

lemma url_port_bounds: "url_port u = Inr (Some n) \<Longrightarrow> 0 \<le> n \<and> n \<le> 65535"
  by (auto simp: url_port_def Let_def digits_val_nonneg split: if_splits)

lemma parse_url_cases:
  assumes "parse_url url = Inr (scheme, host, port, path)"
  obtains u p where "urlsplit url = Inr u" "scheme = ''http'' \<or> scheme = ''https''"
    "url_hostname u \<noteq> []" "host = str_lower (url_hostname u)" "url_port u = Inr p"
    "port = (case p of Some n \<Rightarrow> if n = 0 then default_port_for_scheme scheme else n
             | None \<Rightarrow> default_port_for_scheme scheme)"
    "path = (if u_path u = [] then ''/'' else u_path u)"
  using assms unfolding parse_url_def Let_def by (auto split: if_splits sum.splits)

lemma str_lower_http [simp]: "str_lower ''http'' = ''http''" "str_lower ''https'' = ''https''"
  by code_simp+

text \<open>
  What parsing a URL yields. The scheme is http or https; the host is a nonempty lower-case
  name without any of the separators of a URL and without the userinfo's at-sign, so a userinfo
  prefix never becomes the host the scope is checked for; the port is between 1 and 65535; the
  path starts with a slash.
\<close>

theorem parse_url_shape:
  assumes "parse_url url = Inr (scheme, host, port, path)"
  shows "(scheme = ''http'' \<or> scheme = ''https'') \<and> host \<noteq> [] \<and> str_lower host = host \<and>
     set host \<inter> set ''/?#@'' = {} \<and> 1 \<le> port \<and> port \<le> 65535 \<and> hd path = CHR ''/'' \<and> path \<noteq> []"
  using assms
proof (rule parse_url_cases)
  fix u p
  assume u: "urlsplit url = Inr u" and sch: "scheme = ''http'' \<or> scheme = ''https''"
    and nonempty: "url_hostname u \<noteq> []" and host: "host = str_lower (url_hostname u)"
    and p: "url_port u = Inr p"
    and port: "port = (case p of Some n \<Rightarrow> if n = 0 then default_port_for_scheme scheme else n
             | None \<Rightarrow> default_port_for_scheme scheme)"
    and path: "path = (if u_path u = [] then ''/'' else u_path u)"
  have nl: "u_netloc u \<noteq> []"
    using nonempty by (auto simp: url_hostname_def)
  have def_port: "default_port_for_scheme scheme \<in> {80, 443}"
    using sch by (auto simp: default_port_for_scheme_def)
  have "1 \<le> port \<and> port \<le> 65535"
    using def_port url_port_bounds [of u] p unfolding port by (auto split: option.splits)
  moreover have "d \<notin> set host" if d: "d \<in> set ''/?#@''" for d
  proof
    assume "d \<in> set host"
    have sep: "\<forall>e \<in> set ''/?#@''. \<not> is_lower_ascii e \<and> e \<noteq> CHR ''%'' \<and> (e \<noteq> CHR ''@'' \<longrightarrow> e \<in> set ''/?#'')"
      by code_simp
    with d \<open>d \<in> set host\<close> have "d \<in> set (url_hostname u)"
      using str_lower_sep host by metis
    with sep d have "d \<in> set (u_netloc u) - {CHR ''@''}"
      using url_hostname_chars by metis
    with urlsplit_netloc [OF u] sep d show False by blast
  qed
  moreover have "hd path = CHR ''/'' \<and> path \<noteq> []"
    using urlsplit_path [OF u nl] path by auto
  ultimately show ?thesis
    using sch nonempty host by auto
qed

theorem parse_url_shape_witness:
  "parse_url ''HTTP://user:pw@Evil.Test:8443/a?b#c'' = Inr (''http'', ''evil.test'', 8443, ''/a'') \<and>
   set ''evil.test'' \<inter> set ''/?#@'' = {}"
proof -
  have "parse_url ''HTTP://user:pw@Evil.Test:8443/a?b#c'' = Inr (''http'', ''evil.test'', 8443, ''/a'')"
    by code_simp
  then show ?thesis using parse_url_shape by blast
qed

end
