(* ===== verification/Models.thy ===== *)
theory Models
  imports Enums
begin

text \<open>
  The rows of \<open>app/models/models.py\<close> as records, one field per column in the order of the
  class, each prefixed with the row's abbreviation. JSON columns that hold lists of strings are
  string lists, other JSON objects are \<open>dict\<close>. The mixin's creation and update times, which
  no modelled operation reads, are left out.
\<close>

text \<open>
  A timestamp: microseconds of its clock reading, whether it lacks a zone, and its ISO form.
\<close>

record datetime =
  dt_us :: int
  dt_naive :: bool
  dt_iso :: string

record organization =
  org_id :: string
  org_name :: string
  org_slug :: string
  org_settings :: dict

record user =
  us_id :: string
  us_org_id :: string
  us_email :: string
  us_password_hash :: string
  us_role :: string
  us_is_active :: bool

record api_key =
  key_id :: string
  key_org_id :: string
  key_user_id :: string
  key_name :: string
  key_prefix :: string
  key_secret_hash :: string
  key_role :: string
  key_revoked :: bool

record target =
  tg_id :: string
  tg_org_id :: string
  tg_name :: string
  tg_base_url :: string
  tg_environment :: string
  tg_description :: string

record ownership_verification =
  ov_id :: string
  ov_org_id :: string
  ov_target_id :: string
  ov_method :: string
  ov_token :: string
  ov_host :: string
  ov_status :: string
  ov_detail :: string

record authorization_record =
  az_id :: string
  az_org_id :: string
  az_target_id :: string
  az_status :: string
  az_environment :: string
  az_intensity :: string
  az_allowed_hosts :: "string list"
  az_allowed_ports :: "int list"
  az_allowed_methods :: "string list"
  az_allowed_check_classes :: "string list"
  az_path_allowlist :: "string list"
  az_path_denylist :: "string list"
  az_max_requests :: int
  az_rate_limit_per_sec :: rat
  az_max_duration_seconds :: int
  az_window_start :: "datetime option"
  az_window_end :: "datetime option"
  az_allow_state_changing :: bool
  az_ownership_verification_id :: "string option"
  az_authorized_by :: string
  az_signature :: string
  az_notes :: string

record test_account =
  ta_id :: string
  ta_org_id :: string
  ta_target_id :: string
  ta_label :: string
  ta_role_name :: string
  ta_auth_type :: string
  ta_username :: string
  ta_secret_enc :: string
  ta_login_config :: dict
  ta_owns_object_ids :: "jv list"
  ta_secret_rotated_at :: "datetime option"
  ta_secret_ttl_days :: int

record assessment =
  a_id :: string
  a_org_id :: string
  a_target_id :: string
  a_authorization_id :: string
  a_state :: string
  a_previous_assessment_id :: "string option"
  a_is_retest :: bool
  a_incremental :: bool
  a_requested_check_classes :: "string list"
  a_requests_made :: int
  a_started_at :: "datetime option"
  a_finished_at :: "datetime option"
  a_cancel_requested :: bool
  a_error :: string
  a_summary :: dict
  a_completion_reason :: string
  a_skill_snapshot :: "dict list"

record discovery_artifact =
  art_id :: string
  art_org_id :: string
  art_assessment_id :: string
  art_kind :: string
  art_filename :: string
  art_content :: string
  art_endpoint_url :: string
  art_parsed :: bool
  art_warnings :: "string list"

record endpoint =
  ep_id :: string
  ep_org_id :: string
  ep_assessment_id :: string
  ep_method :: string
  ep_url :: string
  ep_path_template :: string
  ep_parameters :: "dict list"
  ep_request_body_schema :: dict
  ep_auth_required :: bool
  ep_roles :: "string list"
  ep_api_version :: string
  ep_provenance :: string
  ep_confidence :: rat
  ep_fingerprint :: string

record plan_step =
  ps_id :: string
  ps_org_id :: string
  ps_assessment_id :: string
  ps_endpoint_id :: "string option"
  ps_check_class :: string
  ps_check_name :: string
  ps_rationale :: string
  ps_priority :: int
  ps_intensity :: string
  ps_status :: string
  ps_policy_decision :: dict

record job =
  job_id :: string
  job_org_id :: string
  job_assessment_id :: string
  job_plan_step_id :: string
  job_idempotency_key :: string
  job_state :: string
  job_attempts :: int
  job_result :: dict
  job_error :: string

record evidence =
  evd_id :: string
  evd_org_id :: string
  evd_assessment_id :: string
  evd_finding_id :: "string option"
  evd_kind :: string
  evd_request :: dict
  evd_response :: dict
  evd_note :: string
  evd_lineage :: dict
  evd_redacted :: bool

record finding =
  fd_id :: string
  fd_org_id :: string
  fd_assessment_id :: string
  fd_endpoint_id :: "string option"
  fd_check_class :: string
  fd_title :: string
  fd_severity :: string
  fd_confidence :: string
  fd_status :: string
  fd_cwe :: string
  fd_description :: string
  fd_remediation :: string
  fd_dedup_key :: string
  fd_risk_score :: rat
  fd_risk_breakdown :: dict
  fd_reproduction :: dict
  fd_skill_ref :: string

record validation_result =
  vr_id :: string
  vr_org_id :: string
  vr_assessment_id :: string
  vr_finding_id :: string
  vr_outcome :: string
  vr_method :: string
  vr_detail :: string
  vr_evidence_id :: "string option"

record coverage =
  cov_id :: string
  cov_org_id :: string
  cov_assessment_id :: string
  cov_endpoint_id :: string
  cov_check_class :: string
  cov_tested :: bool
  cov_reason_untested :: string

record regression_test =
  rt_id :: string
  rt_org_id :: string
  rt_target_id :: string
  rt_origin_finding_id :: string
  rt_check_class :: string
  rt_title :: string
  rt_definition :: dict
  rt_last_status :: string
  rt_last_run_at :: "datetime option"

record chat_session =
  ch_id :: string
  ch_org_id :: string
  ch_assessment_id :: "string option"
  ch_title :: string

record chat_message =
  cmsg_id :: string
  cmsg_session_id :: string
  cmsg_role :: string
  cmsg_content :: string
  cmsg_actions :: "dict list"

record audit_log =
  au_id :: string
  au_org_id :: string
  au_assessment_id :: "string option"
  au_actor :: string
  au_event :: string
  au_data :: dict

record project_memory =
  pm_id :: string
  pm_org_id :: string
  pm_target_id :: "string option"
  pm_key :: string
  pm_value :: jv
  pm_kind :: string

record checkpoint =
  cp_id :: string
  cp_org_id :: string
  cp_assessment_id :: string
  cp_state :: string
  cp_cursor :: dict

record agent_skill =
  sk_id :: string
  sk_org_id :: "string option"
  sk_name :: string
  sk_version :: string
  sk_check_class :: string
  sk_manifest :: dict
  sk_enabled :: bool
  sk_provenance :: string

end
