(* ===== verification/Config.thy ===== *)
theory Config
  imports Prelude
begin

text \<open>
  \<open>app/core/config.py\<close>: the settings object with its defaults, and the start-up check of
  production secrets. A float setting is a rational.
\<close>

record settings =
  database_url :: string
  jwt_secret :: string
  jwt_algorithm :: string
  access_token_ttl_minutes :: int
  secret_encryption_key :: string
  max_concurrent_assessments :: int
  max_concurrent_assessments_per_org :: int
  max_requests_per_assessment :: int
  max_assessment_seconds :: int
  max_recursion_depth :: int
  default_rate_limit_per_sec :: rat
  execution_concurrency :: int
  max_step_retries :: int
  max_replans :: int
  replan_batch :: int
  auto_replan_on_coverage_gap :: bool
  target_health_max_consecutive_errors :: int
  crawl_max_pages :: int
  crawl_max_depth :: int
  retry_backoff_seconds :: rat
  max_llm_tokens_per_assessment :: int
  max_llm_cost_usd_per_assessment :: rat
  llm_cost_per_1k_tokens_usd :: rat
  allow_private_networks :: bool
  outbound_connect_timeout :: rat
  ownership_dns_token_prefix :: string
  ownership_http_well_known_path :: string
  step_approval_required :: bool
  step_approval_wait_seconds :: int
  step_approval_poll_seconds :: rat
  anthropic_api_key :: string
  planner_model :: string
  use_langchain_brain :: bool
  use_langgraph :: bool
  langgraph_checkpoint_db :: string
  use_deepagents_planner :: bool
  environment :: string
  local_llm_base_url :: string
  local_llm_model :: string
  local_llm_api_key :: string
  oidc_enabled :: bool
  oidc_issuer :: string
  oidc_audience :: string
  oidc_jwks_url :: string
  oidc_email_claim :: string
  storage_backend :: string
  storage_local_dir :: string
  s3_endpoint_url :: string
  s3_bucket :: string
  s3_region :: string
  s3_access_key :: string
  s3_secret_key :: string
  protocol_endpoints_enabled :: bool
  public_base_url :: string
  mcp_allowed_hosts :: string
  a2a_task_wait_seconds :: int
  remediation_pr_local_dir :: string
  sandbox_mode :: string
  sandbox_enforce_egress_allowlist :: bool

definition default_settings :: settings where
  "default_settings = \<lparr>
     database_url = ''sqlite+aiosqlite:///./sentrik.db'',
     jwt_secret = ''dev-insecure-change-me'',
     jwt_algorithm = ''HS256'',
     access_token_ttl_minutes = 720,
     secret_encryption_key = '''',
     max_concurrent_assessments = 4,
     max_concurrent_assessments_per_org = 2,
     max_requests_per_assessment = 5000,
     max_assessment_seconds = 1800,
     max_recursion_depth = 6,
     default_rate_limit_per_sec = 20,
     execution_concurrency = 4,
     max_step_retries = 2,
     max_replans = 1,
     replan_batch = 15,
     auto_replan_on_coverage_gap = True,
     target_health_max_consecutive_errors = 8,
     crawl_max_pages = 25,
     crawl_max_depth = 3,
     retry_backoff_seconds = 1 / 20,
     max_llm_tokens_per_assessment = 0,
     max_llm_cost_usd_per_assessment = 0,
     llm_cost_per_1k_tokens_usd = 3 / 200,
     allow_private_networks = True,
     outbound_connect_timeout = 8,
     ownership_dns_token_prefix = ''sentrik-site-verification'',
     ownership_http_well_known_path = ''/.well-known/sentrik-verification.txt'',
     step_approval_required = True,
     step_approval_wait_seconds = 0,
     step_approval_poll_seconds = 1,
     anthropic_api_key = '''',
     planner_model = ''claude-opus-4-8'',
     use_langchain_brain = True,
     use_langgraph = False,
     langgraph_checkpoint_db = '''',
     use_deepagents_planner = False,
     environment = ''dev'',
     local_llm_base_url = '''',
     local_llm_model = '''',
     local_llm_api_key = ''local'',
     oidc_enabled = False,
     oidc_issuer = '''',
     oidc_audience = '''',
     oidc_jwks_url = '''',
     oidc_email_claim = ''email'',
     storage_backend = ''db'',
     storage_local_dir = ''./sentrik_storage'',
     s3_endpoint_url = '''',
     s3_bucket = '''',
     s3_region = ''us-east-1'',
     s3_access_key = '''',
     s3_secret_key = '''',
     protocol_endpoints_enabled = True,
     public_base_url = ''http://127.0.0.1:8000'',
     mcp_allowed_hosts = '''',
     a2a_task_wait_seconds = 900,
     remediation_pr_local_dir = ''./sentrik_remediation'',
     sandbox_mode = ''none'',
     sandbox_enforce_egress_allowlist = True\<rparr>"

definition placeholder_tokens :: "string list" where
  "placeholder_tokens = [''change'', ''insecure'', ''please'', ''example'', ''default'',
     ''changeme'', ''todo'', ''dev-'', ''your-'', ''placeholder'']"

definition is_weak_secret :: "string \<Rightarrow> bool" where
  "is_weak_secret v =
     (if v = [] \<or> length v < 16 then True
      else list_ex (\<lambda>tok. contains_str (str_lower v) tok) placeholder_tokens)"

definition production_secret_problems :: "settings \<Rightarrow> string list" where
  "production_secret_problems s =
     (if environment s = ''production'' then
        (if is_weak_secret (jwt_secret s)
         then [''SENTINEL_JWT_SECRET is unset/placeholder/too-short (need >=16 random chars)'']
         else []) @
        (if is_weak_secret (secret_encryption_key s)
         then [''SENTINEL_SECRET_ENCRYPTION_KEY is unset/placeholder/too-short (need >=16 random chars; secrets would not survive restart)'']
         else []) @
        (if allow_private_networks s
         then [''SENTINEL_ALLOW_PRIVATE_NETWORKS=true in production (should be false)'']
         else [])
      else [])"

lemma is_weak_secret_iff:
  "is_weak_secret v \<longleftrightarrow>
     length v < 16 \<or> (\<exists>tok \<in> set placeholder_tokens. contains_str (str_lower v) tok)"
  by (auto simp: is_weak_secret_def list_ex_iff)

lemma production_secret_problems_Nil_iff:
  "production_secret_problems s = [] \<longleftrightarrow>
     environment s = ''production'' \<longrightarrow>
       \<not> is_weak_secret (jwt_secret s) \<and> \<not> is_weak_secret (secret_encryption_key s) \<and>
       \<not> allow_private_networks s"
  by (simp add: production_secret_problems_def)

end
