(* ===== verification/Scope.thy ===== *)
theory Scope
  imports Netguard Models Config
begin

text \<open>
  \<open>app/security/scope.py\<close>: the guard that decides every request from one authorization
  record. A guard is the record, the settings, the counter of requests and the six collections
  its constructor derives from the record; every check is a function of the guard, with the
  clock reading or the resolver of the moment as an argument.
\<close>

record scope_decision =
  sd_allowed :: bool
  sd_reason :: string
  sd_code :: string
  sd_details :: dict

definition allow :: "string \<Rightarrow> dict \<Rightarrow> scope_decision" where
  "allow reason details =
     \<lparr>sd_allowed = True, sd_reason = reason, sd_code = ''ok'', sd_details = details\<rparr>"

definition deny :: "string \<Rightarrow> string \<Rightarrow> dict \<Rightarrow> scope_decision" where
  "deny reason code details =
     \<lparr>sd_allowed = False, sd_reason = reason, sd_code = code, sd_details = details\<rparr>"

lemma allow_deny_simps [simp]:
  "sd_allowed (allow r d)" "sd_reason (allow r d) = r" "sd_code (allow r d) = ''ok''"
  "sd_details (allow r d) = d"
  "\<not> sd_allowed (deny r c d)" "sd_reason (deny r c d) = r" "sd_code (deny r c d) = c"
  "sd_details (deny r c d) = d"
  by (simp_all add: allow_def deny_def)

definition raise_if_denied :: "scope_decision \<Rightarrow> exn + unit" where
  "raise_if_denied d =
     (if sd_allowed d then Inr () else Inl (ScopeViolation (sd_reason d) (sd_code d) (sd_details d)))"

definition STATE_CHANGING_METHODS :: "string list" where
  "STATE_CHANGING_METHODS = [''POST'', ''PUT'', ''PATCH'', ''DELETE'']"

record guard =
  g_record :: authorization_record
  g_settings :: settings
  g_requests_made :: int
  g_allowed_hosts :: "string list"
  g_allowed_ports :: "int list"
  g_allowed_methods :: "string list"
  g_allowed_checks :: "string list"
  g_path_allow :: "string list"
  g_path_deny :: "string list"

definition new_guard :: "settings \<Rightarrow> authorization_record \<Rightarrow> int \<Rightarrow> guard" where
  "new_guard st record made =
     \<lparr>g_record = record, g_settings = st, g_requests_made = made,
      g_allowed_hosts = map (\<lambda>h. str_strip (str_lower h)) (filter (\<lambda>h. h \<noteq> []) (az_allowed_hosts record)),
      g_allowed_ports = az_allowed_ports record,
      g_allowed_methods = map str_upper (az_allowed_methods record),
      g_allowed_checks = az_allowed_check_classes record,
      g_path_allow = az_path_allowlist record,
      g_path_deny = az_path_denylist record\<rparr>"

text \<open>\<open>_aware\<close>: a reading without a zone is taken as UTC.\<close>

definition aware :: "datetime \<Rightarrow> datetime" where
  "aware dt = (if dt_naive dt then dt\<lparr>dt_naive := False\<rparr> else dt)"

definition check_window_end :: "datetime option \<Rightarrow> int \<Rightarrow> scope_decision" where
  "check_window_end we now =
     (case we of
        Some e \<Rightarrow>
          if now > dt_us (aware e)
          then deny (''outside testing window (ended '' @ dt_iso e @ '')'') ''window_ended'' []
          else allow ''record active'' []
      | None \<Rightarrow> allow ''record active'' [])"

definition check_record_active :: "guard \<Rightarrow> int \<Rightarrow> scope_decision" where
  "check_record_active g now =
     (let r = g_record g in
      if az_status r \<noteq> verification_status_value VS_VERIFIED
      then deny (''authorization not verified (status='' @ az_status r @ '')'') ''authz_unverified'' []
      else case az_window_start r of
        Some ws \<Rightarrow>
          if now < dt_us (aware ws)
          then deny (''outside testing window (starts '' @ dt_iso ws @ '')'') ''window_not_started'' []
          else check_window_end (az_window_end r) now
      | None \<Rightarrow> check_window_end (az_window_end r) now)"

definition budget_limit :: "guard \<Rightarrow> int" where
  "budget_limit g = min (az_max_requests (g_record g)) (max_requests_per_assessment (g_settings g))"

definition check_budget :: "guard \<Rightarrow> int \<Rightarrow> scope_decision" where
  "check_budget g additional =
     (let limit = budget_limit g in
      if limit \<noteq> 0 \<and> g_requests_made g + additional > limit
      then deny (''request budget exhausted ('' @ int_str (g_requests_made g) @ ''/'' @ int_str limit @ '')'')
             ''budget_exhausted'' [(''made'', JInt (g_requests_made g)), (''limit'', JInt limit)]
      else allow ''within budget'' [])"

definition note_requests :: "int \<Rightarrow> guard \<Rightarrow> guard" where
  "note_requests n g = g\<lparr>g_requests_made := g_requests_made g + n\<rparr>"

definition check_class_allowed :: "guard \<Rightarrow> string \<Rightarrow> test_intensity \<Rightarrow> scope_decision" where
  "check_class_allowed g check_cls intensity =
     (if g_allowed_checks g \<noteq> [] \<and> check_cls \<notin> set (g_allowed_checks g)
      then deny (''check class '' @ py_repr check_cls @ '' not in authorized set'') ''check_not_authorized'' []
      else let rec_intensity = coerce_intensity (az_intensity (g_record g)) in
        if INTENSITY_RANK intensity > INTENSITY_RANK rec_intensity
        then deny (''check intensity '' @ test_intensity_value intensity @ '' exceeds authorized ''
               @ test_intensity_value rec_intensity) ''intensity_exceeded'' []
        else let env = coerce_env (az_environment (g_record g)) in
          if intensity = INVASIVE \<and> env = PRODUCTION
          then deny ''invasive checks are forbidden in production'' ''invasive_in_prod'' []
          else allow ''check class permitted'' [])"

text \<open>An exact host, or an entry that starts with \<open>*.\<close> read as a shell pattern.\<close>

definition host_in_scope :: "string list \<Rightarrow> string \<Rightarrow> bool" where
  "host_in_scope entries host \<longleftrightarrow>
     host \<in> set entries \<or> list_ex (\<lambda>entry. starts_with entry ''*.'' \<and> fnmatch host entry) entries"

definition path_hits :: "string \<Rightarrow> string \<Rightarrow> bool" where
  "path_hits path entry \<longleftrightarrow> starts_with path entry \<or> fnmatch path entry"

definition path_decision :: "guard \<Rightarrow> string \<Rightarrow> scope_decision" where
  "path_decision g path =
     (case List.find (path_hits path) (g_path_deny g) of
        Some d \<Rightarrow> deny (''path '' @ py_repr path @ '' matches denylist entry '' @ py_repr d) ''path_denied'' []
      | None \<Rightarrow>
        (if g_path_allow g \<noteq> [] then
           (case List.find (path_hits path) (g_path_allow g) of
              Some _ \<Rightarrow> allow ''path allowed'' []
            | None \<Rightarrow> deny (''path '' @ py_repr path @ '' not in path allowlist'') ''path_not_allowed'' [])
         else allow ''path allowed (no allowlist restriction)'' []))"

definition private_allowed :: "guard \<Rightarrow> bool" where
  "private_allowed g =
     (let env = coerce_env (az_environment (g_record g)) in
      if env = LAB then True
      else if env = STAGING \<or> env = DEVELOPMENT then allow_private_networks (g_settings g)
      else False)"

text \<open>
  The request gate. Every branch of the code is a branch here; a ValueError that is not a
  \<open>NetGuardError\<close> leaves the function as an exception (\<open>Inl\<close>).
\<close>

definition effective_ports :: "guard \<Rightarrow> string \<Rightarrow> int list" where
  "effective_ports g scheme =
     (if g_allowed_ports g = [] then [default_port_for_scheme scheme] else g_allowed_ports g)"

text \<open>The checks that need no network, in the code's order; None when all of them pass.\<close>

definition static_denial :: "guard \<Rightarrow> string \<Rightarrow> parsed_url \<Rightarrow> bool \<Rightarrow> scope_decision option" where
  "static_denial g method u is_redirect =
     (case u of (scheme, host, port, path) \<Rightarrow>
        if g_allowed_methods g \<noteq> [] \<and> method \<notin> set (g_allowed_methods g)
        then Some (deny (''method '' @ method @ '' not authorized'') ''method_denied'' [])
        else if method \<in> set STATE_CHANGING_METHODS \<and> \<not> az_allow_state_changing (g_record g)
        then Some (deny (''state-changing method '' @ method @ '' not authorized'') ''state_change_denied'' [])
        else if \<not> host_in_scope (g_allowed_hosts g) host
        then Some (deny (''host '' @ py_repr host @ '' not in authorized scope (deny-by-default)''
               @ (if is_redirect then '' [via redirect]'' else ''''))
               ''host_out_of_scope'' [(''host'', JStr host), (''redirect'', JBool is_redirect)])
        else if port \<notin> set (effective_ports g scheme)
        then Some (deny (''port '' @ int_str port @ '' not authorized (allowed=''
               @ repr_ints (sorted_set (effective_ports g scheme)) @ '')'') ''port_denied'' [])
        else if \<not> sd_allowed (path_decision g path) then Some (path_decision g path)
        else None)"

definition network_decision :: "dns \<Rightarrow> guard \<Rightarrow> string \<Rightarrow> int \<Rightarrow> exn + scope_decision" where
  "network_decision dns g host port =
     (case resolve_host dns host port True of
        Inl (NetGuardError msg) \<Rightarrow> Inr (deny msg ''resolution_failed'' [])
      | Inl e \<Rightarrow> Inl e
      | Inr info \<Rightarrow>
          if is_hard_blocked info
          then Inr (deny (host @ '' hits a hard-blocked metadata endpoint'') ''metadata_blocked'' [])
          else if (is_private info \<or> is_loopback info) \<and> \<not> private_allowed g
          then Inr (deny (host @ '' resolves to a private/loopback address; not permitted for this environment'')
                 ''private_network_denied'' [(''ips'', JList (map JStr (resolved_ips info)))])
          else Inr (allow ''request in scope''
                 [(''host'', JStr host), (''port'', JInt port),
                  (''ips'', JList (map JStr (resolved_ips info)))]))"

definition check_request :: "dns \<Rightarrow> guard \<Rightarrow> string \<Rightarrow> string \<Rightarrow> bool \<Rightarrow> exn + scope_decision" where
  "check_request dns g method url is_redirect =
     (case parse_url url of
        Inl (NetGuardError msg) \<Rightarrow> Inr (deny msg ''malformed_url'' [])
      | Inl e \<Rightarrow> Inl e
      | Inr u \<Rightarrow>
        (case static_denial g (str_upper method) u is_redirect of
           Some d \<Rightarrow> Inr d
         | None \<Rightarrow> (case u of (scheme, host, port, path) \<Rightarrow> network_decision dns g host port)))"

definition evaluate_new_asset :: "guard \<Rightarrow> string \<Rightarrow> scope_decision" where
  "evaluate_new_asset g host =
     (if host_in_scope (g_allowed_hosts g) (str_lower host) then allow ''asset already in scope'' []
      else deny (''newly discovered asset '' @ py_repr host @ '' requires a separate authorization record'')
             ''new_asset_unauthorized'' [(''host'', JStr host)])"

section \<open>What the guard guarantees\<close>

text \<open>The record is usable exactly when it is verified and the clock is inside its window.\<close>

definition window_open :: "authorization_record \<Rightarrow> int \<Rightarrow> bool" where
  "window_open r now \<longleftrightarrow>
     (\<forall>ws. az_window_start r = Some ws \<longrightarrow> dt_us ws \<le> now) \<and>
     (\<forall>we. az_window_end r = Some we \<longrightarrow> now \<le> dt_us we)"

lemma dt_us_aware [simp]: "dt_us (aware d) = dt_us d"
  by (simp add: aware_def)

lemma check_record_active_iff:
  "sd_allowed (check_record_active g now) \<longleftrightarrow>
     az_status (g_record g) = ''verified'' \<and> window_open (g_record g) now"
  by (auto simp: check_record_active_def check_window_end_def window_open_def Let_def
      split: option.splits)

lemma check_budget_iff:
  "sd_allowed (check_budget g n) \<longleftrightarrow> budget_limit g = 0 \<or> g_requests_made g + n \<le> budget_limit g"
  by (auto simp: check_budget_def Let_def)

lemma note_requests_simps [simp, frame_simps]:
  "g_record (note_requests n g) = g_record g" "g_settings (note_requests n g) = g_settings g"
  "g_requests_made (note_requests n g) = g_requests_made g + n"
  "g_allowed_hosts (note_requests n g) = g_allowed_hosts g"
  "g_allowed_ports (note_requests n g) = g_allowed_ports g"
  "g_allowed_methods (note_requests n g) = g_allowed_methods g"
  "g_allowed_checks (note_requests n g) = g_allowed_checks g"
  "g_path_allow (note_requests n g) = g_path_allow g"
  "g_path_deny (note_requests n g) = g_path_deny g"
  "budget_limit (note_requests n g) = budget_limit g"
  by (simp_all add: note_requests_def budget_limit_def)

lemma check_class_allowed_iff:
  "sd_allowed (check_class_allowed g c i) \<longleftrightarrow>
     (g_allowed_checks g = [] \<or> c \<in> set (g_allowed_checks g)) \<and>
     i \<le> coerce_intensity (az_intensity (g_record g)) \<and>
     \<not> (i = INVASIVE \<and> coerce_env (az_environment (g_record g)) = PRODUCTION)"
  by (auto simp: check_class_allowed_def Let_def less_eq_test_intensity_def)

lemma path_decision_iff:
  "sd_allowed (path_decision g path) \<longleftrightarrow>
     (\<forall>d \<in> set (g_path_deny g). \<not> path_hits path d) \<and>
     (g_path_allow g = [] \<or> (\<exists>a \<in> set (g_path_allow g). path_hits path a))"
  by (auto simp: path_decision_def find_None_all dest: find_SomeD split: option.splits)

lemma private_allowed_iff:
  "private_allowed g \<longleftrightarrow>
     (case coerce_env (az_environment (g_record g)) of
        LAB \<Rightarrow> True | STAGING \<Rightarrow> allow_private_networks (g_settings g)
      | DEVELOPMENT \<Rightarrow> allow_private_networks (g_settings g) | PRODUCTION \<Rightarrow> False)"
  by (auto simp: private_allowed_def Let_def split: environment.splits)

lemma private_allowed_note [simp]: "private_allowed (note_requests n g) = private_allowed g"
  by (simp add: private_allowed_def)

text \<open>
  The specification of the request gate: what the record grants, with no order of checks, no
  messages and no codes.
\<close>

definition grants :: "dns \<Rightarrow> guard \<Rightarrow> string \<Rightarrow> string \<Rightarrow> parsed_url \<Rightarrow> host_info \<Rightarrow> bool" where
  "grants dns g method url u info \<longleftrightarrow>
     (case u of (scheme, host, port, path) \<Rightarrow>
        parse_url url = Inr u \<and>
        (g_allowed_methods g = [] \<or> method \<in> set (g_allowed_methods g)) \<and>
        (method \<in> set STATE_CHANGING_METHODS \<longrightarrow> az_allow_state_changing (g_record g)) \<and>
        host_in_scope (g_allowed_hosts g) host \<and>
        port \<in> set (effective_ports g scheme) \<and>
        sd_allowed (path_decision g path) \<and>
        resolve_host dns host port True = Inr info \<and>
        \<not> is_hard_blocked info \<and>
        (is_private info \<or> is_loopback info \<longrightarrow> private_allowed g))"

definition grant_details :: "parsed_url \<Rightarrow> host_info \<Rightarrow> dict" where
  "grant_details u info =
     (case u of (scheme, host, port, path) \<Rightarrow>
        [(''host'', JStr host), (''port'', JInt port), (''ips'', JList (map JStr (resolved_ips info)))])"

lemma static_denial_denies: "static_denial g m u red = Some d \<Longrightarrow> \<not> sd_allowed d"
  by (auto simp: static_denial_def split: prod.splits if_splits)

lemma static_denial_None_iff:
  "static_denial g m (scheme, host, port, path) red = None \<longleftrightarrow>
     (g_allowed_methods g = [] \<or> m \<in> set (g_allowed_methods g)) \<and>
     (m \<in> set STATE_CHANGING_METHODS \<longrightarrow> az_allow_state_changing (g_record g)) \<and>
     host_in_scope (g_allowed_hosts g) host \<and>
     port \<in> set (effective_ports g scheme) \<and>
     sd_allowed (path_decision g path)"
  by (auto simp: static_denial_def)

lemma network_decision_allowed:
  assumes "network_decision dns g host port = Inr d" "sd_allowed d"
  obtains info where "resolve_host dns host port True = Inr info" "\<not> is_hard_blocked info"
    "is_private info \<or> is_loopback info \<longrightarrow> private_allowed g"
    "sd_details d = [(''host'', JStr host), (''port'', JInt port),
                     (''ips'', JList (map JStr (resolved_ips info)))]"
proof (cases "resolve_host dns host port True")
  case (Inl e)
  then show ?thesis
    using assms by (cases e) (auto simp: network_decision_def)
next
  case (Inr info)
  then show ?thesis
    using assms that by (auto simp: network_decision_def split: if_splits)
qed

lemma parse_url_of_allowed:
  assumes "check_request dns g m url red = Inr d" "sd_allowed d"
  obtains u where "parse_url url = Inr u"
proof (cases "parse_url url")
  case (Inl e)
  then show ?thesis
    using assms by (cases e) (auto simp: check_request_def)
qed (use that in blast)

lemma check_request_allowed:
  assumes "check_request dns g m url red = Inr d" "sd_allowed d"
  obtains u info where "grants dns g (str_upper m) url u info" "sd_details d = grant_details u info"
proof -
  from assms obtain u where u: "parse_url url = Inr u"
    by (rule parse_url_of_allowed)
  obtain scheme host port path where u_eq: "u = (scheme, host, port, path)"
    by (cases u) auto
  have st: "static_denial g (str_upper m) u red = None"
    using assms u by (auto simp: check_request_def dest: static_denial_denies split: option.splits)
  then have nd: "network_decision dns g host port = Inr d"
    using assms(1) u u_eq by (simp add: check_request_def)
  from nd assms(2) show thesis
  proof (rule network_decision_allowed)
    fix info
    assume info: "resolve_host dns host port True = Inr info" "\<not> is_hard_blocked info"
      "is_private info \<or> is_loopback info \<longrightarrow> private_allowed g"
      "sd_details d = [(''host'', JStr host), (''port'', JInt port),
                       (''ips'', JList (map JStr (resolved_ips info)))]"
    have "grants dns g (str_upper m) url u info"
      using st u info unfolding u_eq grants_def static_denial_None_iff prod.case by blast
    moreover have "sd_details d = grant_details u info"
      using info by (simp add: grant_details_def u_eq)
    ultimately show thesis by (rule that)
  qed
qed

lemma grants_check_request:
  assumes "grants dns g (str_upper m) url u info"
  shows "check_request dns g m url red = Inr (allow ''request in scope'' (grant_details u info))"
proof -
  obtain scheme host port path where u_eq: "u = (scheme, host, port, path)"
    by (cases u) auto
  with assms have "static_denial g (str_upper m) u red = None" "parse_url url = Inr u"
    by (simp_all add: static_denial_None_iff grants_def)
  moreover have "network_decision dns g host port = Inr (allow ''request in scope'' (grant_details u info))"
    using assms unfolding u_eq by (auto simp: grants_def network_decision_def grant_details_def)
  ultimately show ?thesis
    by (simp add: check_request_def u_eq)
qed

lemma effective_ports_note [simp]: "effective_ports (note_requests n g) = effective_ports g"
  by (simp add: fun_eq_iff effective_ports_def)

lemma path_decision_note [simp]: "path_decision (note_requests n g) = path_decision g"
  unfolding fun_eq_iff path_decision_def note_requests_simps by simp

lemma grants_note [simp]: "grants dns (note_requests n g) = grants dns g"
  by (auto simp: fun_eq_iff grants_def split: prod.splits)

lemma static_denial_note [simp]: "static_denial (note_requests n g) = static_denial g"
  unfolding fun_eq_iff static_denial_def note_requests_simps effective_ports_note
    path_decision_note by simp

lemma network_decision_note [simp]: "network_decision dns (note_requests n g) = network_decision dns g"
  unfolding fun_eq_iff network_decision_def private_allowed_note by simp

lemma check_request_note [simp]: "check_request dns (note_requests n g) = check_request dns g"
  unfolding fun_eq_iff check_request_def static_denial_note network_decision_note by simp

lemma check_record_active_note [simp]:
  "check_record_active (note_requests n g) now = check_record_active g now"
  by (simp add: check_record_active_def)

section \<open>Fixtures\<close>

text \<open>One authorization, its guard and a resolver, on which the theorems are applied.\<close>

definition demo_authorization :: authorization_record where
  "demo_authorization = \<lparr>az_id = ''az1'', az_org_id = ''o1'', az_target_id = ''t1'',
     az_status = ''verified'', az_environment = ''staging'', az_intensity = ''safe_active'',
     az_allowed_hosts = [''App.test'', ''*.api.test''], az_allowed_ports = [80, 8080],
     az_allowed_methods = [''get'', ''post''], az_allowed_check_classes = [''sqli'', ''xss''],
     az_path_allowlist = [], az_path_denylist = [''/admin''], az_max_requests = 2,
     az_rate_limit_per_sec = 5, az_max_duration_seconds = 600, az_window_start = None,
     az_window_end = None, az_allow_state_changing = False,
     az_ownership_verification_id = None, az_authorized_by = ''u1'', az_signature = '''',
     az_notes = ''''\<rparr>"

definition demo_guard :: guard where
  "demo_guard = new_guard default_settings demo_authorization 0"

definition demo_dns :: dns where
  "demo_dns host port =
     (if host = ''app.test'' then Some [''93.184.216.34'']
      else if host = ''lab.test'' then Some [''::ffff:169.254.169.254'']
      else None)"

definition demo_lab_guard :: guard where
  "demo_lab_guard = new_guard default_settings
     (demo_authorization\<lparr>az_environment := ''lab'', az_allowed_hosts := [''lab.test'']\<rparr>) 0"

section \<open>Theorems\<close>


text \<open>
  C9: no authorization reaches a metadata service under its listed names or addresses. When the
  gate allows a request, the decision carries the addresses it validated; the host is none of the
  hard-blocked names, no carried address is a hard-blocked one, and each is public unless the
  environment of the record permits private networks, which a production record never does.
\<close>

theorem allowed_destination_safe:
  assumes "check_request dns g m url red = Inr d" "sd_allowed d"
  shows "\<exists>scheme host port path ips. parse_url url = Inr (scheme, host, port, path) \<and>
     dget (sd_details d) ''ips'' = Some (JList (map JStr ips)) \<and>
     dget (sd_details d) ''host'' = Some (JStr host) \<and>
     host \<notin> set HARD_BLOCK_HOSTS \<and>
     (\<forall>ip \<in> set ips. ip \<notin> set HARD_BLOCK_IPS \<and>
        (private_allowed g \<or> classify_ip ip = (False, False))) \<and>
     (coerce_env (az_environment (g_record g)) = PRODUCTION \<longrightarrow>
        (\<forall>ip \<in> set ips. classify_ip ip = (False, False)))"
proof -
  obtain u info where gr: "grants dns g (str_upper m) url u info"
    and det: "sd_details d = grant_details u info"
    using assms by (rule check_request_allowed)
  obtain scheme host port path where u: "u = (scheme, host, port, path)"
    by (cases u) auto
  have res: "resolve_host dns host port True = Inr info"
    and nb: "\<not> is_hard_blocked info"
    and pr: "is_private info \<or> is_loopback info \<longrightarrow> private_allowed g"
    and pu: "parse_url url = Inr (scheme, host, port, path)"
    using gr unfolding grants_def u prod.case by blast+
  have info: "info = classify_all host port (resolved_ips info)"
    using res by (auto simp: resolve_host_def classify_all_def split: if_splits option.splits)
  have hosts: "host \<notin> set HARD_BLOCK_HOSTS"
    and ips: "\<forall>ip \<in> set (resolved_ips info). ip \<notin> set HARD_BLOCK_IPS"
    using nb by (subst (asm) info, simp add: classify_all_def list_ex_iff)+
  have flags: "is_loopback info \<longleftrightarrow> list_ex (\<lambda>ip. fst (classify_ip ip)) (resolved_ips info)"
    "is_private info \<longleftrightarrow> list_ex (\<lambda>ip. snd (classify_ip ip)) (resolved_ips info)"
    by (subst info, simp add: classify_all_def)+
  have pub: "private_allowed g \<or> (\<forall>ip \<in> set (resolved_ips info). classify_ip ip = (False, False))"
    using pr unfolding flags list_ex_iff by (auto simp: prod_eq_iff)
  have prod: "coerce_env (az_environment (g_record g)) = PRODUCTION \<Longrightarrow> \<not> private_allowed g"
    by (simp add: private_allowed_def)
  have keys: "dget (sd_details d) ''ips'' = Some (JList (map JStr (resolved_ips info)))"
    "dget (sd_details d) ''host'' = Some (JStr host)"
    using det by (simp_all add: grant_details_def u)
  show ?thesis
    using pu keys hosts ips pub prod by blast
qed

lemma demo_request:
  "check_request demo_dns demo_guard ''get'' ''http://APP.test:8080/shop?q=1'' False =
     Inr (allow ''request in scope''
       [(''host'', JStr ''app.test''), (''port'', JInt 8080),
        (''ips'', JList [JStr ''93.184.216.34''])])"
  by code_simp

theorem allowed_destination_safe_witness:
  "\<exists>scheme host port path ips.
     parse_url ''http://APP.test:8080/shop?q=1'' = Inr (scheme, host, port, path) \<and>
     host \<notin> set HARD_BLOCK_HOSTS \<and> (\<forall>ip \<in> set ips. ip \<notin> set HARD_BLOCK_IPS)"
  using allowed_destination_safe [OF demo_request allow_deny_simps(1)] by blast

text \<open>
  Host membership is deny-by-default. With entries whose wildcard part holds no other pattern
  character, a host is in scope exactly when it is listed or ends in the dotted suffix of a listed
  wildcard, so no look-alike of a listed name is.
\<close>

theorem host_in_scope_suffix:
  assumes "\<forall>e \<in> set entries. starts_with e ''*.'' \<longrightarrow> plain_chars (tl e)"
  shows "host_in_scope entries host \<longleftrightarrow>
     host \<in> set entries \<or> (\<exists>p. ''*'' @ ''.'' @ p \<in> set entries \<and> ends_with host (''.'' @ p))"
proof -
  have "starts_with e ''*.'' \<and> fnmatch host e \<longleftrightarrow> (\<exists>p. e = ''*'' @ ''.'' @ p \<and> ends_with host (''.'' @ p))"
    if "e \<in> set entries" for e
  proof (cases "starts_with e ''*.''")
    case True
    then obtain p where e: "e = ''*.'' @ p" by (auto simp: starts_with_iff)
    with True that assms have "plain_chars (''.'' @ p)" by (metis append_Cons append_Nil list.sel(3))
    with e True show ?thesis using fnmatch_star_suffix [of "''.'' @ p" host] by simp
  next
    case False
    then show ?thesis by (auto simp: starts_with_iff)
  qed
  then show ?thesis
    unfolding host_in_scope_def list_ex_iff by blast
qed

theorem host_in_scope_suffix_witness:
  "host_in_scope [''app.test'', ''*.api.test''] ''v1.api.test'' \<and>
   \<not> host_in_scope [''app.test'', ''*.api.test''] ''evilapi.test''"
proof -
  have h: "\<forall>e \<in> set [''app.test'', ''*.api.test'']. starts_with e ''*.'' \<longrightarrow> plain_chars (tl e)"
    by (simp add: plain_chars_def)
  have "ends_with ''v1.api.test'' (''.'' @ ''api.test'')" "\<not> ends_with ''evilapi.test'' (''.'' @ ''api.test'')"
    by code_simp+
  then show ?thesis
    by (auto simp: host_in_scope_suffix [OF h])
qed

text \<open>
  The intensity ceiling is monotone. A check class allowed at one intensity is allowed at every
  lower one, never above the authorized intensity, and an invasive check is never allowed when the
  record's environment is production or is not a known environment.
\<close>

theorem check_class_ceiling:
  assumes "sd_allowed (check_class_allowed g c i)" "j \<le> i"
  shows "sd_allowed (check_class_allowed g c j) \<and> j \<le> coerce_intensity (az_intensity (g_record g)) \<and>
     (environment_of (az_environment (g_record g)) \<in> {None, Some PRODUCTION} \<longrightarrow> i \<noteq> INVASIVE)"
proof -
  have "j = INVASIVE \<Longrightarrow> i = INVASIVE"
    using assms(2) by (cases i) (auto simp: less_eq_test_intensity_def)
  moreover have "environment_of e \<in> {None, Some PRODUCTION} \<Longrightarrow> coerce_env e = PRODUCTION" for e
    by (auto simp: coerce_env_def)
  ultimately show ?thesis
    using assms unfolding check_class_allowed_iff by (meson order_trans)
qed

theorem check_class_ceiling_witness:
  "sd_allowed (check_class_allowed demo_guard ''sqli'' PASSIVE)"
proof -
  have "sd_allowed (check_class_allowed demo_guard ''sqli'' SAFE_ACTIVE)" "PASSIVE \<le> SAFE_ACTIVE"
    by code_simp+
  from check_class_ceiling [OF this] show ?thesis by blast
qed

text \<open>
  A record whose request maximum is zero has no budget at all. The limit is the minimum of
  the record's maximum and the global ceiling, and a limit of zero is read as "no limit", so the
  global ceiling no longer applies either: every number of requests is within budget.
\<close>

theorem zero_budget_is_unlimited:
  assumes "az_max_requests (g_record g) = 0" "0 \<le> max_requests_per_assessment (g_settings g)"
  shows "sd_allowed (check_budget (note_requests k g) n)"
  using assms by (simp add: check_budget_iff budget_limit_def)

theorem zero_budget_is_unlimited_witness:
  "max_requests_per_assessment default_settings = 5000 \<and>
   sd_allowed (check_budget (note_requests 1000000
     (new_guard default_settings (demo_authorization\<lparr>az_max_requests := 0\<rparr>) 0)) 1)"
  using zero_budget_is_unlimited
    [of "new_guard default_settings (demo_authorization\<lparr>az_max_requests := 0\<rparr>) 0" 1000000 1]
  by (simp add: new_guard_def default_settings_def)

text \<open>
  A URL whose port is out of range is not denied but leaves the gate as a plain ValueError,
  whatever the record says: the port property raises after the URL passed the malformed-URL check.
\<close>

theorem bad_port_escapes_gate:
  "check_request dns g m ''http://h:99999/'' red = Inl (ValueError ''Port out of range 0-65535'')"
proof -
  have "parse_url ''http://h:99999/'' = Inl (ValueError ''Port out of range 0-65535'')"
    by code_simp
  then show ?thesis by (simp add: check_request_def)
qed

text \<open>
  The metadata block compares address spellings. In a lab record, a listed host that resolves
  to the IPv4-mapped form of the metadata address is allowed, although the plain form of the same
  address is denied for every record.
\<close>

theorem mapped_metadata_address_allowed:
  "(\<exists>d. check_request demo_dns demo_lab_guard ''GET'' ''http://lab.test/'' False = Inr d \<and>
        sd_allowed d \<and> dget (sd_details d) ''ips'' = Some (JList [JStr ''::ffff:169.254.169.254''])) \<and>
   is_hard_blocked (classify_all ''lab.test'' 80 [''169.254.169.254''])"
proof -
  have "check_request demo_dns demo_lab_guard ''GET'' ''http://lab.test/'' False =
      Inr (allow ''request in scope'' [(''host'', JStr ''lab.test''), (''port'', JInt 80),
             (''ips'', JList [JStr ''::ffff:169.254.169.254''])])"
    by code_simp
  then show ?thesis
    by (simp add: classify_all_def HARD_BLOCK_IPS_def)
qed

end
