(* ===== verification/Sandbox.thy ===== *)
theory Sandbox
  imports Scope
begin

text \<open>
  \<open>app/security/sandbox.py\<close>: the second egress gate, derived from the same record but
  independent of the guard, and the firewall rules of the container mode. A set of hosts or ports
  is kept as the list it is built from; only membership and \<open>sorted(...)\<close> read it. The dash of
  the rule comments is written as its three UTF-8 bytes.
\<close>

definition DEFAULT_PORTS :: "int list" where
  "DEFAULT_PORTS = [80, 443]"

definition PRIVATE_OK_ENVS :: "environment list" where
  "PRIVATE_OK_ENVS = [LAB, STAGING, DEVELOPMENT]"

record sandbox_profile =
  sp_allowed_hosts :: "string list"
  sp_allowed_ports :: "int list"
  sp_allow_private :: bool
  sp_mode :: string

definition from_record :: "settings \<Rightarrow> authorization_record \<Rightarrow> sandbox_profile" where
  "from_record st record =
     \<lparr>sp_allowed_hosts = map (\<lambda>h. str_strip (str_lower h))
        (filter (\<lambda>h. h \<noteq> [] \<and> str_strip h \<noteq> []) (az_allowed_hosts record)),
      sp_allowed_ports = (if az_allowed_ports record = [] then DEFAULT_PORTS else az_allowed_ports record),
      sp_allow_private = (coerce_env (az_environment record) \<in> set PRIVATE_OK_ENVS),
      sp_mode = (if sandbox_mode st = [] then ''none'' else sandbox_mode st)\<rparr>"

definition host_allowed :: "sandbox_profile \<Rightarrow> string \<Rightarrow> bool" where
  "host_allowed p host =
     (let h = str_lower host in
      if h \<in> set (sp_allowed_hosts p) then True
      else list_ex (\<lambda>entry. starts_with entry ''*.'' \<and> fnmatch h entry) (sp_allowed_hosts p))"

record sandbox =
  sb_profile :: sandbox_profile
  sb_settings :: settings

definition sandbox_for :: "settings \<Rightarrow> authorization_record \<Rightarrow> sandbox" where
  "sandbox_for st record = \<lparr>sb_profile = from_record st record, sb_settings = st\<rparr>"

definition egress_network :: "dns \<Rightarrow> sandbox_profile \<Rightarrow> string \<Rightarrow> int \<Rightarrow> exn + unit" where
  "egress_network dns p host port =
     (case resolve_host dns host port True of
        Inl (NetGuardError msg) \<Rightarrow>
          Inl (EgressViolation (''cannot classify egress destination '' @ py_repr host @ '': '' @ msg)
                 host port ''resolution_failed'')
      | Inl e \<Rightarrow> Inl e
      | Inr info \<Rightarrow>
          if is_hard_blocked info
          then Inl (EgressViolation (host @ '' resolves to a hard-blocked metadata/link-local endpoint'')
                 host port ''hard_blocked'')
          else if (is_private info \<or> is_loopback info) \<and> \<not> sp_allow_private p
          then Inl (EgressViolation (host @ '' resolves to a private/loopback address not permitted ''
                 @ ''for this environment (ips='' @ repr_list (resolved_ips info) @ '')'')
                 host port ''private_network_denied'')
          else Inr ())"

definition assert_egress_allowed :: "dns \<Rightarrow> sandbox \<Rightarrow> string \<Rightarrow> int \<Rightarrow> exn + unit" where
  "assert_egress_allowed dns sb host port =
     (if \<not> sandbox_enforce_egress_allowlist (sb_settings sb) then Inr ()
      else let host_l = str_strip (str_lower host); p = sb_profile sb in
        if host_l = []
        then Inl (EgressViolation ''empty host is not permitted'' host port ''empty_host'')
        else if \<not> host_allowed p host_l
        then Inl (EgressViolation (''host '' @ py_repr host_l @ '' is not in the sandbox egress allowlist'')
               host_l port ''host_not_allowed'')
        else if port \<notin> set (sp_allowed_ports p)
        then Inl (EgressViolation (''port '' @ int_str port @ '' is not in the sandbox egress allowlist ''
               @ ''(allowed='' @ repr_ints (sorted_set (sp_allowed_ports p)) @ '')'')
               host_l port ''port_not_allowed'')
        else egress_network dns p host_l port)"

text \<open>
  \<open>run\<close>: how an awaitable ends, and how the sandbox passes that on; \<open>exc_repr\<close> is the
  interpreter's rendering of an exception. None stands for a missing awaitable.
\<close>

datatype 'a outcome = Returned 'a | Raised exn | Cancelled

definition run :: "(exn \<Rightarrow> string) \<Rightarrow> 'a outcome option \<Rightarrow> 'a outcome" where
  "run exc_repr coro =
     (case coro of
        None \<Rightarrow> Raised (SandboxError ''nothing to run inside the sandbox (coro is None)'')
      | Some (Returned v) \<Rightarrow> Returned v
      | Some Cancelled \<Rightarrow> Cancelled
      | Some (Raised e) \<Rightarrow>
          (case e of
             EgressViolation m h p c \<Rightarrow> Raised e
           | _ \<Rightarrow> Raised (SandboxError (''sandboxed work failed: '' @ exc_repr e))))"

definition em_dash :: string where
  "em_dash = [chr 226, chr 128, chr 148]"

definition base_rules :: "string list" where
  "base_rules =
     [''# --- sandbox egress allowlist (default-deny OUTPUT) ---'',
      ''iptables -P OUTPUT DROP'',
      ''iptables -A OUTPUT -o lo -j ACCEPT'',
      ''iptables -A OUTPUT -m state --state ESTABLISHED,RELATED -j ACCEPT'',
      ''iptables -A OUTPUT -p udp --dport 53 -j ACCEPT'',
      ''iptables -A OUTPUT -p tcp --dport 53 -j ACCEPT'']"

definition accept_rule :: "string \<Rightarrow> string \<Rightarrow> int \<Rightarrow> string" where
  "accept_rule host ip port =
     ''iptables -A OUTPUT -d '' @ ip @ '' -p tcp --dport '' @ int_str port @ '' -j ACCEPT  # '' @ host"

text \<open>The rules of one host, and whether one of them is an accept.\<close>

definition host_rules :: "dns \<Rightarrow> sandbox_profile \<Rightarrow> int list \<Rightarrow> string \<Rightarrow> string list \<times> bool" where
  "host_rules dns p ports host =
     (if starts_with host ''*.''
      then ([''# host '' @ host @ '': wildcard '' @ em_dash
               @ '' resolve concrete subdomains at deploy time before ACCEPT''], False)
      else case resolve_host dns host (hd ports) True of
        Inl e \<Rightarrow> ([''# host '' @ host @ '': SKIPPED '' @ em_dash @ '' cannot resolve (''
               @ (case e of NetGuardError m \<Rightarrow> m | _ \<Rightarrow> '''') @ '')''], False)
      | Inr info \<Rightarrow>
          if is_hard_blocked info
          then ([''# host '' @ host @ '': SKIPPED '' @ em_dash @ '' hard-blocked metadata/link-local endpoint''], False)
          else if (is_private info \<or> is_loopback info) \<and> \<not> sp_allow_private p
          then ([''# host '' @ host @ '': SKIPPED '' @ em_dash
                   @ '' private/loopback not permitted for this environment''], False)
          else (concat (map (\<lambda>ip. map (accept_rule host ip) ports) (resolved_ips info)),
                resolved_ips info \<noteq> []))"

fun rules_loop :: "dns \<Rightarrow> sandbox_profile \<Rightarrow> int list \<Rightarrow> string list \<Rightarrow> string list \<Rightarrow> bool \<Rightarrow> string list \<times> bool" where
  "rules_loop dns p ports [] rules resolved_any = (rules, resolved_any)"
| "rules_loop dns p ports (host # hosts) rules resolved_any =
     (case host_rules dns p ports host of
        (rs, res) \<Rightarrow> rules_loop dns p ports hosts (rules @ rs) (resolved_any \<or> res))"

definition container_egress_rules :: "dns \<Rightarrow> sandbox_profile \<Rightarrow> string list" where
  "container_egress_rules dns p =
     (let ports = (if sp_allowed_ports p = [] then sorted_set DEFAULT_PORTS
                   else sorted_set (sp_allowed_ports p));
          (rules, resolved_any) = rules_loop dns p ports (sorted_set (sp_allowed_hosts p)) base_rules False
      in rules
         @ (if resolved_any then [] else [''# NOTE: no concrete destinations resolved; OUTPUT remains fully denied''])
         @ [''iptables -A OUTPUT -j REJECT --reject-with icmp-admin-prohibited''])"

section \<open>Lemmas\<close>

text \<open>A resolution a gate may connect to, given whether it permits private addresses.\<close>

definition connectable :: "bool \<Rightarrow> host_info \<Rightarrow> bool" where
  "connectable private_ok info \<longleftrightarrow>
     \<not> is_hard_blocked info \<and> (private_ok \<or> \<not> is_private info \<and> \<not> is_loopback info)"

lemma egress_network_ok_iff:
  "egress_network dns p host port = Inr () \<longleftrightarrow>
     (\<exists>info. resolve_host dns host port True = Inr info \<and> connectable (sp_allow_private p) info)"
proof (cases "resolve_host dns host port True")
  case (Inl e)
  then show ?thesis by (cases e) (auto simp: egress_network_def)
next
  case (Inr info)
  then show ?thesis by (auto simp: egress_network_def connectable_def)
qed

lemma assert_egress_ok_iff:
  "assert_egress_allowed dns sb host port = Inr () \<longleftrightarrow>
     \<not> sandbox_enforce_egress_allowlist (sb_settings sb) \<or>
     (str_strip (str_lower host) \<noteq> [] \<and> host_allowed (sb_profile sb) (str_strip (str_lower host)) \<and>
      port \<in> set (sp_allowed_ports (sb_profile sb)) \<and>
      egress_network dns (sb_profile sb) (str_strip (str_lower host)) port = Inr ())"
  by (auto simp: assert_egress_allowed_def Let_def)

text \<open>
  What both gates promise about a destination they pass: it resolved, no resolved address is a
  metadata endpoint, and a private one passed only where the gate's own flag permits it. The
  locale states the contract and what follows from it; the guard's network stage and the
  sandbox's are the two instances.
\<close>

locale network_gate =
  fixes passes :: "dns \<Rightarrow> 'g \<Rightarrow> string \<Rightarrow> int \<Rightarrow> bool"
    and private_ok :: "'g \<Rightarrow> bool"
  assumes passes_iff: "passes dns g host port \<longleftrightarrow>
      (\<exists>info. resolve_host dns host port True = Inr info \<and> connectable (private_ok g) info)"
begin

lemma passes_not_metadata: "passes dns g host port \<Longrightarrow> host \<notin> set HARD_BLOCK_HOSTS"
  by (auto simp: passes_iff connectable_def resolve_host_def classify_all_def
      split: if_splits option.splits)

lemma passes_resolves: "passes dns g host port \<Longrightarrow> \<exists>info. resolve_host dns host port True = Inr info"
  by (auto simp: passes_iff)

lemma passes_mono:
  "passes dns g host port \<Longrightarrow> (private_ok g \<Longrightarrow> private_ok g') \<Longrightarrow> passes dns g' host port"
  unfolding passes_iff connectable_def by blast

end

lemma network_decision_passes:
  "(\<exists>d. network_decision dns g host port = Inr d \<and> sd_allowed d) \<longleftrightarrow>
     (\<exists>info. resolve_host dns host port True = Inr info \<and> connectable (private_allowed g) info)"
proof
  assume "\<exists>d. network_decision dns g host port = Inr d \<and> sd_allowed d"
  then show "\<exists>info. resolve_host dns host port True = Inr info \<and> connectable (private_allowed g) info"
    unfolding connectable_def by (blast elim: network_decision_allowed)
qed (auto simp: network_decision_def connectable_def)

interpretation guard_gate: network_gate
    "\<lambda>dns g host port. \<exists>d. network_decision dns g host port = Inr d \<and> sd_allowed d" private_allowed
  by unfold_locales (rule network_decision_passes)

interpretation sandbox_gate: network_gate
    "\<lambda>dns p host port. egress_network dns p host port = Inr ()" sp_allow_private
  by unfold_locales (rule egress_network_ok_iff)

lemma private_allowed_sandbox:
  "private_allowed (new_guard st r n) \<Longrightarrow> sp_allow_private (from_record st' r)"
  by (auto simp: private_allowed_def new_guard_def from_record_def PRIVATE_OK_ENVS_def Let_def
      split: if_splits)

lemma host_in_scope_sandbox:
  assumes "host_in_scope (g_allowed_hosts (new_guard st r n)) host" "host \<noteq> []" "str_lower host = host"
  shows "host_allowed (from_record st' r) host"
proof -
  have mem: "e \<in> set (sp_allowed_hosts (from_record st' r))"
    if "e \<in> set (g_allowed_hosts (new_guard st r n))" "e \<noteq> []" for e
  proof -
    from that obtain h where h: "h \<in> set (az_allowed_hosts r)" "h \<noteq> []" "e = str_strip (str_lower h)"
      by (auto simp: new_guard_def)
    have "str_strip h \<noteq> []"
      using h that(2) str_strip_lower_Nil by blast
    then show ?thesis using h by (auto simp: from_record_def)
  qed
  show ?thesis
    using assms mem unfolding host_in_scope_def host_allowed_def list_ex_iff Let_def
    by (smt (verit, del_insts) starts_with.simps(2))
qed

section \<open>Theorems\<close>

text \<open>
  C10: the two egress gates agree. A request the scope guard of a record allows passes the sandbox
  derived from the same record, under the same resolver, so the second gate never blocks what the
  first has authorized; the host must carry no surrounding white space, which the sandbox strips.
\<close>

theorem sandbox_admits_authorized:
  assumes "check_request dns (new_guard st r n) m url red = Inr d" "sd_allowed d"
    and "parse_url url = Inr (scheme, host, port, path)" "str_strip host = host"
  shows "assert_egress_allowed dns (sandbox_for st' r) host port = Inr ()"
proof -
  let ?g = "new_guard st r n"
  obtain u info where gr: "grants dns ?g (str_upper m) url u info"
    using assms(1,2) by (rule check_request_allowed)
  then have u: "u = (scheme, host, port, path)"
    using assms(3) by (auto simp: grants_def split: prod.splits)
  have g: "host_in_scope (g_allowed_hosts ?g) host" "port \<in> set (effective_ports ?g scheme)"
    and net: "resolve_host dns host port True = Inr info" "\<not> is_hard_blocked info"
      "is_private info \<or> is_loopback info \<longrightarrow> private_allowed ?g"
    using gr unfolding grants_def u prod.case by blast+
  have shape: "host \<noteq> []" "str_lower host = host" "scheme = ''http'' \<or> scheme = ''https''"
    using parse_url_shape [OF assms(3)] by blast+
  have strip: "str_strip (str_lower host) = host"
    using shape assms(4) by simp
  have "host_allowed (from_record st' r) host"
    using g(1) shape by (intro host_in_scope_sandbox)
  moreover have "port \<in> set (sp_allowed_ports (from_record st' r))"
    using g(2) shape(3) by (auto simp: effective_ports_def new_guard_def from_record_def
        DEFAULT_PORTS_def default_port_for_scheme_def split: if_splits)
  moreover have "egress_network dns (from_record st' r) host port = Inr ()"
    using net private_allowed_sandbox unfolding egress_network_ok_iff connectable_def by blast
  ultimately show ?thesis
    using shape assms(4) by (simp add: assert_egress_ok_iff sandbox_for_def)
qed

theorem sandbox_admits_authorized_witness:
  "assert_egress_allowed demo_dns (sandbox_for default_settings demo_authorization) ''app.test'' 8080 = Inr ()"
proof (rule sandbox_admits_authorized [OF demo_request [unfolded demo_guard_def] allow_deny_simps(1)])
  show "parse_url ''http://APP.test:8080/shop?q=1'' = Inr (''http'', ''app.test'', 8080, ''/shop'')"
    "str_strip ''app.test'' = ''app.test''"
    by code_simp+
qed

text \<open>
  The sandbox gate is exactly its allowlist. With enforcement on, a destination passes if and
  only if its stripped lower-case name is nonempty and on the host allowlist, its port is on the
  port allowlist, it resolves, no address is a metadata endpoint, and it is public unless the
  profile permits private addresses.
\<close>

theorem sandbox_gate_exact:
  assumes "sandbox_enforce_egress_allowlist (sb_settings sb)"
  shows "assert_egress_allowed dns sb host port = Inr () \<longleftrightarrow>
     str_strip (str_lower host) \<noteq> [] \<and> host_allowed (sb_profile sb) (str_strip (str_lower host)) \<and>
     port \<in> set (sp_allowed_ports (sb_profile sb)) \<and>
     (\<exists>info. resolve_host dns (str_strip (str_lower host)) port True = Inr info \<and>
        connectable (sp_allow_private (sb_profile sb)) info)"
  using assms by (simp add: assert_egress_ok_iff egress_network_ok_iff)

theorem sandbox_gate_exact_witness:
  "assert_egress_allowed demo_dns (sandbox_for default_settings demo_authorization) ''metadata'' 80 \<noteq> Inr ()"
proof -
  have "sandbox_enforce_egress_allowlist (sb_settings (sandbox_for default_settings demo_authorization))"
    "\<not> host_allowed (sb_profile (sandbox_for default_settings demo_authorization)) (str_strip (str_lower ''metadata''))"
    by code_simp+
  then show ?thesis using sandbox_gate_exact by blast
qed

lemma host_rules_sound:
  assumes "rule \<in> set (fst (host_rules dns p ports host))"
  shows "starts_with rule ''# host '' \<or>
     (\<exists>info. \<exists>ip \<in> set (resolved_ips info). \<exists>port \<in> set ports. rule = accept_rule host ip port \<and>
        resolve_host dns host (hd ports) True = Inr info \<and> connectable (sp_allow_private p) info)"
  using assms by (auto simp: host_rules_def connectable_def split: if_splits sum.splits)

lemma rules_loop_set:
  "set (fst (rules_loop dns p ports hosts rules res)) =
     set rules \<union> (\<Union>host \<in> set hosts. set (fst (host_rules dns p ports host)))"
  by (induction hosts arbitrary: rules res) (auto split: prod.splits)

lemma rules_loop_prefix:
  "\<exists>rs. fst (rules_loop dns p ports hosts rules res) = rules @ rs"
  by (induction hosts arbitrary: rules res) (auto split: prod.splits, metis append_assoc)

text \<open>
  The generated firewall is default-deny. Its second line drops all output and its last rejects
  what is left; any other line is one of the fixed base lines, a comment, or an accept of one
  resolved address on one allowed port of a listed host whose resolution contains no metadata
  endpoint and no private address the profile forbids.
\<close>

theorem container_rules_default_deny:
  "container_egress_rules dns p ! 1 = ''iptables -P OUTPUT DROP'' \<and>
   last (container_egress_rules dns p) = ''iptables -A OUTPUT -j REJECT --reject-with icmp-admin-prohibited'' \<and>
   set (container_egress_rules dns p) \<subseteq>
     set base_rules \<union> {r. hd r = CHR ''#''} \<union> {last (container_egress_rules dns p)} \<union>
     {accept_rule host ip port | host ip port. host \<in> set (sp_allowed_hosts p) \<and>
        port \<in> set (if sp_allowed_ports p = [] then DEFAULT_PORTS else sp_allowed_ports p) \<and>
        (\<exists>port0 info. resolve_host dns host port0 True = Inr info \<and> ip \<in> set (resolved_ips info) \<and>
           connectable (sp_allow_private p) info)}"
    (is "?drop \<and> ?reject \<and> ?sub")
proof -
  define ports where "ports = (if sp_allowed_ports p = [] then sorted_set DEFAULT_PORTS
                   else sorted_set (sp_allowed_ports p))"
  obtain rules res where loop: "rules_loop dns p ports (sorted_set (sp_allowed_hosts p)) base_rules False = (rules, res)"
    by fastforce
  have all: "container_egress_rules dns p = rules
      @ (if res then [] else [''# NOTE: no concrete destinations resolved; OUTPUT remains fully denied''])
      @ [''iptables -A OUTPUT -j REJECT --reject-with icmp-admin-prohibited'']"
    unfolding container_egress_rules_def Let_def ports_def [symmetric] loop prod.case by simp
  obtain rs where "rules = base_rules @ rs"
    using rules_loop_prefix [of dns p ports _ base_rules False] loop by (metis fst_conv)
  then have drop: ?drop by (simp add: all base_rules_def)
  have ports_set: "set ports = set (if sp_allowed_ports p = [] then DEFAULT_PORTS else sp_allowed_ports p)"
    by (simp add: ports_def)
  have hash: "starts_with r ''# host '' \<Longrightarrow> hd r = CHR ''#''" for r
    by (auto simp: starts_with_iff)
  have rules_set: "set rules = set base_rules \<union>
      (\<Union>host \<in> set (sp_allowed_hosts p). set (fst (host_rules dns p ports host)))"
    using rules_loop_set [of dns p ports "sorted_set (sp_allowed_hosts p)" base_rules False] loop by simp
  have ?sub
  proof
    fix r assume "r \<in> set (container_egress_rules dns p)"
    then consider "r \<in> set base_rules" | "hd r = CHR ''#''" | "r = last (container_egress_rules dns p)"
      | host where "host \<in> set (sp_allowed_hosts p)" "r \<in> set (fst (host_rules dns p ports host))"
      using rules_set by (auto simp: all split: if_splits)
    then show "r \<in> set base_rules \<union> {r. hd r = CHR ''#''} \<union> {last (container_egress_rules dns p)} \<union>
     {accept_rule host ip port | host ip port. host \<in> set (sp_allowed_hosts p) \<and>
        port \<in> set (if sp_allowed_ports p = [] then DEFAULT_PORTS else sp_allowed_ports p) \<and>
        (\<exists>port0 info. resolve_host dns host port0 True = Inr info \<and> ip \<in> set (resolved_ips info) \<and>
           connectable (sp_allow_private p) info)}"
    proof cases
      case 4
      then show ?thesis using host_rules_sound [OF 4(2)] hash ports_set by blast
    qed blast+
  qed
  with drop show ?thesis by (simp add: all)
qed

text \<open>
  How work ends inside the sandbox. A value and a cancellation pass through unchanged; the only
  exceptions that come out are egress violations, verbatim, and sandbox errors.
\<close>

theorem run_outcomes:
  "(run exc_repr coro = Returned v \<longleftrightarrow> coro = Some (Returned v)) \<and>
   (run exc_repr coro = Cancelled \<longleftrightarrow> coro = Some Cancelled) \<and>
   (run exc_repr coro = Raised (EgressViolation m h p c) \<longleftrightarrow> coro = Some (Raised (EgressViolation m h p c))) \<and>
   (run exc_repr coro \<noteq> Raised (TargetUnreachable t))"
proof (cases coro)
  case (Some out)
  then show ?thesis
  proof (cases out)
    case (Raised e)
    with Some show ?thesis by (cases e) (simp_all add: run_def)
  qed (simp_all add: run_def)
qed (simp add: run_def)

end
