(* ===== verification/Effects.thy ===== *)
theory Effects
  imports Prelude
begin

text \<open>
  Operations that read and change a state and may raise. An operation is a function from the
  state to an outcome and the new state; the outcome is an exception (Inl) or a value (Inr), and
  the state keeps what was done before an exception, as in the language. A frame is a reflexive
  and transitive relation between the states before and after; \<open>keeps R m\<close> says that \<open>m\<close> moves
  the state along \<open>R\<close> whatever its outcome.
\<close>

type_synonym ('s, 'a) act = "'s \<Rightarrow> (exn + 'a) \<times> 's"

definition ret :: "'a \<Rightarrow> ('s, 'a) act" where
  "ret x s = (Inr x, s)"

definition raise_exn :: "exn \<Rightarrow> ('s, 'a) act" where
  "raise_exn e s = (Inl e, s)"

definition bind_act :: "('s, 'a) act \<Rightarrow> ('a \<Rightarrow> ('s, 'b) act) \<Rightarrow> ('s, 'b) act" where
  "bind_act m f s = (case m s of (Inl e, s') \<Rightarrow> (Inl e, s') | (Inr x, s') \<Rightarrow> f x s')"

definition lift_sum :: "exn + 'a \<Rightarrow> ('s, 'a) act" where
  "lift_sum r s = (r, s)"

definition gets :: "('s \<Rightarrow> 'a) \<Rightarrow> ('s, 'a) act" where
  "gets f s = (Inr (f s), s)"

definition modify :: "('s \<Rightarrow> 's) \<Rightarrow> ('s, unit) act" where
  "modify f s = (Inr (), f s)"

text \<open>\<open>try: m except ...: h\<close>; the handler decides by the exception and sees the state it left.\<close>

definition catch_act :: "('s, 'a) act \<Rightarrow> (exn \<Rightarrow> ('s, 'a) act) \<Rightarrow> ('s, 'a) act" where
  "catch_act m h s = (case m s of (Inl e, s') \<Rightarrow> h e s' | (Inr x, s') \<Rightarrow> (Inr x, s'))"

fun for_each :: "('a \<Rightarrow> ('s, unit) act) \<Rightarrow> 'a list \<Rightarrow> ('s, unit) act" where
  "for_each f [] = ret ()"
| "for_each f (x # xs) = bind_act (f x) (\<lambda>_. for_each f xs)"

definition keeps :: "('s \<Rightarrow> 's \<Rightarrow> bool) \<Rightarrow> ('s, 'a) act \<Rightarrow> bool" where
  "keeps R m \<longleftrightarrow> (\<forall>s. R s (snd (m s)))"

lemma keepsD: "keeps R m \<Longrightarrow> m s = (r, s') \<Longrightarrow> R s s'"
  by (metis keeps_def snd_conv)

locale frame =
  fixes R :: "'s \<Rightarrow> 's \<Rightarrow> bool"
  assumes refl: "R s s"
    and trans: "R s t \<Longrightarrow> R t u \<Longrightarrow> R s u"
begin

lemma keeps_ret: "keeps R (ret x)"
  by (simp add: keeps_def ret_def refl)

lemma keeps_raise: "keeps R (raise_exn e)"
  by (simp add: keeps_def raise_exn_def refl)

lemma keeps_lift: "keeps R (lift_sum r)"
  by (simp add: keeps_def lift_sum_def refl)

lemma keeps_gets: "keeps R (gets f)"
  by (simp add: keeps_def gets_def refl)

lemma keeps_modify: "(\<And>s. R s (f s)) \<Longrightarrow> keeps R (modify f)"
  by (simp add: keeps_def modify_def)

lemma keeps_bind:
  assumes "keeps R m" "\<And>x. keeps R (f x)"
  shows "keeps R (bind_act m f)"
  unfolding keeps_def
proof
  fix s
  obtain r s' where m: "m s = (r, s')" by fastforce
  then have R: "R s s'" using assms(1) by (auto dest: keepsD)
  show "R s (snd (bind_act m f s))"
  proof (cases r)
    case (Inr x)
    have "R s' (snd (f x s'))" using assms(2) by (simp add: keeps_def)
    with R show ?thesis unfolding bind_act_def m Inr by (simp add: local.trans)
  qed (simp add: bind_act_def m R)
qed

lemma after_bind:
  assumes "m s = (r, s')" "\<And>x. keeps R (f x)"
  shows "R s' (snd (bind_act m f s))"
  using assms by (cases r) (auto simp: bind_act_def refl keeps_def)

lemma keeps_option:
  "keeps R m \<Longrightarrow> (\<And>x. keeps R (f x)) \<Longrightarrow> keeps R (case opt of None \<Rightarrow> m | Some x \<Rightarrow> f x)"
  by (cases opt) simp_all

lemma keeps_sum:
  "(\<And>x. keeps R (f x)) \<Longrightarrow> (\<And>y. keeps R (g y)) \<Longrightarrow> keeps R (case v of Inl x \<Rightarrow> f x | Inr y \<Rightarrow> g y)"
  by (cases v) simp_all

lemma keeps_catch:
  assumes "keeps R m" "\<And>e. keeps R (h e)"
  shows "keeps R (catch_act m h)"
  unfolding keeps_def
proof
  fix s
  obtain r s' where m: "m s = (r, s')" by fastforce
  then have R: "R s s'" using assms(1) by (auto dest: keepsD)
  show "R s (snd (catch_act m h s))"
  proof (cases r)
    case (Inl e)
    have "R s' (snd (h e s'))" using assms(2) by (simp add: keeps_def)
    with R show ?thesis unfolding catch_act_def m Inl by (simp add: local.trans)
  qed (simp add: catch_act_def m R)
qed

lemma keeps_for_each: "(\<And>x. keeps R (f x)) \<Longrightarrow> keeps R (for_each f xs)"
  by (induction xs) (auto intro: keeps_ret keeps_bind)

lemma keeps_if: "(b \<Longrightarrow> keeps R m) \<Longrightarrow> (\<not> b \<Longrightarrow> keeps R n) \<Longrightarrow> keeps R (if b then m else n)"
  by simp

lemmas keeps_rules = keeps_ret keeps_raise keeps_lift keeps_gets keeps_modify keeps_bind
  keeps_catch keeps_for_each keeps_if keeps_option keeps_sum

end

text \<open>
  A graded frame bounds how often something happens: grades add up along a sequence of operations
  and may be relaxed.
\<close>

locale graded_frame =
  fixes R :: "nat \<Rightarrow> 's \<Rightarrow> 's \<Rightarrow> bool"
  assumes refl0: "R 0 s s"
    and trans_add: "R m s t \<Longrightarrow> R n t u \<Longrightarrow> R (m + n) s u"
    and relax: "R m s t \<Longrightarrow> m \<le> n \<Longrightarrow> R n s t"
begin

lemma refl_any: "R n s s"
  using relax [OF refl0] by simp

lemma keeps_relax: "keeps (R m) a \<Longrightarrow> m \<le> n \<Longrightarrow> keeps (R n) a"
  unfolding keeps_def using relax by blast

lemma keeps_pure: "keeps (R n) (ret x)" "keeps (R n) (raise_exn e)" "keeps (R n) (lift_sum r)"
  "keeps (R n) (gets f)"
  by (simp_all add: keeps_def ret_def raise_exn_def lift_sum_def gets_def refl_any)

lemma keeps_modify: "(\<And>s. R n s (f s)) \<Longrightarrow> keeps (R n) (modify f)"
  by (simp add: keeps_def modify_def)

lemma keeps_bind:
  assumes "keeps (R m) a" "\<And>x. keeps (R n) (f x)"
  shows "keeps (R (m + n)) (bind_act a f)"
  unfolding keeps_def
proof
  fix s
  obtain r s' where a: "a s = (r, s')" by fastforce
  then have R: "R m s s'" using assms(1) by (auto dest: keepsD)
  show "R (m + n) s (snd (bind_act a f s))"
  proof (cases r)
    case (Inl e)
    then show ?thesis using relax [OF R, of "m + n"] by (simp add: bind_act_def a)
  next
    case (Inr x)
    have "R n s' (snd (f x s'))" using assms(2) by (simp add: keeps_def)
    with R show ?thesis unfolding bind_act_def a Inr by (simp add: trans_add)
  qed
qed

lemma keeps_bind0: "keeps (R 0) a \<Longrightarrow> (\<And>x. keeps (R n) (f x)) \<Longrightarrow> keeps (R n) (bind_act a f)"
  using keeps_bind [of 0 a n f] by simp

lemma keeps_bind1: "keeps (R n) a \<Longrightarrow> (\<And>x. keeps (R 0) (f x)) \<Longrightarrow> keeps (R n) (bind_act a f)"
  using keeps_bind [of n a 0 f] by simp

lemma keeps_if: "(b \<Longrightarrow> keeps (R n) a) \<Longrightarrow> (\<not> b \<Longrightarrow> keeps (R n) c) \<Longrightarrow> keeps (R n) (if b then a else c)"
  by simp

end

text \<open>Every invariant gives a frame: it holds afterwards if it held before.\<close>

interpretation invariant_frame: frame "\<lambda>s t. P s \<longrightarrow> P t" for P
  by unfold_locales auto

text \<open>What holds of the state a sequence ends in, by what its first computation does.\<close>

lemma ends_bind:
  assumes "m s = (r, s')" "\<And>e. r = Inl e \<Longrightarrow> P s'" "\<And>x. r = Inr x \<Longrightarrow> P (snd (f x s'))"
  shows "P (snd (bind_act m f s))"
  using assms by (cases r) (auto simp: bind_act_def)

lemma ends_lift:
  assumes "\<And>e. r = Inl e \<Longrightarrow> P s" "\<And>x. r = Inr x \<Longrightarrow> P (snd (f x s))"
  shows "P (snd (bind_act (lift_sum r) f s))"
  using assms by (cases r) (auto simp: bind_act_def lift_sum_def)

lemma bind_step: "m s = (Inr x, s') \<Longrightarrow> bind_act m f s = f x s'"
  by (simp add: bind_act_def)

lemma bind_stop: "m s = (Inl e, s') \<Longrightarrow> bind_act m f s = (Inl e, s')"
  by (simp add: bind_act_def)

lemma bind_act_Inr:
  "bind_act m f s = (Inr y, s'') \<longleftrightarrow> (\<exists>x s'. m s = (Inr x, s') \<and> f x s' = (Inr y, s''))"
  by (auto simp: bind_act_def split: prod.splits sum.splits)

lemma bind_act_Inl:
  "bind_act m f s = (Inl e, s'') \<longleftrightarrow>
     m s = (Inl e, s'') \<or> (\<exists>x s'. m s = (Inr x, s') \<and> f x s' = (Inl e, s''))"
  by (auto simp: bind_act_def split: prod.splits sum.splits)

lemma act_simps [simp]:
  "ret x s = (Inr x, s)" "raise_exn e s = (Inl e, s)" "lift_sum r s = (r, s)"
  "gets f s = (Inr (f s), s)" "modify h s = (Inr (), h s)"
  by (simp_all add: ret_def raise_exn_def lift_sum_def gets_def modify_def)

end
