(* ===== verification/Render.thy ===== *)
theory Render
  imports Prelude
begin

text \<open>
  How the language prints values: \<open>str\<close> and \<open>repr\<close> of nested values and \<open>json.dumps\<close>. A float
  is a rational; one with a short decimal expansion prints as that expansion, as the language
  prints it between 0.0001 and 10 to the 16th; longer expansions stop at 17 decimals.
\<close>

fun frac_digits :: "nat \<Rightarrow> rat \<Rightarrow> string" where
  "frac_digits 0 r = []"
| "frac_digits (Suc k) r =
     (if r = 0 then [] else let d = floor (10 * r) in chr (48 + d) # frac_digits k (10 * r - of_int d))"

definition float_str :: "rat \<Rightarrow> string" where
  "float_str r =
     (let a = \<bar>r\<bar>; i = floor a; ds = frac_digits 17 (a - of_int i)
      in (if r < 0 then ''-'' else []) @ int_str i @ ''.'' @ (if ds = [] then ''0'' else ds))"

text \<open>\<open>round(x, n)\<close>: to the nearest multiple, ties to the even one.\<close>

definition py_round :: "nat \<Rightarrow> rat \<Rightarrow> rat" where
  "py_round n r =
     (let x = r * 10 ^ n; f = floor x; d = x - of_int f;
          i = (if d > 1 / 2 \<or> (d = 1 / 2 \<and> odd f) then f + 1 else f)
      in of_int i / 10 ^ n)"

definition json_char :: "char \<Rightarrow> string" where
  "json_char c = (let n = ord c in
     if n = 34 \<or> n = 92 then [chr 92, c]
     else if n = 10 then [chr 92, CHR ''n'']
     else if n = 13 then [chr 92, CHR ''r'']
     else if n = 9 then [chr 92, CHR ''t'']
     else if n = 12 then [chr 92, CHR ''f'']
     else if n = 8 then [chr 92, CHR ''b'']
     else if n < 32 \<or> n > 126
       then [chr 92, CHR ''u'', CHR ''0'', CHR ''0'', hex_digit (n div 16), hex_digit (n mod 16)]
     else [c])"

definition json_str :: "string \<Rightarrow> string" where
  "json_str s = [chr 34] @ concat (map json_char s) @ [chr 34]"

fun json_dumps :: "jv \<Rightarrow> string" where
  "json_dumps JNull = ''null''"
| "json_dumps (JBool b) = (if b then ''true'' else ''false'')"
| "json_dumps (JInt i) = int_str i"
| "json_dumps (JNum r) = float_str r"
| "json_dumps (JStr s) = json_str s"
| "json_dumps (JList xs) = ''['' @ join_with '', '' (map json_dumps xs) @ '']''"
| "json_dumps (JDict d) =
     ''{'' @ join_with '', '' (map (\<lambda>(k, v). json_str k @ '': '' @ json_dumps v) d) @ ''}''"

fun repr_jv :: "jv \<Rightarrow> string" where
  "repr_jv JNull = ''None''"
| "repr_jv (JBool b) = (if b then ''True'' else ''False'')"
| "repr_jv (JInt i) = int_str i"
| "repr_jv (JNum r) = float_str r"
| "repr_jv (JStr s) = py_repr s"
| "repr_jv (JList xs) = ''['' @ join_with '', '' (map repr_jv xs) @ '']''"
| "repr_jv (JDict d) =
     ''{'' @ join_with '', '' (map (\<lambda>(k, v). py_repr k @ '': '' @ repr_jv v) d) @ ''}''"

fun str_jv :: "jv \<Rightarrow> string" where
  "str_jv (JStr s) = s"
| "str_jv v = repr_jv v"

end
