(* ===== verification/Http_Client.thy ===== *)
theory Http_Client
  imports Sandbox Effects Render
begin

text \<open>
  \<open>app/security/http_client.py\<close>: the one path by which requests reach a target. A client's
  state holds the guard with its request counter, the token bucket, the optional sandbox and the
  health counters. What lies outside the program is a \<open>world\<close>: clocks, the resolver and the HTTP
  library, each read at a moment \<open>cl_tick\<close> that advances with every reading, so two lookups of
  the same name may differ. \<open>cl_sent\<close> and \<open>cl_notified\<close> record the calls of the library's
  \<open>send\<close> and of the accounting callback. Float quantities are rationals.
\<close>

section \<open>Token bucket\<close>

record rate_limiter =
  rl_rate :: rat
  rl_capacity :: rat
  rl_tokens :: rat
  rl_updated :: rat

definition new_limiter :: "rat \<Rightarrow> rat option \<Rightarrow> rat \<Rightarrow> rate_limiter" where
  "new_limiter rate_per_sec burst now =
     (let rate = max rate_per_sec (1 / 10);
          capacity = (case burst of Some b \<Rightarrow> b | None \<Rightarrow> max rate 1)
      in \<lparr>rl_rate = rate, rl_capacity = capacity, rl_tokens = capacity, rl_updated = now\<rparr>)"

definition refill :: "rat \<Rightarrow> rate_limiter \<Rightarrow> rate_limiter" where
  "refill now rl =
     rl\<lparr>rl_tokens := min (rl_capacity rl) (rl_tokens rl + (now - rl_updated rl) * rl_rate rl),
        rl_updated := now\<rparr>"

definition wait_time :: "rate_limiter \<Rightarrow> rat" where
  "wait_time rl = (1 - rl_tokens rl) / rl_rate rl"

text \<open>
  \<open>acquire\<close> with the clock before and, where it sleeps, the clock after the sleep.
\<close>

definition acquire :: "rat \<Rightarrow> rat \<Rightarrow> rate_limiter \<Rightarrow> rate_limiter" where
  "acquire now later rl =
     (let rl' = refill now rl
      in if rl_tokens rl' < 1 then rl'\<lparr>rl_tokens := 0, rl_updated := later\<rparr>
         else rl'\<lparr>rl_tokens := rl_tokens rl' - 1\<rparr>)"

section \<open>Requests and replies\<close>

record http_request =
  rq_method :: string
  rq_url :: string
  rq_headers :: dict
  rq_params :: dict
  rq_data :: jv
  rq_json :: jv
  rq_connect :: "string option"
  rq_host_header :: "string option"
  rq_sni :: "string option"

record http_reply =
  rp_status :: int
  rp_headers :: "(string \<times> string) list"
  rp_text :: string
  rp_content_len :: int
  rp_url :: string

record guarded_response =
  gr_status_code :: int
  gr_headers :: "(string \<times> string) list"
  gr_text :: string
  gr_elapsed_ms :: rat
  gr_url :: string
  gr_request_method :: string
  gr_request_headers :: dict
  gr_request_body :: "string option"

text \<open>
  \<open>wd_send\<close> answers a request or fails with the text of an \<open>httpx.HTTPError\<close>; reply headers
  have lower-case names, as the library lists them. \<open>wd_build_error\<close> is the exception with
  which the library refuses to build a request, if it does. \<open>wd_join\<close> resolves a location
  against the URL of a reply.
\<close>

record world =
  wd_dns :: "nat \<Rightarrow> dns"
  wd_now :: "nat \<Rightarrow> int"
  wd_monotonic :: "nat \<Rightarrow> rat"
  wd_perf :: "nat \<Rightarrow> rat"
  wd_send :: "nat \<Rightarrow> http_request \<Rightarrow> string + http_reply"
  wd_build_error :: "string \<Rightarrow> string \<Rightarrow> exn option"
  wd_join :: "string \<Rightarrow> string \<Rightarrow> string"

record http_client =
  cl_guard :: guard
  cl_rate :: rate_limiter
  cl_sandbox :: "sandbox option"
  cl_on_request :: bool
  cl_open :: bool
  cl_request_count :: int
  cl_error_count :: int
  cl_consecutive_errors :: int
  cl_tick :: nat
  cl_sent :: "http_request list"
  cl_notified :: "int list"

definition new_client :: "world \<Rightarrow> nat \<Rightarrow> guard \<Rightarrow> bool \<Rightarrow> sandbox option \<Rightarrow> http_client" where
  "new_client w t g on_request sb =
     \<lparr>cl_guard = g,
      cl_rate = new_limiter
        (if az_rate_limit_per_sec (g_record g) \<noteq> 0 then az_rate_limit_per_sec (g_record g)
         else default_rate_limit_per_sec (g_settings g)) None (wd_monotonic w t),
      cl_sandbox = sb, cl_on_request = on_request, cl_open = False, cl_request_count = 0,
      cl_error_count = 0, cl_consecutive_errors = 0, cl_tick = Suc t, cl_sent = [],
      cl_notified = []\<rparr>"

definition aenter :: "http_client \<Rightarrow> http_client" where
  "aenter c = c\<lparr>cl_open := True\<rparr>"

definition unhealthy :: "http_client \<Rightarrow> bool" where
  "unhealthy c \<longleftrightarrow>
     cl_consecutive_errors c \<ge> target_health_max_consecutive_errors (g_settings (cl_guard c))"

text \<open>A reading of the world at the client's moment, which then passes.\<close>

definition observe :: "(nat \<Rightarrow> 'a) \<Rightarrow> (http_client, 'a) act" where
  "observe f c = (Inr (f (cl_tick c)), c\<lparr>cl_tick := Suc (cl_tick c)\<rparr>)"

definition body_repr :: "jv \<Rightarrow> jv \<Rightarrow> string option" where
  "body_repr data json =
     (if json \<noteq> JNull then Some (take 4096 (json_dumps json))
      else if data \<noteq> JNull then Some (take 4096 (str_jv data))
      else None)"

text \<open>
  \<open>_build_pinned\<close>: the request that is sent. \<open>rq_connect\<close> is the address the connection is
  pinned to; without one the library resolves the URL's own host.
\<close>

definition plain_request :: "string \<Rightarrow> string \<Rightarrow> dict \<Rightarrow> dict \<Rightarrow> jv \<Rightarrow> jv \<Rightarrow> http_request" where
  "plain_request method url headers params data json =
     \<lparr>rq_method = method, rq_url = url, rq_headers = headers, rq_params = params, rq_data = data,
      rq_json = json, rq_connect = None, rq_host_header = None, rq_sni = None\<rparr>"

definition pin_request :: "http_request \<Rightarrow> string \<Rightarrow> string \<Rightarrow> int \<Rightarrow> string list \<Rightarrow> http_request" where
  "pin_request req scheme host port ips =
     (if ip_address host \<noteq> None then req
      else case ips of [] \<Rightarrow> req
      | pinned # _ \<Rightarrow>
        if pinned = [] then req
        else let default_port = (if scheme = ''https'' then 443 else 80);
                 host_header = (if port = default_port then host else host @ '':'' @ int_str port)
             in req\<lparr>rq_connect := Some pinned, rq_host_header := Some host_header,
                    rq_sni := Some host\<rparr>)"

definition build_pinned ::
  "world \<Rightarrow> string \<Rightarrow> string \<Rightarrow> string list \<Rightarrow> dict \<Rightarrow> dict \<Rightarrow> jv \<Rightarrow> jv \<Rightarrow> exn + http_request" where
  "build_pinned w method url ips headers params data json =
     (case wd_build_error w method url of
        Some e \<Rightarrow> Inl e
      | None \<Rightarrow>
        let req = plain_request method url headers params data json
        in (case parse_url url of
              Inl (NetGuardError _) \<Rightarrow> Inr req
            | Inl e \<Rightarrow> Inl e
            | Inr (scheme, host, port, _) \<Rightarrow> Inr (pin_request req scheme host port ips)))"

definition rebinding_violation :: "string \<Rightarrow> host_info \<Rightarrow> string list \<Rightarrow> exn option" where
  "rebinding_violation host info validated =
     (let fresh = sorted_set (filter (\<lambda>ip. ip \<notin> set validated) (resolved_ips info)) in
      if (is_hard_blocked info \<or> is_private info \<or> is_loopback info) \<and> validated \<noteq> [] \<and>
         \<not> list_ex (\<lambda>ip. ip \<in> set validated) (resolved_ips info)
      then Some (ScopeViolation (''DNS rebinding detected: '' @ host @ '' now resolves to ''
              @ repr_list (resolved_ips info) @ '' (was '' @ repr_list validated @ '')'') ''dns_rebinding''
            [(''host'', JStr host), (''now'', JList (map JStr (resolved_ips info))),
             (''validated'', JList (map JStr validated))])
      else if validated \<noteq> [] \<and> fresh \<noteq> []
      then Some (ScopeViolation (''DNS rebinding detected: '' @ host @ '' resolution changed, new IPs ''
              @ repr_list fresh) ''dns_rebinding''
            [(''host'', JStr host), (''new_ips'', JList (map JStr fresh)),
             (''validated'', JList (map JStr validated))])
      else None)"

definition assert_no_rebinding :: "dns \<Rightarrow> string \<Rightarrow> string list \<Rightarrow> exn + unit" where
  "assert_no_rebinding dns url validated =
     (case parse_url url of
        Inl (NetGuardError _) \<Rightarrow> Inr ()
      | Inl e \<Rightarrow> Inl e
      | Inr (_, host, port, _) \<Rightarrow>
        (case resolve_host dns host port True of
           Inl (NetGuardError _) \<Rightarrow> Inr ()
         | Inl e \<Rightarrow> Inl e
         | Inr info \<Rightarrow>
           (case rebinding_violation host info validated of Some e \<Rightarrow> Inl e | None \<Rightarrow> Inr ())))"

text \<open>The addresses, host and port a decision carries: \<open>decision.details.get(...)\<close>.\<close>

definition decision_ips :: "scope_decision \<Rightarrow> string list" where
  "decision_ips d = (case dget (sd_details d) ''ips'' of
     Some (JList xs) \<Rightarrow> map str_jv xs | _ \<Rightarrow> [])"

definition decision_host :: "scope_decision \<Rightarrow> string" where
  "decision_host d = (case dget (sd_details d) ''host'' of Some (JStr h) \<Rightarrow> h | _ \<Rightarrow> [])"

definition decision_port :: "scope_decision \<Rightarrow> int" where
  "decision_port d = (case dget (sd_details d) ''port'' of Some (JInt p) \<Rightarrow> p | _ \<Rightarrow> 0)"

section \<open>One request\<close>

definition rate_acquire :: "world \<Rightarrow> (http_client, unit) act" where
  "rate_acquire w =
     bind_act (observe (wd_monotonic w)) (\<lambda>now.
     bind_act (observe (wd_monotonic w)) (\<lambda>later.
     modify (\<lambda>c. c\<lparr>cl_rate := acquire now later (cl_rate c)\<rparr>)))"

definition note_one :: "(http_client, unit) act" where
  "note_one = modify (\<lambda>c. c\<lparr>cl_guard := note_requests 1 (cl_guard c)\<rparr>)"

definition gate_active :: "world \<Rightarrow> (http_client, unit) act" where
  "gate_active w =
     bind_act (observe (wd_now w)) (\<lambda>now.
     bind_act (gets (\<lambda>c. check_record_active (cl_guard c) now)) (\<lambda>d. lift_sum (raise_if_denied d)))"

definition gate_budget :: "(http_client, unit) act" where
  "gate_budget =
     bind_act (gets (\<lambda>c. check_budget (cl_guard c) 1)) (\<lambda>d. lift_sum (raise_if_denied d))"

definition scope_check :: "world \<Rightarrow> string \<Rightarrow> string \<Rightarrow> bool \<Rightarrow> (http_client, scope_decision) act" where
  "scope_check w method url is_redirect =
     bind_act (observe (wd_dns w)) (\<lambda>dns.
     bind_act (gets (\<lambda>c. check_request dns (cl_guard c) method url is_redirect)) lift_sum)"

definition gate_sandbox :: "world \<Rightarrow> scope_decision \<Rightarrow> (http_client, unit) act" where
  "gate_sandbox w d =
     bind_act (gets cl_sandbox) (\<lambda>sb. case sb of
        None \<Rightarrow> ret ()
      | Some s \<Rightarrow> bind_act (observe (wd_dns w)) (\<lambda>dns.
          lift_sum (assert_egress_allowed dns s (decision_host d) (decision_port d))))"

definition notify :: "(http_client, unit) act" where
  "notify = modify (\<lambda>c. if cl_on_request c
     then c\<lparr>cl_notified := cl_notified c @ [g_requests_made (cl_guard c)]\<rparr> else c)"

text \<open>
  One pass of the loop's \<open>try\<close>: count, build, send. An \<open>httpx.HTTPError\<close> becomes
  TargetUnreachable and counts as a failure; any other exception leaves as it is.
\<close>

definition send_once ::
  "world \<Rightarrow> string \<Rightarrow> string \<Rightarrow> string list \<Rightarrow> dict \<Rightarrow> dict \<Rightarrow> jv \<Rightarrow> jv \<Rightarrow> (http_client, http_reply) act" where
  "send_once w method url ips headers params data json =
     bind_act (modify (\<lambda>c. c\<lparr>cl_request_count := cl_request_count c + 1\<rparr>)) (\<lambda>_.
     bind_act (lift_sum (build_pinned w method url ips headers params data json)) (\<lambda>req.
     bind_act (modify (\<lambda>c. c\<lparr>cl_sent := cl_sent c @ [req]\<rparr>)) (\<lambda>_.
     bind_act (observe (\<lambda>t. wd_send w t req)) (\<lambda>answer. case answer of
        Inl msg \<Rightarrow>
          bind_act (modify (\<lambda>c. c\<lparr>cl_error_count := cl_error_count c + 1,
                                   cl_consecutive_errors := cl_consecutive_errors c + 1\<rparr>)) (\<lambda>_.
          raise_exn (TargetUnreachable (''request to '' @ url @ '' failed: '' @ msg)))
      | Inr resp \<Rightarrow>
          bind_act (modify (\<lambda>c. c\<lparr>cl_consecutive_errors := 0\<rparr>)) (\<lambda>_. ret resp)))))"

definition redirect_status :: "int \<Rightarrow> bool" where
  "redirect_status s \<longleftrightarrow> s \<in> set [301, 302, 303, 307, 308]"

definition final_response ::
  "http_reply \<Rightarrow> rat \<Rightarrow> string \<Rightarrow> dict \<Rightarrow> jv \<Rightarrow> jv \<Rightarrow> guarded_response" where
  "final_response resp elapsed method headers data json =
     \<lparr>gr_status_code = rp_status resp, gr_headers = rp_headers resp,
      gr_text = (if rp_content_len resp < 2000000 then rp_text resp else take 2000000 (rp_text resp)),
      gr_elapsed_ms = elapsed, gr_url = rp_url resp, gr_request_method = method,
      gr_request_headers = headers, gr_request_body = body_repr data json\<rparr>"

text \<open>The re-authorization of a redirect's target, with its budget, rate and accounting.\<close>

definition authorize_hop :: "world \<Rightarrow> string \<Rightarrow> (http_client, string list) act" where
  "authorize_hop w location =
     bind_act (scope_check w ''GET'' location True) (\<lambda>d.
     if \<not> sd_allowed d
     then raise_exn (ScopeViolation (''redirect to out-of-scope location blocked: '' @ sd_reason d)
                       (sd_code d) (sd_details d))
     else bind_act gate_budget (\<lambda>_.
          bind_act (rate_acquire w) (\<lambda>_.
          bind_act note_one (\<lambda>_. ret (decision_ips d)))))"

text \<open>
  The loop, by the number of redirects it may still follow; \<open>max_redirects - redirects\<close> in the
  code. With none left a redirect is the answer.
\<close>

fun follow ::
  "world \<Rightarrow> nat \<Rightarrow> string \<Rightarrow> string \<Rightarrow> string list \<Rightarrow> dict \<Rightarrow> dict \<Rightarrow> jv \<Rightarrow> jv \<Rightarrow> (http_client, guarded_response) act" where
  "follow w left method url ips headers params data json =
     bind_act (observe (wd_perf w)) (\<lambda>start.
     bind_act (send_once w method url ips headers params data json) (\<lambda>resp.
     bind_act (observe (wd_perf w)) (\<lambda>stop.
       let elapsed = (stop - start) * 1000 in
       case (if redirect_status (rp_status resp) then dget (rp_headers resp) ''location'' else None) of
         None \<Rightarrow> ret (final_response resp elapsed method headers data json)
       | Some loc \<Rightarrow>
         (case left of
            0 \<Rightarrow> ret (final_response resp elapsed method headers data json)
          | Suc left' \<Rightarrow>
            let location = wd_join w (rp_url resp) loc;
                drop_body = rp_status resp \<in> set [301, 302, 303]
            in bind_act (authorize_hop w location) (\<lambda>ips'.
               follow w left' (if drop_body then ''GET'' else method) location ips' headers params
                 (if drop_body then JNull else data) (if drop_body then JNull else json))))))"

text \<open>The gates in front of the first send.\<close>

definition preconditions :: "world \<Rightarrow> string \<Rightarrow> string \<Rightarrow> (http_client, scope_decision) act" where
  "preconditions w method url =
     bind_act (gate_active w) (\<lambda>_.
     bind_act gate_budget (\<lambda>_.
     bind_act (scope_check w method url False) (\<lambda>d.
     bind_act (lift_sum (raise_if_denied d)) (\<lambda>_.
     bind_act (observe (wd_dns w)) (\<lambda>dns.
     bind_act (lift_sum (assert_no_rebinding dns url (decision_ips d))) (\<lambda>_.
     bind_act (gate_sandbox w d) (\<lambda>_. ret d)))))))"

definition request ::
  "world \<Rightarrow> string \<Rightarrow> string \<Rightarrow> dict \<Rightarrow> dict \<Rightarrow> jv \<Rightarrow> jv \<Rightarrow> int \<Rightarrow> (http_client, guarded_response) act" where
  "request w method url headers params data json max_redirects =
     bind_act (gets cl_open) (\<lambda>is_open.
     if \<not> is_open
     then raise_exn (RuntimeError ''GuardedHttpClient must be used as an async context manager'')
     else bind_act (preconditions w method url) (\<lambda>d.
          bind_act (rate_acquire w) (\<lambda>_.
          bind_act note_one (\<lambda>_.
          bind_act notify (\<lambda>_.
          follow w (nat max_redirects) method url (decision_ips d) headers params data json)))))"

definition get_url :: "world \<Rightarrow> string \<Rightarrow> dict \<Rightarrow> (http_client, guarded_response) act" where
  "get_url w url params = request w ''GET'' url [] params JNull JNull 3"

declare follow.simps [simp del]

section \<open>Frames\<close>

text \<open>
  What the gates and the limiter leave alone: the guard with its counter, what was sent, the
  sandbox and the health counters.
\<close>

definition quiet :: "http_client \<Rightarrow> http_client \<Rightarrow> bool" where
  "quiet c c' \<longleftrightarrow> cl_guard c' = cl_guard c \<and> cl_sent c' = cl_sent c \<and> cl_sandbox c' = cl_sandbox c \<and>
     cl_open c' = cl_open c \<and> cl_on_request c' = cl_on_request c \<and>
     cl_request_count c' = cl_request_count c \<and> cl_error_count c' = cl_error_count c \<and>
     cl_consecutive_errors c' = cl_consecutive_errors c"

interpretation quiet_frame: frame quiet
  by unfold_locales (auto simp: quiet_def)

lemma quiet_observe: "keeps quiet (observe f)"
  by (simp add: keeps_def observe_def quiet_def)

lemma quiet_rate_acquire: "keeps quiet (rate_acquire w)"
  unfolding rate_acquire_def
  by (intro quiet_frame.keeps_bind quiet_observe quiet_frame.keeps_modify) (simp add: quiet_def)

lemma quiet_notify: "keeps quiet notify"
  unfolding notify_def by (rule quiet_frame.keeps_modify) (simp add: quiet_def)

lemma quiet_gate_active: "keeps quiet (gate_active w)"
  unfolding gate_active_def
  by (intro quiet_frame.keeps_bind quiet_observe quiet_frame.keeps_gets quiet_frame.keeps_lift)

lemma quiet_gate_budget: "keeps quiet gate_budget"
  unfolding gate_budget_def
  by (intro quiet_frame.keeps_bind quiet_frame.keeps_gets quiet_frame.keeps_lift)

lemma quiet_scope_check: "keeps quiet (scope_check w m url red)"
  unfolding scope_check_def
  by (intro quiet_frame.keeps_bind quiet_observe quiet_frame.keeps_gets quiet_frame.keeps_lift)

lemma quiet_gate_sandbox: "keeps quiet (gate_sandbox w d)"
  unfolding gate_sandbox_def
proof (rule quiet_frame.keeps_bind [OF quiet_frame.keeps_gets])
  fix sb
  show "keeps quiet (case sb of None \<Rightarrow> ret ()
      | Some s \<Rightarrow> bind_act (observe (wd_dns w)) (\<lambda>dns.
          lift_sum (assert_egress_allowed dns s (decision_host d) (decision_port d))))"
    by (cases sb) (auto intro: quiet_frame.keeps_ret quiet_frame.keeps_bind quiet_observe
        quiet_frame.keeps_lift)
qed

lemmas quiet_gates = quiet_rate_acquire quiet_notify quiet_gate_active quiet_gate_budget
  quiet_scope_check quiet_gate_sandbox quiet_observe

lemma quiet_preconditions: "keeps quiet (preconditions w m url)"
  unfolding preconditions_def
  by (intro quiet_frame.keeps_bind quiet_gates quiet_frame.keeps_lift quiet_frame.keeps_ret)

lemma raise_if_denied_Inr: "raise_if_denied d = Inr u \<longleftrightarrow> sd_allowed d"
  by (simp add: raise_if_denied_def)

lemma gate_budget_Inr: "gate_budget c = (Inr u, c') \<longleftrightarrow> c' = c \<and> sd_allowed (check_budget (cl_guard c) 1)"
  by (auto simp: gate_budget_def bind_act_Inr raise_if_denied_Inr raise_if_denied_def)

lemma gate_active_Inr:
  "gate_active w c = (Inr u, c') \<longleftrightarrow>
     c' = c\<lparr>cl_tick := Suc (cl_tick c)\<rparr> \<and> sd_allowed (check_record_active (cl_guard c) (wd_now w (cl_tick c)))"
  by (auto simp: gate_active_def bind_act_Inr observe_def raise_if_denied_def)

lemma scope_check_Inr:
  "scope_check w m url red c = (Inr d, c') \<longleftrightarrow>
     c' = c\<lparr>cl_tick := Suc (cl_tick c)\<rparr> \<and> check_request (wd_dns w (cl_tick c)) (cl_guard c) m url red = Inr d"
  by (auto simp: scope_check_def bind_act_Inr observe_def)

text \<open>The gates opened: which checks passed, each at its own moment.\<close>

lemma preconditions_Inr:
  assumes "preconditions w m url c = (Inr d, c')"
  shows "sd_allowed (check_record_active (cl_guard c) (wd_now w (cl_tick c))) \<and>
     sd_allowed (check_budget (cl_guard c) 1) \<and>
     check_request (wd_dns w (Suc (cl_tick c))) (cl_guard c) m url False = Inr d \<and> sd_allowed d \<and>
     assert_no_rebinding (wd_dns w (Suc (Suc (cl_tick c)))) url (decision_ips d) = Inr () \<and>
     quiet c c'"
proof -
  have "quiet c c'"
    using assms by (rule keepsD [OF quiet_preconditions])
  then show ?thesis
    using assms unfolding preconditions_def bind_act_Inr gate_active_Inr gate_budget_Inr scope_check_Inr
    by (auto simp: observe_def raise_if_denied_Inr)
qed

section \<open>What is sent\<close>

text \<open>
  A request is authorized when, at some moment, the guard allows its own method and URL, and it
  connects only to the first address that decision validated.
\<close>

definition authorized_request :: "world \<Rightarrow> guard \<Rightarrow> http_request \<Rightarrow> bool" where
  "authorized_request w g req \<longleftrightarrow>
     (\<exists>t d scheme host port path.
        check_request (wd_dns w t) g (rq_method req) (rq_url req) False = Inr d \<and> sd_allowed d \<and>
        parse_url (rq_url req) = Inr (scheme, host, port, path) \<and>
        (if ip_address host \<noteq> None \<or> decision_ips d = [] \<or> hd (decision_ips d) = []
         then rq_connect req = None
         else rq_connect req = Some (hd (decision_ips d)) \<and> rq_sni req = Some host))"

lemma authorized_request_note [simp]:
  "authorized_request w (note_requests n g) = authorized_request w g"
  by (simp add: fun_eq_iff authorized_request_def)

definition method_granted :: "guard \<Rightarrow> string \<Rightarrow> bool" where
  "method_granted g m \<longleftrightarrow> (g_allowed_methods g = [] \<or> m \<in> set (g_allowed_methods g)) \<and>
     (m \<in> set STATE_CHANGING_METHODS \<longrightarrow> az_allow_state_changing (g_record g))"

lemma method_granted_note [simp]: "method_granted (note_requests n g) = method_granted g"
  by (simp add: fun_eq_iff method_granted_def)

lemma grants_method: "grants dns g m url u info \<Longrightarrow> method_granted g m"
  by (auto simp: grants_def method_granted_def split: prod.splits)

lemma grants_other_method:
  "grants dns g m url u info \<Longrightarrow> method_granted g m' \<Longrightarrow> grants dns g m' url u info"
  by (auto simp: grants_def method_granted_def split: prod.splits)

text \<open>
  A destination the guard allows for one method it allows for every method it grants, with the
  same addresses: a redirect re-authorized as GET covers the method that is really sent.
\<close>

lemma check_request_other_method:
  assumes "check_request dns g m url red = Inr d" "sd_allowed d" "method_granted g (str_upper m')"
  obtains d' where "check_request dns g m' url red' = Inr d'" "sd_allowed d'"
    "sd_details d' = sd_details d"
proof -
  obtain u info where g: "grants dns g (str_upper m) url u info" and d: "sd_details d = grant_details u info"
    using assms(1,2) by (rule check_request_allowed)
  show thesis
    by (rule that [OF grants_check_request [OF grants_other_method [OF g assms(3)]]]) (simp_all add: d)
qed

lemma build_pinned_cases:
  assumes "build_pinned w m url ips hs ps data json = Inr req" "parse_url url = Inr (scheme, host, port, path)"
  shows "rq_method req = m \<and> rq_url req = url \<and>
     (if ip_address host \<noteq> None \<or> ips = [] \<or> hd ips = [] then rq_connect req = None
      else rq_connect req = Some (hd ips) \<and> rq_sni req = Some host)"
proof -
  have "req = pin_request (plain_request m url hs ps data json) scheme host port ips"
    using assms by (simp add: build_pinned_def Let_def split: option.splits)
  then show ?thesis
    by (cases ips) (simp_all add: pin_request_def plain_request_def Let_def)
qed

lemma decision_ips_cong: "sd_details d' = sd_details d \<Longrightarrow> decision_ips d' = decision_ips d"
  by (simp add: decision_ips_def)

lemma built_is_authorized:
  assumes "build_pinned w m url (decision_ips d) hs ps data json = Inr req"
    and "check_request (wd_dns w t) g m0 url red = Inr d" "sd_allowed d"
    and "method_granted g (str_upper m)"
  shows "authorized_request w g req"
proof -
  obtain d' where d': "check_request (wd_dns w t) g m url False = Inr d'" "sd_allowed d'"
    "sd_details d' = sd_details d"
    using assms(2-4) by (rule check_request_other_method)
  obtain u where "parse_url url = Inr u"
    using assms(2,3) by (rule parse_url_of_allowed)
  then obtain scheme host port path where pu: "parse_url url = Inr (scheme, host, port, path)"
    by (cases u) auto
  show ?thesis
    using d' pu build_pinned_cases [OF assms(1) pu] decision_ips_cong [OF d'(3)]
    unfolding authorized_request_def by metis
qed

lemma send_once_cases:
  assumes "send_once w m url ips hs ps data json c = (r, c')"
  shows "cl_guard c' = cl_guard c \<and>
     ((\<exists>e. build_pinned w m url ips hs ps data json = Inl e \<and> r = Inl e \<and> cl_sent c' = cl_sent c) \<or>
      (\<exists>req. build_pinned w m url ips hs ps data json = Inr req \<and> cl_sent c' = cl_sent c @ [req]))"
proof (cases "build_pinned w m url ips hs ps data json")
  case (Inl e)
  then show ?thesis
    using assms by (auto simp: send_once_def bind_act_def)
next
  case (Inr req)
  then show ?thesis
    using assms by (cases "wd_send w (cl_tick c) req") (auto simp: send_once_def bind_act_def observe_def)
qed

lemma authorize_hop_cases:
  assumes "authorize_hop w loc c = (r, c')"
  shows "(\<exists>e. r = Inl e \<and> quiet c c') \<or>
     (\<exists>d t. r = Inr (decision_ips d) \<and> sd_allowed d \<and>
        check_request (wd_dns w t) (cl_guard c) ''GET'' loc True = Inr d \<and>
        sd_allowed (check_budget (cl_guard c) 1) \<and>
        cl_guard c' = note_requests 1 (cl_guard c) \<and> cl_sent c' = cl_sent c)"
proof (cases r)
  case (Inl e)
  let ?q = "quiet c c'"
  note unf = authorize_hop_def note_one_def
  have "\<exists>e'. authorize_hop w loc c = (Inl e', c')" using assms Inl by blast
  then have ?q
  proof -
    have sc: "scope_check w ''GET'' loc True c = (r1, c1) \<Longrightarrow> quiet c c1" for r1 c1
      by (rule keepsD [OF quiet_scope_check])
    have gb: "gate_budget c1 = (r1, c2) \<Longrightarrow> quiet c1 c2" for r1 c1 c2
      by (rule keepsD [OF quiet_gate_budget])
    have ra: "rate_acquire w c1 = (r1, c2) \<Longrightarrow> quiet c1 c2" for r1 c1 c2
      by (rule keepsD [OF quiet_rate_acquire])
    have tr: "quiet a b \<Longrightarrow> quiet b d \<Longrightarrow> quiet a d" for a b d
      by (rule quiet_frame.trans)
    show ?thesis
      using assms Inl unfolding unf bind_act_Inl
      by (auto simp: bind_act_Inl split: if_splits dest!: sc gb ra intro: tr)
  qed
  with Inl show ?thesis by blast
next
  case (Inr ips)
  then show ?thesis
    using assms unfolding authorize_hop_def bind_act_Inr scope_check_Inr
    by (auto simp: bind_act_Inr gate_budget_Inr note_one_def scope_check_Inr split: if_splits
        dest!: keepsD [OF quiet_rate_acquire] simp: quiet_def)
qed

text \<open>
  What following redirects does to a client: at most \<open>n\<close> further requests are noted, one send
  more than that at most, every send is authorized, and a budget that held still holds.
\<close>

definition progress :: "world \<Rightarrow> nat \<Rightarrow> http_client \<Rightarrow> http_client \<Rightarrow> bool" where
  "progress w n c c' \<longleftrightarrow>
     (\<exists>k reqs. k \<le> n \<and> cl_guard c' = note_requests (int k) (cl_guard c) \<and>
        cl_sent c' = cl_sent c @ reqs \<and> length reqs \<le> Suc k \<and>
        (\<forall>req \<in> set reqs. authorized_request w (cl_guard c) req) \<and>
        (budget_limit (cl_guard c) = 0 \<or> k = 0 \<or>
           g_requests_made (cl_guard c) + int k \<le> budget_limit (cl_guard c)))"

lemma progress_one:
  assumes "cl_guard c' = cl_guard c" "cl_sent c' = cl_sent c @ reqs" "length reqs \<le> 1"
    "\<forall>req \<in> set reqs. authorized_request w (cl_guard c) req"
  shows "progress w n c c'"
  unfolding progress_def using assms
  by (intro exI [of _ 0] exI [of _ reqs]) (simp add: note_requests_def)

lemma note_requests_add: "note_requests m (note_requests n g) = note_requests (n + m) g"
  by (simp add: note_requests_def add.assoc)

lemma progress_step:
  assumes c1: "cl_guard c1 = cl_guard c" "cl_sent c1 = cl_sent c @ [req]"
    and req: "authorized_request w (cl_guard c) req"
    and b: "sd_allowed (check_budget (cl_guard c) 1)"
    and c2: "cl_guard c2 = note_requests 1 (cl_guard c1)" "cl_sent c2 = cl_sent c1"
    and p: "progress w n c2 c3"
  shows "progress w (Suc n) c c3"
proof -
  obtain k reqs where k: "k \<le> n" "cl_guard c3 = note_requests (int k) (cl_guard c2)"
    "cl_sent c3 = cl_sent c2 @ reqs" "length reqs \<le> Suc k"
    "\<forall>req \<in> set reqs. authorized_request w (cl_guard c2) req"
    and bud: "budget_limit (cl_guard c2) = 0 \<or> k = 0 \<or>
           g_requests_made (cl_guard c2) + int k \<le> budget_limit (cl_guard c2)"
    using p unfolding progress_def by blast
  have "cl_guard c3 = note_requests (int (Suc k)) (cl_guard c)"
    using k c1 c2 by (simp add: note_requests_add algebra_simps)
  moreover have "cl_sent c3 = cl_sent c @ (req # reqs)" using k c1 c2 by simp
  moreover have "\<forall>r \<in> set (req # reqs). authorized_request w (cl_guard c) r"
    using k req c1 c2 by simp
  moreover have "budget_limit (cl_guard c) = 0 \<or> Suc k = 0 \<or>
      g_requests_made (cl_guard c) + int (Suc k) \<le> budget_limit (cl_guard c)"
    using bud b c1 c2 by (auto simp: check_budget_iff)
  ultimately show ?thesis
    unfolding progress_def using k(1,4)
    by (intro exI [of _ "Suc k"] exI [of _ "req # reqs"]) simp
qed

lemma follow_progress:
  assumes "follow w left m url (decision_ips d) hs ps data json c = (r, c')"
    and "check_request (wd_dns w t) (cl_guard c) m0 url red = Inr d" "sd_allowed d"
    and "method_granted (cl_guard c) (str_upper m)"
  shows "progress w left c c'"
  using assms
proof (induction left arbitrary: m url d m0 red t data json c r c')
  case base: 0
  let ?b = "build_pinned w m url (decision_ips d) hs ps data json"
  obtain c0 where c0: "observe (wd_perf w) c = (Inr (wd_perf w (cl_tick c)), c0)" "quiet c c0"
    by (simp add: observe_def quiet_def)
  obtain r1 c1 where s: "send_once w m url (decision_ips d) hs ps data json c0 = (r1, c1)"
    by fastforce
  have auth: "?b = Inr req \<Longrightarrow> authorized_request w (cl_guard c) req" for req
    using base.prems(2-4) built_is_authorized by blast
  have "cl_guard c' = cl_guard c1 \<and> cl_sent c' = cl_sent c1"
    using base.prems(1) c0 s unfolding follow.simps [of w 0]
    by (auto simp: bind_act_def observe_def Let_def split: sum.splits option.splits)
  with send_once_cases [OF s] c0 auth show ?case
    by (auto simp: quiet_def intro: progress_one [of _ _ "[]"] progress_one [of _ _ "[_]"])
next
  case (Suc left)
  let ?b = "build_pinned w m url (decision_ips d) hs ps data json"
  obtain c0 where c0: "observe (wd_perf w) c = (Inr (wd_perf w (cl_tick c)), c0)" "quiet c c0"
    by (simp add: observe_def quiet_def)
  obtain r1 c1 where s: "send_once w m url (decision_ips d) hs ps data json c0 = (r1, c1)"
    by fastforce
  have auth: "?b = Inr req \<Longrightarrow> authorized_request w (cl_guard c) req" for req
    using Suc.prems(2-4) built_is_authorized by blast
  have stop: "progress w (Suc left) c c'" if "cl_guard c' = cl_guard c1 \<and> cl_sent c' = cl_sent c1"
    using that send_once_cases [OF s] c0 auth
    by (auto simp: quiet_def intro: progress_one [of _ _ "[]"] progress_one [of _ _ "[_]"])
  show ?case
  proof (cases r1)
    case (Inl e)
    then show ?thesis
      using Suc.prems(1) c0 s unfolding follow.simps [of w "Suc left"]
      by (intro stop) (auto simp: bind_act_def)
  next
    case (Inr resp)
    then obtain req where req: "?b = Inr req" "cl_sent c1 = cl_sent c0 @ [req]" "cl_guard c1 = cl_guard c0"
      using send_once_cases [OF s] by auto
    obtain c2 where c2: "observe (wd_perf w) c1 = (Inr (wd_perf w (cl_tick c1)), c2)" "quiet c1 c2"
      by (simp add: observe_def quiet_def)
    define loc where "loc = (if redirect_status (rp_status resp) then dget (rp_headers resp) ''location'' else None)"
    show ?thesis
    proof (cases loc)
      case None
      then show ?thesis
        using Suc.prems(1) c0 s Inr c2 unfolding follow.simps [of w "Suc left"]
        by (intro stop) (auto simp: bind_act_def Let_def loc_def quiet_def)
    next
      case (Some l)
      define location where "location = wd_join w (rp_url resp) l"
      define db where "db \<longleftrightarrow> rp_status resp \<in> set [301, 302, 303]"
      obtain r3 c3 where hop: "authorize_hop w location c2 = (r3, c3)" by fastforce
      have eq: "(r, c') = (case r3 of Inl e \<Rightarrow> (Inl e, c3)
          | Inr ips' \<Rightarrow> follow w left (if db then ''GET'' else m) location ips' hs ps
              (if db then JNull else data) (if db then JNull else json) c3)"
        using Suc.prems(1) c0 s Inr c2 Some hop unfolding follow.simps [of w "Suc left"]
        by (simp only: bind_act_def prod.case sum.case Let_def loc_def [symmetric] option.case
            nat.case location_def [symmetric]
            db_def [symmetric] split: sum.splits)
      from authorize_hop_cases [OF hop] show ?thesis
      proof (elim disjE exE conjE)
        fix e assume "r3 = Inl e" "quiet c2 c3"
        with eq c2 show ?thesis by (intro stop) (auto simp: quiet_def)
      next
        fix d' t'
        assume r3: "r3 = Inr (decision_ips d')" and d': "sd_allowed d'"
          "check_request (wd_dns w t') (cl_guard c2) ''GET'' location True = Inr d'"
          and bud: "sd_allowed (check_budget (cl_guard c2) 1)"
          and c3: "cl_guard c3 = note_requests 1 (cl_guard c2)" "cl_sent c3 = cl_sent c2"
        have g2: "cl_guard c2 = cl_guard c" "cl_sent c2 = cl_sent c @ [req]"
          using c0 c2 req by (simp_all add: quiet_def)
        have "method_granted (cl_guard c2) (str_upper ''GET'')"
          using d' by (metis check_request_allowed grants_method)
        then have mg: "method_granted (cl_guard c3) (str_upper (if db then ''GET'' else m))"
          using Suc.prems(4) c3 g2 by simp
        have "progress w left c3 c'"
          using Suc.IH [of "if db then ''GET'' else m" location d' "if db then JNull else data"
              "if db then JNull else json" c3 r c' t' "''GET''" True] eq r3 d' c3 mg by simp
        then show ?thesis
          using progress_step [OF g2 auth [OF req(1)], of c3 left c'] bud c3 g2 by simp
      qed
    qed
  qed
qed

lemma request_cases:
  assumes "request w m url hs ps data json n c = (r, c')"
  shows "quiet c c' \<or>
     (\<exists>d c1 c2. cl_open c \<and> preconditions w m url c = (Inr d, c1) \<and>
        cl_guard c2 = note_requests 1 (cl_guard c) \<and> cl_sent c2 = cl_sent c \<and>
        follow w (nat n) m url (decision_ips d) hs ps data json c2 = (r, c'))"
proof (cases "cl_open c")
  case False
  then show ?thesis
    using assms by (auto simp: request_def bind_act_def quiet_def)
next
  case True
  obtain r1 c1 where p: "preconditions w m url c = (r1, c1)" by fastforce
  have q1: "quiet c c1" by (rule keepsD [OF quiet_preconditions p])
  show ?thesis
  proof (cases r1)
    case (Inl e)
    with assms True p q1 show ?thesis
      by (simp add: request_def bind_act_def)
  next
    case (Inr d)
    obtain r2 c2 where ra: "rate_acquire w c1 = (r2, c2)" by fastforce
    have r2: "r2 = Inr ()"
      using ra by (auto simp: rate_acquire_def bind_act_def observe_def)
    have q2: "quiet c1 c2" by (rule keepsD [OF quiet_rate_acquire ra])
    let ?c3 = "c2\<lparr>cl_guard := note_requests 1 (cl_guard c2)\<rparr>"
    obtain c4 where no: "notify ?c3 = (Inr (), c4)" "quiet ?c3 c4"
      using keepsD [OF quiet_notify] by (fastforce simp: notify_def)
    have "follow w (nat n) m url (decision_ips d) hs ps data json c4 = (r, c')"
      using assms True p Inr ra r2 no(1)
      by (simp add: request_def bind_act_def note_one_def)
    moreover have "cl_guard c4 = note_requests 1 (cl_guard c)" "cl_sent c4 = cl_sent c"
      using q1 q2 no(2) by (simp_all add: quiet_def)
    ultimately show ?thesis using True p Inr by blast
  qed
qed

lemma request_progress:
  assumes "request w m url hs ps data json n c = (r, c')"
  shows "quiet c c' \<or>
     (sd_allowed (check_budget (cl_guard c) 1) \<and>
      (\<exists>c2. cl_guard c2 = note_requests 1 (cl_guard c) \<and> cl_sent c2 = cl_sent c \<and> progress w (nat n) c2 c'))"
  using request_cases [OF assms]
proof (elim disjE exE conjE)
  fix d c1 c2
  assume p: "preconditions w m url c = (Inr d, c1)"
    and c2: "cl_guard c2 = note_requests 1 (cl_guard c)" "cl_sent c2 = cl_sent c"
    and f: "follow w (nat n) m url (decision_ips d) hs ps data json c2 = (r, c')"
  from preconditions_Inr [OF p]
  have chk: "check_request (wd_dns w (Suc (cl_tick c))) (cl_guard c2) m url False = Inr d" "sd_allowed d"
    and bud: "sd_allowed (check_budget (cl_guard c) 1)"
    using c2 by auto
  have "method_granted (cl_guard c2) (str_upper m)"
    using chk by (metis check_request_allowed grants_method)
  with follow_progress [OF f chk] bud c2 show ?thesis by blast
qed simp

text \<open>The converse: a call every gate admits is sent.\<close>

definition grows :: "http_client \<Rightarrow> http_client \<Rightarrow> bool" where
  "grows c c' \<longleftrightarrow> (\<exists>reqs. cl_sent c' = cl_sent c @ reqs)"

interpretation grows_frame: frame grows
  by unfold_locales (auto simp: grows_def)

lemma quiet_grows: "keeps quiet m \<Longrightarrow> keeps grows m"
  by (simp add: keeps_def quiet_def grows_def)

lemma grows_send_once: "keeps grows (send_once w m url ips hs ps data json)"
  unfolding keeps_def grows_def using send_once_cases by (metis append_Nil2 prod.collapse)

lemma grows_note_one: "keeps grows note_one"
  by (simp add: keeps_def note_one_def grows_def)

lemma grows_authorize_hop: "keeps grows (authorize_hop w loc)"
  unfolding authorize_hop_def
  by (intro grows_frame.keeps_rules quiet_grows [OF quiet_scope_check] quiet_grows [OF quiet_gate_budget]
      quiet_grows [OF quiet_rate_acquire] grows_note_one)

lemma grows_follow: "keeps grows (follow w left m url ips hs ps data json)"
proof (induction left arbitrary: m url ips data json)
  case 0
  show ?case
    unfolding follow.simps [of w 0] Let_def nat.case
    by (intro grows_frame.keeps_rules quiet_grows [OF quiet_observe] grows_send_once)
next
  case (Suc left)
  show ?case
    unfolding follow.simps [of w "Suc left"] Let_def nat.case
    by (intro grows_frame.keeps_rules quiet_grows [OF quiet_observe] grows_send_once
        grows_authorize_hop Suc.IH)
qed

lemma follow_sends:
  assumes "parse_url url = Inr u" "wd_build_error w m url = None"
  shows "cl_sent (snd (follow w left m url ips hs ps data json c)) \<noteq> cl_sent c"
proof -
  obtain c0 where c0: "observe (wd_perf w) c = (Inr (wd_perf w (cl_tick c)), c0)" "cl_sent c0 = cl_sent c"
    by (simp add: observe_def)
  obtain r1 c1 where s: "send_once w m url ips hs ps data json c0 = (r1, c1)" by fastforce
  have "\<exists>req. build_pinned w m url ips hs ps data json = Inr req"
    using assms by (cases u) (auto simp: build_pinned_def Let_def)
  then have sent: "cl_sent c1 \<noteq> cl_sent c \<and> length (cl_sent c) < length (cl_sent c1)"
    using send_once_cases [OF s] c0 by auto
  have "grows c1 (snd (follow w left m url ips hs ps data json c))"
  proof (cases left)
    case 0
    show ?thesis
      unfolding 0 follow.simps [of w 0] Let_def nat.case bind_step [where m = "observe (wd_perf w)", OF c0(1)]
      by (rule grows_frame.after_bind, rule s) (intro grows_frame.keeps_rules quiet_grows [OF quiet_observe])
  next
    case (Suc k)
    show ?thesis
      unfolding Suc follow.simps [of w "Suc k"] Let_def nat.case bind_step [where m = "observe (wd_perf w)", OF c0(1)]
      by (rule grows_frame.after_bind, rule s)
        (intro grows_frame.keeps_rules quiet_grows [OF quiet_observe] grows_authorize_hop grows_follow)
  qed
  then show ?thesis using sent by (auto simp: grows_def)
qed

text \<open>
  An authorized call is sent. When the record is active, the budget has room, the scope check
  allows, the second lookup brings nothing new, the sandbox admits the destination and the library
  can build the request, the call reaches the network.
\<close>

lemma authorized_call_is_sent:
  assumes "cl_open c"
    and "sd_allowed (check_record_active (cl_guard c) (wd_now w (cl_tick c)))"
    and "sd_allowed (check_budget (cl_guard c) 1)"
    and chk: "check_request (wd_dns w (cl_tick c + 1)) (cl_guard c) m url False = Inr d" "sd_allowed d"
    and "assert_no_rebinding (wd_dns w (cl_tick c + 2)) url (decision_ips d) = Inr ()"
    and sb: "case cl_sandbox c of None \<Rightarrow> True | Some sb \<Rightarrow>
      assert_egress_allowed (wd_dns w (cl_tick c + 3)) sb (decision_host d) (decision_port d) = Inr ()"
    and build: "wd_build_error w m url = None"
  shows "cl_sent (snd (request w m url hs ps data json n c)) \<noteq> cl_sent c"
proof -
  obtain u where u: "parse_url url = Inr u"
    using chk by (rule parse_url_of_allowed)
  have "\<exists>c1. preconditions w m url c = (Inr d, c1)"
    using assms by (auto simp: preconditions_def gate_active_def gate_budget_def scope_check_def gate_sandbox_def
        bind_act_def observe_def raise_if_denied_def numeral_3_eq_3 split: option.splits)
  then obtain c1 where p: "preconditions w m url c = (Inr d, c1)" by blast
  then have q1: "cl_sent c1 = cl_sent c"
    using keepsD [OF quiet_preconditions] by (simp add: quiet_def)
  obtain c2 where ra: "rate_acquire w c1 = (Inr (), c2)" "cl_sent c2 = cl_sent c1"
    by (simp add: rate_acquire_def bind_act_def observe_def)
  obtain c3 where c3: "note_one c2 = (Inr (), c3)" "cl_sent c3 = cl_sent c2"
    by (simp add: note_one_def)
  obtain c4 where c4: "notify c3 = (Inr (), c4)" "cl_sent c4 = cl_sent c3"
    by (simp add: notify_def)
  have "snd (request w m url hs ps data json n c) =
      snd (follow w (nat n) m url (decision_ips d) hs ps data json c4)"
    using assms(1) p ra c3 c4 by (simp add: request_def bind_act_def)
  then show ?thesis
    using follow_sends [OF u build] q1 ra c3 c4 by metis
qed

section \<open>Theorems\<close>

text \<open>
  C5: the client is a choke point. Whatever a request returns or raises, everything it handed to
  the network was authorized, hop by hop: for each request sent there is a moment at which the
  guard allows its own method and URL, and for a named host the connection is pinned to the first
  address that very decision validated. At most one more request is sent than redirects may be
  followed, and the guard itself changes in nothing but its counter.
\<close>

theorem request_choke_point:
  assumes "request w m url hs ps data json max_redirects c = (r, c')"
  shows "\<exists>reqs k. cl_sent c' = cl_sent c @ reqs \<and>
     (\<forall>req \<in> set reqs. authorized_request w (cl_guard c) req) \<and>
     length reqs \<le> nat max_redirects + 1 \<and> 0 \<le> k \<and> cl_guard c' = note_requests k (cl_guard c)"
  using request_progress [OF assms]
proof (elim disjE exE conjE)
  assume "quiet c c'"
  then show ?thesis
    by (intro exI [of _ "[]"] exI [of _ 0]) (simp add: quiet_def note_requests_def)
next
  fix c2
  assume c2: "cl_guard c2 = note_requests 1 (cl_guard c)" "cl_sent c2 = cl_sent c"
    and p: "progress w (nat max_redirects) c2 c'"
  then obtain k reqs where "k \<le> nat max_redirects" "cl_guard c' = note_requests (1 + int k) (cl_guard c)"
    "cl_sent c' = cl_sent c @ reqs" "length reqs \<le> Suc k"
    "\<forall>req \<in> set reqs. authorized_request w (cl_guard c) req"
    unfolding progress_def by (auto simp: note_requests_add)
  then show ?thesis
    by (intro exI [of _ reqs] exI [of _ "1 + int k"]) simp
qed

text \<open>
  C6: the request budget is an upper bound on traffic. One call notes at least as many requests as
  it sends, redirects included, and a counter within a nonzero limit is still within it afterwards,
  whether the call returns or raises.
\<close>

theorem request_budget_respected:
  assumes "request w m url hs ps data json max_redirects c = (r, c')"
  shows "int (length (cl_sent c') - length (cl_sent c))
       \<le> g_requests_made (cl_guard c') - g_requests_made (cl_guard c) \<and>
     (budget_limit (cl_guard c) = 0 \<or> budget_limit (cl_guard c) < g_requests_made (cl_guard c) \<or>
      g_requests_made (cl_guard c') \<le> budget_limit (cl_guard c))"
  using request_progress [OF assms]
proof (elim disjE exE conjE)
  assume "quiet c c'"
  then show ?thesis by (auto simp: quiet_def)
next
  fix c2
  assume b: "sd_allowed (check_budget (cl_guard c) 1)"
    and c2: "cl_guard c2 = note_requests 1 (cl_guard c)" "cl_sent c2 = cl_sent c"
    and p: "progress w (nat max_redirects) c2 c'"
  then obtain k reqs where "cl_guard c' = note_requests (int k) (cl_guard c2)"
    "cl_sent c' = cl_sent c2 @ reqs" "length reqs \<le> Suc k"
    "budget_limit (cl_guard c2) = 0 \<or> k = 0 \<or>
           g_requests_made (cl_guard c2) + int k \<le> budget_limit (cl_guard c2)"
    unfolding progress_def by blast
  then show ?thesis using c2 b by (auto simp: check_budget_iff)
qed

lemma no_rebinding_subset:
  assumes "assert_no_rebinding dns url validated = Inr ()" "parse_url url = Inr (scheme, host, port, path)"
    "resolve_host dns host port True = Inr info" "validated \<noteq> []"
  shows "set (resolved_ips info) \<subseteq> set validated"
proof -
  have "rebinding_violation host info validated = None"
    using assms(1-3) by (auto simp: assert_no_rebinding_def split: option.splits)
  then have "sorted_set (filter (\<lambda>ip. ip \<notin> set validated) (resolved_ips info)) = []"
    using assms(4) by (simp add: rebinding_violation_def Let_def split: if_splits)
  then have "set (filter (\<lambda>ip. ip \<notin> set validated) (resolved_ips info)) = {}"
    by (metis set_sorted_set list.set(1))
  then show ?thesis by auto
qed

text \<open>
  C7: every gate comes before the first send. If a call hands anything to the network, then the
  client was entered, the record was verified and inside its window at the first reading of the
  clock, the budget had room, the scope check of the first lookup allowed the call, and the second
  lookup brought no address the first had not validated.
\<close>

theorem sent_only_after_gates:
  assumes "request w m url hs ps data json max_redirects c = (r, c')" "cl_sent c' \<noteq> cl_sent c"
  shows "cl_open c \<and> az_status (g_record (cl_guard c)) = ''verified'' \<and>
     window_open (g_record (cl_guard c)) (wd_now w (cl_tick c)) \<and>
     (budget_limit (cl_guard c) = 0 \<or> g_requests_made (cl_guard c) < budget_limit (cl_guard c)) \<and>
     (\<exists>d scheme host port path. parse_url url = Inr (scheme, host, port, path) \<and>
        check_request (wd_dns w (cl_tick c + 1)) (cl_guard c) m url False = Inr d \<and> sd_allowed d \<and>
        (\<forall>info. decision_ips d = [] \<or>
           resolve_host (wd_dns w (cl_tick c + 2)) host port True \<noteq> Inr info \<or>
           set (resolved_ips info) \<subseteq> set (decision_ips d)))"
  using request_cases [OF assms(1)]
proof (elim disjE exE conjE)
  assume "quiet c c'"
  then show ?thesis using assms(2) by (simp add: quiet_def)
next
  fix d c1 c2
  assume op: "cl_open c" and p: "preconditions w m url c = (Inr d, c1)"
  note gates = preconditions_Inr [OF p]
  obtain u where "parse_url url = Inr u"
    using gates by (metis parse_url_of_allowed)
  then obtain scheme host port path where pu: "parse_url url = Inr (scheme, host, port, path)"
    by (cases u) auto
  have act: "az_status (g_record (cl_guard c)) = ''verified'' \<and>
      window_open (g_record (cl_guard c)) (wd_now w (cl_tick c))"
    using gates check_record_active_iff by blast
  have bud: "budget_limit (cl_guard c) = 0 \<or> g_requests_made (cl_guard c) < budget_limit (cl_guard c)"
    using gates by (auto simp: check_budget_iff)
  have "\<forall>info. decision_ips d = [] \<or>
      resolve_host (wd_dns w (cl_tick c + 2)) host port True \<noteq> Inr info \<or>
      set (resolved_ips info) \<subseteq> set (decision_ips d)"
    using gates no_rebinding_subset [OF _ pu] by (metis add_2_eq_Suc')
  with gates pu act bud op show ?thesis by auto
qed

section \<open>The token bucket over time\<close>

text \<open>
  A run of acquisitions with their clock readings. The clock does not run backwards and a sleep
  lasts at least the time it was asked for.
\<close>

fun clock_ok :: "rate_limiter \<Rightarrow> (rat \<times> rat) list \<Rightarrow> bool" where
  "clock_ok rl [] = True"
| "clock_ok rl ((now, later) # rs) =
     (rl_updated rl \<le> now \<and>
      (rl_tokens (refill now rl) < 1 \<longrightarrow> now + wait_time (refill now rl) \<le> later) \<and>
      clock_ok (acquire now later rl) rs)"

fun acquire_all :: "rate_limiter \<Rightarrow> (rat \<times> rat) list \<Rightarrow> rate_limiter" where
  "acquire_all rl [] = rl"
| "acquire_all rl ((now, later) # rs) = acquire_all (acquire now later rl) rs"

lemma acquire_config [simp]:
  "rl_rate (acquire now later rl) = rl_rate rl" "rl_capacity (acquire now later rl) = rl_capacity rl"
  by (simp_all add: acquire_def refill_def Let_def)

lemma acquire_pays:
  assumes "0 < rl_rate rl" "rl_updated rl \<le> now"
    "rl_tokens (refill now rl) < 1 \<longrightarrow> now + wait_time (refill now rl) \<le> later"
  shows "rl_tokens (acquire now later rl) + 1
     \<le> rl_tokens rl + rl_rate rl * (rl_updated (acquire now later rl) - rl_updated rl)"
proof -
  let ?t = "rl_tokens (refill now rl)"
  have t: "?t \<le> rl_tokens rl + (now - rl_updated rl) * rl_rate rl"
    by (simp add: refill_def)
  show ?thesis
  proof (cases "?t < 1")
    case True
    with assms(3) have "(1 - ?t) / rl_rate rl \<le> later - now"
      by (simp add: wait_time_def refill_def)
    then have "1 - ?t \<le> (later - now) * rl_rate rl"
      using assms(1) by (simp add: pos_divide_le_eq)
    with t have "1 \<le> rl_tokens rl + rl_rate rl * (later - rl_updated rl)"
      by (simp add: algebra_simps)
    with True show ?thesis by (simp add: acquire_def Let_def)
  next
    case False
    with t show ?thesis
      by (simp add: acquire_def Let_def) (simp add: refill_def algebra_simps)
  qed
qed

lemma acquire_nonneg: "0 \<le> rl_tokens (acquire now later rl)"
  by (simp add: acquire_def Let_def)

lemma acquire_all_pays:
  assumes "clock_ok rl rs" "0 < rl_rate rl"
  shows "rl_tokens (acquire_all rl rs) + of_nat (length rs)
     \<le> rl_tokens rl + rl_rate rl * (rl_updated (acquire_all rl rs) - rl_updated rl)"
  using assms
proof (induction rl rs rule: acquire_all.induct)
  case (2 rl now later rs)
  then show ?case
    using acquire_pays [of rl now later] by (simp add: algebra_simps)
qed simp

lemma acquire_all_nonneg: "0 \<le> rl_tokens rl \<Longrightarrow> 0 \<le> rl_tokens (acquire_all rl rs)"
  by (induction rl rs rule: acquire_all.induct) (auto simp: acquire_nonneg)

text \<open>
  C11: the rate limiter limits the rate. From its creation on, under a clock that does not run
  backwards and sleeps that last, the number of acquisitions never exceeds the capacity plus the
  rate times the time passed; a rate below a tenth per second is raised to that.
\<close>

theorem rate_limit_holds:
  assumes "clock_ok (new_limiter r None t0) rs"
  shows "of_nat (length rs) \<le> max (max r (1 / 10)) 1 +
     max r (1 / 10) * (rl_updated (acquire_all (new_limiter r None t0) rs) - t0)"
proof -
  let ?rl = "new_limiter r None t0"
  have "0 < rl_rate ?rl" "rl_rate ?rl = max r (1 / 10)" "rl_updated ?rl = t0" "rl_tokens ?rl = rl_capacity ?rl"
    by (simp_all add: new_limiter_def Let_def less_max_iff_disj)
  moreover have "rl_capacity ?rl = max (max r (1 / 10)) 1" "0 \<le> rl_tokens ?rl"
    by (simp_all add: new_limiter_def Let_def le_max_iff_disj)
  ultimately show ?thesis
    using acquire_all_pays [OF assms] acquire_all_nonneg [of ?rl rs] by simp
qed

theorem rate_limit_holds_witness:
  "rl_updated (acquire_all (new_limiter 2 None 0) [(0, 0), (0, 0), (0, 1 / 2)]) = 1 / 2 \<and>
   (3::rat) \<le> max (max 2 (1 / 10)) 1 + max 2 (1 / 10) * (1 / 2 - 0)"
proof -
  have "clock_ok (new_limiter 2 None 0) [(0, 0), (0, 0), (0, 1 / 2)]"
    "rl_updated (acquire_all (new_limiter 2 None 0) [(0, 0), (0, 0), (0, 1 / 2)]) = 1 / 2"
    by code_simp+
  with rate_limit_holds [OF this(1)] show ?thesis by simp
qed

section \<open>Concurrent tasks and the budget\<close>

text \<open>
  Several checks of one assessment share a client. Between the budget check and the accounting
  \<open>request\<close> awaits the limiter, so other tasks run there: each task alternates between passing
  the check and noting its request, in any interleaving.
\<close>

datatype phase = Ready | Admitted

inductive task_step :: "guard \<times> phase list \<Rightarrow> guard \<times> phase list \<Rightarrow> bool" where
  admit: "i < length ps \<Longrightarrow> ps ! i = Ready \<Longrightarrow> sd_allowed (check_budget g 1) \<Longrightarrow>
     task_step (g, ps) (g, ps[i := Admitted])"
| account: "i < length ps \<Longrightarrow> ps ! i = Admitted \<Longrightarrow>
     task_step (g, ps) (note_requests 1 g, ps[i := Ready])"

inductive_cases task_stepE: "task_step (g, ps) (g', ps')"

definition admitted :: "phase list \<Rightarrow> nat" where
  "admitted ps = length (filter (\<lambda>p. p = Admitted) ps)"

lemma admitted_le: "admitted ps \<le> length ps"
  by (simp add: admitted_def)

lemma admitted_update:
  "i < length ps \<Longrightarrow> admitted (ps[i := p]) + (if ps ! i = Admitted then 1 else 0)
     = admitted ps + (if p = Admitted then 1 else 0)"
proof (induction ps arbitrary: i)
  case (Cons q qs)
  show ?case
  proof (cases i)
    case (Suc j)
    with Cons.IH [of j] Cons.prems show ?thesis by (simp add: admitted_def split: if_splits)
  qed (simp add: admitted_def)
qed simp

definition budget_inv :: "int \<Rightarrow> nat \<Rightarrow> guard \<times> phase list \<Rightarrow> bool" where
  "budget_inv limit n s \<longleftrightarrow> budget_limit (fst s) = limit \<and> length (snd s) = n \<and>
     g_requests_made (fst s) + int (admitted (snd s)) \<le> limit - 1 + int n"

lemma task_step_inv: "task_step s s' \<Longrightarrow> limit \<noteq> 0 \<Longrightarrow> budget_inv limit n s \<Longrightarrow> budget_inv limit n s'"
proof (induction rule: task_step.induct)
  case (admit i ps g)
  have "admitted (ps[i := Admitted]) \<le> n"
    using admitted_le [of "ps[i := Admitted]"] admit by (simp add: budget_inv_def)
  then show ?case using admit by (auto simp: budget_inv_def check_budget_iff)
next
  case (account i ps g)
  then show ?case
    using admitted_update [of i ps Ready] by (simp add: budget_inv_def)
qed

text \<open>
  Concurrency can overrun the budget, but by less than the number of tasks. In every
  interleaving of n tasks that start within a nonzero limit, the counter stays below the limit
  plus n.
\<close>

theorem concurrent_budget_bound:
  assumes "task_step\<^sup>*\<^sup>* (g, replicate n Ready) (g', ps')" "0 < n"
    and "budget_limit g \<noteq> 0" "g_requests_made g \<le> budget_limit g"
  shows "g_requests_made g' < budget_limit g + int n"
proof -
  have "budget_inv (budget_limit g) n (g, replicate n Ready)"
    using assms by (simp add: budget_inv_def admitted_def)
  with assms(1) have "budget_inv (budget_limit g) n (g', ps')"
    by (induction rule: rtranclp_induct) (use assms(3) task_step_inv in blast)+
  then show ?thesis by (simp add: budget_inv_def)
qed

lemma admit_all:
  assumes "sd_allowed (check_budget g 1)" "k \<le> n"
  shows "task_step\<^sup>*\<^sup>* (g, replicate n Ready) (g, replicate k Admitted @ replicate (n - k) Ready)"
  using assms(2)
proof (induction k)
  case (Suc k)
  let ?ps = "replicate k Admitted @ replicate (n - k) Ready"
  have ps: "?ps = replicate k Admitted @ Ready # replicate (n - Suc k) Ready"
    using Suc.prems by (metis Suc_diff_Suc Suc_le_lessD replicate_Suc)
  have "task_step (g, ?ps) (g, ?ps[k := Admitted])"
    using Suc.prems assms(1) by (intro admit) (simp_all add: nth_append)
  moreover have "?ps[k := Admitted] = replicate (Suc k) Admitted @ replicate (n - Suc k) Ready"
    unfolding ps using list_update_length [of "replicate k Admitted"]
    by (simp add: replicate_app_Cons_same)
  ultimately show ?case using Suc by (simp add: rtranclp.rtrancl_into_rtrancl)
qed simp

lemma account_all:
  assumes "k \<le> n"
  shows "task_step\<^sup>*\<^sup>* (g, replicate n Admitted)
     (note_requests (int k) g, replicate k Ready @ replicate (n - k) Admitted)"
  using assms
proof (induction k)
  case (Suc k)
  let ?ps = "replicate k Ready @ replicate (n - k) Admitted"
  have ps: "?ps = replicate k Ready @ Admitted # replicate (n - Suc k) Admitted"
    using Suc.prems by (metis Suc_diff_Suc Suc_le_lessD replicate_Suc)
  have "task_step (note_requests (int k) g, ?ps) (note_requests 1 (note_requests (int k) g), ?ps[k := Ready])"
    using Suc.prems by (intro account) (simp_all add: nth_append)
  moreover have "?ps[k := Ready] = replicate (Suc k) Ready @ replicate (n - Suc k) Admitted"
    unfolding ps using list_update_length [of "replicate k Ready"]
    by (simp add: replicate_app_Cons_same)
  moreover have "note_requests 1 (note_requests (int k) g) = note_requests (int (Suc k)) g"
    by (simp add: note_requests_add algebra_simps)
  ultimately show ?case using Suc by (simp add: rtranclp.rtrancl_into_rtrancl)
qed (simp add: note_requests_def)

text \<open>
  The check and the decrement of the budget are not atomic. With one request left, n tasks can
  all pass the check before any of them notes its request, and the counter then exceeds the limit
  by n - 1.
\<close>

theorem budget_check_not_atomic:
  assumes "budget_limit g \<noteq> 0" "g_requests_made g = budget_limit g - 1"
  shows "\<exists>g'. task_step\<^sup>*\<^sup>* (g, replicate n Ready) (g', replicate n Ready) \<and>
     g_requests_made g' = budget_limit g + int n - 1"
proof -
  have "sd_allowed (check_budget g 1)"
    using assms by (simp add: check_budget_iff)
  then have "task_step\<^sup>*\<^sup>* (g, replicate n Ready) (g, replicate n Admitted)"
    using admit_all [of g n n] by simp
  moreover have "task_step\<^sup>*\<^sup>* (g, replicate n Admitted) (note_requests (int n) g, replicate n Ready)"
    using account_all [of n n g] by simp
  ultimately have "task_step\<^sup>*\<^sup>* (g, replicate n Ready) (note_requests (int n) g, replicate n Ready)"
    by (rule rtranclp_trans)
  then show ?thesis
    using assms by (intro exI [of _ "note_requests (int n) g"]) simp
qed

section \<open>Witnesses\<close>

definition demo_world :: world where
  "demo_world = \<lparr>wd_dns = \<lambda>_. demo_dns, wd_now = \<lambda>_. 0, wd_monotonic = of_nat, wd_perf = of_nat,
     wd_send = \<lambda>t req. Inr \<lparr>rp_status = (if rq_url req = ''http://app.test:8080/old'' then 302 else 200),
        rp_headers = [(''location'', ''/new'')], rp_text = ''ok'', rp_content_len = 2, rp_url = rq_url req\<rparr>,
     wd_build_error = \<lambda>_ _. None, wd_join = \<lambda>base loc. ''http://app.test:8080'' @ loc\<rparr>"

definition demo_client :: http_client where
  "demo_client = aenter (new_client demo_world 0 demo_guard True (Some (sandbox_for default_settings demo_authorization)))"

lemma demo_gates:
  "sd_allowed (check_record_active (cl_guard demo_client) (wd_now demo_world (cl_tick demo_client)))"
  "sd_allowed (check_budget (cl_guard demo_client) 1)"
  "check_request demo_dns demo_guard ''GET'' ''http://app.test:8080/old'' False =
     Inr (allow ''request in scope''
       [(''host'', JStr ''app.test''), (''port'', JInt 8080), (''ips'', JList [JStr ''93.184.216.34''])])"
  "assert_no_rebinding demo_dns ''http://app.test:8080/old'' [''93.184.216.34''] = Inr ()"
  "assert_egress_allowed demo_dns (sandbox_for default_settings demo_authorization) ''app.test'' 8080 = Inr ()"
  by code_simp+

lemma demo_run:
  "cl_sent (snd (request demo_world ''GET'' ''http://app.test:8080/old'' [] [] JNull JNull 3 demo_client))
     \<noteq> cl_sent demo_client"
proof (rule authorized_call_is_sent)
  show "cl_open demo_client" by (simp add: demo_client_def aenter_def)
  show "check_request (wd_dns demo_world (cl_tick demo_client + 1)) (cl_guard demo_client) ''GET'' ''http://app.test:8080/old'' False =
     Inr (allow ''request in scope''
       [(''host'', JStr ''app.test''), (''port'', JInt 8080), (''ips'', JList [JStr ''93.184.216.34''])])"
    using demo_gates(3) by (simp add: demo_world_def demo_client_def aenter_def new_client_def)
  show "assert_no_rebinding (wd_dns demo_world (cl_tick demo_client + 2)) ''http://app.test:8080/old''
     (decision_ips (allow ''request in scope''
       [(''host'', JStr ''app.test''), (''port'', JInt 8080), (''ips'', JList [JStr ''93.184.216.34''])])) = Inr ()"
    using demo_gates(4) by (simp add: demo_world_def decision_ips_def)
  show "case cl_sandbox demo_client of None \<Rightarrow> True | Some sb \<Rightarrow>
      assert_egress_allowed (wd_dns demo_world (cl_tick demo_client + 3)) sb
        (decision_host (allow ''request in scope''
       [(''host'', JStr ''app.test''), (''port'', JInt 8080), (''ips'', JList [JStr ''93.184.216.34''])]))
        (decision_port (allow ''request in scope''
       [(''host'', JStr ''app.test''), (''port'', JInt 8080), (''ips'', JList [JStr ''93.184.216.34''])])) = Inr ()"
    using demo_gates(5)
    by (simp add: demo_world_def demo_client_def aenter_def new_client_def decision_host_def decision_port_def)
qed (use demo_gates in \<open>simp_all add: demo_world_def\<close>)

theorem request_choke_point_witness:
  "\<exists>reqs. reqs \<noteq> [] \<and>
     cl_sent (snd (request demo_world ''GET'' ''http://app.test:8080/old'' [] [] JNull JNull 3 demo_client)) = reqs \<and>
     (\<forall>req \<in> set reqs. authorized_request demo_world (cl_guard demo_client) req)"
proof -
  have "cl_sent demo_client = []"
    by (simp add: demo_client_def aenter_def new_client_def)
  then show ?thesis
    using demo_run request_choke_point [OF prod.collapse [symmetric],
        of demo_world "''GET''" "''http://app.test:8080/old''" "[]" "[]" JNull JNull 3 demo_client] by auto
qed

theorem request_budget_respected_witness:
  "g_requests_made (cl_guard (snd (request demo_world ''GET'' ''http://app.test:8080/old'' [] [] JNull JNull 3 demo_client)))
     \<le> 2"
proof -
  have "budget_limit (cl_guard demo_client) = 2" "g_requests_made (cl_guard demo_client) = 0"
    by code_simp+
  then show ?thesis
    using request_budget_respected [OF prod.collapse [symmetric],
        of demo_world "''GET''" "''http://app.test:8080/old''" "[]" "[]" JNull JNull 3 demo_client] by simp
qed

theorem sent_only_after_gates_witness:
  "az_status (g_record (cl_guard demo_client)) = ''verified''"
  using sent_only_after_gates [OF prod.collapse [symmetric] demo_run] by blast

theorem concurrent_budget_bound_witness:
  "\<exists>g'. task_step\<^sup>*\<^sup>* (note_requests 1 demo_guard, replicate 3 Ready) (g', replicate 3 Ready) \<and> g_requests_made g' < 5"
proof -
  have b: "budget_limit (note_requests 1 demo_guard) = 2" "g_requests_made (note_requests 1 demo_guard) = 1"
    by code_simp+
  have ok: "sd_allowed (check_budget (note_requests 1 demo_guard) 1)"
    using b by (simp add: check_budget_iff)
  obtain g' where g': "task_step\<^sup>*\<^sup>* (note_requests 1 demo_guard, replicate 3 Ready) (g', replicate 3 Ready)"
    using admit_all [OF ok, of 3 3] account_all [of 3 3 "note_requests 1 demo_guard"] by (auto dest: rtranclp_trans)
  have "g_requests_made g' < 5"
    using concurrent_budget_bound [OF g'] b by simp
  with g' show ?thesis by blast
qed

theorem budget_check_not_atomic_witness:
  "\<exists>g'. task_step\<^sup>*\<^sup>* (note_requests 1 demo_guard, replicate 4 Ready) (g', replicate 4 Ready) \<and> g_requests_made g' = 5"
proof -
  have "budget_limit (note_requests 1 demo_guard) = 2" "g_requests_made (note_requests 1 demo_guard) = 1"
    by code_simp+
  then show ?thesis using budget_check_not_atomic [of "note_requests 1 demo_guard" 4] by simp
qed

end
