(* ===== verification/Json.thy ===== *)
theory Json
  imports Render
begin

text \<open>
  \<open>json.loads\<close>: whitespace, literals, numbers, strings with their escapes, lists and objects, in
  which a repeated key keeps its place and takes the last value. The results are options, None
  where the library raises JSONDecodeError (a ValueError). A code point above 255 is kept as its
  UTF-8 bytes; the non-standard literals NaN and Infinity are refused.
\<close>

definition json_space :: "char \<Rightarrow> bool" where
  "json_space c \<longleftrightarrow> (let n = ord c in n = 32 \<or> n = 9 \<or> n = 10 \<or> n = 13)"

definition skip_ws :: "string \<Rightarrow> string" where
  "skip_ws s = dropWhile json_space s"

definition utf8 :: "int \<Rightarrow> string" where
  "utf8 n =
     (if n < 256 then [chr n]
      else if n < 2048 then [chr (192 + n div 64), chr (128 + n mod 64)]
      else [chr (224 + n div 4096), chr (128 + (n div 64) mod 64), chr (128 + n mod 64)])"

definition hexval4 :: "string \<Rightarrow> int option" where
  "hexval4 s =
     (if length s = 4 \<and> list_all (\<lambda>c. is_digit c \<or> lower_char c \<in> set ''abcdef'') s
      then Some (foldl (\<lambda>n c. 16 * n + (if is_digit c then ord c - 48 else ord (lower_char c) - 87)) 0 s)
      else None)"

definition simple_escape :: "char \<Rightarrow> char option" where
  "simple_escape c =
     (let n = ord c in
      if n = 34 \<or> n = 92 \<or> n = 47 then Some c
      else if n = 98 then Some (chr 8)
      else if n = 102 then Some (chr 12)
      else if n = 110 then Some (chr 10)
      else if n = 114 then Some (chr 13)
      else if n = 116 then Some (chr 9)
      else None)"

text \<open>The rest of a string literal, after its opening quote.\<close>

function parse_chars :: "string \<Rightarrow> string \<Rightarrow> (string \<times> string) option" where
  "parse_chars acc [] = None"
| "parse_chars acc (c # s) =
     (if ord c = 34 then Some (rev acc, s)
      else if ord c = 92 then
        (case s of [] \<Rightarrow> None
         | e # s' \<Rightarrow>
           if ord e = 117 then
             (case hexval4 (take 4 s') of None \<Rightarrow> None
              | Some n \<Rightarrow> parse_chars (rev (utf8 n) @ acc) (drop 4 s'))
           else (case simple_escape e of None \<Rightarrow> None | Some d \<Rightarrow> parse_chars (d # acc) s'))
      else if ord c < 32 then None
      else parse_chars (c # acc) s)"
  by pat_completeness auto
termination
  by (relation "measure (\<lambda>(acc, s). length s)") auto

definition span_digits :: "string \<Rightarrow> string \<times> string" where
  "span_digits s = (takeWhile is_digit s, dropWhile is_digit s)"

definition frac_part :: "string \<Rightarrow> rat option \<times> string" where
  "frac_part s =
     (case s of [] \<Rightarrow> (None, s)
      | c # s' \<Rightarrow>
        if c \<noteq> CHR ''.'' then (None, s)
        else (case span_digits s' of (ds, rest) \<Rightarrow>
          if ds = [] then (None, s)
          else (Some (of_int (digits_val ds) / 10 ^ length ds), rest)))"

definition exp_part :: "string \<Rightarrow> int option \<times> string" where
  "exp_part s =
     (case s of [] \<Rightarrow> (None, s)
      | c # s' \<Rightarrow>
        if lower_char c \<noteq> CHR ''e'' then (None, s)
        else let (sg, s'') = (case s' of d # t \<Rightarrow> if d = CHR ''-'' then (-1, t) else if d = CHR ''+'' then (1, t)
                                  else (1, s') | [] \<Rightarrow> (1, s'));
                 (ds, rest) = span_digits s''
             in if ds = [] then (None, s) else (Some (sg * digits_val ds), rest))"

definition scale10 :: "rat \<Rightarrow> int \<Rightarrow> rat" where
  "scale10 r e = (if 0 \<le> e then r * 10 ^ nat e else r / 10 ^ nat (- e))"

definition parse_number :: "string \<Rightarrow> (jv \<times> string) option" where
  "parse_number s0 =
     (let (neg, s) = (case s0 of c # t \<Rightarrow> if c = CHR ''-'' then (True, t) else (False, s0) | [] \<Rightarrow> (False, s0));
          (ds0, rest0) = span_digits s;
          (ds, rest) = (if ds0 \<noteq> [] \<and> hd ds0 = CHR ''0'' then (''0'', tl s) else (ds0, rest0))
      in if ds = [] then None
         else let (fr, rest1) = frac_part rest; (ex, rest2) = exp_part rest1; i = digits_val ds
         in if fr = None \<and> ex = None then Some (JInt (if neg then - i else i), rest2)
            else let r = scale10 (of_int i + (case fr of None \<Rightarrow> 0 | Some f \<Rightarrow> f)) (case ex of None \<Rightarrow> 0 | Some e \<Rightarrow> e)
                 in Some (JNum (if neg then - r else r), rest2))"

text \<open>
  Values by fuel: every call spends one unit and every chain of calls consumes a character at
  least every second call, so twice the length of the text and two is enough.
\<close>

fun parse_value :: "nat \<Rightarrow> string \<Rightarrow> (jv \<times> string) option"
  and parse_items :: "nat \<Rightarrow> jv list \<Rightarrow> string \<Rightarrow> (jv \<times> string) option"
  and parse_members :: "nat \<Rightarrow> dict \<Rightarrow> string \<Rightarrow> (jv \<times> string) option" where
  "parse_value 0 s = None"
| "parse_value (Suc n) s =
     (case s of [] \<Rightarrow> None
      | c # t \<Rightarrow>
        if ord c = 34 then (case parse_chars [] t of None \<Rightarrow> None | Some (str, r) \<Rightarrow> Some (JStr str, r))
        else if c = CHR ''['' then
          (let t' = skip_ws t in
           if starts_with t' '']'' then Some (JList [], tl t') else parse_items n [] t')
        else if c = CHR ''{'' then
          (let t' = skip_ws t in
           if starts_with t' ''}'' then Some (JDict [], tl t') else parse_members n [] t')
        else if starts_with s ''null'' then Some (JNull, drop 4 s)
        else if starts_with s ''true'' then Some (JBool True, drop 4 s)
        else if starts_with s ''false'' then Some (JBool False, drop 5 s)
        else parse_number s)"
| "parse_items 0 acc s = None"
| "parse_items (Suc n) acc s =
     (case parse_value n s of None \<Rightarrow> None
      | Some (v, r) \<Rightarrow>
        (case skip_ws r of [] \<Rightarrow> None
         | c # t \<Rightarrow>
           if c = CHR '']'' then Some (JList (rev (v # acc)), t)
           else if c = CHR '','' then parse_items n (v # acc) (skip_ws t)
           else None))"
| "parse_members 0 acc s = None"
| "parse_members (Suc n) acc s =
     (case s of [] \<Rightarrow> None
      | q # t \<Rightarrow>
        if ord q \<noteq> 34 then None
        else (case parse_chars [] t of None \<Rightarrow> None
          | Some (k, r) \<Rightarrow>
            (case skip_ws r of [] \<Rightarrow> None
             | col # r1 \<Rightarrow>
               if col \<noteq> CHR '':'' then None
               else (case parse_value n (skip_ws r1) of None \<Rightarrow> None
                 | Some (v, r2) \<Rightarrow>
                   (case skip_ws r2 of [] \<Rightarrow> None
                    | c # t2 \<Rightarrow>
                      if c = CHR ''}'' then Some (JDict (dset acc k v), t2)
                      else if c = CHR '','' then parse_members n (dset acc k v) (skip_ws t2)
                      else None)))))"

definition json_loads :: "string \<Rightarrow> jv option" where
  "json_loads s =
     (let s' = skip_ws s in
      case parse_value (2 * length s' + 2) s' of None \<Rightarrow> None
      | Some (v, r) \<Rightarrow> if skip_ws r = [] then Some v else None)"

end
