(* ===== verification/Brain.thy ===== *)
theory Brain
  imports Json Config
begin

text \<open>
  \<open>app/agents/budget.py\<close> and \<open>app/agents/brain.py\<close>: the token ledger of one assessment and the
  brains, which pick among allowed actions. The two network brains take the HTTP library and the
  langchain client as arguments; what they post is recorded in \<open>bs_posted\<close>. A brain's answer is
  untrusted text, parsed as JSON. The ellipsis that marks a shortened string is one character, 133.
\<close>

section \<open>The ledger\<close>

record llm_budget =
  lb_max_tokens :: int
  lb_max_cost_usd :: rat
  lb_cost_per_1k :: rat
  lb_input_tokens :: int
  lb_output_tokens :: int
  lb_calls :: int
  lb_llm_calls :: int

definition new_budget :: "int \<Rightarrow> rat \<Rightarrow> rat \<Rightarrow> llm_budget" where
  "new_budget max_tokens max_cost per_1k =
     \<lparr>lb_max_tokens = max_tokens, lb_max_cost_usd = max_cost, lb_cost_per_1k = per_1k,
      lb_input_tokens = 0, lb_output_tokens = 0, lb_calls = 0, lb_llm_calls = 0\<rparr>"

definition total_tokens :: "llm_budget \<Rightarrow> int" where
  "total_tokens b = lb_input_tokens b + lb_output_tokens b"

definition cost_usd :: "llm_budget \<Rightarrow> rat" where
  "cost_usd b = (of_int (total_tokens b) / 1000) * lb_cost_per_1k b"

definition exceeded :: "llm_budget \<Rightarrow> bool" where
  "exceeded b \<longleftrightarrow>
     (if lb_max_tokens b \<noteq> 0 \<and> total_tokens b \<ge> lb_max_tokens b then True
      else if lb_max_cost_usd b \<noteq> 0 \<and> cost_usd b \<ge> lb_max_cost_usd b then True
      else False)"

definition record_usage :: "int \<Rightarrow> int \<Rightarrow> llm_budget \<Rightarrow> llm_budget" where
  "record_usage i out b =
     b\<lparr>lb_input_tokens := lb_input_tokens b + max 0 i,
       lb_output_tokens := lb_output_tokens b + max 0 out,
       lb_llm_calls := lb_llm_calls b + 1\<rparr>"

definition note_consult :: "llm_budget \<Rightarrow> llm_budget" where
  "note_consult b = b\<lparr>lb_calls := lb_calls b + 1\<rparr>"

definition budget_snapshot :: "llm_budget \<Rightarrow> dict" where
  "budget_snapshot b =
     [(''input_tokens'', JInt (lb_input_tokens b)), (''output_tokens'', JInt (lb_output_tokens b)),
      (''total_tokens'', JInt (total_tokens b)), (''cost_usd'', JNum (py_round 6 (cost_usd b))),
      (''calls'', JInt (lb_calls b)), (''llm_calls'', JInt (lb_llm_calls b)),
      (''max_tokens'', JInt (lb_max_tokens b)), (''max_cost_usd'', JNum (lb_max_cost_usd b)),
      (''exceeded'', JBool (exceeded b))]"

section \<open>Tasks and decisions\<close>

record brain_task =
  bt_role :: string
  bt_instruction :: string
  bt_context :: dict
  bt_allowed_actions :: "string list"
  bt_max_tokens :: int

record brain_decision =
  bd_action :: string
  bd_reasoning :: string
  bd_params :: dict
  bd_source :: string
  bd_confidence :: rat
  bd_input_tokens :: int
  bd_output_tokens :: int

section \<open>The deterministic brain\<close>

definition as_dict :: "jv \<Rightarrow> exn + dict" where
  "as_dict v = (case v of JDict d \<Rightarrow> Inr d | _ \<Rightarrow> Inl (OtherError ''AttributeError''))"

definition as_str :: "jv \<Rightarrow> exn + string" where
  "as_str v = (case v of JStr s \<Rightarrow> Inr s | _ \<Rightarrow> Inl (OtherError ''AttributeError''))"

definition INJECTABLE_HINTS :: "string list" where
  "INJECTABLE_HINTS = [''id'', ''user'', ''search'', ''q'', ''query'', ''name'', ''email'']"

definition param_score :: "string \<Rightarrow> jv \<Rightarrow> int" where
  "param_score name loc =
     (if list_ex (contains_str (str_lower name)) INJECTABLE_HINTS then 3 else 0) +
     (if loc = JStr ''query'' \<or> loc = JStr ''body'' then 1 else 0)"

definition scored_param :: "jv \<Rightarrow> exn + string \<times> int" where
  "scored_param p =
     (case as_dict p of Inl e \<Rightarrow> Inl e
      | Inr d \<Rightarrow> (case as_str (jget_or d ''name'' (JStr [])) of Inl e \<Rightarrow> Inl e
        | Inr name \<Rightarrow> Inr (name, param_score name (jget d ''in''))))"

definition rank_params :: "jv \<Rightarrow> exn + string list" where
  "rank_params params =
     (case params of
        JList ps \<Rightarrow>
          (case mapM_sum scored_param ps of Inl e \<Rightarrow> Inl e
           | Inr scored \<Rightarrow> Inr (filter (\<lambda>n. n \<noteq> []) (map fst (sort_desc snd scored))))
      | JDict [] \<Rightarrow> Inr []
      | JStr [] \<Rightarrow> Inr []
      | _ \<Rightarrow> Inl (OtherError ''AttributeError''))"

text \<open>\<open>v <= 0\<close>; a value that is no number does not compare.\<close>

definition at_most_zero :: "jv \<Rightarrow> exn + bool" where
  "at_most_zero v =
     (case v of JInt i \<Rightarrow> Inr (i \<le> 0) | JNum r \<Rightarrow> Inr (r \<le> 0) | JBool b \<Rightarrow> Inr (\<not> b)
      | _ \<Rightarrow> Inl (OtherError ''TypeError''))"

definition det_decision :: "string \<Rightarrow> string \<Rightarrow> dict \<Rightarrow> brain_decision" where
  "det_decision action reasoning params =
     \<lparr>bd_action = action, bd_reasoning = reasoning, bd_params = params,
      bd_source = ''deterministic'', bd_confidence = 3 / 5, bd_input_tokens = 0, bd_output_tokens = 0\<rparr>"

definition det_decide :: "brain_task \<Rightarrow> exn + brain_decision" where
  "det_decide task =
     (let action = (case bt_allowed_actions task of [] \<Rightarrow> ''proceed'' | a # _ \<Rightarrow> a);
          reasoning = ''deterministic policy for '' @ bt_role task @ '': default to '' @ [chr 39] @ action @ [chr 39];
          ctx = bt_context task
      in if ends_with (bt_role task) ''specialist'' then
           (case rank_params (jget_or ctx ''parameters'' (JList [])) of
              Inl e \<Rightarrow> Inl e
            | Inr order \<Rightarrow> Inr (det_decision action ''ranked parameters by injectability heuristic''
                               [(''param_order'', JList (map JStr order))]))
         else if bt_role task = ''planner'' then
           Inr (det_decision action reasoning [(''strategy'', JStr ''coverage-first'')])
         else if bt_role task = ''coordinator'' then
           (case at_most_zero (jget_or ctx ''budget_remaining'' (JInt 1)) of
              Inl e \<Rightarrow> Inl e
            | Inr spent \<Rightarrow>
              if spent
              then Inr (det_decision (if ''stop'' \<in> set (bt_allowed_actions task) then ''stop'' else action)
                          ''budget exhausted'' [])
              else Inr (det_decision action reasoning []))
         else if bt_role task = ''validator'' then
           Inr (det_decision action reasoning [(''independent'', JBool True)])
         else Inr (det_decision action reasoning []))"

section \<open>Context compaction\<close>

definition json_size :: "jv \<Rightarrow> int" where
  "json_size v = int (length (json_dumps v))"

definition ellipsis :: char where
  "ellipsis = chr 133"

fun shorten :: "jv \<Rightarrow> jv" where
  "shorten (JStr s) = (if length s > 200 then JStr (take 200 s @ [ellipsis]) else JStr s)"
| "shorten (JList xs) = JList (map shorten xs)"
| "shorten (JDict d) = JDict (map (\<lambda>(k, v). (k, shorten v)) d)"
| "shorten v = v"

fun count_long :: "jv \<Rightarrow> int" where
  "count_long (JStr s) = (if length s > 200 then 1 else 0)"
| "count_long (JList xs) = sum_list (map count_long xs)"
| "count_long (JDict d) = sum_list (map (\<lambda>(k, v). count_long v) d)"
| "count_long v = 0"

record compact_note =
  cn_shortened :: int
  cn_trimmed :: dict
  cn_dropped :: "string list"

definition note_jv :: "compact_note \<Rightarrow> jv" where
  "note_jv n = JDict [(''strings_shortened'', JInt (cn_shortened n)),
     (''lists_trimmed'', JDict (cn_trimmed n)), (''keys_dropped'', JList (map JStr (cn_dropped n)))]"

definition context_size :: "dict \<Rightarrow> compact_note \<Rightarrow> int" where
  "context_size out n = json_size (JDict out) + json_size (note_jv n)"

text \<open>\<open>max(xs, key=f)\<close>: the first of the largest.\<close>

fun first_max :: "('a \<Rightarrow> int) \<Rightarrow> 'a list \<Rightarrow> 'a option" where
  "first_max f [] = None"
| "first_max f (x # xs) =
     (case first_max f xs of None \<Rightarrow> Some x | Some y \<Rightarrow> if f y > f x then Some y else Some x)"

fun list_len :: "jv \<Rightarrow> nat" where
  "list_len (JList xs) = length xs"
| "list_len _ = 0"

fun drop_last :: "jv \<Rightarrow> jv" where
  "drop_last (JList xs) = JList (butlast xs)"
| "drop_last v = v"

definition trimmable :: "dict \<Rightarrow> dict" where
  "trimmable out = filter (\<lambda>(k, v). list_len v > 1) out"

definition trim_key :: "string \<Rightarrow> dict \<Rightarrow> dict" where
  "trim_key k out = map (\<lambda>(k', v). if k' = k then (k', drop_last v) else (k', v)) out"

definition bump :: "dict \<Rightarrow> string \<Rightarrow> dict" where
  "bump d k = dset d k (case dget d k of Some (JInt n) \<Rightarrow> JInt (n + 1) | _ \<Rightarrow> JInt 1)"

definition lists_total :: "dict \<Rightarrow> nat" where
  "lists_total out = sum_list (map (\<lambda>(k, v). list_len v) out)"

lemma first_max_in: "first_max f xs = Some x \<Longrightarrow> x \<in> set xs"
  by (induction xs arbitrary: x) (auto split: option.splits if_splits)

lemma first_max_None [simp]: "first_max f xs = None \<longleftrightarrow> xs = []"
  by (cases xs) (auto split: option.splits)

lemma list_len_drop_last: "list_len (drop_last v) \<le> list_len v"
  by (cases v) auto

lemma list_len_drop_last_less: "list_len v > 1 \<Longrightarrow> list_len (drop_last v) < list_len v"
  by (cases v) auto

lemma trim_key_le: "lists_total (trim_key k out) \<le> lists_total out"
proof (induction out)
  case (Cons kv out)
  then show ?case
    using list_len_drop_last [of "snd kv"] by (cases kv) (auto simp: lists_total_def trim_key_def)
qed (simp add: lists_total_def trim_key_def)

lemma trim_key_less:
  "(k, v) \<in> set out \<Longrightarrow> list_len v > 1 \<Longrightarrow> lists_total (trim_key k out) < lists_total out"
proof (induction out)
  case (Cons kv out)
  obtain k' v' where kv: "kv = (k', v')" by fastforce
  show ?case
  proof (cases "(k, v) = kv")
    case True
    then show ?thesis
      using kv Cons.prems(2) list_len_drop_last_less [of v] trim_key_le [of k out]
      by (auto simp: lists_total_def trim_key_def)
  next
    case False
    then show ?thesis
      using kv Cons list_len_drop_last [of v'] by (auto simp: lists_total_def trim_key_def)
  qed
qed simp

function trim_lists :: "int \<Rightarrow> dict \<Rightarrow> compact_note \<Rightarrow> dict \<times> compact_note" where
  "trim_lists limit out n =
     (if context_size out n > limit
      then (case first_max (\<lambda>(k, v). json_size v) (trimmable out) of
              None \<Rightarrow> (out, n)
            | Some (k, v) \<Rightarrow> trim_lists limit (trim_key k out) (n\<lparr>cn_trimmed := bump (cn_trimmed n) k\<rparr>))
      else (out, n))"
  by pat_completeness auto
termination
  by (relation "measure (\<lambda>(limit, out, n). lists_total out)")
    (auto dest!: first_max_in simp: trimmable_def intro: trim_key_less)

function drop_keys :: "int \<Rightarrow> dict \<Rightarrow> compact_note \<Rightarrow> dict \<times> compact_note" where
  "drop_keys limit out n =
     (if context_size out n > limit
      then (case first_max (\<lambda>(k, v). json_size v) out of
              None \<Rightarrow> (out, n)
            | Some (k, v) \<Rightarrow> drop_keys limit (dpop out k) (n\<lparr>cn_dropped := cn_dropped n @ [k]\<rparr>))
      else (out, n))"
  by pat_completeness auto
termination
proof (relation "measure (\<lambda>(limit, out, n). length out)")
  fix limit and out :: dict and n :: compact_note and kv k v
  assume "first_max (\<lambda>(k, v). json_size v) out = Some kv" "(k, v) = kv"
  then have "(k, v) \<in> set out" by (auto dest: first_max_in)
  then have "length (dpop out k) < length out"
    unfolding dpop_def by (intro length_filter_less) auto
  then show "((limit, dpop out k, n\<lparr>cn_dropped := cn_dropped n @ [k]\<rparr>), limit, out, n)
      \<in> measure (\<lambda>(limit, out, n). length out)" by simp
qed simp

declare trim_lists.simps [simp del] drop_keys.simps [simp del]

definition compact_context :: "dict \<Rightarrow> int \<Rightarrow> dict" where
  "compact_context ctx limit =
     (if json_size (JDict ctx) \<le> limit then ctx
      else let out = map (\<lambda>(k, v). (k, shorten v)) ctx;
               n = \<lparr>cn_shortened = count_long (JDict ctx), cn_trimmed = [], cn_dropped = []\<rparr>;
               (out1, n1) = trim_lists limit out n;
               (out2, n2) = drop_keys limit out1 n1
           in dset out2 ''_compacted'' (note_jv n2))"

section \<open>Reading a model's answer\<close>

text \<open>\<open>int(v or 0)\<close>.\<close>

definition int_or_zero :: "jv \<Rightarrow> exn + int" where
  "int_or_zero v =
     (if \<not> truthy v then Inr 0
      else case v of
        JBool b \<Rightarrow> Inr (if b then 1 else 0)
      | JInt i \<Rightarrow> Inr i
      | JNum r \<Rightarrow> Inr (if r < 0 then - floor (- r) else floor r)
      | JStr t \<Rightarrow>
          (let u = str_strip t; (neg, ds) = (if starts_with u ''-'' then (True, tl u)
                                             else if starts_with u ''+'' then (False, tl u) else (False, u))
           in if ds \<noteq> [] \<and> list_all is_digit ds
              then Inr (if neg then - digits_val ds else digits_val ds)
              else Inl (ValueError (''invalid literal for int() with base 10: '' @ py_repr t)))
      | _ \<Rightarrow> Inl (OtherError ''TypeError''))"

definition int_pair :: "jv \<Rightarrow> jv \<Rightarrow> exn + int \<times> int" where
  "int_pair a b =
     (case int_or_zero a of Inl e \<Rightarrow> Inl e
      | Inr i \<Rightarrow> (case int_or_zero b of Inl e \<Rightarrow> Inl e | Inr j \<Rightarrow> Inr (i, j)))"

text \<open>The text between the first opening and the last closing brace.\<close>

definition braces :: "string \<Rightarrow> string option" where
  "braces text =
     (if CHR ''{'' \<in> set text \<and> CHR ''}'' \<in> set text
      then (let from_open = dropWhile (\<lambda>c. c \<noteq> CHR ''{'') text;
                start = length text - length from_open;
                after_close = length (takeWhile (\<lambda>c. c \<noteq> CHR ''}'') (rev text));
                stop = length text - after_close
            in Some (take (stop - start) from_open))
      else None)"

definition confidence_of_jv :: "jv \<Rightarrow> rat" where
  "confidence_of_jv v =
     (case v of JInt i \<Rightarrow> of_int i | JNum r \<Rightarrow> r | JBool b \<Rightarrow> (if b then 1 else 0) | _ \<Rightarrow> 3 / 5)"

definition parse_decision :: "string \<Rightarrow> exn + brain_decision" where
  "parse_decision text =
     (case braces text of
        None \<Rightarrow> Inl (ValueError ''no JSON object in LLM output'')
      | Some body \<Rightarrow>
        (case json_loads body of
           None \<Rightarrow> Inl (ValueError ''JSONDecodeError'')
         | Some (JDict obj) \<Rightarrow>
             Inr \<lparr>bd_action = str_jv (jget_or obj ''action'' (JStr ''proceed'')),
                  bd_reasoning = take 280 (str_jv (jget_or obj ''reasoning'' (JStr []))),
                  bd_params = (case jget_or obj ''params'' (JDict []) of JDict d \<Rightarrow> d | _ \<Rightarrow> []),
                  bd_source = ''deterministic'', bd_confidence = confidence_of_jv (jget obj ''confidence''),
                  bd_input_tokens = 0, bd_output_tokens = 0\<rparr>
         | Some _ \<Rightarrow> Inl (OtherError ''AttributeError'')))"

text \<open>\<open>_extract_text\<close>: the text blocks of a Messages reply.\<close>

definition text_block :: "jv \<Rightarrow> jv option" where
  "text_block b = (case b of
     JDict d \<Rightarrow> if jget d ''type'' = JStr ''text'' then Some (jget_or d ''text'' (JStr [])) else None
   | _ \<Rightarrow> None)"

definition extract_text :: "dict \<Rightarrow> exn + string" where
  "extract_text data =
     (case jget_or data ''content'' (JList []) of
        JList blocks \<Rightarrow>
          (case mapM_sum (\<lambda>v. case v of JStr s \<Rightarrow> Inr s | _ \<Rightarrow> Inl (OtherError ''TypeError''))
                  (List.map_filter text_block blocks) of
             Inl e \<Rightarrow> Inl e
           | Inr parts \<Rightarrow> Inr (str_strip (join_with [chr 10] parts)))
      | JDict _ \<Rightarrow> Inr []
      | JStr _ \<Rightarrow> Inr []
      | _ \<Rightarrow> Inl (OtherError ''TypeError''))"

text \<open>\<open>_langchain_usage\<close> from the two metadata attributes of a message.\<close>

definition langchain_usage :: "jv \<Rightarrow> jv \<Rightarrow> exn + int \<times> int" where
  "langchain_usage usage_metadata response_metadata =
     (case usage_metadata of
        JDict m \<Rightarrow> int_pair (jget_or m ''input_tokens'' (JInt 0)) (jget_or m ''output_tokens'' (JInt 0))
      | _ \<Rightarrow>
        (case (if truthy response_metadata then as_dict response_metadata else Inr []) of
           Inl e \<Rightarrow> Inl e
         | Inr rm \<Rightarrow>
           (let usage = (if truthy (jget rm ''usage'') then jget rm ''usage''
                         else if truthy (jget rm ''token_usage'') then jget rm ''token_usage'' else JDict [])
            in case usage of
                 JDict u \<Rightarrow> int_pair (jget_or u ''input_tokens'' (jget_or u ''prompt_tokens'' (JInt 0)))
                              (jget_or u ''output_tokens'' (jget_or u ''completion_tokens'' (JInt 0)))
               | _ \<Rightarrow> Inr (0, 0))))"

section \<open>The network brains\<close>

text \<open>
  \<open>post url payload\<close> is the HTTP library: it raises, or answers with a status and what decoding
  the body as JSON gives. \<open>chat\<close>, when there is a langchain client, raises or answers with a
  message: its content and its two metadata attributes.
\<close>

type_synonym poster = "string \<Rightarrow> jv \<Rightarrow> exn + int \<times> (exn + jv)"
type_synonym chat_client = "string \<Rightarrow> exn + jv \<times> jv \<times> jv"

record brain_state =
  bs_budget :: "llm_budget option"
  bs_posted :: "jv list"

record llm_config =
  lc_api_key :: string
  lc_model :: string
  lc_url :: string
  lc_chat :: "chat_client option"

definition SYSTEM_PROMPT :: string where
  "SYSTEM_PROMPT =
     ''You are a bounded reasoning module inside an AUTHORIZED security-testing '' @
     ''platform. You only choose among the explicitly allowed actions and propose '' @
     ''parameters. You never invent targets, never request out-of-scope hosts, and '' @
     ''never attempt to change authorization. Respond ONLY with compact JSON: '' @
     ''{'' @ json_str ''action'' @ '': <one of allowed_actions>, '' @ json_str ''reasoning'' @
     '': <=280 chars, '' @ json_str ''params'' @ '': {..}, '' @ json_str ''confidence'' @ '': 0..1}.''"

definition ANTHROPIC_URL :: string where
  "ANTHROPIC_URL = ''https://api.anthropic.com/v1/messages''"

definition user_prompt :: "brain_task \<Rightarrow> string" where
  "user_prompt task = json_dumps (JDict
     [(''role'', JStr (bt_role task)), (''instruction'', JStr (bt_instruction task)),
      (''allowed_actions'', JList (map JStr (bt_allowed_actions task))),
      (''context'', JDict (compact_context (bt_context task) 4000))])"

definition over_budget :: "brain_state \<Rightarrow> bool" where
  "over_budget st = (case bs_budget st of None \<Rightarrow> False | Some b \<Rightarrow> exceeded b)"

definition fallback :: "string \<Rightarrow> brain_task \<Rightarrow> exn + brain_decision" where
  "fallback source task =
     (case det_decide task of Inl e \<Rightarrow> Inl e | Inr d \<Rightarrow> Inr (d\<lparr>bd_source := source\<rparr>))"

definition posted :: "jv \<Rightarrow> brain_state \<Rightarrow> brain_state" where
  "posted payload st = st\<lparr>bs_posted := bs_posted st @ [payload]\<rparr>"

definition charge :: "int \<Rightarrow> int \<Rightarrow> brain_state \<Rightarrow> brain_state" where
  "charge i out st = st\<lparr>bs_budget := map_option (record_usage i out) (bs_budget st)\<rparr>"

definition content_text :: "jv \<Rightarrow> string" where
  "content_text c = (case c of
     JList bs \<Rightarrow> concat (map (\<lambda>b. case b of JDict d \<Rightarrow> str_jv (jget_or d ''text'' (JStr [])) | _ \<Rightarrow> str_jv b) bs)
   | _ \<Rightarrow> str_jv c)"

definition decide_langchain :: "chat_client \<Rightarrow> string \<Rightarrow> exn + string \<times> int \<times> int" where
  "decide_langchain chat user =
     (case chat user of Inl e \<Rightarrow> Inl e
      | Inr (content, um, rm) \<Rightarrow>
        (case langchain_usage um rm of Inl e \<Rightarrow> Inl e | Inr (i, out) \<Rightarrow> Inr (content_text content, i, out)))"

definition httpx_payload :: "llm_config \<Rightarrow> string \<Rightarrow> int \<Rightarrow> jv" where
  "httpx_payload c user max_tokens = JDict
     [(''model'', JStr (lc_model c)), (''max_tokens'', JInt max_tokens), (''system'', JStr SYSTEM_PROMPT),
      (''messages'', JList [JDict [(''role'', JStr ''user''), (''content'', JStr user)]])]"

definition usage_of :: "dict \<Rightarrow> exn + dict" where
  "usage_of data = (if truthy (jget data ''usage'') then as_dict (jget data ''usage'') else Inr [])"

definition decide_httpx :: "poster \<Rightarrow> llm_config \<Rightarrow> string \<Rightarrow> int \<Rightarrow> exn + string \<times> int \<times> int" where
  "decide_httpx post c user max_tokens =
     (case post ANTHROPIC_URL (httpx_payload c user max_tokens) of
        Inl e \<Rightarrow> Inl e
      | Inr (status, body) \<Rightarrow>
        if status \<ge> 400 then Inl (HttpError (''LLM brain HTTP '' @ int_str status))
        else case body of Inl e \<Rightarrow> Inl e
        | Inr data_v \<Rightarrow>
          (case as_dict data_v of Inl e \<Rightarrow> Inl e
           | Inr data \<Rightarrow>
             (case usage_of data of Inl e \<Rightarrow> Inl e
              | Inr u \<Rightarrow>
                (case extract_text data of Inl e \<Rightarrow> Inl e
                 | Inr text \<Rightarrow>
                   (case int_pair (jget_or u ''input_tokens'' (JInt 0)) (jget_or u ''output_tokens'' (JInt 0)) of
                      Inl e \<Rightarrow> Inl e | Inr (i, out) \<Rightarrow> Inr (text, i, out))))))"

text \<open>\<open>LLMBrain.decide\<close>: every exception of the call or of the parsing falls back.\<close>

definition coerce_allowed :: "string \<Rightarrow> brain_task \<Rightarrow> brain_decision \<Rightarrow> brain_decision" where
  "coerce_allowed mark task d =
     (case bt_allowed_actions task of
        [] \<Rightarrow> d
      | a # _ \<Rightarrow> if bd_action d \<in> set (bt_allowed_actions task) then d
                 else d\<lparr>bd_action := a, bd_reasoning := mark @ bd_reasoning d\<rparr>)"

definition llm_answer :: "poster \<Rightarrow> llm_config \<Rightarrow> brain_task \<Rightarrow> exn + brain_decision \<times> int \<times> int" where
  "llm_answer post c task =
     (case (case lc_chat c of
              Some chat \<Rightarrow> decide_langchain chat (user_prompt task)
            | None \<Rightarrow> decide_httpx post c (user_prompt task) (bt_max_tokens task)) of
        Inl e \<Rightarrow> Inl e
      | Inr (text, i, out) \<Rightarrow>
        (case parse_decision text of Inl e \<Rightarrow> Inl e | Inr d \<Rightarrow> Inr (d, i, out)))"

definition llm_decide ::
  "poster \<Rightarrow> llm_config \<Rightarrow> brain_task \<Rightarrow> brain_state \<Rightarrow> (exn + brain_decision) \<times> brain_state" where
  "llm_decide post c task st =
     (if over_budget st then (fallback ''budget_exceeded'' task, st)
      else let st1 = posted (case lc_chat c of Some _ \<Rightarrow> JStr (user_prompt task)
                             | None \<Rightarrow> httpx_payload c (user_prompt task) (bt_max_tokens task)) st
        in case llm_answer post c task of
          Inl e \<Rightarrow> (fallback ''llm_fallback'' task, st1)
        | Inr (d, i, out) \<Rightarrow>
            (Inr ((coerce_allowed ''[coerced to allowed] '' task
                     (d\<lparr>bd_input_tokens := i, bd_output_tokens := out\<rparr>))\<lparr>bd_source := ''llm''\<rparr>),
             charge i out st1))"

text \<open>\<open>LocalLLMBrain.decide\<close>: reading the usage is outside the \<open>try\<close>.\<close>

definition local_payload :: "llm_config \<Rightarrow> brain_task \<Rightarrow> jv" where
  "local_payload c task = JDict
     [(''model'', JStr (lc_model c)), (''max_tokens'', JInt (bt_max_tokens task)), (''temperature'', JNum (1 / 5)),
      (''messages'', JList [JDict [(''role'', JStr ''system''), (''content'', JStr SYSTEM_PROMPT)],
                          JDict [(''role'', JStr ''user''), (''content'', JStr (user_prompt task))]])]"

definition first_choice :: "dict \<Rightarrow> exn + jv" where
  "first_choice data =
     (case jget data ''choices'' of
        JList (JDict ch # _) \<Rightarrow>
          (case jget ch ''message'' of
             JDict m \<Rightarrow> (case dget m ''content'' of None \<Rightarrow> Inl (OtherError ''KeyError'') | Some v \<Rightarrow> Inr v)
           | _ \<Rightarrow> Inl (OtherError ''KeyError''))
      | _ \<Rightarrow> Inl (OtherError ''KeyError''))"

definition local_answer :: "poster \<Rightarrow> llm_config \<Rightarrow> brain_task \<Rightarrow> exn + brain_decision \<times> dict" where
  "local_answer post c task =
     (case post (lc_url c) (local_payload c task) of
        Inl e \<Rightarrow> Inl e
      | Inr (status, body) \<Rightarrow>
        if status \<ge> 400 then Inl (HttpError (''local LLM HTTP '' @ int_str status))
        else case body of Inl e \<Rightarrow> Inl e
        | Inr data_v \<Rightarrow>
          (case as_dict data_v of Inl e \<Rightarrow> Inl e
           | Inr data \<Rightarrow>
             (case first_choice data of Inl e \<Rightarrow> Inl e
              | Inr v \<Rightarrow>
                (case as_str v of Inl e \<Rightarrow> Inl e
                 | Inr text \<Rightarrow>
                   (case parse_decision text of Inl e \<Rightarrow> Inl e | Inr d \<Rightarrow> Inr (d, data))))))"

definition local_usage :: "dict \<Rightarrow> exn + int \<times> int" where
  "local_usage data =
     (case usage_of data of Inl e \<Rightarrow> Inl e
      | Inr u \<Rightarrow> int_pair (jget_or u ''prompt_tokens'' (JInt 0)) (jget_or u ''completion_tokens'' (JInt 0)))"

definition local_decide ::
  "poster \<Rightarrow> llm_config \<Rightarrow> brain_task \<Rightarrow> brain_state \<Rightarrow> (exn + brain_decision) \<times> brain_state" where
  "local_decide post c task st =
     (if over_budget st then (fallback ''budget_exceeded'' task, st)
      else let st1 = posted (local_payload c task) st
        in case local_answer post c task of
          Inl e \<Rightarrow> (fallback ''local_llm_fallback'' task, st1)
        | Inr (d, data) \<Rightarrow>
          (case local_usage data of
             Inl e \<Rightarrow> (Inl e, st1)
           | Inr (i, out) \<Rightarrow>
             (Inr ((coerce_allowed [] task (d\<lparr>bd_input_tokens := i, bd_output_tokens := out\<rparr>))
                     \<lparr>bd_source := ''local_llm''\<rparr>),
              charge i out st1)))"

text \<open>\<open>get_brain\<close>: which brain the settings select, and that brain's decision.\<close>

datatype brain = LocalLLMBrain llm_config | LLMBrain llm_config | DeterministicBrain

definition get_brain :: "(string \<Rightarrow> string \<Rightarrow> chat_client option) \<Rightarrow> settings \<Rightarrow> brain" where
  "get_brain langchain s =
     (if local_llm_base_url s \<noteq> [] \<and> local_llm_model s \<noteq> []
      then LocalLLMBrain \<lparr>lc_api_key = local_llm_api_key s, lc_model = local_llm_model s,
             lc_url = rstrip_char (CHR ''/'') (local_llm_base_url s) @ ''/chat/completions'', lc_chat = None\<rparr>
      else if anthropic_api_key s \<noteq> []
      then LLMBrain \<lparr>lc_api_key = anthropic_api_key s, lc_model = planner_model s, lc_url = ANTHROPIC_URL,
             lc_chat = (if use_langchain_brain s then langchain (planner_model s) (anthropic_api_key s) else None)\<rparr>
      else DeterministicBrain)"

definition brain_decide ::
  "poster \<Rightarrow> brain \<Rightarrow> brain_task \<Rightarrow> brain_state \<Rightarrow> (exn + brain_decision) \<times> brain_state" where
  "brain_decide post b task st =
     (case b of
        LocalLLMBrain c \<Rightarrow> local_decide post c task st
      | LLMBrain c \<Rightarrow> llm_decide post c task st
      | DeterministicBrain \<Rightarrow> (det_decide task, st))"

section \<open>The contract of a brain\<close>

text \<open>
  What an agent relies on: a decision picks one of the allowed actions whenever there are any.
\<close>

locale reasoner =
  fixes decide :: "brain_task \<Rightarrow> 'st \<Rightarrow> (exn + brain_decision) \<times> 'st"
  assumes allowed: "decide t s = (Inr d, s') \<Longrightarrow> bt_allowed_actions t \<noteq> [] \<Longrightarrow>
     bd_action d \<in> set (bt_allowed_actions t)"
begin

lemma singleton_action:
  "decide t s = (Inr d, s') \<Longrightarrow> bt_allowed_actions t = [a] \<Longrightarrow> bd_action d = a"
  using allowed [of t s d s'] by simp

lemma two_actions:
  "decide t s = (Inr d, s') \<Longrightarrow> bt_allowed_actions t = [a, b] \<Longrightarrow> bd_action d = a \<or> bd_action d = b"
  using allowed [of t s d s'] by simp

end

lemma det_decide_allowed:
  assumes "det_decide t = Inr d" "bt_allowed_actions t \<noteq> []"
  shows "bd_action d \<in> set (bt_allowed_actions t)"
proof -
  obtain a as where a: "bt_allowed_actions t = a # as"
    using assms(2) by (cases "bt_allowed_actions t") auto
  have "bd_action d = a \<or> bd_action d = ''stop'' \<and> ''stop'' \<in> set (bt_allowed_actions t)"
    using assms(1) unfolding det_decide_def Let_def a
    by (auto simp: det_decision_def split: if_splits sum.splits)
  then show ?thesis using a by auto
qed

lemma fallback_allowed:
  "fallback src t = Inr d \<Longrightarrow> bt_allowed_actions t \<noteq> [] \<Longrightarrow> bd_action d \<in> set (bt_allowed_actions t)"
  by (auto simp: fallback_def det_decide_allowed split: sum.splits)

lemma coerce_allowed_action:
  "bt_allowed_actions t \<noteq> [] \<Longrightarrow> bd_action (coerce_allowed mark t d) \<in> set (bt_allowed_actions t)"
  by (cases "bt_allowed_actions t") (auto simp: coerce_allowed_def)

lemma llm_decide_allowed:
  assumes "llm_decide post c t s = (Inr d, s')" "bt_allowed_actions t \<noteq> []"
  shows "bd_action d \<in> set (bt_allowed_actions t)"
proof (cases "over_budget s")
  case True
  with assms show ?thesis by (auto simp: llm_decide_def fallback_allowed)
next
  case False
  then show ?thesis
    using assms coerce_allowed_action [OF assms(2)]
    by (cases "llm_answer post c t") (auto simp: llm_decide_def Let_def fallback_allowed)
qed

lemma local_decide_allowed:
  assumes "local_decide post c t s = (Inr d, s')" "bt_allowed_actions t \<noteq> []"
  shows "bd_action d \<in> set (bt_allowed_actions t)"
proof (cases "over_budget s")
  case True
  with assms show ?thesis by (auto simp: local_decide_def fallback_allowed)
next
  case False
  show ?thesis
  proof (cases "local_answer post c t")
    case (Inl e)
    with assms False show ?thesis by (auto simp: local_decide_def Let_def fallback_allowed)
  next
    case (Inr a)
    with assms False show ?thesis
      using coerce_allowed_action [OF assms(2)]
      by (cases a; cases "local_usage (snd a)") (auto simp: local_decide_def Let_def)
  qed
qed

lemma brain_decide_allowed:
  "brain_decide post b t s = (Inr d, s') \<Longrightarrow> bt_allowed_actions t \<noteq> [] \<Longrightarrow>
     bd_action d \<in> set (bt_allowed_actions t)"
  by (cases b) (auto simp: brain_decide_def det_decide_allowed llm_decide_allowed local_decide_allowed)

interpretation configured: reasoner "brain_decide post b" for post b
  by unfold_locales (rule brain_decide_allowed)

section \<open>Spending\<close>

lemma record_usage_total: "total_tokens b \<le> total_tokens (record_usage i out b)"
  by (simp add: total_tokens_def record_usage_def)

lemma exceeded_record:
  "exceeded b \<Longrightarrow> 0 \<le> lb_cost_per_1k b \<Longrightarrow> exceeded (record_usage i out b)"
proof -
  assume e: "exceeded b" and c: "0 \<le> lb_cost_per_1k b"
  let ?b = "record_usage i out b"
  have "cost_usd b \<le> cost_usd ?b"
    using record_usage_total [of b i out] c
    by (simp add: cost_usd_def record_usage_def mult_right_mono divide_right_mono)
  then show "exceeded ?b"
    using e record_usage_total [of b i out] by (auto simp: exceeded_def record_usage_def split: if_splits)
qed

lemma over_budget_decide:
  assumes "over_budget s"
  shows "snd (brain_decide post b t s) = s"
    "fst (brain_decide post b t s) \<in> {det_decide t, fallback ''budget_exceeded'' t}"
  using assms by (cases b; simp add: brain_decide_def llm_decide_def local_decide_def)+

fun decide_all :: "poster \<Rightarrow> brain \<Rightarrow> brain_task list \<Rightarrow> brain_state \<Rightarrow> brain_state" where
  "decide_all post b [] s = s"
| "decide_all post b (t # ts) s = decide_all post b ts (snd (brain_decide post b t s))"

section \<open>Theorems\<close>

text \<open>
  C12: a brain only picks among the allowed actions. Whatever the settings select (a local model, a
  hosted model or the deterministic rules) and whatever text the model answers with, a decision
  that is returned names one of the task's allowed actions, when the task lists any.
\<close>

theorem brain_stays_in_allowed_set:
  assumes "brain_decide post (get_brain langchain settings) t s = (Inr d, s')" "bt_allowed_actions t \<noteq> []"
  shows "bd_action d \<in> set (bt_allowed_actions t)"
  using assms by (rule configured.allowed)

definition demo_task :: brain_task where
  "demo_task = \<lparr>bt_role = ''sqli-specialist'', bt_instruction = ''x'',
     bt_context = [(''parameters'', JList [JDict [(''name'', JStr ''page'')], JDict [(''name'', JStr ''q''), (''in'', JStr ''query'')]])],
     bt_allowed_actions = [''proceed'', ''skip''], bt_max_tokens = 10\<rparr>"

definition demo_poster :: poster where
  "demo_poster url payload = Inr (200, Inr (JDict
     [(''content'', JList [JDict [(''type'', JStr ''text''),
         (''text'', JStr (''{'' @ json_str ''action'' @ '':'' @ json_str ''rm -rf'' @ ''}''))]])]))"

theorem brain_stays_in_allowed_set_witness:
  "\<exists>d. fst (brain_decide demo_poster (get_brain (\<lambda>_ _. None) (default_settings\<lparr>anthropic_api_key := ''k''\<rparr>))
        demo_task \<lparr>bs_budget = None, bs_posted = []\<rparr>) = Inr d \<and> bd_action d \<in> {''proceed'', ''skip''}"
proof -
  let ?r = "brain_decide demo_poster (get_brain (\<lambda>_ _. None) (default_settings\<lparr>anthropic_api_key := ''k''\<rparr>))
        demo_task \<lparr>bs_budget = None, bs_posted = []\<rparr>"
  have "\<not> isl (det_decide demo_task)" by code_simp
  then have "\<exists>d. det_decide demo_task = Inr d" by (cases "det_decide demo_task") auto
  then have "\<exists>d. fst ?r = Inr d"
    by (cases "llm_answer demo_poster \<lparr>lc_api_key = ''k'', lc_model = planner_model default_settings,
          lc_url = ANTHROPIC_URL, lc_chat = None\<rparr> demo_task")
      (auto simp: brain_decide_def get_brain_def default_settings_def llm_decide_def over_budget_def Let_def fallback_def)
  then obtain d where d: "fst ?r = Inr d" by blast
  have "bt_allowed_actions demo_task = [''proceed'', ''skip'']"
    by (simp add: demo_task_def)
  with d brain_stays_in_allowed_set [of demo_poster "\<lambda>_ _. None" "default_settings\<lparr>anthropic_api_key := ''k''\<rparr>"
      demo_task "\<lparr>bs_budget = None, bs_posted = []\<rparr>" d "snd ?r"]
  show ?thesis by (auto simp: prod_eq_iff)
qed

text \<open>
  C13: spending stops for good. Once the ledger of an assessment is over a ceiling, no later decision
  of any brain posts anything or changes the ledger, and each is the deterministic brain's own.
\<close>

theorem spending_stops:
  assumes "over_budget s"
  shows "decide_all post b ts s = s \<and>
     (\<forall>t. fst (brain_decide post b t s) \<in> {det_decide t, fallback ''budget_exceeded'' t})"
proof -
  have "decide_all post b ts s = s"
    by (induction ts) (simp_all add: over_budget_decide(1) [OF assms])
  then show ?thesis using over_budget_decide(2) [OF assms] by blast
qed

theorem spending_stops_witness:
  "bs_posted (decide_all demo_poster DeterministicBrain [demo_task]
     \<lparr>bs_budget = Some ((new_budget 10 0 (3 / 200))\<lparr>lb_input_tokens := 10\<rparr>), bs_posted = []\<rparr>) = []"
proof -
  have "over_budget \<lparr>bs_budget = Some ((new_budget 10 0 (3 / 200))\<lparr>lb_input_tokens := 10\<rparr>), bs_posted = []\<rparr>"
    by code_simp
  from spending_stops [OF this, of demo_poster DeterministicBrain "[demo_task]"] show ?thesis by simp
qed

text \<open>
  Parameter ranking reorders and nothing else. When every parameter is a named object, the
  specialist's order holds exactly the nonempty names, as often as they occur, by descending score
  and in their given order among equals.
\<close>

theorem rank_params_permutes:
  assumes "mapM_sum scored_param ps = Inr scored"
  shows "\<exists>order. rank_params (JList ps) = Inr (map fst order) \<and>
     mset order = mset (filter (\<lambda>p. fst p \<noteq> []) scored) \<and>
     sorted_wrt (\<lambda>p q. snd q \<le> snd p) order \<and>
     (\<forall>v. filter (\<lambda>p. snd p = v) order = filter (\<lambda>p. fst p \<noteq> []) (filter (\<lambda>p. snd p = v) scored))"
proof -
  let ?order = "filter (\<lambda>p. fst p \<noteq> []) (sort_desc snd scored)"
  have "rank_params (JList ps) = Inr (map fst ?order)"
    using assms by (simp add: rank_params_def filter_map o_def)
  moreover have "mset ?order = mset (filter (\<lambda>p. fst p \<noteq> []) scored)"
    by (simp add: mset_filter)
  moreover have "sorted_wrt (\<lambda>p q. snd q \<le> snd p) ?order"
    by (intro sorted_wrt_filter sorted_sort_desc)
  moreover have "filter (\<lambda>p. snd p = v) ?order = filter (\<lambda>p. fst p \<noteq> []) (filter (\<lambda>p. snd p = v) scored)" for v
    using stable_sort_desc [of snd v scored] by (metis (mono_tags, lifting) filter_filter filter_cong conj_commute)
  ultimately show ?thesis by blast
qed

theorem rank_params_permutes_witness:
  "\<exists>order. rank_params (JList [JDict [(''name'', JStr ''page'')], JDict [(''name'', JStr ''uid'')]])
      = Inr (map fst order) \<and> mset order = {#(''page'', 0), (''uid'', 3 :: int)#}"
proof -
  have "mapM_sum scored_param [JDict [(''name'', JStr ''page'')], JDict [(''name'', JStr ''uid'')]]
      = Inr [(''page'', 0), (''uid'', 3)]"
    by code_simp
  from rank_params_permutes [OF this] show ?thesis by fastforce
qed

lemma trim_lists_small:
  "trim_lists limit out n = (out', n') \<Longrightarrow> dkeys out' = dkeys out"
proof (induction limit out n rule: trim_lists.induct)
  case (1 limit out n)
  have keys: "dkeys (trim_key k out) = dkeys out" for k
    by (auto simp: dkeys_def trim_key_def)
  show ?case
    using 1 by (subst (asm) (2) trim_lists.simps) (auto simp: keys split: if_splits option.splits)
qed

lemma drop_keys_small:
  "drop_keys limit out n = (out', n') \<Longrightarrow>
     set (dkeys out') \<subseteq> set (dkeys out) \<and> (out' = [] \<or> context_size out' n' \<le> limit)"
proof (induction limit out n rule: drop_keys.induct)
  case (1 limit out n)
  have keys: "set (dkeys (dpop out k)) \<subseteq> set (dkeys out)" for k
    by (auto simp: dkeys_def dpop_def)
  show ?case
    using 1 keys by (subst (asm) (2) drop_keys.simps) (fastforce split: if_splits option.splits prod.splits)
qed

lemma length_join: "xs \<noteq> [] \<Longrightarrow> length (join_with sep (xs @ [x])) = length (join_with sep xs) + length sep + length x"
  by (induction sep xs rule: join_with.induct) auto

lemma json_size_snoc:
  "json_size (JDict (d @ [(k, v)])) =
     json_size (JDict d) + int (length (json_str k)) + 2 + json_size v + (if d = [] then 0 else 2)"
  using length_join [of "map (\<lambda>(k, v). json_str k @ '': '' @ json_dumps v) d" "'', ''"]
  by (cases "d = []") (auto simp: json_size_def)

lemma dkeys_map_snd: "dkeys (map (\<lambda>(k, v). (k, f v)) d) = dkeys d"
  by (auto simp: dkeys_def)

text \<open>
  Compaction bounds the context. The compacted context of a task either fits the limit plus the
  sixteen characters that naming the compaction note takes, or nothing but that note is left.
\<close>

theorem compact_context_bounded:
  assumes "''_compacted'' \<notin> set (dkeys ctx)" "0 \<le> limit"
  shows "json_size (JDict (compact_context ctx limit)) \<le> limit + 16 \<or>
     dkeys (compact_context ctx limit) = [''_compacted'']"
proof (cases "json_size (JDict ctx) \<le> limit")
  case True
  then show ?thesis by (simp add: compact_context_def)
next
  case False
  define n where "n = \<lparr>cn_shortened = count_long (JDict ctx), cn_trimmed = [], cn_dropped = []\<rparr>"
  define out where "out = map (\<lambda>(k, v). (k, shorten v)) ctx"
  obtain out1 n1 where t: "trim_lists limit out n = (out1, n1)" by fastforce
  obtain out2 n2 where d: "drop_keys limit out1 n1 = (out2, n2)" by fastforce
  have res: "compact_context ctx limit = dset out2 ''_compacted'' (note_jv n2)"
    using False t d by (simp add: compact_context_def n_def out_def Let_def)
  have fresh: "''_compacted'' \<notin> set (dkeys out2)"
    using assms(1) trim_lists_small [OF t] drop_keys_small [OF d] dkeys_map_snd [of shorten ctx]
    by (auto simp: out_def)
  have lenk: "length (json_str ''_compacted'') = 12" by code_simp
  show ?thesis
  proof (cases "out2 = []")
    case True
    then show ?thesis by (simp add: res dkeys_def)
  next
    case False
    then have "context_size out2 n2 \<le> limit" using drop_keys_small [OF d] by blast
    with False lenk show ?thesis
      by (simp add: res dset_new [OF fresh] json_size_snoc context_size_def)
  qed
qed

theorem compact_context_bounded_witness:
  "dkeys (compact_context [(''a'', JStr ''bcd'')] 10) = [''_compacted''] \<or>
   json_size (JDict (compact_context [(''a'', JStr ''bcd'')] 10)) \<le> 26"
  using compact_context_bounded [of "[(''a'', JStr ''bcd'')]" 10] by (auto simp: dkeys_def)

definition bad_usage_reply :: poster where
  "bad_usage_reply url payload = Inr (200, Inr (JDict
     [(''choices'', JList [JDict [(''message'', JDict [(''content'', JStr ''{}'')])]]),
      (''usage'', JList [JInt 1])]))"

text \<open>
  The local brain does not fall back on every error. A reply with a good decision whose usage
  field is no object makes the decision raise instead of falling back to the deterministic brain,
  because the usage is read outside the try block.
\<close>

theorem local_brain_can_raise:
  "fst (local_decide bad_usage_reply c t \<lparr>bs_budget = None, bs_posted = []\<rparr>) = Inl (OtherError ''AttributeError'')"
proof -
  have p: "parse_decision ''{}'' = Inr \<lparr>bd_action = ''proceed'', bd_reasoning = [], bd_params = [],
      bd_source = ''deterministic'', bd_confidence = 3 / 5, bd_input_tokens = 0, bd_output_tokens = 0\<rparr>"
    by code_simp
  show ?thesis
    by (simp add: local_decide_def over_budget_def Let_def local_answer_def bad_usage_reply_def as_dict_def
        first_choice_def as_str_def jget_def p local_usage_def usage_of_def)
qed

end
