(* ===== verification/Hooks.thy ===== *)
theory Hooks
  imports Prelude
begin

text \<open>
  \<open>app/orchestration/hooks.py\<close>: the registry of lifecycle hooks. A hook is a function of the
  payload with the identity by which it is unregistered; it answers with a veto or any other
  value, or raises, in which case the name of the exception's class and its text are kept.
\<close>

definition EVENTS :: "string list" where
  "EVENTS = [''pre_phase'', ''post_phase'', ''pre_tool'', ''post_tool'']"

datatype hook_answer = HookVeto string | NoOpinion

record hook =
  hk_name :: string
  hk_id :: nat
  hk_fn :: "dict \<Rightarrow> (string \<times> string) + hook_answer"

record hook_outcome =
  ho_vetoed :: bool
  ho_reason :: string
  ho_ran :: int
  ho_errors :: "string list"

type_synonym hook_registry = "(string \<times> hook list) list"

definition new_registry :: hook_registry where
  "new_registry = map (\<lambda>e. (e, [])) EVENTS"

definition hooks_of :: "hook_registry \<Rightarrow> string \<Rightarrow> hook list" where
  "hooks_of r event = (case dget r event of None \<Rightarrow> [] | Some hs \<Rightarrow> hs)"

definition register :: "hook_registry \<Rightarrow> string \<Rightarrow> hook \<Rightarrow> exn + hook_registry" where
  "register r event h =
     (case dget r event of
        None \<Rightarrow> Inl (ValueError (''unknown hook event '' @ py_repr event @ ''; expected one of (''
                  @ join_with '', '' (map py_repr EVENTS) @ '')''))
      | Some hs \<Rightarrow> Inr (dset r event (hs @ [h])))"

definition unregister :: "hook_registry \<Rightarrow> string \<Rightarrow> nat \<Rightarrow> hook_registry" where
  "unregister r event fn = dset r event (filter (\<lambda>h. hk_id h \<noteq> fn) (hooks_of r event))"

definition clear :: "hook_registry \<Rightarrow> hook_registry" where
  "clear r = foldl (\<lambda>r e. dset r e []) r EVENTS"

definition registered :: "hook_registry \<Rightarrow> string \<Rightarrow> string list" where
  "registered r event = map hk_name (hooks_of r event)"

fun run_hooks :: "bool \<Rightarrow> hook list \<Rightarrow> dict \<Rightarrow> hook_outcome \<Rightarrow> hook_outcome" where
  "run_hooks is_pre [] payload out = out"
| "run_hooks is_pre (h # hs) payload out =
     (case hk_fn h payload of
        Inl (cls, msg) \<Rightarrow>
          run_hooks is_pre hs payload
            (out\<lparr>ho_errors := ho_errors out @ [hk_name h @ '': '' @ cls @ '': '' @ msg]\<rparr>)
      | Inr res \<Rightarrow>
          (let out' = out\<lparr>ho_ran := ho_ran out + 1\<rparr> in
           case res of
             HookVeto reason \<Rightarrow>
               if is_pre then out'\<lparr>ho_vetoed := True, ho_reason := hk_name h @ '': '' @ reason\<rparr>
               else run_hooks is_pre hs payload out'
           | NoOpinion \<Rightarrow> run_hooks is_pre hs payload out'))"

definition no_outcome :: hook_outcome where
  "no_outcome = \<lparr>ho_vetoed = False, ho_reason = [], ho_ran = 0, ho_errors = []\<rparr>"

definition run_event :: "hook_registry \<Rightarrow> string \<Rightarrow> dict \<Rightarrow> hook_outcome" where
  "run_event r event payload =
     run_hooks (starts_with event ''pre_'') (hooks_of r event) payload no_outcome"

section \<open>Which veto wins\<close>

definition vetoes :: "dict \<Rightarrow> hook \<Rightarrow> string option" where
  "vetoes payload h = (case hk_fn h payload of Inr (HookVeto reason) \<Rightarrow> Some reason | _ \<Rightarrow> None)"

definition consulted :: "hook_outcome \<Rightarrow> int" where
  "consulted out = ho_ran out + int (length (ho_errors out))"

text \<open>The specification: the first hook of a pre-event that vetoes, found without running the loop.\<close>

definition first_veto :: "hook_registry \<Rightarrow> string \<Rightarrow> dict \<Rightarrow> hook option" where
  "first_veto r event payload =
     (if starts_with event ''pre_'' then List.find (\<lambda>h. vetoes payload h \<noteq> None) (hooks_of r event) else None)"

lemma run_hooks_spec:
  "run_hooks is_pre hs payload out =
     (case (if is_pre then List.find (\<lambda>h. vetoes payload h \<noteq> None) hs else None) of
        None \<Rightarrow> run_hooks False hs payload out
      | Some h \<Rightarrow> run_hooks is_pre hs payload out)"
proof (induction hs arbitrary: out)
  case (Cons h hs)
  then show ?case
    by (cases "hk_fn h payload"; cases "projr (hk_fn h payload)")
      (auto simp: Let_def vetoes_def split: option.splits if_splits)
qed simp

lemma run_hooks_post:
  "ho_vetoed (run_hooks False hs payload out) = ho_vetoed out \<and>
   consulted (run_hooks False hs payload out) = consulted out + int (length hs)"
proof (induction hs arbitrary: out)
  case (Cons h hs)
  then show ?case
    by (cases "hk_fn h payload"; cases "projr (hk_fn h payload)") (auto simp: Let_def consulted_def)
qed simp

lemma run_hooks_veto:
  "List.find (\<lambda>h. vetoes payload h \<noteq> None) hs = Some h \<Longrightarrow>
   ho_vetoed (run_hooks True hs payload out) \<and>
   ho_reason (run_hooks True hs payload out) = hk_name h @ '': '' @ the (vetoes payload h) \<and>
   consulted (run_hooks True hs payload out) =
     consulted out + int (length (takeWhile (\<lambda>b. vetoes payload b = None) hs)) + 1"
proof (induction hs arbitrary: out)
  case (Cons b hs)
  show ?case
  proof (cases "vetoes payload b")
    case None
    with Cons show ?thesis
      by (cases "hk_fn b payload"; cases "projr (hk_fn b payload)")
        (auto simp: Let_def vetoes_def consulted_def)
  next
    case (Some reason)
    with Cons.prems show ?thesis
      by (cases "hk_fn b payload"; cases "projr (hk_fn b payload)")
        (auto simp: Let_def vetoes_def consulted_def)
  qed
qed simp

text \<open>
  Hooks can only refuse, and the first refusal wins. A pre-event is vetoed exactly when one of
  its hooks answers with a veto; the reason is that of the first such hook, and no hook after it is
  consulted. A post-event is never vetoed and consults every hook; a hook that raises counts as no
  opinion in both.
\<close>

theorem first_veto_wins:
  "case first_veto r event payload of
     None \<Rightarrow> \<not> ho_vetoed (run_event r event payload) \<and>
       consulted (run_event r event payload) = int (length (hooks_of r event))
   | Some h \<Rightarrow> ho_vetoed (run_event r event payload) \<and>
       ho_reason (run_event r event payload) = hk_name h @ '': '' @ the (vetoes payload h) \<and>
       consulted (run_event r event payload) =
         int (length (takeWhile (\<lambda>b. vetoes payload b = None) (hooks_of r event))) + 1"
proof (cases "first_veto r event payload")
  case None
  then have "run_event r event payload = run_hooks False (hooks_of r event) payload no_outcome"
    using run_hooks_spec [of "starts_with event ''pre_''" "hooks_of r event" payload no_outcome]
    by (simp add: run_event_def first_veto_def split: if_splits)
  with None show ?thesis
    using run_hooks_post [of "hooks_of r event" payload no_outcome]
    by (simp add: consulted_def no_outcome_def)
next
  case (Some h)
  then have "starts_with event ''pre_''" "List.find (\<lambda>h. vetoes payload h \<noteq> None) (hooks_of r event) = Some h"
    by (auto simp: first_veto_def split: if_splits)
  with Some show ?thesis
    using run_hooks_veto [of payload "hooks_of r event" h no_outcome]
    by (simp add: run_event_def consulted_def no_outcome_def)
qed

end
