(* ===== verification/A2a.thy ===== *)
theory A2a
  imports Prelude "HOL-Library.Sublist"
begin

text \<open>
  \<open>app/agents/a2a.py\<close>: the in-process message bus. A queue is named by the number of its
  subscription and holds the messages not yet taken from it; \<open>asyncio.Queue\<close> with a positive
  maximum refuses a message when it is full. Message ids and times are chosen by the caller.
\<close>

record agent_message =
  am_topic :: string
  am_sender :: string
  am_payload :: dict
  am_recipient :: "string option"
  am_id :: string

record message_bus =
  mb_subscribers :: "(string \<times> nat list) list"
  mb_queues :: "nat \<Rightarrow> agent_message list"
  mb_history :: "agent_message list"
  mb_max_queue :: int
  mb_next :: nat

definition new_bus :: "int \<Rightarrow> message_bus" where
  "new_bus max_queue = \<lparr>mb_subscribers = [], mb_queues = \<lambda>_. [], mb_history = [],
     mb_max_queue = max_queue, mb_next = 0\<rparr>"

definition subscribers :: "message_bus \<Rightarrow> string \<Rightarrow> nat list" where
  "subscribers b topic = (case dget (mb_subscribers b) topic of None \<Rightarrow> [] | Some qs \<Rightarrow> qs)"

definition subscribe :: "message_bus \<Rightarrow> string \<Rightarrow> nat \<times> message_bus" where
  "subscribe b topic =
     (let q = mb_next b in
      (q, b\<lparr>mb_subscribers := dset (mb_subscribers b) topic (subscribers b topic @ [q]),
            mb_queues := (mb_queues b)(q := []), mb_next := Suc q\<rparr>))"

definition unsubscribe :: "message_bus \<Rightarrow> string \<Rightarrow> nat \<Rightarrow> message_bus" where
  "unsubscribe b topic q =
     (if dget (mb_subscribers b) topic \<noteq> None \<and> q \<in> set (subscribers b topic)
      then b\<lparr>mb_subscribers := dset (mb_subscribers b) topic (remove1 q (subscribers b topic))\<rparr>
      else b)"

definition queue_full :: "message_bus \<Rightarrow> nat \<Rightarrow> bool" where
  "queue_full b q \<longleftrightarrow> mb_max_queue b > 0 \<and> int (length (mb_queues b q)) \<ge> mb_max_queue b"

fun deliver :: "agent_message \<Rightarrow> nat list \<Rightarrow> message_bus \<Rightarrow> int \<Rightarrow> int \<times> message_bus" where
  "deliver m [] b n = (n, b)"
| "deliver m (q # qs) b n =
     (if queue_full b q then deliver m qs b n
      else deliver m qs (b\<lparr>mb_queues := (mb_queues b)(q := mb_queues b q @ [m])\<rparr>) (n + 1))"

definition publish :: "message_bus \<Rightarrow> agent_message \<Rightarrow> int \<times> message_bus" where
  "publish b m =
     (let b' = b\<lparr>mb_history := mb_history b @ [m]\<rparr>
      in deliver m (subscribers b' (am_topic m)) b' 0)"

definition bus_history :: "message_bus \<Rightarrow> string option \<Rightarrow> agent_message list" where
  "bus_history b topic = (case topic of None \<Rightarrow> mb_history b
     | Some t \<Rightarrow> filter (\<lambda>m. am_topic m = t) (mb_history b))"

text \<open>A consumer takes the oldest message of its queue (\<open>get_nowait\<close>).\<close>

definition take_message :: "message_bus \<Rightarrow> nat \<Rightarrow> agent_message option \<times> message_bus" where
  "take_message b q = (case mb_queues b q of [] \<Rightarrow> (None, b)
     | m # ms \<Rightarrow> (Some m, b\<lparr>mb_queues := (mb_queues b)(q := ms)\<rparr>))"

inductive bus_step :: "message_bus \<Rightarrow> message_bus \<Rightarrow> bool" where
  sub: "bus_step b (snd (subscribe b topic))"
| unsub: "bus_step b (unsubscribe b topic q)"
| pub: "bus_step b (snd (publish b m))"
| taken: "bus_step b (snd (take_message b q))"

section \<open>The invariant\<close>

definition bus_inv :: "int \<Rightarrow> message_bus \<Rightarrow> bool" where
  "bus_inv maxq b \<longleftrightarrow> mb_max_queue b = maxq \<and>
     (\<forall>q. mb_next b \<le> q \<longrightarrow> mb_queues b q = []) \<and>
     (\<forall>t q. q \<in> set (subscribers b t) \<longrightarrow> q < mb_next b) \<and>
     (\<forall>t t' q. q \<in> set (subscribers b t) \<longrightarrow> q \<in> set (subscribers b t') \<longrightarrow> t = t') \<and>
     (\<forall>t. distinct (subscribers b t)) \<and>
     (\<forall>q. maxq \<le> 0 \<or> int (length (mb_queues b q)) \<le> maxq) \<and>
     (\<forall>t q. q \<in> set (subscribers b t) \<longrightarrow> subseq (mb_queues b q) (bus_history b (Some t)))"

lemma deliver_frame:
  "mb_history (snd (deliver m qs b n)) = mb_history b"
  "mb_subscribers (snd (deliver m qs b n)) = mb_subscribers b"
  "mb_max_queue (snd (deliver m qs b n)) = mb_max_queue b"
  "mb_next (snd (deliver m qs b n)) = mb_next b"
  by (induction m qs b n rule: deliver.induct) auto

lemma queue_full_other: "q \<noteq> q' \<Longrightarrow>
  queue_full (b\<lparr>mb_queues := (mb_queues b)(q := ms)\<rparr>) q' = queue_full b q'"
  by (simp add: queue_full_def)

text \<open>Delivery reaches exactly the queues that are not full, one message each.\<close>

lemma deliver_queues:
  "distinct qs \<Longrightarrow> mb_queues (snd (deliver m qs b n)) q =
     (if q \<in> set qs \<and> \<not> queue_full b q then mb_queues b q @ [m] else mb_queues b q)"
proof (induction m qs b n rule: deliver.induct)
  case (2 m q' qs b n)
  then show ?case by (auto simp: queue_full_other)
qed simp

lemma deliver_count:
  "distinct qs \<Longrightarrow> fst (deliver m qs b n) = n + int (length (filter (\<lambda>q. \<not> queue_full b q) qs))"
proof (induction m qs b n rule: deliver.induct)
  case (2 m q' qs b n)
  have "filter (\<lambda>q. \<not> queue_full (b\<lparr>mb_queues := (mb_queues b)(q' := mb_queues b q' @ [m])\<rparr>) q) qs
      = filter (\<lambda>q. \<not> queue_full b q) qs"
    using 2(3) queue_full_other [of q' _ b] by (intro filter_cong refl) (metis distinct.simps(2))
  with 2 show ?case by auto
qed simp

lemma publish_queues:
  assumes "distinct (subscribers b (am_topic m))"
  shows "mb_queues (snd (publish b m)) q =
     (if q \<in> set (subscribers b (am_topic m)) \<and> \<not> queue_full b q then mb_queues b q @ [m] else mb_queues b q)"
  using assms by (simp add: publish_def Let_def deliver_queues subscribers_def queue_full_def)

lemma publish_frame:
  "mb_history (snd (publish b m)) = mb_history b @ [m]"
  "subscribers (snd (publish b m)) = subscribers b"
  "mb_max_queue (snd (publish b m)) = mb_max_queue b" "mb_next (snd (publish b m)) = mb_next b"
  by (simp_all add: publish_def Let_def deliver_frame subscribers_def fun_eq_iff)

lemma inv_new: "bus_inv maxq (new_bus maxq)"
  by (auto simp: bus_inv_def new_bus_def subscribers_def)

lemma inv_subscribe: "bus_inv maxq b \<Longrightarrow> bus_inv maxq (snd (subscribe b topic))"
proof -
  assume inv: "bus_inv maxq b"
  let ?b = "snd (subscribe b topic)"
  have subs: "subscribers ?b t = (if t = topic then subscribers b t @ [mb_next b] else subscribers b t)" for t
    by (simp add: subscribe_def Let_def subscribers_def dget_dset)
  have fresh: "mb_next b \<notin> set (subscribers b t)" for t
    using inv by (auto simp: bus_inv_def)
  show ?thesis
    using inv fresh unfolding bus_inv_def subs
    by (auto simp: subscribe_def Let_def bus_history_def less_Suc_eq)
qed

lemma inv_unsubscribe: "bus_inv maxq b \<Longrightarrow> bus_inv maxq (unsubscribe b topic q)"
proof -
  assume inv: "bus_inv maxq b"
  let ?b = "unsubscribe b topic q"
  have subs: "set (subscribers ?b t) \<subseteq> set (subscribers b t)" "distinct (subscribers ?b t)" for t
    using inv set_remove1_subset [of q "subscribers b topic"]
    by (auto simp: unsubscribe_def subscribers_def dget_dset bus_inv_def split: option.splits)
  have frame: "mb_queues ?b = mb_queues b" "mb_next ?b = mb_next b" "mb_max_queue ?b = mb_max_queue b"
    "bus_history ?b = bus_history b"
    by (auto simp: unsubscribe_def bus_history_def fun_eq_iff split: option.splits)
  show ?thesis
    using inv subs unfolding bus_inv_def frame by (meson subsetD)
qed

lemma inv_publish: "bus_inv maxq b \<Longrightarrow> bus_inv maxq (snd (publish b m))"
proof -
  assume inv: "bus_inv maxq b"
  let ?b = "snd (publish b m)"
  have q: "mb_queues ?b q = (if q \<in> set (subscribers b (am_topic m)) \<and> \<not> queue_full b q
      then mb_queues b q @ [m] else mb_queues b q)" for q
    using inv by (simp add: publish_queues bus_inv_def)
  have hist: "bus_history ?b (Some t) = bus_history b (Some t) @ (if am_topic m = t then [m] else [])" for t
    by (simp add: bus_history_def publish_frame)
  have sub: "subseq (mb_queues ?b q) (bus_history ?b (Some t))" if "q \<in> set (subscribers b t)" for t q
  proof -
    have "subseq (mb_queues b q) (bus_history b (Some t))"
      using inv that by (simp add: bus_inv_def)
    then have base: "subseq (mb_queues b q) (bus_history b (Some t) @ zs)" for zs
      by (rule list_emb_prefix)
    have topic: "am_topic m = t" if "q \<in> set (subscribers b (am_topic m))"
      using inv \<open>q \<in> set (subscribers b t)\<close> that unfolding bus_inv_def by metis
    show ?thesis
    proof (cases "q \<in> set (subscribers b (am_topic m)) \<and> \<not> queue_full b q")
      case True
      then have "mb_queues ?b q = mb_queues b q @ [m]" "am_topic m = t"
        using q topic by auto
      then show ?thesis
        unfolding hist using \<open>subseq (mb_queues b q) (bus_history b (Some t))\<close>
        by (simp add: list_emb_append_mono)
    next
      case False
      then have "mb_queues ?b q = mb_queues b q" using q by auto
      then show ?thesis unfolding hist using base by simp
    qed
  qed
  have len: "maxq \<le> 0 \<or> int (length (mb_queues ?b q)) \<le> maxq" for q
    using inv unfolding q by (auto simp: bus_inv_def queue_full_def)
  have empty: "mb_queues ?b q = []" if "mb_next b \<le> q" for q
  proof -
    have "q \<notin> set (subscribers b (am_topic m))" "mb_queues b q = []"
      using inv that unfolding bus_inv_def by (metis leD)+
    then show ?thesis by (simp add: q)
  qed
  show ?thesis
    using inv sub len empty unfolding bus_inv_def publish_frame by (intro conjI allI impI) blast+
qed

lemma inv_take: "bus_inv maxq b \<Longrightarrow> bus_inv maxq (snd (take_message b q))"
proof -
  assume inv: "bus_inv maxq b"
  show ?thesis
  proof (cases "mb_queues b q")
    case (Cons m ms)
    then have q: "mb_queues (snd (take_message b q)) q' = (if q' = q then ms else mb_queues b q')" for q'
      by (simp add: take_message_def)
    have sub: "subseq (mb_queues (snd (take_message b q)) q') (mb_queues b q')" for q'
      using Cons by (simp add: q list_emb_Cons)
    have len: "int (length (mb_queues (snd (take_message b q)) q')) \<le> int (length (mb_queues b q'))" for q'
      using sub [of q'] list_emb_length by fastforce
    have frame: "subscribers (snd (take_message b q)) = subscribers b"
      "bus_history (snd (take_message b q)) = bus_history b"
      "mb_next (snd (take_message b q)) = mb_next b" "mb_max_queue (snd (take_message b q)) = mb_max_queue b"
      using Cons by (auto simp: take_message_def subscribers_def bus_history_def fun_eq_iff split: option.splits)
    have empty: "mb_queues (snd (take_message b q)) q' = []" if "mb_next b \<le> q'" for q'
      using inv that sub [of q'] by (simp add: bus_inv_def)
    have bound: "maxq \<le> 0 \<or> int (length (mb_queues (snd (take_message b q)) q')) \<le> maxq" for q'
      using inv len [of q'] unfolding bus_inv_def by (meson order_trans)
    have hist: "subseq (mb_queues (snd (take_message b q)) q') (bus_history b (Some t))"
      if "q' \<in> set (subscribers b t)" for t q'
      using inv that sub [of q'] unfolding bus_inv_def by (meson subseq_order.trans)
    show ?thesis
      using inv empty bound hist unfolding bus_inv_def frame by (intro conjI allI impI) blast+
  qed (simp add: take_message_def inv)
qed

lemma bus_step_inv: "bus_step b b' \<Longrightarrow> bus_inv maxq b \<Longrightarrow> bus_inv maxq b'"
  by (induction rule: bus_step.induct) (simp_all add: inv_subscribe inv_unsubscribe inv_publish inv_take)

lemma reachable_inv: "bus_step\<^sup>*\<^sup>* (new_bus maxq) b \<Longrightarrow> bus_inv maxq b"
  by (induction rule: rtranclp_induct) (auto simp: inv_new intro: bus_step_inv)


definition demo_message :: "string \<Rightarrow> agent_message" where
  "demo_message t = \<lparr>am_topic = t, am_sender = ''a'', am_payload = [], am_recipient = None, am_id = ''1''\<rparr>"


end
