(* ===== verification/Checks_Base.thy ===== *)
theory Checks_Base
  imports Effects Enums
begin

text \<open>
  \<open>app/checks/base.py\<close> and \<open>app/checks/context.py\<close>: findings, checks, their registry and the
  context a check may touch. A check is a record of its attributes and of its two methods, which
  act on a world \<open>'c\<close> of the caller's choice (the guarded client, in the program). SHA-1 is a
  parameter. The class of a check is its value, as declarative checks have classes of their own.
\<close>

record raw_evidence =
  re_kind :: string
  re_request :: dict
  re_response :: dict
  re_note :: string

record raw_finding =
  rf_check_class :: string
  rf_title :: string
  rf_severity :: severity
  rf_confidence :: confidence
  rf_cwe :: string
  rf_description :: string
  rf_remediation :: string
  rf_evidence :: "raw_evidence list"
  rf_reproduction :: dict
  rf_dedup_seed :: string
  rf_endpoint_url :: string

definition dedup_key :: "(string \<Rightarrow> string) \<Rightarrow> raw_finding \<Rightarrow> string \<Rightarrow> string" where
  "dedup_key sha1 f endpoint_fp =
     (let seed = (if rf_dedup_seed f \<noteq> [] then rf_dedup_seed f
                  else rf_check_class f @ '':'' @ rf_endpoint_url f @ '':'' @ rf_title f)
      in sha1 (endpoint_fp @ '':'' @ seed))"

record auth_session =
  au_role_name :: string
  au_label :: string
  au_headers :: dict
  au_cookies :: dict
  au_owns_object_ids :: "jv list"
  au_expired :: bool

record endpoint_view =
  ev_id :: string
  ev_method :: string
  ev_url :: string
  ev_path_template :: string
  ev_parameters :: "dict list"
  ev_request_body_schema :: dict
  ev_auth_required :: bool
  ev_fingerprint :: string

record check_context =
  cc_endpoint :: endpoint_view
  cc_intensity :: test_intensity
  cc_base_url :: string
  cc_sessions :: "auth_session list"
  cc_max_payloads :: int

definition session_for_role :: "check_context \<Rightarrow> string \<Rightarrow> auth_session option" where
  "session_for_role c role_name =
     List.find (\<lambda>s. au_role_name s = role_name \<and> \<not> au_expired s) (cc_sessions c)"

definition params_in :: "string list \<Rightarrow> check_context \<Rightarrow> dict list" where
  "params_in places c = filter (\<lambda>p. jget p ''in'' \<in> JStr ` set places) (ev_parameters (cc_endpoint c))"

definition query_params :: "check_context \<Rightarrow> dict list" where
  "query_params c = params_in [''query''] c"

definition body_params :: "check_context \<Rightarrow> dict list" where
  "body_params c = params_in [''body''] c"

definition injectable_params :: "check_context \<Rightarrow> dict list" where
  "injectable_params c = params_in [''query'', ''body'', ''path''] c"

record 'c check =
  ck_name :: string
  ck_class :: string
  ck_intensity :: test_intensity
  ck_cwe :: string
  ck_state_changing :: bool
  ck_applies :: "check_context \<Rightarrow> ('c, bool) act"
  ck_run :: "check_context \<Rightarrow> ('c, raw_finding list) act"

type_synonym 'c check_registry = "(string \<times> 'c check) list"

definition register_check :: "'c check_registry \<Rightarrow> 'c check \<Rightarrow> 'c check_registry" where
  "register_check r c = dset r (ck_name c) c"

definition all_checks :: "'c check_registry \<Rightarrow> 'c check list" where
  "all_checks r = map snd r"

definition by_class :: "'c check_registry \<Rightarrow> string \<Rightarrow> 'c check list" where
  "by_class r cls = filter (\<lambda>c. ck_class c = cls) (all_checks r)"

definition get_check :: "'c check_registry \<Rightarrow> string \<Rightarrow> 'c check option" where
  "get_check r name = dget r name"

definition check_classes :: "'c check_registry \<Rightarrow> string list" where
  "check_classes r = sorted_set (map (\<lambda>c. ck_class c) (all_checks r))"

text \<open>Every registered check is found under its own name.\<close>

definition registry_ok :: "'c check_registry \<Rightarrow> bool" where
  "registry_ok r \<longleftrightarrow> dwf r \<and> (\<forall>(n, c) \<in> set r. ck_name c = n)"

lemma registry_ok_register: "registry_ok r \<Longrightarrow> registry_ok (register_check r c)"
  using py_dict.wf_assign [of r "ck_name c" c]
  by (auto simp: registry_ok_def register_check_def dest!: dset_mem)

lemma by_class_class: "c \<in> set (by_class r cls) \<Longrightarrow> ck_class c = cls"
  by (simp add: by_class_def)

end
