(* ===== verification/Agents.thy ===== *)
theory Agents
  imports Brain Hooks A2a Checks_Base
begin

text \<open>
  \<open>app/agents/base.py\<close> and \<open>specialists.py\<close>: the bounded loop of an agent and the
  concrete agents. An agent is a record of its overridable methods. The state of a run holds the
  state of the brain, the decision trail and the agent's own working state; the brain is an
  argument, a function that decides a task.
\<close>

record decision_record =
  dr_agent_id :: string
  dr_role :: string
  dr_phase :: string
  dr_action :: string
  dr_brain_source :: string
  dr_reasoning :: string

record agent_result =
  ar_agent_id :: string
  ar_role :: string
  ar_findings :: "raw_finding list"
  ar_decisions :: "decision_record list"
  ar_error :: string
  ar_steps_used :: int

record 'w agent_state =
  as_brain :: brain_state
  as_decisions :: "decision_record list"
  as_work :: 'w

type_synonym decider = "brain_task \<Rightarrow> brain_state \<Rightarrow> (exn + brain_decision) \<times> brain_state"

record 'w agent =
  ag_id :: string
  ag_role :: string
  ag_max_steps :: int
  ag_instruction :: "'w \<Rightarrow> string"
  ag_inspect :: "'w \<Rightarrow> dict"
  ag_allowed :: "string list"
  ag_act :: "brain_decision \<Rightarrow> ('w agent_state, raw_finding list) act"
  ag_verify :: "raw_finding list \<Rightarrow> ('w agent_state, raw_finding list) act"
  ag_can_revise :: "nat \<Rightarrow> 'w \<Rightarrow> bool"

text \<open>\<open>AgentContext.budget_remaining\<close>: the getter, what it answers, and what is made of it.\<close>

definition budget_remaining :: "(exn + int) option \<Rightarrow> int" where
  "budget_remaining getter = (case getter of Some (Inr n) \<Rightarrow> n | Some (Inl e) \<Rightarrow> 1 | None \<Rightarrow> 1)"

definition work_modify :: "('w \<Rightarrow> 'w) \<Rightarrow> ('w agent_state, unit) act" where
  "work_modify f = modify (\<lambda>s. s\<lparr>as_work := f (as_work s)\<rparr>)"

definition note_decision :: "decision_record \<Rightarrow> ('w agent_state, unit) act" where
  "note_decision d = modify (\<lambda>s. s\<lparr>as_decisions := as_decisions s @ [d]\<rparr>)"

text \<open>\<open>_consult\<close>: decide, count the consult in the ledger, record it in the trail.\<close>

definition ask_brain :: "decider \<Rightarrow> brain_task \<Rightarrow> ('w agent_state, brain_decision) act" where
  "ask_brain decide task s =
     (case decide task (as_brain s) of (r, b) \<Rightarrow> (r, s\<lparr>as_brain := b\<rparr>))"

definition count_consult :: "('w agent_state, unit) act" where
  "count_consult = modify (\<lambda>s. s\<lparr>as_brain := (as_brain s)
     \<lparr>bs_budget := map_option note_consult (bs_budget (as_brain s))\<rparr>\<rparr>)"

definition consult :: "decider \<Rightarrow> string \<Rightarrow> string \<Rightarrow> brain_task \<Rightarrow> string \<Rightarrow> ('w agent_state, brain_decision) act" where
  "consult decide ident role task phase =
     bind_act (ask_brain decide task) (\<lambda>d.
     bind_act count_consult (\<lambda>_.
     bind_act (note_decision \<lparr>dr_agent_id = ident, dr_role = role, dr_phase = phase,
        dr_action = bd_action d, dr_brain_source = bd_source d, dr_reasoning = bd_reasoning d\<rparr>) (\<lambda>_.
     ret d)))"

definition observed :: "nat \<Rightarrow> dict" where
  "observed step = [(''step'', JInt (int step)), (''findings'', JInt 0),
     (''note'', JStr ''no findings; consider an alternate strategy'')]"

definition step_task :: "'w agent \<Rightarrow> dict \<Rightarrow> 'w \<Rightarrow> brain_task" where
  "step_task a observation w =
     \<lparr>bt_role = ag_role a, bt_instruction = ag_instruction a w,
      bt_context = (if observation = [] then ag_inspect a w
                    else dset (ag_inspect a w) ''observation'' (JDict observation)),
      bt_allowed_actions = ag_allowed a, bt_max_tokens = 512\<rparr>"

text \<open>The loop, by the number of steps left; the result is the verified findings.\<close>

fun agent_loop :: "decider \<Rightarrow> 'w agent \<Rightarrow> nat \<Rightarrow> nat \<Rightarrow> dict \<Rightarrow> ('w agent_state, raw_finding list) act" where
  "agent_loop decide a 0 step observation = ret []"
| "agent_loop decide a (Suc left) step observation =
     bind_act (gets (\<lambda>s. step_task a observation (as_work s))) (\<lambda>task.
     bind_act (consult decide (ag_id a) (ag_role a) task (if step = 0 then ''inspect_plan'' else ''revise'')) (\<lambda>d.
     if bd_action d \<in> {''skip'', ''stop''} then ret []
     else
       bind_act (ag_act a d) (\<lambda>findings.
       bind_act (ag_verify a findings) (\<lambda>verified.
       if verified \<noteq> [] then ret verified
       else
         bind_act (gets (\<lambda>s. ag_can_revise a step (as_work s))) (\<lambda>again.
         if \<not> again then ret [] else agent_loop decide a left (Suc step) (observed step))))))"

definition exn_text :: "exn \<Rightarrow> string" where
  "exn_text e =
     (case e of
        ValueError m \<Rightarrow> ''ValueError: '' @ m
      | NetGuardError m \<Rightarrow> ''NetGuardError: '' @ m
      | ScopeViolation m c d \<Rightarrow> ''ScopeViolation: '' @ m
      | EgressViolation m h p c \<Rightarrow> ''EgressViolation: '' @ m
      | TargetUnreachable m \<Rightarrow> ''TargetUnreachable: '' @ m
      | SandboxError m \<Rightarrow> ''SandboxError: '' @ m
      | RuntimeError m \<Rightarrow> ''RuntimeError: '' @ m
      | HttpError m \<Rightarrow> ''HTTPError: '' @ m
      | TimeoutExn \<Rightarrow> ''TimeoutError: ''
      | OtherError m \<Rightarrow> m
      | HTTPException st m \<Rightarrow> ''HTTPException: '' @ int_str st @ '': '' @ m)"

definition agent_run :: "decider \<Rightarrow> 'w agent \<Rightarrow> 'w agent_state \<Rightarrow> agent_result \<times> 'w agent_state" where
  "agent_run decide a s =
     (case agent_loop decide a (nat (ag_max_steps a)) 0 [] s of
        (Inr findings, s') \<Rightarrow>
          (\<lparr>ar_agent_id = ag_id a, ar_role = ag_role a, ar_findings = findings,
            ar_decisions = as_decisions s', ar_error = [], ar_steps_used = int (length (as_decisions s'))\<rparr>, s')
      | (Inl e, s') \<Rightarrow>
          (\<lparr>ar_agent_id = ag_id a, ar_role = ag_role a, ar_findings = [],
            ar_decisions = as_decisions s', ar_error = exn_text e, ar_steps_used = 0\<rparr>, s'))"

declare agent_loop.simps [simp del]

section \<open>The specialist\<close>

text \<open>
  Its working state: the check context, how often it probed, the message bus it may signal on and
  the world of the check. \<open>cw_runs\<close> counts the executions of the check.
\<close>

record 'c check_work =
  cw_ctx :: check_context
  cw_probes :: int
  cw_bus :: "message_bus option"
  cw_runs :: nat
  cw_world :: 'c

text \<open>A computation of the check, run on its world.\<close>

definition on_world :: "('c, 'a) act \<Rightarrow> ('c check_work agent_state, 'a) act" where
  "on_world m s = (case m (cw_world (as_work s)) of
     (r, c) \<Rightarrow> (r, s\<lparr>as_work := (as_work s)\<lparr>cw_world := c\<rparr>\<rparr>))"

definition hashable :: "jv \<Rightarrow> bool" where
  "hashable v = (case v of JList _ \<Rightarrow> False | JDict _ \<Rightarrow> False | _ \<Rightarrow> True)"

text \<open>\<open>rank.get(name, 999)\<close> of the dict that numbers the brain's order; a later mention wins.\<close>

definition rank_of :: "jv list \<Rightarrow> jv \<Rightarrow> int" where
  "rank_of order name =
     (case filter (\<lambda>i. order ! i = name) [0..<length order] of [] \<Rightarrow> 999 | is \<Rightarrow> int (last is))"

definition reorder_params :: "jv \<Rightarrow> dict list \<Rightarrow> exn + dict list" where
  "reorder_params order ps =
     (case order of
        JList (x # xs) \<Rightarrow>
          if list_all hashable (x # xs) \<and> list_all (\<lambda>p. hashable (jget_or p ''name'' (JStr []))) ps
          then Inr (sort_key (\<lambda>p. rank_of (x # xs) (jget_or p ''name'' (JStr []))) ps)
          else Inl (OtherError ''TypeError: unhashable type'')
      | _ \<Rightarrow> Inr ps)"

definition set_parameters :: "dict list \<Rightarrow> 'c check_work \<Rightarrow> 'c check_work" where
  "set_parameters ps w = w\<lparr>cw_ctx := (cw_ctx w)\<lparr>cc_endpoint := (cc_endpoint (cw_ctx w))\<lparr>ev_parameters := ps\<rparr>\<rparr>\<rparr>"

definition deepen :: "'c check_work \<Rightarrow> 'c check_work" where
  "deepen w = (if cw_probes w > 0
     then w\<lparr>cw_ctx := (cw_ctx w)\<lparr>cc_max_payloads := min (cc_max_payloads (cw_ctx w) * 2) 48\<rparr>,
            cw_probes := cw_probes w + 1\<rparr>
     else w\<lparr>cw_probes := cw_probes w + 1\<rparr>)"

definition tool_payload :: "string \<Rightarrow> string \<Rightarrow> 'c check \<Rightarrow> endpoint_view \<Rightarrow> dict" where
  "tool_payload assessment_id ident c ep =
     [(''assessment_id'', JStr assessment_id), (''agent_id'', JStr ident), (''tool'', JStr (ck_name c)),
      (''check_class'', JStr (ck_class c)), (''method'', JStr (ev_method ep)),
      (''path'', JStr (ev_path_template ep))]"

definition specialist_role :: "'c check \<Rightarrow> string" where
  "specialist_role c = ck_class c @ ''-specialist''"

definition run_check :: "'c check \<Rightarrow> ('c check_work agent_state, raw_finding list) act" where
  "run_check c =
     bind_act (work_modify (\<lambda>w. w\<lparr>cw_runs := Suc (cw_runs w)\<rparr>)) (\<lambda>_.
     bind_act (gets (\<lambda>s. cw_ctx (as_work s))) (\<lambda>ctx. on_world (ck_run c ctx)))"

text \<open>
  The pre-tool hooks may veto the execution. The post-tool hooks can neither veto nor change the
  findings (\<open>run_hooks_post\<close>), so their run has no further effect here.
\<close>

definition hooked_run ::
  "hook_registry \<Rightarrow> string \<Rightarrow> string \<Rightarrow> 'c check \<Rightarrow> ('c check_work agent_state, raw_finding list) act" where
  "hooked_run reg assessment_id ident c =
     bind_act (gets (\<lambda>s. run_event reg ''pre_tool''
       (tool_payload assessment_id ident c (cc_endpoint (cw_ctx (as_work s)))))) (\<lambda>outcome.
     if ho_vetoed outcome
     then bind_act (note_decision \<lparr>dr_agent_id = ident, dr_role = specialist_role c, dr_phase = ''act'',
            dr_action = ''vetoed'', dr_brain_source = ''hook'', dr_reasoning = take 280 (ho_reason outcome)\<rparr>)
          (\<lambda>_. ret [])
     else run_check c)"

definition specialist_act ::
  "hook_registry \<Rightarrow> string \<Rightarrow> string \<Rightarrow> 'c check \<Rightarrow> brain_decision \<Rightarrow> ('c check_work agent_state, raw_finding list) act" where
  "specialist_act reg assessment_id ident c d =
     (if bd_action d = ''skip'' then ret []
      else
        bind_act (gets (\<lambda>s. ev_parameters (cc_endpoint (cw_ctx (as_work s))))) (\<lambda>ps.
        bind_act (lift_sum (reorder_params (jget (bd_params d) ''param_order'') ps)) (\<lambda>ps'.
        bind_act (work_modify (\<lambda>w. deepen (set_parameters ps' w))) (\<lambda>_.
        bind_act (gets (\<lambda>s. cw_ctx (as_work s))) (\<lambda>ctx.
        bind_act (on_world (ck_applies c ctx)) (\<lambda>applies.
        if \<not> applies then ret [] else hooked_run reg assessment_id ident c))))))"

definition keep_finding :: "raw_finding \<Rightarrow> bool" where
  "keep_finding f \<longleftrightarrow> rf_evidence f \<noteq> [] \<or> rf_check_class f \<in> {''security_headers'', ''info_disclosure''}"

definition finding_message :: "string \<Rightarrow> raw_finding \<Rightarrow> agent_message" where
  "finding_message ident f = \<lparr>am_topic = ''findings'', am_sender = ident,
     am_payload = [(''check_class'', JStr (rf_check_class f)),
       (''severity'', JStr (severity_value (rf_severity f))), (''title'', JStr (rf_title f))],
     am_recipient = None, am_id = []\<rparr>"

definition publish_findings :: "string \<Rightarrow> raw_finding list \<Rightarrow> 'c check_work \<Rightarrow> 'c check_work" where
  "publish_findings ident fs w =
     w\<lparr>cw_bus := map_option (\<lambda>b. foldl (\<lambda>b f. snd (publish b (finding_message ident f))) b fs) (cw_bus w)\<rparr>"

definition specialist_verify :: "string \<Rightarrow> raw_finding list \<Rightarrow> ('c check_work agent_state, raw_finding list) act" where
  "specialist_verify ident fs =
     (let verified = filter keep_finding fs
      in bind_act (work_modify (publish_findings ident verified)) (\<lambda>_. ret verified))"

definition specialist ::
  "hook_registry \<Rightarrow> string \<Rightarrow> (exn + int) option \<Rightarrow> string \<Rightarrow> 'c check \<Rightarrow> ('c check_work) agent" where
  "specialist reg assessment_id getter ident c =
     \<lparr>ag_id = ident, ag_role = specialist_role c, ag_max_steps = 6,
      ag_instruction = (\<lambda>w. ''Prioritize injection points for a '' @ ck_class c
        @ '' probe on '' @ ev_method (cc_endpoint (cw_ctx w)) @ '' '' @ ev_path_template (cc_endpoint (cw_ctx w))
        @ ''. Choose '' @ py_repr ''probe'' @ '' to run or '' @ py_repr ''skip'' @ '' if clearly inapplicable.''),
      ag_inspect = (\<lambda>w. let ep = cc_endpoint (cw_ctx w) in
        [(''check_class'', JStr (ck_class c)), (''method'', JStr (ev_method ep)),
         (''path_template'', JStr (ev_path_template ep)), (''parameters'', JList (map JDict (ev_parameters ep))),
         (''auth_required'', JBool (ev_auth_required ep)), (''budget_remaining'', JInt (budget_remaining getter))]),
      ag_allowed = [''probe'', ''skip''],
      ag_act = specialist_act reg assessment_id ident c,
      ag_verify = specialist_verify ident,
      ag_can_revise = (\<lambda>step w. step = 0 \<and> injectable_params (cw_ctx w) \<noteq> [])\<rparr>"

section \<open>What a specialist may do to its surroundings\<close>

text \<open>
  At most \<open>n\<close> executions of the check; the parameters are reordered only and the payload ceiling
  grows no further than 48.
\<close>

definition touched :: "nat \<Rightarrow> 'c check_work agent_state \<Rightarrow> 'c check_work agent_state \<Rightarrow> bool" where
  "touched n s s' \<longleftrightarrow>
     cw_runs (as_work s') \<le> cw_runs (as_work s) + n \<and>
     mset (ev_parameters (cc_endpoint (cw_ctx (as_work s')))) = mset (ev_parameters (cc_endpoint (cw_ctx (as_work s)))) \<and>
     cc_max_payloads (cw_ctx (as_work s')) \<le> max (cc_max_payloads (cw_ctx (as_work s))) 48"

interpretation specialist_frame: graded_frame touched
  by unfold_locales (auto simp: touched_def)

lemma touched_consult: "keeps (touched 0) (consult decide ident role task phase)"
  unfolding consult_def count_consult_def note_decision_def
  by (intro specialist_frame.keeps_bind0 specialist_frame.keeps_pure specialist_frame.keeps_modify)
    (auto simp: keeps_def ask_brain_def touched_def split: prod.splits)

lemma touched_on_world: "keeps (touched 0) (on_world m)"
  by (auto simp: keeps_def on_world_def touched_def split: prod.splits)

lemma reorder_params_mset: "reorder_params order ps = Inr ps' \<Longrightarrow> mset ps' = mset ps"
  by (auto simp: reorder_params_def split: jv.splits list.splits if_splits)

lemma touched_run_check: "keeps (touched 1) (run_check c)"
  unfolding run_check_def work_modify_def
proof (rule specialist_frame.keeps_bind1)
  show "keeps (touched 1) (modify (\<lambda>s. s\<lparr>as_work := (as_work s)\<lparr>cw_runs := Suc (cw_runs (as_work s))\<rparr>\<rparr>))"
    by (rule specialist_frame.keeps_modify) (simp add: touched_def)
qed (intro specialist_frame.keeps_bind0 specialist_frame.keeps_pure touched_on_world)

lemma touched_hooked_run: "keeps (touched 1) (hooked_run reg aid ident c)"
  unfolding hooked_run_def note_decision_def
  by (intro specialist_frame.keeps_bind0 specialist_frame.keeps_if specialist_frame.keeps_pure
      touched_run_check specialist_frame.keeps_modify) (simp add: touched_def)

lemma touched_reorder:
  "keeps (touched 0) (bind_act (gets (\<lambda>s. ev_parameters (cc_endpoint (cw_ctx (as_work s))))) (\<lambda>ps.
     bind_act (lift_sum (reorder_params order ps)) (\<lambda>ps'. work_modify (\<lambda>w. deepen (set_parameters ps' w)))))"
  unfolding keeps_def
proof
  fix s :: "'a check_work agent_state"
  let ?ps = "ev_parameters (cc_endpoint (cw_ctx (as_work s)))"
  show "touched 0 s (snd (bind_act (gets (\<lambda>s. ev_parameters (cc_endpoint (cw_ctx (as_work s))))) (\<lambda>ps.
     bind_act (lift_sum (reorder_params order ps)) (\<lambda>ps'. work_modify (\<lambda>w. deepen (set_parameters ps' w)))) s))"
  proof (cases "reorder_params order ?ps")
    case (Inl e)
    then show ?thesis by (simp add: bind_act_def touched_def)
  next
    case (Inr ps')
    then show ?thesis
      using reorder_params_mset [OF Inr]
      by (auto simp: bind_act_def touched_def work_modify_def deepen_def set_parameters_def)
  qed
qed

lemma bind_act_assoc: "bind_act (bind_act m f) g = bind_act m (\<lambda>x. bind_act (f x) g)"
  by (auto simp: fun_eq_iff bind_act_def split: prod.splits sum.splits)

lemma touched_act: "keeps (touched 1) (specialist_act reg aid ident c d)"
proof -
  have rest: "keeps (touched 1) (bind_act (gets (\<lambda>s. cw_ctx (as_work s))) (\<lambda>ctx.
      bind_act (on_world (ck_applies c ctx)) (\<lambda>applies.
      if \<not> applies then ret [] else hooked_run reg aid ident c)))"
    by (intro specialist_frame.keeps_bind0 specialist_frame.keeps_if specialist_frame.keeps_pure
        touched_on_world touched_hooked_run)
  show ?thesis
    unfolding specialist_act_def
    using specialist_frame.keeps_bind0 [OF touched_reorder [of "jget (bd_params d) ''param_order''"] rest]
    by (auto simp: bind_act_assoc intro: specialist_frame.keeps_pure)
qed

lemma touched_verify: "keeps (touched 0) (specialist_verify ident fs)"
  unfolding specialist_verify_def Let_def work_modify_def
  by (intro specialist_frame.keeps_bind0 specialist_frame.keeps_pure specialist_frame.keeps_modify)
    (simp add: touched_def publish_findings_def)

lemma specialist_simps [simp]:
  "ag_act (specialist reg aid getter ident c) = specialist_act reg aid ident c"
  "ag_verify (specialist reg aid getter ident c) = specialist_verify ident"
  "ag_can_revise (specialist reg aid getter ident c) step w \<longleftrightarrow> step = 0 \<and> injectable_params (cw_ctx w) \<noteq> []"
  "ag_max_steps (specialist reg aid getter ident c) = 6"
  by (simp_all add: specialist_def)

text \<open>One pass of the loop body, up to the decision whether to go on.\<close>

lemma loop_step:
  assumes act: "\<And>d. keeps (touched k) (ag_act a d)" and ver: "\<And>fs. keeps (touched 0) (ag_verify a fs)"
    and again: "\<And>w. ag_can_revise a step w \<Longrightarrow> keeps (touched n) (agent_loop decide a left (Suc step) (observed step))"
  shows "keeps (touched (k + n)) (agent_loop decide a (Suc left) step observation)"
proof -
  have tail: "keeps (touched n) (bind_act (gets (\<lambda>s. ag_can_revise a step (as_work s))) (\<lambda>again.
      if \<not> again then ret [] else agent_loop decide a left (Suc step) (observed step)))"
    unfolding keeps_def
  proof
    fix s :: "'a check_work agent_state"
    show "touched n s (snd (bind_act (gets (\<lambda>s. ag_can_revise a step (as_work s))) (\<lambda>again.
      if \<not> again then ret [] else agent_loop decide a left (Suc step) (observed step)) s))"
      using again [of "as_work s"] by (auto simp: bind_act_def specialist_frame.refl_any keeps_def)
  qed
  have body: "keeps (touched (k + n)) (bind_act (ag_act a d) (\<lambda>findings. bind_act (ag_verify a findings) (\<lambda>verified.
       if verified \<noteq> [] then ret verified
       else bind_act (gets (\<lambda>s. ag_can_revise a step (as_work s))) (\<lambda>again.
         if \<not> again then ret [] else agent_loop decide a left (Suc step) (observed step)))))" for d
    by (rule specialist_frame.keeps_bind [OF act])
      (intro specialist_frame.keeps_bind0 [OF ver] specialist_frame.keeps_if specialist_frame.keeps_pure tail)
  show ?thesis
    unfolding agent_loop.simps
    by (intro specialist_frame.keeps_bind0 specialist_frame.keeps_pure touched_consult
        specialist_frame.keeps_if body)
qed

lemma loop_later:
  "keeps (touched 1) (agent_loop decide (specialist reg aid getter ident c) left (Suc step) observation)"
proof (cases left)
  case 0
  then show ?thesis by (simp add: agent_loop.simps specialist_frame.keeps_pure)
next
  case (Suc k)
  have "keeps (touched (1 + 0)) (agent_loop decide (specialist reg aid getter ident c) (Suc k) (Suc step) observation)"
    by (rule loop_step) (simp_all add: touched_act [simplified] touched_verify)
  with Suc show ?thesis by simp
qed

lemma loop_first:
  "keeps (touched 2) (agent_loop decide (specialist reg aid getter ident c) left 0 observation)"
proof (cases left)
  case 0
  then show ?thesis by (simp add: agent_loop.simps specialist_frame.keeps_pure)
next
  case (Suc k)
  have "keeps (touched (1 + 1)) (agent_loop decide (specialist reg aid getter ident c) (Suc k) 0 observation)"
    by (rule loop_step) (simp_all add: touched_act [simplified] touched_verify loop_later [simplified])
  with Suc show ?thesis by (simp add: numeral_2_eq_2)
qed

lemma vetoed_hooked_run:
  assumes "\<And>p. ho_vetoed (run_event reg ''pre_tool'' p)"
  shows "keeps (touched 0) (hooked_run reg aid ident c)"
    "fst (hooked_run reg aid ident c s) = Inr []"
proof -
  show "keeps (touched 0) (hooked_run reg aid ident c)"
    using assms by (auto simp: keeps_def hooked_run_def bind_act_def note_decision_def touched_def)
  show "fst (hooked_run reg aid ident c s) = Inr []"
    using assms by (simp add: hooked_run_def bind_act_def note_decision_def)
qed

lemma vetoed_act:
  assumes "\<And>p. ho_vetoed (run_event reg ''pre_tool'' p)"
  shows "keeps (touched 0) (specialist_act reg aid ident c d)"
    "specialist_act reg aid ident c d s = (Inr fs, s') \<Longrightarrow> fs = []"
proof -
  have rest: "keeps (touched 0) (bind_act (gets (\<lambda>s. cw_ctx (as_work s))) (\<lambda>ctx.
      bind_act (on_world (ck_applies c ctx)) (\<lambda>applies.
      if \<not> applies then ret [] else hooked_run reg aid ident c)))"
    by (intro specialist_frame.keeps_bind0 specialist_frame.keeps_if specialist_frame.keeps_pure
        touched_on_world vetoed_hooked_run assms)
  show "keeps (touched 0) (specialist_act reg aid ident c d)"
    unfolding specialist_act_def
    using specialist_frame.keeps_bind0 [OF touched_reorder [of "jget (bd_params d) ''param_order''"] rest]
    by (auto simp: bind_act_assoc intro: specialist_frame.keeps_pure)
  have "hooked_run reg aid ident c t = (Inr fs, s') \<Longrightarrow> fs = []" for t
    using vetoed_hooked_run(2) [OF assms, of aid ident c t] by simp
  then show "specialist_act reg aid ident c d s = (Inr fs, s') \<Longrightarrow> fs = []"
    by (auto simp: specialist_act_def bind_act_Inr split: if_splits)
qed

lemma vetoed_loop:
  assumes "\<And>p. ho_vetoed (run_event reg ''pre_tool'' p)"
  shows "keeps (touched 0) (agent_loop decide (specialist reg aid getter ident c) left step observation)"
proof (induction left arbitrary: step observation)
  case 0
  then show ?case by (simp only: agent_loop.simps specialist_frame.keeps_pure)
next
  case (Suc left)
  have "keeps (touched (0 + 0)) (agent_loop decide (specialist reg aid getter ident c) (Suc left) step observation)"
    by (rule loop_step) (simp_all add: vetoed_act [OF assms] touched_verify Suc.IH)
  then show ?case by simp
qed

lemma vetoed_findings:
  assumes "\<And>p. ho_vetoed (run_event reg ''pre_tool'' p)"
  shows "agent_loop decide (specialist reg aid getter ident c) left step observation s = (Inr fs, s') \<Longrightarrow> fs = []"
proof (induction left arbitrary: step observation s)
  case 0
  then show ?case by (simp add: agent_loop.simps)
next
  case (Suc left)
  have verify: "specialist_verify ident [] t = (Inr v, t') \<Longrightarrow> v = []" for v t t'
    by (auto simp: specialist_verify_def work_modify_def bind_act_Inr)
  from Suc.prems show ?case
    by (auto simp: agent_loop.simps bind_act_Inr split: if_splits
        dest!: vetoed_act(2) [OF assms] verify intro: Suc.IH)
qed

section \<open>Theorems\<close>

text \<open>
  C15: the brain's influence on a specialist is bounded. However the brain decides, a run of the
  agent executes its check at most twice, only reorders the endpoint's parameters, and never raises
  the payload ceiling above the larger of its start value and 48.
\<close>

theorem specialist_influence_bounded:
  assumes "agent_run decide (specialist reg aid getter ident c) s = (res, s')"
  shows "cw_runs (as_work s') \<le> cw_runs (as_work s) + 2 \<and>
     mset (ev_parameters (cc_endpoint (cw_ctx (as_work s')))) =
       mset (ev_parameters (cc_endpoint (cw_ctx (as_work s)))) \<and>
     cc_max_payloads (cw_ctx (as_work s')) \<le> max (cc_max_payloads (cw_ctx (as_work s))) 48"
proof -
  obtain r s1 where l: "agent_loop decide (specialist reg aid getter ident c) 6 0 [] s = (r, s1)"
    by fastforce
  then have "s1 = s'"
    using assms by (cases r) (auto simp: agent_run_def)
  moreover have "touched 2 s s1" by (rule keepsD [OF loop_first l])
  ultimately show ?thesis by (simp add: touched_def)
qed

definition demo_check :: "unit check" where
  "demo_check = \<lparr>ck_name = ''sqli'', ck_class = ''sqli'', ck_intensity = SAFE_ACTIVE, ck_cwe = ''CWE-89'',
     ck_state_changing = False, ck_applies = (\<lambda>_. ret True), ck_run = (\<lambda>_. ret [])\<rparr>"

definition demo_state :: "unit check_work agent_state" where
  "demo_state = \<lparr>as_brain = \<lparr>bs_budget = None, bs_posted = []\<rparr>, as_decisions = [],
     as_work = \<lparr>cw_ctx = \<lparr>cc_endpoint = \<lparr>ev_id = ''e1'', ev_method = ''GET'', ev_url = ''http://app.test/'',
         ev_path_template = ''/'', ev_parameters = [[(''name'', JStr ''q''), (''in'', JStr ''query'')]],
         ev_request_body_schema = [], ev_auth_required = False, ev_fingerprint = ''f''\<rparr>,
       cc_intensity = SAFE_ACTIVE, cc_base_url = ''http://app.test'', cc_sessions = [], cc_max_payloads = 12\<rparr>,
     cw_probes = 0, cw_bus = None, cw_runs = 0, cw_world = ()\<rparr>\<rparr>"

theorem specialist_influence_bounded_witness:
  "cw_runs (as_work (snd (agent_run (brain_decide demo_poster DeterministicBrain)
     (specialist [] ''a1'' None ''s1'' demo_check) demo_state))) \<le> 2"
  using specialist_influence_bounded [OF prod.collapse [symmetric],
      of "brain_decide demo_poster DeterministicBrain" "[]" "''a1''" None "''s1''" demo_check demo_state]
  by (simp add: demo_state_def)

text \<open>
  A veto means nothing runs. If the pre-tool hooks veto every payload, the specialist never
  executes its check and reports no finding, whatever the brain decides.
\<close>

theorem veto_blocks_check:
  assumes "\<forall>p. ho_vetoed (run_event reg ''pre_tool'' p)"
    and "agent_run decide (specialist reg aid getter ident c) s = (res, s')"
  shows "cw_runs (as_work s') \<le> cw_runs (as_work s) \<and> ar_findings res = []"
proof -
  obtain r s1 where l: "agent_loop decide (specialist reg aid getter ident c) 6 0 [] s = (r, s1)"
    by fastforce
  have "touched 0 s s1"
    by (rule keepsD [OF vetoed_loop l]) (use assms(1) in blast)
  moreover have "s1 = s' \<and> ar_findings res = []"
    using assms(2) l vetoed_findings [of reg] assms(1) by (cases r) (auto simp: agent_run_def)
  ultimately show ?thesis by (simp add: touched_def)
qed

theorem veto_blocks_check_witness:
  "ar_findings (fst (agent_run (brain_decide demo_poster DeterministicBrain)
     (specialist [(''pre_tool'', [\<lparr>hk_name = ''stop'', hk_id = 1, hk_fn = \<lambda>_. Inr (HookVeto ''no'')\<rparr>])]
        ''a1'' None ''s1'' demo_check) demo_state)) = []"
proof -
  have "starts_with ''pre_tool'' ''pre_''" by code_simp
  then have "\<forall>p. ho_vetoed (run_event [(''pre_tool'', [\<lparr>hk_name = ''stop'', hk_id = 1,
      hk_fn = \<lambda>_. Inr (HookVeto ''no'')\<rparr>])] ''pre_tool'' p)"
    by (simp add: run_event_def hooks_of_def no_outcome_def)
  from veto_blocks_check [OF this prod.collapse [symmetric]] show ?thesis by blast
qed

section \<open>The other agents\<close>

text \<open>\<open>DiscoveryAgent\<close>: the crawl runs unless the brain skips; \<open>runner\<close> is the crawl.\<close>

definition discovery_allowed :: "string list" where
  "discovery_allowed = [''discover'', ''skip'']"

definition discovery_act :: "('s, unit) act \<Rightarrow> brain_decision \<Rightarrow> ('s, bool) act" where
  "discovery_act runner d =
     (if bd_action d \<noteq> ''skip'' then bind_act runner (\<lambda>_. ret True) else ret False)"

definition planner_allowed :: "string list" where
  "planner_allowed = [''coverage-first'', ''risk-first'', ''balanced'']"

definition coordinator_allowed :: "string list" where
  "coordinator_allowed = [''continue'', ''stop'', ''replan'']"

definition coordinator_task :: "(exn + int) option \<Rightarrow> dict \<Rightarrow> brain_task" where
  "coordinator_task getter signals =
     \<lparr>bt_role = ''coordinator'', bt_instruction = ''Decide whether to continue, stop, or replan.'',
      bt_context = dset signals ''budget_remaining'' (JInt (budget_remaining getter)),
      bt_allowed_actions = coordinator_allowed, bt_max_tokens = 512\<rparr>"

definition decide_continuation ::
  "decider \<Rightarrow> string \<Rightarrow> (exn + int) option \<Rightarrow> dict \<Rightarrow> ('w agent_state, brain_decision) act" where
  "decide_continuation decide ident getter signals =
     consult decide ident ''coordinator'' (coordinator_task getter signals) ''coordinate''"

definition validator_allowed :: "string list" where
  "validator_allowed = [''validate'', ''defer'']"

definition validator_task :: "string \<Rightarrow> (exn + int) option \<Rightarrow> dict \<Rightarrow> brain_task" where
  "validator_task assessment_id getter extra =
     \<lparr>bt_role = ''validator'',
      bt_instruction = ''Independently re-prove the suspected finding now ('' @ py_repr ''validate'' @ ''), or ''
        @ py_repr ''defer'' @ '' if re-execution is not currently appropriate.'',
      bt_context = foldl (\<lambda>d (k, v). dset d k v)
        [(''assessment_id'', JStr assessment_id), (''budget_remaining'', JInt (budget_remaining getter))] extra,
      bt_allowed_actions = validator_allowed, bt_max_tokens = 512\<rparr>"

definition reporter_emphases :: "string list" where
  "reporter_emphases = [''risk-first'', ''coverage-first'']"

text \<open>\<open>CapabilityRouter\<close>: the first class registered for a capability keeps it.\<close>

datatype agent_class = SpecialistCheckAgent | DiscoveryAgent | PlannerAgent | CoordinatorAgent
  | ValidationAgent | ReporterAgent

fun capabilities :: "agent_class \<Rightarrow> string list" where
  "capabilities SpecialistCheckAgent = [''security-check'']"
| "capabilities DiscoveryAgent = [''discovery'']"
| "capabilities PlannerAgent = [''planning'']"
| "capabilities CoordinatorAgent = [''coordination'']"
| "capabilities ValidationAgent = [''validation'']"
| "capabilities ReporterAgent = [''reporting'']"

type_synonym router = "(string \<times> agent_class) list"

definition router_register :: "router \<Rightarrow> agent_class \<Rightarrow> router" where
  "router_register r cls = foldl (\<lambda>r cap. dsetdefault r cap cls) r (capabilities cls)"

definition router_select :: "router \<Rightarrow> string \<Rightarrow> agent_class option" where
  "router_select r capability = dget r capability"

definition router_capabilities :: "router \<Rightarrow> string list" where
  "router_capabilities r = sort (dkeys r)"

definition default_router :: router where
  "default_router = foldl router_register []
     [SpecialistCheckAgent, DiscoveryAgent, PlannerAgent, CoordinatorAgent, ValidationAgent, ReporterAgent]"

lemma default_router_selects:
  "router_select default_router ''security-check'' = Some SpecialistCheckAgent"
  "router_select default_router ''discovery'' = Some DiscoveryAgent"
  "router_select default_router ''planning'' = Some PlannerAgent"
  "router_select default_router ''coordination'' = Some CoordinatorAgent"
  "router_select default_router ''validation'' = Some ValidationAgent"
  "router_select default_router ''reporting'' = Some ReporterAgent"
  by code_simp+

lemma dsetdefault_keeps: "dget d k = Some v \<Longrightarrow> dget (dsetdefault d k' w) k = Some v"
  by (auto simp: dget_dsetdefault)

lemma first_registration_wins:
  "dget r cap = Some cls \<Longrightarrow> router_select (router_register r cls') cap = Some cls"
proof -
  have "dget r cap = Some cls \<Longrightarrow> dget (foldl (\<lambda>r cap. dsetdefault r cap cls') r caps) cap = Some cls" for caps
    by (induction caps arbitrary: r) (simp_all add: dsetdefault_keeps)
  then show "dget r cap = Some cls \<Longrightarrow> router_select (router_register r cls') cap = Some cls"
    by (simp add: router_select_def router_register_def)
qed

end
