(* ===== verification/Pool.thy ===== *)
theory Pool
  imports Agents
begin

text \<open>
  \<open>app/agents/pool.py\<close>: a pool runs its agents under a semaphore. Each agent is waiting, running
  or done; in any order a waiting agent enters while a permit is free (it is skipped if the run has
  been cancelled by then) and a running one ends, with its result, by its timeout or by an exception.
\<close>

record pool_stats =
  ps_instantiated :: int
  ps_completed :: int
  ps_errored :: int
  ps_skipped_cancelled :: int
  ps_findings :: int
  ps_decisions :: int
  ps_by_role :: "(string \<times> int) list"
  ps_brain_sources :: "(string \<times> int) list"

definition no_stats :: pool_stats where
  "no_stats = \<lparr>ps_instantiated = 0, ps_completed = 0, ps_errored = 0, ps_skipped_cancelled = 0,
     ps_findings = 0, ps_decisions = 0, ps_by_role = [], ps_brain_sources = []\<rparr>"

definition pool_limit :: "int \<Rightarrow> nat" where
  "pool_limit max_concurrency = nat (max 1 max_concurrency)"

text \<open>\<open>_cancelled\<close>: no predicate, or one that raises, means not cancelled.\<close>

definition pool_cancelled :: "(exn + bool) option \<Rightarrow> bool" where
  "pool_cancelled p = (case p of Some (Inr b) \<Rightarrow> b | Some (Inl e) \<Rightarrow> False | None \<Rightarrow> False)"

definition count_in :: "(string \<times> int) list \<Rightarrow> string \<Rightarrow> (string \<times> int) list" where
  "count_in d k = dset d k ((case dget d k of None \<Rightarrow> 0 | Some n \<Rightarrow> n) + 1)"

definition tally :: "agent_result \<Rightarrow> pool_stats \<Rightarrow> pool_stats" where
  "tally r st = st
     \<lparr>ps_completed := ps_completed st + 1,
      ps_errored := ps_errored st + (if ar_error r \<noteq> [] then 1 else 0),
      ps_findings := ps_findings st + int (length (ar_findings r)),
      ps_decisions := ps_decisions st + int (length (ar_decisions r)),
      ps_by_role := count_in (ps_by_role st) (ar_role r),
      ps_brain_sources := foldl (\<lambda>d dr. count_in d (dr_brain_source dr)) (ps_brain_sources st) (ar_decisions r)\<rparr>"

definition failed_result :: "string \<Rightarrow> string \<Rightarrow> string \<Rightarrow> agent_result" where
  "failed_result ident role err = \<lparr>ar_agent_id = ident, ar_role = role, ar_findings = [],
     ar_decisions = [], ar_error = err, ar_steps_used = 0\<rparr>"

datatype run_end = Finished agent_result | TimedOut | Crashed string

definition conclude :: "string \<Rightarrow> string \<Rightarrow> run_end \<Rightarrow> pool_stats \<Rightarrow> agent_result \<times> pool_stats" where
  "conclude ident role e st =
     (case e of
        Finished r \<Rightarrow> (r, tally r st)
      | TimedOut \<Rightarrow> (failed_result ident role ''timeout'', st\<lparr>ps_errored := ps_errored st + 1\<rparr>)
      | Crashed msg \<Rightarrow> (failed_result ident role msg, st\<lparr>ps_errored := ps_errored st + 1\<rparr>))"

definition skip_cancelled :: "string \<Rightarrow> string \<Rightarrow> pool_stats \<Rightarrow> agent_result \<times> pool_stats" where
  "skip_cancelled ident role st =
     (failed_result ident role ''cancelled'', st\<lparr>ps_skipped_cancelled := ps_skipped_cancelled st + 1\<rparr>)"

datatype slot = Waiting | Running | Done agent_result

record pool =
  po_slots :: "slot list"
  po_stats :: pool_stats
  po_timed_out :: nat

definition running :: "slot list \<Rightarrow> nat" where
  "running ss = length (filter (\<lambda>s. s = Running) ss)"

definition dispatch :: "pool_stats \<Rightarrow> nat \<Rightarrow> pool" where
  "dispatch st n = \<lparr>po_slots = replicate n Waiting,
     po_stats = st\<lparr>ps_instantiated := ps_instantiated st + int n\<rparr>, po_timed_out = 0\<rparr>"

text \<open>One agent per slot, named by \<open>ids\<close>: its identity and role.\<close>

inductive pool_step :: "(string \<times> string) list \<Rightarrow> nat \<Rightarrow> pool \<Rightarrow> pool \<Rightarrow> bool"
  for ids :: "(string \<times> string) list" and limit :: nat where
  enter: "i < length (po_slots p) \<Longrightarrow> po_slots p ! i = Waiting \<Longrightarrow> running (po_slots p) < limit \<Longrightarrow>
     \<not> pool_cancelled c \<Longrightarrow> pool_step ids limit p (p\<lparr>po_slots := (po_slots p)[i := Running]\<rparr>)"
| skip: "i < length (po_slots p) \<Longrightarrow> po_slots p ! i = Waiting \<Longrightarrow> running (po_slots p) < limit \<Longrightarrow>
     pool_cancelled c \<Longrightarrow> skip_cancelled (fst (ids ! i)) (snd (ids ! i)) (po_stats p) = (r, st) \<Longrightarrow>
     pool_step ids limit p (p\<lparr>po_slots := (po_slots p)[i := Done r], po_stats := st\<rparr>)"
| finish: "i < length (po_slots p) \<Longrightarrow> po_slots p ! i = Running \<Longrightarrow>
     conclude (fst (ids ! i)) (snd (ids ! i)) e (po_stats p) = (r, st) \<Longrightarrow>
     pool_step ids limit p (p\<lparr>po_slots := (po_slots p)[i := Done r], po_stats := st,
       po_timed_out := po_timed_out p + (case e of Finished _ \<Rightarrow> 0 | _ \<Rightarrow> 1)\<rparr>)"

definition done_count :: "slot list \<Rightarrow> nat" where
  "done_count ss = length (filter (\<lambda>s. \<not> (s = Waiting \<or> s = Running)) ss)"

definition pool_results :: "pool \<Rightarrow> agent_result list" where
  "pool_results p = List.map_filter (\<lambda>s. case s of Done r \<Rightarrow> Some r | _ \<Rightarrow> None) (po_slots p)"

lemma count_update:
  "i < length ss \<Longrightarrow> length (filter P (ss[i := s])) + (if P (ss ! i) then 1 else 0)
     = length (filter P ss) + (if P s then 1 else 0)"
proof (induction ss arbitrary: i)
  case (Cons q qs)
  show ?case
  proof (cases i)
    case (Suc j)
    with Cons.IH [of j] Cons.prems show ?thesis by (simp split: if_splits)
  qed simp
qed simp

definition pool_inv :: "nat \<Rightarrow> nat \<Rightarrow> pool_stats \<Rightarrow> pool \<Rightarrow> bool" where
  "pool_inv n limit st0 p \<longleftrightarrow>
     length (po_slots p) = n \<and> running (po_slots p) \<le> limit \<and>
     ps_instantiated (po_stats p) = ps_instantiated st0 + int n \<and>
     (ps_completed (po_stats p) - ps_completed st0) + (ps_skipped_cancelled (po_stats p) - ps_skipped_cancelled st0)
       + int (po_timed_out p) = int (done_count (po_slots p))"

lemma pool_inv_dispatch: "pool_inv n limit st (dispatch st n)"
  by (simp add: pool_inv_def dispatch_def running_def done_count_def)

lemma pool_inv_step: "pool_step ids limit p p' \<Longrightarrow> pool_inv n limit st0 p \<Longrightarrow> pool_inv n limit st0 p'"
proof (induction rule: pool_step.induct)
  case (enter i p c)
  then show ?case
    using count_update [of i "po_slots p" "\<lambda>s. s = Running" Running]
      count_update [of i "po_slots p" "\<lambda>s. \<not> (s = Waiting \<or> s = Running)" Running]
    by (simp add: pool_inv_def running_def done_count_def)
next
  case (skip i p c r st)
  then show ?case
    using count_update [of i "po_slots p" "\<lambda>s. s = Running" "Done r"]
      count_update [of i "po_slots p" "\<lambda>s. \<not> (s = Waiting \<or> s = Running)" "Done r"]
    by (auto simp: pool_inv_def running_def done_count_def skip_cancelled_def)
next
  case (finish i p e r st)
  then show ?case
    using count_update [of i "po_slots p" "\<lambda>s. s = Running" "Done r"]
      count_update [of i "po_slots p" "\<lambda>s. \<not> (s = Waiting \<or> s = Running)" "Done r"]
    by (cases e) (auto simp: pool_inv_def running_def done_count_def conclude_def tally_def)
qed

lemma pool_reach_inv:
  "(pool_step ids limit)\<^sup>*\<^sup>* (dispatch st n) p \<Longrightarrow> pool_inv n limit st p"
  by (induction rule: rtranclp_induct) (auto simp: pool_inv_dispatch intro: pool_inv_step)

lemma results_done: "length (pool_results p) = done_count (po_slots p)"
proof -
  have "length (List.map_filter (\<lambda>s. case s of Done r \<Rightarrow> Some r | _ \<Rightarrow> None) ss) = done_count ss" for ss
    by (induction ss) (auto simp: done_count_def map_filter_simps split: slot.splits)
  then show ?thesis by (simp add: pool_results_def)
qed



end
