(* ===== verification/Planning.thy ===== *)
theory Planning
  imports Checks_Base
begin

text \<open>
  \<open>app/services/planning.py\<close>: the deterministic plan. The two loops over endpoints and checks
  are a concatenation of maps in the same order; the final sort is stable. Parameter names are
  strings, as discovery stores them.
\<close>

record planned_step =
  pl_endpoint_id :: string
  pl_endpoint_url :: string
  pl_check_class :: string
  pl_check_name :: string
  pl_intensity :: string
  pl_priority :: int
  pl_rationale :: string

definition endpoint_priority :: "endpoint_view \<Rightarrow> int" where
  "endpoint_priority ev =
     5 + (if ev_parameters ev \<noteq> [] then min (int (length (ev_parameters ev))) 4 else 0)
       + (if ev_auth_required ev then 2 else 0)
       + (if ev_method ev \<in> set [''POST'', ''PUT'', ''PATCH'', ''DELETE''] then 1 else 0)
       + (if contains_str (ev_path_template ev) ''{id}'' then 2 else 0)"

definition param_name :: "dict \<Rightarrow> string" where
  "param_name p = jstr (jget_or p ''name'' (JStr []))"

definition name_mentions :: "string list \<Rightarrow> dict \<Rightarrow> bool" where
  "name_mentions hints p \<longleftrightarrow> list_ex (contains_str (str_lower (param_name p))) hints"

definition quick_applies :: "string \<Rightarrow> endpoint_view \<Rightarrow> bool \<Rightarrow> bool" where
  "quick_applies cclass ev multi =
     (if cclass \<in> set [''sqli'', ''xss'']
      then ev_parameters ev \<noteq> [] \<or> contains_str (ev_path_template ev) ''{id}''
      else if cclass = ''open_redirect''
      then list_ex (name_mentions [''redirect'', ''url'', ''return'', ''next'']) (ev_parameters ev)
      else if cclass = ''bola''
      then multi \<and> ev_method ev = ''GET'' \<and>
           (contains_str (ev_path_template ev) ''{id}'' \<or> list_ex (name_mentions [''id'']) (ev_parameters ev))
      else if cclass \<in> set [''security_headers'', ''info_disclosure''] then ev_method ev = ''GET''
      else True)"

definition class_bonus :: "string \<Rightarrow> int" where
  "class_bonus cclass =
     (case dget [(''sqli'', 4), (''bola'', 4), (''xss'', 3), (''open_redirect'', 2),
                 (''security_headers'', 0), (''info_disclosure'', 0)] cclass of
        Some n \<Rightarrow> n | None \<Rightarrow> 1)"

definition step_rationale :: "string \<Rightarrow> endpoint_view \<Rightarrow> string" where
  "step_rationale cclass ev =
     cclass @ '' probe on '' @ ev_method ev @ '' '' @ ev_path_template ev @ '' (''
       @ (if ev_auth_required ev then ''auth'' else ''unauth'') @ '', ''
       @ int_str (int (length (ev_parameters ev))) @ '' params)''"

definition plan_step :: "endpoint_view \<Rightarrow> 'c check \<Rightarrow> planned_step" where
  "plan_step ev c =
     \<lparr>pl_endpoint_id = ev_id ev, pl_endpoint_url = ev_url ev, pl_check_class = ck_class c,
      pl_check_name = ck_name c, pl_intensity = test_intensity_value (ck_intensity c),
      pl_priority = endpoint_priority ev + class_bonus (ck_class c),
      pl_rationale = step_rationale (ck_class c) ev\<rparr>"

text \<open>The \<open>continue\<close> guards of the inner loop, in order.\<close>

definition step_wanted :: "string list \<Rightarrow> test_intensity \<Rightarrow> bool \<Rightarrow> endpoint_view \<Rightarrow> 'c check \<Rightarrow> bool" where
  "step_wanted authorized max_intensity multi ev c =
     (if authorized \<noteq> [] \<and> ck_class c \<notin> set authorized then False
      else if INTENSITY_RANK (ck_intensity c) > INTENSITY_RANK max_intensity then False
      else if ck_class c = ''bola'' \<and> \<not> multi then False
      else quick_applies (ck_class c) ev multi)"

fun plan_checks :: "string list \<Rightarrow> test_intensity \<Rightarrow> bool \<Rightarrow> endpoint_view \<Rightarrow> 'c check list \<Rightarrow> planned_step list" where
  "plan_checks authorized max_intensity multi ev [] = []"
| "plan_checks authorized max_intensity multi ev (c # cs) =
     (if step_wanted authorized max_intensity multi ev c
      then plan_step ev c # plan_checks authorized max_intensity multi ev cs
      else plan_checks authorized max_intensity multi ev cs)"

fun plan_endpoints :: "string list \<Rightarrow> test_intensity \<Rightarrow> bool \<Rightarrow> 'c check list \<Rightarrow> endpoint_view list \<Rightarrow> planned_step list" where
  "plan_endpoints authorized max_intensity multi cs [] = []"
| "plan_endpoints authorized max_intensity multi cs (ev # evs) =
     plan_checks authorized max_intensity multi ev cs @ plan_endpoints authorized max_intensity multi cs evs"

definition build_plan ::
  "'c check_registry \<Rightarrow> endpoint_view list \<Rightarrow> string list \<Rightarrow> test_intensity \<Rightarrow> bool \<Rightarrow> 'c check list \<Rightarrow> planned_step list" where
  "build_plan reg endpoints authorized max_intensity multi extra =
     sort_desc pl_priority (plan_endpoints authorized max_intensity multi (all_checks reg @ extra) endpoints)"

section \<open>Lemmas\<close>

lemma plan_checks_filter:
  "plan_checks authorized mi multi ev cs = map (plan_step ev) (filter (step_wanted authorized mi multi ev) cs)"
  by (induction cs) auto

lemma plan_endpoints_concat:
  "plan_endpoints authorized mi multi cs evs = concat (map (\<lambda>ev. plan_checks authorized mi multi ev cs) evs)"
  by (induction evs) auto

lemma build_plan_steps:
  "s \<in> set (build_plan reg evs authorized mi multi extra) \<longleftrightarrow>
     (\<exists>ev \<in> set evs. \<exists>c \<in> set (all_checks reg @ extra). step_wanted authorized mi multi ev c \<and> s = plan_step ev c)"
  by (auto simp: build_plan_def plan_endpoints_concat plan_checks_filter)

section \<open>Theorems\<close>

text \<open>
  C17: the plan holds exactly the permitted pairs, by priority. A step is planned if and only if it
  pairs a given endpoint with a registered or extra check whose class is authorized (or no class
  list restricts it), whose intensity is at most the maximum, and that applies to the endpoint;
  steps come by descending priority and, among equals, in the order of endpoints and checks.
\<close>

theorem plan_exact_and_sorted:
  "(\<forall>s. s \<in> set (build_plan reg evs authorized mi multi extra) \<longleftrightarrow>
     (\<exists>ev \<in> set evs. \<exists>c \<in> set (all_checks reg @ extra).
        s = plan_step ev c \<and> (authorized = [] \<or> ck_class c \<in> set authorized) \<and> ck_intensity c \<le> mi \<and>
        (if ck_class c = ''bola'' then multi else True) \<and> quick_applies (ck_class c) ev multi)) \<and>
   sorted_wrt (\<lambda>s t. pl_priority t \<le> pl_priority s) (build_plan reg evs authorized mi multi extra) \<and>
   (\<forall>p. filter (\<lambda>s. pl_priority s = p) (build_plan reg evs authorized mi multi extra) =
      filter (\<lambda>s. pl_priority s = p)
        (concat (map (\<lambda>ev. map (plan_step ev)
           (filter (step_wanted authorized mi multi ev) (all_checks reg @ extra))) evs)))"
proof (intro conjI allI)
  fix s
  have wanted: "step_wanted authorized mi multi ev c \<longleftrightarrow>
      (authorized = [] \<or> ck_class c \<in> set authorized) \<and> ck_intensity c \<le> mi \<and>
      (if ck_class c = ''bola'' then multi else True) \<and> quick_applies (ck_class c) ev multi" for ev and c :: "'a check"
    by (auto simp: step_wanted_def less_eq_test_intensity_def)
  show "s \<in> set (build_plan reg evs authorized mi multi extra) \<longleftrightarrow>
     (\<exists>ev \<in> set evs. \<exists>c \<in> set (all_checks reg @ extra).
        s = plan_step ev c \<and> (authorized = [] \<or> ck_class c \<in> set authorized) \<and> ck_intensity c \<le> mi \<and>
        (if ck_class c = ''bola'' then multi else True) \<and> quick_applies (ck_class c) ev multi)"
    unfolding build_plan_steps wanted by blast
next
  show "sorted_wrt (\<lambda>s t. pl_priority t \<le> pl_priority s) (build_plan reg evs authorized mi multi extra)"
    unfolding build_plan_def by (rule sorted_sort_desc)
next
  fix p
  show "filter (\<lambda>s. pl_priority s = p) (build_plan reg evs authorized mi multi extra) =
      filter (\<lambda>s. pl_priority s = p)
        (concat (map (\<lambda>ev. map (plan_step ev)
           (filter (step_wanted authorized mi multi ev) (all_checks reg @ extra))) evs))"
    unfolding build_plan_def stable_sort_desc plan_endpoints_concat plan_checks_filter ..
qed

end
