(* ===== verification/Scoring.thy ===== *)
theory Scoring
  imports Render Enums
begin

text \<open>
  \<open>app/services/scoring.py\<close>: the score of a finding and the grade of an assessment. Floats are
  rationals, so products and means are exact before they are rounded.
\<close>

definition SCORER_VERSION :: string where
  "SCORER_VERSION = ''1.1.0''"

fun SEVERITY_BASE :: "severity \<Rightarrow> rat" where
  "SEVERITY_BASE SEV_INFO = 5"
| "SEVERITY_BASE SEV_LOW = 25"
| "SEVERITY_BASE SEV_MEDIUM = 50"
| "SEVERITY_BASE SEV_HIGH = 75"
| "SEVERITY_BASE SEV_CRITICAL = 95"

fun CONFIDENCE_FACTOR :: "confidence \<Rightarrow> rat" where
  "CONFIDENCE_FACTOR CONF_LOW = 11 / 20"
| "CONFIDENCE_FACTOR CONF_MEDIUM = 3 / 4"
| "CONFIDENCE_FACTOR CONF_HIGH = 9 / 10"
| "CONFIDENCE_FACTOR CONF_CERTAIN = 1"

fun STATUS_FACTOR :: "finding_status \<Rightarrow> rat" where
  "STATUS_FACTOR CONFIRMED = 1"
| "STATUS_FACTOR SUSPECTED = 4 / 5"
| "STATUS_FACTOR INCONCLUSIVE = 1 / 2"
| "STATUS_FACTOR REJECTED = 0"
| "STATUS_FACTOR FIXED = 0"
| "STATUS_FACTOR REGRESSED = 1"

definition exposure_factor :: "bool \<Rightarrow> string \<Rightarrow> rat" where
  "exposure_factor auth_required env =
     (let e0 = 1; e1 = (if \<not> auth_required then e0 + 3 / 20 else e0);
          e2 = (if env = ''production'' then e1 + 1 / 10
                else if env \<in> set [''lab'', ''development''] then e1 - 1 / 10 else e1)
      in max (7 / 10) (min e2 (13 / 10)))"

definition or_default :: "'a option \<Rightarrow> 'a \<Rightarrow> 'a" where
  "or_default v d = (case v of Some x \<Rightarrow> x | None \<Rightarrow> d)"

definition raw_score :: "severity \<Rightarrow> confidence \<Rightarrow> finding_status \<Rightarrow> rat \<Rightarrow> rat" where
  "raw_score sev conf stat exposure =
     SEVERITY_BASE sev * CONFIDENCE_FACTOR conf * STATUS_FACTOR stat * exposure"

record score_result =
  sr_score :: rat
  sr_breakdown :: dict

definition score_finding :: "string \<Rightarrow> string \<Rightarrow> string \<Rightarrow> bool \<Rightarrow> string \<Rightarrow> score_result" where
  "score_finding severity confidence status auth_required exposure_env =
     (let sev = or_default (severity_of severity) SEV_MEDIUM;
          conf = or_default (confidence_of confidence) CONF_MEDIUM;
          stat = or_default (finding_status_of status) SUSPECTED;
          exposure = exposure_factor auth_required exposure_env
      in \<lparr>sr_score = py_round 2 (max 0 (min (raw_score sev conf stat exposure) 100)),
          sr_breakdown =
            [(''scorer_version'', JStr SCORER_VERSION), (''severity'', JStr (severity_value sev)),
             (''severity_base'', JNum (SEVERITY_BASE sev)), (''confidence'', JStr (confidence_value conf)),
             (''confidence_factor'', JNum (CONFIDENCE_FACTOR conf)), (''status'', JStr (finding_status_value stat)),
             (''status_factor'', JNum (STATUS_FACTOR stat)), (''exposure_factor'', JNum (py_round 3 exposure)),
             (''auth_required'', JBool auth_required), (''exposure_env'', JStr exposure_env),
             (''formula'', JStr ''base * confidence_factor * status_factor * exposure_factor'')]\<rparr>)"

record assessment_risk =
  ak_overall_score :: rat
  ak_grade :: string
  ak_coverage_ratio :: rat
  ak_tested_endpoints :: int
  ak_total_endpoints :: int
  ak_confirmed :: int
  ak_suspected :: int
  ak_uncertainty :: rat
  ak_breakdown :: dict

definition coverage_ratio :: "int \<Rightarrow> int \<Rightarrow> rat" where
  "coverage_ratio tested total_n = (if total_n \<noteq> 0 then of_int tested / of_int total_n else 0)"

definition top_five :: "rat list \<Rightarrow> rat list" where
  "top_five scores = take 5 (rev (sort scores))"

definition mean :: "rat list \<Rightarrow> rat" where
  "mean xs = sum_list xs / of_nat (length xs)"

definition overall_score :: "rat list \<Rightarrow> rat" where
  "overall_score scores = (if top_five scores \<noteq> [] then py_round 2 (mean (top_five scores)) else 0)"

definition grade_of :: "int \<Rightarrow> rat \<Rightarrow> rat \<Rightarrow> int \<Rightarrow> int \<Rightarrow> string" where
  "grade_of total_n coverage overall confirmed suspected =
     (if total_n = 0 then ''unknown''
      else if coverage < 1 / 2 then ''insufficient-coverage''
      else if overall \<ge> 75 then ''critical''
      else if overall \<ge> 50 then ''at-risk''
      else if overall \<ge> 25 then ''needs-attention''
      else if confirmed = 0 \<and> suspected = 0 then ''no-confirmed-issues''
      else ''low-risk'')"

definition count_status :: "finding_status \<Rightarrow> string list \<Rightarrow> int" where
  "count_status st statuses = int (length (filter (\<lambda>s. s = finding_status_value st) statuses))"

definition score_assessment :: "rat list \<Rightarrow> string list \<Rightarrow> int \<Rightarrow> int \<Rightarrow> assessment_risk" where
  "score_assessment finding_scores finding_statuses tested total_n =
     (let confirmed = count_status CONFIRMED finding_statuses;
          suspected = count_status SUSPECTED finding_statuses;
          coverage = coverage_ratio tested total_n;
          overall = overall_score finding_scores
      in \<lparr>ak_overall_score = overall, ak_grade = grade_of total_n coverage overall confirmed suspected,
          ak_coverage_ratio = py_round 3 coverage, ak_tested_endpoints = tested,
          ak_total_endpoints = total_n, ak_confirmed = confirmed, ak_suspected = suspected,
          ak_uncertainty = py_round 3 (1 - coverage),
          ak_breakdown =
            [(''scorer_version'', JStr SCORER_VERSION),
             (''method'', JStr ''mean of top-5 finding scores; grade floored by coverage''),
             (''coverage_ratio'', JNum (py_round 3 coverage)),
             (''note'', JStr (''grade of '' @ py_repr ''no-confirmed-issues'' @
                '' means tested-and-clean, not proven secure; untested endpoints remain unknown risk.''))]\<rparr>)"

section \<open>Rounding\<close>

lemma py_round_mono: "x \<le> y \<Longrightarrow> py_round n x \<le> py_round n y"
proof -
  assume xy: "x \<le> y"
  define r where "r = (\<lambda>x::rat. let f = floor x; d = x - of_int f
     in if d > 1 / 2 \<or> (d = 1 / 2 \<and> odd f) then f + 1 else f)"
  have "r a \<le> r b" if ab: "a \<le> b" for a b :: rat
  proof (cases "floor a = floor b")
    case True
    with ab show ?thesis by (auto simp: r_def Let_def)
  next
    case False
    then have "floor a + 1 \<le> floor b" using floor_mono [OF ab] by linarith
    moreover have "r a \<le> floor a + 1" "floor b \<le> r b" by (auto simp: r_def Let_def)
    ultimately show ?thesis by linarith
  qed
  moreover have "x * 10 ^ n \<le> y * 10 ^ n" using xy by (simp add: mult_right_mono)
  moreover have "py_round n z = of_int (r (z * 10 ^ n)) / 10 ^ n" for z
    by (simp add: py_round_def r_def Let_def)
  ultimately show ?thesis by (simp add: divide_right_mono)
qed

lemma py_round_int: "py_round n (of_int i) = of_int i"
proof -
  have "of_int i * 10 ^ n = (of_int (i * 10 ^ n) :: rat)" by simp
  moreover have "of_int (i * 10 ^ n) / 10 ^ n = (of_int i :: rat)" by simp
  ultimately show ?thesis by (simp only: py_round_def Let_def floor_of_int diff_self) simp
qed

lemma py_round_0 [simp]: "py_round n 0 = 0"
  using py_round_int [of n 0] by simp

lemma py_round_100: "py_round n 100 = 100"
  using py_round_int [of n 100] by simp

lemma exposure_bounds: "7 / 10 \<le> exposure_factor a e \<and> exposure_factor a e \<le> 13 / 10"
  by (simp add: exposure_factor_def Let_def)

lemma factor_nonneg:
  "0 \<le> SEVERITY_BASE s" "0 \<le> CONFIDENCE_FACTOR c" "0 \<le> STATUS_FACTOR f"
  subgoal by (cases s) simp_all
  subgoal by (cases c) simp_all
  subgoal by (cases f) simp_all
  done

lemma SEVERITY_BASE_mono: "s \<le> s' \<Longrightarrow> SEVERITY_BASE s \<le> SEVERITY_BASE s'"
  by (cases s; cases s') (simp_all add: less_eq_severity_def)

lemma raw_score_nonneg: "0 \<le> raw_score s c f (exposure_factor a e)"
  using factor_nonneg exposure_bounds [of a e] by (simp add: raw_score_def)

lemma raw_score_mono:
  "s \<le> s' \<Longrightarrow> raw_score s c f (exposure_factor a e) \<le> raw_score s' c f (exposure_factor a e)"
  unfolding raw_score_def using factor_nonneg exposure_bounds [of a e] SEVERITY_BASE_mono [of s s']
  by (intro mult_right_mono) auto

definition clip :: "rat \<Rightarrow> rat" where
  "clip r = py_round 2 (max 0 (min r 100))"

lemma clip_bounds: "0 \<le> clip r \<and> clip r \<le> 100"
  using py_round_mono [of 0 "max 0 (min r 100)" 2] py_round_mono [of "max 0 (min r 100)" 100 2]
  by (simp add: clip_def py_round_100)

lemma clip_mono: "a \<le> b \<Longrightarrow> clip a \<le> clip b"
  unfolding clip_def by (intro py_round_mono max.mono min.mono order_refl)

lemma clip_0 [simp]: "clip 0 = 0"
  by (simp add: clip_def)

lemma score_of_eq:
  "sr_score (score_finding sv cf st auth env) =
     clip (raw_score (or_default (severity_of sv) SEV_MEDIUM) (or_default (confidence_of cf) CONF_MEDIUM)
       (or_default (finding_status_of st) SUSPECTED) (exposure_factor auth env))"
  by (simp add: score_finding_def Let_def clip_def)

section \<open>The mean of the five worst scores\<close>

lemma sum_list_le_mult: "\<forall>x \<in> set xs. x \<le> (w::rat) \<Longrightarrow> sum_list xs \<le> of_nat (length xs) * w"
  by (induction xs) (auto simp: algebra_simps)

lemma top_five_set: "set (top_five xs) \<subseteq> set xs"
  by (auto simp: top_five_def dest: in_set_takeD)

lemma top_five_length: "length (top_five xs) \<le> 5"
  by (simp add: top_five_def)

lemma worst_is_top:
  assumes "w \<in> set xs" "\<forall>x \<in> set xs. x \<le> w"
  shows "\<exists>ys. top_five xs = w # ys"
proof -
  have ne: "sort xs \<noteq> []" using assms(1) by (metis emptyE empty_set set_sort)
  have "last (sort xs) \<in> set xs" using last_in_set [OF ne] by simp
  moreover have "w \<le> last (sort xs)"
  proof -
    obtain i where i: "i < length (sort xs)" "sort xs ! i = w"
      using assms(1) by (metis in_set_conv_nth set_sort)
    then show ?thesis
      using ne sorted_nth_mono [OF sorted_sort, of i "length xs - 1" xs] by (simp add: last_conv_nth)
  qed
  ultimately have "last (sort xs) = w" using assms(2) by (metis order_antisym)
  then obtain zs where "rev (sort xs) = w # zs"
    using ne by (metis hd_rev list.collapse rev_is_Nil_conv)
  then have "top_five xs = w # take 4 zs"
    by (simp add: top_five_def del: rev_eq_Cons_iff)
  then show ?thesis by blast
qed

lemma overall_between:
  assumes "w \<in> set xs" "\<forall>x \<in> set xs. 0 \<le> x \<and> x \<le> w"
  shows "py_round 2 (w / 5) \<le> overall_score xs \<and> overall_score xs \<le> py_round 2 w"
proof -
  obtain ys where ys: "top_five xs = w # ys" using worst_is_top assms by blast
  let ?n = "of_nat (length (w # ys)) :: rat"
  have n: "0 < ?n" "?n \<le> 5"
    using top_five_length [of xs] ys of_nat_mono [of "length (w # ys)" 5, where 'a = rat] by auto
  have els: "\<forall>x \<in> set (w # ys). 0 \<le> x \<and> x \<le> w"
    using assms(2) top_five_set [of xs] ys by (metis subsetD)
  have "w \<le> sum_list (w # ys)" using els sum_list_nonneg [of ys] by simp
  moreover have "w / 5 \<le> w / ?n" using n els by (intro divide_left_mono) auto
  ultimately have "w / 5 \<le> mean (w # ys)"
    unfolding mean_def using n by (meson divide_right_mono less_imp_le order_trans)
  moreover have "mean (w # ys) \<le> w"
    unfolding mean_def using sum_list_le_mult [of "w # ys" w] els n
    by (simp add: divide_le_eq mult.commute)
  ultimately show ?thesis by (simp add: overall_score_def ys py_round_mono)
qed

section \<open>Theorems\<close>

text \<open>
  Finding scores are bounded, monotone in the severity and vanish for closed findings. Whatever
  strings the finding carries (unknown ones fall back to medium, medium, suspected), its score lies
  between 0 and 100; a finding whose severity is at most another's, all else equal, never scores
  higher; and a rejected or fixed finding scores 0.
\<close>

theorem finding_score_bounds:
  assumes "or_default (severity_of sv) SEV_MEDIUM \<le> or_default (severity_of sv') SEV_MEDIUM"
  shows "0 \<le> sr_score (score_finding sv cf st auth env) \<and>
         sr_score (score_finding sv' cf st auth env) \<le> 100 \<and>
         sr_score (score_finding sv cf st auth env) \<le> sr_score (score_finding sv' cf st auth env) \<and>
         sr_score (score_finding sv cf ''rejected'' auth env) = 0 \<and>
         sr_score (score_finding sv cf ''fixed'' auth env) = 0"
proof -
  have closed: "STATUS_FACTOR (or_default (finding_status_of ''rejected'') SUSPECTED) = 0"
    "STATUS_FACTOR (or_default (finding_status_of ''fixed'') SUSPECTED) = 0"
    by code_simp+
  show ?thesis
    unfolding score_of_eq
    using clip_bounds clip_mono [OF raw_score_mono [OF assms]] closed
    by (simp add: raw_score_def)
qed

theorem finding_score_bounds_witness:
  "sr_score (score_finding ''low'' ''high'' ''confirmed'' False ''production'')
     \<le> sr_score (score_finding ''critical'' ''high'' ''confirmed'' False ''production'')"
proof -
  have "or_default (severity_of ''low'') SEV_MEDIUM \<le> or_default (severity_of ''critical'') SEV_MEDIUM"
    by code_simp
  from finding_score_bounds [OF this] show ?thesis by blast
qed



end
