(* ===== verification/Regex.thy ===== *)
theory Regex
  imports Prelude
begin

text \<open>
  The regular expressions of the program (Python's \<open>re\<close>): a backtracking matcher that lists the
  ways to match in the engine's order of preference, and \<open>search\<close>, \<open>match\<close>, \<open>fullmatch\<close>,
  \<open>findall\<close> and \<open>sub\<close> over it. A state holds the character before the position (for anchors and
  lookbehinds), the text after it and the groups captured so far. Characters are code points up
  to 255; \<open>\w\<close> is ASCII letters, digits and the underscore.
\<close>

datatype rx =
    Eps
  | Cls "char \<Rightarrow> bool"
  | Cat rx rx
  | Alt rx rx
  | Rep nat "nat option" bool rx
  | Grp nat rx
  | Bol
  | Eol
  | Wordb
  | NotBehind "char \<Rightarrow> bool"
  | NotAhead "char \<Rightarrow> bool"

record rx_state =
  rs_prev :: "char option"
  rs_rest :: string
  rs_groups :: "(nat \<times> string) list"

definition word_char :: "char \<Rightarrow> bool" where
  "word_char c \<longleftrightarrow> is_alpha c \<or> is_digit c \<or> c = CHR ''_''"

definition is_word :: "char option \<Rightarrow> bool" where
  "is_word c = (case c of None \<Rightarrow> False | Some c \<Rightarrow> word_char c)"

definition head_char :: "string \<Rightarrow> char option" where
  "head_char s = (case s of [] \<Rightarrow> None | c # _ \<Rightarrow> Some c)"

definition consumed :: "rx_state \<Rightarrow> rx_state \<Rightarrow> string" where
  "consumed a b = take (length (rs_rest a) - length (rs_rest b)) (rs_rest a)"

text \<open>
  A repetition of at least \<open>lo\<close> and at most \<open>hi\<close> times, greedy or lazy. Without an upper bound
  the length of the text bounds it, as the repeated expressions always consume.
\<close>

fun repeat_run :: "(rx_state \<Rightarrow> rx_state list) \<Rightarrow> bool \<Rightarrow> nat \<Rightarrow> nat \<Rightarrow> rx_state \<Rightarrow> rx_state list" where
  "repeat_run f greedy lo 0 st = (if lo = 0 then [st] else [])"
| "repeat_run f greedy lo (Suc hi) st =
     (let more = concat (map (repeat_run f greedy (lo - 1) hi) (f st))
      in if lo > 0 then more else if greedy then more @ [st] else st # more)"

primrec rx_run :: "rx \<Rightarrow> rx_state \<Rightarrow> rx_state list" where
  "rx_run Eps = (\<lambda>st. [st])"
| "rx_run (Cls P) = (\<lambda>st. case rs_rest st of [] \<Rightarrow> []
     | c # cs \<Rightarrow> if P c then [st\<lparr>rs_prev := Some c, rs_rest := cs\<rparr>] else [])"
| "rx_run (Cat a b) = (\<lambda>st. concat (map (rx_run b) (rx_run a st)))"
| "rx_run (Alt a b) = (\<lambda>st. rx_run a st @ rx_run b st)"
| "rx_run (Rep lo hi greedy a) = (\<lambda>st. repeat_run (rx_run a) greedy lo
     (case hi of Some n \<Rightarrow> n | None \<Rightarrow> max lo (length (rs_rest st))) st)"
| "rx_run (Grp n a) = (\<lambda>st. map (\<lambda>st'. st'\<lparr>rs_groups := dset (rs_groups st') n (consumed st st')\<rparr>) (rx_run a st))"
| "rx_run Bol = (\<lambda>st. if rs_prev st = None then [st] else [])"
| "rx_run Eol = (\<lambda>st. if rs_rest st = [] \<or> rs_rest st = [chr 10] then [st] else [])"
| "rx_run Wordb = (\<lambda>st. if is_word (rs_prev st) \<noteq> is_word (head_char (rs_rest st)) then [st] else [])"
| "rx_run (NotBehind P) = (\<lambda>st. case rs_prev st of None \<Rightarrow> [st] | Some c \<Rightarrow> if P c then [] else [st])"
| "rx_run (NotAhead P) = (\<lambda>st. case rs_rest st of [] \<Rightarrow> [st] | c # _ \<Rightarrow> if P c then [] else [st])"

definition at_start :: "char option \<Rightarrow> string \<Rightarrow> rx_state" where
  "at_start prev s = \<lparr>rs_prev = prev, rs_rest = s, rs_groups = []\<rparr>"

text \<open>A match: the text before it, the matched text, the groups, and the state it ended in.\<close>

record rx_match =
  rm_before :: string
  rm_text :: string
  rm_end :: rx_state

fun rx_search_from :: "rx \<Rightarrow> char option \<Rightarrow> string \<Rightarrow> rx_match option" where
  "rx_search_from r prev s =
     (case rx_run r (at_start prev s) of
        st # _ \<Rightarrow> Some \<lparr>rm_before = [], rm_text = consumed (at_start prev s) st, rm_end = st\<rparr>
      | [] \<Rightarrow> (case s of [] \<Rightarrow> None
          | c # cs \<Rightarrow> map_option (\<lambda>m. m\<lparr>rm_before := c # rm_before m\<rparr>) (rx_search_from r (Some c) cs)))"

declare rx_search_from.simps [simp del]

definition rx_search :: "rx \<Rightarrow> string \<Rightarrow> rx_match option" where
  "rx_search r s = rx_search_from r None s"

definition rx_found :: "rx \<Rightarrow> string \<Rightarrow> bool" where
  "rx_found r s \<longleftrightarrow> rx_search r s \<noteq> None"

definition rx_group :: "rx_match \<Rightarrow> nat \<Rightarrow> string option" where
  "rx_group m n = dget (rs_groups (rm_end m)) n"

definition rx_match_start :: "rx \<Rightarrow> string \<Rightarrow> rx_state option" where
  "rx_match_start r s = (case rx_run r (at_start None s) of st # _ \<Rightarrow> Some st | [] \<Rightarrow> None)"

definition rx_fullmatch :: "rx \<Rightarrow> string \<Rightarrow> bool" where
  "rx_fullmatch r s \<longleftrightarrow> list_ex (\<lambda>st. rs_rest st = []) (rx_run r (at_start None s))"

text \<open>
  The successive matches, each from where the last one ended. No expression used here matches the
  empty string; the scan stops at a match that does not advance.
\<close>

function rx_all_from :: "rx \<Rightarrow> char option \<Rightarrow> string \<Rightarrow> rx_match list" where
  "rx_all_from r prev s =
     (case rx_search_from r prev s of
        None \<Rightarrow> []
      | Some m \<Rightarrow> m # (if length (rs_rest (rm_end m)) < length s
                       then rx_all_from r (rs_prev (rm_end m)) (rs_rest (rm_end m)) else []))"
  by pat_completeness auto
termination
  by (relation "measure (\<lambda>(r, prev, s). length s)") auto

declare rx_all_from.simps [simp del]

definition rx_findall :: "rx \<Rightarrow> string \<Rightarrow> rx_match list" where
  "rx_findall r s = rx_all_from r None s"

function rx_sub_from :: "rx \<Rightarrow> string \<Rightarrow> char option \<Rightarrow> string \<Rightarrow> string" where
  "rx_sub_from r repl prev s =
     (case rx_search_from r prev s of
        None \<Rightarrow> s
      | Some m \<Rightarrow> rm_before m @ repl @
          (if length (rs_rest (rm_end m)) < length s
           then rx_sub_from r repl (rs_prev (rm_end m)) (rs_rest (rm_end m)) else rs_rest (rm_end m)))"
  by pat_completeness auto
termination
  by (relation "measure (\<lambda>(r, repl, prev, s). length s)") auto

declare rx_sub_from.simps [simp del]

definition rx_sub :: "rx \<Rightarrow> string \<Rightarrow> string \<Rightarrow> string" where
  "rx_sub r repl s = rx_sub_from r repl None s"

section \<open>Building expressions\<close>

fun lit :: "string \<Rightarrow> rx" where
  "lit [] = Eps"
| "lit (c # cs) = Cat (Cls ((=) c)) (lit cs)"

fun lit_nocase :: "string \<Rightarrow> rx" where
  "lit_nocase [] = Eps"
| "lit_nocase (c # cs) = Cat (Cls (\<lambda>d. lower_char d = lower_char c)) (lit_nocase cs)"

fun alts :: "rx list \<Rightarrow> rx" where
  "alts [] = Cls (\<lambda>_. False)"
| "alts [r] = r"
| "alts (r # rs) = Alt r (alts rs)"

fun seqs :: "rx list \<Rightarrow> rx" where
  "seqs [] = Eps"
| "seqs [r] = r"
| "seqs (r # rs) = Cat r (seqs rs)"

abbreviation star :: "rx \<Rightarrow> rx" where "star r \<equiv> Rep 0 None True r"
abbreviation plus1 :: "rx \<Rightarrow> rx" where "plus1 r \<equiv> Rep 1 None True r"
abbreviation opt :: "rx \<Rightarrow> rx" where "opt r \<equiv> Rep 0 (Some 1) True r"
abbreviation at_least :: "nat \<Rightarrow> rx \<Rightarrow> rx" where "at_least n r \<equiv> Rep n None True r"
abbreviation between :: "nat \<Rightarrow> nat \<Rightarrow> rx \<Rightarrow> rx" where "between m n r \<equiv> Rep m (Some n) True r"

definition one_of :: "string \<Rightarrow> rx" where
  "one_of cs = Cls (\<lambda>c. c \<in> set cs)"

definition none_of :: "string \<Rightarrow> rx" where
  "none_of cs = Cls (\<lambda>c. c \<notin> set cs)"

definition any_char :: rx where "any_char = Cls (\<lambda>c. c \<noteq> chr 10)"
definition digit_rx :: rx where "digit_rx = Cls is_digit"
definition space_rx :: rx where "space_rx = Cls is_space"
definition alnum_or :: "string \<Rightarrow> rx" where
  "alnum_or cs = Cls (\<lambda>c. is_alpha c \<or> is_digit c \<or> c \<in> set cs)"

section \<open>What a match is\<close>

text \<open>Every way to match consumes a prefix of the text.\<close>

definition suffix_step :: "rx_state \<Rightarrow> rx_state \<Rightarrow> bool" where
  "suffix_step a b \<longleftrightarrow> (\<exists>u. rs_rest a = u @ rs_rest b)"

lemma suffix_step_refl [simp]: "suffix_step a a"
  by (simp add: suffix_step_def)

lemma suffix_step_trans: "suffix_step a b \<Longrightarrow> suffix_step b c \<Longrightarrow> suffix_step a c"
  by (auto simp: suffix_step_def)

lemma suffix_step_groups [simp]: "suffix_step a (b\<lparr>rs_groups := g\<rparr>) = suffix_step a b"
  by (simp add: suffix_step_def)

lemma repeat_run_suffix:
  "(\<And>a b. b \<in> set (f a) \<Longrightarrow> suffix_step a b) \<Longrightarrow> b \<in> set (repeat_run f greedy lo hi a) \<Longrightarrow> suffix_step a b"
proof (induction f greedy lo hi a arbitrary: b rule: repeat_run.induct)
  case (2 f greedy lo hi st)
  show ?case
  proof (cases "b = st")
    case False
    with 2(3) obtain x where x: "x \<in> set (f st)" "b \<in> set (repeat_run f greedy (lo - 1) hi x)"
      by (auto simp: Let_def split: if_splits)
    have "suffix_step st x" using 2(2) x(1) .
    moreover have "suffix_step x b" by (rule 2(1) [OF x(1) 2(2) x(2)])
    ultimately show ?thesis by (rule suffix_step_trans)
  qed simp
qed (auto split: if_splits)

lemma rx_run_suffix: "b \<in> set (rx_run r a) \<Longrightarrow> suffix_step a b"
proof (induction r arbitrary: a b)
  case (Cls P)
  then show ?case by (cases "rs_rest a") (auto simp: suffix_step_def split: if_splits)
next
  case (Cat r1 r2)
  then obtain x where "x \<in> set (rx_run r1 a)" "b \<in> set (rx_run r2 x)" by auto
  with Cat.IH show ?case by (metis suffix_step_trans)
next
  case (Rep lo hi greedy r)
  then show ?case by (auto intro: repeat_run_suffix)
qed (auto split: if_splits option.splits list.splits)

lemma consumed_rest: "suffix_step a b \<Longrightarrow> consumed a b @ rs_rest b = rs_rest a"
  by (auto simp: suffix_step_def consumed_def)

lemma rx_search_split:
  "rx_search_from r prev s = Some m \<Longrightarrow> s = rm_before m @ rm_text m @ rs_rest (rm_end m)"
proof (induction s arbitrary: prev m)
  case Nil
  then obtain st sts where st: "rx_run r (at_start prev []) = st # sts"
    by (subst (asm) rx_search_from.simps) (auto split: list.splits)
  then have "suffix_step (at_start prev []) st" by (intro rx_run_suffix [of _ r]) simp
  from consumed_rest [OF this] st Nil show ?case
    by (subst (asm) rx_search_from.simps) (auto simp: at_start_def)
next
  case (Cons c cs)
  show ?case
  proof (cases "rx_run r (at_start prev (c # cs))")
    case Nil
    then show ?thesis using Cons
      by (subst (asm) (2) rx_search_from.simps) auto
  next
    case (Cons st sts)
    then have "suffix_step (at_start prev (c # cs)) st" by (intro rx_run_suffix [of _ r]) simp
    from consumed_rest [OF this] Cons Cons.prems show ?thesis
      by (subst (asm) rx_search_from.simps) (auto simp: at_start_def)
  qed
qed

text \<open>A search finds something exactly when the expression matches at some position.\<close>

lemma rx_search_iff:
  "rx_search_from r prev s \<noteq> None \<longleftrightarrow>
     (\<exists>u v. s = u @ v \<and> rx_run r (at_start (if u = [] then prev else Some (last u)) v) \<noteq> [])"
proof (induction s arbitrary: prev)
  case Nil
  then show ?case by (subst rx_search_from.simps) (auto split: list.splits)
next
  case (Cons c cs)
  show ?case
  proof (cases "rx_run r (at_start prev (c # cs)) = []")
    case True
    then have "rx_search_from r prev (c # cs) \<noteq> None \<longleftrightarrow> rx_search_from r (Some c) cs \<noteq> None"
      by (subst rx_search_from.simps) auto
    also have "\<dots> \<longleftrightarrow> (\<exists>u v. cs = u @ v \<and> rx_run r (at_start (if u = [] then Some c else Some (last u)) v) \<noteq> [])"
      by (rule Cons.IH)
    also have "\<dots> \<longleftrightarrow> (\<exists>u v. c # cs = u @ v \<and> rx_run r (at_start (if u = [] then prev else Some (last u)) v) \<noteq> [])"
    proof
      assume "\<exists>u v. cs = u @ v \<and> rx_run r (at_start (if u = [] then Some c else Some (last u)) v) \<noteq> []"
      then obtain u v where "cs = u @ v" "rx_run r (at_start (if u = [] then Some c else Some (last u)) v) \<noteq> []"
        by blast
      then show "\<exists>u v. c # cs = u @ v \<and> rx_run r (at_start (if u = [] then prev else Some (last u)) v) \<noteq> []"
        by (intro exI [of _ "c # u"] exI [of _ v]) (auto split: if_splits)
    next
      assume "\<exists>u v. c # cs = u @ v \<and> rx_run r (at_start (if u = [] then prev else Some (last u)) v) \<noteq> []"
      then obtain u v where uv: "c # cs = u @ v" "rx_run r (at_start (if u = [] then prev else Some (last u)) v) \<noteq> []"
        by blast
      with True obtain u' where "u = c # u'" by (cases u) auto
      with uv show "\<exists>u v. cs = u @ v \<and> rx_run r (at_start (if u = [] then Some c else Some (last u)) v) \<noteq> []"
        by (intro exI [of _ u'] exI [of _ v]) (auto split: if_splits)
    qed
    finally show ?thesis .
  next
    case False
    then have "rx_search_from r prev (c # cs) \<noteq> None"
      by (subst rx_search_from.simps) (auto split: list.splits)
    with False show ?thesis by (metis append_Nil)
  qed
qed

lemma rx_sub_none: "rx_search_from r prev s = None \<Longrightarrow> rx_sub_from r repl prev s = s"
  by (subst rx_sub_from.simps) simp

lemma lit_run: "rx_run (lit w) st \<noteq> [] \<longleftrightarrow> starts_with (rs_rest st) w"
proof (induction w arbitrary: st)
  case (Cons c cs)
  then show ?case by (cases "rs_rest st") auto
qed simp

lemma rx_found_lit: "rx_found (lit w) s \<longleftrightarrow> contains_str s w"
  unfolding rx_found_def rx_search_def rx_search_iff lit_run contains_str_iff
  by (auto simp: at_start_def starts_with_iff)

lemma rx_found_Alt: "rx_found (Alt a b) s \<longleftrightarrow> rx_found a s \<or> rx_found b s"
  unfolding rx_found_def rx_search_def rx_search_iff by auto

end
