(* ===== verification/Redaction.thy ===== *)
theory Redaction
  imports Regex Render
begin

text \<open>
  \<open>app/security/redaction.py\<close>: secrets are removed from headers, parameters and bodies before an
  exchange is kept as evidence. Texts are strings here; the decoding of a body of bytes is the
  caller's.
\<close>

definition SENSITIVE_HEADERS :: "string list" where
  "SENSITIVE_HEADERS = [''authorization'', ''cookie'', ''set-cookie'', ''x-api-key'',
     ''proxy-authorization'', ''x-auth-token'', ''x-csrf-token'', ''x-session-token'']"

definition SENSITIVE_PARAM_HINTS :: "string list" where
  "SENSITIVE_PARAM_HINTS = [''password'', ''passwd'', ''secret'', ''token'', ''apikey'', ''api_key'',
     ''authorization'', ''session'', ''ssn'', ''credit'', ''card'']"

definition pan_rx :: rx where
  "pan_rx = seqs [Wordb, between 13 19 digit_rx, Wordb]"

definition email_rx :: rx where
  "email_rx = seqs [Wordb, plus1 (alnum_or ''._-''), lit ''@'', plus1 (alnum_or ''.-''), lit ''.'',
     at_least 2 (Cls is_alpha), Wordb]"

definition jwt_rx :: rx where
  "jwt_rx = seqs [lit ''eyJ'', at_least 10 (alnum_or ''_-''), lit ''.'', at_least 10 (alnum_or ''_-''),
     lit ''.'', at_least 5 (alnum_or ''_-'')]"

definition apikey_rx :: rx where
  "apikey_rx = seqs [lit ''sk_'', between 8 8 (one_of ''abcdef0123456789''), lit ''_'',
     at_least 20 (alnum_or ''_-'')]"

definition PATTERNS :: "(rx \<times> string) list" where
  "PATTERNS = [(pan_rx, ''[REDACTED_PAN]''), (email_rx, ''[REDACTED_EMAIL]''),
     (jwt_rx, ''[REDACTED_JWT]''), (apikey_rx, ''[REDACTED_APIKEY]'')]"

definition MAX_BODY_CHARS :: nat where
  "MAX_BODY_CHARS = 8192"

definition redact_text :: "string \<Rightarrow> string" where
  "redact_text text = foldl (\<lambda>red (pattern, repl). rx_sub pattern repl red) text PATTERNS"

definition redact_header :: "string \<times> jv \<Rightarrow> string \<times> jv" where
  "redact_header = (\<lambda>(k, v). (k, JStr (if str_lower k \<in> set SENSITIVE_HEADERS then ''[REDACTED]''
                                     else redact_text (str_jv v))))"

definition redact_headers :: "dict \<Rightarrow> dict" where
  "redact_headers headers = map redact_header headers"

definition sensitive_param :: "string \<Rightarrow> bool" where
  "sensitive_param k \<longleftrightarrow> list_ex (\<lambda>h. contains_str (str_lower k) h) SENSITIVE_PARAM_HINTS"

definition redact_pair :: "string \<times> jv \<Rightarrow> string \<times> jv" where
  "redact_pair = (\<lambda>(k, v). (k, JStr (if sensitive_param k then ''[REDACTED]'' else redact_text (str_jv v))))"

fun redact_params :: "jv \<Rightarrow> jv" where
  "redact_params (JDict d) = JDict (map redact_pair d)"
| "redact_params (JList ps) = JList (map (\<lambda>p. case p of
     JDict _ \<Rightarrow> redact_params p | JList _ \<Rightarrow> redact_params p | _ \<Rightarrow> JStr (redact_text (str_jv p))) ps)"
| "redact_params _ = JDict []"

definition truncate_body :: "string option \<Rightarrow> string" where
  "truncate_body body = (case body of
     None \<Rightarrow> []
   | Some b \<Rightarrow>
       let red = redact_text b
       in if length red > MAX_BODY_CHARS
          then take MAX_BODY_CHARS red @ [chr 10] @ ''...[truncated '' @ nat_str (length red - MAX_BODY_CHARS) @ '' chars]''
          else red)"

text \<open>One side of an exchange as it is handed over: a request, or a response with its timing.\<close>

record exchange_request =
  xr_method :: string
  xr_url :: string
  xr_headers :: dict
  xr_body :: "string option"

record exchange_response =
  xs_status :: jv
  xs_headers :: dict
  xs_body :: "string option"
  xs_elapsed_ms :: jv

definition build_evidence_exchange :: "exchange_request \<Rightarrow> exchange_response \<Rightarrow> dict \<times> dict" where
  "build_evidence_exchange q a =
     ([(''method'', JStr (xr_method q)), (''url'', JStr (xr_url q)),
       (''headers'', JDict (redact_headers (xr_headers q))), (''body'', JStr (truncate_body (xr_body q)))],
      [(''status'', xs_status a), (''headers'', JDict (redact_headers (xs_headers a))),
       (''body'', JStr (truncate_body (xs_body a))), (''elapsed_ms'', xs_elapsed_ms a)])"

section \<open>Lemmas\<close>

lemma redact_headers_keys: "map fst (redact_headers hs) = map fst hs"
  by (simp add: redact_headers_def redact_header_def case_prod_unfold)

text \<open>Two header dicts that differ only in the values of sensitive headers.\<close>

definition same_but_secrets :: "dict \<Rightarrow> dict \<Rightarrow> bool" where
  "same_but_secrets a b \<longleftrightarrow>
     list_all2 (\<lambda>(k, v) (k', v'). k = k' \<and> (str_lower k \<in> set SENSITIVE_HEADERS \<or> v = v')) a b"

lemma redact_headers_secrets: "same_but_secrets a b \<Longrightarrow> redact_headers a = redact_headers b"
  unfolding same_but_secrets_def redact_headers_def redact_header_def
  by (induction rule: list_all2_induct) auto

lemma truncate_body_prefix:
  "take MAX_BODY_CHARS (truncate_body (Some b)) = take MAX_BODY_CHARS (redact_text b)"
  by (simp add: truncate_body_def Let_def)

text \<open>A text in which no pattern matches is left as it is.\<close>

lemma redact_text_clean: "\<forall>(p, repl) \<in> set PATTERNS. \<not> rx_found p s \<Longrightarrow> redact_text s = s"
proof -
  have "\<forall>(p, repl) \<in> set ps. \<not> rx_found p s \<Longrightarrow>
      foldl (\<lambda>red (pattern, repl). rx_sub pattern repl red) s ps = s" for ps
    by (induction ps) (auto simp: rx_found_def rx_search_def rx_sub_def rx_sub_none)
  then show "\<forall>(p, repl) \<in> set PATTERNS. \<not> rx_found p s \<Longrightarrow> redact_text s = s"
    by (simp add: redact_text_def)
qed



lemma redaction_examples:
  "redact_text ''card 4111111111111111!'' = ''card [REDACTED_PAN]!''"
  "redact_text ''to a.b@c.example.org now'' = ''to [REDACTED_EMAIL] now''"
  by code_simp+

end
