(* ===== verification/Web.thy ===== *)
theory Web
  imports Http_Client Redaction
begin

text \<open>
  What discovery, checks and validation see of the guarded client: a call is answered or fails, and
  changes the client's state. \<open>guarded_web\<close> is the client itself (\<open>request\<close> of
  \<open>app/security/http_client.py\<close>). \<open>logged\<close> is a target that may answer as it likes from what it
  has been asked so far, with the log of the calls; \<open>fixed_target\<close> answers a call always alike.
\<close>

record call =
  ca_method :: string
  ca_url :: string
  ca_headers :: dict
  ca_params :: dict
  ca_data :: jv
  ca_json :: jv
  ca_max_redirects :: int

type_synonym 's web = "call \<Rightarrow> ('s, guarded_response) act"

definition get_call :: "string \<Rightarrow> dict \<Rightarrow> call" where
  "get_call url params = \<lparr>ca_method = ''GET'', ca_url = url, ca_headers = [], ca_params = params,
     ca_data = JNull, ca_json = JNull, ca_max_redirects = 3\<rparr>"

definition post_call :: "string \<Rightarrow> jv \<Rightarrow> call" where
  "post_call url json = (get_call url [])\<lparr>ca_method := ''POST'', ca_json := json\<rparr>"

definition guarded_web :: "world \<Rightarrow> http_client web" where
  "guarded_web w c = request w (ca_method c) (ca_url c) (ca_headers c) (ca_params c) (ca_data c)
     (ca_json c) (ca_max_redirects c)"

definition logged :: "(call list \<Rightarrow> call \<Rightarrow> exn + guarded_response) \<Rightarrow> (call list) web" where
  "logged answers c calls = (answers calls c, calls @ [c])"

definition fixed_target :: "(call \<Rightarrow> exn + guarded_response) \<Rightarrow> unit web" where
  "fixed_target answer c s = (answer c, s)"

text \<open>The probe of a parameter: in the query of a GET, in the form of any other method.\<close>

definition probe_call :: "string \<Rightarrow> string \<Rightarrow> dict \<Rightarrow> call" where
  "probe_call method url overrides =
     (if method = ''GET'' then get_call url overrides
      else (get_call url [])\<lparr>ca_method := method, ca_data := JDict overrides\<rparr>)"

text \<open>\<open>except TargetUnreachable\<close> around a computation.\<close>

definition unless_unreachable :: "('s, 'a) act \<Rightarrow> (string \<Rightarrow> ('s, 'a) act) \<Rightarrow> ('s, 'a) act" where
  "unless_unreachable m h = catch_act m (\<lambda>e. case e of TargetUnreachable msg \<Rightarrow> h msg | _ \<Rightarrow> raise_exn e)"

definition resp_header :: "guarded_response \<Rightarrow> string \<Rightarrow> string" where
  "resp_header resp k = (case dget (gr_headers resp) k of None \<Rightarrow> [] | Some v \<Rightarrow> v)"

definition header_dict :: "(string \<times> string) list \<Rightarrow> dict" where
  "header_dict hs = map (\<lambda>(k, v). (k, JStr v)) hs"

definition response_exchange :: "string \<Rightarrow> string option \<Rightarrow> string option \<Rightarrow> guarded_response \<Rightarrow> dict \<times> dict" where
  "response_exchange method req_body resp_body resp =
     build_evidence_exchange
       \<lparr>xr_method = method, xr_url = gr_url resp, xr_headers = gr_request_headers resp, xr_body = req_body\<rparr>
       \<lparr>xs_status = JInt (gr_status_code resp), xs_headers = header_dict (gr_headers resp),
        xs_body = resp_body, xs_elapsed_ms = JNum (gr_elapsed_ms resp)\<rparr>"

lemma catch_act_Inr [simp]: "m s = (Inr x, s') \<Longrightarrow> catch_act m h s = (Inr x, s')"
  by (simp add: catch_act_def)

lemma unless_unreachable_Inr: "m s = (Inr x, s') \<Longrightarrow> unless_unreachable m h s = (Inr x, s')"
  by (simp add: unless_unreachable_def)

text \<open>
  Frames for computations that may only make calls of a given kind: a relation that every such call
  keeps, and that is reflexive and transitive, holds between the states before and after.
\<close>

lemma keeps_unless_unreachable:
  assumes "keeps R m" "\<And>msg. keeps R (h msg)" "frame R"
  shows "keeps R (unless_unreachable m h)"
  unfolding unless_unreachable_def
  by (rule frame.keeps_catch [OF assms(3,1)]) (auto split: exn.splits intro: assms(2) frame.keeps_raise [OF assms(3)])

end
