(* ===== verification/Urljoin.thy ===== *)
theory Urljoin
  imports Netguard
begin

text \<open>
  The standard library's \<open>urllib.parse.urljoin\<close>, which resolves a reference against a base URL.
\<close>

definition USES_RELATIVE :: "string list" where
  "USES_RELATIVE = [[], ''ftp'', ''http'', ''gopher'', ''nntp'', ''imap'', ''wais'', ''file'', ''https'', ''shttp'',
     ''mms'', ''prospero'', ''rtsp'', ''rtsps'', ''rtspu'', ''sftp'', ''svn'', ''svn+ssh'', ''ws'', ''wss'']"

definition USES_NETLOC :: "string list" where
  "USES_NETLOC = [[], ''ftp'', ''http'', ''gopher'', ''nntp'', ''telnet'', ''imap'', ''wais'', ''file'', ''mms'', ''https'',
     ''shttp'', ''snews'', ''prospero'', ''rtsp'', ''rtsps'', ''rtspu'', ''rsync'', ''svn'', ''svn+ssh'', ''sftp'', ''nfs'',
     ''git'', ''git+ssh'', ''ws'', ''wss'', ''itms-services'']"

definition USES_PARAMS :: "string list" where
  "USES_PARAMS = [[], ''ftp'', ''hdl'', ''prospero'', ''http'', ''imap'', ''https'', ''shttp'', ''rtsp'', ''rtsps'',
     ''rtspu'', ''sip'', ''sips'', ''mms'', ''sftp'', ''tel'']"

text \<open>The parameters after a semicolon in the last segment of a path.\<close>

definition split_params :: "string \<Rightarrow> string \<times> string" where
  "split_params url =
     (let (before, slash, seg) = rpartition_char (CHR ''/'') url;
          (a, found, b) = partition_char (CHR '';'') seg
      in if found then ((if slash then before @ ''/'' else []) @ a, b) else (url, []))"

record parsed =
  pu_scheme :: string
  pu_netloc :: string
  pu_path :: string
  pu_params :: string
  pu_query :: string
  pu_fragment :: string

definition urlparse :: "string \<Rightarrow> string \<Rightarrow> exn + parsed" where
  "urlparse url scheme =
     sum_bind (urlsplit url) (\<lambda>u.
       let sch = (if u_scheme u = [] then scheme else u_scheme u);
           (path, params) = (if sch \<in> set USES_PARAMS \<and> CHR '';'' \<in> set (u_path u)
                             then split_params (u_path u) else (u_path u, []))
       in Inr \<lparr>pu_scheme = sch, pu_netloc = u_netloc u, pu_path = path, pu_params = params,
               pu_query = u_query u, pu_fragment = u_fragment u\<rparr>)"

definition urlunparse :: "parsed \<Rightarrow> string" where
  "urlunparse p =
     (let url0 = (if pu_params p \<noteq> [] then pu_path p @ '';'' @ pu_params p else pu_path p);
          url1 = (if pu_netloc p \<noteq> [] \<or> (pu_scheme p \<noteq> [] \<and> pu_scheme p \<in> set USES_NETLOC \<and> \<not> starts_with url0 ''//'')
                  then ''//'' @ pu_netloc p @ (if url0 \<noteq> [] \<and> hd url0 \<noteq> CHR ''/'' then ''/'' @ url0 else url0)
                  else url0);
          url2 = (if pu_scheme p \<noteq> [] then pu_scheme p @ '':'' @ url1 else url1);
          url3 = (if pu_query p \<noteq> [] then url2 @ ''?'' @ pu_query p else url2)
      in if pu_fragment p \<noteq> [] then url3 @ ''#'' @ pu_fragment p else url3)"

text \<open>Dot segments: a \<open>..\<close> removes the segment before it.\<close>

fun resolve_segments :: "string list \<Rightarrow> string list \<Rightarrow> string list" where
  "resolve_segments acc [] = rev acc"
| "resolve_segments acc (seg # segs) =
     (if seg = ''..'' then resolve_segments (tl acc) segs
      else if seg = ''.'' then resolve_segments acc segs
      else resolve_segments (seg # acc) segs)"

definition drop_inner_empty :: "string list \<Rightarrow> string list" where
  "drop_inner_empty segs =
     (case segs of [] \<Rightarrow> [] | [s] \<Rightarrow> [s]
      | s # ss \<Rightarrow> s # filter (\<lambda>x. x \<noteq> []) (butlast ss) @ [last ss])"

definition join_path :: "string \<Rightarrow> string \<Rightarrow> string" where
  "join_path bpath path =
     (let base0 = split_char (CHR ''/'') bpath;
          base = (if last base0 \<noteq> [] then butlast base0 else base0);
          segs = (if starts_with path ''/'' then split_char (CHR ''/'') path
                  else drop_inner_empty (base @ split_char (CHR ''/'') path));
          resolved = resolve_segments [] segs @ (if last segs \<in> {''.'', ''..''} then [[]] else []);
          joined = join_with ''/'' resolved
      in if joined = [] then ''/'' else joined)"

definition urljoin :: "string \<Rightarrow> string \<Rightarrow> exn + string" where
  "urljoin base url =
     (if base = [] then Inr url else if url = [] then Inr base
      else
        sum_bind (urlparse base []) (\<lambda>b.
        sum_bind (urlparse url (pu_scheme b)) (\<lambda>u.
          if pu_scheme u \<noteq> pu_scheme b \<or> pu_scheme u \<notin> set USES_RELATIVE then Inr url
          else if pu_scheme u \<in> set USES_NETLOC \<and> pu_netloc u \<noteq> [] then Inr (urlunparse u)
          else
            let u1 = (if pu_scheme u \<in> set USES_NETLOC then u\<lparr>pu_netloc := pu_netloc b\<rparr> else u)
            in if pu_path u1 = [] \<and> pu_params u1 = []
               then Inr (urlunparse (u1\<lparr>pu_path := pu_path b, pu_params := pu_params b,
                      pu_query := (if pu_query u1 = [] then pu_query b else pu_query u1)\<rparr>))
               else Inr (urlunparse (u1\<lparr>pu_path := join_path (pu_path b) (pu_path u1)\<rparr>)))))"

lemma urljoin_examples:
  "urljoin ''http://h/a/b?x=1'' ''c'' = Inr ''http://h/a/c''"
  "urljoin ''http://h/a/b'' ''/c?d'' = Inr ''http://h/c?d''"
  "urljoin ''http://h/a/b/'' ''../c'' = Inr ''http://h/a/c''"
  "urljoin ''http://h/a'' ''//other/x'' = Inr ''http://other/x''"
  "urljoin ''http://h/a'' ''mailto:x'' = Inr ''mailto:x''"
  "urljoin ''http://h/a;p'' ''?q'' = Inr ''http://h/a;p?q''"
  by code_simp+

end
