(* ===== verification/Json_Roundtrip.thy ===== *)
theory Json_Roundtrip
  imports Json
begin

text \<open>
  \<open>json.loads\<close> reads back what \<open>json.dumps\<close> prints. Floats are left out, as their printed form is
  an approximation; the keys of an object are distinct, as those of a dict are.
\<close>

fun plain_json :: "jv \<Rightarrow> bool" where
  "plain_json (JNum r) = False"
| "plain_json (JList xs) = list_all plain_json xs"
| "plain_json (JDict d) = (dwf d \<and> list_all (\<lambda>p. plain_json (snd p)) d)"
| "plain_json v = True"

section \<open>Strings\<close>

definition hexdigit_reads :: "int \<Rightarrow> bool" where
  "hexdigit_reads k \<longleftrightarrow> (let c = hex_digit k in
     (is_digit c \<or> lower_char c \<in> set ''abcdef'') \<and> (if is_digit c then ord c - 48 else ord (lower_char c) - 87) = k)"

lemma hexdigit_reads: "0 \<le> k \<Longrightarrow> k < 16 \<Longrightarrow> hexdigit_reads k"
proof -
  assume "0 \<le> k" "k < 16"
  then have "k \<in> set [0..15]" by simp
  moreover have "list_all hexdigit_reads [0..15]" by code_simp
  ultimately show ?thesis by (metis list_all_iff)
qed

lemma hexval4_low:
  assumes "0 \<le> n" "n < 256"
  shows "hexval4 (CHR ''0'' # CHR ''0'' # hex_digit (n div 16) # [hex_digit (n mod 16)]) = Some n"
proof -
  have "hexdigit_reads (n div 16)" "hexdigit_reads (n mod 16)" "hexdigit_reads 0"
    using assms by (intro hexdigit_reads; simp)+
  moreover have "hex_digit 0 = CHR ''0''" by code_simp
  ultimately show ?thesis
    by (simp add: hexval4_def hexdigit_reads_def Let_def split: if_splits)
qed

lemma ord_bounds: "0 \<le> ord c" "ord c < 256"
  using of_char_of [where ?'a = int] by (simp_all add: ord_def of_char_def horner_sum_bit_eq_take_bit char.case_eq_if)

lemma ord_const: "ord c = n \<longleftrightarrow> c = chr n" if "0 \<le> n" "n < 256"
  using that by (metis chr_ord ord_chr)

lemma chr_fixed:
  "ord (CHR ''n'') = 110" "ord (CHR ''r'') = 114" "ord (CHR ''t'') = 116" "ord (CHR ''f'') = 102"
  "ord (CHR ''b'') = 98" "ord (CHR ''u'') = 117" "ord (chr 92) = 92"
  by code_simp+

lemma short_escapes:
  "json_char (chr 34) = [chr 92, chr 34] \<and> simple_escape (chr 34) = Some (chr 34) \<and> ord (chr 34) = 34"
  "json_char (chr 92) = [chr 92, chr 92] \<and> simple_escape (chr 92) = Some (chr 92)"
  "json_char (chr 10) = [chr 92, CHR ''n''] \<and> simple_escape (CHR ''n'') = Some (chr 10)"
  "json_char (chr 13) = [chr 92, CHR ''r''] \<and> simple_escape (CHR ''r'') = Some (chr 13)"
  "json_char (chr 9) = [chr 92, CHR ''t''] \<and> simple_escape (CHR ''t'') = Some (chr 9)"
  "json_char (chr 12) = [chr 92, CHR ''f''] \<and> simple_escape (CHR ''f'') = Some (chr 12)"
  "json_char (chr 8) = [chr 92, CHR ''b''] \<and> simple_escape (CHR ''b'') = Some (chr 8)"
  by code_simp+

lemma parse_short:
  "json_char c = [chr 92, e] \<Longrightarrow> ord e \<noteq> 117 \<Longrightarrow> simple_escape e = Some c \<Longrightarrow>
   parse_chars acc (json_char c @ u) = parse_chars (c # acc) u"
  by (simp add: chr_fixed)

lemma parse_json_char: "parse_chars acc (json_char c @ u) = parse_chars (c # acc) u"
proof -
  consider (short) "c \<in> {chr 34, chr 92, chr 10, chr 13, chr 9, chr 12, chr 8}"
    | (uni) "ord c \<notin> {34, 92, 10, 13, 9, 12, 8}" "ord c < 32 \<or> ord c > 126"
    | (self) "ord c \<notin> {34, 92}" "32 \<le> ord c" "ord c \<le> 126"
  proof -
    have "ord c \<in> {34, 92, 10, 13, 9, 12, 8} \<Longrightarrow> c \<in> {chr 34, chr 92, chr 10, chr 13, chr 9, chr 12, chr 8}"
      by (elim insertE emptyE; drule arg_cong [where f = chr]; simp)
    then show thesis
      using that by (cases "ord c \<in> {34, 92, 10, 13, 9, 12, 8}"; cases "ord c < 32 \<or> ord c > 126") auto
  qed
  then show ?thesis
  proof cases
    case short
    then show ?thesis
      using parse_short short_escapes chr_fixed by (elim insertE emptyE) (simp_all del: parse_chars.simps)
  next
    case uni
    then have "json_char c = [chr 92, CHR ''u'', CHR ''0'', CHR ''0'', hex_digit (ord c div 16), hex_digit (ord c mod 16)]"
      by (auto simp: json_char_def Let_def)
    then show ?thesis
      by (simp add: chr_fixed hexval4_low [OF ord_bounds] utf8_def ord_bounds)
  next
    case self
    then have "json_char c = [c]" by (auto simp: json_char_def Let_def)
    with self show ?thesis by simp
  qed
qed

lemma parse_json_string:
  "parse_chars acc (concat (map json_char s) @ chr 34 # t) = Some (rev acc @ s, t)"
proof (induction s arbitrary: acc)
  case Nil
  have "ord (chr 34) = 34" by code_simp
  then show ?case by simp
qed (simp add: parse_json_char del: parse_chars.simps)

section \<open>Integers\<close>

text \<open>What may follow a value inside a printed value.\<close>

definition closing :: "string \<Rightarrow> bool" where
  "closing t \<longleftrightarrow> (t = [] \<or> hd t \<in> set '',]}'')"

lemma closing_hd:
  assumes "closing (c # t)"
  shows "\<not> is_digit c \<and> lower_char c \<noteq> CHR ''e'' \<and> c \<noteq> CHR ''.''"
proof -
  have "list_all (\<lambda>c. \<not> is_digit c \<and> lower_char c \<noteq> CHR ''e'' \<and> c \<noteq> CHR ''.'') '',]}''" by code_simp
  with assms show ?thesis unfolding closing_def list_all_iff by fastforce
qed

lemma closing_not_digit: "closing t \<Longrightarrow> takeWhile is_digit t = [] \<and> dropWhile is_digit t = t"
  using closing_hd by (cases t) auto

lemma closing_frac: "closing t \<Longrightarrow> frac_part t = (None, t) \<and> exp_part t = (None, t)"
  using closing_hd by (cases t) (auto simp: frac_part_def exp_part_def)

lemma digits_str_hd: "0 \<le> n \<Longrightarrow> hd (digits_str n) = CHR ''0'' \<Longrightarrow> digits_str n = ''0''"
proof (induction n rule: digits_str.induct)
  case (1 n)
  show ?case
  proof (cases "n < 10")
    case True
    have "chr 48 = CHR ''0''" by code_simp
    moreover have "chr (48 + n) = chr 48 \<Longrightarrow> n = 0"
      using 1(2) True ord_chr [of "48 + n"] ord_chr [of 48] by simp
    moreover have "digits_str 0 = ''0''" by code_simp
    ultimately show ?thesis using 1(2,3) True by (simp add: digits_str.simps [of n])
  next
    case False
    then have "hd (digits_str (n div 10)) = CHR ''0''"
      using 1(3) by (simp add: digits_str.simps [of n])
    then have "digits_str (n div 10) = ''0''" using 1 False by simp
    moreover have "digits_val (digits_str (n div 10)) = n div 10"
      using 1(2) by (intro digits_val_digits_str) simp
    moreover have "digits_val ''0'' = 0" by code_simp
    ultimately show ?thesis using False by simp
  qed
qed

lemma digits_span: "0 \<le> n \<Longrightarrow> closing t \<Longrightarrow> span_digits (digits_str n @ t) = (digits_str n, t)"
  using digits_str_digits [of n] closing_not_digit [of t]
  by (simp add: span_digits_def takeWhile_append2 dropWhile_append2)

lemma digits_str_no_minus: "0 \<le> n \<Longrightarrow> \<exists>d ds. digits_str n = d # ds \<and> is_digit d \<and> d \<noteq> CHR ''-''"
proof -
  assume n: "0 \<le> n"
  obtain d ds where d: "digits_str n = d # ds" by (meson digits_str_nonempty list.exhaust)
  then have "is_digit d" using digits_str_digits [OF n] by simp
  moreover have "\<not> is_digit (CHR ''-'')" by code_simp
  ultimately show ?thesis using d by blast
qed

lemma parse_digits:
  assumes "0 \<le> n" "closing t"
  shows "parse_number (digits_str n @ t) = Some (JInt n, t)"
    "parse_number (CHR ''-'' # digits_str n @ t) = Some (JInt (- n), t)"
proof -
  obtain d ds where d: "digits_str n = d # ds" "d \<noteq> CHR ''-''"
    using digits_str_no_minus [OF assms(1)] by blast
  have "(if digits_str n \<noteq> [] \<and> hd (digits_str n) = CHR ''0'' then (''0'', tl (digits_str n @ t)) else (digits_str n, t))
      = (digits_str n, t)"
    using digits_str_hd [OF assms(1)] by auto
  note facts = this digits_span [OF assms] closing_frac [OF assms(2)] digits_val_digits_str [OF assms(1)]
  show "parse_number (digits_str n @ t) = Some (JInt n, t)"
    using facts d unfolding parse_number_def by (auto simp: Let_def split: if_splits)
  show "parse_number (CHR ''-'' # digits_str n @ t) = Some (JInt (- n), t)"
    using facts d unfolding parse_number_def by (auto simp: Let_def split: if_splits)
qed

section \<open>Values\<close>

definition starts_value :: "char \<Rightarrow> bool" where
  "starts_value c \<longleftrightarrow> \<not> json_space c \<and> c \<noteq> CHR '']'' \<and> c \<noteq> CHR ''}''"

lemma digit_starts: "is_digit c \<Longrightarrow> starts_value c \<and> ord c \<noteq> 34 \<and> c \<notin> set ''[{ntf''"
proof -
  assume "is_digit c"
  then have "ord c \<in> set [48..57]" by (simp only: set_upto atLeastAtMost_iff is_digit_def Let_def)
  moreover have "list_all (\<lambda>n. let c = chr n in starts_value c \<and> ord c \<noteq> 34 \<and> c \<notin> set ''[{ntf'') [48..57]"
    by code_simp
  ultimately show ?thesis unfolding list_all_iff Let_def by (metis chr_ord)
qed

lemma fixed_starts:
  "starts_value (chr 34)" "starts_value (CHR ''['')" "starts_value (CHR ''{'')" "starts_value (CHR ''n'')"
  "starts_value (CHR ''t'')" "starts_value (CHR ''f'')" "starts_value (CHR ''-'')" "ord (CHR ''-'') \<noteq> 34"
  "ord (chr 34) = 34" "ord (CHR ''['') \<noteq> 34" "ord (CHR ''{'') \<noteq> 34" "ord (CHR ''n'') \<noteq> 34"
  "ord (CHR ''t'') \<noteq> 34" "ord (CHR ''f'') \<noteq> 34" "json_space (CHR '' '')"
  "\<not> json_space (CHR '','')" "\<not> json_space (CHR '']'')" "\<not> json_space (CHR ''}'')" "\<not> json_space (CHR '':'')"
  by code_simp+

lemma dumps_starts: "plain_json v \<Longrightarrow> \<exists>c cs. json_dumps v = c # cs \<and> starts_value c"
proof (cases v)
  case (JInt i)
  then show ?thesis
  proof (cases "i < 0")
    case False
    then obtain d ds where "digits_str i = d # ds" "is_digit d" using digits_str_no_minus [of i] by auto
    with JInt False digit_starts show ?thesis by (auto simp: int_str_def)
  qed (simp add: int_str_def fixed_starts)
qed (simp_all add: fixed_starts json_str_def)

lemma skip_ws_value: "starts_value c \<Longrightarrow> skip_ws (c # cs) = c # cs"
  by (simp add: skip_ws_def starts_value_def)

lemma skip_ws_space: "skip_ws (CHR '' '' # s) = skip_ws s"
  by (simp add: skip_ws_def fixed_starts)

lemma skip_ws_close:
  "skip_ws (CHR '','' # s) = CHR '','' # s" "skip_ws (CHR '']'' # s) = CHR '']'' # s"
  "skip_ws (CHR ''}'' # s) = CHR ''}'' # s" "skip_ws (CHR '':'' # s) = CHR '':'' # s"
  by (simp_all add: skip_ws_def fixed_starts)

lemma closing_Cons: "closing (CHR '','' # s)" "closing (CHR '']'' # s)" "closing (CHR ''}'' # s)"
  by (simp_all add: closing_def)

definition reads_back :: "jv \<Rightarrow> bool" where
  "reads_back v \<longleftrightarrow> (\<forall>n t. length (json_dumps v) < n \<longrightarrow> closing t \<longrightarrow>
     parse_value n (json_dumps v @ t) = Some (v, t))"

lemma reads_backD: "reads_back v \<Longrightarrow> length (json_dumps v) < n \<Longrightarrow> closing t \<Longrightarrow>
    parse_value n (json_dumps v @ t) = Some (v, t)"
  by (simp add: reads_back_def)

lemma parse_items_back:
  assumes "\<forall>x \<in> set (x # xs). plain_json x \<and> reads_back x"
    and "length (join_with '', '' (map json_dumps (x # xs))) + 1 < n"
  shows "parse_items n acc (join_with '', '' (map json_dumps (x # xs)) @ CHR '']'' # t)
           = Some (JList (rev acc @ x # xs), t)"
  using assms
proof (induction xs arbitrary: x n acc)
  case Nil
  then obtain m where m: "n = Suc m" "length (json_dumps x) < m" by (cases n) auto
  have "parse_value m (json_dumps x @ CHR '']'' # t) = Some (x, CHR '']'' # t)"
    using Nil.prems(1) m(2) by (intro reads_backD) (simp_all add: closing_Cons)
  then show ?case by (simp add: m(1) skip_ws_close)
next
  case (Cons y ys)
  let ?rest = "join_with '', '' (map json_dumps (y # ys)) @ CHR '']'' # t"
  obtain m where m: "n = Suc m" "length (json_dumps x) < m" using Cons.prems(2) by (cases n) auto
  have str: "join_with '', '' (map json_dumps (x # y # ys)) @ CHR '']'' # t
      = json_dumps x @ CHR '','' # CHR '' '' # ?rest" by simp
  have "parse_value m (json_dumps x @ CHR '','' # CHR '' '' # ?rest) = Some (x, CHR '','' # CHR '' '' # ?rest)"
    using Cons.prems(1) m(2) by (intro reads_backD) (simp_all add: closing_Cons)
  moreover have "skip_ws (CHR '' '' # ?rest) = ?rest"
  proof -
    obtain c cs where "json_dumps y = c # cs" "starts_value c"
      using dumps_starts [of y] Cons.prems(1) by auto
    then show ?thesis by (cases ys) (simp_all add: skip_ws_space skip_ws_value)
  qed
  moreover have "parse_items m (x # acc) ?rest = Some (JList (rev (x # acc) @ y # ys), t)"
    using Cons.prems m by (intro Cons.IH) auto
  ultimately show ?case unfolding str m(1) by (simp add: skip_ws_close)
qed

abbreviation member_text :: "string \<times> jv \<Rightarrow> string" where
  "member_text \<equiv> \<lambda>(k, v). json_str k @ '': '' @ json_dumps v"

lemma parse_members_back:
  assumes "\<forall>p \<in> set (p # d). plain_json (snd p) \<and> reads_back (snd p)" "dwf (acc @ p # d)"
    and "length (join_with '', '' (map member_text (p # d))) + 1 < n"
  shows "parse_members n acc (join_with '', '' (map member_text (p # d)) @ CHR ''}'' # t)
           = Some (JDict (acc @ p # d), t)"
  using assms
proof (induction d arbitrary: p n acc)
  case Nil
  obtain k v where p: "p = (k, v)" by fastforce
  obtain c cs where c: "json_dumps v = c # cs" "starts_value c"
    using dumps_starts [of v] Nil.prems(1) p by auto
  obtain m where m: "n = Suc m" "length (json_dumps v) < m" using Nil.prems(3) p by (cases n) (auto simp: json_str_def)
  have "parse_value m (json_dumps v @ CHR ''}'' # t) = Some (v, CHR ''}'' # t)"
    using Nil.prems(1) m(2) p by (intro reads_backD) (simp_all add: closing_Cons)
  moreover have "k \<notin> set (dkeys acc)" using Nil.prems(2) p by (auto simp: dwf_def dkeys_def)
  ultimately show ?case
    using c by (simp add: p m(1) json_str_def fixed_starts parse_json_string skip_ws_close skip_ws_space
        skip_ws_value dset_new del: parse_chars.simps)
next
  case (Cons q d)
  obtain k v where p: "p = (k, v)" by fastforce
  let ?rest = "join_with '', '' (map member_text (q # d)) @ CHR ''}'' # t"
  obtain c cs where c: "json_dumps v = c # cs" "starts_value c"
    using dumps_starts [of v] Cons.prems(1) p by auto
  obtain m where m: "n = Suc m" "length (json_dumps v) < m" using Cons.prems(3) p by (cases n) (auto simp: json_str_def)
  have str: "join_with '', '' (map member_text (p # q # d)) @ CHR ''}'' # t
      = json_str k @ CHR '':'' # CHR '' '' # json_dumps v @ CHR '','' # CHR '' '' # ?rest" by (simp add: p)
  have "parse_value m (json_dumps v @ CHR '','' # CHR '' '' # ?rest) = Some (v, CHR '','' # CHR '' '' # ?rest)"
    using Cons.prems(1) m(2) p by (intro reads_backD) (simp_all add: closing_Cons)
  moreover have "k \<notin> set (dkeys acc)" using Cons.prems(2) p by (auto simp: dwf_def dkeys_def)
  moreover have "skip_ws (CHR '' '' # ?rest) = ?rest"
    by (cases q; cases d) (simp_all add: json_str_def skip_ws_space skip_ws_value fixed_starts)
  moreover have "parse_members m (acc @ [p]) ?rest = Some (JDict ((acc @ [p]) @ q # d), t)"
    using Cons.prems m by (intro Cons.IH) auto
  ultimately show ?case
    unfolding str m(1)
    using c by (simp add: p json_str_def fixed_starts parse_json_string skip_ws_close skip_ws_space
        skip_ws_value dset_new del: parse_chars.simps)
qed

lemma dumps_reads_back: "plain_json v \<Longrightarrow> reads_back v"
proof (induction v)
  case (JInt i)
  show ?case
    unfolding reads_back_def
  proof (intro allI impI)
    fix n t assume n: "length (json_dumps (JInt i)) < n" and t: "closing t"
    obtain m where m: "n = Suc m" using n by (cases n) auto
    show "parse_value n (json_dumps (JInt i) @ t) = Some (JInt i, t)"
    proof (cases "i < 0")
      case True
      then have "parse_number (CHR ''-'' # digits_str (- i) @ t) = Some (JInt i, t)"
        using parse_digits(2) [of "- i" t] t by simp
      with True m show ?thesis by (simp add: int_str_def fixed_starts)
    next
      case False
      obtain d ds where d: "digits_str i = d # ds" "is_digit d" using digits_str_no_minus [of i] False by auto
      have "parse_number (digits_str i @ t) = Some (JInt i, t)"
        using parse_digits(1) [of i t] t False by simp
      with False m d digit_starts [OF d(2)] show ?thesis
        by (auto simp: int_str_def)
    qed
  qed
next
  case (JBool b)
  show ?case unfolding reads_back_def
    by (intro allI impI, rename_tac n t, case_tac n) (simp_all add: fixed_starts)
next
  case JNull
  show ?case unfolding reads_back_def
    by (intro allI impI, rename_tac n t, case_tac n) (simp_all add: fixed_starts)
next
  case (JStr s)
  show ?case unfolding reads_back_def
    by (intro allI impI, rename_tac n t, case_tac n)
      (simp_all add: fixed_starts json_str_def parse_json_string del: parse_chars.simps)
next
  case (JList xs)
  show ?case
  proof (cases xs)
    case Nil
    show ?thesis unfolding reads_back_def Nil
      by (intro allI impI, rename_tac n t, case_tac n) (simp_all add: fixed_starts skip_ws_close)
  next
    case (Cons x ys)
    have all: "\<forall>y \<in> set (x # ys). plain_json y \<and> reads_back y"
      using JList Cons by (auto simp: list_all_iff)
    obtain c cs where c: "json_dumps x = c # cs" "starts_value c"
      using dumps_starts [of x] all by auto
    have "skip_ws (join_with '', '' (map json_dumps (x # ys)) @ r) = join_with '', '' (map json_dumps (x # ys)) @ r
        \<and> \<not> starts_with (join_with '', '' (map json_dumps (x # ys)) @ r) '']''" for r
      using c by (cases ys) (simp_all add: skip_ws_value, simp_all add: starts_value_def)
    note start = this
    show ?thesis unfolding reads_back_def Cons
    proof (intro allI impI)
      fix n t assume n: "length (json_dumps (JList (x # ys))) < n"
      then obtain m where m: "n = Suc m" by (cases n) auto
      then have "length (join_with '', '' (map json_dumps (x # ys))) + 1 < m" using n by simp
      from parse_items_back [OF all this, of "[]" t] start [of "CHR '']'' # t"] show
        "parse_value n (json_dumps (JList (x # ys)) @ t) = Some (JList (x # ys), t)"
        by (simp add: m fixed_starts)
    qed
  qed
next
  case (JDict d)
  show ?case
  proof (cases d)
    case Nil
    show ?thesis unfolding reads_back_def Nil
      by (intro allI impI, rename_tac n t, case_tac n) (simp_all add: fixed_starts skip_ws_close)
  next
    case (Cons p ps)
    have all: "\<forall>q \<in> set (p # ps). plain_json (snd q) \<and> reads_back (snd q)"
    proof
      fix q assume q: "q \<in> set (p # ps)"
      then have "plain_json (snd q)" using JDict.prems Cons by (auto simp: list_all_iff)
      moreover from this have "reads_back (snd q)"
        using q Cons by (cases q) (intro JDict.IH [of q "snd q"], auto)
      ultimately show "plain_json (snd q) \<and> reads_back (snd q)" ..
    qed
    have wf: "dwf ([] @ p # ps)" using JDict.prems Cons by simp
    have start: "skip_ws (join_with '', '' (map member_text (p # ps)) @ r) = join_with '', '' (map member_text (p # ps)) @ r
        \<and> \<not> starts_with (join_with '', '' (map member_text (p # ps)) @ r) ''}''" for r
      by (cases p; cases ps) (simp_all add: json_str_def skip_ws_value fixed_starts, use fixed_starts in \<open>auto simp: starts_value_def\<close>)
    show ?thesis unfolding reads_back_def Cons
    proof (intro allI impI)
      fix n t assume n: "length (json_dumps (JDict (p # ps))) < n"
      then obtain m where m: "n = Suc m" by (cases n) auto
      then have "length (join_with '', '' (map member_text (p # ps))) + 1 < m" using n by simp
      from parse_members_back [OF all wf this, of t] start [of "CHR ''}'' # t"] show
        "parse_value n (json_dumps (JDict (p # ps)) @ t) = Some (JDict (p # ps), t)"
        by (simp add: m fixed_starts)
    qed
  qed
qed simp

text \<open>
  What is written as JSON is read back unchanged. For every value without floats whose objects
  have distinct keys (evidence, recipes, checkpoints are such dicts), parsing the printed text gives
  the value; in particular the fuel of the parser is always enough for a printed value, and the text
  determines the value.
\<close>

theorem json_roundtrip:
  assumes "plain_json v"
  shows "json_loads (json_dumps v) = Some v"
proof -
  obtain c cs where c: "json_dumps v = c # cs" "starts_value c"
    using dumps_starts [OF assms] by blast
  then have ws: "skip_ws (json_dumps v) = json_dumps v" by (simp add: skip_ws_value)
  have "parse_value (2 * length (json_dumps v) + 2) (json_dumps v @ []) = Some (v, [])"
    by (rule reads_backD [OF dumps_reads_back [OF assms]]) (simp_all add: closing_def)
  then show ?thesis using ws by (simp add: json_loads_def Let_def skip_ws_def)
qed

theorem json_roundtrip_witness:
  "json_loads (json_dumps (JDict [(''a b'', JList [JInt (- 12), JStr ''\"x\"'', JNull]), (''c'', JBool True)]))
     = Some (JDict [(''a b'', JList [JInt (- 12), JStr ''\"x\"'', JNull]), (''c'', JBool True)])"
  by (rule json_roundtrip) code_simp

end
