(* ===== verification/Normalize.thy ===== *)
theory Normalize
  imports Netguard Regex Json_Roundtrip Enums
begin

text \<open>
  \<open>app/discovery/normalize.py\<close>: discovered endpoints, their fingerprints and surface signatures,
  and the merge of endpoints found by several sources. The hash (the hexadecimal SHA-1 of a text) is a parameter.
\<close>

fun PROVENANCE_CONFIDENCE :: "provenance \<Rightarrow> rat" where
  "PROVENANCE_CONFIDENCE OPENAPI = 19 / 20"
| "PROVENANCE_CONFIDENCE GRAPHQL = 9 / 10"
| "PROVENANCE_CONFIDENCE POSTMAN = 17 / 20"
| "PROVENANCE_CONFIDENCE HAR = 4 / 5"
| "PROVENANCE_CONFIDENCE TRAFFIC = 3 / 4"
| "PROVENANCE_CONFIDENCE CRAWL = 11 / 20"
| "PROVENANCE_CONFIDENCE MANUAL = 7 / 10"

definition ID_SEGMENT :: rx where
  "ID_SEGMENT = seqs [Bol, alts [plus1 digit_rx, at_least 8 (Cls hex_char), at_least 16 (one_of ''0123456789abcdef-'')], Eol]"

definition template_segment :: "string \<Rightarrow> string" where
  "template_segment seg = (if seg = [] then seg else if rx_match_start ID_SEGMENT seg \<noteq> None then ''{id}'' else seg)"

definition templatize_path :: "string \<Rightarrow> string" where
  "templatize_path path =
     (let joined = join_with ''/'' (map template_segment (split_char (CHR ''/'') path))
      in if joined = [] then ''/'' else joined)"

record discovered_endpoint =
  de_method :: string
  de_url :: string
  de_provenance :: provenance
  de_path_template :: string
  de_parameters :: "dict list"
  de_request_body_schema :: dict
  de_auth_required :: bool
  de_roles :: "string list"
  de_api_version :: string
  de_confidence :: rat

definition version_rx :: rx where
  "version_rx = seqs [lit ''/'', Grp 1 (seqs [lit ''v'', plus1 digit_rx, opt (seqs [lit ''.'', plus1 digit_rx])]),
     Alt (lit ''/'') Eol]"

definition infer_version :: "string \<Rightarrow> string" where
  "infer_version path = (case rx_search version_rx path of None \<Rightarrow> []
     | Some m \<Rightarrow> (case rx_group m 1 of None \<Rightarrow> [] | Some g \<Rightarrow> g))"

definition or_slash :: "string \<Rightarrow> string" where
  "or_slash p = (if p = [] then ''/'' else p)"

text \<open>\<open>__post_init__\<close>: what a new endpoint is completed to. The URL is only split where it is needed.\<close>

definition new_endpoint :: "discovered_endpoint \<Rightarrow> exn + discovered_endpoint" where
  "new_endpoint e =
     (let e1 = e\<lparr>de_method := str_upper (if de_method e = [] then ''GET'' else de_method e)\<rparr>
      in sum_bind (if de_path_template e1 \<noteq> [] then Inr e1
            else sum_bind (urlsplit (de_url e1)) (\<lambda>u.
              Inr (e1\<lparr>de_path_template := templatize_path (or_slash (u_path u))\<rparr>))) (\<lambda>e2.
         sum_bind (if de_api_version e2 \<noteq> [] then Inr e2
            else sum_bind (urlsplit (de_url e2)) (\<lambda>u. Inr (e2\<lparr>de_api_version := infer_version (u_path u)\<rparr>))) (\<lambda>e3.
         Inr (if de_confidence e3 = 1 / 2
              then e3\<lparr>de_confidence := PROVENANCE_CONFIDENCE (de_provenance e3)\<rparr> else e3))))"

definition plain_endpoint :: "string \<Rightarrow> string \<Rightarrow> provenance \<Rightarrow> dict list \<Rightarrow> discovered_endpoint" where
  "plain_endpoint method url prov params =
     \<lparr>de_method = method, de_url = url, de_provenance = prov, de_path_template = [], de_parameters = params,
      de_request_body_schema = [], de_auth_required = False, de_roles = [], de_api_version = [],
      de_confidence = 1 / 2\<rparr>"

definition fingerprint_key :: "string \<Rightarrow> string \<Rightarrow> string \<Rightarrow> exn + string" where
  "fingerprint_key method url path_template =
     sum_bind (urlsplit url) (\<lambda>u.
     sum_bind (url_port u) (\<lambda>p.
       let host = str_lower (url_hostname u);
           port = (case p of Some n \<Rightarrow> if n \<noteq> 0 then n else (if u_scheme u = ''https'' then 443 else 80)
                   | None \<Rightarrow> (if u_scheme u = ''https'' then 443 else 80));
           tmpl = (if path_template \<noteq> [] then path_template else templatize_path (or_slash (u_path u)))
       in Inr (str_upper method @ '' '' @ host @ '':'' @ int_str port @ tmpl)))"

definition endpoint_fingerprint :: "(string \<Rightarrow> string) \<Rightarrow> string \<Rightarrow> string \<Rightarrow> string \<Rightarrow> exn + string" where
  "endpoint_fingerprint sha1 method url path_template =
     sum_bind (fingerprint_key method url path_template) (\<lambda>key. Inr (sha1 key))"

definition fingerprint :: "(string \<Rightarrow> string) \<Rightarrow> discovered_endpoint \<Rightarrow> exn + string" where
  "fingerprint sha1 e = endpoint_fingerprint sha1 (de_method e) (de_url e) (de_path_template e)"

text \<open>\<open>json.dumps(v, sort_keys=True, separators=(",", ":"))\<close>.\<close>

fun json_compact :: "jv \<Rightarrow> string" where
  "json_compact (JList xs) = ''['' @ join_with '','' (map json_compact xs) @ '']''"
| "json_compact (JDict d) =
     ''{'' @ join_with '','' (map (\<lambda>(k, s). json_str k @ '':'' @ s)
       (sort_key fst (map (\<lambda>(k, v). (k, json_compact v)) d))) @ ''}''"
| "json_compact v = json_dumps v"

definition named_text :: "dict \<Rightarrow> string \<Rightarrow> string \<Rightarrow> string" where
  "named_text p k dflt = str_lower (if truthy (jget p k) then jstr (jget p k) else dflt)"

definition surface_params :: "dict list \<Rightarrow> string list" where
  "surface_params ps = sort (map (\<lambda>p. named_text p ''name'' [] @ '':'' @ named_text p ''in'' ''query'')
     (filter (\<lambda>p. truthy (jget p ''name'')) ps))"

definition surface_roles :: "string list \<Rightarrow> string list" where
  "surface_roles roles = sort (filter (\<lambda>r. r \<noteq> []) roles)"

definition surface_payload :: "string \<Rightarrow> string list \<Rightarrow> bool \<Rightarrow> string list \<Rightarrow> string list \<Rightarrow> string \<Rightarrow> jv" where
  "surface_payload fp params auth roles body version =
     JDict [(''fp'', JStr fp), (''params'', JList (map JStr params)), (''auth'', JBool auth),
       (''roles'', JList (map JStr roles)), (''body'', JList (map JStr body)), (''api_version'', JStr version)]"

definition endpoint_surface_signature ::
  "(string \<Rightarrow> string) \<Rightarrow> string \<Rightarrow> string \<Rightarrow> string \<Rightarrow> dict list \<Rightarrow> bool \<Rightarrow> string list \<Rightarrow> dict \<Rightarrow> string \<Rightarrow> exn + string" where
  "endpoint_surface_signature sha1 method url path_template parameters auth_required roles body_schema version =
     sum_bind (endpoint_fingerprint sha1 method url path_template) (\<lambda>fp.
       Inr (sha1 (json_compact (surface_payload fp (surface_params parameters) auth_required
         (surface_roles roles) (sort (dkeys body_schema)) version))))"

section \<open>What the signature covers\<close>

text \<open>The printed form of a string ends where its closing quote stands, so a printed list of strings can be read back.\<close>

lemma json_str_cancel:
  assumes "json_str a @ t = json_str b @ t'"
  shows "a = b \<and> t = t'"
proof -
  have "concat (map json_char a) @ chr 34 # t = concat (map json_char b) @ chr 34 # t'"
    using assms by (simp add: json_str_def)
  then have "parse_chars [] (concat (map json_char a) @ chr 34 # t) = parse_chars [] (concat (map json_char b) @ chr 34 # t')"
    by (rule arg_cong)
  then show ?thesis unfolding parse_json_string by simp
qed

lemma json_strs_Cons:
  "join_with '','' (map json_str (z # zs)) @ CHR '']'' # r =
     json_str z @ (if zs = [] then [] else CHR '','' # join_with '','' (map json_str zs)) @ CHR '']'' # r"
  by (cases zs) simp_all

lemma json_strs_ne: "join_with '','' (map json_str (z # zs)) @ CHR '']'' # r \<noteq> CHR '']'' # r'"
proof -
  have "chr 34 \<noteq> CHR '']''" by code_simp
  then show ?thesis unfolding json_strs_Cons by (simp add: json_str_def)
qed

lemma json_strs_cancel:
  "join_with '','' (map json_str xs) @ CHR '']'' # t = join_with '','' (map json_str ys) @ CHR '']'' # t'
     \<Longrightarrow> xs = ys \<and> t = t'"
proof (induction xs arbitrary: ys)
  case Nil
  then show ?case
    using json_strs_ne [of _ _ t' t] by (cases ys) (simp, metis append_Nil join_with.simps(1) list.simps(8))
next
  case (Cons x xs)
  then obtain y ys' where ys: "ys = y # ys'"
    using json_strs_ne [of x xs t t'] by (cases ys) auto
  have "x = y \<and> (if xs = [] then [] else CHR '','' # join_with '','' (map json_str xs)) @ CHR '']'' # t
      = (if ys' = [] then [] else CHR '','' # join_with '','' (map json_str ys')) @ CHR '']'' # t'"
    using Cons.prems unfolding ys json_strs_Cons by (rule json_str_cancel)
  with Cons.IH [of ys'] ys show ?case by (auto split: if_splits)
qed

lemma surface_text:
  "json_compact (surface_payload fp ps auth rs body ver) =
     CHR ''{'' # json_str ''api_version'' @ '':'' @ json_str ver @ '','' @ json_str ''auth'' @ '':'' @
     (if auth then ''true'' else ''false'') @ '','' @ json_str ''body'' @ '':['' @ join_with '','' (map json_str body) @ ''],'' @
     json_str ''fp'' @ '':'' @ json_str fp @ '','' @ json_str ''params'' @ '':['' @ join_with '','' (map json_str ps) @ ''],'' @
     json_str ''roles'' @ '':['' @ join_with '','' (map json_str rs) @ '']}''"
proof -
  have "sort_key fst [(''fp'', a::string), (''params'', b), (''auth'', c), (''roles'', d), (''body'', e), (''api_version'', f)]
      = [(''api_version'', f), (''auth'', c), (''body'', e), (''fp'', a), (''params'', b), (''roles'', d)]" for a b c d e f
    by code_simp
  then show ?thesis
    by (simp add: surface_payload_def comp_def del: sort_key_simps)
qed

lemma surface_text_inj:
  assumes "json_compact (surface_payload fp ps auth rs body ver) = json_compact (surface_payload fp' ps' auth' rs' body' ver')"
  shows "fp = fp' \<and> ps = ps' \<and> auth = auth' \<and> rs = rs' \<and> body = body' \<and> ver = ver'"
proof -
  have ver: "ver = ver'"
    using assms unfolding surface_text by (auto dest: json_str_cancel)
  have auth: "auth = auth'"
    using assms unfolding surface_text ver by (auto split: if_splits)
  have body: "body = body' \<and> json_str fp @ '','' @ json_str ''params'' @ '':['' @ join_with '','' (map json_str ps) @ ''],'' @
     json_str ''roles'' @ '':['' @ join_with '','' (map json_str rs) @ '']}'' = json_str fp' @ '','' @ json_str ''params'' @ '':['' @ join_with '','' (map json_str ps') @ ''],'' @
     json_str ''roles'' @ '':['' @ join_with '','' (map json_str rs') @ '']}''"
    using assms unfolding surface_text ver auth by (auto dest!: json_strs_cancel)
  then have fp: "fp = fp' \<and> join_with '','' (map json_str ps) @ ''],'' @
     json_str ''roles'' @ '':['' @ join_with '','' (map json_str rs) @ '']}'' = join_with '','' (map json_str ps') @ ''],'' @
     json_str ''roles'' @ '':['' @ join_with '','' (map json_str rs') @ '']}''"
    by (auto dest!: json_str_cancel)
  then have ps: "ps = ps' \<and> join_with '','' (map json_str rs) @ '']}'' = join_with '','' (map json_str rs') @ '']}''"
    by (auto dest!: json_strs_cancel)
  then have "rs = rs'" using json_strs_cancel [of rs "''}''" rs' "''}''"] by simp
  then show ?thesis using ver auth body fp ps by simp
qed



section \<open>Merging\<close>

definition param_key :: "dict \<Rightarrow> exn + (jv \<times> jv)" where
  "param_key p = (case dget p ''name'' of
     None \<Rightarrow> Inl (OtherError (''KeyError: '' @ py_repr ''name''))
   | Some n \<Rightarrow> Inr (n, jget_or p ''in'' (JStr ''query'')))"

definition key_params :: "dict list \<Rightarrow> exn + ((jv \<times> jv) \<times> dict) list" where
  "key_params ps = mapM_sum (\<lambda>p. sum_bind (param_key p) (\<lambda>k. Inr (k, p))) ps"

definition union_params :: "dict list \<Rightarrow> dict list \<Rightarrow> exn + dict list" where
  "union_params base other =
     sum_bind (key_params base) (\<lambda>bs.
     sum_bind (key_params other) (\<lambda>os.
       Inr (map snd (foldl (\<lambda>d (k, p). dsetdefault d k p) (foldl (\<lambda>d (k, p). dset d k p) [] bs) os))))"

definition merge_two :: "discovered_endpoint \<Rightarrow> discovered_endpoint \<Rightarrow> exn + discovered_endpoint" where
  "merge_two existing ep =
     (let keep = de_confidence existing \<ge> de_confidence ep;
          base = (if keep then existing else ep);
          other = (if keep then ep else existing)
      in sum_bind (union_params (de_parameters base) (de_parameters other)) (\<lambda>ps.
         Inr (base\<lparr>de_parameters := ps,
           de_auth_required := de_auth_required base \<or> de_auth_required other,
           de_roles := sorted_set (de_roles base @ de_roles other),
           de_request_body_schema :=
             (if de_request_body_schema base = [] \<and> de_request_body_schema other \<noteq> []
              then de_request_body_schema other else de_request_body_schema base)\<rparr>)))"

definition merge_step ::
  "(string \<Rightarrow> string) \<Rightarrow> (string \<times> discovered_endpoint) list \<Rightarrow> discovered_endpoint
     \<Rightarrow> exn + (string \<times> discovered_endpoint) list" where
  "merge_step sha1 by_fp ep =
     sum_bind (fingerprint sha1 ep) (\<lambda>fp.
     case dget by_fp fp of
       None \<Rightarrow> Inr (dset by_fp fp ep)
     | Some existing \<Rightarrow> sum_bind (merge_two existing ep) (\<lambda>base. Inr (dset by_fp fp base)))"

definition merge_endpoints ::
  "(string \<Rightarrow> string) \<Rightarrow> discovered_endpoint list \<Rightarrow> exn + discovered_endpoint list" where
  "merge_endpoints sha1 eps = sum_bind (foldM_sum (merge_step sha1) [] eps) (\<lambda>by_fp. Inr (map snd by_fp))"

section \<open>What a merge keeps\<close>

definition pkey :: "dict \<Rightarrow> jv \<times> jv" where
  "pkey p = (jget p ''name'', jget_or p ''in'' (JStr ''query''))"

definition pkeys :: "discovered_endpoint \<Rightarrow> (jv \<times> jv) set" where
  "pkeys e = pkey ` set (de_parameters e)"

lemma param_key_Inr: "param_key p = Inr k \<Longrightarrow> k = pkey p"
  by (auto simp: param_key_def pkey_def jget_def split: option.splits)

lemma key_params_Inr: "key_params ps = Inr kps \<Longrightarrow> kps = map (\<lambda>p. (pkey p, p)) ps"
  unfolding key_params_def mapM_sum_Inr
  by (induction rule: list_all2_induct) (auto simp: sum_bind_Inr dest: param_key_Inr)

text \<open>A dict whose entries stand under the key of their own parameter.\<close>

definition own_keys :: "((jv \<times> jv) \<times> dict) list \<Rightarrow> bool" where
  "own_keys d \<longleftrightarrow> (\<forall>(k, p) \<in> set d. k = pkey p)"

lemma own_keys_dset: "own_keys d \<Longrightarrow> own_keys (dset d (pkey p) p)"
  by (auto simp: own_keys_def dest: dset_mem)

lemma own_keys_setdefault: "own_keys d \<Longrightarrow> own_keys (dsetdefault d (pkey p) p)"
  by (auto simp: own_keys_def dsetdefault_def)

lemma dkeys_dsetdefault:
  "dkeys (dsetdefault d k v) = (if k \<in> set (dkeys d) then dkeys d else dkeys d @ [k])"
  using dget_in_keys [of d k] by (auto simp: dsetdefault_def dkeys_def)

lemma own_keys_values: "own_keys d \<Longrightarrow> pkey ` set (map snd d) = set (dkeys d)"
  by (force simp: own_keys_def dkeys_def)

lemma base_fold:
  "own_keys d \<Longrightarrow> own_keys (foldl (\<lambda>d (k, p). dset d k p) d (map (\<lambda>p. (pkey p, p)) ps)) \<and>
     set (dkeys (foldl (\<lambda>d (k, p). dset d k p) d (map (\<lambda>p. (pkey p, p)) ps))) = set (dkeys d) \<union> pkey ` set ps"
  by (induction ps arbitrary: d) (auto simp: own_keys_dset dkeys_dset)

lemma other_fold:
  "own_keys d \<Longrightarrow> own_keys (foldl (\<lambda>d (k, p). dsetdefault d k p) d (map (\<lambda>p. (pkey p, p)) ps)) \<and>
     set (dkeys (foldl (\<lambda>d (k, p). dsetdefault d k p) d (map (\<lambda>p. (pkey p, p)) ps))) = set (dkeys d) \<union> pkey ` set ps"
  by (induction ps arbitrary: d) (auto simp: own_keys_setdefault dkeys_dsetdefault)

lemma union_params_keys:
  assumes "union_params base other = Inr ps"
  shows "pkey ` set ps = pkey ` set base \<union> pkey ` set other"
proof -
  let ?b = "foldl (\<lambda>d (k, p). dset d k p) [] (map (\<lambda>p. (pkey p, p)) base)"
  let ?o = "foldl (\<lambda>d (k, p). dsetdefault d k p) ?b (map (\<lambda>p. (pkey p, p)) other)"
  have ps: "ps = map snd ?o"
    using assms by (auto simp: union_params_def sum_bind_Inr dest!: key_params_Inr)
  have b: "own_keys ?b" "set (dkeys ?b) = pkey ` set base"
    using base_fold [of "[]" base] by (simp_all add: own_keys_def dkeys_def)
  have "own_keys ?o" "set (dkeys ?o) = pkey ` set base \<union> pkey ` set other"
    using other_fold [OF b(1), of other] b(2) by simp_all
  then show ?thesis unfolding ps by (simp add: own_keys_values del: set_map)
qed

text \<open>What a merged endpoint holds of the endpoints merged into it.\<close>

definition holds_all :: "discovered_endpoint list \<Rightarrow> discovered_endpoint \<Rightarrow> bool" where
  "holds_all es m \<longleftrightarrow>
     pkeys m = (\<Union>e \<in> set es. pkeys e) \<and> set (de_roles m) = (\<Union>e \<in> set es. set (de_roles e)) \<and>
     (de_auth_required m \<longleftrightarrow> (\<exists>e \<in> set es. de_auth_required e)) \<and>
     (\<exists>e \<in> set es. de_confidence m = de_confidence e \<and> de_provenance m = de_provenance e) \<and>
     (\<forall>e \<in> set es. de_confidence e \<le> de_confidence m)"

lemma holds_all_single: "holds_all [e] e"
  by (simp add: holds_all_def)

lemma merge_two_holds:
  assumes "merge_two a b = Inr m" "holds_all es a"
  shows "holds_all (es @ [b]) m"
proof (cases "de_confidence b \<le> de_confidence a")
  case True
  with assms(1) obtain ps where "union_params (de_parameters a) (de_parameters b) = Inr ps"
    "de_parameters m = ps" "de_auth_required m = (de_auth_required a \<or> de_auth_required b)"
    "set (de_roles m) = set (de_roles a) \<union> set (de_roles b)" "de_confidence m = de_confidence a"
    "de_provenance m = de_provenance a"
    by (auto simp: merge_two_def Let_def sum_bind_Inr)
  with assms(2) True union_params_keys [of "de_parameters a" "de_parameters b"] show ?thesis
    by (auto simp: holds_all_def pkeys_def)
next
  case False
  with assms(1) obtain ps where "union_params (de_parameters b) (de_parameters a) = Inr ps"
    "de_parameters m = ps" "de_auth_required m = (de_auth_required b \<or> de_auth_required a)"
    "set (de_roles m) = set (de_roles b) \<union> set (de_roles a)" "de_confidence m = de_confidence b"
    "de_provenance m = de_provenance b"
    by (auto simp: merge_two_def Let_def sum_bind_Inr)
  with assms(2) False union_params_keys [of "de_parameters b" "de_parameters a"] show ?thesis
    by (auto simp: holds_all_def pkeys_def)
qed

lemma merge_two_fingerprint:
  "merge_two a b = Inr m \<Longrightarrow> fingerprint sha1 a = fp \<Longrightarrow> fingerprint sha1 b = fp \<Longrightarrow> fingerprint sha1 m = fp"
  by (auto simp: merge_two_def Let_def sum_bind_Inr fingerprint_def)

definition same_fp :: "(string \<Rightarrow> string) \<Rightarrow> discovered_endpoint list \<Rightarrow> string \<Rightarrow> discovered_endpoint list" where
  "same_fp sha1 es fp = filter (\<lambda>e. fingerprint sha1 e = Inr fp) es"

definition merge_inv ::
  "(string \<Rightarrow> string) \<Rightarrow> discovered_endpoint list \<Rightarrow> (string \<times> discovered_endpoint) list \<Rightarrow> bool" where
  "merge_inv sha1 es by_fp \<longleftrightarrow> dwf by_fp \<and>
     Inr ` set (dkeys by_fp) = fingerprint sha1 ` set es \<and>
     (\<forall>fp m. dget by_fp fp = Some m \<longrightarrow> fingerprint sha1 m = Inr fp \<and> holds_all (same_fp sha1 es fp) m)"

lemma merge_inv_step:
  assumes inv: "merge_inv sha1 es by_fp" and step: "merge_step sha1 by_fp e = Inr by_fp'"
  shows "merge_inv sha1 (es @ [e]) by_fp'"
proof -
  obtain fp where fp: "fingerprint sha1 e = Inr fp"
    using step by (auto simp: merge_step_def sum_bind_Inr)
  obtain m where m: "by_fp' = dset by_fp fp m" "fingerprint sha1 m = Inr fp"
    "holds_all (same_fp sha1 (es @ [e]) fp) m"
  proof (cases "dget by_fp fp")
    case None
    then have "fp \<notin> set (dkeys by_fp)" by (metis dget_in_keys)
    then have "Inr fp \<notin> fingerprint sha1 ` set es"
      using inv unfolding merge_inv_def by (metis (no_types) image_iff sum.inject(2))
    then have "same_fp sha1 (es @ [e]) fp = [e]"
      using fp by (auto simp: same_fp_def filter_empty_conv image_iff)
    with that [of e] None fp step show thesis
      by (simp add: merge_step_def holds_all_single)
  next
    case (Some old)
    with inv have old: "fingerprint sha1 old = Inr fp" "holds_all (same_fp sha1 es fp) old"
      by (auto simp: merge_inv_def)
    obtain m where m: "merge_two old e = Inr m" "by_fp' = dset by_fp fp m"
      using step Some fp by (auto simp: merge_step_def sum_bind_Inr)
    have "same_fp sha1 (es @ [e]) fp = same_fp sha1 es fp @ [e]" by (simp add: same_fp_def fp)
    with that [OF m(2) merge_two_fingerprint [OF m(1) old(1) fp]] merge_two_holds [OF m(1) old(2)]
    show thesis by simp
  qed
  have other: "fp' \<noteq> fp \<Longrightarrow> same_fp sha1 (es @ [e]) fp' = same_fp sha1 es fp'" for fp'
    by (simp add: same_fp_def fp)
  have "dwf by_fp'" using inv py_dict.wf_assign m(1) by (auto simp: merge_inv_def)
  moreover have "Inr ` set (dkeys by_fp') = fingerprint sha1 ` set (es @ [e])"
    using inv m(1) fp by (auto simp: merge_inv_def dkeys_dset)
  moreover have "\<forall>fp' m'. dget by_fp' fp' = Some m' \<longrightarrow>
      fingerprint sha1 m' = Inr fp' \<and> holds_all (same_fp sha1 (es @ [e]) fp') m'"
    using inv m other by (simp add: dget_dset merge_inv_def)
  ultimately show ?thesis unfolding merge_inv_def by blast
qed

lemma merge_inv_all: "foldM_sum (merge_step sha1) [] es = Inr by_fp \<Longrightarrow> merge_inv sha1 es by_fp"
  by (erule foldM_sum_invariant [where P = "merge_inv sha1"])
    (simp_all add: merge_inv_step, simp add: merge_inv_def dwf_def dkeys_def)

text \<open>
  C22: merging loses no endpoint and no parameter. The result has one endpoint for every fingerprint
  of the input and no two with the same; each carries exactly the parameters (by name and place) and
  the roles of all endpoints with its fingerprint, requires authentication if one of them does, and
  has the highest confidence among them together with the provenance it came with.
\<close>

theorem merge_consolidates:
  assumes "merge_endpoints sha1 eps = Inr out"
  shows "distinct (map (fingerprint sha1) out) \<and> fingerprint sha1 ` set out = fingerprint sha1 ` set eps \<and>
     (\<forall>m \<in> set out. \<exists>fp. fingerprint sha1 m = Inr fp \<and> holds_all (same_fp sha1 eps fp) m)"
proof -
  obtain by_fp where f: "foldM_sum (merge_step sha1) [] eps = Inr by_fp" and out: "out = map snd by_fp"
    using assms by (auto simp: merge_endpoints_def sum_bind_Inr)
  note inv = merge_inv_all [OF f]
  have each: "(fp, m) \<in> set by_fp \<Longrightarrow> fingerprint sha1 m = Inr fp \<and> holds_all (same_fp sha1 eps fp) m" for fp m
    using inv by (simp add: merge_inv_def dwf_def dkeys_def dget_def map_of_is_SomeI)
  then have "map (fingerprint sha1) out = map Inr (dkeys by_fp)"
    unfolding out dkeys_def by auto
  moreover have "distinct (map Inr (dkeys by_fp) :: (exn + string) list)"
    using inv by (simp add: merge_inv_def dwf_def distinct_map)
  moreover have "Inr ` set (dkeys by_fp) = fingerprint sha1 ` set eps"
    using inv by (simp add: merge_inv_def)
  ultimately have "distinct (map (fingerprint sha1) out)" "fingerprint sha1 ` set out = fingerprint sha1 ` set eps"
    by (simp_all flip: set_map)
  with each out show ?thesis by fastforce
qed

definition demo_endpoints :: "discovered_endpoint list" where
  "demo_endpoints = [(plain_endpoint ''GET'' ''http://h/a'' CRAWL [[(''name'', JStr ''x'')]])\<lparr>de_path_template := ''/a''\<rparr>,
     (plain_endpoint ''GET'' ''http://h/a'' OPENAPI [[(''name'', JStr ''y'')]])\<lparr>de_path_template := ''/a'', de_confidence := 19 / 20\<rparr>]"

theorem merge_consolidates_witness:
  "\<exists>out. merge_endpoints (\<lambda>s. s) demo_endpoints = Inr out \<and> length out = 1 \<and> distinct (map (fingerprint (\<lambda>s. s)) out)"
proof -
  have "\<not> isl (merge_endpoints (\<lambda>s. s) demo_endpoints) \<and> length (projr (merge_endpoints (\<lambda>s. s) demo_endpoints)) = 1"
    by code_simp
  then obtain out where out: "merge_endpoints (\<lambda>s. s) demo_endpoints = Inr out" "length out = 1"
    by (cases "merge_endpoints (\<lambda>s. s) demo_endpoints") auto
  from merge_consolidates [OF out(1)] out show ?thesis by blast
qed

end
