(* ===== verification/Crawler.thy ===== *)
theory Crawler
  imports Web Urljoin Normalize
begin

text \<open>
  \<open>app/discovery/crawler.py\<close>: a bounded breadth-first crawl through the guarded client. The
  expressions that read a page are those of the code; a page is an answer of the client.
\<close>

definition quote_rx :: rx where "quote_rx = one_of [chr 34, chr 39]"

definition attr_rx :: "rx \<Rightarrow> rx list" where
  "attr_rx body = [star space_rx, lit ''='', star space_rx, quote_rx, Grp 1 body, quote_rx]"

definition HREF :: rx where
  "HREF = seqs (alts [lit_nocase ''href'', lit_nocase ''src'', lit_nocase ''action'']
     # attr_rx (plus1 (none_of [chr 34, chr 39, CHR ''#''])))"

definition FORM :: rx where
  "FORM = seqs [lit_nocase ''<form'', Wordb, star (none_of ''>''), lit ''>'',
     Grp 1 (Rep 0 None False (Cls (\<lambda>_. True))), lit_nocase ''</form>'']"

definition FORM_ACTION :: rx where
  "FORM_ACTION = seqs (lit_nocase ''action'' # attr_rx (star (none_of [chr 34, chr 39])))"

definition FORM_METHOD :: rx where
  "FORM_METHOD = seqs (lit_nocase ''method'' # attr_rx (star (none_of [chr 34, chr 39])))"

definition INPUT :: rx where
  "INPUT = seqs ([lit_nocase ''<input'', Wordb, star (none_of ''>''), Wordb, lit_nocase ''name'']
     @ attr_rx (plus1 (none_of [chr 34, chr 39])))"

definition first_group :: "rx_match \<Rightarrow> string" where
  "first_group m = (case rx_group m 1 of None \<Rightarrow> [] | Some g \<Rightarrow> g)"

definition findall_groups :: "rx \<Rightarrow> string \<Rightarrow> string list" where
  "findall_groups r s = map first_group (rx_findall r s)"

definition crawl_normalize :: "string \<Rightarrow> exn + string" where
  "crawl_normalize url = sum_bind (urlsplit url) (\<lambda>u.
     Inr (rstrip_char (CHR ''/'') (u_scheme u @ ''://'' @ u_netloc u @ u_path u)))"

definition url_host :: "string \<Rightarrow> exn + string" where
  "url_host url = sum_bind (urlsplit url) (\<lambda>u. Inr (str_lower (url_hostname u)))"

definition form_param :: "string \<Rightarrow> string \<Rightarrow> dict" where
  "form_param method n = [(''name'', JStr n), (''in'', JStr (if method \<noteq> ''GET'' then ''body'' else ''query'')),
     (''type'', JStr ''string''), (''required'', JBool False)]"

text \<open>The endpoint of a form, unless it posts to another host.\<close>

definition form_endpoint :: "string \<Rightarrow> string \<Rightarrow> string \<Rightarrow> exn + discovered_endpoint list" where
  "form_endpoint url seed_host form =
     (let action_m = rx_search FORM_ACTION form; method_m = rx_search FORM_METHOD form in
      sum_bind (case action_m of None \<Rightarrow> Inr url | Some m \<Rightarrow> urljoin url (first_group m)) (\<lambda>action.
      let method = str_upper (case method_m of None \<Rightarrow> ''GET'' | Some m \<Rightarrow> first_group m) in
      sum_bind (url_host action) (\<lambda>host.
        if host \<noteq> seed_host then Inr []
        else sum_bind (new_endpoint (plain_endpoint method action CRAWL
               (map (form_param method) (findall_groups INPUT form)))) (\<lambda>e. Inr [e]))))"

definition page_forms :: "string \<Rightarrow> string \<Rightarrow> string \<Rightarrow> exn + discovered_endpoint list" where
  "page_forms url seed_host text =
     sum_bind (mapM_sum (form_endpoint url seed_host) (findall_groups FORM text)) (\<lambda>ess. Inr (concat ess))"

text \<open>The links of a page that are worth a visit.\<close>

definition link_target :: "string \<Rightarrow> string \<Rightarrow> string list \<Rightarrow> string \<Rightarrow> exn + string list" where
  "link_target url seed_host seen href =
     sum_bind (urljoin url href) (\<lambda>nxt.
       if \<not> (starts_with nxt ''http://'' \<or> starts_with nxt ''https://'') then Inr []
       else sum_bind (url_host nxt) (\<lambda>host.
         if host \<noteq> seed_host then Inr []
         else sum_bind (crawl_normalize nxt) (\<lambda>key. Inr (if key \<notin> set seen then [nxt] else []))))"

definition page_links :: "string \<Rightarrow> string \<Rightarrow> string list \<Rightarrow> string \<Rightarrow> exn + string list" where
  "page_links url seed_host seen text =
     sum_bind (mapM_sum (link_target url seed_host seen) (findall_groups HREF text)) (\<lambda>uss. Inr (concat uss))"

definition is_html :: "guarded_response \<Rightarrow> bool" where
  "is_html resp \<longleftrightarrow> contains_str (str_lower (resp_header resp ''content-type'')) ''html''"

text \<open>What a fetched page adds: its own endpoint, its forms and the links to visit next.\<close>

definition read_page ::
  "string \<Rightarrow> string \<Rightarrow> int \<Rightarrow> int \<Rightarrow> string list \<Rightarrow> guarded_response
     \<Rightarrow> exn + (discovered_endpoint list \<times> (string \<times> int) list)" where
  "read_page seed_host url depth max_depth seen resp =
     sum_bind (new_endpoint (plain_endpoint ''GET'' url CRAWL [])) (\<lambda>own.
       if \<not> is_html resp then Inr ([own], [])
       else sum_bind (page_forms url seed_host (gr_text resp)) (\<lambda>forms.
            sum_bind (if depth < max_depth then page_links url seed_host seen (gr_text resp) else Inr []) (\<lambda>links.
              Inr (own # forms, map (\<lambda>u. (u, depth + 1)) links))))"

text \<open>One visit: a warning where the scope or the network stopped it.\<close>

definition visit :: "'s web \<Rightarrow> string \<Rightarrow> ('s, string + guarded_response) act" where
  "visit web url =
     catch_act (bind_act (web (get_call url [])) (\<lambda>resp. ret (Inr resp)))
       (\<lambda>e. case e of
          ScopeViolation reason _ _ \<Rightarrow> ret (Inl (''crawl blocked by scope: '' @ reason))
        | TargetUnreachable msg \<Rightarrow> ret (Inl (''crawl unreachable '' @ url @ '': '' @ msg))
        | _ \<Rightarrow> raise_exn e)"

text \<open>
  The loop. Every round takes an entry off the queue; a round that adds to the queue also adds to the
  pages seen, of which there are at most \<open>max_pages\<close>.
\<close>

function crawl_loop ::
  "'s web \<Rightarrow> string \<Rightarrow> int \<Rightarrow> int \<Rightarrow> (string \<times> int) list \<Rightarrow> string list \<Rightarrow> discovered_endpoint list \<Rightarrow> string list
     \<Rightarrow> ('s, discovered_endpoint list \<times> string list) act" where
  "crawl_loop web seed_host max_pages max_depth queue seen eps warns =
     (case queue of
        [] \<Rightarrow> ret (eps, warns)
      | (url, depth) # rest \<Rightarrow>
        if \<not> int (length seen) < max_pages then ret (eps, warns)
        else
          bind_act (lift_sum (crawl_normalize url)) (\<lambda>key.
          if key \<in> set seen \<or> depth > max_depth
          then crawl_loop web seed_host max_pages max_depth rest seen eps warns
          else
            bind_act (visit web url) (\<lambda>got. case got of
                Inl warning \<Rightarrow>
                  crawl_loop web seed_host max_pages max_depth rest (key # seen) eps (warns @ [warning])
              | Inr resp \<Rightarrow>
                  bind_act (lift_sum (read_page seed_host url depth max_depth (key # seen) resp)) (\<lambda>(new, links).
                  crawl_loop web seed_host max_pages max_depth (rest @ links) (key # seen) (eps @ new) warns))))"
  by pat_completeness auto
termination
  by (relation "measures [\<lambda>(web, sh, mp, md, queue, seen, eps, warns). nat (mp - int (length seen)),
                          \<lambda>(web, sh, mp, md, queue, seen, eps, warns). length queue]") auto

declare crawl_loop.simps [simp del]

definition crawl ::
  "'s web \<Rightarrow> string \<Rightarrow> int \<Rightarrow> int \<Rightarrow> ('s, discovered_endpoint list \<times> string list) act" where
  "crawl web seed_url max_pages max_depth =
     bind_act (lift_sum (url_host seed_url)) (\<lambda>seed_host.
     crawl_loop web seed_host max_pages max_depth [(seed_url, 0)] [] [] [])"

section \<open>Where a crawl goes\<close>

lemma link_target_host:
  assumes "link_target url seed_host seen href = Inr us" "u \<in> set us"
  shows "url_host u = Inr seed_host"
proof -
  obtain nxt where n: "urljoin url href = Inr nxt" using assms(1) by (auto simp: link_target_def sum_bind_Inr)
  then obtain host where h: "url_host nxt = Inr host" and http: "starts_with nxt ''http://'' \<or> starts_with nxt ''https://''"
    using assms unfolding link_target_def by (cases "url_host nxt") (simp_all split: if_splits)
  then have "host = seed_host" using assms n unfolding link_target_def by (simp split: if_splits)
  moreover obtain key where "crawl_normalize nxt = Inr key"
    using assms n h http \<open>host = seed_host\<close> unfolding link_target_def
    by (cases "crawl_normalize nxt") (simp_all split: if_splits)
  ultimately have "u = nxt" using assms n h http unfolding link_target_def by (auto split: if_splits)
  with h \<open>host = seed_host\<close> show ?thesis by simp
qed

lemma list_all2_right: "list_all2 P xs ys \<Longrightarrow> y \<in> set ys \<Longrightarrow> \<exists>x. P x y"
  by (induction rule: list_all2_induct) auto

lemma page_links_host:
  assumes "page_links url seed_host seen text = Inr us" "u \<in> set us"
  shows "url_host u = Inr seed_host"
proof -
  obtain uss where uss: "list_all2 (\<lambda>h us. link_target url seed_host seen h = Inr us) (findall_groups HREF text) uss"
    and us: "us = concat uss"
    using assms(1) unfolding page_links_def sum_bind_Inr mapM_sum_Inr by blast
  from assms(2) us obtain ws where "ws \<in> set uss" "u \<in> set ws" by auto
  then obtain h where "link_target url seed_host seen h = Inr ws"
    using list_all2_right [OF uss] by blast
  from link_target_host [OF this \<open>u \<in> set ws\<close>] show ?thesis .
qed

lemma read_page_links:
  assumes "read_page seed_host url depth max_depth seen resp = Inr (new, links)" "(u, d) \<in> set links"
  shows "url_host u = Inr seed_host"
proof -
  obtain own where own: "new_endpoint (plain_endpoint ''GET'' url CRAWL []) = Inr own"
    using assms(1) by (auto simp: read_page_def sum_bind_Inr)
  obtain forms where forms: "page_forms url seed_host (gr_text resp) = Inr forms" "is_html resp" "depth < max_depth"
    using assms own by (cases "page_forms url seed_host (gr_text resp)") (auto simp: read_page_def split: if_splits)
  then obtain us where "page_links url seed_host seen (gr_text resp) = Inr us" "u \<in> set us"
    using assms own by (cases "page_links url seed_host seen (gr_text resp)") (auto simp: read_page_def)
  then show ?thesis by (rule page_links_host)
qed

text \<open>
  The log of a crawl: GETs to pages of the seed's host, no page twice, and no more than the limit.
\<close>

definition crawl_log :: "string \<Rightarrow> int \<Rightarrow> string list \<Rightarrow> call list \<Rightarrow> bool" where
  "crawl_log seed_host max_pages seen calls \<longleftrightarrow>
     (\<forall>c \<in> set calls. \<exists>u. c = get_call u [] \<and> url_host u = Inr seed_host) \<and>
     map (\<lambda>c. crawl_normalize (ca_url c)) calls = map Inr (rev seen) \<and> distinct seen \<and>
     int (length seen) \<le> max 0 max_pages"

lemma visit_logged:
  "\<exists>r. visit (logged answers) url calls = (r, calls @ [get_call url []])"
  by (cases "answers calls (get_call url [])")
    (auto simp: visit_def logged_def bind_act_def catch_act_def ret_def raise_exn_def split: exn.splits)

lemma crawl_log_grows:
  assumes "crawl_log seed_host max_pages seen calls" "url_host url = Inr seed_host" "crawl_normalize url = Inr key"
    "key \<notin> set seen" "int (length seen) < max_pages"
  shows "crawl_log seed_host max_pages (key # seen) (calls @ [get_call url []])"
  using assms by (auto simp: crawl_log_def get_call_def)

definition crawl_ok :: "string \<Rightarrow> int \<Rightarrow> call list \<Rightarrow> bool" where
  "crawl_ok seed_host max_pages calls \<longleftrightarrow> (\<exists>seen. crawl_log seed_host max_pages seen calls)"

lemma crawl_okI: "crawl_log seed_host max_pages seen calls \<Longrightarrow> crawl_ok seed_host max_pages calls"
  by (auto simp: crawl_ok_def)

lemma crawl_loop_log:
  assumes "\<forall>(u, d) \<in> set queue. url_host u = Inr seed_host" "crawl_log seed_host max_pages seen calls"
  shows "crawl_ok seed_host max_pages
           (snd (crawl_loop (logged answers) seed_host max_pages max_depth queue seen eps warns calls))"
  using assms
proof (induction "logged answers" seed_host max_pages max_depth queue seen eps warns arbitrary: calls rule: crawl_loop.induct)
  case (1 seed_host max_pages max_depth queue seen eps warns)
  note unf = crawl_loop.simps [of "logged answers" seed_host max_pages max_depth queue seen eps warns]
  note ok = crawl_okI [OF 1(5)]
  show ?case
  proof (cases "queue = [] \<or> \<not> int (length seen) < max_pages")
    case True
    with ok show ?thesis unfolding unf by (auto simp: ret_def split: list.splits)
  next
    case more: False
    then obtain url depth rest where q: "queue = (url, depth) # rest" by (cases queue) auto
    have url: "url_host url = Inr seed_host" and rest: "\<forall>(u, d) \<in> set rest. url_host u = Inr seed_host"
      using 1(4) q by auto
    have room: "int (length seen) < max_pages" using more by blast
    let ?loop = "\<lambda>q key eps w. crawl_loop (logged answers) seed_host max_pages max_depth q (key # seen) eps w"
    let ?page = "\<lambda>key resp. bind_act (lift_sum (read_page seed_host url depth max_depth (key # seen) resp)) (\<lambda>(new, links).
      ?loop (rest @ links) key (eps @ new) warns)"
    let ?seen = "crawl_loop (logged answers) seed_host max_pages max_depth rest seen eps warns"
    let ?new = "\<lambda>key. bind_act (visit (logged answers) url) (\<lambda>got. case got of
      Inl warning \<Rightarrow> ?loop rest key eps (warns @ [warning]) | Inr resp \<Rightarrow> ?page key resp)"
    have step: "crawl_loop (logged answers) seed_host max_pages max_depth queue seen eps warns calls =
        bind_act (lift_sum (crawl_normalize url)) (\<lambda>key.
          if key \<in> set seen \<or> depth > max_depth then ?seen else ?new key) calls"
      unfolding unf by (simp only: q room list.case prod.case not_True_eq_False if_False)
    have fresh: "crawl_ok seed_host max_pages (snd (?new key calls))"
      if key: "crawl_normalize url = Inr key" and new: "\<not> (key \<in> set seen \<or> depth > max_depth)" for key
    proof -
      have grown: "crawl_log seed_host max_pages (key # seen) (calls @ [get_call url []])"
        using 1(5) url key new room by (intro crawl_log_grows) auto
      have page: "crawl_ok seed_host max_pages (snd (?page key resp (calls @ [get_call url []])))" for resp
      proof (rule ends_lift)
        fix x assume x: "read_page seed_host url depth max_depth (key # seen) resp = Inr x"
        obtain new' links where nl: "x = (new', links)" by fastforce
        have "\<forall>(u, d) \<in> set (rest @ links). url_host u = Inr seed_host"
          using rest read_page_links x nl by fastforce
        from 1(3) [OF q refl _ new this grown] room
        show "crawl_ok seed_host max_pages (snd ((case x of (new, links) \<Rightarrow>
            ?loop (rest @ links) key (eps @ new) warns) (calls @ [get_call url []])))"
          by (simp add: nl)
      qed (rule crawl_okI [OF grown])
      obtain r where r: "visit (logged answers) url calls = (r, calls @ [get_call url []])"
        using visit_logged by blast
      show ?thesis
        by (rule ends_bind, rule r)
          (use 1(2) [OF q refl _ new rest grown] room page crawl_okI [OF grown] in \<open>auto split: sum.splits\<close>)
    qed
    show ?thesis
      unfolding step by (rule ends_lift) (use ok fresh 1(1) [OF q refl _ _ rest 1(5)] room in auto)
  qed
qed

text \<open>
  C23: the crawl is bounded and stays on its host. Whatever the pages answer, however they react to
  what was asked before, the crawl ends, asks for at most \<open>max_pages\<close> pages, never for the same page
  twice, only with GETs, and only for URLs whose host is that of the seed.
\<close>

theorem crawl_stays_on_host:
  assumes "url_host seed_url = Inr seed_host" "crawl (logged answers) seed_url max_pages max_depth [] = (r, calls)"
  shows "int (length calls) \<le> max 0 max_pages \<and>
     (\<forall>c \<in> set calls. ca_method c = ''GET'' \<and> url_host (ca_url c) = Inr seed_host) \<and>
     distinct (map (\<lambda>c. crawl_normalize (ca_url c)) calls)"
proof -
  have "crawl_log seed_host max_pages [] []" by (simp add: crawl_log_def)
  then have "crawl_ok seed_host max_pages
      (snd (crawl_loop (logged answers) seed_host max_pages max_depth [(seed_url, 0)] [] [] [] []))"
    using assms(1) by (intro crawl_loop_log) simp_all
  then obtain seen where "crawl_log seed_host max_pages seen calls"
    using assms by (auto simp: crawl_ok_def crawl_def bind_act_def lift_sum_def)
  moreover from this have "length calls = length seen"
    unfolding crawl_log_def by (metis length_map length_rev)
  ultimately show ?thesis
    by (fastforce simp: crawl_log_def get_call_def distinct_map)
qed

definition demo_page :: "string \<Rightarrow> guarded_response" where
  "demo_page html = \<lparr>gr_status_code = 200, gr_headers = [(''content-type'', ''text/html'')], gr_text = html,
     gr_elapsed_ms = 1, gr_url = ''http://h/'', gr_request_method = ''GET'', gr_request_headers = [],
     gr_request_body = None\<rparr>"

definition demo_link :: string where
  "demo_link = ''<a href='' @ [chr 34] @ ''/b'' @ [chr 34] @ ''>''"

theorem crawl_stays_on_host_witness:
  "\<exists>calls. snd (crawl (logged (\<lambda>_ _. Inr (demo_page demo_link))) ''http://h/a'' 5 3 []) = calls \<and>
     length calls = 2 \<and> (\<forall>c \<in> set calls. url_host (ca_url c) = Inr ''h'')"
proof -
  let ?run = "crawl (logged (\<lambda>_ _. Inr (demo_page demo_link))) ''http://h/a'' 5 3 []"
  have len: "length (snd ?run) = 2" by code_simp
  have host: "url_host ''http://h/a'' = Inr ''h''" by code_simp
  from crawl_stays_on_host [OF host prod.collapse [symmetric]] len show ?thesis by blast
qed

definition bad_link :: string where
  "bad_link = ''<a href='' @ [chr 34] @ ''http://['' @ [chr 34] @ ''>''"

text \<open>
  One malformed link ends the whole crawl. A page with a link whose host is an unclosed bracket
  makes the crawl raise instead of returning endpoints and warnings: resolving the link is outside
  the handlers of the loop.
\<close>

theorem malformed_link_ends_crawl:
  "crawl (fixed_target (\<lambda>_. Inr (demo_page bad_link))) ''http://h/a'' 5 3 () = (Inl (ValueError ''Invalid IPv6 URL''), ())"
  by code_simp

end
