(* ===== verification/Checks_Injection.thy ===== *)
theory Checks_Injection
  imports Web Checks_Base
begin

text \<open>
  The checks that inject into parameters: \<open>app/checks/sqli.py\<close>, \<open>xss.py\<close> and \<open>open_redirect.py\<close>,
  with what all checks share. A check sends its probes through a client (\<open>web\<close>); the random token of
  the reflection probe comes from \<open>fresh\<close>.
\<close>

section \<open>What the checks share\<close>

definition squoted :: "string \<Rightarrow> string" where
  "squoted s = [chr 39] @ s @ [chr 39]"

definition dquoted :: "string \<Rightarrow> string" where
  "dquoted s = [chr 34] @ s @ [chr 34]"

text \<open>\<open>xs[:n]\<close> and \<open>p["name"]\<close>.\<close>

definition slice_to :: "int \<Rightarrow> 'a list \<Rightarrow> 'a list" where
  "slice_to n xs = (if 0 \<le> n then take (nat n) xs else take (length xs - nat (- n)) xs)"

definition need_name :: "dict \<Rightarrow> exn + string" where
  "need_name p = (case dget p ''name'' of None \<Rightarrow> Inl (OtherError (''KeyError: '' @ py_repr ''name''))
     | Some v \<Rightarrow> Inr (str_jv v))"

definition name_or_empty :: "dict \<Rightarrow> string" where
  "name_or_empty p = jstr (jget_or p ''name'' (JStr []))"

text \<open>A call whose failure to reach the target is an answer of its own.\<close>

definition try_call :: "'s web \<Rightarrow> call \<Rightarrow> ('s, guarded_response option) act" where
  "try_call web c = unless_unreachable (bind_act (web c) (\<lambda>r. ret (Some r))) (\<lambda>_. ret None)"

fun probe_each :: "('p \<Rightarrow> ('s, 'f option) act) \<Rightarrow> 'p list \<Rightarrow> ('s, 'f list) act" where
  "probe_each probe [] = ret []"
| "probe_each probe (p # ps) =
     bind_act (probe p) (\<lambda>f. bind_act (probe_each probe ps) (\<lambda>fs.
       ret (case f of None \<Rightarrow> fs | Some x \<Rightarrow> x # fs)))"

definition exchange :: "string \<Rightarrow> string \<Rightarrow> string option \<Rightarrow> string option \<Rightarrow> guarded_response \<Rightarrow> raw_evidence" where
  "exchange method note req_body resp_body resp =
     (let (q, a) = response_exchange method req_body resp_body resp
      in \<lparr>re_kind = ''http_exchange'', re_request = q, re_response = a, re_note = note\<rparr>)"

definition full_exchange :: "string \<Rightarrow> string \<Rightarrow> guarded_response \<Rightarrow> raw_evidence" where
  "full_exchange method note resp = exchange method note (gr_request_body resp) (Some (gr_text resp)) resp"

section \<open>SQL injection\<close>

definition DB_ERROR_SIGNATURES :: "rx list" where
  "DB_ERROR_SIGNATURES =
     [lit_nocase ''you have an error in your sql syntax'',
      seqs [lit_nocase ''warning: mysql'', opt (lit_nocase ''i'')],
      lit_nocase ''unclosed quotation mark after the character string'',
      lit_nocase ''quoted string not properly terminated'',
      lit_nocase ''pg_query()'',
      seqs [lit_nocase ''psql:'', star any_char, lit_nocase ''ERROR''],
      seqs [lit_nocase ''sqlite'', opt (lit ''3''), lit ''.'', Alt (lit_nocase ''OperationalError'') (lit_nocase ''Warning'')],
      lit_nocase ''sqlite_error'',
      seqs [lit_nocase ''near '', lit [chr 34], star any_char, lit [chr 34], lit_nocase '': syntax error''],
      seqs [lit_nocase ''ORA-'', between 5 5 digit_rx],
      seqs [lit_nocase ''microsoft odbc '', star any_char, lit_nocase '' driver''],
      lit_nocase ''sqlstate['',
      lit_nocase ''syntax error at or near'']"

definition ERROR_RX :: rx where
  "ERROR_RX = alts DB_ERROR_SIGNATURES"

definition ERROR_PAYLOADS :: "string list" where
  "ERROR_PAYLOADS = [[chr 39], [chr 34], [chr 39] @ '')'', [chr 39] @ '';'', [chr 34] @ ''))'',
     [chr 39] @ '' OR '' @ squoted ''1'' @ ''='' @ squoted ''1'' @ '' -- '']"

definition TRUE_PAYLOAD :: string where
  "TRUE_PAYLOAD = ''1'' @ [chr 39] @ '' OR '' @ squoted ''1'' @ ''='' @ [chr 39] @ ''1''"

definition FALSE_PAYLOAD :: string where
  "FALSE_PAYLOAD = ''1'' @ [chr 39] @ '' AND '' @ squoted ''1'' @ ''='' @ [chr 39] @ ''2''"

definition probe_with :: "check_context \<Rightarrow> string \<Rightarrow> string \<Rightarrow> call" where
  "probe_with ctx name v = probe_call (ev_method (cc_endpoint ctx)) (ev_url (cc_endpoint ctx)) [(name, JStr v)]"

definition sqli_error_finding :: "check_context \<Rightarrow> string \<Rightarrow> string \<Rightarrow> guarded_response \<Rightarrow> raw_finding" where
  "sqli_error_finding ctx name payload resp =
     \<lparr>rf_check_class = ''sqli'',
      rf_title = ''SQL injection (error-based) in parameter '' @ squoted name,
      rf_severity = SEV_HIGH, rf_confidence = CONF_HIGH, rf_cwe = ''CWE-89'',
      rf_description = ''Injecting a single quote into parameter '' @ squoted name @ '' elicited a database ''
        @ ''error, indicating unsanitized input reaching a SQL query.'',
      rf_remediation = ''Use parameterized queries / prepared statements. Never concatenate ''
        @ ''user input into SQL. Apply strict input validation and least-privilege DB accounts.'',
      rf_evidence = [full_exchange (ev_method (cc_endpoint ctx))
        (''DB error signature reflected for payload '' @ py_repr payload @ '' in param '' @ py_repr name) resp],
      rf_reproduction = [(''method'', JStr (ev_method (cc_endpoint ctx))), (''url'', JStr (ev_url (cc_endpoint ctx))),
        (''param'', JStr name), (''payload'', JStr (''1'' @ payload)), (''detector'', JStr ''db_error_signature'')],
      rf_dedup_seed = ''sqli:error:'' @ name, rf_endpoint_url = ev_url (cc_endpoint ctx)\<rparr>"

definition sqli_boolean_finding ::
  "check_context \<Rightarrow> string \<Rightarrow> guarded_response \<Rightarrow> guarded_response \<Rightarrow> raw_finding" where
  "sqli_boolean_finding ctx name r_true r_false =
     \<lparr>rf_check_class = ''sqli'',
      rf_title = ''SQL injection (boolean-based) in parameter '' @ squoted name,
      rf_severity = SEV_HIGH, rf_confidence = CONF_MEDIUM, rf_cwe = ''CWE-89'',
      rf_description = ''Parameter '' @ squoted name @ '' shows a consistent boolean-differential response to ''
        @ ''`OR 1=1` vs `AND 1=2` payloads, indicating a blind SQL injection.'',
      rf_remediation = ''Use parameterized queries and reject SQL metacharacters where inappropriate.'',
      rf_evidence = [full_exchange (ev_method (cc_endpoint ctx)) ''boolean payload (TRUE)'' r_true,
        full_exchange (ev_method (cc_endpoint ctx)) ''boolean payload (FALSE)'' r_false],
      rf_reproduction = [(''method'', JStr (ev_method (cc_endpoint ctx))), (''url'', JStr (ev_url (cc_endpoint ctx))),
        (''param'', JStr name), (''true_payload'', JStr TRUE_PAYLOAD), (''false_payload'', JStr FALSE_PAYLOAD),
        (''detector'', JStr ''boolean_differential'')],
      rf_dedup_seed = ''sqli:boolean:'' @ name, rf_endpoint_url = ev_url (cc_endpoint ctx)\<rparr>"

definition text_len :: "guarded_response \<Rightarrow> rat" where
  "text_len r = of_nat (length (gr_text r))"

definition boolean_differs :: "guarded_response \<Rightarrow> guarded_response \<Rightarrow> guarded_response \<Rightarrow> bool" where
  "boolean_differs baseline r_true r_false =
     (if gr_status_code r_true \<noteq> gr_status_code r_false then True
      else let lt = text_len r_true; lf = text_len r_false in
        if max lt lf = 0 then False
        else let diff_ratio = \<bar>lt - lf\<bar> / max lt lf;
                 lb = (if text_len baseline = 0 then 1 else text_len baseline);
                 true_close = \<bar>lt - lb\<bar> / max lt lb < 3 / 20
             in diff_ratio > 3 / 10 \<and> true_close)"

fun sqli_error_probes :: "'s web \<Rightarrow> check_context \<Rightarrow> string \<Rightarrow> string list \<Rightarrow> ('s, raw_finding option) act" where
  "sqli_error_probes web ctx name [] = ret None"
| "sqli_error_probes web ctx name (payload # ps) =
     bind_act (try_call web (probe_with ctx name (''1'' @ payload))) (\<lambda>r. case r of
        None \<Rightarrow> sqli_error_probes web ctx name ps
      | Some resp \<Rightarrow>
          if rx_found ERROR_RX (gr_text resp) then ret (Some (sqli_error_finding ctx name payload resp))
          else sqli_error_probes web ctx name ps)"

definition sqli_boolean_probe ::
  "'s web \<Rightarrow> check_context \<Rightarrow> string \<Rightarrow> guarded_response \<Rightarrow> ('s, raw_finding option) act" where
  "sqli_boolean_probe web ctx name baseline =
     bind_act (try_call web (probe_with ctx name TRUE_PAYLOAD)) (\<lambda>t. case t of None \<Rightarrow> ret None
     | Some r_true \<Rightarrow> bind_act (try_call web (probe_with ctx name FALSE_PAYLOAD)) (\<lambda>f. case f of None \<Rightarrow> ret None
     | Some r_false \<Rightarrow> ret (if boolean_differs baseline r_true r_false
         then Some (sqli_boolean_finding ctx name r_true r_false) else None)))"

definition sqli_probe :: "'s web \<Rightarrow> check_context \<Rightarrow> dict \<Rightarrow> ('s, raw_finding option) act" where
  "sqli_probe web ctx param =
     bind_act (lift_sum (need_name param)) (\<lambda>name.
     bind_act (try_call web (probe_with ctx name ''1'')) (\<lambda>b. case b of None \<Rightarrow> ret None
     | Some baseline \<Rightarrow>
       bind_act (sqli_error_probes web ctx name ERROR_PAYLOADS) (\<lambda>f. case f of Some x \<Rightarrow> ret (Some x)
       | None \<Rightarrow> sqli_boolean_probe web ctx name baseline)))"

definition probe_params :: "check_context \<Rightarrow> dict list" where
  "probe_params ctx = (if query_params ctx \<noteq> [] then query_params ctx else injectable_params ctx)"

definition sqli_check :: "'s web \<Rightarrow> 's check" where
  "sqli_check web =
     \<lparr>ck_name = ''sqli.reflected'', ck_class = ''sqli'', ck_intensity = SAFE_ACTIVE, ck_cwe = ''CWE-89'',
      ck_state_changing = False,
      ck_applies = (\<lambda>ctx. ret (injectable_params ctx \<noteq> [] \<or> contains_str (ev_path_template (cc_endpoint ctx)) ''{id}'')),
      ck_run = (\<lambda>ctx. probe_each (sqli_probe web ctx) (slice_to (cc_max_payloads ctx) (probe_params ctx)))\<rparr>"

section \<open>Reflected XSS\<close>

definition renderable_html_context :: "int \<Rightarrow> string \<Rightarrow> bool" where
  "renderable_html_context status_code content_type =
     (if status_code \<ge> 400 then False
      else let ctype = str_lower content_type in ctype = [] \<or> contains_str ctype ''html'')"

definition raw_marker :: "string \<Rightarrow> string" where
  "raw_marker token = ''<szx'' @ token @ ''>''"

definition escaped_marker :: "string \<Rightarrow> string" where
  "escaped_marker token = ''&lt;szx'' @ token @ ''&gt;''"

definition xss_payload :: "string \<Rightarrow> string" where
  "xss_payload token = raw_marker token @ [chr 39, chr 34] @ ''</szx'' @ token @ ''>''"

definition xss_finding :: "check_context \<Rightarrow> string \<Rightarrow> string \<Rightarrow> guarded_response \<Rightarrow> raw_finding" where
  "xss_finding ctx name token resp =
     (let ctype = str_lower (resp_header resp ''content-type''); html = contains_str ctype ''html'' in
      \<lparr>rf_check_class = ''xss'', rf_title = ''Reflected XSS in parameter '' @ squoted name,
       rf_severity = (if html then SEV_HIGH else SEV_MEDIUM),
       rf_confidence = (if html then CONF_HIGH else CONF_MEDIUM), rf_cwe = ''CWE-79'',
       rf_description = ''Input to parameter '' @ squoted name @ '' is reflected into the response without HTML ''
         @ ''encoding, allowing script injection in a victim'' @ [chr 39] @ ''s browser.'',
       rf_remediation = ''Context-encode all user input on output (HTML entity encoding for HTML ''
         @ ''context). Apply a strict Content-Security-Policy. Prefer framework auto-escaping.'',
       rf_evidence = [full_exchange (ev_method (cc_endpoint ctx))
         (''unescaped reflection of marker in param '' @ py_repr name @ '' (content-type='' @ ctype @ '')'') resp],
       rf_reproduction = [(''method'', JStr (ev_method (cc_endpoint ctx))), (''url'', JStr (ev_url (cc_endpoint ctx))),
         (''param'', JStr name), (''payload'', JStr (xss_payload token)), (''detector'', JStr ''unescaped_reflection''),
         (''marker'', JStr token)],
       rf_dedup_seed = ''xss:'' @ name, rf_endpoint_url = ev_url (cc_endpoint ctx)\<rparr>)"

definition xss_probe :: "'s web \<Rightarrow> ('s, string) act \<Rightarrow> check_context \<Rightarrow> dict \<Rightarrow> ('s, raw_finding option) act" where
  "xss_probe web fresh ctx param =
     bind_act (lift_sum (need_name param)) (\<lambda>name.
     bind_act fresh (\<lambda>token.
     bind_act (try_call web (probe_with ctx name (xss_payload token))) (\<lambda>r. case r of None \<Rightarrow> ret None
     | Some resp \<Rightarrow>
         ret (if \<not> renderable_html_context (gr_status_code resp) (str_lower (resp_header resp ''content-type'')) then None
              else if contains_str (gr_text resp) (raw_marker token) \<and> \<not> contains_str (gr_text resp) (escaped_marker token)
              then Some (xss_finding ctx name token resp) else None))))"

definition xss_check :: "'s web \<Rightarrow> ('s, string) act \<Rightarrow> 's check" where
  "xss_check web fresh =
     \<lparr>ck_name = ''xss.reflected'', ck_class = ''xss'', ck_intensity = SAFE_ACTIVE, ck_cwe = ''CWE-79'',
      ck_state_changing = False, ck_applies = (\<lambda>ctx. ret (injectable_params ctx \<noteq> [])),
      ck_run = (\<lambda>ctx. probe_each (xss_probe web fresh ctx) (slice_to (cc_max_payloads ctx) (injectable_params ctx)))\<rparr>"

section \<open>Open redirects\<close>

definition REDIRECT_PARAM_HINTS :: "string list" where
  "REDIRECT_PARAM_HINTS = [''redirect'', ''return'', ''url'', ''next'', ''dest'', ''continue'', ''goto'', ''callback'']"

definition CANARY_HOST :: string where
  "CANARY_HOST = ''evil.example.net''"

definition CANARY :: string where
  "CANARY = ''https://'' @ CANARY_HOST @ ''/probe''"

definition redirect_params :: "check_context \<Rightarrow> dict list" where
  "redirect_params ctx = filter (\<lambda>p. list_ex (contains_str (str_lower (name_or_empty p))) REDIRECT_PARAM_HINTS)
     (injectable_params ctx)"

definition redirect_finding ::
  "check_context \<Rightarrow> string \<Rightarrow> string \<Rightarrow> bool \<Rightarrow> raw_evidence list \<Rightarrow> raw_finding" where
  "redirect_finding ctx name location blocked_by_guard evidence =
     \<lparr>rf_check_class = ''open_redirect'', rf_title = ''Open redirect via parameter '' @ squoted name,
      rf_severity = SEV_MEDIUM, rf_confidence = (if \<not> blocked_by_guard then CONF_HIGH else CONF_MEDIUM),
      rf_cwe = ''CWE-601'',
      rf_description = ''Parameter '' @ squoted name @ '' controls the redirect target; a request set it to ''
        @ py_repr location @ '', an attacker-controlled host. This enables phishing and OAuth token theft.'',
      rf_remediation = ''Validate redirect targets against an allowlist of internal paths/hosts. ''
        @ ''Reject absolute external URLs, or map to server-side identifiers.'',
      rf_evidence = evidence,
      rf_reproduction = [(''method'', JStr ''GET''), (''url'', JStr (ev_url (cc_endpoint ctx))), (''param'', JStr name),
        (''payload'', JStr CANARY), (''detector'', JStr ''location_header_host'')],
      rf_dedup_seed = ''open_redirect:'' @ name, rf_endpoint_url = ev_url (cc_endpoint ctx)\<rparr>"

text \<open>The outcome of a request that may be stopped by the scope or the network.\<close>

datatype gated = Answered guarded_response | Blocked | Unreachable

definition gated_call :: "'s web \<Rightarrow> call \<Rightarrow> ('s, gated) act" where
  "gated_call web c =
     catch_act (bind_act (web c) (\<lambda>r. ret (Answered r)))
       (\<lambda>e. case e of ScopeViolation _ _ _ \<Rightarrow> ret Blocked | TargetUnreachable _ \<Rightarrow> ret Unreachable | _ \<Rightarrow> raise_exn e)"

definition first_hop :: "string \<Rightarrow> string \<Rightarrow> string \<Rightarrow> call" where
  "first_hop url name v = (get_call url [(name, JStr v)])\<lparr>ca_max_redirects := 0\<rparr>"

definition hostname_of :: "string \<Rightarrow> exn + string" where
  "hostname_of url = sum_bind (urlsplit url) (\<lambda>u. Inr (url_hostname u))"

definition redirect_probe :: "'s web \<Rightarrow> check_context \<Rightarrow> dict \<Rightarrow> ('s, raw_finding option) act" where
  "redirect_probe web ctx param =
     bind_act (lift_sum (need_name param)) (\<lambda>name.
     bind_act (gated_call web (first_hop (ev_url (cc_endpoint ctx)) name CANARY)) (\<lambda>g. case g of
        Blocked \<Rightarrow> ret (Some (redirect_finding ctx name CANARY True []))
      | Unreachable \<Rightarrow> ret None
      | Answered resp \<Rightarrow>
          let location = resp_header resp ''location'' in
          if location = [] then ret None
          else bind_act (lift_sum (hostname_of location)) (\<lambda>host.
            ret (if host = CANARY_HOST
                 then Some (redirect_finding ctx name location False
                   [exchange ''GET'' (''Location header points to attacker-controlled host via param '' @ py_repr name)
                      None (Some []) resp])
                 else None))))"

definition redirect_check :: "'s web \<Rightarrow> 's check" where
  "redirect_check web =
     \<lparr>ck_name = ''redirect.open'', ck_class = ''open_redirect'', ck_intensity = SAFE_ACTIVE, ck_cwe = ''CWE-601'',
      ck_state_changing = False, ck_applies = (\<lambda>ctx. ret (redirect_params ctx \<noteq> [])),
      ck_run = (\<lambda>ctx. probe_each (redirect_probe web ctx) (slice_to (cc_max_payloads ctx) (redirect_params ctx)))\<rparr>"

end
