(* ===== verification/Checks_Access.thy ===== *)
theory Checks_Access
  imports Checks_Injection
begin

text \<open>
  The checks of access and of plain behaviour: \<open>app/checks/bola.py\<close>, \<open>headers.py\<close> and
  \<open>business_logic.py\<close>.
\<close>

section \<open>Cross-account access\<close>

definition PATH_ID :: rx where
  "PATH_ID = Alt (lit_nocase ''{id}'')
     (seqs [lit ''{'', star (none_of ''}''), lit_nocase ''id'', star (none_of ''}''), lit ''}''])"

definition LAST_SEGMENT :: rx where
  "LAST_SEGMENT = seqs [lit ''/'', star (none_of ''/''), Eol]"

definition id_named :: "dict \<Rightarrow> bool" where
  "id_named p \<longleftrightarrow> contains_str (str_lower (name_or_empty p)) ''id''"

definition active_sessions :: "check_context \<Rightarrow> auth_session list" where
  "active_sessions ctx = filter (\<lambda>s. \<not> au_expired s) (cc_sessions ctx)"

definition bola_applies :: "check_context \<Rightarrow> bool" where
  "bola_applies ctx \<longleftrightarrow> ev_method (cc_endpoint ctx) = ''GET'' \<and>
     (rx_found PATH_ID (ev_path_template (cc_endpoint ctx)) \<or> list_ex id_named (ev_parameters (cc_endpoint ctx))) \<and>
     length (active_sessions ctx) \<ge> 2"

text \<open>The URL and the query that ask for an object: in the path if it has a place, else in an id parameter.\<close>

definition build_target :: "check_context \<Rightarrow> string \<Rightarrow> exn + (string \<times> dict)" where
  "build_target ctx obj =
     (let url = ev_url (cc_endpoint ctx) in
      if rx_found PATH_ID url then Inr (rx_sub PATH_ID obj url, [])
      else if rx_found PATH_ID (ev_path_template (cc_endpoint ctx))
      then Inr (rx_sub LAST_SEGMENT (''/'' @ obj) url, [])
      else (case List.find id_named (ev_parameters (cc_endpoint ctx)) of
              None \<Rightarrow> Inr (url, [])
            | Some p \<Rightarrow> sum_bind (need_name p) (\<lambda>n. Inr (url, if n \<noteq> [] then [(n, JStr obj)] else []))))"

definition shows_object :: "string \<Rightarrow> guarded_response \<Rightarrow> bool" where
  "shows_object obj resp \<longleftrightarrow> gr_status_code resp = 200 \<and> contains_str (gr_text resp) obj"

definition bola_finding ::
  "check_context \<Rightarrow> auth_session \<Rightarrow> auth_session \<Rightarrow> string \<Rightarrow> string \<Rightarrow> guarded_response \<Rightarrow> raw_finding" where
  "bola_finding ctx attacker victim obj url resp =
     \<lparr>rf_check_class = ''bola'',
      rf_title = ''Broken object-level authorization (BOLA) on '' @ ev_path_template (cc_endpoint ctx),
      rf_severity = SEV_HIGH, rf_confidence = CONF_HIGH, rf_cwe = ''CWE-639'',
      rf_description = ''Account '' @ squoted (au_role_name attacker) @ '' successfully retrieved object '' @ squoted obj
        @ '' belonging to account '' @ squoted (au_role_name victim) @ ''. The endpoint does not enforce ''
        @ ''that the requester owns the referenced object.'',
      rf_remediation = ''Enforce object ownership on every request server-side (compare the object'' @ [chr 39] @ ''s ''
        @ ''owner to the authenticated principal). Do not rely on unguessable ids. Adopt centralized authorization checks.'',
      rf_evidence = [exchange ''GET'' (''account '' @ squoted (au_role_name attacker) @ '' accessed object '' @ obj
        @ '' owned by '' @ squoted (au_role_name victim)) None (Some (gr_text resp)) resp],
      rf_reproduction = [(''method'', JStr ''GET''), (''url'', JStr url),
        (''attacker_role'', JStr (au_role_name attacker)), (''victim_role'', JStr (au_role_name victim)),
        (''object_id'', JStr obj), (''detector'', JStr ''cross_account_access'')],
      rf_dedup_seed = ''bola:'' @ ev_path_template (cc_endpoint ctx), rf_endpoint_url = ev_url (cc_endpoint ctx)\<rparr>"

definition bola_attempt ::
  "'s web \<Rightarrow> check_context \<Rightarrow> auth_session \<Rightarrow> auth_session \<Rightarrow> string \<Rightarrow> ('s, raw_finding option) act" where
  "bola_attempt web ctx attacker victim obj =
     bind_act (lift_sum (build_target ctx obj)) (\<lambda>(url, params).
     bind_act (try_call web ((get_call url params)\<lparr>ca_headers := au_headers attacker\<rparr>)) (\<lambda>r. case r of None \<Rightarrow> ret None
     | Some resp \<Rightarrow>
         if \<not> shows_object obj resp then ret None
         else bind_act (try_call web (get_call url params)) (\<lambda>anon.
           ret (case anon of
              Some a \<Rightarrow> if shows_object obj a then None else Some (bola_finding ctx attacker victim obj url resp)
            | None \<Rightarrow> Some (bola_finding ctx attacker victim obj url resp)))))"

text \<open>The ordered pairs of distinct active sessions whose victim owns an object.\<close>

definition session_pairs :: "auth_session list \<Rightarrow> (auth_session \<times> auth_session) list" where
  "session_pairs ss = concat (map (\<lambda>i. map (\<lambda>j. (ss ! i, ss ! j))
     (filter (\<lambda>j. i \<noteq> j \<and> au_owns_object_ids (ss ! j) \<noteq> []) [0..<length ss])) [0..<length ss])"

fun bola_pairs ::
  "'s web \<Rightarrow> check_context \<Rightarrow> (auth_session \<times> auth_session) list \<Rightarrow> ('s, raw_finding list) act" where
  "bola_pairs web ctx [] = ret []"
| "bola_pairs web ctx ((attacker, victim) # ps) =
     bind_act (bola_attempt web ctx attacker victim (str_jv (hd (au_owns_object_ids victim)))) (\<lambda>f.
       case f of Some x \<Rightarrow> ret [x] | None \<Rightarrow> bola_pairs web ctx ps)"

definition bola_check :: "'s web \<Rightarrow> 's check" where
  "bola_check web =
     \<lparr>ck_name = ''bola.cross_account'', ck_class = ''bola'', ck_intensity = SAFE_ACTIVE, ck_cwe = ''CWE-639'',
      ck_state_changing = False, ck_applies = (\<lambda>ctx. ret (bola_applies ctx)),
      ck_run = (\<lambda>ctx. if length (active_sessions ctx) < 2 then ret []
                      else bola_pairs web ctx (session_pairs (active_sessions ctx)))\<rparr>"

section \<open>Security headers\<close>

definition EXPECTED_HEADERS :: "(string \<times> string \<times> severity) list" where
  "EXPECTED_HEADERS =
     [(''content-security-policy'', ''Content-Security-Policy'', SEV_MEDIUM),
      (''x-content-type-options'', ''X-Content-Type-Options'', SEV_LOW),
      (''x-frame-options'', ''X-Frame-Options'', SEV_LOW),
      (''strict-transport-security'', ''Strict-Transport-Security'', SEV_MEDIUM)]"

definition DISCLOSURE_HEADERS :: "string list" where
  "DISCLOSURE_HEADERS = [''server'', ''x-powered-by'', ''x-aspnet-version'', ''x-generator'']"

definition lower_headers :: "guarded_response \<Rightarrow> (string \<times> string) list" where
  "lower_headers resp = foldl (\<lambda>d (k, v). dset d (str_lower k) v) [] (gr_headers resp)"

definition expected_missing :: "guarded_response \<Rightarrow> (string \<times> string \<times> severity) list" where
  "expected_missing resp =
     filter (\<lambda>(hkey, _, _). \<not> (hkey = ''strict-transport-security'' \<and> \<not> starts_with (str_lower (gr_url resp)) ''https://'')
       \<and> dget (lower_headers resp) hkey = None) EXPECTED_HEADERS"

definition worst_severity :: "severity list \<Rightarrow> severity" where
  "worst_severity sevs = foldl (\<lambda>worst sev. if sev_rank sev > sev_rank worst then sev else worst) SEV_INFO sevs"

definition headers_evidence :: "guarded_response \<Rightarrow> raw_evidence" where
  "headers_evidence resp = exchange ''GET'' ''response headers inspected'' None (Some []) resp"

definition missing_finding :: "check_context \<Rightarrow> guarded_response \<Rightarrow> string list \<Rightarrow> severity \<Rightarrow> raw_finding" where
  "missing_finding ctx resp missing worst =
     \<lparr>rf_check_class = ''security_headers'', rf_title = ''Missing security headers: '' @ join_with '', '' missing,
      rf_severity = worst, rf_confidence = CONF_CERTAIN, rf_cwe = ''CWE-693'',
      rf_description = ''The response is missing recommended security headers: '' @ join_with '', '' missing @ ''.'',
      rf_remediation = ''Add the missing headers at the application or reverse-proxy layer. ''
        @ ''Use a strict CSP, `X-Content-Type-Options: nosniff`, `X-Frame-Options: DENY`, and HSTS on HTTPS endpoints.'',
      rf_evidence = [headers_evidence resp],
      rf_reproduction = [(''method'', JStr ''GET''), (''url'', JStr (ev_url (cc_endpoint ctx))),
        (''detector'', JStr ''headers_missing''), (''headers'', JList (map JStr missing))],
      rf_dedup_seed = ''headers:'' @ repr_list (sort missing), rf_endpoint_url = ev_url (cc_endpoint ctx)\<rparr>"

definition disclosed_headers :: "guarded_response \<Rightarrow> (string \<times> string) list" where
  "disclosed_headers resp = List.map_filter (\<lambda>h. map_option (\<lambda>v. (h, v)) (dget (lower_headers resp) h)) DISCLOSURE_HEADERS"

definition disclosure_finding :: "check_context \<Rightarrow> guarded_response \<Rightarrow> (string \<times> string) list \<Rightarrow> raw_finding" where
  "disclosure_finding ctx resp disclosed =
     \<lparr>rf_check_class = ''info_disclosure'', rf_title = ''Server/technology version disclosure in headers'',
      rf_severity = SEV_LOW, rf_confidence = CONF_CERTAIN, rf_cwe = ''CWE-200'',
      rf_description = ''Response discloses technology details: '' @ repr_jv (JDict (header_dict disclosed)) @ ''.'',
      rf_remediation = ''Suppress or genericize Server/X-Powered-By style headers.'',
      rf_evidence = [headers_evidence resp],
      rf_reproduction = [(''method'', JStr ''GET''), (''url'', JStr (ev_url (cc_endpoint ctx))),
        (''detector'', JStr ''headers_disclosure''), (''headers'', JList (map JStr (sort (dkeys disclosed))))],
      rf_dedup_seed = ''disclosure:'' @ repr_list (sort (dkeys disclosed)), rf_endpoint_url = ev_url (cc_endpoint ctx)\<rparr>"

definition headers_findings :: "check_context \<Rightarrow> guarded_response \<Rightarrow> raw_finding list" where
  "headers_findings ctx resp =
     (let gone = expected_missing resp; missing = map (\<lambda>(_, hname, _). hname) gone;
          disclosed = disclosed_headers resp
      in (if missing \<noteq> [] then [missing_finding ctx resp missing (worst_severity (map (\<lambda>(_, _, sev). sev) gone))] else [])
         @ (if disclosed \<noteq> [] then [disclosure_finding ctx resp disclosed] else []))"

definition headers_check :: "'s web \<Rightarrow> 's check" where
  "headers_check web =
     \<lparr>ck_name = ''headers.security'', ck_class = ''security_headers'', ck_intensity = PASSIVE, ck_cwe = ''CWE-693'',
      ck_state_changing = False, ck_applies = (\<lambda>ctx. ret True),
      ck_run = (\<lambda>ctx. if ev_method (cc_endpoint ctx) \<noteq> ''GET'' then ret []
        else bind_act (try_call web (get_call (ev_url (cc_endpoint ctx)) [])) (\<lambda>r.
          ret (case r of None \<Rightarrow> [] | Some resp \<Rightarrow> headers_findings ctx resp)))\<rparr>"

section \<open>Numeric bounds\<close>

definition RANGE_PARAM :: rx where
  "RANGE_PARAM = alts [lit_nocase ''quantity'', lit_nocase ''qty'', lit_nocase ''amount'', lit_nocase ''count'',
     seqs [lit_nocase ''unit'', opt (lit_nocase ''s'')], seqs [lit_nocase ''seat'', opt (lit_nocase ''s'')],
     seqs [lit_nocase ''ticket'', opt (lit_nocase ''s'')], seqs [lit_nocase ''item'', opt (lit_nocase ''s'')],
     lit_nocase ''discount'', lit_nocase ''percent'', lit_nocase ''limit'', lit_nocase ''page'',
     lit_nocase ''per_page'', lit_nocase ''size'', lit_nocase ''offset'']"

definition NUMERIC_TYPES :: "string list" where
  "NUMERIC_TYPES = [''integer'', ''number'', ''int'', ''float'']"

definition OUT_OF_RANGE_VALUES :: "string list" where
  "OUT_OF_RANGE_VALUES = [''-1'', ''0'']"

text \<open>\<open>_echoes_number\<close>, and \<open>_echoes_value\<close> of the validator: the value as a standalone number.\<close>

definition echoes_number :: "string \<Rightarrow> string \<Rightarrow> bool" where
  "echoes_number body v = rx_found (seqs [NotBehind (\<lambda>c. word_char c \<or> c \<in> set ''.-''), lit v,
     NotAhead (\<lambda>c. word_char c \<or> c = CHR ''.'')]) body"

definition range_candidate :: "dict \<Rightarrow> bool" where
  "range_candidate p \<longleftrightarrow> jget_or p ''in'' (JStr ''query'') = JStr ''query'' \<and>
     (rx_found RANGE_PARAM (name_or_empty p) \<or>
      str_lower (str_jv (jget_or p ''type'' (JStr []))) \<in> set NUMERIC_TYPES)"

definition candidate_params :: "check_context \<Rightarrow> dict list" where
  "candidate_params ctx = filter range_candidate (ev_parameters (cc_endpoint ctx))"

definition accepted :: "guarded_response \<Rightarrow> bool" where
  "accepted r \<longleftrightarrow> 200 \<le> gr_status_code r \<and> gr_status_code r < 300"

definition bounds_finding ::
  "check_context \<Rightarrow> string \<Rightarrow> string \<Rightarrow> guarded_response \<Rightarrow> guarded_response \<Rightarrow> raw_finding" where
  "bounds_finding ctx name v baseline resp =
     \<lparr>rf_check_class = ''business_logic'',
      rf_title = ''Missing server-side range validation for '' @ squoted name,
      rf_severity = SEV_MEDIUM, rf_confidence = CONF_HIGH, rf_cwe = ''CWE-20'',
      rf_description = ''Parameter '' @ squoted name @ '' is validated for type (non-numeric input is rejected) ''
        @ ''but not for business range: the value '' @ v @ '' was accepted with status ''
        @ int_str (gr_status_code resp) @ '' and applied in the response. Out-of-range quantities, ''
        @ ''amounts or counts can corrupt totals, pricing or pagination logic.'',
      rf_remediation = ''Enforce business-rule bounds server-side (e.g. quantity >= 1, amounts > 0, ''
        @ ''page >= 1) and reject out-of-range values with a 4xx; never derive totals ''
        @ ''or entitlements from unvalidated client-supplied numbers.'',
      rf_evidence = [full_exchange ''GET'' (''baseline '' @ name @ ''=1 accepted'') baseline,
        full_exchange ''GET'' (''out-of-range '' @ name @ ''='' @ v @ '' accepted and applied'') resp],
      rf_reproduction = [(''method'', JStr ''GET''), (''url'', JStr (ev_url (cc_endpoint ctx))), (''param'', JStr name),
        (''payload'', JStr v), (''baseline_value'', JStr ''1''), (''detector'', JStr ''numeric_bounds'')],
      rf_dedup_seed = ''business_logic:range:'' @ name, rf_endpoint_url = ev_url (cc_endpoint ctx)\<rparr>"

definition bounds_call :: "check_context \<Rightarrow> string \<Rightarrow> string \<Rightarrow> call" where
  "bounds_call ctx name v = get_call (ev_url (cc_endpoint ctx)) [(name, JStr v)]"

fun bounds_values ::
  "'s web \<Rightarrow> check_context \<Rightarrow> string \<Rightarrow> guarded_response \<Rightarrow> string list \<Rightarrow> ('s, raw_finding option) act" where
  "bounds_values web ctx name baseline [] = ret None"
| "bounds_values web ctx name baseline (v # vs) =
     bind_act (try_call web (bounds_call ctx name v)) (\<lambda>r. case r of None \<Rightarrow> ret None
     | Some resp \<Rightarrow>
         if accepted resp \<and> echoes_number (gr_text resp) v then ret (Some (bounds_finding ctx name v baseline resp))
         else bounds_values web ctx name baseline vs)"

definition bounds_probe :: "'s web \<Rightarrow> check_context \<Rightarrow> dict \<Rightarrow> ('s, raw_finding option) act" where
  "bounds_probe web ctx param =
     bind_act (lift_sum (need_name param)) (\<lambda>name.
     bind_act (try_call web (bounds_call ctx name ''1'')) (\<lambda>b. case b of None \<Rightarrow> ret None
     | Some baseline \<Rightarrow>
       if \<not> accepted baseline then ret None
       else bind_act (try_call web (bounds_call ctx name ''abc'')) (\<lambda>t. case t of None \<Rightarrow> ret None
         | Some typed \<Rightarrow>
           if gr_status_code typed < 400 then ret None
           else bounds_values web ctx name baseline OUT_OF_RANGE_VALUES)))"

definition bounds_check :: "'s web \<Rightarrow> 's check" where
  "bounds_check web =
     \<lparr>ck_name = ''business_logic.numeric_bounds'', ck_class = ''business_logic'', ck_intensity = SAFE_ACTIVE,
      ck_cwe = ''CWE-20'', ck_state_changing = False,
      ck_applies = (\<lambda>ctx. ret (ev_method (cc_endpoint ctx) = ''GET'' \<and> candidate_params ctx \<noteq> [])),
      ck_run = (\<lambda>ctx. probe_each (bounds_probe web ctx) (slice_to (cc_max_payloads ctx) (candidate_params ctx)))\<rparr>"

end
