(* ===== verification/Validation.thy ===== *)
theory Validation
  imports Checks_Flow Agents
begin

text \<open>
  \<open>app/services/validation.py\<close>: the independent re-proof of a finding from its recipe, and the
  validating agent of \<open>app/agents/specialists.py\<close>. Recipes are dicts of strings, numbers and lists, as the
  checks write them. The engine for expressions an operator supplies is a parameter: what
  compiling a pattern, case-insensitively, gives to search with, or the exception it raises.
\<close>

type_synonym rx_engine = "string \<Rightarrow> exn + (string \<Rightarrow> bool)"

record validation_outcome =
  vo_outcome :: finding_status
  vo_method :: string
  vo_detail :: string
  vo_evidence :: "(dict \<times> dict) option"

definition verdict :: "finding_status \<Rightarrow> string \<Rightarrow> string \<Rightarrow> validation_outcome" where
  "verdict st m d = \<lparr>vo_outcome = st, vo_method = m, vo_detail = d, vo_evidence = None\<rparr>"

definition replay_evidence :: "guarded_response \<Rightarrow> dict \<times> dict" where
  "replay_evidence resp = response_exchange (gr_request_method resp) (gr_request_body resp) (Some (gr_text resp)) resp"

definition verdict_on :: "finding_status \<Rightarrow> string \<Rightarrow> string \<Rightarrow> guarded_response \<Rightarrow> validation_outcome" where
  "verdict_on st m d resp = (verdict st m d)\<lparr>vo_evidence := Some (replay_evidence resp)\<rparr>"

text \<open>The fields of a recipe: the URL, the key of its parameter, a text with its default.\<close>

definition recipe_url :: "dict \<Rightarrow> string" where
  "recipe_url repro = jstr (jget repro ''url'')"

definition recipe_param :: "dict \<Rightarrow> string" where
  "recipe_param repro = str_jv (jget repro ''param'')"

definition recipe_text :: "dict \<Rightarrow> string \<Rightarrow> string \<Rightarrow> string" where
  "recipe_text repro k dflt = jstr (jget_or repro k (JStr dflt))"

definition replay_call :: "string \<Rightarrow> string \<Rightarrow> dict \<Rightarrow> call" where
  "replay_call method url overrides =
     (if str_upper (if method = [] then ''GET'' else method) = ''GET'' then get_call url overrides
      else (get_call url [])\<lparr>ca_method := method, ca_data := JDict overrides\<rparr>)"

definition replay :: "'s web \<Rightarrow> dict \<Rightarrow> jv \<Rightarrow> ('s, guarded_response) act" where
  "replay web repro v = web (replay_call (recipe_text repro ''method'' ''GET'') (recipe_url repro) [(recipe_param repro, v)])"

definition len_differs :: "guarded_response \<Rightarrow> guarded_response \<Rightarrow> rat \<Rightarrow> bool" where
  "len_differs a b threshold =
     (let la = text_len a; lb = text_len b in
      if max la lb = 0 then False else \<bar>la - lb\<bar> / max la lb > threshold)"

section \<open>SQL injection and reflection\<close>

definition validate_sqli_error :: "'s web \<Rightarrow> dict \<Rightarrow> ('s, validation_outcome) act" where
  "validate_sqli_error web repro =
     bind_act (replay web repro (jget_or repro ''payload'' (JStr [chr 39]))) (\<lambda>resp.
     if rx_found ERROR_RX (gr_text resp)
     then ret (verdict_on CONFIRMED ''independent_replay'' ''DB error signature reproduced independently'' resp)
     else bind_act (replay web repro (JStr [chr 39, chr 34])) (\<lambda>resp2.
       if rx_found ERROR_RX (gr_text resp2)
       then ret (verdict_on CONFIRMED ''independent_replay'' ''DB error reproduced with alternate payload'' resp2)
       else ret (verdict REJECTED ''independent_replay'' ''no DB error signature on independent replay'')))"

definition boolean_verdict :: "guarded_response \<Rightarrow> guarded_response \<Rightarrow> guarded_response \<Rightarrow> validation_outcome" where
  "boolean_verdict baseline r_true r_false =
     (let differs = (gr_status_code r_true \<noteq> gr_status_code r_false \<or> len_differs r_true r_false (3 / 10));
          true_close = (\<not> len_differs r_true baseline (3 / 20))
      in if differs \<and> true_close
         then verdict_on CONFIRMED ''boolean_differential'' ''boolean differential reproduced'' r_true
         else if differs
         then verdict SUSPECTED ''boolean_differential'' ''differential present but weaker than reported''
         else verdict REJECTED ''boolean_differential'' ''no boolean differential on replay'')"

definition validate_sqli_boolean :: "'s web \<Rightarrow> dict \<Rightarrow> ('s, validation_outcome) act" where
  "validate_sqli_boolean web repro =
     bind_act (replay web repro (JStr ''1'')) (\<lambda>baseline.
     bind_act (replay web repro (jget repro ''true_payload'')) (\<lambda>r_true.
     bind_act (replay web repro (jget repro ''false_payload'')) (\<lambda>r_false.
       ret (boolean_verdict baseline r_true r_false))))"

definition validate_sqli :: "'s web \<Rightarrow> dict \<Rightarrow> ('s, validation_outcome) act" where
  "validate_sqli web repro =
     (let detector = jget repro ''detector'' in
      if detector = JStr ''db_error_signature'' then validate_sqli_error web repro
      else if detector = JStr ''boolean_differential'' then validate_sqli_boolean web repro
      else ret (verdict INCONCLUSIVE ''unknown_detector'' (str_jv detector)))"

definition validate_xss :: "'s web \<Rightarrow> dict \<Rightarrow> ('s, validation_outcome) act" where
  "validate_xss web repro =
     (let payload = recipe_text repro ''payload'' []; marker = recipe_text repro ''marker'' [];
          raw = (if marker \<noteq> [] then raw_marker marker else payload);
          escaped = (if marker \<noteq> [] then escaped_marker marker else []) in
      bind_act (replay web repro (JStr payload)) (\<lambda>resp.
        if raw \<noteq> [] \<and> contains_str (gr_text resp) raw \<and> (escaped = [] \<or> \<not> contains_str (gr_text resp) escaped)
        then let ctype = resp_header resp ''content-type'' in
          ret (if \<not> renderable_html_context (gr_status_code resp) ctype
               then verdict_on REJECTED ''independent_replay''
                 (''reflection is in a non-renderable context (status '' @ int_str (gr_status_code resp)
                   @ '', content-type '' @ py_repr ctype @ ''); not executable'') resp
               else verdict_on CONFIRMED ''independent_replay'' ''unescaped reflection reproduced in an HTML response'' resp)
        else if escaped \<noteq> [] \<and> contains_str (gr_text resp) escaped
        then ret (verdict REJECTED ''independent_replay'' ''reflection is HTML-escaped (safe)'')
        else ret (verdict REJECTED ''independent_replay'' ''payload not reflected on replay'')))"

section \<open>Access, bounds, flows and prompts\<close>

definition attacker_session :: "auth_session list \<Rightarrow> string \<Rightarrow> auth_session option" where
  "attacker_session sessions role = List.find (\<lambda>s. au_role_name s = role \<and> \<not> au_expired s) sessions"

definition attacker_verdict :: "dict \<Rightarrow> string \<Rightarrow> string \<Rightarrow> guarded_response \<Rightarrow> validation_outcome" where
  "attacker_verdict repro obj role resp =
     (if shows_object obj resp
      then verdict_on CONFIRMED ''cross_account_session''
        (''role '' @ py_repr role @ '' retrieved object '' @ obj @ '' owned by ''
          @ repr_jv (jget_or repro ''victim_role'' (JStr ''?'')) @ ''; anonymous request did not'') resp
      else if gr_status_code resp \<in> {401, 403, 404}
      then verdict_on REJECTED ''cross_account_session''
        (''object not returned to role '' @ py_repr role @ '' (status '' @ int_str (gr_status_code resp) @ '')'') resp
      else verdict_on INCONCLUSIVE ''cross_account_session''
        (''unexpected status '' @ int_str (gr_status_code resp) @ '' during re-proof'') resp)"

definition unreachable_verdict :: validation_outcome where
  "unreachable_verdict = verdict INCONCLUSIVE ''unreachable'' ''object endpoint unreachable''"

definition validate_bola :: "'s web \<Rightarrow> dict \<Rightarrow> auth_session list \<Rightarrow> ('s, validation_outcome) act" where
  "validate_bola web repro sessions =
     (let url = recipe_url repro; obj = str_jv (jget_or repro ''object_id'' (JStr []));
          role = str_jv (jget_or repro ''attacker_role'' (JStr [])) in
      if url = [] \<or> obj = [] then ret (verdict INCONCLUSIVE ''no_recipe'' ''bola recipe incomplete'')
      else bind_act (try_call web (get_call url [])) (\<lambda>a. case a of None \<Rightarrow> ret unreachable_verdict
        | Some anon \<Rightarrow>
          if shows_object obj anon
          then ret (verdict_on CONFIRMED ''anon_access'' ''object retrievable without authentication'' anon)
          else (case attacker_session sessions role of
              None \<Rightarrow> ret (verdict SUSPECTED ''controlled_access''
                (''no active session for attacker role '' @ py_repr role @ ''; cross-account re-proof not possible''))
            | Some attacker \<Rightarrow>
                bind_act (try_call web ((get_call url [])\<lparr>ca_headers := au_headers attacker\<rparr>)) (\<lambda>r. case r of
                    None \<Rightarrow> ret unreachable_verdict
                  | Some resp \<Rightarrow> ret (attacker_verdict repro obj role resp)))))"

definition validate_business_logic :: "'s web \<Rightarrow> dict \<Rightarrow> ('s, validation_outcome) act" where
  "validate_business_logic web repro =
     (let payload = str_jv (jget_or repro ''payload'' (JStr []));
          baseline_value = str_jv (jget_or repro ''baseline_value'' (JStr ''1''));
          method = str_upper (str_jv (jget_or repro ''method'' (JStr ''GET'')));
          send = (\<lambda>v. web (replay_call method (recipe_url repro) [(recipe_param repro, JStr v)])) in
      if recipe_url repro = [] \<or> \<not> truthy (jget repro ''param'')
      then ret (verdict INCONCLUSIVE ''no_recipe'' ''business-logic recipe incomplete'')
      else bind_act (send baseline_value) (\<lambda>baseline.
           bind_act (send payload) (\<lambda>probe.
             ret (if \<not> accepted baseline
                  then verdict_on INCONCLUSIVE ''numeric_bounds''
                    (''baseline value rejected with '' @ int_str (gr_status_code baseline) @ ''; cannot compare'') baseline
                  else if accepted probe \<and> echoes_number (gr_text probe) payload
                  then verdict_on CONFIRMED ''numeric_bounds''
                    (''out-of-range value '' @ py_repr payload @ '' for '' @ repr_jv (jget repro ''param'') @ '' accepted and applied'') probe
                  else if gr_status_code probe \<ge> 400
                  then verdict_on REJECTED ''numeric_bounds''
                    (''out-of-range value now rejected ('' @ int_str (gr_status_code probe) @ '')'') probe
                  else verdict_on SUSPECTED ''numeric_bounds''
                    ''value accepted but not observably applied in the response'' probe))))"

text \<open>
  The flow again. Here a body that is no JSON object yields nothing: the looser reading of the check
  is not used. The steps end in a verdict or in what they observed.
\<close>

definition json_object :: "string \<Rightarrow> dict" where
  "json_object body = (case json_loads body of Some (JDict d) \<Rightarrow> d | _ \<Rightarrow> [])"

fun take_values ::
  "dict \<Rightarrow> string \<Rightarrow> (string \<times> string) list \<Rightarrow> (string \<times> string) list \<Rightarrow> jv
     \<Rightarrow> string + ((string \<times> string) list \<times> jv)" where
  "take_values data watched [] vars seen_value = Inr (vars, seen_value)"
| "take_values data watched ((var, key) # es) vars seen_value =
     (if jget data key = JNull then Inl key
      else take_values data watched es (dset vars var (str_jv (jget data key)))
             (if var = watched then jget data key else seen_value))"

fun replay_steps ::
  "'s web \<Rightarrow> string \<Rightarrow> string \<Rightarrow> flow_step list \<Rightarrow> (string \<times> string) list \<Rightarrow> jv \<Rightarrow> ('s, validation_outcome + jv) act" where
  "replay_steps web origin watched [] vars seen_value = ret (Inr seen_value)"
| "replay_steps web origin watched (step # ss) vars seen_value =
     bind_act (lift_sum (step_path vars step)) (\<lambda>path.
     bind_act (web (step_call (origin @ path) step)) (\<lambda>resp.
       if gr_status_code resp \<notin> set (fs_expect_status step)
       then ret (Inl (verdict REJECTED ''flow_blocked''
         (''flow step '' @ fs_method step @ '' '' @ path @ '' returned '' @ int_str (gr_status_code resp) @ ''; invariant holds'')))
       else (case take_values (json_object (gr_text resp)) watched (fs_extract step) vars seen_value of
           Inl key \<Rightarrow> ret (Inl (verdict INCONCLUSIVE ''extract_failed'' (''could not read '' @ key)))
         | Inr (vars', seen') \<Rightarrow> replay_steps web origin watched ss vars' seen')))"

definition observed_verdict :: "flow_definition \<Rightarrow> jv \<Rightarrow> validation_outcome" where
  "observed_verdict flow seen_value =
     (if seen_value = JNull then verdict INCONCLUSIVE ''no_value'' ''no invariant value''
      else (case py_float seen_value of
          None \<Rightarrow> verdict INCONCLUSIVE ''no_value'' ''no invariant value''
        | Some numeric \<Rightarrow>
            if numeric > of_int (fl_invariant_max flow)
            then verdict CONFIRMED ''flow_replay'' (fl_invariant_var flow @ ''='' @ float_str numeric
              @ '' exceeds single-use max '' @ int_str (fl_invariant_max flow))
            else verdict REJECTED ''flow_replay'' (fl_invariant_var flow @ ''='' @ float_str numeric @ '' within bounds on re-run'')))"

definition validate_business_flow :: "'s web \<Rightarrow> dict \<Rightarrow> ('s, validation_outcome) act" where
  "validate_business_flow web repro =
     (case List.find (\<lambda>f. JStr (fl_name f) = jget repro ''flow'') FLOWS of
        None \<Rightarrow> ret (verdict INCONCLUSIVE ''no_recipe'' ''flow recipe incomplete'')
      | Some flow \<Rightarrow>
          if jstr (jget repro ''origin'') = [] then ret (verdict INCONCLUSIVE ''no_recipe'' ''flow recipe incomplete'')
          else bind_act (replay_steps web (jstr (jget repro ''origin'')) (fl_invariant_var flow) (fl_steps flow) [] JNull)
            (\<lambda>r. ret (case r of Inl v \<Rightarrow> v | Inr seen_value \<Rightarrow> observed_verdict flow seen_value)))"

definition validate_prompt_injection :: "'s web \<Rightarrow> dict \<Rightarrow> ('s, validation_outcome) act" where
  "validate_prompt_injection web repro =
     (if recipe_url repro = [] \<or> \<not> truthy (jget repro ''param'')
      then ret (verdict INCONCLUSIVE ''no_recipe'' ''prompt-injection recipe incomplete'')
      else
        bind_act (web (get_call (recipe_url repro) [(recipe_param repro, jget_or repro ''baseline'' (JStr ''hello''))])) (\<lambda>baseline.
        bind_act (web (get_call (recipe_url repro) [(recipe_param repro, jget_or repro ''payload'' (JStr []))])) (\<lambda>injection.
          let leaked = new_markers baseline injection in
          ret (if leaked \<noteq> []
               then verdict CONFIRMED ''prompt_injection''
                 (''injection leaked markers not present in baseline: '' @ join_with '', '' leaked)
               else verdict REJECTED ''prompt_injection'' ''no system-prompt/secret leak under injection on re-run''))))"

section \<open>Redirects and headers\<close>

definition validate_open_redirect :: "'s web \<Rightarrow> dict \<Rightarrow> ('s, validation_outcome) act" where
  "validate_open_redirect web repro =
     (let payload = recipe_text repro ''payload'' [] in
      bind_act (catch_act (bind_act (web ((get_call (recipe_url repro) [(recipe_param repro, JStr payload)])\<lparr>ca_max_redirects := 0\<rparr>))
                   (\<lambda>r. ret (Some r)))
                 (\<lambda>e. case e of ScopeViolation _ _ _ \<Rightarrow> ret None | _ \<Rightarrow> raise_exn e)) (\<lambda>g. case g of
        None \<Rightarrow> ret (verdict CONFIRMED ''guard_blocked_redirect''
          ''app attempted redirect to attacker host (blocked at boundary)'')
      | Some resp \<Rightarrow>
          let loc = resp_header resp ''location'' in
          if loc = [] then ret (verdict REJECTED ''location_header'' ''redirect not reproduced'')
          else bind_act (lift_sum (hostname_of loc)) (\<lambda>h.
               bind_act (lift_sum (hostname_of payload)) (\<lambda>h'.
                 ret (if h = h' then verdict_on CONFIRMED ''location_header'' ''Location header points to attacker host'' resp
                      else verdict REJECTED ''location_header'' ''redirect not reproduced'')))))"

definition deterministic_verdict :: validation_outcome where
  "deterministic_verdict = verdict CONFIRMED ''deterministic'' ''header assessment is deterministic from capture''"

definition validate_headers :: "'s web \<Rightarrow> dict \<Rightarrow> ('s, validation_outcome) act" where
  "validate_headers web repro =
     (if recipe_url repro = [] then ret deterministic_verdict
      else bind_act (try_call web (get_call (recipe_url repro) [])) (\<lambda>r. ret (case r of
          None \<Rightarrow> verdict SUSPECTED ''unreachable'' ''could not re-fetch''
        | Some resp \<Rightarrow> verdict_on CONFIRMED ''independent_replay'' ''headers re-seen'' resp)))"

section \<open>Declarative findings\<close>

text \<open>\<open>int(v)\<close>; a string that is no decimal numeral raises.\<close>

fun py_int :: "jv \<Rightarrow> exn + int" where
  "py_int (JInt i) = Inr i"
| "py_int (JBool b) = Inr (if b then 1 else 0)"
| "py_int (JNum r) = Inr (if r < 0 then - floor (- r) else floor r)"
| "py_int (JStr s) =
     (let t = str_strip s; (neg, u) = (case t of c # r \<Rightarrow> if c = CHR ''-'' then (True, r)
            else if c = CHR ''+'' then (False, r) else (False, t) | [] \<Rightarrow> (False, t))
      in if u = [] \<or> \<not> list_all is_digit u
         then Inl (ValueError (''invalid literal for int() with base 10: '' @ py_repr s))
         else Inr (if neg then - digits_val u else digits_val u))"
| "py_int v = Inl (OtherError ''TypeError: int()'')"

definition as_list :: "jv \<Rightarrow> exn + jv list" where
  "as_list v = (case v of JList xs \<Rightarrow> Inr xs | _ \<Rightarrow> Inl (OtherError ''TypeError: not iterable''))"

definition escape_angles :: "string \<Rightarrow> string" where
  "escape_angles s = replace_char (CHR ''>'') ''&gt;'' (replace_char (CHR ''<'') ''&lt;'' s)"

definition validate_status_code :: "'s web \<Rightarrow> dict \<Rightarrow> ('s, validation_outcome) act" where
  "validate_status_code web repro =
     bind_act (lift_sum (sum_bind (as_list (jget_or repro ''trigger_status'' (JList [JInt 500]))) (mapM_sum py_int))) (\<lambda>trigger.
     bind_act (replay web repro (jget_or repro ''payload'' (JStr [chr 39]))) (\<lambda>resp.
       ret (if gr_status_code resp \<in> set trigger
            then verdict_on CONFIRMED ''status_code'' (''status '' @ int_str (gr_status_code resp) @ '' reproduced'') resp
            else verdict REJECTED ''status_code'' ''trigger status not reproduced'')))"

definition compile_all :: "rx_engine \<Rightarrow> jv list \<Rightarrow> exn + (string \<Rightarrow> bool) option" where
  "compile_all engine sigs =
     (if sigs = [] then Inr None
      else sum_bind (mapM_sum as_str sigs) (\<lambda>ss. sum_bind (engine (join_with ''|'' ss)) (\<lambda>rx. Inr (Some rx))))"

definition validate_error_signature :: "rx_engine \<Rightarrow> 's web \<Rightarrow> dict \<Rightarrow> ('s, validation_outcome) act" where
  "validate_error_signature engine web repro =
     bind_act (lift_sum (sum_bind (as_list (jget_or repro ''signatures'' (JList []))) (compile_all engine))) (\<lambda>rx.
     bind_act (replay web repro (jget_or repro ''payload'' (JStr [chr 39]))) (\<lambda>resp.
       ret (if (case rx of None \<Rightarrow> False | Some found \<Rightarrow> found (gr_text resp))
            then verdict_on CONFIRMED ''error_signature'' ''signature reproduced'' resp
            else verdict REJECTED ''error_signature'' ''signature not reproduced'')))"

definition validate_reflection :: "'s web \<Rightarrow> dict \<Rightarrow> ('s, validation_outcome) act" where
  "validate_reflection web repro =
     (let raw = recipe_text repro ''payload'' []; escaped = escape_angles raw in
      bind_act (replay web repro (JStr raw)) (\<lambda>resp.
        if raw \<noteq> [] \<and> contains_str (gr_text resp) raw \<and> (escaped = raw \<or> \<not> contains_str (gr_text resp) escaped)
        then let ctype = resp_header resp ''content-type'' in
          ret (if \<not> renderable_html_context (gr_status_code resp) ctype
               then verdict_on REJECTED ''reflection''
                 (''reflection is in a non-renderable context (status '' @ int_str (gr_status_code resp)
                   @ '', content-type '' @ py_repr ctype @ '')'') resp
               else verdict_on CONFIRMED ''reflection'' ''unescaped reflection reproduced in an HTML response'' resp)
        else ret (verdict REJECTED ''reflection'' ''reflection not reproduced'')))"

definition validate_declarative :: "rx_engine \<Rightarrow> 's web \<Rightarrow> dict \<Rightarrow> ('s, validation_outcome) act" where
  "validate_declarative engine web repro =
     (let detector = jget repro ''detector'' in
      if detector = JStr ''status_code'' then validate_status_code web repro
      else if detector = JStr ''error_signature'' then validate_error_signature engine web repro
      else if detector = JStr ''reflection'' then validate_reflection web repro
      else if detector \<in> set (map JStr [''headers_missing'', ''headers_disclosure'', ''header_presence'', ''header_reflects''])
      then (if recipe_url repro = [] then ret deterministic_verdict
            else bind_act (web (get_call (recipe_url repro) [])) (\<lambda>resp.
              ret (verdict_on CONFIRMED ''header_reobserved'' ''headers re-observed'' resp)))
      else ret (verdict INCONCLUSIVE ''unknown_detector'' (str_jv detector)))"

section \<open>Dispatch\<close>

definition validate_class ::
  "rx_engine \<Rightarrow> 's web \<Rightarrow> string \<Rightarrow> dict \<Rightarrow> auth_session list \<Rightarrow> ('s, validation_outcome) act" where
  "validate_class engine web cls repro sessions =
     (if cls = ''bola'' then validate_bola web repro sessions
      else if cls = ''sqli'' then validate_sqli web repro
      else if cls = ''xss'' then validate_xss web repro
      else if cls = ''open_redirect'' then validate_open_redirect web repro
      else if cls = ''security_headers'' \<or> cls = ''info_disclosure'' then validate_headers web repro
      else if cls = ''business_logic'' then validate_business_logic web repro
      else if cls = ''business_flow'' then validate_business_flow web repro
      else if cls = ''llm_prompt_injection'' then validate_prompt_injection web repro
      else if truthy (jget repro ''detector'') then validate_declarative engine web repro
      else ret (verdict INCONCLUSIVE ''no_validator'' (''no independent validator for '' @ cls)))"

definition validate_finding ::
  "rx_engine \<Rightarrow> 's web \<Rightarrow> string \<Rightarrow> dict \<Rightarrow> auth_session list \<Rightarrow> ('s, validation_outcome) act" where
  "validate_finding engine web cls repro sessions =
     (if repro = [] then ret (verdict INCONCLUSIVE ''no_recipe'' ''finding has no reproduction recipe'')
      else catch_act (validate_class engine web cls repro sessions)
        (\<lambda>e. case e of
           ScopeViolation reason _ _ \<Rightarrow>
             ret (verdict INCONCLUSIVE ''scope_blocked'' (''validation blocked by scope: '' @ reason))
         | TargetUnreachable msg \<Rightarrow> ret (verdict INCONCLUSIVE ''unreachable'' msg)
         | _ \<Rightarrow> raise_exn e))"

text \<open>\<open>ValidationAgent.validate\<close>: the brain may defer the re-proof, which never confirms anything.\<close>

definition agent_validate ::
  "decider \<Rightarrow> string \<Rightarrow> string \<Rightarrow> (exn + int) option \<Rightarrow> dict \<Rightarrow> ('w agent_state, validation_outcome) act
     \<Rightarrow> ('w agent_state, validation_outcome) act" where
  "agent_validate decide ident assessment_id getter extra validator =
     bind_act (consult decide ident ''validator'' (validator_task assessment_id getter extra) ''validate'') (\<lambda>d.
       if bd_action d = ''defer''
       then ret (verdict INCONCLUSIVE ''deferred''
         (take 280 (''validator deferred independent re-proof: '' @ bd_reasoning d)))
       else validator)"

section \<open>Replaying what a check reported\<close>

text \<open>Against a target that answers a call always alike, a computation is its result.\<close>

lemma fixed_call: "fixed_target answer c () = (answer c, ())"
  by (simp add: fixed_target_def)

lemma unit_state: "(s::unit) = ()"
  by simp

lemma try_call_fixed:
  "try_call (fixed_target answer) c () = (Inr (Some resp), ()) \<longleftrightarrow> answer c = Inr resp"
  by (cases "answer c") (auto simp: try_call_def unless_unreachable_def catch_act_def bind_act_def ret_def
      raise_exn_def fixed_call split: exn.splits)

lemmas try_call_fixed_eq = try_call_fixed [THEN iffD2]

lemma probe_each_mem:
  "probe_each probe ps () = (Inr fs, ()) \<Longrightarrow> f \<in> set fs \<Longrightarrow> \<exists>p \<in> set ps. probe p () = (Inr (Some f), ())"
proof (induction ps arbitrary: fs)
  case (Cons p ps)
  then obtain g gs where g: "probe p () = (Inr g, ())" "probe_each probe ps () = (Inr gs, ())"
    "fs = (case g of None \<Rightarrow> gs | Some x \<Rightarrow> x # gs)"
    by (auto simp: bind_act_Inr ret_def)
  then show ?case using Cons by (cases g) auto
qed (simp add: ret_def)

text \<open>A recipe's verdict on a target, when nothing is raised.\<close>

definition replays_as :: "(call \<Rightarrow> exn + guarded_response) \<Rightarrow> raw_finding \<Rightarrow> finding_status set \<Rightarrow> bool" where
  "replays_as answer x outcomes \<longleftrightarrow>
     (\<forall>engine sessions. \<exists>v. validate_finding engine (fixed_target answer) (rf_check_class x) (rf_reproduction x) sessions ()
        = (Inr v, ()) \<and> vo_outcome v \<in> outcomes)"

lemma replays_asI:
  assumes "rf_reproduction x \<noteq> []"
    and "\<And>engine sessions. \<exists>v. validate_class engine (fixed_target answer) (rf_check_class x) (rf_reproduction x) sessions ()
      = (Inr v, ()) \<and> vo_outcome v \<in> outcomes"
  shows "replays_as answer x outcomes"
  unfolding replays_as_def
proof (intro allI)
  fix engine :: rx_engine and sessions
  obtain v where "validate_class engine (fixed_target answer) (rf_check_class x) (rf_reproduction x) sessions () = (Inr v, ())"
    "vo_outcome v \<in> outcomes" using assms(2) by blast
  then show "\<exists>v. validate_finding engine (fixed_target answer) (rf_check_class x) (rf_reproduction x) sessions ()
      = (Inr v, ()) \<and> vo_outcome v \<in> outcomes"
    using assms(1) by (simp add: validate_finding_def)
qed

lemma verdict_simps [simp]:
  "vo_outcome (verdict st m d) = st" "vo_outcome (verdict_on st m d r) = st"
  by (simp_all add: verdict_def verdict_on_def)

lemma replay_probe:
  assumes "str_upper m = m" "m \<noteq> []"
  shows "replay_call m url [(name, JStr v)] = probe_call m url [(name, JStr v)]"
  using assms by (simp add: replay_call_def probe_call_def)

lemma recipe_fields [simp]:
  "recipe_url d = jstr (jget d ''url'')" "recipe_param d = str_jv (jget d ''param'')"
  by (simp_all add: recipe_url_def recipe_param_def)

lemma xss_replays:
  assumes m: "str_upper (ev_method (cc_endpoint ctx)) = ev_method (cc_endpoint ctx)" "ev_method (cc_endpoint ctx) \<noteq> []"
    and token: "token \<noteq> []" and probe: "xss_probe (fixed_target f) (ret token) ctx p () = (Inr (Some x), ())"
  shows "replays_as f x {CONFIRMED}"
proof -
  obtain name resp where name: "need_name p = Inr name"
    and resp: "f (probe_with ctx name (xss_payload token)) = Inr resp"
    and html: "renderable_html_context (gr_status_code resp) (str_lower (resp_header resp ''content-type''))"
    and found: "contains_str (gr_text resp) (raw_marker token)" "\<not> contains_str (gr_text resp) (escaped_marker token)"
    and x: "x = xss_finding ctx name token resp"
    using probe by (auto simp: xss_probe_def bind_act_Inr try_call_fixed split: option.splits if_splits)
  have html': "renderable_html_context (gr_status_code resp) (resp_header resp ''content-type'')"
    using html by (simp add: renderable_html_context_def Let_def split: if_splits)
  show ?thesis
    using resp found html' token unfolding x
    by (intro replays_asI) (simp_all add: xss_finding_def Let_def validate_class_def validate_xss_def replay_def
        recipe_text_def jget_def jget_or_def replay_probe [OF m] probe_with_def bind_act_def raw_marker_def escaped_marker_def fixed_call)
qed

lemma bounds_values_finding:
  "bounds_values (fixed_target f) ctx name b vs () = (Inr (Some x), ()) \<Longrightarrow>
     \<exists>v resp. f (bounds_call ctx name v) = Inr resp \<and> accepted resp \<and> echoes_number (gr_text resp) v \<and>
       x = bounds_finding ctx name v b resp"
  by (induction vs) (auto simp: bind_act_Inr try_call_fixed split: option.splits if_splits)

lemma str_upper_GET: "str_upper ''GET'' = ''GET''"
  by code_simp

lemma bounds_replays:
  assumes probe: "bounds_probe (fixed_target f) ctx p () = (Inr (Some x), ())" and url: "ev_url (cc_endpoint ctx) \<noteq> []"
    and named: "need_name p \<noteq> Inr []"
  shows "replays_as f x {CONFIRMED}"
proof -
  obtain name b where name: "need_name p = Inr name" and b: "f (bounds_call ctx name ''1'') = Inr b" "accepted b"
    and vs: "bounds_values (fixed_target f) ctx name b OUT_OF_RANGE_VALUES () = (Inr (Some x), ())"
    using probe by (auto simp: bounds_probe_def bind_act_Inr try_call_fixed split: option.splits if_splits)
  obtain v resp where resp: "f (bounds_call ctx name v) = Inr resp" "accepted resp" "echoes_number (gr_text resp) v"
    and x: "x = bounds_finding ctx name v b resp"
    using bounds_values_finding [OF vs] by blast
  show ?thesis
    using b resp url name named unfolding x
    by (intro replays_asI) (simp_all add: bounds_finding_def validate_class_def validate_business_logic_def
        jget_def jget_or_def replay_call_def str_upper_GET bounds_call_def bind_act_def fixed_call)
qed

lemma prompt_replays:
  assumes run: "prompt_run (fixed_target f) ctx () = (Inr fs, ())" "x \<in> set fs" and url: "ev_url (cc_endpoint ctx) \<noteq> []"
  shows "replays_as f x {CONFIRMED}"
proof -
  obtain param where p: "prompt_param ctx = Some param" "param \<noteq> []"
    using run by (auto simp: prompt_run_def split: option.split_asm if_split_asm)
  obtain b where b: "f (bounds_call ctx param BASELINE_PROBE) = Inr b"
    using run p by (auto simp: prompt_run_def bind_act_Inr try_call_fixed split: option.split_asm)
  obtain i where i: "f (bounds_call ctx param INJECTION_PROBE) = Inr i"
    using run p b try_call_fixed_eq [where answer = f and resp = b, OF b]
    by (auto simp: prompt_run_def bind_act_Inr try_call_fixed bind_step split: option.split_asm)
  have "fs = (if new_markers b i = [] then [] else [prompt_finding ctx param (new_markers b i) b i])"
    using run(1) p try_call_fixed_eq [where answer = f and resp = b, OF b] try_call_fixed_eq [where answer = f and resp = i, OF i]
    by (simp add: prompt_run_def bind_step Let_def)
  with run(2) have new: "new_markers b i \<noteq> []" and x: "x = prompt_finding ctx param (new_markers b i) b i"
    by (auto split: if_splits)
  show ?thesis
    using b i new url p(2) unfolding x
    by (intro replays_asI) (simp_all add: prompt_finding_def validate_class_def validate_prompt_injection_def
        jget_def jget_or_def bounds_call_def bind_act_def fixed_call)
qed

text \<open>
  C24: the check and the independent validator agree. Against a target that answers the same call always
  alike, whatever the reflection check, the numeric bounds check or the prompt-injection check reports
  is confirmed when the validator replays its recipe: the recipe holds all that is needed, and both
  judge a response alike.
\<close>

theorem reported_findings_confirm:
  assumes c: "c \<in> {xss_check (fixed_target f) (ret token), bounds_check (fixed_target f), prompt_check (fixed_target f)}"
    and run: "ck_run c ctx () = (Inr fs, ())" "x \<in> set fs"
    and m: "str_upper (ev_method (cc_endpoint ctx)) = ev_method (cc_endpoint ctx)" "ev_method (cc_endpoint ctx) \<noteq> []"
    and url: "ev_url (cc_endpoint ctx) \<noteq> []" and token: "token \<noteq> []"
    and named: "\<forall>p \<in> set (ev_parameters (cc_endpoint ctx)). need_name p \<noteq> Inr []"
  shows "\<exists>v. validate_finding engine (fixed_target f) (rf_check_class x) (rf_reproduction x) sessions () = (Inr v, ()) \<and>
     vo_outcome v = CONFIRMED"
proof -
  consider "c = xss_check (fixed_target f) (ret token)" | "c = bounds_check (fixed_target f)" | "c = prompt_check (fixed_target f)"
    using c by blast
  then have "replays_as f x {CONFIRMED}"
  proof cases
    case 1
    then obtain p where "xss_probe (fixed_target f) (ret token) ctx p () = (Inr (Some x), ())"
      using run probe_each_mem by (fastforce simp: xss_check_def)
    then show ?thesis by (rule xss_replays [OF m token])
  next
    case 2
    then obtain p where p: "p \<in> set (slice_to (cc_max_payloads ctx) (candidate_params ctx))"
      "bounds_probe (fixed_target f) ctx p () = (Inr (Some x), ())"
      using run probe_each_mem by (fastforce simp: bounds_check_def)
    then have "p \<in> set (ev_parameters (cc_endpoint ctx))"
      by (auto simp: slice_to_def candidate_params_def dest!: in_set_takeD split: if_splits)
    with p(2) url named show ?thesis by (blast intro: bounds_replays)
  next
    case 3
    with run url show ?thesis by (auto simp: prompt_check_def intro: prompt_replays)
  qed
  then show ?thesis by (auto simp: replays_as_def)
qed

text \<open>The probes of the SQL injection check, each against the target's fixed answer.\<close>

lemma sqli_error_finding_of:
  "sqli_error_probes (fixed_target f) ctx name ps () = (Inr (Some x), ()) \<Longrightarrow>
     \<exists>payload resp. f (probe_with ctx name (''1'' @ payload)) = Inr resp \<and> rx_found ERROR_RX (gr_text resp) \<and>
       x = sqli_error_finding ctx name payload resp"
proof (induction ps)
  case (Cons p ps)
  obtain r where r: "try_call (fixed_target f) (probe_with ctx name (''1'' @ p)) () = (Inr r, ())"
    using Cons.prems by (auto simp: bind_act_Inr)
  have step: "(case r of None \<Rightarrow> sqli_error_probes (fixed_target f) ctx name ps
      | Some resp \<Rightarrow> if rx_found ERROR_RX (gr_text resp) then ret (Some (sqli_error_finding ctx name p resp))
          else sqli_error_probes (fixed_target f) ctx name ps) () = (Inr (Some x), ())"
    using Cons.prems r by (simp add: bind_step)
  show ?case
  proof (cases r)
    case None
    with step Cons.IH show ?thesis by simp
  next
    case (Some resp)
    then have "f (probe_with ctx name (''1'' @ p)) = Inr resp" using r by (simp only: try_call_fixed)
    with step Some Cons.IH show ?thesis by (cases "rx_found ERROR_RX (gr_text resp)") auto
  qed
qed simp

lemma boolean_differs_replays:
  "boolean_differs b t fl \<Longrightarrow> vo_outcome (boolean_verdict b t fl) \<in> {CONFIRMED, SUSPECTED}"
  by (auto simp: boolean_differs_def boolean_verdict_def len_differs_def Let_def split: if_splits)

lemma sqli_boolean_replays:
  assumes m: "str_upper (ev_method (cc_endpoint ctx)) = ev_method (cc_endpoint ctx)" "ev_method (cc_endpoint ctx) \<noteq> []"
    and b: "f (probe_with ctx name ''1'') = Inr b"
    and probe: "sqli_boolean_probe (fixed_target f) ctx name b () = (Inr (Some x), ())"
  shows "replays_as f x {CONFIRMED, SUSPECTED}"
proof -
  obtain t fl where t: "f (probe_with ctx name TRUE_PAYLOAD) = Inr t" and fl: "f (probe_with ctx name FALSE_PAYLOAD) = Inr fl"
    and d: "boolean_differs b t fl" and x: "x = sqli_boolean_finding ctx name t fl"
    using probe by (auto simp: sqli_boolean_probe_def bind_act_Inr try_call_fixed split: option.splits if_splits)
  have "\<exists>v. validate_class engine (fixed_target f) (rf_check_class x) (rf_reproduction x) sessions () = (Inr v, ()) \<and>
      vo_outcome v \<in> {CONFIRMED, SUSPECTED}" for engine sessions
  proof (intro exI conjI)
    show "validate_class engine (fixed_target f) (rf_check_class x) (rf_reproduction x) sessions () = (Inr (boolean_verdict b t fl), ())"
      using b t fl by (simp add: x sqli_boolean_finding_def validate_class_def validate_sqli_def validate_sqli_boolean_def
          replay_def recipe_text_def jget_def jget_or_def replay_probe [OF m] probe_with_def bind_act_def fixed_call)
  qed (rule boolean_differs_replays [OF d])
  then show ?thesis by (intro replays_asI) (simp add: x sqli_boolean_finding_def)
qed

lemma sqli_error_replays:
  assumes m: "str_upper (ev_method (cc_endpoint ctx)) = ev_method (cc_endpoint ctx)" "ev_method (cc_endpoint ctx) \<noteq> []"
    and probe: "sqli_error_probes (fixed_target f) ctx name ps () = (Inr (Some x), ())"
  shows "replays_as f x {CONFIRMED}"
proof -
  obtain payload resp where resp: "f (probe_with ctx name (''1'' @ payload)) = Inr resp" "rx_found ERROR_RX (gr_text resp)"
    and x: "x = sqli_error_finding ctx name payload resp"
    using sqli_error_finding_of [OF probe] by blast
  show ?thesis
    using resp unfolding x
    by (intro replays_asI) (simp_all add: sqli_error_finding_def validate_class_def validate_sqli_def
        validate_sqli_error_def replay_def recipe_text_def jget_def jget_or_def replay_probe [OF m] probe_with_def bind_act_def fixed_call)
qed

lemma sqli_replays:
  assumes m: "str_upper (ev_method (cc_endpoint ctx)) = ev_method (cc_endpoint ctx)" "ev_method (cc_endpoint ctx) \<noteq> []"
    and probe: "sqli_probe (fixed_target f) ctx p () = (Inr (Some x), ())"
  shows "replays_as f x {CONFIRMED, SUSPECTED}"
proof -
  obtain name where name: "need_name p = Inr name"
    using probe by (cases "need_name p") (auto simp: sqli_probe_def bind_act_def)
  obtain b where b: "f (probe_with ctx name ''1'') = Inr b"
    using probe name by (auto simp: sqli_probe_def bind_act_Inr try_call_fixed split: option.split_asm)
  have rest: "bind_act (sqli_error_probes (fixed_target f) ctx name ERROR_PAYLOADS) (\<lambda>g. case g of Some y \<Rightarrow> ret (Some y)
       | None \<Rightarrow> sqli_boolean_probe (fixed_target f) ctx name b) () = (Inr (Some x), ())"
    using probe name try_call_fixed_eq [where answer = f and resp = b, OF b] by (simp add: sqli_probe_def bind_step)
  then obtain g where g: "sqli_error_probes (fixed_target f) ctx name ERROR_PAYLOADS () = (Inr g, ())"
    by (auto simp: bind_act_Inr)
  show ?thesis
  proof (cases g)
    case None
    with rest g have "sqli_boolean_probe (fixed_target f) ctx name b () = (Inr (Some x), ())" by (simp add: bind_step)
    with m b show ?thesis by (rule sqli_boolean_replays)
  next
    case (Some y)
    with rest g have "sqli_error_probes (fixed_target f) ctx name ERROR_PAYLOADS () = (Inr (Some x), ())" by (simp add: bind_step)
    from sqli_error_replays [OF m this] show ?thesis by (auto simp: replays_as_def)
  qed
qed

text \<open>
  The validator never refutes an SQL injection the check reports on the same target. Against a
  target that answers the same call always alike, replaying the recipe of a reported SQL injection,
  error-based or boolean, ends in confirmed or suspected: the validator's thresholds on response
  lengths are never stricter than the check's.
\<close>

theorem sqli_never_refuted:
  assumes run: "ck_run (sqli_check (fixed_target f)) ctx () = (Inr fs, ())" "x \<in> set fs"
    and m: "str_upper (ev_method (cc_endpoint ctx)) = ev_method (cc_endpoint ctx)" "ev_method (cc_endpoint ctx) \<noteq> []"
  shows "\<exists>v. validate_finding engine (fixed_target f) (rf_check_class x) (rf_reproduction x) sessions () = (Inr v, ()) \<and>
     vo_outcome v \<in> {CONFIRMED, SUSPECTED}"
proof -
  obtain p where "sqli_probe (fixed_target f) ctx p () = (Inr (Some x), ())"
    using run probe_each_mem by (fastforce simp: sqli_check_def)
  from sqli_replays [OF m this] show ?thesis by (simp add: replays_as_def)
qed

section \<open>Concrete targets\<close>

definition demo_ctx :: "string \<Rightarrow> dict list \<Rightarrow> auth_session list \<Rightarrow> check_context" where
  "demo_ctx template params sessions =
     \<lparr>cc_endpoint = \<lparr>ev_id = ''e'', ev_method = ''GET'', ev_url = ''http://h/a'', ev_path_template = template,
        ev_parameters = params, ev_request_body_schema = [], ev_auth_required = False, ev_fingerprint = ''f''\<rparr>,
      cc_intensity = SAFE_ACTIVE, cc_base_url = ''http://h'', cc_sessions = sessions, cc_max_payloads = 24\<rparr>"

definition demo_param :: "string \<Rightarrow> dict" where
  "demo_param n = [(''name'', JStr n), (''in'', JStr ''query'')]"

definition demo_answer :: "int \<Rightarrow> string \<Rightarrow> guarded_response" where
  "demo_answer status text = \<lparr>gr_status_code = status, gr_headers = [(''content-type'', ''text/html'')],
     gr_text = text, gr_elapsed_ms = 1, gr_url = ''http://h/a'', gr_request_method = ''GET'', gr_request_headers = [],
     gr_request_body = None\<rparr>"

text \<open>A target that echoes its first parameter, and one that answers an odd quote with a database error.\<close>

definition echo_target :: "call \<Rightarrow> exn + guarded_response" where
  "echo_target c = Inr (demo_answer 200 (case ca_params c of [] \<Rightarrow> [] | (_, v) # _ \<Rightarrow> jstr v))"

definition sql_target :: "call \<Rightarrow> exn + guarded_response" where
  "sql_target c = Inr (demo_answer 200 (case ca_params c of [] \<Rightarrow> [] | (_, v) # _ \<Rightarrow>
     if contains_str (jstr v) [chr 39] then ''sqlite_error'' else ''ok''))"

lemma echo_run:
  "let r = ck_run (xss_check (fixed_target echo_target) (ret ''ab'')) (demo_ctx ''/a'' [demo_param ''q''] []) ()
   in \<not> isl (fst r) \<and> length (projr (fst r)) = 1"
  by code_simp

lemma sql_run:
  "let r = ck_run (sqli_check (fixed_target sql_target)) (demo_ctx ''/a'' [demo_param ''q''] []) ()
   in \<not> isl (fst r) \<and> length (projr (fst r)) = 1"
  by code_simp

lemma run_result:
  fixes m :: "(unit, 'a list) act"
  assumes "let r = m () in \<not> isl (fst r) \<and> length (projr (fst r)) = 1"
  shows "\<exists>x. m () = (Inr [x], ())"
  using assms by (cases "m ()"; cases "fst (m ())") (auto simp: length_Suc_conv)

theorem reported_findings_confirm_witness:
  "\<exists>x v. ck_run (xss_check (fixed_target echo_target) (ret ''ab'')) (demo_ctx ''/a'' [demo_param ''q''] []) () = (Inr [x], ()) \<and>
     validate_finding (\<lambda>_. Inr (\<lambda>_. False)) (fixed_target echo_target) (rf_check_class x) (rf_reproduction x) [] () = (Inr v, ()) \<and>
     vo_outcome v = CONFIRMED"
proof -
  let ?c = "xss_check (fixed_target echo_target) (ret ''ab'')" and ?ctx = "demo_ctx ''/a'' [demo_param ''q''] []"
  have "\<exists>x. ck_run ?c ?ctx () = (Inr [x], ())" by (rule run_result, rule echo_run)
  then obtain x where x: "ck_run ?c ?ctx () = (Inr [x], ())" by blast
  have m: "str_upper (ev_method (cc_endpoint ?ctx)) = ev_method (cc_endpoint ?ctx)" "ev_method (cc_endpoint ?ctx) \<noteq> []"
    "ev_url (cc_endpoint ?ctx) \<noteq> []" by code_simp+
  have "\<forall>p \<in> set (ev_parameters (cc_endpoint ?ctx)). need_name p \<noteq> Inr []"
    by (simp add: demo_ctx_def demo_param_def need_name_def)
  from reported_findings_confirm [of ?c echo_target "''ab''" ?ctx "[x]" x, OF _ x _ m _ this] x show ?thesis by fastforce
qed

theorem sqli_never_refuted_witness:
  "\<exists>x v. ck_run (sqli_check (fixed_target sql_target)) (demo_ctx ''/a'' [demo_param ''q''] []) () = (Inr [x], ()) \<and>
     validate_finding (\<lambda>_. Inr (\<lambda>_. False)) (fixed_target sql_target) (rf_check_class x) (rf_reproduction x) [] () = (Inr v, ()) \<and>
     vo_outcome v \<in> {CONFIRMED, SUSPECTED}"
proof -
  let ?ctx = "demo_ctx ''/a'' [demo_param ''q''] []"
  have "\<exists>x. ck_run (sqli_check (fixed_target sql_target)) ?ctx () = (Inr [x], ())" by (rule run_result, rule sql_run)
  then obtain x where x: "ck_run (sqli_check (fixed_target sql_target)) ?ctx () = (Inr [x], ())" by blast
  have m: "str_upper (ev_method (cc_endpoint ?ctx)) = ev_method (cc_endpoint ?ctx)" "ev_method (cc_endpoint ?ctx) \<noteq> []"
    by code_simp+
  from sqli_never_refuted [OF x _ m] x show ?thesis by fastforce
qed

text \<open>A target that shows an object to the attacker's account when the query names it, and 404 otherwise.\<close>

definition object_target :: "call \<Rightarrow> exn + guarded_response" where
  "object_target c = Inr (if ca_params c = [(''doc_id'', JStr ''77'')] \<and> ca_headers c \<noteq> []
     then demo_answer 200 ''document 77'' else demo_answer 404 ''not found'')"

definition demo_session :: "string \<Rightarrow> jv list \<Rightarrow> auth_session" where
  "demo_session role owned = \<lparr>au_role_name = role, au_label = role, au_headers = [(''Authorization'', JStr role)],
     au_cookies = [], au_owns_object_ids = owned, au_expired = False\<rparr>"

definition demo_sessions :: "auth_session list" where
  "demo_sessions = [demo_session ''a'' [], demo_session ''b'' [JStr ''77'']]"

text \<open>
  The recipe of a cross-account finding loses the object when it is named in the query. On a target
  that answers the same call always alike, the check reports account a reading account b's object
  through a query parameter, and the validator, given the same sessions, rejects it: the recipe keeps
  the URL but not the query the check sent.
\<close>

theorem bola_query_recipe_refuted:
  "case ck_run (bola_check (fixed_target object_target)) (demo_ctx ''/a'' [demo_param ''doc_id''] demo_sessions) () of
     (Inr [x], _) \<Rightarrow>
       (case validate_finding (\<lambda>_. Inr (\<lambda>_. False)) (fixed_target object_target) (rf_check_class x) (rf_reproduction x)
               demo_sessions () of
          (Inr v, _) \<Rightarrow> vo_outcome v = REJECTED
        | _ \<Rightarrow> False)
   | _ \<Rightarrow> False"
  by code_simp

section \<open>Redirects the guard blocks\<close>

lemma send_once_violation:
  assumes "send_once w m url ips hs ps data json c = (Inl (ScopeViolation a b d), c')"
  shows "cl_sent c' = cl_sent c"
proof (cases "build_pinned w m url ips hs ps data json")
  case (Inl e)
  with assms show ?thesis by (auto simp: send_once_def bind_act_def)
next
  case (Inr req)
  with assms show ?thesis
    by (cases "wd_send w (cl_tick c) req") (auto simp: send_once_def bind_act_def observe_def)
qed

text \<open>Without redirects to follow, only the gates in front of the first send raise a scope violation.\<close>

lemma first_hop_violation:
  assumes "request w m url hs ps data json 0 c = (Inl (ScopeViolation a b d), c')"
  shows "cl_sent c' = cl_sent c"
  using request_cases [OF assms]
proof (elim disjE exE conjE)
  fix dc c1 c2
  assume c2: "cl_sent c2 = cl_sent c"
    and f: "follow w (nat 0) m url (decision_ips dc) hs ps data json c2 = (Inl (ScopeViolation a b d), c')"
  obtain r3 c3 where s: "send_once w m url (decision_ips dc) hs ps data json (c2\<lparr>cl_tick := Suc (cl_tick c2)\<rparr>) = (r3, c3)"
    by fastforce
  have "r3 = Inl (ScopeViolation a b d) \<and> c' = c3"
    using f s unfolding follow.simps [of w "nat 0"]
    by (cases r3) (auto simp: bind_act_def observe_def Let_def split: option.splits if_splits)
  with send_once_violation [of w m url "decision_ips dc" hs ps data json "c2\<lparr>cl_tick := Suc (cl_tick c2)\<rparr>" a b d c3] s c2
  show ?thesis by simp
qed (simp add: quiet_def)

text \<open>
  An open redirect confirmed because the guard blocked it was never observed. When the validator,
  on the guarded client, confirms a finding with the method guard_blocked_redirect, nothing was sent:
  it asks for no redirect to be followed, so only the gates before the request can have raised. The
  same finding of the check carries no evidence, and the specialist drops it.
\<close>

theorem blocked_redirect_unobserved:
  assumes "validate_open_redirect (guarded_web w) repro c = (Inr v, c')" "vo_method v = ''guard_blocked_redirect''"
  shows "vo_outcome v = CONFIRMED \<and> cl_sent c' = cl_sent c \<and>
     \<not> keep_finding (redirect_finding ctx name CANARY True [])"
proof -
  let ?c = "(get_call (recipe_url repro) [(recipe_param repro, JStr (recipe_text repro ''payload'' []))])\<lparr>ca_max_redirects := 0\<rparr>"
  obtain r c1 where req: "guarded_web w ?c c = (r, c1)" by fastforce
  have "\<exists>a b d. r = Inl (ScopeViolation a b d)"
  proof (cases r)
    case (Inr resp)
    with assms req show ?thesis
      by (auto simp: validate_open_redirect_def bind_act_def catch_act_def verdict_def verdict_on_def Let_def
          split: if_splits sum.splits)
  next
    case (Inl e)
    with assms(1) req show ?thesis
      by (cases e) (auto simp: validate_open_redirect_def bind_act_def catch_act_def Let_def)
  qed
  then obtain a b d where r: "r = Inl (ScopeViolation a b d)" by blast
  have "cl_sent c1 = cl_sent c"
    using req unfolding r guarded_web_def by (simp add: get_call_def) (rule first_hop_violation)
  moreover have "c' = c1 \<and> vo_outcome v = CONFIRMED"
    using assms(1) req r by (auto simp: validate_open_redirect_def bind_act_def catch_act_def verdict_def Let_def)
  ultimately show ?thesis by (simp add: keep_finding_def redirect_finding_def)
qed

text \<open>The guard knows nothing of this host, so the gates stop the request.\<close>

definition stray_recipe :: dict where
  "stray_recipe = [(''url'', JStr ''http://elsewhere.test/go''), (''param'', JStr ''next''), (''payload'', JStr CANARY)]"

theorem blocked_redirect_unobserved_witness:
  "\<exists>v c'. validate_open_redirect (guarded_web demo_world) stray_recipe demo_client = (Inr v, c') \<and>
     vo_outcome v = CONFIRMED \<and> cl_sent c' = cl_sent demo_client"
proof -
  let ?r = "validate_open_redirect (guarded_web demo_world) stray_recipe demo_client"
  have "case fst ?r of Inr v \<Rightarrow> vo_method v = ''guard_blocked_redirect'' | Inl e \<Rightarrow> False"
    by code_simp
  then obtain v where v: "fst ?r = Inr v" "vo_method v = ''guard_blocked_redirect''" by (cases "fst ?r") auto
  then have "?r = (Inr v, snd ?r)" by (metis prod.collapse)
  with blocked_redirect_unobserved [OF this v(2), of undefined undefined] show ?thesis by blast
qed

end
