(* ===== verification/Regression.thy ===== *)
theory Regression
  imports Validation
begin

text \<open>
  \<open>app/services/regression.py\<close>: regression tests built from confirmed findings, and their execution.
\<close>

definition regression_assertion :: "string \<Rightarrow> string" where
  "regression_assertion cls =
     (case dget [(''sqli'', ''no DB error signature and no boolean differential''),
        (''xss'', ''payload is not reflected unescaped''),
        (''open_redirect'', ''no redirect to attacker-controlled host''),
        (''bola'', ''cross-account object access is denied''),
        (''security_headers'', ''required security headers present''),
        (''info_disclosure'', ''no version disclosure headers'')] cls of
      None \<Rightarrow> ''vulnerability no longer reproduces'' | Some a \<Rightarrow> a)"

definition build_regression_definition :: "string \<Rightarrow> dict \<Rightarrow> string \<Rightarrow> dict" where
  "build_regression_definition cls reproduction title =
     [(''check_class'', JStr cls), (''title'', JStr (''Regression: '' @ title)), (''reproduction'', JDict reproduction),
      (''assertion'', JStr (regression_assertion cls)), (''version'', JStr ''1.0'')]"

record regression_result =
  rg_status :: string
  rg_detail :: string
  rg_evidence :: "(dict \<times> dict) option"

definition regressed :: "string \<Rightarrow> string \<Rightarrow> regression_result" where
  "regressed st d = \<lparr>rg_status = st, rg_detail = d, rg_evidence = None\<rparr>"

definition regressed_on :: "string \<Rightarrow> string \<Rightarrow> guarded_response \<Rightarrow> regression_result" where
  "regressed_on st d resp = (regressed st d)\<lparr>rg_evidence := Some (replay_evidence resp)\<rparr>"

definition regress_sqli :: "'s web \<Rightarrow> dict \<Rightarrow> ('s, regression_result) act" where
  "regress_sqli web repro =
     (if jget repro ''detector'' = JStr ''db_error_signature''
      then bind_act (replay web repro (jget_or repro ''payload'' (JStr [chr 39]))) (\<lambda>resp.
        ret (if rx_found ERROR_RX (gr_text resp) then regressed_on ''still_vulnerable'' ''DB error still reproduces'' resp
             else regressed_on ''fixed'' ''no DB error signature; injection appears remediated'' resp))
      else
        bind_act (replay web repro (JStr ''1'')) (\<lambda>baseline.
        bind_act (replay web repro (jget repro ''true_payload'')) (\<lambda>r_true.
        bind_act (replay web repro (jget repro ''false_payload'')) (\<lambda>r_false.
          let differs = (gr_status_code r_true \<noteq> gr_status_code r_false \<or> len_differs r_true r_false (3 / 10)) in
          ret (if differs \<and> \<not> len_differs r_true baseline (3 / 20)
               then regressed_on ''still_vulnerable'' ''boolean differential still present'' r_true
               else regressed_on ''fixed'' ''boolean differential gone'' r_true)))))"

definition regress_xss :: "'s web \<Rightarrow> dict \<Rightarrow> ('s, regression_result) act" where
  "regress_xss web repro =
     (let payload = recipe_text repro ''payload'' []; marker = recipe_text repro ''marker'' [];
          raw = (if marker \<noteq> [] then raw_marker marker else payload);
          escaped = (if marker \<noteq> [] then escaped_marker marker else []) in
      bind_act (replay web repro (JStr payload)) (\<lambda>resp.
        ret (if renderable_html_context (gr_status_code resp) (resp_header resp ''content-type'') \<and> raw \<noteq> [] \<and>
                contains_str (gr_text resp) raw \<and> (escaped = [] \<or> \<not> contains_str (gr_text resp) escaped)
             then regressed_on ''still_vulnerable'' ''payload still reflected unescaped'' resp
             else regressed_on ''fixed'' ''payload no longer reflected unescaped in an HTML response'' resp)))"

definition regress_open_redirect :: "'s web \<Rightarrow> dict \<Rightarrow> ('s, regression_result) act" where
  "regress_open_redirect web repro =
     (let payload = recipe_text repro ''payload'' [] in
      bind_act (catch_act (bind_act (web ((get_call (recipe_url repro) [(recipe_param repro, JStr payload)])\<lparr>ca_max_redirects := 0\<rparr>))
                   (\<lambda>r. ret (Some r)))
                 (\<lambda>e. case e of ScopeViolation _ _ _ \<Rightarrow> ret None | _ \<Rightarrow> raise_exn e)) (\<lambda>g. case g of
        None \<Rightarrow> ret (regressed ''still_vulnerable'' ''app still redirects to attacker host'')
      | Some resp \<Rightarrow>
          let loc = resp_header resp ''location'' in
          if loc = [] then ret (regressed_on ''fixed'' ''redirect no longer honored'' resp)
          else bind_act (lift_sum (hostname_of loc)) (\<lambda>h.
               bind_act (lift_sum (hostname_of payload)) (\<lambda>h'.
                 ret (if h = h' then regressed_on ''still_vulnerable'' ''still redirects to attacker host'' resp
                      else regressed_on ''fixed'' ''redirect no longer honored'' resp)))))"

definition regress_headers :: "'s web \<Rightarrow> dict \<Rightarrow> ('s, regression_result) act" where
  "regress_headers web repro =
     (if recipe_url repro = [] then ret (regressed ''inconclusive'' ''no url in recipe'')
      else bind_act (web (get_call (recipe_url repro) [])) (\<lambda>resp.
        ret (regressed_on ''inconclusive'' ''re-observe headers manually'' resp)))"

definition regress_class :: "'s web \<Rightarrow> string \<Rightarrow> dict \<Rightarrow> ('s, regression_result) act" where
  "regress_class web cls repro =
     (if cls = ''sqli'' then regress_sqli web repro
      else if cls = ''xss'' then regress_xss web repro
      else if cls = ''open_redirect'' then regress_open_redirect web repro
      else if cls \<in> {''security_headers'', ''info_disclosure''} then regress_headers web repro
      else if cls = ''bola'' then ret (regressed ''inconclusive'' ''BOLA regression requires session context'')
      else ret (regressed ''inconclusive'' (''no regression runner for '' @ cls)))"

definition run_regression :: "'s web \<Rightarrow> dict \<Rightarrow> ('s, regression_result) act" where
  "run_regression web def =
     (let cls = str_jv (jget def ''check_class''); repro = (case jget def ''reproduction'' of JDict d \<Rightarrow> d | _ \<Rightarrow> []) in
      catch_act (regress_class web cls repro)
        (\<lambda>e. case e of
           ScopeViolation reason _ _ \<Rightarrow> ret (regressed ''inconclusive'' (''blocked by scope: '' @ reason))
         | TargetUnreachable msg \<Rightarrow> ret (regressed ''inconclusive'' (''unreachable: '' @ msg))
         | _ \<Rightarrow> raise_exn e))"

section \<open>Regression and validation judge alike\<close>

text \<open>
  Two computations that make the same calls: they end in the same state, raise the same exception or
  return results that are related.
\<close>

definition same_run :: "('a \<Rightarrow> 'b \<Rightarrow> bool) \<Rightarrow> (exn + 'a) \<times> 's \<Rightarrow> (exn + 'b) \<times> 's \<Rightarrow> bool" where
  "same_run Q a b \<longleftrightarrow> snd a = snd b \<and>
     (case (fst a, fst b) of (Inr x, Inr y) \<Rightarrow> Q x y | (Inl e, Inl e') \<Rightarrow> e = e' | _ \<Rightarrow> False)"

lemma same_run_bind:
  assumes "\<And>x s. same_run Q (f x s) (g x s)"
  shows "same_run Q (bind_act m f s) (bind_act m g s)"
proof -
  obtain r s' where "m s = (r, s')" by fastforce
  then show ?thesis using assms by (cases r) (simp_all add: bind_act_def same_run_def)
qed

lemma same_run_ret: "Q x y \<Longrightarrow> same_run Q (ret x s) (ret y s)"
  by (simp add: same_run_def)

definition agree :: "validation_outcome \<Rightarrow> regression_result \<Rightarrow> bool" where
  "agree v r \<longleftrightarrow> (vo_outcome v = CONFIRMED \<longleftrightarrow> rg_status r = ''still_vulnerable'')"

lemma regressed_simps [simp]:
  "rg_status (regressed st d) = st" "rg_status (regressed_on st d r) = st"
  by (simp_all add: regressed_def regressed_on_def)

text \<open>
  A regression test passes exactly when the validator would not confirm. Replaying the recipe of a
  reflection finding or of a boolean SQL injection, on any client in any state, the regression runner
  makes the same calls as the validator, raises what it raises, and says still_vulnerable exactly when
  the validator says confirmed.
\<close>

theorem regression_agrees_with_validation:
  "same_run agree (validate_xss web repro s) (regress_xss web repro s) \<and>
   same_run agree (validate_sqli_boolean web repro s)
     (regress_sqli web (dset repro ''detector'' (JStr ''boolean_differential'')) s)"
proof
  show "same_run agree (validate_xss web repro s) (regress_xss web repro s)"
    unfolding validate_xss_def regress_xss_def Let_def
    by (rule same_run_bind) (simp add: same_run_def agree_def)
next
  have fields: "replay web (dset repro ''detector'' (JStr d)) v = replay web repro v" for v d
    by (simp add: replay_def recipe_text_def recipe_url_def recipe_param_def jget_def jget_or_def dget_dset)
  have jd: "jget (dset repro ''detector'' v) k = (if k = ''detector'' then v else jget repro k)" for v k
    by (simp add: jget_def dget_dset)
  show "same_run agree (validate_sqli_boolean web repro s)
     (regress_sqli web (dset repro ''detector'' (JStr ''boolean_differential'')) s)"
    unfolding validate_sqli_boolean_def regress_sqli_def Let_def
    by (simp add: jd fields)
      (intro same_run_bind, simp add: same_run_def agree_def boolean_verdict_def Let_def)
qed

end
