(* ===== verification/Declarative.thy ===== *)
theory Declarative
  imports Validation
begin

text \<open>
  \<open>app/checks/declarative.py\<close>: checks whose behaviour is a manifest. The engine for the expressions of
  a manifest is the parameter of \<open>Validation\<close>. Field values that are no strings are printed with
  \<open>str\<close>, as the code does.
\<close>

definition DETECTOR_TYPES :: "string list" where
  "DETECTOR_TYPES = [''error_signature'', ''reflection'', ''status_code'', ''header_missing'', ''header_present'',
     ''header_reflects'']"

definition manifest_is_executable :: "dict \<Rightarrow> bool" where
  "manifest_is_executable manifest =
     (case jget manifest ''detector'' of JDict d \<Rightarrow> jget d ''type'' \<in> JStr ` set DETECTOR_TYPES | _ \<Rightarrow> False)"

definition text_field :: "dict \<Rightarrow> string \<Rightarrow> string \<Rightarrow> string" where
  "text_field d k dflt = str_jv (jget_or d k (JStr dflt))"

record declarative =
  dc_name :: string
  dc_class :: string
  dc_intensity :: test_intensity
  dc_cwe :: string
  dc_state_changing :: bool
  dc_allowed_environments :: "string list"
  dc_detector :: dict
  dc_severity :: severity
  dc_confidence :: confidence
  dc_title :: string
  dc_description :: string
  dc_remediation :: string

definition intensity_or_passive :: "string \<Rightarrow> test_intensity" where
  "intensity_or_passive v = (case test_intensity_of v of Some i \<Rightarrow> i | None \<Rightarrow> PASSIVE)"

definition severity_or_medium :: "string \<Rightarrow> severity" where
  "severity_or_medium v = (case severity_of v of Some s \<Rightarrow> s | None \<Rightarrow> SEV_MEDIUM)"

definition confidence_or_medium :: "string \<Rightarrow> confidence" where
  "confidence_or_medium v = (case confidence_of v of Some c \<Rightarrow> c | None \<Rightarrow> CONF_MEDIUM)"

text \<open>The items of a list field; a string iterates over its characters, and any other scalar raises.\<close>

definition iter_items :: "jv \<Rightarrow> exn + jv list" where
  "iter_items v = (case v of JList xs \<Rightarrow> Inr xs | JDict d \<Rightarrow> Inr (map (JStr \<circ> fst) d)
     | JStr s \<Rightarrow> Inr (map (\<lambda>c. JStr [c]) s) | _ \<Rightarrow> Inl (OtherError ''TypeError: not iterable''))"

definition allowed_envs :: "jv \<Rightarrow> exn + string list" where
  "allowed_envs v =
     (if \<not> truthy v then Inr []
      else sum_bind (iter_items v) (\<lambda>es. Inr (map (\<lambda>e. str_lower (str_jv e)) (filter (\<lambda>e. str_strip (str_jv e) \<noteq> []) es))))"

definition new_declarative :: "dict \<Rightarrow> exn + declarative" where
  "new_declarative m =
     sum_bind (allowed_envs (jget m ''allowed_environments'')) (\<lambda>envs.
       Inr \<lparr>dc_name = text_field m ''name'' ''declarative.unnamed'',
            dc_class = text_field m ''check_class'' ''info_disclosure'',
            dc_intensity = intensity_or_passive (text_field m ''intensity'' ''passive''),
            dc_cwe = text_field m ''cwe'' [], dc_state_changing = truthy (jget m ''state_changing''),
            dc_allowed_environments = envs,
            dc_detector = (case jget m ''detector'' of JDict d \<Rightarrow> d | _ \<Rightarrow> []),
            dc_severity = severity_or_medium (text_field m ''severity'' ''medium''),
            dc_confidence = confidence_or_medium (text_field m ''confidence'' ''medium''),
            dc_title = text_field m ''title'' (text_field m ''name'' ''declarative.unnamed''),
            dc_description = text_field m ''description'' [], dc_remediation = text_field m ''remediation'' []\<rparr>)"

text \<open>\<open>build_declarative_check\<close>: None for a manifest that cannot run or whose fields make the constructor raise.\<close>

definition build_declarative_check :: "dict \<Rightarrow> declarative option" where
  "build_declarative_check manifest =
     (if \<not> manifest_is_executable manifest then None
      else (case new_declarative manifest of Inl e \<Rightarrow> None | Inr c \<Rightarrow> Some c))"

definition is_header_detector :: "jv \<Rightarrow> bool" where
  "is_header_detector t \<longleftrightarrow> t \<in> JStr ` set [''header_missing'', ''header_present'', ''header_reflects'']"

definition declarative_applies :: "declarative \<Rightarrow> check_context \<Rightarrow> bool" where
  "declarative_applies c ctx =
     (if is_header_detector (jget (dc_detector c) ''type'') then ev_method (cc_endpoint ctx) = ''GET''
      else injectable_params ctx \<noteq> [] \<or> contains_str (ev_path_template (cc_endpoint ctx)) ''{id}'')"

definition declarative_finding ::
  "declarative \<Rightarrow> check_context \<Rightarrow> guarded_response \<Rightarrow> string \<Rightarrow> string \<Rightarrow> dict \<Rightarrow> raw_finding" where
  "declarative_finding c ctx resp note seed repro =
     \<lparr>rf_check_class = dc_class c, rf_title = dc_title c, rf_severity = dc_severity c, rf_confidence = dc_confidence c,
      rf_cwe = dc_cwe c, rf_description = (if dc_description c \<noteq> [] then dc_description c else note),
      rf_remediation = dc_remediation c,
      rf_evidence = [full_exchange (ev_method (cc_endpoint ctx)) note resp],
      rf_reproduction = dset repro ''declarative'' (JStr (dc_name c)),
      rf_dedup_seed = ''declarative:'' @ dc_name c @ '':'' @ seed, rf_endpoint_url = ev_url (cc_endpoint ctx)\<rparr>"

definition payload_texts :: "declarative \<Rightarrow> check_context \<Rightarrow> exn + string list" where
  "payload_texts c ctx = sum_bind (iter_items (jget_or (dc_detector c) ''payloads'' (JList [JStr [chr 39]]))) (\<lambda>ps.
     Inr (slice_to (cc_max_payloads ctx) (map str_jv ps)))"

text \<open>Every parameter with every payload, in order, until one response hits.\<close>

fun try_payloads ::
  "'s web \<Rightarrow> check_context \<Rightarrow> string \<Rightarrow> (guarded_response \<Rightarrow> bool) \<Rightarrow> string list
     \<Rightarrow> ('s, (string \<times> guarded_response) option) act" where
  "try_payloads web ctx name hit [] = ret None"
| "try_payloads web ctx name hit (payload # ps) =
     bind_act (web (probe_with ctx name payload)) (\<lambda>resp.
       if hit resp then ret (Some (payload, resp)) else try_payloads web ctx name hit ps)"

fun try_params ::
  "'s web \<Rightarrow> check_context \<Rightarrow> (guarded_response \<Rightarrow> bool) \<Rightarrow> string list \<Rightarrow> dict list
     \<Rightarrow> ('s, (string \<times> string \<times> guarded_response) option) act" where
  "try_params web ctx hit payloads [] = ret None"
| "try_params web ctx hit payloads (p # ps) =
     bind_act (lift_sum (need_name p)) (\<lambda>name.
     bind_act (try_payloads web ctx name hit payloads) (\<lambda>r. case r of
        Some (payload, resp) \<Rightarrow> ret (Some (name, payload, resp))
      | None \<Rightarrow> try_params web ctx hit payloads ps))"

definition injection_repro :: "check_context \<Rightarrow> string \<Rightarrow> string \<Rightarrow> string \<Rightarrow> string \<Rightarrow> jv \<Rightarrow> dict" where
  "injection_repro ctx name payload detector k v =
     [(''method'', JStr (ev_method (cc_endpoint ctx))), (''url'', JStr (ev_url (cc_endpoint ctx))),
      (''param'', JStr name), (''payload'', JStr payload), (''detector'', JStr detector), (k, v)]"

definition run_error_signature ::
  "rx_engine \<Rightarrow> 's web \<Rightarrow> declarative \<Rightarrow> check_context \<Rightarrow> ('s, raw_finding list) act" where
  "run_error_signature engine web c ctx =
     bind_act (lift_sum (payload_texts c ctx)) (\<lambda>payloads.
     bind_act (lift_sum (iter_items (jget_or (dc_detector c) ''signatures'' (JList [])))) (\<lambda>sigs.
     bind_act (lift_sum (compile_all engine sigs)) (\<lambda>rx. case rx of None \<Rightarrow> ret []
     | Some found \<Rightarrow>
       bind_act (try_params web ctx (\<lambda>resp. found (gr_text resp)) payloads
                   (slice_to (cc_max_payloads ctx) (probe_params ctx))) (\<lambda>r.
         ret (case r of None \<Rightarrow> [] | Some (name, payload, resp) \<Rightarrow>
           [declarative_finding c ctx resp (''signature matched for payload '' @ py_repr payload @ '' in '' @ py_repr name)
              (''error:'' @ name) (injection_repro ctx name payload ''error_signature'' ''signatures'' (JList sigs))])))))"

definition run_status_code :: "'s web \<Rightarrow> declarative \<Rightarrow> check_context \<Rightarrow> ('s, raw_finding list) act" where
  "run_status_code web c ctx =
     bind_act (lift_sum (payload_texts c ctx)) (\<lambda>payloads.
     bind_act (lift_sum (sum_bind (iter_items (jget_or (dc_detector c) ''trigger_status'' (JList [JInt 500]))) (mapM_sum py_int))) (\<lambda>trigger.
     bind_act (try_params web ctx (\<lambda>resp. gr_status_code resp \<in> set trigger) payloads
                 (slice_to (cc_max_payloads ctx) (probe_params ctx))) (\<lambda>r.
       ret (case r of None \<Rightarrow> [] | Some (name, payload, resp) \<Rightarrow>
         [declarative_finding c ctx resp
            (''status '' @ int_str (gr_status_code resp) @ '' on payload '' @ py_repr payload @ '' in '' @ py_repr name)
            (''status:'' @ name)
            (injection_repro ctx name payload ''status_code'' ''trigger_status'' (JList (map JInt (sorted_set trigger))))]))))"

text \<open>\<open>template.format(token=token)\<close> for templates whose only field is the token.\<close>

definition fill_token :: "string \<Rightarrow> string \<Rightarrow> exn + string" where
  "fill_token template token = format_path [(''token'', token)] (length template) template"

definition reflected_raw :: "string \<Rightarrow> guarded_response \<Rightarrow> bool" where
  "reflected_raw marker resp \<longleftrightarrow> contains_str (gr_text resp) marker \<and>
     (escape_angles marker = marker \<or> \<not> contains_str (gr_text resp) (escape_angles marker))"

fun reflection_params ::
  "'s web \<Rightarrow> ('s, string) act \<Rightarrow> declarative \<Rightarrow> check_context \<Rightarrow> string \<Rightarrow> dict list \<Rightarrow> ('s, raw_finding list) act" where
  "reflection_params web fresh c ctx template [] = ret []"
| "reflection_params web fresh c ctx template (p # ps) =
     bind_act (lift_sum (need_name p)) (\<lambda>name.
     bind_act fresh (\<lambda>token.
     bind_act (lift_sum (fill_token template token)) (\<lambda>marker.
     bind_act (web (probe_with ctx name marker)) (\<lambda>resp.
       if renderable_html_context (gr_status_code resp) (resp_header resp ''content-type'') \<and> reflected_raw marker resp
       then ret [declarative_finding c ctx resp (''unescaped reflection of marker in '' @ py_repr name) (''reflect:'' @ name)
         [(''method'', JStr (ev_method (cc_endpoint ctx))), (''url'', JStr (ev_url (cc_endpoint ctx))),
          (''param'', JStr name), (''payload'', JStr marker), (''marker'', JStr token),
          (''marker_template'', JStr template), (''detector'', JStr ''reflection'')]]
       else reflection_params web fresh c ctx template ps))))"

definition run_reflection ::
  "'s web \<Rightarrow> ('s, string) act \<Rightarrow> declarative \<Rightarrow> check_context \<Rightarrow> ('s, raw_finding list) act" where
  "run_reflection web fresh c ctx =
     bind_act (lift_sum (as_str (jget_or (dc_detector c) ''marker_template'' (JStr ''<zzz{token}>'')))) (\<lambda>template.
       reflection_params web fresh c ctx template (slice_to (cc_max_payloads ctx) (injectable_params ctx)))"

definition lower_text :: "jv \<Rightarrow> exn + string" where
  "lower_text v = sum_bind (as_str v) (\<lambda>s. Inr (str_lower s))"

definition header_probe :: "check_context \<Rightarrow> dict \<Rightarrow> call" where
  "header_probe ctx headers =
     (probe_call (ev_method (cc_endpoint ctx)) (ev_url (cc_endpoint ctx)) [])\<lparr>ca_headers := headers\<rparr>"

definition run_header_presence :: "'s web \<Rightarrow> declarative \<Rightarrow> bool \<Rightarrow> check_context \<Rightarrow> ('s, raw_finding list) act" where
  "run_header_presence web c want_present ctx =
     bind_act (lift_sum (sum_bind (iter_items (jget_or (dc_detector c) ''headers'' (JList []))) (mapM_sum lower_text))) (\<lambda>headers.
     if headers = [] then ret []
     else bind_act (web (header_probe ctx [])) (\<lambda>resp.
       let present = map (str_lower \<circ> fst) (gr_headers resp);
           hits = filter (\<lambda>h. (h \<in> set present) = want_present) headers
       in ret (if hits = [] then []
               else [declarative_finding c ctx resp
                  (''headers '' @ (if want_present then ''present'' else ''missing'') @ '': '' @ repr_list hits)
                  (''headers:'' @ repr_list (sort hits))
                  [(''method'', JStr ''GET''), (''url'', JStr (ev_url (cc_endpoint ctx))), (''detector'', JStr ''header_presence''),
                   (''headers'', JList (map JStr hits)), (''want_present'', JBool want_present)]])))"

definition required_header_ok :: "dict \<Rightarrow> (string \<times> string) list \<Rightarrow> bool" where
  "required_header_ok det rh =
     (if \<not> truthy (jget det ''require_header'') then True
      else contains_str (str_lower (case dget rh (str_lower (str_jv (jget det ''require_header''))) of None \<Rightarrow> [] | Some v \<Rightarrow> v))
             (str_lower (text_field det ''require_value'' [])))"

definition run_header_reflects :: "'s web \<Rightarrow> declarative \<Rightarrow> check_context \<Rightarrow> ('s, raw_finding list) act" where
  "run_header_reflects web c ctx =
     (let det = dc_detector c; req = jget det ''request_header'';
          v = jstr (jget_or det ''header_value'' (JStr ''https://evil.example.net''));
          resp_name = str_lower (text_field det ''response_header'' []) in
      if \<not> truthy req \<or> resp_name = [] then ret []
      else bind_act (web (header_probe ctx [(str_jv req, JStr v)])) (\<lambda>resp.
        let rh = lower_headers resp; echoed = (case dget rh resp_name of None \<Rightarrow> [] | Some e \<Rightarrow> e) in
        ret (if \<not> contains_str echoed v \<and> echoed \<noteq> ''*'' then []
             else if \<not> required_header_ok det rh then []
             else [declarative_finding c ctx resp (resp_name @ '' reflects injected '' @ str_jv req)
               (''header_reflect:'' @ resp_name)
               [(''method'', JStr ''GET''), (''url'', JStr (ev_url (cc_endpoint ctx))), (''detector'', JStr ''header_reflects''),
                (''request_header'', req), (''header_value'', JStr v), (''response_header'', JStr resp_name)]])))"

definition declarative_run ::
  "rx_engine \<Rightarrow> 's web \<Rightarrow> ('s, string) act \<Rightarrow> declarative \<Rightarrow> check_context \<Rightarrow> ('s, raw_finding list) act" where
  "declarative_run engine web fresh c ctx =
     (let t = jget (dc_detector c) ''type'' in
      unless_unreachable
        (if t = JStr ''error_signature'' then run_error_signature engine web c ctx
         else if t = JStr ''reflection'' then run_reflection web fresh c ctx
         else if t = JStr ''status_code'' then run_status_code web c ctx
         else if t = JStr ''header_missing'' then run_header_presence web c False ctx
         else if t = JStr ''header_present'' then run_header_presence web c True ctx
         else if t = JStr ''header_reflects'' then run_header_reflects web c ctx
         else ret [])
        (\<lambda>_. ret []))"

definition declarative_check :: "rx_engine \<Rightarrow> 's web \<Rightarrow> ('s, string) act \<Rightarrow> declarative \<Rightarrow> 's check" where
  "declarative_check engine web fresh c =
     \<lparr>ck_name = dc_name c, ck_class = dc_class c, ck_intensity = dc_intensity c, ck_cwe = dc_cwe c,
      ck_state_changing = dc_state_changing c, ck_applies = (\<lambda>ctx. ret (declarative_applies c ctx)),
      ck_run = declarative_run engine web fresh c\<rparr>"

end
