(* ===== verification/Decisions.thy ===== *)
theory Decisions
  imports Brain Json_Roundtrip
begin

text \<open>
  What a language model is asked for, a JSON object possibly wrapped in prose or a code fence, is read
  back by \<open>_parse_decision\<close> of \<open>app/agents/brain.py\<close>.
\<close>

text \<open>The decision an object stands for, with the defaults of the parser.\<close>

definition decision_of :: "dict \<Rightarrow> brain_decision" where
  "decision_of obj =
     \<lparr>bd_action = (case dget obj ''action'' of None \<Rightarrow> ''proceed'' | Some v \<Rightarrow> str_jv v),
      bd_reasoning = take 280 (case dget obj ''reasoning'' of None \<Rightarrow> [] | Some v \<Rightarrow> str_jv v),
      bd_params = (case dget obj ''params'' of Some (JDict d) \<Rightarrow> d | _ \<Rightarrow> []),
      bd_source = ''deterministic'', bd_confidence = confidence_of_jv (jget obj ''confidence''),
      bd_input_tokens = 0, bd_output_tokens = 0\<rparr>"

lemma dumps_dict: "\<exists>body. json_dumps (JDict d) = CHR ''{'' # body @ [CHR ''}'']"
  by simp

lemma braces_wrapped:
  assumes "CHR ''{'' \<notin> set before" "CHR ''}'' \<notin> set behind"
  shows "braces (before @ (CHR ''{'' # body @ [CHR ''}'']) @ behind) = Some (CHR ''{'' # body @ [CHR ''}''])"
proof -
  have "dropWhile (\<lambda>c. c \<noteq> CHR ''{'') (before @ CHR ''{'' # t) = CHR ''{'' # t" for t
    using assms(1) by (induction before) auto
  moreover have "takeWhile (\<lambda>c. c \<noteq> CHR ''}'') (rev behind @ CHR ''}'' # t) = rev behind" for t
    using assms(2) by (subst takeWhile_append2) auto
  ultimately show ?thesis by (simp add: braces_def)
qed

text \<open>
  C20: a well-formed answer is read back exactly, whatever surrounds it. For every JSON object without
  floats and with distinct keys, written out anywhere in a text with no opening brace before it and no
  closing one after it (prose, a code fence), parsing the text gives the decision the object stands
  for; so printing followed by parsing loses nothing of the action, the parameters or the confidence.
\<close>

theorem decision_read_back:
  assumes "plain_json (JDict obj)" "CHR ''{'' \<notin> set before" "CHR ''}'' \<notin> set behind"
  shows "parse_decision (before @ json_dumps (JDict obj) @ behind) = Inr (decision_of obj)"
proof -
  obtain body where b: "json_dumps (JDict obj) = CHR ''{'' # body @ [CHR ''}'']" using dumps_dict by blast
  have "json_loads (CHR ''{'' # body @ [CHR ''}'']) = Some (JDict obj)"
    using json_roundtrip [OF assms(1)] unfolding b .
  then show ?thesis
    unfolding b parse_decision_def braces_wrapped [OF assms(2,3)]
    by (simp add: decision_of_def jget_or_def split: option.split jv.split)
qed

theorem decision_read_back_witness:
  "parse_decision (''Sure: '' @ json_dumps (JDict [(''action'', JStr ''defer''), (''params'', JDict [(''max'', JInt 3)])]) @ '' Done.'')
     = Inr (decision_of [(''action'', JStr ''defer''), (''params'', JDict [(''max'', JInt 3)])])"
  by (rule decision_read_back) (code_simp, simp_all)

end
