(* ===== verification/Store.thy ===== *)
theory Store
  imports Effects Models
begin

text \<open>
  The database the services and the engine work on (\<open>app/core/db.py\<close>, \<open>app/models\<close>), and the audit
  trail of \<open>app/services/audit.py\<close>. A table is the list of its rows in the order of insertion. A
  database session is a transaction: what it did is lost when it ends with an exception. Fresh
  identifiers and clock readings come from generators that the state carries; a transaction that
  is undone has still drawn from them.
\<close>

record db =
  db_targets :: "target list"
  db_ownerships :: "ownership_verification list"
  db_records :: "authorization_record list"
  db_accounts :: "test_account list"
  db_assessments :: "assessment list"
  db_artifacts :: "discovery_artifact list"
  db_endpoints :: "endpoint list"
  db_steps :: "plan_step list"
  db_jobs :: "job list"
  db_findings :: "finding list"
  db_evidence :: "evidence list"
  db_results :: "validation_result list"
  db_coverage :: "coverage list"
  db_tests :: "regression_test list"
  db_checkpoints :: "checkpoint list"
  db_audit :: "audit_log list"
  db_memory :: "project_memory list"
  db_skills :: "agent_skill list"
  db_users :: "user list"
  db_keys :: "api_key list"
  db_orgs :: "organization list"
  db_chats :: "chat_session list"
  db_messages :: "chat_message list"
  db_uuid :: "nat \<Rightarrow> string"
  db_drawn :: nat
  db_clock :: "nat \<Rightarrow> datetime"
  db_reads :: nat

section \<open>Rows and transactions\<close>

text \<open>\<open>session.get(Model, id)\<close>, and the change of a row's columns.\<close>

definition find_row :: "('r \<Rightarrow> string) \<Rightarrow> string \<Rightarrow> 'r list \<Rightarrow> 'r option" where
  "find_row key k rows = List.find (\<lambda>r. key r = k) rows"

definition change_row :: "('r \<Rightarrow> string) \<Rightarrow> string \<Rightarrow> ('r \<Rightarrow> 'r) \<Rightarrow> 'r list \<Rightarrow> 'r list" where
  "change_row key k f rows = map (\<lambda>r. if key r = k then f r else r) rows"

text \<open>\<open>require\<close>: a row that must be there.\<close>

definition require :: "'r option \<Rightarrow> string \<Rightarrow> exn + 'r" where
  "require r what = (case r of None \<Rightarrow> Inl (OtherError (''LookupError: '' @ what @ '' not found'')) | Some x \<Rightarrow> Inr x)"

definition fetch :: "(db \<Rightarrow> 'r list) \<Rightarrow> ('r \<Rightarrow> string) \<Rightarrow> string \<Rightarrow> string \<Rightarrow> (db, 'r) act" where
  "fetch table key k what = bind_act (gets (\<lambda>d. find_row key k (table d))) (\<lambda>r. lift_sum (require r what))"

definition transaction :: "(db, 'a) act \<Rightarrow> (db, 'a) act" where
  "transaction m d = (case m d of
     (Inl e, d') \<Rightarrow> (Inl e, d\<lparr>db_drawn := db_drawn d', db_reads := db_reads d'\<rparr>)
   | (Inr x, d') \<Rightarrow> (Inr x, d'))"

definition new_id :: "(db, string) act" where
  "new_id d = (Inr (db_uuid d (db_drawn d)), d\<lparr>db_drawn := Suc (db_drawn d)\<rparr>)"

definition clock :: "(db, datetime) act" where
  "clock d = (Inr (db_clock d (db_reads d)), d\<lparr>db_reads := Suc (db_reads d)\<rparr>)"

definition get_assessment :: "string \<Rightarrow> (db, assessment) act" where
  "get_assessment aid = fetch db_assessments a_id aid ''assessment''"

definition set_assessment :: "string \<Rightarrow> (assessment \<Rightarrow> assessment) \<Rightarrow> (db, unit) act" where
  "set_assessment aid f = modify (\<lambda>d. d\<lparr>db_assessments := change_row a_id aid f (db_assessments d)\<rparr>)"

definition set_step :: "string \<Rightarrow> (plan_step \<Rightarrow> plan_step) \<Rightarrow> (db, unit) act" where
  "set_step sid f = modify (\<lambda>d. d\<lparr>db_steps := change_row ps_id sid f (db_steps d)\<rparr>)"

definition set_finding :: "string \<Rightarrow> (finding \<Rightarrow> finding) \<Rightarrow> (db, unit) act" where
  "set_finding fid f = modify (\<lambda>d. d\<lparr>db_findings := change_row fd_id fid f (db_findings d)\<rparr>)"

definition write_audit :: "string \<Rightarrow> string option \<Rightarrow> string \<Rightarrow> string \<Rightarrow> dict \<Rightarrow> (db, unit) act" where
  "write_audit org aid actor event data =
     bind_act new_id (\<lambda>i. modify (\<lambda>d. d\<lparr>db_audit := db_audit d @
       [\<lparr>au_id = i, au_org_id = org, au_assessment_id = aid, au_actor = actor, au_event = event, au_data = data\<rparr>]\<rparr>))"

definition list_audit :: "string \<Rightarrow> string \<Rightarrow> nat \<Rightarrow> db \<Rightarrow> audit_log list" where
  "list_audit org aid limit d =
     take limit (filter (\<lambda>r. au_org_id r = org \<and> au_assessment_id r = Some aid) (db_audit d))"

text \<open>The rows of one assessment.\<close>

definition endpoints_of :: "string \<Rightarrow> db \<Rightarrow> endpoint list" where
  "endpoints_of aid d = filter (\<lambda>e. ep_assessment_id e = aid) (db_endpoints d)"

definition steps_of :: "string \<Rightarrow> db \<Rightarrow> plan_step list" where
  "steps_of aid d = filter (\<lambda>s. ps_assessment_id s = aid) (db_steps d)"

definition findings_of :: "string \<Rightarrow> db \<Rightarrow> finding list" where
  "findings_of aid d = filter (\<lambda>f. fd_assessment_id f = aid) (db_findings d)"

definition jobs_of :: "string \<Rightarrow> db \<Rightarrow> job list" where
  "jobs_of aid d = filter (\<lambda>j. job_assessment_id j = aid) (db_jobs d)"

section \<open>Lemmas\<close>

lemma find_row_key: "find_row key k rows = Some r \<Longrightarrow> key r = k"
  by (auto simp: find_row_def dest: find_SomeD)

lemma find_row_mem: "find_row key k rows = Some r \<Longrightarrow> r \<in> set rows"
  by (auto simp: find_row_def dest: find_SomeD)

lemma find_change_row:
  assumes "\<And>r. key (f r) = key r"
  shows "find_row key k (change_row key k' f rows) =
    (if k = k' then map_option f (find_row key k rows) else find_row key k rows)"
  using assms by (induction rows) (auto simp: find_row_def change_row_def)

lemma change_row_keys:
  assumes "\<And>r. key (f r) = key r"
  shows "map key (change_row key k f rows) = map key rows"
  using assms by (simp add: change_row_def)

lemma transaction_Inr: "transaction m d = (Inr x, d') \<longleftrightarrow> m d = (Inr x, d')"
  by (auto simp: transaction_def split: prod.splits sum.splits)

lemma transaction_Inl:
  "transaction m d = (Inl e, d') \<Longrightarrow>
   \<exists>d1. m d = (Inl e, d1) \<and> d' = d\<lparr>db_drawn := db_drawn d1, db_reads := db_reads d1\<rparr>"
  by (auto simp: transaction_def split: prod.splits sum.splits)

text \<open>
  The contract of a frame over the database: drawing identifiers, reading the clock and auditing for
  the organisations of interest stay within it.
\<close>

locale db_frame = frame R for R :: "db \<Rightarrow> db \<Rightarrow> bool" +
  fixes orgs :: "string set"
  assumes draws: "R d (d\<lparr>db_drawn := n, db_reads := m\<rparr>)"
    and audits: "au_org_id row \<in> orgs \<Longrightarrow> R d (d\<lparr>db_audit := db_audit d @ [row]\<rparr>)"
begin

lemma draws1: "R d (d\<lparr>db_drawn := n\<rparr>)"
  using draws [where d = d and n = n and m = "db_reads d"] by simp

lemma reads1: "R d (d\<lparr>db_reads := n\<rparr>)"
  using draws [where d = d and n = "db_drawn d" and m = n] by simp

lemma keeps_new_id: "keeps R new_id"
  by (simp add: keeps_def new_id_def draws1)

lemma keeps_clock: "keeps R clock"
  by (simp add: keeps_def clock_def reads1)

lemma keeps_write_audit: "org \<in> orgs \<Longrightarrow> keeps R (write_audit org aid actor event data)"
  unfolding write_audit_def by (intro keeps_bind keeps_new_id keeps_modify audits) simp

lemma keeps_fetch: "keeps R (fetch table key k what)"
  unfolding fetch_def by (intro keeps_bind keeps_gets keeps_lift)

lemma keeps_transaction:
  assumes "keeps R m"
  shows "keeps R (transaction m)"
  unfolding keeps_def
proof
  fix d
  obtain r d' where "m d = (r, d')" by fastforce
  with keepsD [OF assms this] show "R d (snd (transaction m d))"
    by (cases r) (auto simp: transaction_def intro: draws)
qed

lemmas keeps_db = keeps_new_id keeps_clock keeps_write_audit keeps_fetch keeps_transaction

end

end
