(* ===== verification/Auth.thy ===== *)
theory Auth
  imports Store Config
begin

text \<open>
  \<open>app/core/auth.py\<close>: who is calling. Password hashing (passlib) and the signing of tokens (jose) are
  parameters: what verifying a secret against a hash answers, and what decoding a token gives, the
  claims or the reason it is refused. Random parts of a new key are arguments.
\<close>

record principal =
  pr_org_id :: string
  pr_user_id :: string
  pr_role :: role
  pr_auth_method :: string

record auth_env =
  ae_hash :: "string \<Rightarrow> string"
  ae_verify :: "string \<Rightarrow> string \<Rightarrow> bool"
  ae_decode :: "string \<Rightarrow> string + dict"

definition hash_password :: "auth_env \<Rightarrow> string \<Rightarrow> exn + string" where
  "hash_password env password =
     (if password = [] \<or> length password < 8 then Inl (ValueError ''password must be at least 8 characters'')
      else Inr (ae_hash env password))"

definition require_role :: "role \<Rightarrow> principal \<Rightarrow> exn + unit" where
  "require_role minimum p =
     (if ROLE_RANK (pr_role p) < ROLE_RANK minimum
      then Inl (HTTPException 403 (''requires role >= '' @ role_value minimum @ '', principal has '' @ role_value (pr_role p)))
      else Inr ())"

definition token_claims :: "string \<Rightarrow> string \<Rightarrow> string \<Rightarrow> int \<Rightarrow> int \<Rightarrow> string \<Rightarrow> dict" where
  "token_claims org user role now ttl_minutes jti =
     [(''sub'', JStr user), (''org'', JStr org), (''role'', JStr role), (''iat'', JInt now),
      (''exp'', JInt (now + ttl_minutes * 60)), (''jti'', JStr jti)]"

definition decode_access_token :: "auth_env \<Rightarrow> string \<Rightarrow> exn + dict" where
  "decode_access_token env token =
     (case ae_decode env token of Inl err \<Rightarrow> Inl (HTTPException 401 (''invalid token: '' @ err)) | Inr claims \<Rightarrow> Inr claims)"

definition generate_api_key :: "string \<Rightarrow> string \<Rightarrow> string \<times> string \<times> string" where
  "generate_api_key prefix secret = (''sk_'' @ prefix @ ''_'' @ secret, prefix, secret)"

definition parse_api_key :: "string \<Rightarrow> (string \<times> string) option" where
  "parse_api_key raw =
     (case partition_char (CHR ''_'') raw of
        (a, False, _) \<Rightarrow> None
      | (a, True, rest) \<Rightarrow>
          (case partition_char (CHR ''_'') rest of
             (b, False, _) \<Rightarrow> None
           | (b, True, c) \<Rightarrow> if a \<noteq> ''sk'' \<or> b = [] \<or> c = [] then None else Some (b, c)))"

text \<open>\<open>scalar_one_or_none()\<close>: the only row of a result, which must not have more than one.\<close>

definition one_or_none :: "'r list \<Rightarrow> exn + 'r option" where
  "one_or_none rows = (case rows of [] \<Rightarrow> Inr None | [r] \<Rightarrow> Inr (Some r)
     | _ \<Rightarrow> Inl (OtherError ''MultipleResultsFound: Multiple rows were found when one or none was required''))"

definition role_or_viewer :: "jv \<Rightarrow> role" where
  "role_or_viewer v = (case v of JStr s \<Rightarrow> (case role_of s of Some r \<Rightarrow> r | None \<Rightarrow> VIEWER) | _ \<Rightarrow> VIEWER)"

definition principal_from_api_key :: "auth_env \<Rightarrow> string \<Rightarrow> db \<Rightarrow> exn + principal" where
  "principal_from_api_key env raw d =
     (case parse_api_key raw of
        None \<Rightarrow> Inl (HTTPException 401 ''malformed API key'')
      | Some (prefix, secret) \<Rightarrow>
          sum_bind (one_or_none (filter (\<lambda>k. key_prefix k = prefix \<and> \<not> key_revoked k) (db_keys d))) (\<lambda>row.
          case row of
            None \<Rightarrow> Inl (HTTPException 401 ''invalid API key'')
          | Some k \<Rightarrow>
              if \<not> ae_verify env secret (key_secret_hash k) then Inl (HTTPException 401 ''invalid API key'')
              else Inr \<lparr>pr_org_id = key_org_id k, pr_user_id = key_user_id k,
                        pr_role = role_or_viewer (JStr (key_role k)), pr_auth_method = ''api_key''\<rparr>))"

definition principal_from_jwt :: "auth_env \<Rightarrow> string \<Rightarrow> db \<Rightarrow> exn + principal" where
  "principal_from_jwt env token d =
     sum_bind (decode_access_token env token) (\<lambda>claims.
     if \<not> truthy (jget claims ''org'') \<or> \<not> truthy (jget claims ''sub'')
     then Inl (HTTPException 401 ''token missing org/subject'')
     else
       sum_bind (one_or_none (filter (\<lambda>u. JStr (us_id u) = jget claims ''sub'' \<and> JStr (us_org_id u) = jget claims ''org'')
         (db_users d))) (\<lambda>user.
       case user of
         None \<Rightarrow> Inl (HTTPException 401 ''user not found or inactive'')
       | Some u \<Rightarrow>
           if \<not> us_is_active u then Inl (HTTPException 401 ''user not found or inactive'')
           else Inr \<lparr>pr_org_id = us_org_id u, pr_user_id = us_id u,
                     pr_role = role_or_viewer (jget_or claims ''role'' (JStr ''viewer'')), pr_auth_method = ''jwt''\<rparr>))"

definition get_principal :: "auth_env \<Rightarrow> string option \<Rightarrow> string option \<Rightarrow> db \<Rightarrow> exn + principal" where
  "get_principal env authorization x_api_key d =
     (case x_api_key of
        Some (c # cs) \<Rightarrow> principal_from_api_key env (str_strip (c # cs)) d
      | _ \<Rightarrow>
        (case authorization of
           Some (c # cs) \<Rightarrow>
             (case partition_char (CHR '' '') (c # cs) of
                (scheme, _, token) \<Rightarrow>
                  if str_lower scheme \<noteq> ''bearer'' \<or> token = []
                  then Inl (HTTPException 401 (''expected '' @ [chr 39] @ ''Bearer <token>'' @ [chr 39]))
                  else principal_from_jwt env (str_strip token) d)
         | _ \<Rightarrow> Inl (HTTPException 401 ''authentication required (Bearer token or X-API-Key)'')))"

definition ensure_org_access :: "principal \<Rightarrow> string \<Rightarrow> exn + unit" where
  "ensure_org_access p org = (if pr_org_id p \<noteq> org then Inl (HTTPException 404 ''resource not found'') else Inr ())"

section \<open>What an authenticated caller rests on\<close>

lemma one_or_none_mem: "one_or_none (filter P xs) = Inr (Some r) \<Longrightarrow> r \<in> set xs \<and> P r"
proof -
  assume "one_or_none (filter P xs) = Inr (Some r)"
  then have "filter P xs = [r]" by (auto simp: one_or_none_def split: list.splits)
  then have "r \<in> set (filter P xs)" by simp
  then show ?thesis by simp
qed

lemma partition_char_append:
  "c \<notin> set xs \<Longrightarrow> partition_char c (xs @ c # ys) = (xs, True, ys)"
  by (induction xs) auto

text \<open>The row a principal stands for: an unrevoked key whose secret fits, or an active user its token names.\<close>

definition backed :: "auth_env \<Rightarrow> db \<Rightarrow> principal \<Rightarrow> bool" where
  "backed env d p \<longleftrightarrow>
     (if pr_auth_method p = ''api_key''
      then \<exists>k \<in> set (db_keys d). \<exists>secret. \<not> key_revoked k \<and> ae_verify env secret (key_secret_hash k) \<and>
             pr_org_id p = key_org_id k \<and> pr_user_id p = key_user_id k
      else \<exists>u \<in> set (db_users d). us_is_active u \<and> pr_org_id p = us_org_id u \<and> pr_user_id p = us_id u)"

lemma api_key_backed: "principal_from_api_key env raw d = Inr p \<Longrightarrow> backed env d p"
  by (fastforce simp: principal_from_api_key_def backed_def sum_bind_Inr split: option.split_asm if_split_asm
      dest!: one_or_none_mem)

lemma jwt_backed: "principal_from_jwt env token d = Inr p \<Longrightarrow> backed env d p"
  by (fastforce simp: principal_from_jwt_def backed_def sum_bind_Inr split: option.split_asm if_split_asm
      dest!: one_or_none_mem)

lemma get_principal_backed: "get_principal env auth key d = Inr p \<Longrightarrow> backed env d p"
  by (auto simp: get_principal_def split: option.splits list.splits prod.splits if_splits
      intro: api_key_backed jwt_backed)

section \<open>Theorems\<close>

text \<open>
  A generated API key authenticates its row and nothing else decides. Presenting the key that
  \<open>generate_api_key\<close> builds from a prefix without underscores and any secret, surrounded by no
  whitespace, is read back as that prefix and secret, even when the secret itself contains
  underscores; when exactly one unrevoked row has the prefix and its hash fits the secret, the
  caller is that row's user and organisation with the row's role.
\<close>

theorem api_key_roundtrip:
  assumes "prefix \<noteq> []" "CHR ''_'' \<notin> set prefix" "secret \<noteq> []"
    and "str_strip (fst (generate_api_key prefix secret)) = fst (generate_api_key prefix secret)"
    and "filter (\<lambda>k. key_prefix k = prefix \<and> \<not> key_revoked k) (db_keys d) = [k]" "ae_verify env secret (key_secret_hash k)"
  shows "parse_api_key (fst (generate_api_key prefix secret)) = Some (prefix, secret) \<and>
     get_principal env authorization (Some (fst (generate_api_key prefix secret))) d =
       Inr \<lparr>pr_org_id = key_org_id k, pr_user_id = key_user_id k, pr_role = role_or_viewer (JStr (key_role k)),
            pr_auth_method = ''api_key''\<rparr>"
proof -
  have "partition_char (CHR ''_'') (''sk'' @ CHR ''_'' # prefix @ CHR ''_'' # secret) = (''sk'', True, prefix @ CHR ''_'' # secret)"
    by (rule partition_char_append) simp
  moreover have "partition_char (CHR ''_'') (prefix @ CHR ''_'' # secret) = (prefix, True, secret)"
    using assms(2) by (rule partition_char_append)
  ultimately have "parse_api_key (fst (generate_api_key prefix secret)) = Some (prefix, secret)"
    using assms(1,3) by (simp add: parse_api_key_def generate_api_key_def)
  with assms(4-6) show ?thesis
    by (simp add: get_principal_def principal_from_api_key_def one_or_none_def generate_api_key_def)
qed

definition demo_user :: user where
  "demo_user = \<lparr>us_id = ''u1'', us_org_id = ''o1'', us_email = ''a@b.test'', us_password_hash = ''h'',
     us_role = ''viewer'', us_is_active = False\<rparr>"

definition demo_key :: api_key where
  "demo_key = \<lparr>key_id = ''k1'', key_org_id = ''o1'', key_user_id = ''u1'', key_name = ''default'',
     key_prefix = ''ab12'', key_secret_hash = ''h'', key_role = ''operator'', key_revoked = False\<rparr>"

definition empty_db :: db where
  "empty_db = \<lparr>db_targets = [], db_ownerships = [], db_records = [], db_accounts = [], db_assessments = [], db_artifacts = [],
     db_endpoints = [], db_steps = [], db_jobs = [], db_findings = [], db_evidence = [], db_results = [],
     db_coverage = [], db_tests = [], db_checkpoints = [], db_audit = [], db_memory = [], db_skills = [],
     db_users = [], db_keys = [], db_orgs = [], db_chats = [], db_messages = [], db_uuid = (\<lambda>n. ''id-'' @ int_str (int n)), db_drawn = 0,
     db_clock = (\<lambda>n. \<lparr>dt_us = int n, dt_naive = False, dt_iso = []\<rparr>), db_reads = 0\<rparr>"

definition demo_auth :: auth_env where
  "demo_auth = \<lparr>ae_hash = (\<lambda>_. ''h''), ae_verify = (\<lambda>s h. s = ''s_1'' \<and> h = ''h''),
     ae_decode = (\<lambda>t. if t = ''t'' then Inr [(''sub'', JStr ''u1''), (''org'', JStr ''o1''), (''role'', JStr ''admin'')]
       else Inl ''bad signature'')\<rparr>"

theorem api_key_roundtrip_witness:
  "get_principal demo_auth None (Some ''sk_ab12_s_1'') (empty_db\<lparr>db_keys := [demo_key]\<rparr>) =
     Inr \<lparr>pr_org_id = ''o1'', pr_user_id = ''u1'', pr_role = OPERATOR, pr_auth_method = ''api_key''\<rparr>"
proof -
  have role: "role_or_viewer (JStr (key_role demo_key)) = OPERATOR" by code_simp
  have strip: "str_strip (fst (generate_api_key ''ab12'' ''s_1'')) = fst (generate_api_key ''ab12'' ''s_1'')" by code_simp
  have row: "filter (\<lambda>k. key_prefix k = ''ab12'' \<and> \<not> key_revoked k) (db_keys (empty_db\<lparr>db_keys := [demo_key]\<rparr>)) = [demo_key]"
    by (simp add: demo_key_def)
  have ok: "ae_verify demo_auth ''s_1'' (key_secret_hash demo_key)" by (simp add: demo_auth_def demo_key_def)
  from api_key_roundtrip [OF _ _ _ strip row ok, of None] role show ?thesis
    by (simp add: generate_api_key_def demo_key_def)
qed


text \<open>
  Credentials outlive the rights they were issued for. The key of a user who has been deactivated
  still authenticates with the key's role, and a token keeps the role written into it: a user demoted
  to viewer is still an administrator until the token expires. Only a token's user must be active.
\<close>

theorem stale_credentials_accepted:
  "us_is_active demo_user = False \<and>
   get_principal demo_auth None (Some ''sk_ab12_s_1'') (empty_db\<lparr>db_keys := [demo_key], db_users := [demo_user]\<rparr>) =
     Inr \<lparr>pr_org_id = ''o1'', pr_user_id = ''u1'', pr_role = OPERATOR, pr_auth_method = ''api_key''\<rparr> \<and>
   get_principal demo_auth (Some ''Bearer t'') None (empty_db\<lparr>db_users := [demo_user\<lparr>us_is_active := True\<rparr>]\<rparr>) =
     Inr \<lparr>pr_org_id = ''o1'', pr_user_id = ''u1'', pr_role = ADMIN, pr_auth_method = ''jwt''\<rparr>"
  by code_simp

end
