(* ===== verification/Api.thy ===== *)
theory Api
  imports Auth Scope Normalize Regression Declarative
begin

text \<open>
  The operations on assessments that change state: \<open>app/services/assessment_service.py\<close> and the routes of
  \<open>app/api/routers/assessments.py\<close>, each with its role check, its tenant check and its audit row. A
  route works on the database and on the in-process table of running tasks of
  \<open>app/orchestration/engine.py\<close>; launching a run is recorded. A route answers with a JSON object, where
  the program renders a row the answer is its identifier. An error of the service is already the HTTP
  error the route makes of it.
\<close>

datatype launch = LaunchRun string | LaunchSteps string "string list"

record api =
  ap_db :: db
  ap_running :: "string list"
  ap_launched :: "launch list"

definition on_db :: "(db, 'a) act \<Rightarrow> (api, 'a) act" where
  "on_db m s = (case m (ap_db s) of (r, d) \<Rightarrow> (r, s\<lparr>ap_db := d\<rparr>))"

definition start_assessment :: "string \<Rightarrow> (api, unit) act" where
  "start_assessment aid = modify (\<lambda>s. if aid \<in> set (ap_running s) then s
     else s\<lparr>ap_running := ap_running s @ [aid], ap_launched := ap_launched s @ [LaunchRun aid]\<rparr>)"

definition steps_key :: "string \<Rightarrow> string list \<Rightarrow> string" where
  "steps_key aid ids = aid @ '':steps:'' @ join_with '','' (sort ids)"

definition start_approved_steps :: "string \<Rightarrow> string list \<Rightarrow> (api, unit) act" where
  "start_approved_steps aid ids = modify (\<lambda>s. if steps_key aid ids \<in> set (ap_running s) then s
     else s\<lparr>ap_running := ap_running s @ [steps_key aid ids], ap_launched := ap_launched s @ [LaunchSteps aid ids]\<rparr>)"

definition is_running :: "api \<Rightarrow> string \<Rightarrow> bool" where
  "is_running s aid \<longleftrightarrow> aid \<in> set (ap_running s)"

definition is_terminal :: "string \<Rightarrow> bool" where
  "is_terminal st \<longleftrightarrow> st \<in> assessment_state_value ` set [COMPLETED, CANCELLED, FAILED]"

definition need :: "bool \<Rightarrow> int \<Rightarrow> string \<Rightarrow> (db, unit) act" where
  "need b status detail = (if b then ret () else raise_exn (HTTPException status detail))"

definition own_assessment :: "principal \<Rightarrow> string \<Rightarrow> (db, assessment) act" where
  "own_assessment p aid = bind_act (gets (\<lambda>d. find_row a_id aid (db_assessments d))) (\<lambda>a. case a of
     None \<Rightarrow> raise_exn (HTTPException 404 ''assessment not found'')
   | Some x \<Rightarrow> if a_org_id x \<noteq> pr_org_id p then raise_exn (HTTPException 404 ''assessment not found'') else ret x)"

section \<open>Creating and starting\<close>

definition new_assessment :: "string \<Rightarrow> string \<Rightarrow> string \<Rightarrow> string \<Rightarrow> string list \<Rightarrow> assessment" where
  "new_assessment i org target authorization classes =
     \<lparr>a_id = i, a_org_id = org, a_target_id = target, a_authorization_id = authorization,
      a_state = assessment_state_value CREATED, a_previous_assessment_id = None, a_is_retest = False,
      a_incremental = False, a_requested_check_classes = classes, a_requests_made = 0, a_started_at = None,
      a_finished_at = None, a_cancel_requested = False, a_error = [], a_summary = [], a_completion_reason = [],
      a_skill_snapshot = []\<rparr>"

definition add_artifact :: "string \<Rightarrow> string \<Rightarrow> dict \<Rightarrow> (db, unit) act" where
  "add_artifact org aid art =
     bind_act new_id (\<lambda>i. modify (\<lambda>d. d\<lparr>db_artifacts := db_artifacts d @
       [\<lparr>art_id = i, art_org_id = org, art_assessment_id = aid, art_kind = str_jv (jget_or art ''kind'' (JStr ''openapi'')),
         art_filename = (if truthy (jget art ''filename'') then str_jv (jget art ''filename'') else []),
         art_content = (if truthy (jget art ''content'') then str_jv (jget art ''content'') else []),
         art_endpoint_url = (if truthy (jget art ''endpoint_url'') then str_jv (jget art ''endpoint_url'') else []),
         art_parsed = False, art_warnings = []\<rparr>]\<rparr>))"

definition create_assessment ::
  "string \<Rightarrow> string \<Rightarrow> string \<Rightarrow> string list \<Rightarrow> dict list \<Rightarrow> dict \<Rightarrow> (db, string) act" where
  "create_assessment org target_id authorization_id classes artifacts audit_data =
     bind_act (gets (\<lambda>d. find_row tg_id target_id (db_targets d))) (\<lambda>t.
     bind_act (need (case t of None \<Rightarrow> False | Some x \<Rightarrow> tg_org_id x = org) 404 ''target not found'') (\<lambda>_.
     bind_act (gets (\<lambda>d. find_row az_id authorization_id (db_records d))) (\<lambda>r. case r of
       None \<Rightarrow> raise_exn (HTTPException 404 ''authorization not found for target'')
     | Some record \<Rightarrow>
       if az_org_id record \<noteq> org \<or> az_target_id record \<noteq> target_id
       then raise_exn (HTTPException 404 ''authorization not found for target'')
       else if az_status record \<noteq> verification_status_value VS_VERIFIED
       then raise_exn (HTTPException 403 (''authorization not verified (status='' @ az_status record
              @ ''); verify ownership and re-create the authorization''))
       else
         bind_act new_id (\<lambda>i.
         bind_act (modify (\<lambda>d. d\<lparr>db_assessments := db_assessments d @
           [new_assessment i org target_id authorization_id classes]\<rparr>)) (\<lambda>_.
         bind_act (for_each (add_artifact org i) artifacts) (\<lambda>_.
         bind_act (write_audit org (Some i) ''system'' ''assessment.created''
           (foldl (\<lambda>d (k, v). dset d k v) [(''target_id'', JStr target_id)] audit_data)) (\<lambda>_. ret i)))))))"

definition route_create :: "principal \<Rightarrow> string \<Rightarrow> string \<Rightarrow> string list \<Rightarrow> dict list \<Rightarrow> (api, dict) act" where
  "route_create p target_id authorization_id classes artifacts =
     bind_act (lift_sum (require_role OPERATOR p)) (\<lambda>_.
     bind_act (on_db (transaction (create_assessment (pr_org_id p) target_id authorization_id classes artifacts []))) (\<lambda>i.
       ret [(''id'', JStr i)]))"

definition route_start :: "principal \<Rightarrow> string \<Rightarrow> (api, dict) act" where
  "route_start p aid =
     bind_act (lift_sum (require_role OPERATOR p)) (\<lambda>_.
     bind_act (on_db (transaction
       (bind_act (own_assessment p aid) (\<lambda>a.
        bind_act (need (a_state a \<in> {assessment_state_value CREATED, assessment_state_value FAILED}) 409
          (''cannot start from state '' @ a_state a)) (\<lambda>_.
        set_assessment aid (\<lambda>a. a\<lparr>a_cancel_requested := False, a_error := []\<rparr>)))))) (\<lambda>_.
     bind_act (start_assessment aid) (\<lambda>_. ret [(''id'', JStr aid)])))"

definition copy_artifact :: "string \<Rightarrow> string \<Rightarrow> discovery_artifact \<Rightarrow> (db, unit) act" where
  "copy_artifact org aid art =
     bind_act new_id (\<lambda>i. modify (\<lambda>d. d\<lparr>db_artifacts := db_artifacts d @
       [\<lparr>art_id = i, art_org_id = org, art_assessment_id = aid, art_kind = art_kind art, art_filename = art_filename art,
         art_content = art_content art, art_endpoint_url = art_endpoint_url art, art_parsed = False, art_warnings = []\<rparr>]\<rparr>))"

definition route_retest :: "principal \<Rightarrow> string \<Rightarrow> bool \<Rightarrow> string list \<Rightarrow> (api, dict) act" where
  "route_retest p aid incremental classes =
     bind_act (lift_sum (require_role OPERATOR p)) (\<lambda>_.
     on_db (transaction
       (bind_act (own_assessment p aid) (\<lambda>prev.
        bind_act new_id (\<lambda>i.
        bind_act (modify (\<lambda>d. d\<lparr>db_assessments := db_assessments d @
          [(new_assessment i (pr_org_id p) (a_target_id prev) (a_authorization_id prev)
              (if classes \<noteq> [] then classes else a_requested_check_classes prev))
            \<lparr>a_is_retest := True, a_incremental := incremental, a_previous_assessment_id := Some (a_id prev)\<rparr>]\<rparr>)) (\<lambda>_.
        bind_act (gets (\<lambda>d. filter (\<lambda>x. art_assessment_id x = a_id prev) (db_artifacts d))) (\<lambda>arts.
        bind_act (for_each (copy_artifact (pr_org_id p) i) arts) (\<lambda>_.
        bind_act (write_audit (pr_org_id p) (Some i) ''system'' ''assessment.retest_created''
          [(''previous'', JStr (a_id prev))]) (\<lambda>_. ret [(''id'', JStr i)])))))))))"

section \<open>Cancelling\<close>

definition route_cancel_all :: "principal \<Rightarrow> (api, dict) act" where
  "route_cancel_all p =
     bind_act (lift_sum (require_role ADMIN p)) (\<lambda>_.
     on_db (transaction
       (bind_act (gets (\<lambda>d. filter (\<lambda>a. a_org_id a = pr_org_id p \<and> \<not> is_terminal (a_state a)) (db_assessments d))) (\<lambda>rows.
        bind_act (for_each (\<lambda>a. set_assessment (a_id a) (\<lambda>x. x\<lparr>a_cancel_requested := True\<rparr>)) rows) (\<lambda>_.
        bind_act (write_audit (pr_org_id p) None ''system'' ''assessment.cancel_all''
          [(''count'', JInt (int (length rows)))]) (\<lambda>_.
        ret [(''cancel_requested'', JInt (int (length rows))),
             (''assessment_ids'', JList (map (\<lambda>a. JStr (a_id a)) rows))]))))))"

definition route_cancel :: "principal \<Rightarrow> string \<Rightarrow> (api, dict) act" where
  "route_cancel p aid =
     bind_act (lift_sum (require_role OPERATOR p)) (\<lambda>_.
     bind_act (gets (\<lambda>s. is_running s aid)) (\<lambda>live.
     on_db (transaction
       (bind_act (own_assessment p aid) (\<lambda>a.
        bind_act (need (\<not> is_terminal (a_state a)) 409 (''assessment already '' @ a_state a)) (\<lambda>_.
        bind_act (set_assessment aid (\<lambda>x. x\<lparr>a_cancel_requested := True\<rparr>)) (\<lambda>_.
        bind_act (write_audit (pr_org_id p) (Some aid) ''system'' ''assessment.cancel_requested'' []) (\<lambda>_.
        if live then ret [(''id'', JStr aid)]
        else
          bind_act clock (\<lambda>now.
          bind_act (set_assessment aid (\<lambda>x. x\<lparr>a_state := assessment_state_value CANCELLED, a_finished_at := Some now\<rparr>)) (\<lambda>_.
          bind_act (write_audit (pr_org_id p) (Some aid) ''system'' ''assessment.cancelled''
            [(''while'', JStr ''not_running'')]) (\<lambda>_. ret [(''id'', JStr aid)])))))))))))"

section \<open>Findings and steps\<close>

definition triage_statuses :: "string list" where
  "triage_statuses = map finding_status_value [REJECTED, CONFIRMED, SUSPECTED]"

definition remember_false_positive :: "principal \<Rightarrow> assessment \<Rightarrow> finding \<Rightarrow> string \<Rightarrow> (db, unit) act" where
  "remember_false_positive p a f reason =
     bind_act new_id (\<lambda>i. modify (\<lambda>d. d\<lparr>db_memory := db_memory d @
       [\<lparr>pm_id = i, pm_org_id = pr_org_id p, pm_target_id = Some (a_target_id a), pm_key = ''known_fp:'' @ fd_dedup_key f,
         pm_value = JDict [(''finding_id'', JStr (fd_id f)), (''title'', JStr (fd_title f)), (''reason'', JStr reason)],
         pm_kind = ''false_positive''\<rparr>]\<rparr>))"

definition route_triage :: "principal \<Rightarrow> string \<Rightarrow> string \<Rightarrow> dict \<Rightarrow> (api, dict) act" where
  "route_triage p aid fid body =
     bind_act (lift_sum (require_role OPERATOR p)) (\<lambda>_.
     on_db (transaction
       (bind_act (own_assessment p aid) (\<lambda>a.
        bind_act (gets (\<lambda>d. find_row fd_id fid (db_findings d))) (\<lambda>fo. case fo of
          None \<Rightarrow> raise_exn (HTTPException 404 ''finding not found'')
        | Some f \<Rightarrow>
          bind_act (need (fd_assessment_id f = aid) 404 ''finding not found'') (\<lambda>_.
          let new_status = str_lower (str_jv (jget_or body ''status'' (JStr [])));
              reason = take 1000 (str_jv (jget_or body ''reason'' (JStr []))) in
          bind_act (need (new_status \<in> set triage_statuses) 422
            (''status must be one of '' @ repr_list (sort triage_statuses))) (\<lambda>_.
          bind_act (set_finding fid (\<lambda>x. x\<lparr>fd_status := new_status\<rparr>)) (\<lambda>_.
          bind_act (if new_status = finding_status_value REJECTED then remember_false_positive p a f reason else ret ()) (\<lambda>_.
          bind_act (write_audit (pr_org_id p) (Some aid) (pr_user_id p) ''finding.triaged''
            [(''finding_id'', JStr fid), (''from'', JStr (fd_status f)), (''to'', JStr new_status), (''reason'', JStr reason)]) (\<lambda>_.
          ret [(''finding_id'', JStr fid), (''status'', JStr new_status), (''previous'', JStr (fd_status f))]))))))))))"

definition held_step :: "principal \<Rightarrow> string \<Rightarrow> string \<Rightarrow> (db, plan_step) act" where
  "held_step p aid sid =
     bind_act (own_assessment p aid) (\<lambda>_.
     bind_act (gets (\<lambda>d. find_row ps_id sid (db_steps d))) (\<lambda>so. case so of
       None \<Rightarrow> raise_exn (HTTPException 404 ''plan step not found'')
     | Some s \<Rightarrow>
       bind_act (need (ps_assessment_id s = aid) 404 ''plan step not found'') (\<lambda>_.
       bind_act (need (ps_status s = ''awaiting_approval'') 409 (''step is '' @ ps_status s @ '', not awaiting_approval'')) (\<lambda>_.
       ret s))))"

definition decide_step :: "string \<Rightarrow> dict \<Rightarrow> string \<Rightarrow> (db, unit) act" where
  "decide_step status extra sid = set_step sid (\<lambda>s. s\<lparr>ps_status := status,
     ps_policy_decision := foldl (\<lambda>d (k, v). dset d k v) (ps_policy_decision s) extra\<rparr>)"

text \<open>\<open>_resume_if_parked\<close>; the state is the one the request read.\<close>

definition resume_if_parked :: "string \<Rightarrow> string \<Rightarrow> (api, unit) act" where
  "resume_if_parked aid state =
     bind_act (gets (\<lambda>s. is_running s aid \<or> state \<noteq> assessment_state_value POLICY_CHECK \<or>
       list_ex (\<lambda>x. ps_assessment_id x = aid \<and> ps_status x = ''awaiting_approval'') (db_steps (ap_db s)))) (\<lambda>waiting.
     if waiting then ret () else start_assessment aid)"

definition route_approve :: "principal \<Rightarrow> string \<Rightarrow> string \<Rightarrow> string \<Rightarrow> (api, dict) act" where
  "route_approve p aid sid note =
     bind_act (lift_sum (require_role OPERATOR p)) (\<lambda>_.
     bind_act (on_db (transaction
       (bind_act (held_step p aid sid) (\<lambda>s.
        bind_act (get_assessment aid) (\<lambda>a.
        bind_act (decide_step ''approved'' [(''approved_by'', JStr (pr_user_id p)), (''approval_note'', JStr note)] sid) (\<lambda>_.
        bind_act (write_audit (pr_org_id p) (Some aid) (pr_user_id p) ''step.approved''
          [(''step_id'', JStr sid), (''check_name'', JStr (ps_check_name s)), (''note'', JStr note)]) (\<lambda>_. ret (a_state a)))))))) (\<lambda>st.
     bind_act (if is_terminal st then start_approved_steps aid [sid] else resume_if_parked aid st) (\<lambda>_.
     ret [(''id'', JStr sid)])))"

definition route_deny :: "principal \<Rightarrow> string \<Rightarrow> string \<Rightarrow> string \<Rightarrow> (api, dict) act" where
  "route_deny p aid sid note =
     bind_act (lift_sum (require_role OPERATOR p)) (\<lambda>_.
     bind_act (on_db (transaction
       (bind_act (held_step p aid sid) (\<lambda>s.
        bind_act (decide_step ''denied'' [(''denied_by'', JStr (pr_user_id p)), (''denial_note'', JStr note)] sid) (\<lambda>_.
        bind_act (write_audit (pr_org_id p) (Some aid) (pr_user_id p) ''step.denied''
          [(''step_id'', JStr sid), (''check_name'', JStr (ps_check_name s))]) (\<lambda>_. get_assessment aid)))))) (\<lambda>a.
     bind_act (resume_if_parked aid (a_state a)) (\<lambda>_. ret [(''id'', JStr sid)])))"

section \<open>Observed traffic\<close>

definition ingest_param :: "jv \<Rightarrow> dict list" where
  "ingest_param v = (case v of
     JDict d \<Rightarrow> if truthy (jget d ''name'')
       then [[(''name'', jget d ''name''), (''in'', jget_or d ''in'' (JStr ''query'')), (''type'', JStr ''string''), (''required'', JBool False)]]
       else []
   | _ \<Rightarrow> [])"

definition ingest_params :: "dict \<Rightarrow> exn + dict list" where
  "ingest_params entry = sum_bind (if truthy (jget entry ''params'') then iter_items (jget entry ''params'') else Inr [])
     (\<lambda>vs. Inr (concat (map ingest_param vs)))"

record ingest_tally =
  it_existing :: "string list"
  it_added :: int
  it_scope :: int
  it_dup :: int

definition endpoint_row :: "string \<Rightarrow> string \<Rightarrow> string \<Rightarrow> discovered_endpoint \<Rightarrow> string \<Rightarrow> endpoint" where
  "endpoint_row i org aid e fp =
     \<lparr>ep_id = i, ep_org_id = org, ep_assessment_id = aid, ep_method = de_method e, ep_url = de_url e,
      ep_path_template = de_path_template e, ep_parameters = de_parameters e,
      ep_request_body_schema = de_request_body_schema e, ep_auth_required = de_auth_required e, ep_roles = de_roles e,
      ep_api_version = de_api_version e, ep_provenance = provenance_value (de_provenance e),
      ep_confidence = de_confidence e, ep_fingerprint = fp\<rparr>"

definition ingest_entry ::
  "(string \<Rightarrow> string) \<Rightarrow> string \<Rightarrow> string \<Rightarrow> guard \<Rightarrow> ingest_tally \<Rightarrow> jv \<Rightarrow> (db, ingest_tally) act" where
  "ingest_entry sha1 org aid g t v = (case v of
     JDict entry \<Rightarrow>
       let url = str_jv (jget_or entry ''url'' (JStr [])); method = str_upper (str_jv (jget_or entry ''method'' (JStr ''GET''))) in
       if url = [] then ret t
       else
         bind_act (lift_sum (hostname_of url)) (\<lambda>host.
         if \<not> sd_allowed (evaluate_new_asset g (str_lower host)) then ret (t\<lparr>it_scope := it_scope t + 1\<rparr>)
         else
           bind_act (lift_sum (ingest_params entry)) (\<lambda>params.
           bind_act (lift_sum (new_endpoint ((plain_endpoint method url TRAFFIC params)
             \<lparr>de_auth_required := truthy (jget entry ''auth'')\<rparr>))) (\<lambda>de.
           bind_act (lift_sum (endpoint_fingerprint sha1 method url (de_path_template de))) (\<lambda>fp.
           if fp \<in> set (it_existing t) then ret (t\<lparr>it_dup := it_dup t + 1\<rparr>)
           else
             bind_act new_id (\<lambda>i.
             bind_act (modify (\<lambda>d. d\<lparr>db_endpoints := db_endpoints d @ [endpoint_row i org aid de fp]\<rparr>)) (\<lambda>_.
             ret (t\<lparr>it_existing := it_existing t @ [fp], it_added := it_added t + 1\<rparr>)))))))
   | _ \<Rightarrow> raise_exn (OtherError ''AttributeError: get''))"

fun ingest_entries ::
  "(string \<Rightarrow> string) \<Rightarrow> string \<Rightarrow> string \<Rightarrow> guard \<Rightarrow> ingest_tally \<Rightarrow> jv list \<Rightarrow> (db, ingest_tally) act" where
  "ingest_entries sha1 org aid g t [] = ret t"
| "ingest_entries sha1 org aid g t (v # vs) =
     bind_act (ingest_entry sha1 org aid g t v) (\<lambda>t'. ingest_entries sha1 org aid g t' vs)"

definition route_ingest :: "settings \<Rightarrow> (string \<Rightarrow> string) \<Rightarrow> principal \<Rightarrow> string \<Rightarrow> dict \<Rightarrow> (api, dict) act" where
  "route_ingest st sha1 p aid body =
     bind_act (lift_sum (require_role OPERATOR p)) (\<lambda>_.
     on_db (transaction
       (bind_act (own_assessment p aid) (\<lambda>a.
        bind_act (fetch db_records az_id (a_authorization_id a) ''authorization'') (\<lambda>record.
        case jget_or body ''entries'' (JList []) of
          JList (v # vs) \<Rightarrow>
            bind_act (gets (\<lambda>d. map ep_fingerprint (endpoints_of aid d))) (\<lambda>existing.
            bind_act (ingest_entries sha1 (pr_org_id p) aid (new_guard st record 0)
              \<lparr>it_existing = existing, it_added = 0, it_scope = 0, it_dup = 0\<rparr> (take 2000 (v # vs))) (\<lambda>t.
            bind_act (write_audit (pr_org_id p) (Some aid) ''system'' ''traffic.ingested''
              [(''added'', JInt (it_added t)), (''skipped_out_of_scope'', JInt (it_scope t)), (''skipped_dup'', JInt (it_dup t))]) (\<lambda>_.
            ret [(''added'', JInt (it_added t)), (''skipped_out_of_scope'', JInt (it_scope t)),
                 (''skipped_duplicate'', JInt (it_dup t))])))
        | _ \<Rightarrow> raise_exn (HTTPException 422 (squoted ''entries'' @ '' must be a non-empty list'')))))))"

section \<open>Regression tests of a target\<close>

definition add_regression_test :: "principal \<Rightarrow> assessment \<Rightarrow> finding \<Rightarrow> (db, dict) act" where
  "add_regression_test p a f =
     bind_act new_id (\<lambda>i.
     let defn = build_regression_definition (fd_check_class f) (fd_reproduction f) (fd_title f);
         title = jstr (jget defn ''title'') in
     bind_act (modify (\<lambda>d. d\<lparr>db_tests := db_tests d @
       [\<lparr>rt_id = i, rt_org_id = pr_org_id p, rt_target_id = a_target_id a, rt_origin_finding_id = fd_id f,
         rt_check_class = fd_check_class f, rt_title = title, rt_definition = defn, rt_last_status = ''unknown'',
         rt_last_run_at = None\<rparr>]\<rparr>)) (\<lambda>_.
     ret [(''id'', JStr i), (''title'', JStr title), (''check_class'', JStr (fd_check_class f))]))"

fun add_regression_tests :: "principal \<Rightarrow> assessment \<Rightarrow> finding list \<Rightarrow> (db, dict list) act" where
  "add_regression_tests p a [] = ret []"
| "add_regression_tests p a (f # fs) =
     bind_act (add_regression_test p a f) (\<lambda>x. bind_act (add_regression_tests p a fs) (\<lambda>xs. ret (x # xs)))"

definition route_generate_tests :: "principal \<Rightarrow> string \<Rightarrow> (api, dict) act" where
  "route_generate_tests p aid =
     bind_act (lift_sum (require_role OPERATOR p)) (\<lambda>_.
     on_db (transaction
       (bind_act (own_assessment p aid) (\<lambda>a.
        bind_act (gets (\<lambda>d. filter (\<lambda>f. fd_status f = finding_status_value CONFIRMED) (findings_of aid d))) (\<lambda>fs.
        bind_act (add_regression_tests p a fs) (\<lambda>created.
        bind_act (write_audit (pr_org_id p) (Some aid) ''system'' ''regression.generated''
          [(''count'', JInt (int (length created)))]) (\<lambda>_.
        ret [(''created'', JInt (int (length created))), (''regression_tests'', JList (map JDict created))])))))))"

text \<open>The tests run one after the other on one guarded client, whose budget starts anew.\<close>

fun run_tests :: "world \<Rightarrow> http_client \<Rightarrow> regression_test list \<Rightarrow> (db, dict list) act" where
  "run_tests w c [] = ret []"
| "run_tests w c (t # ts) =
     (case run_regression (guarded_web w) (rt_definition t) c of
        (Inl e, c') \<Rightarrow> raise_exn e
      | (Inr res, c') \<Rightarrow>
          bind_act clock (\<lambda>now.
          bind_act (modify (\<lambda>d. d\<lparr>db_tests := change_row rt_id (rt_id t)
            (\<lambda>x. x\<lparr>rt_last_status := rg_status res, rt_last_run_at := Some now\<rparr>) (db_tests d)\<rparr>)) (\<lambda>_.
          bind_act (run_tests w c' ts) (\<lambda>rs.
          ret ([(''id'', JStr (rt_id t)), (''title'', JStr (rt_title t)), (''status'', JStr (rg_status res)),
                (''detail'', JStr (rg_detail res))] # rs)))))"

definition route_run_tests :: "settings \<Rightarrow> world \<Rightarrow> principal \<Rightarrow> string \<Rightarrow> (api, dict) act" where
  "route_run_tests st w p aid =
     bind_act (lift_sum (require_role OPERATOR p)) (\<lambda>_.
     on_db (transaction
       (bind_act (own_assessment p aid) (\<lambda>a.
        bind_act (fetch db_records az_id (a_authorization_id a) ''authorization'') (\<lambda>record.
        bind_act (gets (\<lambda>d. filter (\<lambda>t. rt_target_id t = a_target_id a) (db_tests d))) (\<lambda>tests.
        bind_act (need (tests \<noteq> []) 404 ''no regression tests; generate them first'') (\<lambda>_.
        bind_act clock (\<lambda>now.
        let g = new_guard st record 0; active = check_record_active g (dt_us now) in
        bind_act (need (sd_allowed active) 403 (''authorization not usable: '' @ sd_reason active)) (\<lambda>_.
        bind_act (run_tests w (aenter (new_client w 0 g False None)) tests) (\<lambda>results.
        bind_act (write_audit (pr_org_id p) (Some aid) ''system'' ''regression.ran''
          [(''count'', JInt (int (length results)))]) (\<lambda>_.
        ret [(''results'', JList (map JDict results))])))))))))))"

text \<open>
  A retest against its predecessor: the open keys of each, as sets. The program lists a set's members
  in an order it does not fix, and only the first 200; here they are in the order of the findings.
\<close>

definition open_keys :: "string \<Rightarrow> db \<Rightarrow> string list" where
  "open_keys aid d = remdups (map fd_dedup_key (filter (\<lambda>f. fd_status f \<in> {''confirmed'', ''suspected''}) (findings_of aid d)))"

record comparison =
  cm_previous :: string
  cm_fixed :: nat
  cm_still_open :: nat
  cm_newly :: nat
  cm_fixed_keys :: "string list"
  cm_still_open_keys :: "string list"
  cm_newly_keys :: "string list"

definition compare_keys :: "string \<Rightarrow> string list \<Rightarrow> string list \<Rightarrow> comparison" where
  "compare_keys prev old now =
     (let fixed = filter (\<lambda>k. k \<notin> set now) old; still = filter (\<lambda>k. k \<in> set now) old;
          newly = filter (\<lambda>k. k \<notin> set old) now in
      \<lparr>cm_previous = prev, cm_fixed = length fixed, cm_still_open = length still, cm_newly = length newly,
       cm_fixed_keys = take 200 fixed, cm_still_open_keys = take 200 still, cm_newly_keys = take 200 newly\<rparr>)"

definition route_compare :: "principal \<Rightarrow> string \<Rightarrow> (api, comparison) act" where
  "route_compare p aid =
     on_db (bind_act (own_assessment p aid) (\<lambda>a.
       case a_previous_assessment_id a of
         None \<Rightarrow> raise_exn (HTTPException 400 ''assessment is not a retest'')
       | Some prev \<Rightarrow> if prev = [] then raise_exn (HTTPException 400 ''assessment is not a retest'') else
           gets (\<lambda>d. compare_keys prev (open_keys prev d) (open_keys aid d))))"

end
