(* ===== verification/Isolation.thy ===== *)
theory Isolation
  imports Api
begin

text \<open>
  Tenant isolation of the routes of \<open>Api\<close>: a view per organisation, and one lemma per route that
  a request leaves the views of all other organisations as they were.
\<close>

section \<open>Requests\<close>

datatype request =
    ReqCreate string string "string list" "dict list"
  | ReqStart string
  | ReqRetest string bool "string list"
  | ReqCancelAll
  | ReqCancel string
  | ReqTriage string string dict
  | ReqApprove string string string
  | ReqDeny string string string
  | ReqIngest string dict
  | ReqGenerateTests string
  | ReqRunTests string

fun handle :: "settings \<Rightarrow> (string \<Rightarrow> string) \<Rightarrow> world \<Rightarrow> principal \<Rightarrow> request \<Rightarrow> (api, dict) act" where
  "handle st sha1 w p (ReqCreate t az classes arts) = route_create p t az classes arts"
| "handle st sha1 w p (ReqStart aid) = route_start p aid"
| "handle st sha1 w p (ReqRetest aid inc classes) = route_retest p aid inc classes"
| "handle st sha1 w p ReqCancelAll = route_cancel_all p"
| "handle st sha1 w p (ReqCancel aid) = route_cancel p aid"
| "handle st sha1 w p (ReqTriage aid fid body) = route_triage p aid fid body"
| "handle st sha1 w p (ReqApprove aid sid note) = route_approve p aid sid note"
| "handle st sha1 w p (ReqDeny aid sid note) = route_deny p aid sid note"
| "handle st sha1 w p (ReqIngest aid body) = route_ingest st sha1 p aid body"
| "handle st sha1 w p (ReqGenerateTests aid) = route_generate_tests p aid"
| "handle st sha1 w p (ReqRunTests aid) = route_run_tests st w p aid"

section \<open>Views\<close>

text \<open>What an organisation's queries can see of the tables the routes write, and all other tables.\<close>

definition same_view :: "string \<Rightarrow> db \<Rightarrow> db \<Rightarrow> bool" where
  "same_view o' d d' \<longleftrightarrow>
     filter (\<lambda>r. a_org_id r = o') (db_assessments d') = filter (\<lambda>r. a_org_id r = o') (db_assessments d) \<and>
     filter (\<lambda>r. art_org_id r = o') (db_artifacts d') = filter (\<lambda>r. art_org_id r = o') (db_artifacts d) \<and>
     filter (\<lambda>r. ep_org_id r = o') (db_endpoints d') = filter (\<lambda>r. ep_org_id r = o') (db_endpoints d) \<and>
     filter (\<lambda>r. ps_org_id r = o') (db_steps d') = filter (\<lambda>r. ps_org_id r = o') (db_steps d) \<and>
     filter (\<lambda>r. fd_org_id r = o') (db_findings d') = filter (\<lambda>r. fd_org_id r = o') (db_findings d) \<and>
     filter (\<lambda>r. rt_org_id r = o') (db_tests d') = filter (\<lambda>r. rt_org_id r = o') (db_tests d) \<and>
     filter (\<lambda>r. pm_org_id r = o') (db_memory d') = filter (\<lambda>r. pm_org_id r = o') (db_memory d) \<and>
     filter (\<lambda>r. au_org_id r = o') (db_audit d') = filter (\<lambda>r. au_org_id r = o') (db_audit d) \<and>
     db_targets d' = db_targets d \<and> db_records d' = db_records d \<and> db_accounts d' = db_accounts d \<and>
     db_jobs d' = db_jobs d \<and> db_evidence d' = db_evidence d \<and> db_results d' = db_results d \<and>
     db_coverage d' = db_coverage d \<and> db_checkpoints d' = db_checkpoints d \<and> db_skills d' = db_skills d \<and>
     db_users d' = db_users d \<and> db_keys d' = db_keys d \<and> db_ownerships d' = db_ownerships d \<and>
     db_orgs d' = db_orgs d \<and> db_chats d' = db_chats d \<and> db_messages d' = db_messages d"

interpretation view_frame: db_frame "same_view o'" "- {o'}" for o'
  by unfold_locales (auto simp: same_view_def)

text \<open>
  What the schema and the other writers guarantee: primary keys are keys, a row of an assessment has
  the assessment's organisation, and so have the regression tests of its target.
\<close>

definition consistent :: "db \<Rightarrow> bool" where
  "consistent d \<longleftrightarrow>
     distinct (map a_id (db_assessments d)) \<and> distinct (map ps_id (db_steps d)) \<and>
     distinct (map fd_id (db_findings d)) \<and> distinct (map rt_id (db_tests d)) \<and>
     (\<forall>a \<in> set (db_assessments d).
        (\<forall>s \<in> set (db_steps d). ps_assessment_id s = a_id a \<longrightarrow> ps_org_id s = a_org_id a) \<and>
        (\<forall>f \<in> set (db_findings d). fd_assessment_id f = a_id a \<longrightarrow> fd_org_id f = a_org_id a) \<and>
        (\<forall>t \<in> set (db_tests d). rt_target_id t = a_target_id a \<longrightarrow> rt_org_id t = a_org_id a))"

lemma filter_change_row:
  assumes "\<And>r. r \<in> set rows \<Longrightarrow> own r = o' \<Longrightarrow> key r \<noteq> k" "\<And>r. own (f r) = own r"
  shows "filter (\<lambda>r. own r = o') (change_row key k f rows) = filter (\<lambda>r. own r = o') rows"
  using assms by (induction rows) (auto simp: change_row_def)

lemma keyed_other:
  assumes "distinct (map key rows)" "r \<in> set rows" "own r \<noteq> o'" "q \<in> set rows" "own q = o'"
  shows "key q \<noteq> key r"
  using assms by (metis inj_onD distinct_map)

section \<open>Staying out of view\<close>

text \<open>
  Identifiers of rows of each table that are not the organisation's, and the frame of operations that
  change only such rows. It stays a frame because the view determines which identifiers are foreign.
\<close>

record row_ids =
  ri_assessments :: "string set"
  ri_steps :: "string set"
  ri_findings :: "string set"
  ri_tests :: "string set"

definition no_rows :: row_ids where
  "no_rows = \<lparr>ri_assessments = {}, ri_steps = {}, ri_findings = {}, ri_tests = {}\<rparr>"

definition foreign :: "string \<Rightarrow> row_ids \<Rightarrow> db \<Rightarrow> bool" where
  "foreign o' k d \<longleftrightarrow>
     (\<forall>r \<in> set (filter (\<lambda>r. a_org_id r = o') (db_assessments d)). a_id r \<notin> ri_assessments k) \<and>
     (\<forall>r \<in> set (filter (\<lambda>r. ps_org_id r = o') (db_steps d)). ps_id r \<notin> ri_steps k) \<and>
     (\<forall>r \<in> set (filter (\<lambda>r. fd_org_id r = o') (db_findings d)). fd_id r \<notin> ri_findings k) \<and>
     (\<forall>r \<in> set (filter (\<lambda>r. rt_org_id r = o') (db_tests d)). rt_id r \<notin> ri_tests k)"

definition hidden :: "string \<Rightarrow> row_ids \<Rightarrow> db \<Rightarrow> db \<Rightarrow> bool" where
  "hidden o' k d d' \<longleftrightarrow> (foreign o' k d \<longrightarrow> same_view o' d d')"

lemma foreign_view: "same_view o' d d' \<Longrightarrow> foreign o' k d \<Longrightarrow> foreign o' k d'"
  unfolding foreign_def same_view_def by argo

interpretation hidden_frame: db_frame "hidden o' k" "- {o'}" for o' k
proof unfold_locales
  fix d t u
  assume "hidden o' k d t" "hidden o' k t u"
  then show "hidden o' k d u"
    unfolding hidden_def by (blast intro: view_frame.trans foreign_view)
qed (auto simp: hidden_def intro: view_frame.refl view_frame.draws view_frame.audits)

lemma hidden_run: "keeps (hidden o' k) m \<Longrightarrow> foreign o' k d \<Longrightarrow> same_view o' d (snd (m d))"
  by (simp add: keeps_def hidden_def)

lemma hidden_set_assessment:
  assumes "aid \<in> ri_assessments k" "\<And>a. a_org_id (f a) = a_org_id a"
  shows "keeps (hidden o' k) (set_assessment aid f)"
  unfolding set_assessment_def
proof (rule hidden_frame.keeps_modify)
  fix d
  have "foreign o' k d \<Longrightarrow> filter (\<lambda>r. a_org_id r = o') (change_row a_id aid f (db_assessments d)) =
      filter (\<lambda>r. a_org_id r = o') (db_assessments d)"
    using assms by (intro filter_change_row) (auto simp: foreign_def)
  then show "hidden o' k d (d\<lparr>db_assessments := change_row a_id aid f (db_assessments d)\<rparr>)"
    by (simp add: hidden_def same_view_def)
qed

lemma hidden_set_step:
  assumes "sid \<in> ri_steps k" "\<And>a. ps_org_id (f a) = ps_org_id a"
  shows "keeps (hidden o' k) (set_step sid f)"
  unfolding set_step_def
proof (rule hidden_frame.keeps_modify)
  fix d
  have "foreign o' k d \<Longrightarrow> filter (\<lambda>r. ps_org_id r = o') (change_row ps_id sid f (db_steps d)) =
      filter (\<lambda>r. ps_org_id r = o') (db_steps d)"
    using assms by (intro filter_change_row) (auto simp: foreign_def)
  then show "hidden o' k d (d\<lparr>db_steps := change_row ps_id sid f (db_steps d)\<rparr>)"
    by (simp add: hidden_def same_view_def)
qed

lemma hidden_set_finding:
  assumes "fid \<in> ri_findings k" "\<And>a. fd_org_id (f a) = fd_org_id a"
  shows "keeps (hidden o' k) (set_finding fid f)"
  unfolding set_finding_def
proof (rule hidden_frame.keeps_modify)
  fix d
  have "foreign o' k d \<Longrightarrow> filter (\<lambda>r. fd_org_id r = o') (change_row fd_id fid f (db_findings d)) =
      filter (\<lambda>r. fd_org_id r = o') (db_findings d)"
    using assms by (intro filter_change_row) (auto simp: foreign_def)
  then show "hidden o' k d (d\<lparr>db_findings := change_row fd_id fid f (db_findings d)\<rparr>)"
    by (simp add: hidden_def same_view_def)
qed

lemma hidden_change_test:
  assumes "tid \<in> ri_tests k" "\<And>a. rt_org_id (f a) = rt_org_id a"
  shows "keeps (hidden o' k) (modify (\<lambda>d. d\<lparr>db_tests := change_row rt_id tid f (db_tests d)\<rparr>))"
proof (rule hidden_frame.keeps_modify)
  fix d
  have "foreign o' k d \<Longrightarrow> filter (\<lambda>r. rt_org_id r = o') (change_row rt_id tid f (db_tests d)) =
      filter (\<lambda>r. rt_org_id r = o') (db_tests d)"
    using assms by (intro filter_change_row) (auto simp: foreign_def)
  then show "hidden o' k d (d\<lparr>db_tests := change_row rt_id tid f (db_tests d)\<rparr>)"
    by (simp add: hidden_def same_view_def)
qed

text \<open>Appending rows of another organisation.\<close>

lemma hidden_append:
  "a_org_id a \<noteq> o' \<Longrightarrow> hidden o' k d (d\<lparr>db_assessments := db_assessments d @ [a]\<rparr>)"
  "art_org_id b \<noteq> o' \<Longrightarrow> hidden o' k d (d\<lparr>db_artifacts := db_artifacts d @ [b]\<rparr>)"
  "ep_org_id e \<noteq> o' \<Longrightarrow> hidden o' k d (d\<lparr>db_endpoints := db_endpoints d @ [e]\<rparr>)"
  "rt_org_id t \<noteq> o' \<Longrightarrow> hidden o' k d (d\<lparr>db_tests := db_tests d @ [t]\<rparr>)"
  "pm_org_id m \<noteq> o' \<Longrightarrow> hidden o' k d (d\<lparr>db_memory := db_memory d @ [m]\<rparr>)"
  by (simp_all add: hidden_def same_view_def)

lemma hidden_for_each: "(\<And>x. x \<in> set xs \<Longrightarrow> keeps (hidden o' k) (f x)) \<Longrightarrow> keeps (hidden o' k) (for_each f xs)"
  by (induction xs) (auto intro: hidden_frame.keeps_ret hidden_frame.keeps_bind)

lemma hidden_need: "keeps (hidden o' k) (need b st msg)"
  by (simp add: need_def hidden_frame.keeps_ret hidden_frame.keeps_raise)

lemmas hidden_rules = hidden_frame.keeps_ret hidden_frame.keeps_raise hidden_frame.keeps_lift hidden_frame.keeps_gets
  hidden_frame.keeps_bind hidden_frame.keeps_if hidden_frame.keeps_db hidden_need hidden_append

section \<open>The parts of the routes\<close>

lemma hidden_artifacts:
  assumes "org \<noteq> o'"
  shows "keeps (hidden o' k) (add_artifact org aid b)" "keeps (hidden o' k) (copy_artifact org aid c)"
  unfolding add_artifact_def copy_artifact_def
  by (intro hidden_rules hidden_frame.keeps_modify; simp add: assms)+

lemma hidden_create:
  assumes "org \<noteq> o'"
  shows "keeps (hidden o' k) (create_assessment org t az classes arts extra)"
  unfolding create_assessment_def
  by (intro hidden_rules hidden_frame.keeps_option hidden_for_each hidden_artifacts hidden_frame.keeps_modify)
    (simp_all add: assms new_assessment_def)

lemma hidden_remember:
  assumes "pr_org_id p \<noteq> o'"
  shows "keeps (hidden o' k) (remember_false_positive p a f reason)"
  unfolding remember_false_positive_def by (intro hidden_rules hidden_frame.keeps_modify) (simp_all add: assms)

lemma hidden_ingest_entry:
  assumes "org \<noteq> o'"
  shows "keeps (hidden o' k) (ingest_entry sha1 org aid g t v)"
  unfolding ingest_entry_def Let_def
  by (cases v; simp only: jv.case; intro hidden_rules hidden_frame.keeps_modify; simp add: assms endpoint_row_def)

lemma hidden_ingest_entries:
  assumes "org \<noteq> o'"
  shows "keeps (hidden o' k) (ingest_entries sha1 org aid g t vs)"
proof (induction vs arbitrary: t)
  case Nil
  show ?case unfolding ingest_entries.simps by (rule hidden_frame.keeps_ret)
next
  case (Cons v vs)
  show ?case unfolding ingest_entries.simps
    by (rule hidden_frame.keeps_bind, rule hidden_ingest_entry [OF assms], rule Cons)
qed

lemma hidden_add_tests:
  assumes "pr_org_id p \<noteq> o'"
  shows "keeps (hidden o' k) (add_regression_tests p a fs)"
proof (induction fs)
  case (Cons f fs)
  have "keeps (hidden o' k) (add_regression_test p a f)"
    unfolding add_regression_test_def Let_def
    by (intro hidden_rules hidden_frame.keeps_modify) (simp_all add: assms)
  with Cons show ?case by (auto intro!: hidden_frame.keeps_bind hidden_frame.keeps_ret)
next
  case Nil
  show ?case unfolding add_regression_tests.simps by (rule hidden_frame.keeps_ret)
qed

lemma hidden_run_tests:
  "rt_id ` set ts \<subseteq> ri_tests k \<Longrightarrow> keeps (hidden o' k) (run_tests w c ts)"
proof (induction ts arbitrary: c)
  case (Cons t ts)
  obtain r c' where r: "run_regression (guarded_web w) (rt_definition t) c = (r, c')" by fastforce
  show ?case
  proof (cases r)
    case (Inl e)
    show ?thesis unfolding run_tests.simps r Inl prod.case sum.case by (rule hidden_frame.keeps_raise)
  next
    case (Inr res)
    have "keeps (hidden o' k) (run_tests w c' ts)" using Cons by simp
    then show ?thesis unfolding run_tests.simps r Inr prod.case sum.case
      using Cons.prems by (intro hidden_rules hidden_change_test) auto
  qed
next
  case Nil
  show ?case unfolding run_tests.simps by (rule hidden_frame.keeps_ret)
qed

section \<open>Running a route\<close>

lemma on_db_snd: "ap_db (snd (on_db m s)) = snd (m (ap_db s))"
  by (simp add: on_db_def split: prod.splits)

lemma on_db_bind:
  assumes "\<And>x s. ap_db (snd (g x s)) = ap_db s"
  shows "ap_db (snd (bind_act (on_db m) g s)) = snd (m (ap_db s))"
  using assms by (simp add: on_db_def bind_act_def split: prod.splits sum.splits)

lemma launch_db:
  "ap_db (snd (start_assessment aid s)) = ap_db s"
  "ap_db (snd (start_approved_steps aid ids s)) = ap_db s"
  "ap_db (snd (resume_if_parked aid st s)) = ap_db s"
  "ap_db (snd (bind_act (start_assessment aid) (\<lambda>_. ret x) s)) = ap_db s"
  "ap_db (snd (bind_act (if b then start_approved_steps aid ids else resume_if_parked aid st) (\<lambda>_. ret x) s)) = ap_db s"
  "ap_db (snd (bind_act (resume_if_parked aid st) (\<lambda>_. ret x) s)) = ap_db s"
  by (simp_all add: start_assessment_def start_approved_steps_def resume_if_parked_def bind_act_def)

lemma role_view:
  "same_view o' (ap_db s) (ap_db (snd (m s))) \<Longrightarrow>
   same_view o' (ap_db s) (ap_db (snd (bind_act (lift_sum r) (\<lambda>_. m) s)))"
  by (cases r) (simp_all add: bind_act_def view_frame.refl)

lemma transaction_view:
  assumes "same_view o' d (snd (m d))"
  shows "same_view o' d (snd (transaction m d))"
proof -
  obtain r d' where "m d = (r, d')" by fastforce
  with assms show ?thesis by (cases r) (auto simp: transaction_def intro: view_frame.draws)
qed

lemma route_view:
  "same_view o' (ap_db s) (snd (m (ap_db s))) \<Longrightarrow>
   same_view o' (ap_db s) (ap_db (snd (bind_act (lift_sum r) (\<lambda>_. on_db (transaction m)) s)))"
  by (intro role_view) (simp add: on_db_snd transaction_view)

lemma route_then_view:
  assumes "\<And>x s. ap_db (snd (g x s)) = ap_db s" "same_view o' (ap_db s) (snd (m (ap_db s)))"
  shows "same_view o' (ap_db s) (ap_db (snd (bind_act (lift_sum r) (\<lambda>_. bind_act (on_db (transaction m)) g) s)))"
  by (intro role_view) (simp add: on_db_bind [of g, OF assms(1)] transaction_view assms(2))

lemma own_view:
  assumes "\<And>a. find_row a_id aid (db_assessments d) = Some a \<Longrightarrow> a_org_id a = pr_org_id p \<Longrightarrow> same_view o' d (snd (f a d))"
  shows "same_view o' d (snd (bind_act (own_assessment p aid) f d))"
  using assms by (auto simp: own_assessment_def bind_act_def view_frame.refl split: option.splits)

lemma gets_view: "same_view o' d (snd (f (g d) d)) \<Longrightarrow> same_view o' d (snd (bind_act (gets g) f d))"
  by (simp add: bind_act_def)

lemma gets_run:
  "keeps (hidden o' k) (f (g d)) \<Longrightarrow> foreign o' k d \<Longrightarrow> same_view o' d (snd (bind_act (gets g) f d))"
  by (intro gets_view hidden_run)

lemma fetch_view: "(\<And>x. same_view o' d (snd (f x d))) \<Longrightarrow> same_view o' d (snd (bind_act (fetch table key k what) f d))"
  by (auto simp: fetch_def require_def bind_act_def view_frame.refl split: option.splits)

lemma need_view: "(b \<Longrightarrow> same_view o' d (snd (f () d))) \<Longrightarrow> same_view o' d (snd (bind_act (need b st msg) f d))"
  by (simp add: need_def bind_act_def view_frame.refl)

lemma found_view:
  assumes "\<And>x. g d = Some x \<Longrightarrow> same_view o' d (snd (f x d))"
  shows "same_view o' d (snd (bind_act (gets g) (\<lambda>r. case r of None \<Rightarrow> raise_exn e | Some x \<Rightarrow> f x) d))"
  using assms by (auto simp: bind_act_def view_frame.refl split: option.splits)

lemma held_view:
  assumes "\<And>a q. find_row a_id aid (db_assessments d) = Some a \<Longrightarrow> a_org_id a = pr_org_id p \<Longrightarrow>
    find_row ps_id sid (db_steps d) = Some q \<Longrightarrow> ps_assessment_id q = aid \<Longrightarrow> same_view o' d (snd (f q d))"
  shows "same_view o' d (snd (bind_act (held_step p aid sid) f d))"
  using assms by (auto simp: held_step_def own_assessment_def need_def bind_act_def view_frame.refl split: option.splits)

text \<open>The rows a route finds are foreign to the other organisations.\<close>

lemma foreign_none: "foreign o' no_rows d"
  by (simp add: foreign_def no_rows_def)

lemma foreign_assessments:
  assumes "consistent d" "\<And>a. a \<in> A \<Longrightarrow> a \<in> set (db_assessments d) \<and> a_org_id a \<noteq> o'"
  shows "foreign o' (no_rows\<lparr>ri_assessments := a_id ` A\<rparr>) d"
  using assms keyed_other [of a_id "db_assessments d" _ a_org_id o']
  by (fastforce simp: foreign_def no_rows_def consistent_def)

lemma foreign_assessment:
  assumes "consistent d" "find_row a_id aid (db_assessments d) = Some a" "a_org_id a \<noteq> o'"
  shows "foreign o' (no_rows\<lparr>ri_assessments := {aid}\<rparr>) d"
  using foreign_assessments [of d "{a}" o'] assms find_row_mem [OF assms(2)] find_row_key [OF assms(2)] by simp

lemma foreign_step:
  assumes "consistent d" "find_row a_id aid (db_assessments d) = Some a" "a_org_id a \<noteq> o'"
    and "find_row ps_id sid (db_steps d) = Some q" "ps_assessment_id q = aid"
  shows "foreign o' (no_rows\<lparr>ri_steps := {sid}\<rparr>) d"
proof -
  note f = find_row_mem [OF assms(2)] find_row_key [OF assms(2)] find_row_mem [OF assms(4)] find_row_key [OF assms(4)]
  have "ps_org_id q = a_org_id a" using assms(1,5) f by (auto simp: consistent_def)
  then show ?thesis
    using assms(1,3) f keyed_other [of ps_id "db_steps d" q ps_org_id o']
    by (fastforce simp: foreign_def no_rows_def consistent_def)
qed

lemma foreign_finding:
  assumes "consistent d" "find_row a_id aid (db_assessments d) = Some a" "a_org_id a \<noteq> o'"
    and "find_row fd_id fid (db_findings d) = Some q" "fd_assessment_id q = aid"
  shows "foreign o' (no_rows\<lparr>ri_findings := {fid}\<rparr>) d"
proof -
  note f = find_row_mem [OF assms(2)] find_row_key [OF assms(2)] find_row_mem [OF assms(4)] find_row_key [OF assms(4)]
  have "fd_org_id q = a_org_id a" using assms(1,5) f by (auto simp: consistent_def)
  then show ?thesis
    using assms(1,3) f keyed_other [of fd_id "db_findings d" q fd_org_id o']
    by (fastforce simp: foreign_def no_rows_def consistent_def)
qed

lemma foreign_tests:
  assumes "consistent d" "find_row a_id aid (db_assessments d) = Some a" "a_org_id a \<noteq> o'"
  shows "foreign o' (no_rows\<lparr>ri_tests := rt_id ` {t \<in> set (db_tests d). rt_target_id t = a_target_id a}\<rparr>) d"
proof -
  have own: "rt_org_id t \<noteq> o'" if "t \<in> set (db_tests d)" "rt_target_id t = a_target_id a" for t
    using that assms find_row_mem [OF assms(2)] by (auto simp: consistent_def)
  have "distinct (map rt_id (db_tests d))" using assms(1) by (simp add: consistent_def)
  from keyed_other [OF this, of _ rt_org_id o'] own show ?thesis
    by (fastforce simp: foreign_def no_rows_def)
qed

section \<open>The routes\<close>

lemma create_isolated:
  assumes "pr_org_id p \<noteq> o'"
  shows "same_view o' (ap_db s) (ap_db (snd (route_create p t az classes arts s)))"
  unfolding route_create_def
  by (rule route_then_view, simp, rule hidden_run [OF hidden_create [OF assms] foreign_none])

lemma start_isolated:
  assumes "pr_org_id p \<noteq> o'" "consistent (ap_db s)"
  shows "same_view o' (ap_db s) (ap_db (snd (route_start p aid s)))"
  unfolding route_start_def
proof (rule route_then_view, rule launch_db, rule own_view, rule hidden_run)
  fix a assume "find_row a_id aid (db_assessments (ap_db s)) = Some a" "a_org_id a = pr_org_id p"
  with assms show "foreign o' (no_rows\<lparr>ri_assessments := {aid}\<rparr>) (ap_db s)"
    by (metis foreign_assessment)
qed (intro hidden_rules hidden_set_assessment; simp)

lemma retest_isolated:
  assumes "pr_org_id p \<noteq> o'"
  shows "same_view o' (ap_db s) (ap_db (snd (route_retest p aid inc classes s)))"
  unfolding route_retest_def
  by (rule route_view, rule own_view, rule hidden_run [OF _ foreign_none],
      intro hidden_rules hidden_for_each hidden_artifacts hidden_frame.keeps_modify)
    (simp_all add: assms new_assessment_def)

lemma cancel_all_isolated:
  assumes "pr_org_id p \<noteq> o'" "consistent (ap_db s)"
  shows "same_view o' (ap_db s) (ap_db (snd (route_cancel_all p s)))"
  unfolding route_cancel_all_def
proof (rule route_view, rule gets_run)
  show "foreign o' (no_rows\<lparr>ri_assessments := a_id ` set (filter (\<lambda>a. a_org_id a = pr_org_id p \<and>
      \<not> is_terminal (a_state a)) (db_assessments (ap_db s)))\<rparr>) (ap_db s)"
    using assms by (intro foreign_assessments) auto
qed (intro hidden_rules hidden_for_each hidden_set_assessment; simp add: assms(1))

lemma cancel_isolated:
  assumes "pr_org_id p \<noteq> o'" "consistent (ap_db s)"
  shows "same_view o' (ap_db s) (ap_db (snd (route_cancel p aid s)))"
  unfolding route_cancel_def
proof (rule role_view, simp only: bind_act_def [of "gets f" for f] act_simps prod.case sum.case on_db_snd,
    rule transaction_view, rule own_view, rule hidden_run)
  fix a assume "find_row a_id aid (db_assessments (ap_db s)) = Some a" "a_org_id a = pr_org_id p"
  with assms show "foreign o' (no_rows\<lparr>ri_assessments := {aid}\<rparr>) (ap_db s)"
    by (metis foreign_assessment)
qed (intro hidden_rules hidden_set_assessment; simp add: assms(1))

lemma triage_isolated:
  assumes "pr_org_id p \<noteq> o'" "consistent (ap_db s)"
  shows "same_view o' (ap_db s) (ap_db (snd (route_triage p aid fid body s)))"
  unfolding route_triage_def
proof (rule route_view, rule own_view, rule found_view, rule need_view, unfold Let_def, rule hidden_run)
  fix a f assume "find_row a_id aid (db_assessments (ap_db s)) = Some a" "a_org_id a = pr_org_id p"
    "find_row fd_id fid (db_findings (ap_db s)) = Some f" "fd_assessment_id f = aid"
  with assms show "foreign o' (no_rows\<lparr>ri_findings := {fid}\<rparr>) (ap_db s)"
    by (metis foreign_finding)
qed (intro hidden_rules hidden_set_finding hidden_remember; simp add: assms(1))

lemma approve_isolated:
  assumes "pr_org_id p \<noteq> o'" "consistent (ap_db s)"
  shows "same_view o' (ap_db s) (ap_db (snd (route_approve p aid sid note s)))"
  unfolding route_approve_def
proof (rule route_then_view, rule launch_db, rule held_view, rule hidden_run)
  fix a q assume "find_row a_id aid (db_assessments (ap_db s)) = Some a" "a_org_id a = pr_org_id p"
    "find_row ps_id sid (db_steps (ap_db s)) = Some q" "ps_assessment_id q = aid"
  with assms show "foreign o' (no_rows\<lparr>ri_steps := {sid}\<rparr>) (ap_db s)"
    by (metis foreign_step)
qed (unfold get_assessment_def decide_step_def, intro hidden_rules hidden_set_step; simp add: assms(1))

lemma deny_isolated:
  assumes "pr_org_id p \<noteq> o'" "consistent (ap_db s)"
  shows "same_view o' (ap_db s) (ap_db (snd (route_deny p aid sid note s)))"
  unfolding route_deny_def
proof (rule route_then_view, rule launch_db, rule held_view, rule hidden_run)
  fix a q assume "find_row a_id aid (db_assessments (ap_db s)) = Some a" "a_org_id a = pr_org_id p"
    "find_row ps_id sid (db_steps (ap_db s)) = Some q" "ps_assessment_id q = aid"
  with assms show "foreign o' (no_rows\<lparr>ri_steps := {sid}\<rparr>) (ap_db s)"
    by (metis foreign_step)
qed (unfold get_assessment_def decide_step_def, intro hidden_rules hidden_set_step; simp add: assms(1))

lemma hidden_ingest:
  assumes "pr_org_id p \<noteq> o'"
  shows "keeps (hidden o' k) (bind_act (gets (\<lambda>d. map ep_fingerprint (endpoints_of aid d))) (\<lambda>existing.
            bind_act (ingest_entries sha1 (pr_org_id p) aid g
              \<lparr>it_existing = existing, it_added = 0, it_scope = 0, it_dup = 0\<rparr> vs) (\<lambda>t.
            bind_act (write_audit (pr_org_id p) (Some aid) ''system'' ''traffic.ingested''
              [(''added'', JInt (it_added t)), (''skipped_out_of_scope'', JInt (it_scope t)), (''skipped_dup'', JInt (it_dup t))]) (\<lambda>_.
            ret [(''added'', JInt (it_added t)), (''skipped_out_of_scope'', JInt (it_scope t)),
                 (''skipped_duplicate'', JInt (it_dup t))]))))"
  by (intro hidden_rules hidden_ingest_entries) (simp_all add: assms)

lemma hidden_entries:
  "(\<And>v vs. keeps R (f v vs)) \<Longrightarrow> keeps R m \<Longrightarrow> keeps R (case j of JList (v # vs) \<Rightarrow> f v vs | _ \<Rightarrow> m)"
  by (simp split: jv.split list.split)

lemma ingest_isolated:
  assumes "pr_org_id p \<noteq> o'"
  shows "same_view o' (ap_db s) (ap_db (snd (route_ingest st sha1 p aid body s)))"
  unfolding route_ingest_def
  by (rule route_view, rule own_view, rule fetch_view, rule hidden_run [OF _ foreign_none],
      rule hidden_entries, rule hidden_ingest [OF assms], rule hidden_frame.keeps_raise)

lemma generate_isolated:
  assumes "pr_org_id p \<noteq> o'"
  shows "same_view o' (ap_db s) (ap_db (snd (route_generate_tests p aid s)))"
  unfolding route_generate_tests_def
  by (rule route_view, rule own_view, rule hidden_run [OF _ foreign_none], intro hidden_rules hidden_add_tests)
    (simp_all add: assms)

lemma run_tests_isolated:
  assumes "pr_org_id p \<noteq> o'" "consistent (ap_db s)"
  shows "same_view o' (ap_db s) (ap_db (snd (route_run_tests st w p aid s)))"
  unfolding route_run_tests_def
proof (rule route_view, rule own_view, rule fetch_view, rule gets_run)
  fix a assume "find_row a_id aid (db_assessments (ap_db s)) = Some a" "a_org_id a = pr_org_id p"
  with assms show "foreign o' (no_rows\<lparr>ri_tests := rt_id ` {t \<in> set (db_tests (ap_db s)). rt_target_id t = a_target_id a}\<rparr>) (ap_db s)"
    by (metis foreign_tests)
qed (unfold Let_def, intro hidden_rules hidden_run_tests; auto simp: assms(1))

section \<open>Every route\<close>


definition two_tenants :: api where
  "two_tenants = \<lparr>ap_db = empty_db\<lparr>db_assessments :=
     [new_assessment ''a1'' ''o1'' ''t1'' ''z1'' [], new_assessment ''a2'' ''o2'' ''t2'' ''z2'' []]\<rparr>,
     ap_running = [], ap_launched = []\<rparr>"

definition demo_admin :: principal where
  "demo_admin = \<lparr>pr_org_id = ''o1'', pr_user_id = ''u1'', pr_role = ADMIN, pr_auth_method = ''jwt''\<rparr>"


end
