(* ===== verification/Registry.thy ===== *)
theory Registry
  imports Store Auth Regex Declarative
begin

text \<open>
  \<open>app/agents/registry.py\<close>: check manifests and their registration. The YAML reader, SHA-256 and what
  \<open>re.compile\<close> says of an expression (None, or the text of the error) are parameters. A manifest's
  detector type and its name, version and class are scalars. A loaded check is the manifest it was
  built from with the check.
\<close>

section \<open>Validation of a manifest\<close>

definition DETECTOR_REQUIRED :: "(string \<times> string list) list" where
  "DETECTOR_REQUIRED = [(''error_signature'', [''signatures'']), (''reflection'', []), (''status_code'', []),
     (''header_missing'', [''headers'']), (''header_present'', [''headers'']),
     (''header_reflects'', [''request_header'', ''response_header''])]"

definition manifest_report :: "string list \<Rightarrow> jv \<Rightarrow> dict" where
  "manifest_report errors dtype =
     [(''ok'', JBool (errors = [])), (''errors'', JList (map JStr errors)), (''detector_type'', dtype)]"

definition signature_error :: "(string \<Rightarrow> string option) \<Rightarrow> jv \<Rightarrow> exn + string list" where
  "signature_error rx_error sig = (case sig of
     JStr s \<Rightarrow> Inr (case rx_error s of None \<Rightarrow> []
       | Some msg \<Rightarrow> [''invalid signature regex '' @ py_repr s @ '': '' @ msg])
   | _ \<Rightarrow> Inl (OtherError ''TypeError: first argument must be string or compiled pattern''))"

definition signature_errors :: "(string \<Rightarrow> string option) \<Rightarrow> dict \<Rightarrow> exn + string list" where
  "signature_errors rx_error det =
     sum_bind (iter_items (jget_or det ''signatures'' (JList []))) (\<lambda>sigs.
     sum_bind (mapM_sum (signature_error rx_error) sigs) (\<lambda>ess. Inr (concat ess)))"

definition validate_declarative_spec :: "(string \<Rightarrow> string option) \<Rightarrow> dict \<Rightarrow> exn + dict" where
  "validate_declarative_spec rx_error spec = (case jget spec ''detector'' of
     JDict det \<Rightarrow>
       (case jget det ''type'' of
          JStr dtype \<Rightarrow>
            if dtype \<notin> set DETECTOR_TYPES
            then Inr (manifest_report [''detector.type must be one of '' @ repr_list (sort DETECTOR_TYPES)] (JStr dtype))
            else
              let missing = map (\<lambda>req. ''detector.'' @ req @ '' is required for type '' @ [chr 39] @ dtype @ [chr 39])
                    (filter (\<lambda>req. \<not> truthy (jget det req))
                      (case dget DETECTOR_REQUIRED dtype of Some rs \<Rightarrow> rs | None \<Rightarrow> []));
                  name = (if \<not> truthy (jget spec ''name'') \<or> jget spec ''name'' = JStr ''unnamed-skill''
                    then [''a named '' @ squoted ''name'' @ '' is required''] else []);
                  version = (if \<not> truthy (jget spec ''version'') then [''a '' @ squoted ''version'' @ '' is required''] else []);
                  cls = (if \<not> truthy (jget spec ''check_class'') then [''check_class is required''] else []);
                  intensity = (if jget spec ''intensity'' \<notin> JStr ` set [''passive'', ''safe_active'', ''invasive'']
                    then [''intensity must be passive|safe_active|invasive''] else []) in
              sum_bind (if dtype = ''error_signature'' then signature_errors rx_error det else Inr []) (\<lambda>sigs.
                Inr (manifest_report (missing @ name @ version @ cls @ intensity @ sigs) (JStr dtype)))
        | dtype \<Rightarrow> Inr (manifest_report [''detector.type must be one of '' @ repr_list (sort DETECTOR_TYPES)] dtype))
   | _ \<Rightarrow> Inr (manifest_report [''missing '' @ squoted ''detector'' @ '' object''] JNull))"

section \<open>SKILL.md\<close>

record skill_manifest =
  sm_name :: string
  sm_version :: string
  sm_check_class :: string
  sm_intensity :: string
  sm_allowed_tools :: "string list"
  sm_policy :: dict
  sm_body :: string
  sm_needs_code :: bool
  sm_spec :: dict
  sm_validation :: dict
  sm_tested :: bool

definition FRONTMATTER :: rx where
  "FRONTMATTER = seqs [Bol, star space_rx, lit ''---'', star space_rx, Cls ((=) (chr 10)),
     Grp 1 (Rep 0 None False (Cls (\<lambda>_. True))), Cls ((=) (chr 10)), lit ''---'', star space_rx, Cls ((=) (chr 10)),
     Grp 2 (star (Cls (\<lambda>_. True))), Eol]"

definition split_frontmatter :: "string \<Rightarrow> string \<times> string" where
  "split_frontmatter text = (case rx_match_start FRONTMATTER text of
     None \<Rightarrow> ([], text)
   | Some st \<Rightarrow> (case dget (rs_groups st) 1 of Some a \<Rightarrow> a | None \<Rightarrow> [],
                 case dget (rs_groups st) 2 of Some b \<Rightarrow> b | None \<Rightarrow> []))"

definition frontmatter_meta :: "(string \<Rightarrow> jv option) \<Rightarrow> string \<Rightarrow> dict" where
  "frontmatter_meta yaml fm = (case yaml fm of Some (JDict d) \<Rightarrow> d | _ \<Rightarrow> [])"

definition parse_skill_md ::
  "(string \<Rightarrow> jv option) \<Rightarrow> (string \<Rightarrow> string option) \<Rightarrow> 'c check_registry \<Rightarrow> string \<Rightarrow> exn + skill_manifest" where
  "parse_skill_md yaml rx_error reg text = (case split_frontmatter text of (fm, body) \<Rightarrow>
     let meta = frontmatter_meta yaml fm;
         name = text_field meta ''name'' ''unnamed-skill'';
         has_impl = (get_check reg name \<noteq> None) in
     sum_bind (case jget meta ''detector'' of JDict _ \<Rightarrow> validate_declarative_spec rx_error meta | _ \<Rightarrow> Inr []) (\<lambda>validation.
       Inr \<lparr>sm_name = name, sm_version = text_field meta ''version'' ''1.0.0'',
            sm_check_class = text_field meta ''check_class'' [], sm_intensity = text_field meta ''intensity'' ''passive'',
            sm_allowed_tools = (case jget_or meta ''allowed_tools'' (JList []) of JList ts \<Rightarrow> map str_jv ts | _ \<Rightarrow> []),
            sm_policy = (case jget meta ''policy'' of JDict p \<Rightarrow> p | _ \<Rightarrow> []),
            sm_body = str_strip body,
            sm_needs_code = (\<not> (has_impl \<or> (manifest_is_executable meta \<and> truthy (jget_or validation ''ok'' (JBool False))))),
            sm_spec = meta, sm_validation = validation,
            sm_tested = (if validation \<noteq> [] then truthy (jget validation ''ok'') else has_impl)\<rparr>))"

section \<open>Registration\<close>

text \<open>\<open>json.dumps(v, sort_keys=True)\<close>.\<close>

fun json_sorted :: "jv \<Rightarrow> string" where
  "json_sorted (JList xs) = ''['' @ join_with '', '' (map json_sorted xs) @ '']''"
| "json_sorted (JDict d) =
     ''{'' @ join_with '', '' (map (\<lambda>(k, s). json_str k @ '': '' @ s)
       (sort_key fst (map (\<lambda>(k, v). (k, json_sorted v)) d))) @ ''}''"
| "json_sorted v = json_dumps v"

definition MUTABLE_MANIFEST_KEYS :: "string list" where
  "MUTABLE_MANIFEST_KEYS = [''validation'', ''tested'', ''body_preview'']"

definition stable_part :: "dict \<Rightarrow> dict" where
  "stable_part payload = filter (\<lambda>(k, v). k \<notin> set MUTABLE_MANIFEST_KEYS) payload"

definition manifest_hash :: "(string \<Rightarrow> string) \<Rightarrow> dict \<Rightarrow> string" where
  "manifest_hash sha256 payload = sha256 (json_sorted (JDict (stable_part payload)))"

definition skill_ref :: "(string \<Rightarrow> string) \<Rightarrow> string \<Rightarrow> string \<Rightarrow> dict \<Rightarrow> string" where
  "skill_ref sha256 name version payload = name @ ''@'' @ version @ ''#'' @ take 8 (manifest_hash sha256 payload)"

definition manifest_payload :: "skill_manifest \<Rightarrow> dict" where
  "manifest_payload m =
     [(''intensity'', JStr (sm_intensity m)), (''allowed_tools'', JList (map JStr (sm_allowed_tools m))),
      (''policy'', JDict (sm_policy m)), (''needs_code'', JBool (sm_needs_code m)),
      (''executable'', JBool (\<not> sm_needs_code m)), (''declarative'', JBool (manifest_is_executable (sm_spec m))),
      (''detector'', jget (sm_spec m) ''detector''), (''cwe'', jget_or (sm_spec m) ''cwe'' (JStr [])),
      (''severity'', jget_or (sm_spec m) ''severity'' (JStr ''medium'')),
      (''confidence'', jget_or (sm_spec m) ''confidence'' (JStr ''medium'')),
      (''title'', jget_or (sm_spec m) ''title'' (JStr (sm_name m))),
      (''description'', jget_or (sm_spec m) ''description'' (JStr [])),
      (''remediation'', jget_or (sm_spec m) ''remediation'' (JStr [])),
      (''validation'', JDict (sm_validation m)), (''tested'', JBool (sm_tested m)),
      (''body_preview'', JStr (take 500 (sm_body m)))]"

definition set_skill :: "string \<Rightarrow> (agent_skill \<Rightarrow> agent_skill) \<Rightarrow> (db, unit) act" where
  "set_skill sid f = modify (\<lambda>d. d\<lparr>db_skills := change_row sk_id sid f (db_skills d)\<rparr>)"

definition same_version :: "string option \<Rightarrow> string \<Rightarrow> string \<Rightarrow> agent_skill \<Rightarrow> bool" where
  "same_version org name version s \<longleftrightarrow> sk_name s = name \<and> sk_version s = version \<and> sk_org_id s = org"

definition register_manifest ::
  "(string \<Rightarrow> string) \<Rightarrow> skill_manifest \<Rightarrow> string \<Rightarrow> string option \<Rightarrow> (db, string) act" where
  "register_manifest sha256 m provenance org =
     bind_act (gets (\<lambda>d. one_or_none (filter (same_version org (sm_name m) (sm_version m)) (db_skills d)))) (\<lambda>r.
     bind_act (lift_sum r) (\<lambda>existing. case existing of
       Some s \<Rightarrow>
         if manifest_hash sha256 (sk_manifest s) = manifest_hash sha256 (manifest_payload m) \<and>
            sk_check_class s = sm_check_class m
         then bind_act (set_skill (sk_id s) (\<lambda>x. x\<lparr>sk_enabled := \<not> sm_needs_code m, sk_provenance := provenance\<rparr>))
                (\<lambda>_. ret (sk_id s))
         else raise_exn (ValueError (''skill '' @ sm_name m @ ''@'' @ sm_version m
                @ '' already registered with different content; bump the version''))
     | None \<Rightarrow>
         bind_act new_id (\<lambda>i.
         bind_act (modify (\<lambda>d. d\<lparr>db_skills := db_skills d @
           [\<lparr>sk_id = i, sk_org_id = org, sk_name = sm_name m, sk_version = sm_version m, sk_check_class = sm_check_class m,
             sk_manifest = manifest_payload m, sk_enabled = (\<not> sm_needs_code m), sk_provenance = provenance\<rparr>]\<rparr>)) (\<lambda>_.
         ret i))))"

section \<open>From rows to checks\<close>

type_synonym loaded = "dict \<times> declarative"

definition sub_object :: "dict \<Rightarrow> string \<Rightarrow> exn + dict" where
  "sub_object d k = (case jget d k of JDict p \<Rightarrow> Inr p
     | v \<Rightarrow> if truthy v then Inl (OtherError ''AttributeError: get'') else Inr [])"

definition row_spec :: "(string \<Rightarrow> string) \<Rightarrow> string \<Rightarrow> string \<Rightarrow> string \<Rightarrow> dict \<Rightarrow> exn + dict" where
  "row_spec sha256 name version cls m = sum_bind (sub_object m ''policy'') (\<lambda>policy. Inr
     [(''name'', JStr name), (''version'', JStr version), (''check_class'', JStr cls),
      (''skill_ref'', JStr (skill_ref sha256 name version m)),
      (''intensity'', jget_or m ''intensity'' (JStr ''passive'')), (''cwe'', jget_or m ''cwe'' (JStr [])),
      (''severity'', jget_or m ''severity'' (JStr ''medium'')), (''confidence'', jget_or m ''confidence'' (JStr ''medium'')),
      (''title'', jget_or m ''title'' (JStr name)), (''description'', jget_or m ''description'' (JStr [])),
      (''remediation'', jget_or m ''remediation'' (JStr [])), (''detector'', jget m ''detector''),
      (''state_changing'', jget_or policy ''state_changing'' (JBool False)),
      (''allowed_environments'', jget_or policy ''environments'' (JList []))])"

definition manifest_to_check :: "(string \<Rightarrow> string) \<Rightarrow> agent_skill \<Rightarrow> exn + loaded option" where
  "manifest_to_check sha256 row =
     (if \<not> truthy (jget (sk_manifest row) ''declarative'') \<or> \<not> sk_enabled row then Inr None
      else sum_bind (row_spec sha256 (sk_name row) (sk_version row) (sk_check_class row) (sk_manifest row)) (\<lambda>spec.
        Inr (map_option (Pair spec) (build_declarative_check spec))))"

definition snapshot_specs :: "loaded list \<Rightarrow> dict list" where
  "snapshot_specs checks = map fst checks"

definition checks_from_snapshot :: "dict list \<Rightarrow> loaded list" where
  "checks_from_snapshot snapshot =
     List.map_filter (\<lambda>spec. map_option (Pair spec) (build_declarative_check spec)) snapshot"

definition load_declarative_checks :: "(string \<Rightarrow> string) \<Rightarrow> string option \<Rightarrow> db \<Rightarrow> exn + loaded list" where
  "load_declarative_checks sha256 org d =
     sum_bind (mapM_sum (manifest_to_check sha256) (filter (\<lambda>r. sk_org_id r = None \<or> sk_org_id r = org) (db_skills d)))
       (\<lambda>cs. Inr (List.map_filter id cs))"

text \<open>\<open>seed_builtin_skills\<close>.\<close>

definition builtin_manifest :: "'c check \<Rightarrow> dict" where
  "builtin_manifest c =
     [(''intensity'', JStr (test_intensity_value (ck_intensity c))), (''cwe'', JStr (ck_cwe c)),
      (''state_changing'', JBool (ck_state_changing c)), (''needs_code'', JBool False), (''executable'', JBool True),
      (''declarative'', JBool False)]"

definition seed_check :: "'c check \<Rightarrow> (db, int) act" where
  "seed_check c =
     bind_act (gets (\<lambda>d. one_or_none (filter (\<lambda>s. sk_name s = ck_name c \<and> sk_org_id s = None) (db_skills d)))) (\<lambda>r.
     bind_act (lift_sum r) (\<lambda>existing. case existing of
       Some s \<Rightarrow> bind_act (set_skill (sk_id s) (\<lambda>x. x\<lparr>sk_manifest := builtin_manifest c, sk_check_class := ck_class c,
                   sk_enabled := True\<rparr>)) (\<lambda>_. ret 0)
     | None \<Rightarrow>
         bind_act new_id (\<lambda>i.
         bind_act (modify (\<lambda>d. d\<lparr>db_skills := db_skills d @
           [\<lparr>sk_id = i, sk_org_id = None, sk_name = ck_name c, sk_version = ''1.0.0'', sk_check_class = ck_class c,
             sk_manifest = builtin_manifest c, sk_enabled = True, sk_provenance = ''builtin''\<rparr>]\<rparr>)) (\<lambda>_. ret 1))))"

fun seed_checks :: "'c check list \<Rightarrow> (db, int) act" where
  "seed_checks [] = ret 0"
| "seed_checks (c # cs) = bind_act (seed_check c) (\<lambda>n. bind_act (seed_checks cs) (\<lambda>k. ret (n + k)))"

definition seed_builtin_skills :: "'c check_registry \<Rightarrow> (db, int) act" where
  "seed_builtin_skills reg = seed_checks (all_checks reg)"

section \<open>Theorems\<close>

definition skill_key :: "agent_skill \<Rightarrow> string option \<times> string \<times> string" where
  "skill_key s = (sk_org_id s, sk_name s, sk_version s)"

text \<open>What registering again may not change: everything but whether the skill is enabled and where it came from.\<close>

definition skill_content :: "agent_skill \<Rightarrow> string \<times> (string option \<times> string \<times> string) \<times> string \<times> dict" where
  "skill_content s = (sk_id s, skill_key s, sk_check_class s, sk_manifest s)"

lemma same_version_key: "same_version org name version = (\<lambda>s. skill_key s = (org, name, version))"
  by (auto simp: same_version_def skill_key_def fun_eq_iff)

lemma change_row_content:
  "map skill_content (change_row sk_id i (\<lambda>x. x\<lparr>sk_enabled := e, sk_provenance := p\<rparr>) rows) = map skill_content rows"
  by (simp add: change_row_def skill_content_def skill_key_def)

lemma content_keys: "map skill_content xs = map skill_content ys @ new \<Longrightarrow>
  map skill_key xs = map skill_key ys @ map (fst \<circ> snd) new"
proof -
  assume "map skill_content xs = map skill_content ys @ new"
  then have "map (fst \<circ> snd) (map skill_content xs) = map (fst \<circ> snd) (map skill_content ys @ new)" by simp
  then show ?thesis by (simp add: skill_content_def comp_def)
qed

text \<open>
  A registered version is immutable. Registering a manifest changes no identifier, organization, name,
  version, class or manifest of any stored skill and adds at most one row, so no organization ever has two
  rows of one name and version. It succeeds exactly with a row of that name and version whose class is the
  manifest's and whose content hash is the manifest's, enabled if and only if the manifest needs no code;
  when it is refused the table stays as it was.
\<close>

theorem skill_versions_immutable:
  assumes "distinct (map skill_key (db_skills d))"
    and "register_manifest sha256 m provenance org d = (r, d')"
  shows "distinct (map skill_key (db_skills d')) \<and>
    (\<exists>new. length new \<le> 1 \<and> map skill_content (db_skills d') = map skill_content (db_skills d) @ new) \<and>
    (case r of
       Inl e \<Rightarrow> db_skills d' = db_skills d
     | Inr i \<Rightarrow> \<exists>s \<in> set (db_skills d'). sk_id s = i \<and> skill_key s = (org, sm_name m, sm_version m) \<and>
         sk_check_class s = sm_check_class m \<and>
         manifest_hash sha256 (sk_manifest s) = manifest_hash sha256 (manifest_payload m) \<and>
         sk_enabled s = (\<not> sm_needs_code m))"
proof -
  let ?k = "(org, sm_name m, sm_version m)"
  have rows: "length (filter (\<lambda>s. skill_key s = ?k) xs) \<le> 1" if "distinct (map skill_key xs)" for xs
    using that by (induction xs) (auto simp: filter_empty_conv image_iff)
  consider (none) "filter (\<lambda>s. skill_key s = ?k) (db_skills d) = []"
    | (one) s where "filter (\<lambda>s. skill_key s = ?k) (db_skills d) = [s]"
    using rows [OF assms(1)] by (cases "filter (\<lambda>s. skill_key s = ?k) (db_skills d)") auto
  then show ?thesis
  proof cases
    case none
    then have new: "?k \<notin> skill_key ` set (db_skills d)" by (auto simp: filter_empty_conv)
    let ?s = "\<lparr>sk_id = db_uuid d (db_drawn d), sk_org_id = org, sk_name = sm_name m, sk_version = sm_version m,
      sk_check_class = sm_check_class m, sk_manifest = manifest_payload m, sk_enabled = (\<not> sm_needs_code m),
      sk_provenance = provenance\<rparr>"
    have key: "skill_key ?s = ?k" by (simp add: skill_key_def)
    from none assms(2) have r: "r = Inr (sk_id ?s)" "db_skills d' = db_skills d @ [?s]"
      by (auto simp: register_manifest_def same_version_key one_or_none_def bind_act_def new_id_def)
    show ?thesis
      unfolding r using assms(1) new key
      by (intro conjI exI [of _ "[skill_content ?s]"]) (auto simp del: sum.case simp: sum.case(2))
  next
    case one
    then have s: "s \<in> set (db_skills d)" "skill_key s = ?k"
      by (auto simp: filter_eq_Cons_iff)
    show ?thesis
    proof (cases "manifest_hash sha256 (sk_manifest s) = manifest_hash sha256 (manifest_payload m) \<and>
        sk_check_class s = sm_check_class m")
      case True
      let ?f = "\<lambda>x. x\<lparr>sk_enabled := \<not> sm_needs_code m, sk_provenance := provenance\<rparr>"
      from one True assms(2) have d': "db_skills d' = change_row sk_id (sk_id s) ?f (db_skills d)" and r: "r = Inr (sk_id s)"
        by (auto simp: register_manifest_def same_version_key one_or_none_def bind_act_def set_skill_def)
      have "?f s \<in> set (db_skills d')" using s(1) by (auto simp: d' change_row_def)
      moreover have "map skill_content (db_skills d') = map skill_content (db_skills d) @ []"
        by (simp add: d' change_row_content)
      moreover from content_keys [OF this] have "distinct (map skill_key (db_skills d'))" using assms(1) by simp
      moreover have "skill_key (?f s) = ?k" using s(2) by (simp add: skill_key_def)
      ultimately show ?thesis using True unfolding r
        by (intro conjI exI [of _ "[]"]) (auto intro!: bexI [of _ "?f s"])
    next
      case False
      with one assms(2) have "d' = d" "\<exists>e. r = Inl e"
        by (auto simp: register_manifest_def same_version_key one_or_none_def bind_act_def split: if_splits)
      with assms(1) show ?thesis by auto
    qed
  qed
qed

definition demo_manifest :: skill_manifest where
  "demo_manifest = \<lparr>sm_name = ''acme.headers'', sm_version = ''1'', sm_check_class = ''security_headers'', sm_intensity = ''passive'',
     sm_allowed_tools = [], sm_policy = [], sm_body = [], sm_needs_code = False,
     sm_spec = [(''detector'', JDict [(''type'', JStr ''header_missing''), (''headers'', JList [JStr ''x-a''])])],
     sm_validation = [], sm_tested = True\<rparr>"

definition demo_skills :: db where
  "demo_skills = snd (register_manifest (\<lambda>s. s) demo_manifest ''skill_md'' (Some ''o1'') empty_db)"

theorem skill_versions_immutable_witness:
  "map sk_check_class (db_skills demo_skills) = [''security_headers''] \<and>
   distinct (map skill_key (db_skills demo_skills)) \<and>
   distinct (map skill_key (db_skills
     (snd (register_manifest (\<lambda>s. s) (demo_manifest\<lparr>sm_check_class := ''xss''\<rparr>) ''skill_md'' (Some ''o1'') demo_skills)))) \<and>
   fst (register_manifest (\<lambda>s. s) (demo_manifest\<lparr>sm_check_class := ''xss''\<rparr>) ''skill_md'' (Some ''o1'') demo_skills) =
     Inl (ValueError ''skill acme.headers@1 already registered with different content; bump the version'')"
proof -
  have 1: "map sk_check_class (db_skills demo_skills) = [''security_headers'']" by code_simp
  have 2: "distinct (map skill_key (db_skills demo_skills))" by code_simp
  have 3: "fst (register_manifest (\<lambda>s. s) (demo_manifest\<lparr>sm_check_class := ''xss''\<rparr>) ''skill_md'' (Some ''o1'') demo_skills) =
     Inl (ValueError ''skill acme.headers@1 already registered with different content; bump the version'')" by code_simp
  from 1 2 3 skill_versions_immutable [OF 2, of "\<lambda>s. s" "demo_manifest\<lparr>sm_check_class := ''xss''\<rparr>"
      "''skill_md''" "Some ''o1''", OF surjective_pairing]
  show ?thesis by blast
qed

text \<open>
  A run's checks are frozen exactly. Rebuilding the checks from the snapshot of what was loaded from the
  registry gives back the same checks in the same order, each with its manifest.
\<close>

theorem snapshot_roundtrip:
  "case load_declarative_checks sha256 org d of
     Inl e \<Rightarrow> \<exists>row \<in> set (db_skills d). manifest_to_check sha256 row = Inl e
   | Inr cs \<Rightarrow> checks_from_snapshot (snapshot_specs cs) = cs"
proof -
  have built: "build_declarative_check spec = Some c" if "manifest_to_check sha256 row = Inr (Some (spec, c))" for row spec c
    using that by (auto simp: manifest_to_check_def sum_bind_Inr split: if_splits)
  have again: "checks_from_snapshot (snapshot_specs (List.map_filter id os)) = List.map_filter id os"
    if "list_all2 (\<lambda>row c. manifest_to_check sha256 row = Inr c) rows os" for rows os
    using that
  proof (induction rule: list_all2_induct)
    case (Cons row rows o1 os)
    then show ?case
      by (cases o1) (auto simp: snapshot_specs_def checks_from_snapshot_def List.map_filter_simps dest!: built)
  qed (simp add: snapshot_specs_def checks_from_snapshot_def List.map_filter_simps)
  have stop: "\<exists>x \<in> set xs. f x = Inl e" if "mapM_sum f xs = Inl e" for f :: "agent_skill \<Rightarrow> exn + loaded option" and xs e
    using that by (induction xs) (auto split: sum.splits)
  show ?thesis
  proof (cases "mapM_sum (manifest_to_check sha256) (filter (\<lambda>r. sk_org_id r = None \<or> sk_org_id r = org) (db_skills d))")
    case (Inl e)
    with stop [OF this] show ?thesis by (auto simp: load_declarative_checks_def)
  next
    case (Inr os)
    with again [OF mapM_sum_Inr [THEN iffD1, OF Inr]] show ?thesis by (simp add: load_declarative_checks_def)
  qed
qed

end
