(* ===== verification/Policy.thy ===== *)
theory Policy
  imports Registry Planning Checks_Flow Api
begin

text \<open>
  The decisions of \<open>app/orchestration/engine.py\<close> on what may run: which check a plan step stands for, the
  order the planner and the optional re-ranker of \<open>app/agents/deepagents_planner.py\<close> give the plan, the
  deterministic policy gate with its per-action approvals, and the coverage gaps that replanning schedules.
  The registry of built-in checks and what builds a runnable check from a declarative one are parameters
  of the gate, as is the order in which a set of strings is iterated.
\<close>

section \<open>Which check a step stands for\<close>

record 'c runnable =
  rn_check :: "'c check"
  rn_declared :: "declarative option"

definition pick_check :: "'c check_registry \<Rightarrow> string \<Rightarrow> 'c runnable option" where
  "pick_check reg cls = (case by_class reg cls of [] \<Rightarrow> None | c # _ \<Rightarrow> Some \<lparr>rn_check = c, rn_declared = None\<rparr>)"

definition resolve_check ::
  "'c check_registry \<Rightarrow> (declarative \<Rightarrow> 'c check) \<Rightarrow> loaded list \<Rightarrow> string \<Rightarrow> string \<Rightarrow> 'c runnable option" where
  "resolve_check reg mk decls name cls =
     (if name \<noteq> [] then
        case get_check reg name of
          Some c \<Rightarrow> Some \<lparr>rn_check = c, rn_declared = None\<rparr>
        | None \<Rightarrow>
            (case List.find (\<lambda>(spec, d). dc_name d = name) decls of
               Some (spec, d) \<Rightarrow> Some \<lparr>rn_check = mk d, rn_declared = Some d\<rparr>
             | None \<Rightarrow> pick_check reg cls)
      else pick_check reg cls)"

definition step_needs_approval :: "'c runnable \<Rightarrow> bool" where
  "step_needs_approval c \<longleftrightarrow> ck_state_changing (rn_check c) \<or> ck_intensity (rn_check c) = INVASIVE"

definition declarative_policy_block :: "'c runnable \<Rightarrow> authorization_record \<Rightarrow> (string \<times> string) option" where
  "declarative_policy_block c record =
     (case rn_declared c of None \<Rightarrow> None
      | Some d \<Rightarrow>
          if dc_state_changing d \<and> \<not> az_allow_state_changing record
          then Some (''declarative check is state-changing but the authorization record does not permit state-changing tests'',
                     ''declarative_state_change_denied'')
          else if dc_allowed_environments d \<noteq> [] \<and> str_lower (az_environment record) \<notin> set (dc_allowed_environments d)
          then Some (''declarative check restricted to environments '' @ repr_list (dc_allowed_environments d)
                       @ ''; authorization environment is '' @ py_repr (az_environment record),
                     ''declarative_environment_denied'')
          else None)"

section \<open>The order of the plan\<close>

definition risk_weight :: "string \<Rightarrow> int" where
  "risk_weight cls = (case dget [(''sqli'', 5), (''bola'', 5), (''xss'', 4), (''open_redirect'', 3),
      (''security_headers'', 1), (''info_disclosure'', 1)] cls of Some w \<Rightarrow> w | None \<Rightarrow> 2)"

text \<open>\<open>sorted(xs, key=k, reverse=True)\<close> for keys of any linear order.\<close>

definition sorted_reverse :: "('a \<Rightarrow> 'k::linorder) \<Rightarrow> 'a list \<Rightarrow> 'a list" where
  "sorted_reverse k xs = rev (sort_key k (rev xs))"

definition apply_strategy :: "planned_step list \<Rightarrow> string \<Rightarrow> planned_step list" where
  "apply_strategy planned strategy =
     (if strategy = ''risk-first'' then sorted_reverse (\<lambda>s. (risk_weight (pl_check_class s), pl_priority s)) planned
      else if strategy = ''coverage-first'' then sort_key (\<lambda>s. (pl_endpoint_id s, - pl_priority s)) planned
      else sorted_reverse pl_priority planned)"

text \<open>
  The re-ranker. Its agent is a parameter: the names and the context it is prompted with give the
  result, as an object, or None where the call or building the agent fails.
\<close>

definition first_json_object :: "string \<Rightarrow> jv" where
  "first_json_object text =
     (let opens = filter (\<lambda>i. text ! i = CHR ''{'') [0..<length text];
          depth = (\<lambda>i j. int (length (filter (\<lambda>c. c = CHR ''{'') (take (Suc j - i) (drop i text))))
                       - int (length (filter (\<lambda>c. c = CHR ''}'') (take (Suc j - i) (drop i text)))));
          found = List.map_filter (\<lambda>i. case List.find (\<lambda>j. depth i j = 0) [i..<length text] of
              None \<Rightarrow> None
            | Some j \<Rightarrow> json_loads (take (Suc j - i) (drop i text))) opens
      in case found of [] \<Rightarrow> JNull | v # _ \<Rightarrow> v)"

definition last_message_text :: "dict \<Rightarrow> string" where
  "last_message_text result = (case jget result ''messages'' of
     JList ms \<Rightarrow> (case rev ms of [] \<Rightarrow> []
       | JDict m # _ \<Rightarrow> (case jget m ''content'' of JStr s \<Rightarrow> s
           | JList parts \<Rightarrow> concat (map (\<lambda>b. case b of JStr s \<Rightarrow> s | JDict d \<Rightarrow> jstr (jget_or d ''text'' (JStr [])) | _ \<Rightarrow> []) parts)
           | v \<Rightarrow> if truthy v then str_jv v else [])
       | _ \<Rightarrow> [])
   | _ \<Rightarrow> [])"

definition order_names :: "jv \<Rightarrow> string list option" where
  "order_names v = (case v of JDict d \<Rightarrow> (case jget d ''order'' of JList xs \<Rightarrow> Some (map str_jv xs) | _ \<Rightarrow> None) | _ \<Rightarrow> None)"

definition extract_order :: "dict \<Rightarrow> string list" where
  "extract_order result = (case order_names (jget result ''structured_response'') of
     Some names \<Rightarrow> names
   | None \<Rightarrow> (case order_names (first_json_object (last_message_text result)) of Some names \<Rightarrow> names | None \<Rightarrow> []))"

fun first_index :: "string \<Rightarrow> string list \<Rightarrow> nat" where
  "first_index n [] = 0"
| "first_index n (x # xs) = (if x = n then 0 else Suc (first_index n xs))"

definition apply_reorder :: "planned_step list \<Rightarrow> string list \<Rightarrow> planned_step list" where
  "apply_reorder planned order = sort_key (\<lambda>s. first_index (pl_check_name s) order) planned"

type_synonym reranker = "string list \<Rightarrow> dict \<Rightarrow> dict option"

definition rerank_plan :: "settings \<Rightarrow> reranker \<Rightarrow> planned_step list \<Rightarrow> dict \<Rightarrow> planned_step list" where
  "rerank_plan st agent planned ctx =
     (if \<not> use_deepagents_planner st \<or> anthropic_api_key st = [] \<or> planned = [] then planned
      else (case agent (map pl_check_name planned) ctx of
          None \<Rightarrow> planned
        | Some result \<Rightarrow>
            (let order = extract_order result; reordered = apply_reorder planned order in
             if order = [] \<or> length reordered \<noteq> length planned then planned else reordered)))"

section \<open>The classes of a run\<close>

definition effective_classes :: "string list \<Rightarrow> string list \<Rightarrow> string list" where
  "effective_classes requested authorized =
     (if requested \<noteq> [] then filter (\<lambda>c. c \<in> set authorized) (remdups requested) else remdups authorized)"

section \<open>The policy gate\<close>

definition judge_step ::
  "settings \<Rightarrow> 'c check_registry \<Rightarrow> (declarative \<Rightarrow> 'c check) \<Rightarrow> loaded list \<Rightarrow> guard \<Rightarrow> plan_step \<Rightarrow> string \<times> dict" where
  "judge_step st reg mk decls g s =
     (case resolve_check reg mk decls (ps_check_name s) (ps_check_class s) of
        None \<Rightarrow> (''skipped'', [(''allowed'', JBool False), (''reason'', JStr ''no check implementation'')])
      | Some c \<Rightarrow>
          (let d0 = check_class_allowed g (ps_check_class s) (ck_intensity (rn_check c));
               d = (if sd_allowed d0 then (case declarative_policy_block c (g_record g) of
                      Some (reason, code) \<Rightarrow> deny reason code [] | None \<Rightarrow> d0) else d0);
               decision = [(''allowed'', JBool (sd_allowed d)), (''reason'', JStr (sd_reason d)), (''code'', JStr (sd_code d))]
           in if \<not> sd_allowed d then (''denied'', decision)
              else if step_approval_required st \<and> step_needs_approval c
              then (''awaiting_approval'', decision @ [(''requires_approval'', JBool True),
                 (''approval_reason'', JStr (if ck_state_changing (rn_check c) then ''state-changing check''
                    else ''invasive intensity''))])
              else (''approved'', decision)))"

text \<open>The loop over the steps: the identifiers of the approved and of the held ones.\<close>

fun policy_loop ::
  "(plan_step \<Rightarrow> string \<times> dict) \<Rightarrow> string list \<Rightarrow> (db, string list \<times> string list) act" where
  "policy_loop judge [] = ret ([], [])"
| "policy_loop judge (i # is) =
     bind_act (fetch db_steps ps_id i ''planstep'') (\<lambda>s.
     bind_act (set_step i (\<lambda>x. x\<lparr>ps_status := fst (judge s), ps_policy_decision := snd (judge s)\<rparr>)) (\<lambda>_.
     bind_act (policy_loop judge is) (\<lambda>(ok, held).
       ret (if fst (judge s) = ''approved'' then i # ok else ok,
            if fst (judge s) = ''awaiting_approval'' then i # held else held))))"

definition phase_policy ::
  "string \<Rightarrow> (plan_step \<Rightarrow> string \<times> dict) \<Rightarrow> string list \<Rightarrow> (db, string list \<times> string list) act" where
  "phase_policy aid judge steps =
     bind_act (get_assessment aid) (\<lambda>a.
     bind_act (policy_loop judge steps) (\<lambda>(ok, held).
     bind_act (write_audit (a_org_id a) (Some aid) ''system'' ''policy.evaluated''
       [(''approved'', JInt (int (length ok))), (''awaiting_approval'', JInt (int (length held))),
        (''total'', JInt (int (length steps)))]) (\<lambda>_. ret (ok, held))))"

definition held_step_ids :: "string \<Rightarrow> db \<Rightarrow> string list" where
  "held_step_ids aid d = map ps_id (filter (\<lambda>s. ps_assessment_id s = aid \<and> ps_status s = ''awaiting_approval'') (db_steps d))"

definition reload_steps :: "string list \<Rightarrow> db \<Rightarrow> plan_step list" where
  "reload_steps ids d = filter (\<lambda>s. ps_id s \<in> set ids) (db_steps d)"

text \<open>
  \<open>_await_step_approvals\<close>: one look at the pending steps, and the loop of looks. What the other tasks do to
  the database while the loop sleeps is a list with an entry for each sleep; it ends at the deadline.
\<close>

definition look :: "string list \<Rightarrow> db \<Rightarrow> string list \<times> string list" where
  "look pending d =
     (let rows = filter (\<lambda>s. ps_id s \<in> set pending) (db_steps d);
          ok = map ps_id (filter (\<lambda>s. ps_status s = ''approved'') rows);
          gone = map ps_id (filter (\<lambda>s. ps_status s \<in> {''approved'', ''denied'', ''skipped''}) rows)
      in (ok, filter (\<lambda>i. i \<notin> set gone) pending))"

fun await_step_approvals :: "string \<Rightarrow> (db \<Rightarrow> db) list \<Rightarrow> string list \<Rightarrow> (db, string list) act" where
  "await_step_approvals aid sleeps [] = ret []"
| "await_step_approvals aid [] (p # ps) = gets (\<lambda>d. fst (look (p # ps) d))"
| "await_step_approvals aid (others # sleeps) (p # ps) =
     bind_act (gets (look (p # ps))) (\<lambda>(ok, pending).
     if pending = [] then ret ok
     else
       bind_act (get_assessment aid) (\<lambda>a.
       if a_cancel_requested a then ret ok
       else
         bind_act (modify others) (\<lambda>_.
         bind_act (await_step_approvals aid sleeps pending) (\<lambda>more. ret (ok @ more)))))"

section \<open>Coverage gaps\<close>

definition class_gaps ::
  "'c check_registry \<Rightarrow> (declarative \<Rightarrow> 'c check) \<Rightarrow> loaded list \<Rightarrow> guard \<Rightarrow> (string \<times> string) set \<Rightarrow> string list
     \<Rightarrow> string \<Rightarrow> (string \<times> string \<times> string) list" where
  "class_gaps reg mk decls g done_pairs classes eid =
     concat (map (\<lambda>cls.
       if (eid, cls) \<in> done_pairs then []
       else (case resolve_check reg mk decls [] cls of
           None \<Rightarrow> []
         | Some c \<Rightarrow> if sd_allowed (check_class_allowed g cls (ck_intensity (rn_check c)))
                     then [(eid, cls, ck_name (rn_check c))] else [])) classes)"

definition done_pairs_of :: "string \<Rightarrow> db \<Rightarrow> (string \<times> string) list" where
  "done_pairs_of aid d = List.map_filter (\<lambda>s. map_option (\<lambda>e. (e, ps_check_class s)) (ps_endpoint_id s))
     (filter (\<lambda>s. ps_status s = ''done'') (steps_of aid d))"

definition coverage_gaps ::
  "'c check_registry \<Rightarrow> (declarative \<Rightarrow> 'c check) \<Rightarrow> loaded list \<Rightarrow> guard \<Rightarrow> string list \<Rightarrow> string \<Rightarrow> db
     \<Rightarrow> (string \<times> string \<times> string) list" where
  "coverage_gaps reg mk decls g classes aid d =
     concat (map (\<lambda>e. class_gaps reg mk decls g (set (done_pairs_of aid d)) classes (ep_id e)) (endpoints_of aid d))"

definition gap_step ::
  "'c check_registry \<Rightarrow> (declarative \<Rightarrow> 'c check) \<Rightarrow> loaded list \<Rightarrow> string \<Rightarrow> string \<Rightarrow> string \<Rightarrow> string \<times> string \<times> string
     \<Rightarrow> plan_step" where
  "gap_step reg mk decls i org aid gap = (case gap of (eid, cls, name) \<Rightarrow>
     \<lparr>ps_id = i, ps_org_id = org, ps_assessment_id = aid, ps_endpoint_id = Some eid, ps_check_class = cls,
      ps_check_name = name, ps_rationale = ''replan: coverage gap'', ps_priority = 1,
      ps_intensity = (case resolve_check reg mk decls name cls of
         Some c \<Rightarrow> test_intensity_value (ck_intensity (rn_check c)) | None \<Rightarrow> ''passive''),
      ps_status = ''approved'', ps_policy_decision = []\<rparr>)"

section \<open>Lemmas\<close>

lemma mset_sorted_reverse [simp]: "mset (sorted_reverse k xs) = mset xs"
  by (simp add: sorted_reverse_def)

lemma sorted_sorted_reverse: "sorted_wrt (\<lambda>x y. k y \<le> k x) (sorted_reverse k xs)"
proof -
  have "sorted (map k (sort_key k (rev xs)))" by simp
  then show ?thesis by (simp add: sorted_reverse_def sorted_wrt_rev sorted_map)
qed

lemma mset_apply_reorder: "mset (apply_reorder planned order) = mset planned"
  by (simp add: apply_reorder_def)

lemma mset_rerank: "mset (rerank_plan st agent planned ctx) = mset planned"
  by (auto simp: rerank_plan_def mset_apply_reorder Let_def split: option.splits)

lemma mset_strategy: "mset (apply_strategy planned strategy) = mset planned"
  by (simp add: apply_strategy_def)

definition judged :: "(plan_step \<Rightarrow> string \<times> dict) \<Rightarrow> plan_step \<Rightarrow> plan_step" where
  "judged judge s = s\<lparr>ps_status := fst (judge s), ps_policy_decision := snd (judge s)\<rparr>"

lemma change_row_found:
  assumes "distinct (map key rows)" "find_row key i rows = Some s"
  shows "change_row key i (\<lambda>_. f s) rows = change_row key i f rows"
proof -
  have "r = s" if "r \<in> set rows" "key r = i" for r
    using that assms find_row_mem [OF assms(2)] find_row_key [OF assms(2)]
    by (metis inj_onD distinct_map)
  then show ?thesis by (auto simp: change_row_def)
qed

text \<open>What one round of the policy loop does to the table of steps.\<close>

lemma policy_loop_steps:
  assumes "distinct (map ps_id (db_steps d))" "distinct steps"
    and "policy_loop judge steps d = (Inr (ok, held), d')"
  shows "db_steps d' = map (\<lambda>s. if ps_id s \<in> set steps then judged judge s else s) (db_steps d) \<and>
    db_assessments d' = db_assessments d \<and> db_records d' = db_records d \<and>
    (\<forall>s \<in> set (db_steps d). ps_id s \<in> set steps \<longrightarrow>
       (ps_id s \<in> set ok \<longleftrightarrow> fst (judge s) = ''approved'') \<and>
       (ps_id s \<in> set held \<longleftrightarrow> fst (judge s) = ''awaiting_approval'')) \<and>
    set ok \<subseteq> set steps \<and> set held \<subseteq> set steps"
  using assms
proof (induction steps arbitrary: d ok held)
  case (Cons i steps)
  from Cons.prems(3) obtain s d1 ok1 held1 where
    s: "find_row ps_id i (db_steps d) = Some s" and
    d1: "d1 = d\<lparr>db_steps := change_row ps_id i (\<lambda>x. x\<lparr>ps_status := fst (judge s), ps_policy_decision := snd (judge s)\<rparr>) (db_steps d)\<rparr>" and
    rest: "policy_loop judge steps d1 = (Inr (ok1, held1), d')" and
    ok: "ok = (if fst (judge s) = ''approved'' then i # ok1 else ok1)" and
    held: "held = (if fst (judge s) = ''awaiting_approval'' then i # held1 else held1)"
    by (auto simp: bind_act_Inr fetch_def require_def set_step_def split: option.splits)
  let ?m = "\<lambda>s. if ps_id s = i then judged judge s else s"
  have "r = s" if "r \<in> set (db_steps d)" "ps_id r = i" for r
    using that Cons.prems(1) find_row_mem [OF s] find_row_key [OF s] by (metis inj_onD distinct_map)
  then have rows: "db_steps d1 = map ?m (db_steps d)"
    by (auto simp: d1 change_row_def judged_def)
  have id: "ps_id (?m r) = ps_id r" for r by (simp add: judged_def)
  have "map ps_id (db_steps d1) = map ps_id (db_steps d)" by (simp add: rows judged_def)
  with Cons.prems(1) have "distinct (map ps_id (db_steps d1))" by simp
  from Cons.IH [OF this _ rest] Cons.prems(2) have IH:
    "db_steps d' = map (\<lambda>s. if ps_id s \<in> set steps then judged judge s else s) (db_steps d1)"
    "db_assessments d' = db_assessments d1" "db_records d' = db_records d1"
    "\<forall>s \<in> set (db_steps d1). ps_id s \<in> set steps \<longrightarrow>
       (ps_id s \<in> set ok1 \<longleftrightarrow> fst (judge s) = ''approved'') \<and>
       (ps_id s \<in> set held1 \<longleftrightarrow> fst (judge s) = ''awaiting_approval'')"
    "set ok1 \<subseteq> set steps" "set held1 \<subseteq> set steps" by auto
  have i: "i \<notin> set steps" using Cons.prems(2) by simp
  have same: "(ps_id r \<in> set ok \<longleftrightarrow> fst (judge r) = ''approved'') \<and>
      (ps_id r \<in> set held \<longleftrightarrow> fst (judge r) = ''awaiting_approval'')"
    if r: "r \<in> set (db_steps d)" "ps_id r \<in> set (i # steps)" for r
  proof (cases "ps_id r = i")
    case True
    then have "r = s" using \<open>\<And>r. r \<in> set (db_steps d) \<Longrightarrow> ps_id r = i \<Longrightarrow> r = s\<close> r(1) by blast
    with True i IH(5,6) show ?thesis by (auto simp: ok held)
  next
    case False
    then have "r \<in> set (db_steps d1)" "ps_id r \<in> set steps" using r by (auto simp: rows)
    with IH(4) False show ?thesis by (auto simp: ok held)
  qed
  have "db_steps d' = map (\<lambda>s. if ps_id s \<in> set (i # steps) then judged judge s else s) (db_steps d)"
    using i unfolding IH(1) rows by (auto simp: judged_def)
  with same IH(2,3,5,6) show ?case by (auto simp: d1 ok held)
qed simp

lemma judge_approved_iff:
  "fst (judge_step st reg mk decls g s) = ''approved'' \<longleftrightarrow>
     (\<exists>c. resolve_check reg mk decls (ps_check_name s) (ps_check_class s) = Some c \<and>
        (g_allowed_checks g = [] \<or> ps_check_class s \<in> set (g_allowed_checks g)) \<and>
        ck_intensity (rn_check c) \<le> coerce_intensity (az_intensity (g_record g)) \<and>
        \<not> (ck_intensity (rn_check c) = INVASIVE \<and> coerce_env (az_environment (g_record g)) = PRODUCTION) \<and>
        declarative_policy_block c (g_record g) = None \<and>
        \<not> (step_approval_required st \<and> step_needs_approval c))"
proof (cases "resolve_check reg mk decls (ps_check_name s) (ps_check_class s)")
  case (Some c)
  have "fst (judge_step st reg mk decls g s) = ''approved'' \<longleftrightarrow>
     sd_allowed (check_class_allowed g (ps_check_class s) (ck_intensity (rn_check c))) \<and>
     declarative_policy_block c (g_record g) = None \<and> \<not> (step_approval_required st \<and> step_needs_approval c)"
    by (auto simp: judge_step_def Some Let_def deny_def split: option.splits)
  then show ?thesis unfolding check_class_allowed_iff Some by auto
qed (simp add: judge_step_def)

section \<open>Theorems\<close>

text \<open>
  No model output adds, drops or changes a planned step. Whatever strategy the planner's brain names and
  whatever the re-ranking agent answers, the plan that is stored is a permutation of the deterministic plan;
  without the re-ranker it is ordered as the strategy says.
\<close>

theorem plan_only_reordered:
  "mset (rerank_plan st agent (apply_strategy planned strategy) ctx) = mset planned \<and>
   sorted_wrt (\<lambda>x y. if strategy = ''risk-first''
       then (risk_weight (pl_check_class y), pl_priority y) \<le> (risk_weight (pl_check_class x), pl_priority x)
       else if strategy = ''coverage-first'' then (pl_endpoint_id x, - pl_priority x) \<le> (pl_endpoint_id y, - pl_priority y)
       else pl_priority y \<le> pl_priority x) (apply_strategy planned strategy)"
proof -
  let ?rf = "strategy = ''risk-first''" and ?cf = "strategy = ''coverage-first''"
  have r: "sorted_wrt (\<lambda>x y. (risk_weight (pl_check_class y), pl_priority y) \<le> (risk_weight (pl_check_class x), pl_priority x))
      (sorted_reverse (\<lambda>s. (risk_weight (pl_check_class s), pl_priority s)) planned)"
    and b: "sorted_wrt (\<lambda>x y. pl_priority y \<le> pl_priority x) (sorted_reverse pl_priority planned)"
    by (rule sorted_sorted_reverse)+
  have "sorted (map (\<lambda>s. (pl_endpoint_id s, - pl_priority s)) (sort_key (\<lambda>s. (pl_endpoint_id s, - pl_priority s)) planned))"
    by (rule sorted_sort_key)
  then have c: "sorted_wrt (\<lambda>x y. (pl_endpoint_id x, - pl_priority x) \<le> (pl_endpoint_id y, - pl_priority y))
      (sort_key (\<lambda>s. (pl_endpoint_id s, - pl_priority s)) planned)"
    by (simp only: sorted_map)
  have m: "mset (rerank_plan st agent (apply_strategy planned strategy) ctx) = mset planned"
    by (simp add: mset_rerank mset_strategy)
  consider "?rf = True" | "?rf = False" "?cf = True" | "?rf = False" "?cf = False" by blast
  then show ?thesis
    by cases (use m r b c in \<open>simp_all only: apply_strategy_def if_True if_False simp_thms\<close>)
qed

text \<open>
  C27: the policy gate decides every step, exactly by the record. After the gate each of its steps carries the
  judgement of its row, no other row is changed, and the steps handed on are those judged approved; a step is
  approved if and only if it resolves to a check whose intensity the record permits for the step's class, whose
  own policy the record satisfies, and that needs no approval of its own.
\<close>

theorem policy_gate_exact:
  assumes "distinct (map ps_id (db_steps d))" "distinct steps"
    and "phase_policy aid (judge_step st reg mk decls g) steps d = (Inr (ok, held), d')"
  shows "db_steps d' = map (\<lambda>s. if ps_id s \<in> set steps then judged (judge_step st reg mk decls g) s else s) (db_steps d) \<and>
    (\<forall>s \<in> set (db_steps d). ps_id s \<in> set steps \<longrightarrow>
       (ps_id s \<in> set held \<longleftrightarrow> fst (judge_step st reg mk decls g s) = ''awaiting_approval'') \<and>
       (ps_id s \<in> set ok \<longleftrightarrow>
         (\<exists>c. resolve_check reg mk decls (ps_check_name s) (ps_check_class s) = Some c \<and>
            (g_allowed_checks g = [] \<or> ps_check_class s \<in> set (g_allowed_checks g)) \<and>
            ck_intensity (rn_check c) \<le> coerce_intensity (az_intensity (g_record g)) \<and>
            \<not> (ck_intensity (rn_check c) = INVASIVE \<and> coerce_env (az_environment (g_record g)) = PRODUCTION) \<and>
            declarative_policy_block c (g_record g) = None \<and>
            \<not> (step_approval_required st \<and> step_needs_approval c))))"
proof -
  from assms(3) obtain d1 where loop: "policy_loop (judge_step st reg mk decls g) steps d = (Inr (ok, held), d1)"
    and d': "db_steps d' = db_steps d1"
    by (auto simp: phase_policy_def get_assessment_def fetch_def require_def bind_act_Inr write_audit_def new_id_def
        split: option.splits)
  from policy_loop_steps [OF assms(1,2) loop] show ?thesis
    unfolding d' judge_approved_iff [symmetric] by blast
qed

definition no_web :: "unit web" where
  "no_web = (\<lambda>_. raise_exn TimeoutExn)"

definition demo_reg :: "unit check_registry" where
  "demo_reg = builtin_checks no_web (ret ''m'')"

definition demo_mk :: "declarative \<Rightarrow> unit check" where
  "demo_mk = declarative_check (\<lambda>_. Inl (ValueError [])) no_web (ret ''m'')"

definition demo_step :: "string \<Rightarrow> string \<Rightarrow> string \<Rightarrow> plan_step" where
  "demo_step i name cls = \<lparr>ps_id = i, ps_org_id = ''o1'', ps_assessment_id = ''a1'', ps_endpoint_id = Some ''e1'',
     ps_check_class = cls, ps_check_name = name, ps_rationale = [], ps_priority = 1, ps_intensity = ''safe_active'',
     ps_status = ''planned'', ps_policy_decision = []\<rparr>"

definition demo_run :: db where
  "demo_run = empty_db\<lparr>db_assessments := [new_assessment ''a1'' ''o1'' ''t1'' ''z1'' []],
     db_steps := [demo_step ''s1'' ''sqli.reflected'' ''sqli'', demo_step ''s2'' ''xss.reflected'' ''xss'']\<rparr>"

definition sqli_guard :: guard where
  "sqli_guard = new_guard default_settings (demo_authorization\<lparr>az_allowed_check_classes := [''sqli''],
     az_intensity := ''safe_active''\<rparr>) 0"

theorem policy_gate_exact_witness:
  "let r = phase_policy ''a1'' (judge_step default_settings demo_reg demo_mk [] sqli_guard) [''s1'', ''s2''] demo_run in
   map ps_status (db_steps (snd r)) = [''approved'', ''denied''] \<and> fst r = Inr ([''s1''], [])"
proof -
  let ?r = "phase_policy ''a1'' (judge_step default_settings demo_reg demo_mk [] sqli_guard) [''s1'', ''s2''] demo_run"
  have r: "fst ?r = Inr ([''s1''], [])" by code_simp
  then have e: "?r = (Inr ([''s1''], []), snd ?r)" by (metis prod.collapse)
  have "distinct (map ps_id (db_steps demo_run))" "distinct [''s1'', ''s2'']" by code_simp+
  from policy_gate_exact [OF this e] have "db_steps (snd ?r) =
    map (\<lambda>s. if ps_id s \<in> set [''s1'', ''s2''] then judged (judge_step default_settings demo_reg demo_mk [] sqli_guard) s else s)
      (db_steps demo_run)" by blast
  moreover have "map ps_status (map (\<lambda>s. if ps_id s \<in> set [''s1'', ''s2'']
      then judged (judge_step default_settings demo_reg demo_mk [] sqli_guard) s else s) (db_steps demo_run)) =
      [''approved'', ''denied'']" by code_simp
  ultimately show ?thesis using r by (simp add: Let_def)
qed

text \<open>
  A request for check classes that the record does not list is planned as a request for all of them. When
  none of the requested classes is among the record's, and in particular whenever the record lists none
  because it restricts none, the plan is the one for no restriction at all, so classes nobody requested are
  planned; the gate then approves those the record permits.
\<close>

theorem requested_classes_ignored:
  assumes "requested \<noteq> []" "set requested \<inter> set authorized = {}"
  shows "build_plan reg evs (effective_classes requested authorized) mi multi extra = build_plan reg evs [] mi multi extra \<and>
    (\<forall>ev \<in> set evs. \<forall>c \<in> set (all_checks reg @ extra).
       INTENSITY_RANK (ck_intensity c) \<le> INTENSITY_RANK mi \<and> (ck_class c = ''bola'' \<longrightarrow> multi) \<and> quick_applies (ck_class c) ev multi \<longrightarrow>
       plan_step ev c \<in> set (build_plan reg evs (effective_classes requested authorized) mi multi extra))"
proof -
  have "effective_classes requested authorized = []"
    using assms by (auto simp: effective_classes_def filter_empty_conv)
  moreover have "plan_step ev c \<in> set (build_plan reg evs [] mi multi extra)"
    if "ev \<in> set evs" "c \<in> set (all_checks reg @ extra)" "INTENSITY_RANK (ck_intensity c) \<le> INTENSITY_RANK mi"
      "ck_class c = ''bola'' \<longrightarrow> multi" "quick_applies (ck_class c) ev multi" for ev c
  proof -
    have "step_wanted [] mi multi ev c" using that(3-5) by (simp add: step_wanted_def)
    with that(1,2) show ?thesis unfolding build_plan_steps by blast
  qed
  ultimately show ?thesis by simp
qed

definition demo_view :: endpoint_view where
  "demo_view = \<lparr>ev_id = ''e1'', ev_method = ''GET'', ev_url = ''http://app.test/s'', ev_path_template = ''/s'',
     ev_parameters = [[(''name'', JStr ''q''), (''in'', JStr ''query'')]], ev_request_body_schema = [],
     ev_auth_required = False, ev_fingerprint = ''fp1''\<rparr>"

definition open_guard :: guard where
  "open_guard = new_guard default_settings (demo_authorization\<lparr>az_allowed_check_classes := []\<rparr>) 0"

lemma demo_reg_sqli: "sqli_check no_web \<in> set (all_checks demo_reg)"
proof -
  have "get_check demo_reg ''sqli.reflected'' = Some (sqli_check no_web)"
    by (simp add: demo_reg_def builtin_checks_def get_check_def register_check_def dget_dset
        bola_check_def bounds_check_def flow_check_def headers_check_def prompt_check_def redirect_check_def
        sqli_check_def xss_check_def)
  then have "(''sqli.reflected'', sqli_check no_web) \<in> set demo_reg" by (auto simp: get_check_def dest: dget_mem)
  then show ?thesis by (force simp: all_checks_def)
qed

theorem requested_classes_ignored_witness:
  "plan_step demo_view (sqli_check no_web) \<in> set (build_plan demo_reg [demo_view] (effective_classes [''xss''] []) SAFE_ACTIVE False []) \<and>
   pl_check_class (plan_step demo_view (sqli_check no_web)) = ''sqli'' \<and>
   fst (judge_step default_settings demo_reg demo_mk [] open_guard (demo_step ''s1'' ''sqli.reflected'' ''sqli'')) = ''approved''"
proof (intro conjI)
  have "ck_class (sqli_check no_web) = ''sqli'' \<and> ck_intensity (sqli_check no_web) = SAFE_ACTIVE \<and>
      quick_applies ''sqli'' demo_view False" by code_simp
  with requested_classes_ignored [of "[''xss'']" "[]" demo_reg "[demo_view]" SAFE_ACTIVE False "[]"] demo_reg_sqli
  show "plan_step demo_view (sqli_check no_web) \<in> set (build_plan demo_reg [demo_view] (effective_classes [''xss''] []) SAFE_ACTIVE False [])"
    by auto
qed code_simp+

text \<open>
  A registered skill can launder a check class past the authorization. A valid manifest that takes the name
  of the built-in SQL injection check and the class of the header check is registered, loaded and planned under
  a record that lists only the header class; the gate judges the step by its class and approves it, and what it
  resolves to and runs is the SQL injection check, of a class the same record denies.
\<close>

theorem check_class_laundering:
  "let decls = projr (load_declarative_checks sha256 (Some ''o1'')
         (snd (register_manifest sha256 (demo_manifest\<lparr>sm_name := ''sqli.reflected''\<rparr>) ''skill_md'' (Some ''o1'') empty_db)));
       g = new_guard default_settings (demo_authorization\<lparr>az_allowed_check_classes := [''security_headers'']\<rparr>) 0;
       p = plan_step demo_view (demo_mk (snd (hd decls)));
       s = demo_step ''s1'' (pl_check_name p) (pl_check_class p);
       c = the (resolve_check demo_reg demo_mk decls (ps_check_name s) (ps_check_class s)) in
   step_wanted [''security_headers''] SAFE_ACTIVE False demo_view (demo_mk (snd (hd decls))) \<and>
   pl_check_class p = ''security_headers'' \<and>
   fst (judge_step default_settings demo_reg demo_mk decls g s) = ''approved'' \<and>
   ck_name (rn_check c) = ''sqli.reflected'' \<and> ck_class (rn_check c) = ''sqli'' \<and>
   \<not> sd_allowed (check_class_allowed g (ck_class (rn_check c)) (ck_intensity (rn_check c)))"
  by code_simp

section \<open>Replanning\<close>

lemma builtin_registry:
  "registry_ok (builtin_checks web fresh)"
  "c \<in> set (all_checks (builtin_checks web fresh)) \<Longrightarrow> \<not> ck_state_changing c \<and> ck_intensity c \<noteq> INVASIVE"
proof -
  have ok: "registry_ok (foldl register_check r cs)" if "registry_ok r" for r :: "'a check_registry" and cs
    using that by (induction cs arbitrary: r) (simp_all add: registry_ok_register)
  show "registry_ok (builtin_checks web fresh)"
    unfolding builtin_checks_def by (rule ok) (simp add: registry_ok_def dwf_def dkeys_def)
  have mem: "c \<in> set (all_checks (foldl register_check r cs)) \<Longrightarrow> c \<in> set (all_checks r) \<union> set cs"
    for r :: "'a check_registry" and cs c
  proof (induction cs arbitrary: r)
    case (Cons x cs)
    have "c \<in> set (all_checks (register_check r x)) \<Longrightarrow> c = x \<or> c \<in> set (all_checks r)"
      unfolding register_check_def all_checks_def set_map by (drule dset_values) blast
    with Cons.IH [of "register_check r x"] Cons.prems show ?case by auto
  qed simp
  assume "c \<in> set (all_checks (builtin_checks web fresh))"
  from mem [OF this [unfolded builtin_checks_def]] show "\<not> ck_state_changing c \<and> ck_intensity c \<noteq> INVASIVE"
    by (auto simp: all_checks_def bola_check_def bounds_check_def flow_check_def headers_check_def prompt_check_def
        redirect_check_def sqli_check_def xss_check_def)
qed

lemma pick_check_some:
  "pick_check reg cls = Some c \<Longrightarrow>
     rn_check c \<in> set (all_checks reg) \<and> ck_class (rn_check c) = cls \<and> rn_declared c = None"
  by (auto simp: pick_check_def by_class_def filter_eq_Cons_iff split: list.splits)

lemma registry_get:
  assumes "registry_ok reg" "c \<in> set (all_checks reg)"
  shows "get_check reg (ck_name c) = Some c"
proof -
  from assms obtain n where n: "(n, c) \<in> set reg" by (auto simp: all_checks_def)
  with assms(1) have "ck_name c = n" "distinct (map fst reg)" by (auto simp: registry_ok_def dwf_def dkeys_def)
  with n show ?thesis by (simp add: get_check_def dget_def)
qed

text \<open>
  C28: replanning stays inside the authorization and never goes around an approval. Every gap it schedules is an
  endpoint of the assessment and a class handed to it that is not done on that endpoint, and that the record
  permits at the intensity of the check that will run; that check is the first built-in one of the class, never
  a declarative one, it is what the stored step resolves to, and no built-in check needs an approval.
\<close>

theorem replan_stays_authorized:
  assumes "reg = builtin_checks web fresh" "gap \<in> set (coverage_gaps reg mk decls g classes aid d)"
  shows "\<exists>e \<in> set (endpoints_of aid d). \<exists>c. fst gap = ep_id e \<and> fst (snd gap) \<in> set classes \<and>
     (fst gap, fst (snd gap)) \<notin> set (done_pairs_of aid d) \<and>
     resolve_check reg mk decls (ps_check_name (gap_step reg mk decls i org aid gap))
       (ps_check_class (gap_step reg mk decls i org aid gap)) = Some c \<and>
     rn_declared c = None \<and> ck_class (rn_check c) = fst (snd gap) \<and>
     sd_allowed (check_class_allowed g (ck_class (rn_check c)) (ck_intensity (rn_check c))) \<and>
     \<not> step_needs_approval c"
proof -
  from assms(2) obtain e cls c where e: "e \<in> set (endpoints_of aid d)" and cls: "cls \<in> set classes"
    and c: "pick_check reg cls = Some c" and gap: "gap = (ep_id e, cls, ck_name (rn_check c))"
    and new: "(ep_id e, cls) \<notin> set (done_pairs_of aid d)"
    and ok: "sd_allowed (check_class_allowed g cls (ck_intensity (rn_check c)))"
    by (auto simp: coverage_gaps_def class_gaps_def resolve_check_def eq_commute [of "Some c" "pick_check r k" for c r k]
        split: if_splits option.splits)
  note p = pick_check_some [OF c]
  have get: "get_check reg (ck_name (rn_check c)) = Some (rn_check c)"
    using p builtin_registry(1) by (intro registry_get) (auto simp: assms(1))
  have res: "resolve_check reg mk decls (ck_name (rn_check c)) cls = Some c"
    using p c get by (cases c) (auto simp: resolve_check_def)
  have "\<not> step_needs_approval c"
    using p builtin_registry(2) [of "rn_check c" web fresh] by (auto simp: step_needs_approval_def assms(1))
  with e cls new ok res p show ?thesis
    by (intro bexI [of _ e] exI [of _ c]) (auto simp: gap gap_step_def)
qed

theorem replan_stays_authorized_witness:
  "set (coverage_gaps demo_reg demo_mk [] sqli_guard [''sqli'', ''xss''] ''a1''
      (demo_run\<lparr>db_endpoints := [endpoint_row ''e1'' ''o1'' ''a1'' (hd demo_endpoints) ''fp1'']\<rparr>)) = {(''e1'', ''sqli'', ''sqli.reflected'')} \<and>
   fst (snd (''e1'', ''sqli'', ''sqli.reflected'')) \<in> set [''sqli'', ''xss'']"
proof
  let ?d = "demo_run\<lparr>db_endpoints := [endpoint_row ''e1'' ''o1'' ''a1'' (hd demo_endpoints) ''fp1'']\<rparr>"
  show gaps: "set (coverage_gaps demo_reg demo_mk [] sqli_guard [''sqli'', ''xss''] ''a1'' ?d) = {(''e1'', ''sqli'', ''sqli.reflected'')}"
  proof -
    have "coverage_gaps demo_reg demo_mk [] sqli_guard [''sqli'', ''xss''] ''a1'' ?d = [(''e1'', ''sqli'', ''sqli.reflected'')]"
      by code_simp
    then show ?thesis by simp
  qed
  have "(''e1'', ''sqli'', ''sqli.reflected'') \<in> set (coverage_gaps demo_reg demo_mk [] sqli_guard [''sqli'', ''xss''] ''a1'' ?d)"
    using gaps by simp
  from replan_stays_authorized [OF demo_reg_def this] show "fst (snd (''e1'', ''sqli'', ''sqli.reflected'')) \<in> set [''sqli'', ''xss'']"
    by blast
qed

end
