(* ===== verification/Remediation.thy ===== *)
theory Remediation
  imports Enums
begin

text \<open>\<open>app/services/remediation.py\<close>: the guidance for a finding, from a fixed table by its class.\<close>

record guidance =
  gd_summary :: string
  gd_steps :: "string list"
  gd_references :: "string list"

definition KB :: "(string \<times> guidance) list" where
  "KB =
     [(check_class_value SQLI, \<lparr>
        gd_summary = ''Use parameterized queries / prepared statements everywhere.'',
        gd_steps = [
          ''Replace string-concatenated SQL with parameter binding (e.g. psycopg, SQLAlchemy).'',
          ''Validate and canonicalize input types (ints as ints).'',
          ''Apply least-privilege database accounts; disable stacked queries.'',
          ''Add a WAF rule as defense-in-depth, not as the primary fix.''],
        gd_references = [
          ''https://owasp.org/www-community/attacks/SQL_Injection'',
          ''https://cheatsheetseries.owasp.org/cheatsheets/SQL_Injection_Prevention_Cheat_Sheet.html'']\<rparr>),
      (check_class_value XSS, \<lparr>
        gd_summary = ''Context-encode output and deploy a strict Content-Security-Policy.'',
        gd_steps = [
          ''HTML-entity-encode user data on output; use framework auto-escaping.'',
          ''Set a strict CSP (no unsafe-inline).'',
          ''Sanitize rich HTML with an allowlist library.''],
        gd_references = [
          ''https://cheatsheetseries.owasp.org/cheatsheets/Cross_Site_Scripting_Prevention_Cheat_Sheet.html'']\<rparr>),
      (check_class_value BOLA, \<lparr>
        gd_summary = ''Enforce per-object ownership checks server-side on every request.'',
        gd_steps = [
          ''Resolve the authenticated principal and verify it owns/may access the object.'',
          ''Centralize authorization (policy layer) rather than per-controller checks.'',
          ''Do not rely on unguessable identifiers as an access control.''],
        gd_references = [
          ''https://owasp.org/API-Security/editions/2023/en/0xa1-broken-object-level-authorization/'']\<rparr>),
      (check_class_value OPEN_REDIRECT, \<lparr>
        gd_summary = ''Validate redirect targets against an allowlist.'',
        gd_steps = [
          ''Reject absolute external URLs in redirect parameters.'',
          ''Map redirect intents to server-side identifiers.''],
        gd_references = [
          ''https://cheatsheetseries.owasp.org/cheatsheets/Unvalidated_Redirects_and_Forwards_Cheat_Sheet.html'']\<rparr>),
      (check_class_value SECURITY_HEADERS, \<lparr>
        gd_summary = ''Add the missing security headers at the app or proxy layer.'',
        gd_steps = [
          ''Set Content-Security-Policy, X-Content-Type-Options, X-Frame-Options.'',
          ''Enable HSTS on HTTPS with a long max-age once verified.''],
        gd_references = [''https://owasp.org/www-project-secure-headers/'']\<rparr>),
      (check_class_value INFO_DISCLOSURE, \<lparr>
        gd_summary = ''Suppress technology/version disclosure headers.'',
        gd_steps = [''Remove or genericize Server / X-Powered-By headers.''],
        gd_references = [''https://owasp.org/www-project-secure-headers/'']\<rparr>)]"

definition default_guidance :: guidance where
  "default_guidance = \<lparr>
     gd_summary = ''Review and remediate the identified weakness following secure-coding guidance.'',
     gd_steps = [
       ''Investigate the affected code path.'',
       ''Apply input validation / output encoding / access control as appropriate.''],
     gd_references = [''https://owasp.org/www-project-top-ten/'']\<rparr>"

definition PRIORITY_BY_SEVERITY :: "(string \<times> string) list" where
  "PRIORITY_BY_SEVERITY = [(''critical'', ''P0''), (''high'', ''P1''), (''medium'', ''P2''), (''low'', ''P3''), (''info'', ''P4'')]"

record remediation =
  rm_summary :: string
  rm_steps :: "string list"
  rm_references :: "string list"
  rm_priority :: string
  rm_effort :: string
  rm_context_note :: string

definition build_remediation :: "string \<Rightarrow> string \<Rightarrow> string \<Rightarrow> remediation" where
  "build_remediation check_cls severity context_note =
     (let kb = (case dget KB check_cls of Some g \<Rightarrow> g | None \<Rightarrow> default_guidance);
          effort = (case dget [(''sqli'', ''medium''), (''bola'', ''high''), (''xss'', ''low''), (''open_redirect'', ''low'')] check_cls of
            Some e \<Rightarrow> e | None \<Rightarrow> ''low'')
      in \<lparr>rm_summary = gd_summary kb, rm_steps = gd_steps kb, rm_references = gd_references kb,
          rm_priority = (case dget PRIORITY_BY_SEVERITY severity of Some p \<Rightarrow> p | None \<Rightarrow> ''P3''),
          rm_effort = effort, rm_context_note = context_note\<rparr>)"

end
