(* ===== verification/Results.thy ===== *)
theory Results
  imports Policy Scoring Remediation Agents
begin

text \<open>
  What the engine stores of a run (\<open>app/orchestration/engine.py\<close>): the results of agents as jobs, findings
  and evidence, the outcomes of validation, the false positives remembered from earlier runs, and the
  scores and the coverage of an assessment. Each persistence step is one transaction on the database.
\<close>

section \<open>Agent results\<close>

definition APP_VERSION :: string where
  "APP_VERSION = ''0.1.0''"

definition skill_ref_for :: "'c check_registry \<Rightarrow> (string \<times> string) list \<Rightarrow> string \<Rightarrow> string" where
  "skill_ref_for reg refs name =
     (if name = [] then []
      else if get_check reg name \<noteq> None then name @ ''@builtin#'' @ APP_VERSION
      else (case dget refs name of Some r \<Rightarrow> r | None \<Rightarrow> name @ ''@?#unknown''))"

definition endpoint_fp_of :: "string option \<Rightarrow> (db, string) act" where
  "endpoint_fp_of eid = (case eid of
     Some (c # cs) \<Rightarrow> bind_act (fetch db_endpoints ep_id (c # cs) ''endpoint'') (\<lambda>e. ret (ep_fingerprint e))
   | _ \<Rightarrow> ret [])"

definition new_finding :: "string \<Rightarrow> string \<Rightarrow> string \<Rightarrow> string option \<Rightarrow> raw_finding \<Rightarrow> string \<Rightarrow> string \<Rightarrow> finding" where
  "new_finding i org aid eid rf key ref =
     \<lparr>fd_id = i, fd_org_id = org, fd_assessment_id = aid, fd_endpoint_id = eid, fd_check_class = rf_check_class rf,
      fd_title = rf_title rf, fd_severity = severity_value (rf_severity rf), fd_confidence = confidence_value (rf_confidence rf),
      fd_status = finding_status_value SUSPECTED, fd_cwe = rf_cwe rf, fd_description = rf_description rf,
      fd_remediation = rf_remediation rf, fd_dedup_key = key, fd_risk_score = 0, fd_risk_breakdown = [],
      fd_reproduction = rf_reproduction rf, fd_skill_ref = ref\<rparr>"

definition add_evidence :: "string \<Rightarrow> string \<Rightarrow> string \<Rightarrow> string option \<Rightarrow> string \<Rightarrow> raw_evidence \<Rightarrow> (db, unit) act" where
  "add_evidence org aid fid step_id cls ev =
     bind_act new_id (\<lambda>i. modify (\<lambda>d. d\<lparr>db_evidence := db_evidence d @
       [\<lparr>evd_id = i, evd_org_id = org, evd_assessment_id = aid, evd_finding_id = Some fid, evd_kind = re_kind ev,
         evd_request = re_request ev, evd_response = re_response ev, evd_note = re_note ev,
         evd_lineage = [(''agent_step'', case step_id of None \<Rightarrow> JNull | Some s \<Rightarrow> JStr s), (''check_class'', JStr cls)],
         evd_redacted = True\<rparr>]\<rparr>))"

definition persist_finding ::
  "(string \<Rightarrow> string) \<Rightarrow> (string \<Rightarrow> string) \<Rightarrow> string \<Rightarrow> string \<Rightarrow> plan_step option \<Rightarrow> raw_finding \<Rightarrow> (db, unit) act" where
  "persist_finding sha1 ref_of org aid step rf =
     bind_act (endpoint_fp_of (Option.bind step ps_endpoint_id)) (\<lambda>fp.
     let key = dedup_key sha1 rf fp in
     bind_act (gets (\<lambda>d. one_or_none (filter (\<lambda>f. fd_dedup_key f = key) (findings_of aid d)))) (\<lambda>r.
     bind_act (lift_sum r) (\<lambda>existing.
     if existing \<noteq> None then ret ()
     else
       bind_act new_id (\<lambda>i.
       bind_act (modify (\<lambda>d. d\<lparr>db_findings := db_findings d @
         [new_finding i org aid (Option.bind step ps_endpoint_id) rf key
            (ref_of (case step of None \<Rightarrow> [] | Some s \<Rightarrow> ps_check_name s))]\<rparr>)) (\<lambda>_.
       for_each (add_evidence org aid i (map_option ps_id step) (rf_check_class rf)) (rf_evidence rf))))))"

definition decision_dict :: "decision_record \<Rightarrow> dict" where
  "decision_dict d =
     [(''agent_id'', JStr (dr_agent_id d)), (''role'', JStr (dr_role d)), (''phase'', JStr (dr_phase d)),
      (''action'', JStr (dr_action d)), (''brain_source'', JStr (dr_brain_source d)), (''reasoning'', JStr (dr_reasoning d))]"

definition audit_decisions :: "string \<Rightarrow> string \<Rightarrow> string \<Rightarrow> decision_record list \<Rightarrow> (db, unit) act" where
  "audit_decisions org aid actor ds =
     for_each (\<lambda>d. write_audit org (Some aid) actor ''agent.decision'' (decision_dict d)) ds"

definition new_job :: "string \<Rightarrow> string \<Rightarrow> string \<Rightarrow> plan_step option \<Rightarrow> agent_result \<Rightarrow> int \<Rightarrow> job" where
  "new_job i org aid step result attempts =
     \<lparr>job_id = i, job_org_id = org, job_assessment_id = aid,
      job_plan_step_id = (case step of None \<Rightarrow> [] | Some s \<Rightarrow> ps_id s),
      job_idempotency_key = aid @ '':'' @ ar_agent_id result @ '':'' @ int_str attempts,
      job_state = job_state_value (if ar_error result \<noteq> [] then JOB_FAILED else JOB_SUCCEEDED),
      job_attempts = attempts,
      job_result = [(''findings'', JInt (int (length (ar_findings result)))),
        (''decisions'', JList (map (JDict \<circ> decision_dict) (ar_decisions result)))],
      job_error = ar_error result\<rparr>"

definition mark_step :: "plan_step option \<Rightarrow> agent_result \<Rightarrow> (db, unit) act" where
  "mark_step step result = (case step of None \<Rightarrow> ret ()
   | Some s \<Rightarrow> bind_act (fetch db_steps ps_id (ps_id s) ''planstep'') (\<lambda>_.
       set_step (ps_id s) (\<lambda>x. x\<lparr>ps_status := (if ar_error result \<noteq> [] then ''errored'' else ''done'')\<rparr>)))"

definition persist_agent_result ::
  "(string \<Rightarrow> string) \<Rightarrow> (string \<Rightarrow> string) \<Rightarrow> string \<Rightarrow> string \<Rightarrow> plan_step option \<Rightarrow> agent_result \<Rightarrow> int \<Rightarrow> (db, unit) act" where
  "persist_agent_result sha1 ref_of org aid step result attempts = transaction
     (bind_act new_id (\<lambda>i.
      bind_act (modify (\<lambda>d. d\<lparr>db_jobs := db_jobs d @ [new_job i org aid step result attempts]\<rparr>)) (\<lambda>_.
      bind_act (mark_step step result) (\<lambda>_.
      bind_act (audit_decisions org aid (ar_agent_id result) (ar_decisions result)) (\<lambda>_.
      for_each (persist_finding sha1 ref_of org aid step) (ar_findings result))))))"

section \<open>Validation outcomes\<close>

definition add_validation_evidence :: "string \<Rightarrow> string \<Rightarrow> string \<Rightarrow> string \<Rightarrow> validation_outcome \<Rightarrow> (db, string option) act" where
  "add_validation_evidence org aid fid agent_id out = (case vo_evidence out of None \<Rightarrow> ret None
   | Some (req, resp) \<Rightarrow>
       bind_act new_id (\<lambda>i.
       bind_act (modify (\<lambda>d. d\<lparr>db_evidence := db_evidence d @
         [\<lparr>evd_id = i, evd_org_id = org, evd_assessment_id = aid, evd_finding_id = Some fid, evd_kind = ''validation'',
           evd_request = req, evd_response = resp, evd_note = ''independent validation: '' @ vo_method out,
           evd_lineage = [(''phase'', JStr ''validation''), (''agent'', JStr agent_id)], evd_redacted = True\<rparr>]\<rparr>)) (\<lambda>_.
       ret (Some i))))"

text \<open>An outcome, or None where the validator raised.\<close>

definition persist_outcome ::
  "string \<Rightarrow> string \<Rightarrow> string \<Rightarrow> string \<Rightarrow> validation_outcome option \<Rightarrow> decision_record list \<Rightarrow> (db, unit) act" where
  "persist_outcome org aid fid agent_id outcome decisions = transaction
     (bind_act (fetch db_findings fd_id fid ''finding'') (\<lambda>_.
      let out = (case outcome of None \<Rightarrow> verdict INCONCLUSIVE ''error'' ''validator raised an error'' | Some o1 \<Rightarrow> o1) in
      bind_act (set_finding fid (\<lambda>f. f\<lparr>fd_status := finding_status_value (vo_outcome out)\<rparr>)) (\<lambda>_.
      bind_act (add_validation_evidence org aid fid agent_id out) (\<lambda>ev.
      bind_act new_id (\<lambda>i.
      bind_act (modify (\<lambda>d. d\<lparr>db_results := db_results d @
        [\<lparr>vr_id = i, vr_org_id = org, vr_assessment_id = aid, vr_finding_id = fid,
          vr_outcome = finding_status_value (vo_outcome out), vr_method = vo_method out, vr_detail = vo_detail out,
          vr_evidence_id = ev\<rparr>]\<rparr>)) (\<lambda>_.
      audit_decisions org aid agent_id decisions))))))"

section \<open>Known false positives\<close>

definition known_fp_keys :: "assessment \<Rightarrow> db \<Rightarrow> string list" where
  "known_fp_keys a d = map (\<lambda>m. drop (length ''known_fp:'') (pm_key m))
     (filter (\<lambda>m. pm_org_id m = a_org_id a \<and> pm_target_id m = Some (a_target_id a) \<and> pm_kind m = ''false_positive'' \<and>
        starts_with (pm_key m) ''known_fp:'') (db_memory d))"

definition is_known_fp :: "string \<Rightarrow> string list \<Rightarrow> finding \<Rightarrow> bool" where
  "is_known_fp aid known f \<longleftrightarrow>
     fd_assessment_id f = aid \<and> fd_dedup_key f \<in> set known \<and> fd_status f \<noteq> finding_status_value REJECTED"

definition apply_known_false_positives :: "string \<Rightarrow> (db, int) act" where
  "apply_known_false_positives aid = transaction
     (bind_act (get_assessment aid) (\<lambda>a.
      bind_act (gets (known_fp_keys a)) (\<lambda>known.
      if known = [] then ret 0
      else
        bind_act (gets (\<lambda>d. int (length (filter (is_known_fp aid known) (db_findings d))))) (\<lambda>suppressed.
        bind_act (modify (\<lambda>d. d\<lparr>db_findings := map (\<lambda>f. if is_known_fp aid known f
            then f\<lparr>fd_status := finding_status_value REJECTED\<rparr> else f) (db_findings d)\<rparr>)) (\<lambda>_.
        bind_act (if suppressed \<noteq> 0 then write_audit (a_org_id a) (Some aid) ''system'' ''findings.known_fp_suppressed''
            [(''count'', JInt suppressed)] else ret ()) (\<lambda>_. ret suppressed))))))"

section \<open>Scores and coverage\<close>

definition score_row :: "endpoint list \<Rightarrow> string \<Rightarrow> finding \<Rightarrow> finding" where
  "score_row endpoints env f =
     (let ep = (case fd_endpoint_id f of None \<Rightarrow> None | Some e \<Rightarrow> if e = [] then None else find_row ep_id e (rev endpoints));
          res = score_finding (fd_severity f) (fd_confidence f) (fd_status f)
            (case ep of None \<Rightarrow> False | Some e \<Rightarrow> ep_auth_required e) env;
          f' = f\<lparr>fd_risk_score := sr_score res, fd_risk_breakdown := sr_breakdown res\<rparr>
      in if fd_remediation f = [] then f'\<lparr>fd_remediation := rm_summary (build_remediation (fd_check_class f) (fd_severity f) [])\<rparr>
         else f')"

definition step_pairs :: "string list \<Rightarrow> plan_step list \<Rightarrow> (string option \<times> string) list" where
  "step_pairs statuses steps = map (\<lambda>s. (ps_endpoint_id s, ps_check_class s)) (filter (\<lambda>s. ps_status s \<in> set statuses) steps)"

definition untested_reason :: "string \<Rightarrow> string \<Rightarrow> (string option \<times> string) list \<Rightarrow> string" where
  "untested_reason eid cls approved_pairs =
     (if (Some eid, cls) \<in> set approved_pairs then ''planned but not completed''
      else ''not planned (heuristics/scope) '' @ utf8 8212 @ '' UNKNOWN risk, not confirmed-safe'')"

definition coverage_pairs :: "string list \<Rightarrow> endpoint list \<Rightarrow> (string \<times> string) list" where
  "coverage_pairs classes endpoints = concat (map (\<lambda>e. map (Pair (ep_id e)) classes) endpoints)"

definition add_coverage ::
  "string \<Rightarrow> string \<Rightarrow> (string option \<times> string) list \<Rightarrow> (string option \<times> string) list \<Rightarrow> string \<times> string \<Rightarrow> (db, unit) act" where
  "add_coverage org aid done_pairs approved_pairs pair =
     bind_act new_id (\<lambda>i. modify (\<lambda>d. d\<lparr>db_coverage := db_coverage d @
       [\<lparr>cov_id = i, cov_org_id = org, cov_assessment_id = aid, cov_endpoint_id = fst pair, cov_check_class = snd pair,
         cov_tested = ((Some (fst pair), snd pair) \<in> set done_pairs),
         cov_reason_untested = (if (Some (fst pair), snd pair) \<in> set done_pairs then []
           else untested_reason (fst pair) (snd pair) approved_pairs)\<rparr>]\<rparr>))"

definition risk_dict :: "assessment_risk \<Rightarrow> dict" where
  "risk_dict r =
     [(''overall_score'', JNum (ak_overall_score r)), (''grade'', JStr (ak_grade r)),
      (''coverage_ratio'', JNum (ak_coverage_ratio r)), (''uncertainty'', JNum (ak_uncertainty r)),
      (''tested_endpoints'', JInt (ak_tested_endpoints r)), (''total_endpoints'', JInt (ak_total_endpoints r)),
      (''confirmed'', JInt (ak_confirmed r)), (''suspected'', JInt (ak_suspected r)), (''breakdown'', JDict (ak_breakdown r))]"

definition assessment_risk_of :: "finding list \<Rightarrow> endpoint list \<Rightarrow> (string option \<times> string) list \<Rightarrow> assessment_risk" where
  "assessment_risk_of findings endpoints done_pairs =
     score_assessment (map fd_risk_score (filter (\<lambda>f. fd_status f \<in> {''confirmed'', ''suspected'', ''regressed''}) findings))
       (map fd_status findings) (int (length (remdups (map fst done_pairs)))) (int (length endpoints))"

text \<open>\<open>_phase_score\<close>: the scores of the findings, the coverage unless it is there, and the risk summary. A
  record that lists no class stands for the classes of the registry.\<close>

definition scored_classes :: "string list \<Rightarrow> authorization_record \<Rightarrow> string list" where
  "scored_classes registry_classes record =
     (if az_allowed_check_classes record \<noteq> [] then remdups (az_allowed_check_classes record) else registry_classes)"

definition rescore :: "string \<Rightarrow> string \<Rightarrow> endpoint list \<Rightarrow> finding \<Rightarrow> finding" where
  "rescore aid env endpoints f = (if fd_assessment_id f = aid then score_row endpoints env f else f)"

definition store_scores :: "string \<Rightarrow> string \<Rightarrow> endpoint list \<Rightarrow> (db, unit) act" where
  "store_scores aid env endpoints = modify (\<lambda>d. d\<lparr>db_findings := map (rescore aid env endpoints) (db_findings d)\<rparr>)"

definition store_coverage :: "string \<Rightarrow> string \<Rightarrow> string list \<Rightarrow> endpoint list \<Rightarrow> plan_step list \<Rightarrow> (db, unit) act" where
  "store_coverage aid org classes endpoints steps =
     bind_act (gets (\<lambda>d. filter (\<lambda>c. cov_assessment_id c = aid) (db_coverage d))) (\<lambda>existing.
     if existing = []
     then for_each (add_coverage org aid (step_pairs [''done''] steps) (step_pairs [''done'', ''approved'', ''errored''] steps))
            (coverage_pairs classes endpoints)
     else ret ())"

definition store_risk :: "string \<Rightarrow> string \<Rightarrow> endpoint list \<Rightarrow> plan_step list \<Rightarrow> (db, unit) act" where
  "store_risk aid org endpoints steps =
     bind_act (gets (\<lambda>d. risk_dict (assessment_risk_of (findings_of aid d) endpoints (step_pairs [''done''] steps)))) (\<lambda>risk.
     bind_act (set_assessment aid (\<lambda>x. x\<lparr>a_summary := dset (a_summary x) ''risk'' (JDict risk)\<rparr>)) (\<lambda>_.
     write_audit org (Some aid) ''system'' ''scoring.completed'' risk))"

definition phase_score :: "string list \<Rightarrow> string \<Rightarrow> (db, unit) act" where
  "phase_score registry_classes aid =
     bind_act (apply_known_false_positives aid) (\<lambda>_. transaction
       (bind_act (get_assessment aid) (\<lambda>a.
        bind_act (fetch db_records az_id (a_authorization_id a) ''authorizationrecord'') (\<lambda>record.
        bind_act (gets (endpoints_of aid)) (\<lambda>endpoints.
        bind_act (gets (steps_of aid)) (\<lambda>steps.
        bind_act (store_scores aid (az_environment record) endpoints) (\<lambda>_.
        bind_act (store_coverage aid (a_org_id a) (scored_classes registry_classes record) endpoints steps) (\<lambda>_.
        store_risk aid (a_org_id a) endpoints steps))))))))"

section \<open>Findings only accumulate, without duplicates\<close>

definition finding_keys :: "string \<Rightarrow> db \<Rightarrow> string list" where
  "finding_keys aid d = map fd_dedup_key (findings_of aid d)"

definition findings_grow :: "string \<Rightarrow> db \<Rightarrow> db \<Rightarrow> bool" where
  "findings_grow aid d d' \<longleftrightarrow>
     (\<exists>new. db_findings d' = db_findings d @ new \<and>
        (\<forall>f \<in> set new. fd_assessment_id f = aid \<and> fd_status f = finding_status_value SUSPECTED)) \<and>
     (distinct (finding_keys aid d) \<longrightarrow> distinct (finding_keys aid d'))"

lemma findings_same: "db_findings d' = db_findings d \<Longrightarrow> findings_grow aid d d'"
  by (simp add: findings_grow_def finding_keys_def findings_of_def)

interpretation grow_frame: db_frame "findings_grow aid" UNIV for aid
proof unfold_locales
  fix d t u
  assume a: "findings_grow aid d t" "findings_grow aid t u"
  then obtain n1 n2 where "db_findings t = db_findings d @ n1" "db_findings u = db_findings t @ n2"
    "\<forall>f \<in> set n1 \<union> set n2. fd_assessment_id f = aid \<and> fd_status f = finding_status_value SUSPECTED"
    unfolding findings_grow_def by blast
  with a show "findings_grow aid d u"
    unfolding findings_grow_def by (intro conjI exI [of _ "n1 @ n2"]) auto
qed (auto intro: findings_same)

lemmas grow_rules = grow_frame.keeps_ret grow_frame.keeps_raise grow_frame.keeps_lift grow_frame.keeps_gets
  grow_frame.keeps_bind grow_frame.keeps_if grow_frame.keeps_for_each grow_frame.keeps_new_id
  grow_frame.keeps_write_audit [OF UNIV_I] grow_frame.keeps_fetch

lemma grow_rest:
  "keeps (findings_grow aid) (add_evidence org aid' fid sid cls ev)"
  "keeps (findings_grow aid) (mark_step step result)"
  "keeps (findings_grow aid) (audit_decisions org aid' actor ds)"
  "keeps (findings_grow aid) (endpoint_fp_of eid)"
  unfolding add_evidence_def audit_decisions_def endpoint_fp_of_def
  subgoal by (intro grow_rules grow_frame.keeps_modify findings_same) simp
  subgoal unfolding mark_step_def set_step_def
    by (intro grow_frame.keeps_option grow_rules grow_frame.keeps_modify findings_same) simp
  subgoal by (intro grow_rules)
  subgoal by (cases eid; simp only: option.case; cases "the eid"; simp only: list.case option.sel; intro grow_rules)
  done

lemma keeps_look: "(\<And>d. R d (snd (f (g d) d))) \<Longrightarrow> keeps R (bind_act (gets g) f)"
  by (simp add: keeps_def bind_act_def)

lemma grow_persist_finding: "keeps (findings_grow aid) (persist_finding sha1 ref_of org aid step rf)"
proof -
  define key where "key = dedup_key sha1 rf"
  have insert: "findings_grow aid d (snd (bind_act (lift_sum (one_or_none (filter (\<lambda>f. fd_dedup_key f = k) (findings_of aid d))))
      (\<lambda>existing. if existing \<noteq> None then ret ()
       else bind_act new_id (\<lambda>i. bind_act (modify (\<lambda>d. d\<lparr>db_findings := db_findings d @ [new_finding i org aid eid rf k ref]\<rparr>))
         (\<lambda>_. for_each (add_evidence org aid i sid cls) evs))) d))" for d k eid ref sid cls evs
  proof (cases "one_or_none (filter (\<lambda>f. fd_dedup_key f = k) (findings_of aid d))")
    case (Inr r)
    show ?thesis
    proof (cases r)
      case None
      with Inr have "filter (\<lambda>f. fd_dedup_key f = k) (findings_of aid d) = []"
        by (auto simp: one_or_none_def split: list.splits)
      then have fresh: "k \<notin> set (finding_keys aid d)" by (auto simp: finding_keys_def filter_empty_conv)
      let ?i = "db_uuid d (db_drawn d)"
      let ?d = "d\<lparr>db_drawn := Suc (db_drawn d), db_findings := db_findings d @ [new_finding ?i org aid eid rf k ref]\<rparr>"
      have one: "findings_grow aid d ?d"
        using fresh by (auto simp: findings_grow_def finding_keys_def findings_of_def new_finding_def)
      have "findings_grow aid ?d (snd (for_each (add_evidence org aid ?i sid cls) evs ?d))"
      proof -
        have "keeps (findings_grow aid) (for_each (add_evidence org aid ?i sid cls) evs)"
          by (rule grow_frame.keeps_for_each, rule grow_rest(1))
        then show ?thesis by (simp only: keeps_def)
      qed
      from grow_frame.trans [OF one this] show ?thesis
        by (simp add: Inr None bind_act_def new_id_def)
    qed (simp add: Inr bind_act_def grow_frame.refl)
  qed (simp add: bind_act_def grow_frame.refl)
  show ?thesis
    unfolding persist_finding_def Let_def
    by (rule grow_frame.keeps_bind, rule grow_rest(4), rule keeps_look, rule insert)
qed


section \<open>Known false positives and coverage\<close>

definition same_surface :: "db \<Rightarrow> db \<Rightarrow> bool" where
  "same_surface d d' \<longleftrightarrow> db_endpoints d' = db_endpoints d \<and> db_steps d' = db_steps d \<and>
     db_assessments d' = db_assessments d \<and> db_records d' = db_records d \<and> db_coverage d' = db_coverage d \<and>
     db_memory d' = db_memory d"

interpretation surface_frame: db_frame same_surface UNIV
  by unfold_locales (auto simp: same_surface_def)

lemma known_fp_surface: "keeps same_surface (apply_known_false_positives aid)"
  unfolding apply_known_false_positives_def get_assessment_def
  by (intro surface_frame.keeps_transaction surface_frame.keeps_bind surface_frame.keeps_fetch surface_frame.keeps_gets
      surface_frame.keeps_if surface_frame.keeps_ret surface_frame.keeps_modify surface_frame.keeps_write_audit)
    (simp_all add: same_surface_def)

definition suppress :: "string \<Rightarrow> string list \<Rightarrow> finding \<Rightarrow> finding" where
  "suppress aid known f = (if is_known_fp aid known f then f\<lparr>fd_status := finding_status_value REJECTED\<rparr> else f)"

lemma known_fp_result:
  assumes "apply_known_false_positives aid d = (Inr n, d')" "find_row a_id aid (db_assessments d) = Some a"
  shows "db_findings d' = map (suppress aid (known_fp_keys a d)) (db_findings d)"
proof (cases "known_fp_keys a d")
  case Nil
  then have "suppress aid (known_fp_keys a d) = id" by (auto simp: suppress_def is_known_fp_def)
  with Nil assms show ?thesis
    by (auto simp: apply_known_false_positives_def transaction_Inr get_assessment_def fetch_def require_def bind_act_def)
next
  case (Cons k ks)
  with assms show ?thesis
    by (auto simp: apply_known_false_positives_def transaction_Inr get_assessment_def fetch_def require_def bind_act_def
        write_audit_def new_id_def suppress_def split: if_splits)
qed

lemma add_coverage_each:
  "\<exists>n new. for_each (add_coverage org aid done_pairs approved) ps d =
      (Inr (), d\<lparr>db_drawn := n, db_coverage := db_coverage d @ new\<rparr>) \<and>
    map (\<lambda>c. (cov_endpoint_id c, cov_check_class c)) new = ps \<and>
    (\<forall>c \<in> set new. cov_assessment_id c = aid \<and>
       cov_tested c = ((Some (cov_endpoint_id c), cov_check_class c) \<in> set done_pairs) \<and>
       cov_reason_untested c = (if cov_tested c then [] else untested_reason (cov_endpoint_id c) (cov_check_class c) approved))"
proof (induction ps arbitrary: d)
  case Nil
  show ?case by (rule exI [of _ "db_drawn d"], rule exI [of _ "[]"]) simp
next
  case (Cons p ps)
  let ?tested = "(Some (fst p), snd p) \<in> set done_pairs"
  let ?c = "\<lparr>cov_id = db_uuid d (db_drawn d), cov_org_id = org, cov_assessment_id = aid, cov_endpoint_id = fst p,
      cov_check_class = snd p, cov_tested = ?tested,
      cov_reason_untested = (if ?tested then [] else untested_reason (fst p) (snd p) approved)\<rparr>"
  let ?d = "d\<lparr>db_drawn := Suc (db_drawn d), db_coverage := db_coverage d @ [?c]\<rparr>"
  obtain n new where new: "for_each (add_coverage org aid done_pairs approved) ps ?d =
      (Inr (), ?d\<lparr>db_drawn := n, db_coverage := db_coverage ?d @ new\<rparr>)"
    and rows: "map (\<lambda>c. (cov_endpoint_id c, cov_check_class c)) new = ps"
    "\<forall>c \<in> set new. cov_assessment_id c = aid \<and>
       cov_tested c = ((Some (cov_endpoint_id c), cov_check_class c) \<in> set done_pairs) \<and>
       cov_reason_untested c = (if cov_tested c then [] else untested_reason (cov_endpoint_id c) (cov_check_class c) approved)"
    using Cons.IH [of ?d] by blast
  have "for_each (add_coverage org aid done_pairs approved) (p # ps) d =
      for_each (add_coverage org aid done_pairs approved) ps ?d"
    by (simp add: add_coverage_def bind_act_def new_id_def)
  with new rows show ?case
    by (intro exI [of _ n] exI [of _ "?c # new"]) simp
qed

definition coverage_of :: "string \<Rightarrow> db \<Rightarrow> coverage list" where
  "coverage_of aid d = filter (\<lambda>c. cov_assessment_id c = aid) (db_coverage d)"

definition step_done :: "string \<Rightarrow> db \<Rightarrow> string \<Rightarrow> string \<Rightarrow> bool" where
  "step_done aid d eid cls \<longleftrightarrow> (\<exists>s \<in> set (steps_of aid d). ps_status s = ''done'' \<and> ps_endpoint_id s = Some eid \<and> ps_check_class s = cls)"

lemma done_pair_iff: "(Some eid, cls) \<in> set (step_pairs [''done''] (steps_of aid d)) \<longleftrightarrow> step_done aid d eid cls"
  by (auto simp: step_pairs_def step_done_def image_iff)

lemma phase_score_parts:
  assumes "phase_score registry_classes aid d = (Inr (), d')"
    and "find_row a_id aid (db_assessments d) = Some a"
    and "find_row az_id (a_authorization_id a) (db_records d) = Some record"
  obtains n d1 d2 where "apply_known_false_positives aid d = (Inr n, d1)"
    and "store_coverage aid (a_org_id a) (scored_classes registry_classes record) (endpoints_of aid d) (steps_of aid d)
           (snd (store_scores aid (az_environment record) (endpoints_of aid d) d1)) = (Inr (), d2)"
    and "store_risk aid (a_org_id a) (endpoints_of aid d) (steps_of aid d) d2 = (Inr (), d')"
proof -
  from assms(1) obtain n d1 where fp: "apply_known_false_positives aid d = (Inr n, d1)"
    by (auto simp: phase_score_def bind_act_Inr)
  have surface: "same_surface d d1" using keepsD [OF known_fp_surface fp] .
  then have "endpoints_of aid d1 = endpoints_of aid d" "steps_of aid d1 = steps_of aid d"
    "find_row a_id aid (db_assessments d1) = Some a" "find_row az_id (a_authorization_id a) (db_records d1) = Some record"
    using assms by (simp_all add: same_surface_def endpoints_of_def steps_of_def)
  with assms(1) fp obtain d2 where
    "store_coverage aid (a_org_id a) (scored_classes registry_classes record) (endpoints_of aid d) (steps_of aid d)
       (snd (store_scores aid (az_environment record) (endpoints_of aid d) d1)) = (Inr (), d2)"
    "store_risk aid (a_org_id a) (endpoints_of aid d) (steps_of aid d) d2 = (Inr (), d')"
    unfolding phase_score_def bind_act_Inr transaction_Inr get_assessment_def fetch_def require_def
    by (auto simp: store_scores_def)
  with fp that show ?thesis by blast
qed

lemma risk_coverage: "store_risk aid org eps steps d = (r, d') \<Longrightarrow> db_coverage d' = db_coverage d \<and> db_findings d' = db_findings d"
  by (auto simp: store_risk_def bind_act_def set_assessment_def write_audit_def new_id_def)

lemma coverage_findings: "store_coverage aid org classes eps steps d = (r, d') \<Longrightarrow> db_findings d' = db_findings d"
  using add_coverage_each [of org aid "step_pairs [''done''] steps" "step_pairs [''done'', ''approved'', ''errored''] steps"
      "coverage_pairs classes eps" d]
  by (elim exE conjE) (simp add: store_coverage_def bind_act_def split: if_splits; auto)

text \<open>
  C30: coverage never claims more than was done, and is written once. The first scoring of an assessment stores
  exactly one row for every endpoint and every authorized class, marked tested if and only if a step of that
  endpoint and class is done, and every untested row says why. A later scoring stores and changes no coverage
  row, whatever was executed in between.
\<close>

theorem coverage_exact_then_frozen:
  assumes "phase_score registry_classes aid d = (Inr (), d')"
    and "find_row a_id aid (db_assessments d) = Some a"
    and "find_row az_id (a_authorization_id a) (db_records d) = Some record"
  shows "if coverage_of aid d = []
    then map (\<lambda>c. (cov_endpoint_id c, cov_check_class c)) (coverage_of aid d') =
           coverage_pairs (scored_classes registry_classes record) (endpoints_of aid d) \<and>
         (\<forall>c \<in> set (coverage_of aid d').
            (cov_tested c \<longleftrightarrow> step_done aid d (cov_endpoint_id c) (cov_check_class c)) \<and>
            (cov_reason_untested c = [] \<longleftrightarrow> cov_tested c))
    else db_coverage d' = db_coverage d"
proof -
  let ?classes = "scored_classes registry_classes record"
  let ?done = "step_pairs [''done''] (steps_of aid d)"
  let ?approved = "step_pairs [''done'', ''approved'', ''errored''] (steps_of aid d)"
  obtain n d1 d2 where fp: "apply_known_false_positives aid d = (Inr n, d1)"
    and cov: "store_coverage aid (a_org_id a) ?classes (endpoints_of aid d) (steps_of aid d)
       (snd (store_scores aid (az_environment record) (endpoints_of aid d) d1)) = (Inr (), d2)"
    and risk: "store_risk aid (a_org_id a) (endpoints_of aid d) (steps_of aid d) d2 = (Inr (), d')"
    using phase_score_parts [OF assms] .
  let ?d1 = "snd (store_scores aid (az_environment record) (endpoints_of aid d) d1)"
  have d1: "db_coverage ?d1 = db_coverage d"
    using keepsD [OF known_fp_surface fp] by (simp add: same_surface_def store_scores_def)
  have d': "db_coverage d' = db_coverage d2" using risk_coverage [OF risk] by simp
  have reason: "untested_reason e c ps \<noteq> []" for e c ps by (simp add: untested_reason_def)
  show ?thesis
  proof (cases "coverage_of aid d = []")
    case True
    obtain m new where new: "for_each (add_coverage (a_org_id a) aid ?done ?approved) (coverage_pairs ?classes (endpoints_of aid d)) ?d1 =
        (Inr (), ?d1\<lparr>db_drawn := m, db_coverage := db_coverage ?d1 @ new\<rparr>)"
      and rows: "map (\<lambda>c. (cov_endpoint_id c, cov_check_class c)) new = coverage_pairs ?classes (endpoints_of aid d)"
        "\<forall>c \<in> set new. cov_assessment_id c = aid \<and>
           cov_tested c = ((Some (cov_endpoint_id c), cov_check_class c) \<in> set ?done) \<and>
           cov_reason_untested c = (if cov_tested c then [] else untested_reason (cov_endpoint_id c) (cov_check_class c) ?approved)"
      using add_coverage_each [of "a_org_id a" aid ?done ?approved "coverage_pairs ?classes (endpoints_of aid d)" ?d1] by (elim exE conjE)
    from True cov d1 have "d2 = ?d1\<lparr>db_drawn := m, db_coverage := db_coverage ?d1 @ new\<rparr>"
      by (simp add: store_coverage_def bind_act_def coverage_of_def new)
    then have "db_coverage d' = db_coverage d @ new" using d' d1 by simp
    moreover have "filter (\<lambda>c. cov_assessment_id c = aid) new = new" using rows(2) by simp
    ultimately have "coverage_of aid d' = new" using True by (simp add: coverage_of_def)
    with True rows reason show ?thesis by (simp add: done_pair_iff)
  next
    case False
    with cov d1 d' show ?thesis by (simp add: store_coverage_def bind_act_def coverage_of_def)
  qed
qed

definition demo_finding :: "string \<Rightarrow> string \<Rightarrow> finding" where
  "demo_finding i key = \<lparr>fd_id = i, fd_org_id = ''o1'', fd_assessment_id = ''a1'', fd_endpoint_id = Some ''e1'',
     fd_check_class = ''sqli'', fd_title = ''t'', fd_severity = ''high'', fd_confidence = ''high'', fd_status = ''confirmed'',
     fd_cwe = [], fd_description = [], fd_remediation = [], fd_dedup_key = key, fd_risk_score = 0, fd_risk_breakdown = [],
     fd_reproduction = [], fd_skill_ref = []\<rparr>"

definition demo_scored :: db where
  "demo_scored = demo_run\<lparr>db_records := [demo_authorization\<lparr>az_id := ''z1''\<rparr>],
     db_endpoints := [endpoint_row ''e1'' ''o1'' ''a1'' (hd demo_endpoints) ''fp1''],
     db_steps := [demo_step ''s1'' ''sqli.reflected'' ''sqli''\<lparr>ps_status := ''done''\<rparr>],
     db_findings := [demo_finding ''f1'' ''k1'', demo_finding ''f2'' ''k2''],
     db_memory := [\<lparr>pm_id = ''m1'', pm_org_id = ''o1'', pm_target_id = Some ''t1'', pm_key = ''known_fp:k1'', pm_value = JDict [],
       pm_kind = ''false_positive''\<rparr>]\<rparr>"

lemma demo_scored_run:
  "phase_score [] ''a1'' demo_scored = (Inr (), snd (phase_score [] ''a1'' demo_scored))"
  "find_row a_id ''a1'' (db_assessments demo_scored) = Some (new_assessment ''a1'' ''o1'' ''t1'' ''z1'' [])"
  "find_row az_id (a_authorization_id (new_assessment ''a1'' ''o1'' ''t1'' ''z1'' [])) (db_records demo_scored) =
     Some (demo_authorization\<lparr>az_id := ''z1''\<rparr>)"
proof -
  have "fst (phase_score [] ''a1'' demo_scored) = Inr ()" by code_simp
  then show "phase_score [] ''a1'' demo_scored = (Inr (), snd (phase_score [] ''a1'' demo_scored))"
    by (metis prod.collapse)
qed code_simp+

theorem coverage_exact_then_frozen_witness:
  "map (\<lambda>c. (cov_endpoint_id c, cov_check_class c)) (coverage_of ''a1'' (snd (phase_score [] ''a1'' demo_scored))) =
     [(''e1'', ''sqli''), (''e1'', ''xss'')] \<and>
   list_all (\<lambda>c. cov_tested c = step_done ''a1'' demo_scored (cov_endpoint_id c) (cov_check_class c))
     (coverage_of ''a1'' (snd (phase_score [] ''a1'' demo_scored)))"
proof -
  have "coverage_of ''a1'' demo_scored = []"
    "coverage_pairs (scored_classes [] (demo_authorization\<lparr>az_id := ''z1''\<rparr>)) (endpoints_of ''a1'' demo_scored) =
       [(''e1'', ''sqli''), (''e1'', ''xss'')]" by code_simp+
  with coverage_exact_then_frozen [OF demo_scored_run] show ?thesis by (simp add: list_all_iff)
qed

lemma rejected_scores_zero: "sr_score (score_finding sev conf (finding_status_value REJECTED) auth env) = 0"
proof -
  have st: "finding_status_of (finding_status_value REJECTED) = Some REJECTED" by code_simp
  have "py_round 2 0 = 0" by (simp add: py_round_def)
  then show ?thesis by (simp only: score_finding_def Let_def st or_default_def raw_score_def option.case STATUS_FACTOR.simps
      score_result.simps mult_zero_right mult_zero_left)
qed

lemma rescore_fields: "fd_assessment_id (rescore aid env eps f) = fd_assessment_id f"
  "fd_dedup_key (rescore aid env eps f) = fd_dedup_key f" "fd_status (rescore aid env eps f) = fd_status f"
  by (simp_all add: rescore_def score_row_def Let_def)

lemma suppress_fields: "fd_assessment_id (suppress aid known f) = fd_assessment_id f"
  "fd_dedup_key (suppress aid known f) = fd_dedup_key f"
  by (simp_all add: suppress_def)



end
