(* ===== verification/Lifecycle.thy ===== *)
theory Lifecycle
  imports Results
begin

text \<open>
  The life of an assessment in \<open>app/orchestration/engine.py\<close>: its state transitions with their audit rows,
  checkpoints, cancellation, failure, the driver of the phases and its supervisor, and the recovery of
  interrupted runs at startup. The driver is a function of the phases, which the theory \<open>Engine\<close> supplies;
  a phase is an operation on the engine's state and may change the database in any way, which covers what
  other tasks do meanwhile. Lifecycle hooks only observe here: what they answer is not looked at.
\<close>

record 'c engine =
  en_db :: db
  en_client :: "'c option"
  en_brain :: brain_state
  en_note :: string
  en_refs :: "(string \<times> string) list"

definition with_db :: "(db, 'a) act \<Rightarrow> ('c engine, 'a) act" where
  "with_db m s = (case m (en_db s) of (r, d) \<Rightarrow> (r, s\<lparr>en_db := d\<rparr>))"

section \<open>Transitions\<close>

definition completion_reason :: "string \<Rightarrow> string \<Rightarrow> db \<Rightarrow> string" where
  "completion_reason note aid d =
     (if jobs_of aid d = [] then (if note \<noteq> [] then note else ''no_execution:no_jobs'')
      else if starts_with note ''partial:'' then note
      else ''executed'')"

definition set_state :: "string \<Rightarrow> string \<Rightarrow> assessment_state \<Rightarrow> bool \<Rightarrow> bool \<Rightarrow> (db, unit) act" where
  "set_state note aid st started finished = transaction
     (bind_act (gets (\<lambda>d. find_row a_id aid (db_assessments d))) (\<lambda>r. case r of None \<Rightarrow> ret () | Some a \<Rightarrow>
      bind_act (set_assessment aid (\<lambda>x. x\<lparr>a_state := assessment_state_value st\<rparr>)) (\<lambda>_.
      bind_act (if started \<and> a_started_at a = None
        then bind_act clock (\<lambda>now. set_assessment aid (\<lambda>x. x\<lparr>a_started_at := Some now\<rparr>)) else ret ()) (\<lambda>_.
      bind_act (if finished then bind_act clock (\<lambda>now. set_assessment aid (\<lambda>x. x\<lparr>a_finished_at := Some now\<rparr>)) else ret ()) (\<lambda>_.
      bind_act (gets (completion_reason note aid)) (\<lambda>reason.
      bind_act (if st = COMPLETED then set_assessment aid (\<lambda>x. x\<lparr>a_completion_reason := reason\<rparr>) else ret ()) (\<lambda>_.
      write_audit (a_org_id a) (Some aid) ''system'' ''state.transition''
        [(''state'', JStr (assessment_state_value st)),
         (''completion_reason'', JStr (if st = COMPLETED then reason else a_completion_reason a))])))))))"

definition checkpoint_phase :: "string \<Rightarrow> assessment_state \<Rightarrow> (db, unit) act" where
  "checkpoint_phase aid st = transaction
     (bind_act (get_assessment aid) (\<lambda>a.
      bind_act (gets (\<lambda>d. one_or_none (filter (\<lambda>c. cp_assessment_id c = aid) (db_checkpoints d)))) (\<lambda>r.
      bind_act (lift_sum r) (\<lambda>cp. case cp of
        None \<Rightarrow> bind_act new_id (\<lambda>i. modify (\<lambda>d. d\<lparr>db_checkpoints := db_checkpoints d @
          [\<lparr>cp_id = i, cp_org_id = a_org_id a, cp_assessment_id = aid, cp_state = assessment_state_value st, cp_cursor = []\<rparr>]\<rparr>))
      | Some c \<Rightarrow> modify (\<lambda>d. d\<lparr>db_checkpoints := change_row cp_id (cp_id c)
          (\<lambda>x. x\<lparr>cp_state := assessment_state_value st, cp_cursor := []\<rparr>) (db_checkpoints d)\<rparr>)))))"

definition cancelled :: "string \<Rightarrow> (db, bool) act" where
  "cancelled aid = bind_act (get_assessment aid) (\<lambda>a. ret (a_cancel_requested a))"

definition finish_cancelled :: "string \<Rightarrow> string \<Rightarrow> (db, unit) act" where
  "finish_cancelled note aid =
     bind_act (set_state note aid CANCELLED False True) (\<lambda>_. transaction
       (bind_act (get_assessment aid) (\<lambda>a.
        write_audit (a_org_id a) (Some aid) ''system'' ''assessment.cancelled'' [])))"

definition mark_failed :: "string \<Rightarrow> string \<Rightarrow> (db, unit) act" where
  "mark_failed aid err = transaction
     (bind_act (gets (\<lambda>d. find_row a_id aid (db_assessments d))) (\<lambda>r. case r of None \<Rightarrow> ret () | Some a \<Rightarrow>
      bind_act clock (\<lambda>now.
      bind_act (set_assessment aid (\<lambda>x. x\<lparr>a_state := assessment_state_value FAILED, a_error := err, a_finished_at := Some now\<rparr>)) (\<lambda>_.
      write_audit (a_org_id a) (Some aid) ''system'' ''assessment.failed'' [(''error'', JStr err)]))))"

definition mark_parked :: "string \<Rightarrow> string list \<Rightarrow> (db, unit) act" where
  "mark_parked aid held = transaction
     (bind_act (gets (\<lambda>d. find_row a_id aid (db_assessments d))) (\<lambda>r. case r of None \<Rightarrow> ret () | Some a \<Rightarrow>
      write_audit (a_org_id a) (Some aid) ''system'' ''assessment.parked'' [(''awaiting_approval'', JList (map JStr held))]))"

definition make_guard :: "settings \<Rightarrow> string \<Rightarrow> (db, guard) act" where
  "make_guard st aid =
     bind_act (get_assessment aid) (\<lambda>a.
     bind_act (fetch db_records az_id (a_authorization_id a) ''authorizationrecord'') (\<lambda>record.
     ret (new_guard st record (a_requests_made a))))"

section \<open>The driver\<close>

record 'c phases =
  ph_open :: "guard \<Rightarrow> exn + 'c"
  ph_discovery :: "('c engine, string list) act"
  ph_planning :: "string list \<Rightarrow> ('c engine, string list) act"
  ph_policy :: "string list \<Rightarrow> ('c engine, string list) act"
  ph_execute :: "string list \<Rightarrow> ('c engine, unit) act"
  ph_validate :: "('c engine, unit) act"
  ph_score :: "('c engine, unit) act"
  ph_report :: "('c engine, unit) act"

definition enter_state :: "string \<Rightarrow> assessment_state \<Rightarrow> bool \<Rightarrow> bool \<Rightarrow> ('c engine, unit) act" where
  "enter_state aid st started finished =
     bind_act (gets en_note) (\<lambda>note. with_db (set_state note aid st started finished))"

definition enter_phase :: "string \<Rightarrow> assessment_state \<Rightarrow> ('c engine, unit) act" where
  "enter_phase aid st = bind_act (with_db (checkpoint_phase aid st)) (\<lambda>_. enter_state aid st False False)"

definition unless_cancelled :: "string \<Rightarrow> ('c engine, unit) act \<Rightarrow> ('c engine, unit) act" where
  "unless_cancelled aid m =
     bind_act (with_db (cancelled aid)) (\<lambda>stop.
     if stop then bind_act (gets en_note) (\<lambda>note. with_db (finish_cancelled note aid)) else m)"

definition last_phases :: "string \<Rightarrow> 'c phases \<Rightarrow> ('c engine, unit) act" where
  "last_phases aid ph =
     bind_act (enter_phase aid VALIDATING) (\<lambda>_.
     bind_act (ph_validate ph) (\<lambda>_.
     bind_act (enter_phase aid SCORING) (\<lambda>_.
     bind_act (ph_score ph) (\<lambda>_.
     bind_act (enter_phase aid REPORTING) (\<lambda>_.
     bind_act (ph_report ph) (\<lambda>_.
     enter_state aid COMPLETED False True))))))"

definition run_phases :: "string \<Rightarrow> 'c phases \<Rightarrow> ('c engine, unit) act" where
  "run_phases aid ph =
     bind_act (enter_phase aid DISCOVERING) (\<lambda>_.
     bind_act (ph_discovery ph) (\<lambda>endpoints.
     unless_cancelled aid
       (bind_act (enter_phase aid PLANNING) (\<lambda>_.
        bind_act (ph_planning ph endpoints) (\<lambda>plan.
        unless_cancelled aid
          (bind_act (enter_phase aid POLICY_CHECK) (\<lambda>_.
           bind_act (ph_policy ph plan) (\<lambda>allowed.
           unless_cancelled aid
             (bind_act (enter_phase aid EXECUTING) (\<lambda>_.
              bind_act (ph_execute ph allowed) (\<lambda>_.
              unless_cancelled aid (last_phases aid ph))))))))))))"

definition failure_text :: "exn \<Rightarrow> string" where
  "failure_text e = (case e of ScopeViolation m c d \<Rightarrow> ''scope violation halted assessment: '' @ m | _ \<Rightarrow> exn_text e)"

definition run_inner :: "settings \<Rightarrow> string \<Rightarrow> 'c phases \<Rightarrow> ('c engine, unit) act" where
  "run_inner st aid ph =
     bind_act (gets (\<lambda>s. find_row a_id aid (db_assessments (en_db s)))) (\<lambda>a.
     if a = None then ret ()
     else
       bind_act (enter_state aid AUTHORIZED True False) (\<lambda>_.
       unless_cancelled aid
         (bind_act (with_db (make_guard st aid)) (\<lambda>g.
          bind_act (with_db clock) (\<lambda>now.
          let precheck = check_record_active g (dt_us now) in
          if \<not> sd_allowed precheck
          then with_db (mark_failed aid (''authorization not usable: '' @ sd_reason precheck))
          else
            bind_act (lift_sum (ph_open ph g)) (\<lambda>c.
            bind_act (modify (\<lambda>s. s\<lparr>en_client := Some c\<rparr>)) (\<lambda>_.
            catch_act (run_phases aid ph) (\<lambda>e. with_db (mark_failed aid (failure_text e))))))))))"

text \<open>
  \<open>run\<close> and \<open>_supervise\<close>, inline: the token ledger is audited if a brain was consulted, and a run that
  raises is failed. The semaphores that bound how many runs go on at once are not modelled.
\<close>

definition persist_llm_budget :: "string \<Rightarrow> llm_budget option \<Rightarrow> (db, unit) act" where
  "persist_llm_budget aid ledger = (case ledger of None \<Rightarrow> ret ()
   | Some b \<Rightarrow> if lb_calls b = 0 then ret ()
      else catch_act (transaction
        (bind_act (get_assessment aid) (\<lambda>a.
         if a_org_id a = [] then ret () else write_audit (a_org_id a) (Some aid) ''system'' ''llm.budget'' (budget_snapshot b))))
        (\<lambda>_. ret ()))"

definition run_engine :: "settings \<Rightarrow> string \<Rightarrow> 'c phases \<Rightarrow> ('c engine, unit) act" where
  "run_engine st aid ph s =
     (case run_inner st aid ph s of (r, s1) \<Rightarrow>
        (r, snd (with_db (persist_llm_budget aid (bs_budget (en_brain s1))) s1)))"

definition supervise :: "settings \<Rightarrow> string \<Rightarrow> 'c phases \<Rightarrow> ('c engine, unit) act" where
  "supervise st aid ph =
     bind_act (with_db (get_assessment aid)) (\<lambda>_.
     catch_act (run_engine st aid ph) (\<lambda>e. with_db (mark_failed aid (''engine crash: '' @ exn_text e))))"

section \<open>Runs end\<close>

definition has_row :: "string \<Rightarrow> db \<Rightarrow> bool" where
  "has_row aid d \<longleftrightarrow> find_row a_id aid (db_assessments d) \<noteq> None"

text \<open>An assessment that ended: in a terminal state, with the time it finished.\<close>

definition ended :: "string \<Rightarrow> db \<Rightarrow> bool" where
  "ended aid d \<longleftrightarrow> (\<exists>a. find_row a_id aid (db_assessments d) = Some a \<and> is_terminal (a_state a) \<and> a_finished_at a \<noteq> None)"

definition row_kept :: "string \<Rightarrow> db \<Rightarrow> db \<Rightarrow> bool" where
  "row_kept aid d d' \<longleftrightarrow> (has_row aid d \<longrightarrow> has_row aid d')"

interpretation row_frame: db_frame "row_kept aid" UNIV for aid
  by unfold_locales (auto simp: row_kept_def has_row_def)

definition kept :: "string \<Rightarrow> 'c engine \<Rightarrow> 'c engine \<Rightarrow> bool" where
  "kept aid s s' \<longleftrightarrow> row_kept aid (en_db s) (en_db s')"

interpretation kept_frame: frame "kept aid" for aid
  by unfold_locales (auto simp: kept_def row_kept_def)

lemma find_change_assessment:
  assumes "\<And>a. a_id (f a) = a_id a"
  shows "find_row a_id aid (change_row a_id aid' f rows) =
    (if aid = aid' then map_option f (find_row a_id aid rows) else find_row a_id aid rows)"
  using find_change_row [of a_id f aid aid' rows, OF assms] .

lemma row_set_assessment:
  "(\<And>a. a_id (f a) = a_id a) \<Longrightarrow> keeps (row_kept aid) (set_assessment aid' f)"
  unfolding set_assessment_def
  by (intro row_frame.keeps_modify) (auto simp: row_kept_def has_row_def find_change_assessment)

lemma keeps_with_db: "keeps (row_kept aid) m \<Longrightarrow> keeps (kept aid) (with_db m)"
  by (auto simp: keeps_def with_db_def kept_def split: prod.splits) (metis snd_conv)

lemmas row_rules = row_frame.keeps_ret row_frame.keeps_raise row_frame.keeps_lift row_frame.keeps_gets row_frame.keeps_bind
  row_frame.keeps_if row_frame.keeps_option row_frame.keeps_new_id row_frame.keeps_clock
  row_frame.keeps_write_audit [OF UNIV_I] row_frame.keeps_fetch row_frame.keeps_transaction row_set_assessment

lemma row_transitions:
  "keeps (row_kept aid) (set_state note aid' st started finished)"
  "keeps (row_kept aid) (checkpoint_phase aid' st)"
  "keeps (row_kept aid) (cancelled aid')"
  "keeps (row_kept aid) (mark_failed aid' err)"
  "keeps (row_kept aid) (make_guard sett aid')"
  unfolding set_state_def checkpoint_phase_def cancelled_def mark_failed_def make_guard_def get_assessment_def
  by (intro row_rules row_frame.keeps_modify; simp add: row_kept_def has_row_def)+

lemma row_finish_cancelled: "keeps (row_kept aid) (finish_cancelled note aid')"
  unfolding finish_cancelled_def get_assessment_def by (intro row_rules row_transitions)

lemma kept_enter: "keeps (kept aid) (enter_state aid' st started finished)" "keeps (kept aid) (enter_phase aid' st)"
  unfolding enter_phase_def enter_state_def
  by (intro kept_frame.keeps_bind kept_frame.keeps_gets keeps_with_db row_transitions)+

text \<open>What a computation that returns leaves behind, from a state with the row.\<close>

definition ends :: "string \<Rightarrow> ('c engine, unit) act \<Rightarrow> bool" where
  "ends aid m \<longleftrightarrow> (\<forall>s s'. has_row aid (en_db s) \<longrightarrow> m s = (Inr (), s') \<longrightarrow> ended aid (en_db s'))"

lemma ends_after:
  assumes "keeps (kept aid) m" "\<And>x. ends aid (f x)"
  shows "ends aid (bind_act m f)"
  unfolding ends_def
proof (intro allI impI)
  fix s s' assume s: "has_row aid (en_db s)" "bind_act m f s = (Inr (), s')"
  then obtain x t where t: "m s = (Inr x, t)" "f x t = (Inr (), s')" by (auto simp: bind_act_Inr)
  with keepsD [OF assms(1) t(1)] s(1) have "has_row aid (en_db t)" by (simp add: kept_def row_kept_def)
  with assms(2) t(2) show "ended aid (en_db s')" by (auto simp: ends_def)
qed

lemma ends_if: "(b \<Longrightarrow> ends aid m) \<Longrightarrow> (\<not> b \<Longrightarrow> ends aid n) \<Longrightarrow> ends aid (if b then m else n)"
  by simp

lemma set_state_ends:
  assumes "st \<in> {COMPLETED, CANCELLED, FAILED}" "has_row aid d"
  shows "\<exists>d'. set_state note aid st False True d = (Inr (), d') \<and> ended aid d'"
  using assms unfolding set_state_def has_row_def
  by (auto simp: transaction_def bind_act_def set_assessment_def clock_def write_audit_def new_id_def
      find_change_assessment ended_def is_terminal_def)

lemma mark_failed_ends: "has_row aid d \<Longrightarrow> \<exists>d'. mark_failed aid err d = (Inr (), d') \<and> ended aid d'"
  unfolding mark_failed_def has_row_def
  by (auto simp: transaction_def bind_act_def set_assessment_def clock_def write_audit_def new_id_def
      find_change_assessment ended_def is_terminal_def)

lemma enter_terminal_ends: "st \<in> {COMPLETED, CANCELLED, FAILED} \<Longrightarrow> ends aid (enter_state aid st False True)"
  unfolding ends_def enter_state_def
proof (intro allI impI)
  fix s s' :: "'a engine"
  assume st: "st \<in> {COMPLETED, CANCELLED, FAILED}" "has_row aid (en_db s)"
    and run: "bind_act (gets en_note) (\<lambda>note. with_db (set_state note aid st False True)) s = (Inr (), s')"
  from set_state_ends [OF st, of "en_note s"] run show "ended aid (en_db s')"
    by (auto simp: bind_act_def with_db_def)
qed

lemma finish_cancelled_ends: "ends aid (with_db (finish_cancelled note aid))"
proof -
  have "\<exists>d'. finish_cancelled note aid d = (Inr (), d') \<and> ended aid d'" if "has_row aid d" for d
  proof -
    obtain d1 where d1: "set_state note aid CANCELLED False True d = (Inr (), d1)" "ended aid d1"
      using set_state_ends [of CANCELLED aid d "note"] \<open>has_row aid d\<close> by blast
    then obtain a where "find_row a_id aid (db_assessments d1) = Some a" by (auto simp: ended_def)
    with d1 show ?thesis
      by (auto simp: finish_cancelled_def bind_act_def transaction_def get_assessment_def fetch_def require_def
          write_audit_def new_id_def ended_def)
  qed
  then show ?thesis by (fastforce simp: ends_def with_db_def)
qed

lemma unless_cancelled_ends: "ends aid m \<Longrightarrow> ends aid (unless_cancelled aid m)"
  unfolding unless_cancelled_def
  by (intro ends_after ends_if keeps_with_db row_transitions kept_frame.keeps_gets finish_cancelled_ends)

lemma kept_unless_cancelled: "keeps (kept aid) m \<Longrightarrow> keeps (kept aid) (unless_cancelled aid' m)"
  unfolding unless_cancelled_def
  by (intro kept_frame.keeps_bind kept_frame.keeps_if kept_frame.keeps_gets keeps_with_db row_transitions row_finish_cancelled)

lemma mark_failed_run: "has_row aid (en_db s) \<Longrightarrow> \<exists>s'. with_db (mark_failed aid err) s = (Inr (), s') \<and> ended aid (en_db s')"
  using mark_failed_ends [of aid "en_db s" err] by (auto simp: with_db_def)

text \<open>
  The contract of the phases: whatever else they do, and however they end, the assessment's row stays.
\<close>

locale live_phases =
  fixes aid :: string and ph :: "'c phases"
  assumes keeps_discovery: "keeps (kept aid) (ph_discovery ph)"
    and keeps_planning: "keeps (kept aid) (ph_planning ph eps)"
    and keeps_policy: "keeps (kept aid) (ph_policy ph steps)"
    and keeps_execute: "keeps (kept aid) (ph_execute ph steps)"
    and keeps_validate: "keeps (kept aid) (ph_validate ph)"
    and keeps_score: "keeps (kept aid) (ph_score ph)"
    and keeps_report: "keeps (kept aid) (ph_report ph)"
begin

lemmas phase_rules = keeps_discovery keeps_planning keeps_policy keeps_execute keeps_validate keeps_score keeps_report

lemma last_phases_ends: "ends aid (last_phases aid ph)" "keeps (kept aid) (last_phases aid ph)"
  unfolding last_phases_def
  by (intro ends_after kept_enter phase_rules enter_terminal_ends kept_frame.keeps_bind; simp)+

lemma run_phases_ends: "ends aid (run_phases aid ph)" "keeps (kept aid) (run_phases aid ph)"
  unfolding run_phases_def
  by (intro ends_after unless_cancelled_ends kept_enter phase_rules last_phases_ends kept_frame.keeps_bind
      kept_unless_cancelled)+

lemma run_inner_kept: "keeps (kept aid) (run_inner st aid ph)"
  unfolding run_inner_def Let_def
  by (intro kept_frame.keeps_bind kept_frame.keeps_if kept_frame.keeps_ret kept_frame.keeps_gets kept_frame.keeps_lift
      kept_frame.keeps_modify kept_frame.keeps_catch kept_enter kept_unless_cancelled keeps_with_db row_transitions
      row_frame.keeps_clock run_phases_ends(2))
    (simp add: kept_def row_kept_def)

lemma mark_failed_with_db_ends: "ends aid (with_db (mark_failed aid err))"
  unfolding ends_def using mark_failed_run by (metis prod.inject)

lemma phases_or_failed_ends: "ends aid (catch_act (run_phases aid ph) (\<lambda>e. with_db (mark_failed aid (f e))))"
  unfolding ends_def
proof (intro allI impI)
  fix s s' assume s: "has_row aid (en_db s)" "catch_act (run_phases aid ph) (\<lambda>e. with_db (mark_failed aid (f e))) s = (Inr (), s')"
  obtain r t where t: "run_phases aid ph s = (r, t)" by fastforce
  with keepsD [OF run_phases_ends(2) t] s(1) have row: "has_row aid (en_db t)" by (simp add: kept_def row_kept_def)
  show "ended aid (en_db s')"
  proof (cases r)
    case (Inl e)
    with s(2) t have "with_db (mark_failed aid (f e)) t = (Inr (), s')" by (simp add: catch_act_def)
    with mark_failed_with_db_ends row show ?thesis by (auto simp: ends_def)
  next
    case (Inr u)
    with s t run_phases_ends(1) show ?thesis by (auto simp: catch_act_def ends_def)
  qed
qed

lemma run_inner_ends: "ends aid (run_inner st aid ph)"
proof -
  have rest: "ends aid (bind_act (enter_state aid AUTHORIZED True False) (\<lambda>_.
       unless_cancelled aid
         (bind_act (with_db (make_guard st aid)) (\<lambda>g.
          bind_act (with_db clock) (\<lambda>now.
          let precheck = check_record_active g (dt_us now) in
          if \<not> sd_allowed precheck
          then with_db (mark_failed aid (''authorization not usable: '' @ sd_reason precheck))
          else
            bind_act (lift_sum (ph_open ph g)) (\<lambda>c.
            bind_act (modify (\<lambda>s. s\<lparr>en_client := Some c\<rparr>)) (\<lambda>_.
            catch_act (run_phases aid ph) (\<lambda>e. with_db (mark_failed aid (failure_text e))))))))))" (is "ends aid ?m")
    unfolding Let_def
    by (intro ends_after ends_if unless_cancelled_ends kept_enter keeps_with_db row_transitions row_frame.keeps_clock
        kept_frame.keeps_lift kept_frame.keeps_modify mark_failed_with_db_ends phases_or_failed_ends)
      (simp add: kept_def row_kept_def)
  show ?thesis
    unfolding ends_def
  proof (intro allI impI)
    fix s s' assume s: "has_row aid (en_db s)" "run_inner st aid ph s = (Inr (), s')"
    then obtain a where "find_row a_id aid (db_assessments (en_db s)) = Some a" by (auto simp: has_row_def)
    with s(2) have "?m s = (Inr (), s')" by (simp add: run_inner_def bind_act_def [of "gets f" for f])
    with rest s(1) show "ended aid (en_db s')" by (auto simp: ends_def)
  qed
qed

lemma persist_ledger_kept: "keeps (row_kept aid) (persist_llm_budget aid ledger)"
  unfolding persist_llm_budget_def get_assessment_def
  by (intro row_rules row_frame.keeps_catch)

lemma persist_ledger_rows: "keeps (\<lambda>d d'. db_assessments d' = db_assessments d) (persist_llm_budget aid ledger)"
  by (auto simp: keeps_def persist_llm_budget_def catch_act_def transaction_def bind_act_def get_assessment_def fetch_def
      require_def write_audit_def new_id_def split: option.splits)

lemma supervise_ends:
  assumes "has_row aid (en_db s)"
  shows "\<exists>s'. supervise st aid ph s = (Inr (), s') \<and> ended aid (en_db s')"
proof -
  obtain r1 s1 where inner: "run_inner st aid ph s = (r1, s1)" by fastforce
  define s2 where "s2 = snd (with_db (persist_llm_budget aid (bs_budget (en_brain s1))) s1)"
  have rows: "db_assessments (en_db s2) = db_assessments (en_db s1)"
    using persist_ledger_rows [of "bs_budget (en_brain s1)"]
    by (simp add: s2_def with_db_def keeps_def split: prod.splits) (metis snd_conv)
  have run: "run_engine st aid ph s = (r1, s2)" by (simp add: run_engine_def inner s2_def)
  have row1: "has_row aid (en_db s1)"
    using keepsD [OF run_inner_kept inner] assms by (simp add: kept_def row_kept_def)
  then have row2: "has_row aid (en_db s2)" by (simp add: has_row_def rows)
  have get: "with_db (get_assessment aid) s = (Inr (the (find_row a_id aid (db_assessments (en_db s)))), s)"
    using assms by (auto simp: with_db_def get_assessment_def fetch_def require_def bind_act_def has_row_def)
  show ?thesis
  proof (cases r1)
    case (Inl e)
    with run get mark_failed_run [OF row2, of "''engine crash: '' @ exn_text e"] show ?thesis
      by (auto simp: supervise_def bind_act_def catch_act_def)
  next
    case (Inr u)
    with run_inner_ends inner assms have "ended aid (en_db s1)" by (auto simp: ends_def)
    then have "ended aid (en_db s2)" by (simp add: ended_def rows)
    with run get Inr show ?thesis by (auto simp: supervise_def bind_act_def catch_act_def)
  qed
qed

end

end
