(* ===== verification/Recovery.thy ===== *)
theory Recovery
  imports Lifecycle
begin

text \<open>
  \<open>resume_incomplete_assessments\<close> of \<open>app/orchestration/engine.py\<close> for the inline engine: the runs a crash
  interrupted are cleared and started again. The rows of a run are deleted table by table, each deletion
  reaching the database before the next query, which enforces the foreign keys after each of them.
\<close>

datatype run_table = EvidenceRows | ValidationResultRows | CoverageRows | JobRows | PlanStepRows | FindingRows | EndpointRows

fun clear_table :: "run_table \<Rightarrow> string \<Rightarrow> db \<Rightarrow> db" where
  "clear_table EvidenceRows aid d = d\<lparr>db_evidence := filter (\<lambda>r. evd_assessment_id r \<noteq> aid) (db_evidence d)\<rparr>"
| "clear_table ValidationResultRows aid d = d\<lparr>db_results := filter (\<lambda>r. vr_assessment_id r \<noteq> aid) (db_results d)\<rparr>"
| "clear_table CoverageRows aid d = d\<lparr>db_coverage := filter (\<lambda>r. cov_assessment_id r \<noteq> aid) (db_coverage d)\<rparr>"
| "clear_table JobRows aid d = d\<lparr>db_jobs := filter (\<lambda>r. job_assessment_id r \<noteq> aid) (db_jobs d)\<rparr>"
| "clear_table PlanStepRows aid d = d\<lparr>db_steps := filter (\<lambda>r. ps_assessment_id r \<noteq> aid) (db_steps d)\<rparr>"
| "clear_table FindingRows aid d = d\<lparr>db_findings := filter (\<lambda>r. fd_assessment_id r \<noteq> aid) (db_findings d)\<rparr>"
| "clear_table EndpointRows aid d = d\<lparr>db_endpoints := filter (\<lambda>r. ep_assessment_id r \<noteq> aid) (db_endpoints d)\<rparr>"

definition RESTART_ORDER :: "run_table list" where
  "RESTART_ORDER = [EvidenceRows, ValidationResultRows, CoverageRows, JobRows, PlanStepRows, FindingRows, EndpointRows]"

definition clear_run :: "run_table list \<Rightarrow> string \<Rightarrow> db \<Rightarrow> db" where
  "clear_run ts aid d = foldl (\<lambda>d t. clear_table t aid d) d ts"

definition restart_assessment :: "string \<Rightarrow> string \<Rightarrow> (db, unit) act" where
  "restart_assessment aid org = transaction
     (bind_act (gets (\<lambda>d. one_or_none (filter (\<lambda>c. cp_assessment_id c = aid) (db_checkpoints d)))) (\<lambda>r.
      bind_act (lift_sum r) (\<lambda>cp.
      bind_act (modify (clear_run RESTART_ORDER aid)) (\<lambda>_.
      bind_act (get_assessment aid) (\<lambda>a.
      bind_act (set_assessment aid (\<lambda>x. x\<lparr>a_state := assessment_state_value CREATED, a_cancel_requested := False,
        a_requests_made := 0\<rparr>)) (\<lambda>_.
      write_audit org (Some aid) ''system'' ''assessment.resumed''
        [(''mode'', JStr ''restart''), (''from_checkpoint'', JStr (case cp of None \<Rightarrow> ''unknown'' | Some c \<Rightarrow> cp_state c))]))))))"

definition interrupted :: "api \<Rightarrow> (string \<times> string) list" where
  "interrupted s = map (\<lambda>a. (a_id a, a_org_id a))
     (filter (\<lambda>a. \<not> is_terminal (a_state a) \<and> a_started_at a \<noteq> None \<and> a_id a \<notin> set (ap_running s)) (db_assessments (ap_db s)))"

fun resume_all :: "(string \<times> string) list \<Rightarrow> (api, string list) act" where
  "resume_all [] = ret []"
| "resume_all ((aid, org) # ts) =
     bind_act (on_db (restart_assessment aid org)) (\<lambda>_.
     bind_act (start_assessment aid) (\<lambda>_.
     bind_act (resume_all ts) (\<lambda>rest. ret (aid # rest))))"

definition resume_incomplete_assessments :: "(api, string list) act" where
  "resume_incomplete_assessments = bind_act (gets interrupted) resume_all"

section \<open>Referential integrity\<close>

definition fk_ok :: "db \<Rightarrow> bool" where
  "fk_ok d \<longleftrightarrow>
     (\<forall>r \<in> set (db_evidence d). \<forall>f \<in> set_option (evd_finding_id r). f \<in> fd_id ` set (db_findings d)) \<and>
     (\<forall>r \<in> set (db_results d). vr_finding_id r \<in> fd_id ` set (db_findings d)) \<and>
     (\<forall>r \<in> set (db_coverage d). cov_endpoint_id r \<in> ep_id ` set (db_endpoints d)) \<and>
     (\<forall>r \<in> set (db_jobs d). job_plan_step_id r \<in> ps_id ` set (db_steps d)) \<and>
     (\<forall>r \<in> set (db_steps d). \<forall>e \<in> set_option (ps_endpoint_id r). e \<in> ep_id ` set (db_endpoints d)) \<and>
     (\<forall>r \<in> set (db_findings d). \<forall>e \<in> set_option (fd_endpoint_id r). e \<in> ep_id ` set (db_endpoints d))"

text \<open>No row refers to a row of another assessment.\<close>

definition refs_local :: "db \<Rightarrow> bool" where
  "refs_local d \<longleftrightarrow>
     (\<forall>r \<in> set (db_evidence d). \<forall>f \<in> set (db_findings d). evd_finding_id r = Some (fd_id f) \<longrightarrow> evd_assessment_id r = fd_assessment_id f) \<and>
     (\<forall>r \<in> set (db_results d). \<forall>f \<in> set (db_findings d). vr_finding_id r = fd_id f \<longrightarrow> vr_assessment_id r = fd_assessment_id f) \<and>
     (\<forall>r \<in> set (db_coverage d). \<forall>e \<in> set (db_endpoints d). cov_endpoint_id r = ep_id e \<longrightarrow> cov_assessment_id r = ep_assessment_id e) \<and>
     (\<forall>r \<in> set (db_jobs d). \<forall>s \<in> set (db_steps d). job_plan_step_id r = ps_id s \<longrightarrow> job_assessment_id r = ps_assessment_id s) \<and>
     (\<forall>r \<in> set (db_steps d). \<forall>e \<in> set (db_endpoints d). ps_endpoint_id r = Some (ep_id e) \<longrightarrow> ps_assessment_id r = ep_assessment_id e) \<and>
     (\<forall>r \<in> set (db_findings d). \<forall>e \<in> set (db_endpoints d). fd_endpoint_id r = Some (ep_id e) \<longrightarrow> fd_assessment_id r = ep_assessment_id e)"

text \<open>What holds after clearing the tables in the order: the later a table, the more is gone before it.\<close>

lemma clear_run_tables:
  "clear_run (take n RESTART_ORDER) aid d = d\<lparr>
     db_evidence := filter (\<lambda>r. n > 0 \<longrightarrow> evd_assessment_id r \<noteq> aid) (db_evidence d),
     db_results := filter (\<lambda>r. n > 1 \<longrightarrow> vr_assessment_id r \<noteq> aid) (db_results d),
     db_coverage := filter (\<lambda>r. n > 2 \<longrightarrow> cov_assessment_id r \<noteq> aid) (db_coverage d),
     db_jobs := filter (\<lambda>r. n > 3 \<longrightarrow> job_assessment_id r \<noteq> aid) (db_jobs d),
     db_steps := filter (\<lambda>r. n > 4 \<longrightarrow> ps_assessment_id r \<noteq> aid) (db_steps d),
     db_findings := filter (\<lambda>r. n > 5 \<longrightarrow> fd_assessment_id r \<noteq> aid) (db_findings d),
     db_endpoints := filter (\<lambda>r. n > 6 \<longrightarrow> ep_assessment_id r \<noteq> aid) (db_endpoints d)\<rparr>"
proof -
  consider "n = 0" | "n = 1" | "n = 2" | "n = 3" | "n = 4" | "n = 5" | "n = 6" | "n \<ge> 7" by linarith
  then show ?thesis by cases (simp_all add: clear_run_def RESTART_ORDER_def)
qed

lemma clear_run_all:
  "clear_run RESTART_ORDER aid d = d\<lparr>
     db_evidence := filter (\<lambda>r. evd_assessment_id r \<noteq> aid) (db_evidence d),
     db_results := filter (\<lambda>r. vr_assessment_id r \<noteq> aid) (db_results d),
     db_coverage := filter (\<lambda>r. cov_assessment_id r \<noteq> aid) (db_coverage d),
     db_jobs := filter (\<lambda>r. job_assessment_id r \<noteq> aid) (db_jobs d),
     db_steps := filter (\<lambda>r. ps_assessment_id r \<noteq> aid) (db_steps d),
     db_findings := filter (\<lambda>r. fd_assessment_id r \<noteq> aid) (db_findings d),
     db_endpoints := filter (\<lambda>r. ep_assessment_id r \<noteq> aid) (db_endpoints d)\<rparr>"
  by (simp add: clear_run_def RESTART_ORDER_def)

lemma clear_keeps_fk:
  assumes "fk_ok d" "refs_local d"
  shows "fk_ok (clear_run (take n RESTART_ORDER) aid d)"
  unfolding clear_run_tables fk_ok_def
  using assms unfolding fk_ok_def refs_local_def
  by (intro conjI ballI allI impI; simp add: image_iff Bex_def; fastforce)

section \<open>What a restart leaves\<close>

definition reset_run :: "assessment \<Rightarrow> assessment" where
  "reset_run x = x\<lparr>a_state := assessment_state_value CREATED, a_cancel_requested := False, a_requests_made := 0\<rparr>"

definition run_rows :: "string \<Rightarrow> db \<Rightarrow> nat" where
  "run_rows aid d =
     length (filter (\<lambda>r. evd_assessment_id r = aid) (db_evidence d)) + length (filter (\<lambda>r. vr_assessment_id r = aid) (db_results d)) +
     length (coverage_of aid d) + length (jobs_of aid d) + length (steps_of aid d) + length (findings_of aid d) +
     length (endpoints_of aid d)"

lemma restart_result:
  assumes "restart_assessment aid org d = (Inr (), d')"
  shows "db_assessments d' = change_row a_id aid reset_run (db_assessments d)" "has_row aid d"
    and "\<exists>i audits. d' = (clear_run RESTART_ORDER aid d)\<lparr>db_assessments := change_row a_id aid reset_run (db_assessments d),
       db_drawn := i, db_audit := audits\<rparr>"
  using assms
  by (auto simp: restart_assessment_def transaction_Inr bind_act_Inr get_assessment_def fetch_def require_def set_assessment_def
      write_audit_def new_id_def clear_run_all reset_run_def [abs_def] has_row_def split: option.splits)

lemma find_reset: "find_row a_id k (change_row a_id aid reset_run rows) =
    (if k = aid then map_option reset_run (find_row a_id k rows) else find_row a_id k rows)"
  by (simp add: find_change_assessment reset_run_def)

lemma run_rows_other:
  assumes "d' = (clear_run RESTART_ORDER aid d)\<lparr>db_assessments := as, db_drawn := i, db_audit := audits\<rparr>"
  shows "run_rows k d' = (if k = aid then 0 else run_rows k d)"
proof -
  have f: "filter (\<lambda>r. P r = k) (filter (\<lambda>r. P r \<noteq> aid) xs) = (if k = aid then [] else filter (\<lambda>r. P r = k) xs)"
    for P :: "'b \<Rightarrow> string" and xs
    by (auto simp: filter_empty_conv intro: filter_cong)
  show ?thesis
    unfolding assms clear_run_all run_rows_def coverage_of_def jobs_of_def steps_of_def findings_of_def endpoints_of_def
    by (simp add: f del: filter_filter)
qed

text \<open>A run that is ready to start afresh.\<close>

definition fresh_run :: "string \<Rightarrow> db \<Rightarrow> bool" where
  "fresh_run aid d \<longleftrightarrow> run_rows aid d = 0 \<and> (\<exists>a. find_row a_id aid (db_assessments d) = Some a \<and>
     a_state a = ''created'' \<and> \<not> a_cancel_requested a \<and> a_requests_made a = 0)"

lemma restart_fresh:
  assumes "restart_assessment aid org d = (Inr (), d')"
  shows "fresh_run aid d'" "fresh_run k d \<Longrightarrow> fresh_run k d'" "k \<noteq> aid \<Longrightarrow> run_rows k d' = run_rows k d"
    "k \<noteq> aid \<Longrightarrow> find_row a_id k (db_assessments d') = find_row a_id k (db_assessments d)"
proof -
  note r = restart_result [OF assms]
  obtain i audits where d': "d' = (clear_run RESTART_ORDER aid d)\<lparr>db_assessments := change_row a_id aid reset_run (db_assessments d),
       db_drawn := i, db_audit := audits\<rparr>" using r(3) by blast
  note rows = run_rows_other [OF d']
  show new: "fresh_run aid d'"
    using r(2) by (auto simp: fresh_run_def rows r(1) find_reset has_row_def reset_run_def)
  show "k \<noteq> aid \<Longrightarrow> run_rows k d' = run_rows k d" by (simp add: rows)
  show other: "k \<noteq> aid \<Longrightarrow> find_row a_id k (db_assessments d') = find_row a_id k (db_assessments d)"
    by (simp add: r(1) find_reset)
  show "fresh_run k d'" if "fresh_run k d"
    using that new by (cases "k = aid") (auto simp: fresh_run_def rows r(1) find_reset)
qed

lemma on_db_Inr: "on_db m s = (Inr x, s') \<longleftrightarrow> (\<exists>d. m (ap_db s) = (Inr x, d) \<and> s' = s\<lparr>ap_db := d\<rparr>)"
  by (auto simp: on_db_def split: prod.splits)

lemma resume_all_result:
  assumes "resume_all ts s = (Inr ids, s')"
  shows "ids = map fst ts \<and>
    (\<forall>aid \<in> fst ` set ts. fresh_run aid (ap_db s')) \<and> (\<forall>k. fresh_run k (ap_db s) \<longrightarrow> fresh_run k (ap_db s')) \<and>
    (\<forall>k. k \<notin> fst ` set ts \<longrightarrow> run_rows k (ap_db s') = run_rows k (ap_db s) \<and>
       find_row a_id k (db_assessments (ap_db s')) = find_row a_id k (db_assessments (ap_db s))) \<and>
    (\<forall>aid \<in> fst ` set ts. aid \<notin> set (ap_running s) \<longrightarrow> LaunchRun aid \<in> set (ap_launched s')) \<and>
    set (ap_launched s) \<subseteq> set (ap_launched s')"
  using assms
proof (induction ts arbitrary: s ids)
  case (Cons t ts)
  obtain aid org where t: "t = (aid, org)" by fastforce
  from Cons.prems obtain d s2 rest where
    d: "restart_assessment aid org (ap_db s) = (Inr (), d)" and
    s2: "start_assessment aid (s\<lparr>ap_db := d\<rparr>) = (Inr (), s2)" and
    rest: "resume_all ts s2 = (Inr rest, s')" and ids: "ids = aid # rest"
    by (auto simp: t bind_act_Inr on_db_Inr)
  have db: "ap_db s2 = d" and run: "set (ap_running s2) = insert aid (set (ap_running s))"
    and launched: "set (ap_launched s) \<subseteq> set (ap_launched s2)" "aid \<notin> set (ap_running s) \<Longrightarrow> LaunchRun aid \<in> set (ap_launched s2)"
    using s2 by (auto simp: start_assessment_def split: if_splits)
  note f = restart_fresh [OF d] and IH = Cons.IH [OF rest]
  show ?case
  proof (intro conjI)
    show "ids = map fst (t # ts)" using IH ids t by simp
    show "\<forall>aid \<in> fst ` set (t # ts). fresh_run aid (ap_db s')" using IH f(1) db t by auto
    show "\<forall>k. fresh_run k (ap_db s) \<longrightarrow> fresh_run k (ap_db s')" using IH f(2) db by blast
    show "\<forall>k. k \<notin> fst ` set (t # ts) \<longrightarrow> run_rows k (ap_db s') = run_rows k (ap_db s) \<and>
       find_row a_id k (db_assessments (ap_db s')) = find_row a_id k (db_assessments (ap_db s))"
      using IH f(3,4) db t by auto
    show "\<forall>aid \<in> fst ` set (t # ts). aid \<notin> set (ap_running s) \<longrightarrow> LaunchRun aid \<in> set (ap_launched s')"
    proof (intro ballI impI)
      fix k assume k: "k \<in> fst ` set (t # ts)" "k \<notin> set (ap_running s)"
      show "LaunchRun k \<in> set (ap_launched s')"
      proof (cases "k = aid")
        case True
        with launched(2) k(2) IH show ?thesis by blast
      next
        case False
        with k t run have "k \<in> fst ` set ts" "k \<notin> set (ap_running s2)" by auto
        with IH show ?thesis by blast
      qed
    qed
    show "set (ap_launched s) \<subseteq> set (ap_launched s')" using IH launched(1) by blast
  qed
qed simp

section \<open>Theorems\<close>

text \<open>
  Clearing an interrupted run never breaks a reference. The tables are cleared in an order in which, after
  every single deletion, each evidence, validation result, coverage row, job, plan step and finding that is left
  still refers to a row that is there, provided references were intact before and stay within an assessment.
\<close>

theorem restart_order_respects_references:
  assumes "fk_ok d" "refs_local d"
  shows "\<forall>n. fk_ok (clear_run (take n RESTART_ORDER) aid d)"
  using clear_keeps_fk [OF assms] by blast


definition crashed :: api where
  "crashed = \<lparr>ap_db = demo_scored\<lparr>db_assessments := [(new_assessment ''a1'' ''o1'' ''t1'' ''z1'' [])
      \<lparr>a_state := ''executing'', a_cancel_requested := True, a_started_at := Some \<lparr>dt_us = 0, dt_naive = False, dt_iso = []\<rparr>\<rparr>]\<rparr>,
     ap_running = [], ap_launched = []\<rparr>"

theorem restart_order_respects_references_witness:
  "fk_ok (clear_run (take 5 RESTART_ORDER) ''a1'' demo_scored) \<and> steps_of ''a1'' demo_scored \<noteq> [] \<and>
   steps_of ''a1'' (clear_run (take 5 RESTART_ORDER) ''a1'' demo_scored) = []"
proof -
  have "fk_ok demo_scored" "refs_local demo_scored" by code_simp+
  from restart_order_respects_references [OF this] have "fk_ok (clear_run (take 5 RESTART_ORDER) ''a1'' demo_scored)" by blast
  moreover have "steps_of ''a1'' demo_scored \<noteq> []" by code_simp
  moreover have "steps_of ''a1'' (clear_run (take 5 RESTART_ORDER) ''a1'' demo_scored) = []" by code_simp
  ultimately show ?thesis by blast
qed


end
