(* ===== verification/Parsers.thy ===== *)
theory Parsers
  imports Normalize Urljoin Json Declarative Agents
begin

text \<open>
  \<open>app/discovery/parsers.py\<close>: discovery artifacts (OpenAPI, HAR, Postman, GraphQL introspection) to
  endpoints. Artifacts are texts; the YAML reader is a parameter that answers a value or the text of its
  error, and objects have string keys. A result is the list of endpoints with the list of warnings; a parser
  that raises instead is Inl.
\<close>

section \<open>Untrusted values\<close>

fun type_name :: "jv \<Rightarrow> string" where
  "type_name JNull = ''NoneType''"
| "type_name (JBool b) = ''bool''"
| "type_name (JInt i) = ''int''"
| "type_name (JNum r) = ''float''"
| "type_name (JStr s) = ''str''"
| "type_name (JList xs) = ''list''"
| "type_name (JDict d) = ''dict''"

definition attribute_error :: "jv \<Rightarrow> string \<Rightarrow> exn" where
  "attribute_error v name =
     OtherError (''AttributeError: '' @ squoted (type_name v) @ '' object has no attribute '' @ squoted name)"

text \<open>\<open>str(exc)\<close>: an exception of another class carries its class in front of its message.\<close>

definition exn_message :: "exn \<Rightarrow> string" where
  "exn_message e = (case e of
       ValueError m \<Rightarrow> m | NetGuardError m \<Rightarrow> m | ScopeViolation m c d \<Rightarrow> m | EgressViolation m h p c \<Rightarrow> m
     | TargetUnreachable m \<Rightarrow> m | SandboxError m \<Rightarrow> m | RuntimeError m \<Rightarrow> m | HttpError m \<Rightarrow> m | TimeoutExn \<Rightarrow> []
     | OtherError m \<Rightarrow> drop 2 (dropWhile (\<lambda>c. c \<noteq> CHR '':'') m)
     | HTTPException st m \<Rightarrow> int_str st @ '': '' @ m)"

definition obj :: "string \<Rightarrow> jv \<Rightarrow> exn + dict" where
  "obj name v = (case v of JDict d \<Rightarrow> Inr d | _ \<Rightarrow> Inl (attribute_error v name))"

definition items_of :: "jv \<Rightarrow> exn + jv list" where
  "items_of v = (case v of JList xs \<Rightarrow> Inr xs | JDict d \<Rightarrow> Inr (map (JStr \<circ> fst) d) | JStr s \<Rightarrow> Inr (map (\<lambda>c. JStr [c]) s)
     | _ \<Rightarrow> Inl (OtherError (''TypeError: '' @ squoted (type_name v) @ '' object is not iterable'')))"

definition items_or_none :: "jv \<Rightarrow> exn + jv list" where
  "items_or_none v = (if truthy v then items_of v else Inr [])"

definition text_of :: "string \<Rightarrow> jv \<Rightarrow> exn + string" where
  "text_of name v = (case v of JStr s \<Rightarrow> Inr s | _ \<Rightarrow> Inl (attribute_error v name))"

definition hash_key :: "jv \<Rightarrow> exn + jv" where
  "hash_key v = (if hashable v then Inr v else Inl (OtherError (''TypeError: unhashable type: '' @ squoted (type_name v))))"

text \<open>\<open>any(...)\<close> over a generator: nothing after the first success is looked at.\<close>

fun any_sum :: "('a \<Rightarrow> exn + bool) \<Rightarrow> 'a list \<Rightarrow> exn + bool" where
  "any_sum p [] = Inr False"
| "any_sum p (x # xs) = sum_bind (p x) (\<lambda>b. if b then Inr True else any_sum p xs)"

text \<open>\<open>s.replace(old, new)\<close> for a non-empty old text.\<close>

function str_replace :: "string \<Rightarrow> string \<Rightarrow> string \<Rightarrow> string" where
  "str_replace old new s =
     (if old = [] \<or> s = [] then s
      else if starts_with s old then new @ str_replace old new (drop (length old) s)
      else hd s # str_replace old new (tl s))"
  by pat_completeness auto
termination by (relation "measure (\<lambda>(old, new, s). length s)") auto

declare str_replace.simps [simp del]

definition found_param :: "jv \<Rightarrow> string \<Rightarrow> string \<Rightarrow> dict" where
  "found_param name place ty = [(''name'', name), (''in'', JStr place), (''type'', JStr ty), (''required'', JBool False)]"

text \<open>A method and a URL as the constructor of an endpoint takes them.\<close>

definition checked_endpoint ::
  "jv \<Rightarrow> jv \<Rightarrow> provenance \<Rightarrow> dict list \<Rightarrow> dict \<Rightarrow> bool \<Rightarrow> exn + discovered_endpoint" where
  "checked_endpoint method url prov params body auth =
     sum_bind (if truthy method then text_of ''upper'' method else Inr []) (\<lambda>m.
     sum_bind (text_of ''decode'' url) (\<lambda>u.
     new_endpoint ((plain_endpoint m u prov params)\<lparr>de_request_body_schema := body, de_auth_required := auth\<rparr>)))"

type_synonym parse_result = "discovered_endpoint list \<times> string list"

definition load_doc :: "(string \<Rightarrow> string + jv) \<Rightarrow> string \<Rightarrow> string + jv" where
  "load_doc yaml content =
     (let text = str_strip content in
      if text = [] then Inl ''empty artifact''
      else (case json_loads text of Some v \<Rightarrow> Inr v
        | None \<Rightarrow> (case yaml text of Inr v \<Rightarrow> Inr v | Inl e \<Rightarrow> Inl (''could not parse as JSON or YAML: '' @ e))))"

text \<open>The shared start of the parsers: the root object, or the warning there is none.\<close>

definition with_root :: "(string \<Rightarrow> string + jv) \<Rightarrow> string \<Rightarrow> string \<Rightarrow> (dict \<Rightarrow> exn + parse_result) \<Rightarrow> exn + parse_result" where
  "with_root yaml content missing f = (case load_doc yaml content of
     Inl err \<Rightarrow> Inr ([], [err])
   | Inr (JDict doc) \<Rightarrow> f doc
   | Inr _ \<Rightarrow> Inr ([], [missing]))"

section \<open>OpenAPI\<close>

definition HTTP_METHODS :: "string list" where
  "HTTP_METHODS = [''get'', ''put'', ''post'', ''delete'', ''options'', ''head'', ''patch'', ''trace'']"

definition server_url :: "string \<Rightarrow> jv \<Rightarrow> exn + string list" where
  "server_url base_url s = (case s of
     JDict d \<Rightarrow>
       if truthy (jget d ''url'')
       then sum_bind (text_of ''startswith'' (jget d ''url'')) (\<lambda>u.
         Inr [if starts_with u ''/'' \<and> base_url \<noteq> [] then rstrip_char (CHR ''/'') base_url @ u else u])
       else Inr []
   | _ \<Rightarrow> Inr [])"

definition first_scheme :: "jv \<Rightarrow> exn + string" where
  "first_scheme v = (if \<not> truthy v then Inr ''https''
     else case v of JList (x # xs) \<Rightarrow> Inr (str_jv x) | JStr (c # cs) \<Rightarrow> Inr [c]
       | JDict d \<Rightarrow> Inl (OtherError ''KeyError: 0'')
       | _ \<Rightarrow> Inl (OtherError (''TypeError: '' @ squoted (type_name v) @ '' object is not subscriptable'')))"

definition openapi_servers :: "dict \<Rightarrow> string \<Rightarrow> exn + string list" where
  "openapi_servers doc base_url =
     sum_bind (case jget doc ''servers'' of JList ss \<Rightarrow> sum_bind (mapM_sum (server_url base_url) ss) (\<lambda>us. Inr (concat us)) | _ \<Rightarrow> Inr [])
       (\<lambda>servers.
     if servers \<noteq> [] then Inr servers
     else
       sum_bind (if truthy (jget doc ''host'')
         then sum_bind (first_scheme (jget doc ''schemes'')) (\<lambda>scheme.
           Inr [scheme @ ''://'' @ str_jv (jget doc ''host'') @ str_jv (jget_or doc ''basePath'' (JStr []))])
         else Inr []) (\<lambda>legacy.
       if legacy \<noteq> [] then Inr legacy else Inr [if base_url \<noteq> [] then base_url else ''http://localhost'']))"

definition openapi_version_tag :: "dict \<Rightarrow> string" where
  "openapi_version_tag doc = (case jget_or doc ''info'' (JDict []) of
     JDict info \<Rightarrow> if truthy (jget info ''version'') then str_jv (jget info ''version'') else []
   | _ \<Rightarrow> [])"

definition openapi_param :: "jv \<Rightarrow> dict list" where
  "openapi_param v = (case v of
     JDict p \<Rightarrow>
       let schema = (case jget p ''schema'' of JDict s \<Rightarrow> s | _ \<Rightarrow> []) in
       if truthy (jget_or p ''name'' (JStr []))
       then [[(''name'', jget_or p ''name'' (JStr [])), (''in'', jget_or p ''in'' (JStr ''query'')),
         (''type'', if truthy (jget schema ''type'') then jget schema ''type''
            else if truthy (jget p ''type'') then jget p ''type'' else JStr ''string''),
         (''required'', JBool (truthy (jget_or p ''required'' (JBool False))))]]
       else []
   | _ \<Rightarrow> [])"

definition collect_openapi_params :: "jv list \<Rightarrow> dict list" where
  "collect_openapi_params raw = concat (map openapi_param raw)"

definition openapi_request_body :: "dict \<Rightarrow> exn + dict" where
  "openapi_request_body op = (case jget op ''requestBody'' of
     JDict rb \<Rightarrow> sum_bind (obj ''items'' (jget_or rb ''content'' (JDict []))) (\<lambda>content.
       Inr (case List.find (\<lambda>(ct, media). case media of JDict m \<Rightarrow> dget m ''schema'' \<noteq> None | _ \<Rightarrow> False) content of
              Some (ct, JDict m) \<Rightarrow> [(''content_type'', JStr ct), (''schema'', jget m ''schema'')]
            | _ \<Rightarrow> []))
   | _ \<Rightarrow> Inr [])"

definition scope_names :: "jv \<Rightarrow> string list" where
  "scope_names sec = (case sec of
     JDict s \<Rightarrow> concat (map (\<lambda>(k, v). case v of JList xs \<Rightarrow> map str_jv xs | _ \<Rightarrow> []) s)
   | _ \<Rightarrow> [])"

definition openapi_scopes :: "dict \<Rightarrow> exn + string list" where
  "openapi_scopes op =
     sum_bind (items_or_none (jget_or op ''security'' (JList []))) (\<lambda>secs. Inr (sorted_set (concat (map scope_names secs))))"

definition openapi_endpoint ::
  "string \<Rightarrow> string \<Rightarrow> dict list \<Rightarrow> dict \<Rightarrow> bool \<Rightarrow> string list \<Rightarrow> string \<Rightarrow> string \<Rightarrow> exn + discovered_endpoint" where
  "openapi_endpoint raw_path method params body auth roles version server =
     sum_bind (urljoin (rstrip_char (CHR ''/'') server @ ''/'') (dropWhile ((=) (CHR ''/'')) raw_path)) (\<lambda>url.
     new_endpoint ((plain_endpoint method url OPENAPI params)
       \<lparr>de_request_body_schema := body, de_auth_required := auth, de_roles := roles, de_api_version := version\<rparr>))"

definition openapi_operation ::
  "dict \<Rightarrow> string list \<Rightarrow> string \<Rightarrow> string \<Rightarrow> jv list \<Rightarrow> string \<times> jv \<Rightarrow> exn + discovered_endpoint list" where
  "openapi_operation doc servers version raw_path shared item = (case item of
     (method, JDict op) \<Rightarrow>
       if str_lower method \<notin> set HTTP_METHODS then Inr []
       else
         sum_bind (case jget_or op ''parameters'' (JList []) of
             JList ps \<Rightarrow> Inr (collect_openapi_params (shared @ ps))
           | v \<Rightarrow> Inl (OtherError (''TypeError: can only concatenate list (not '' @ [chr 34] @ type_name v @ [chr 34] @ '') to list''))) (\<lambda>params.
         sum_bind (openapi_request_body op) (\<lambda>body.
         sum_bind (openapi_scopes op) (\<lambda>roles.
         mapM_sum (openapi_endpoint raw_path method params body (truthy (jget_or op ''security'' (jget doc ''security''))) roles version)
           servers)))
   | _ \<Rightarrow> Inr [])"

definition openapi_path :: "dict \<Rightarrow> string list \<Rightarrow> string \<Rightarrow> string \<times> jv \<Rightarrow> exn + parse_result" where
  "openapi_path doc servers version path = (case path of
     (raw_path, JDict item) \<Rightarrow>
       sum_bind (mapM_sum (openapi_operation doc servers version raw_path
           (case jget item ''parameters'' of JList ps \<Rightarrow> ps | _ \<Rightarrow> [])) item) (\<lambda>ess. Inr (concat ess, []))
   | (raw_path, _) \<Rightarrow> Inr ([], [''path '' @ py_repr raw_path @ '' is not an object; skipped'']))"

definition parse_openapi :: "(string \<Rightarrow> string + jv) \<Rightarrow> string \<Rightarrow> string \<Rightarrow> exn + parse_result" where
  "parse_openapi yaml content base_url = with_root yaml content ''OpenAPI root is not an object'' (\<lambda>doc.
     sum_bind (openapi_servers doc base_url) (\<lambda>servers.
     case jget doc ''paths'' of
       JDict paths \<Rightarrow> sum_bind (mapM_sum (openapi_path doc servers (openapi_version_tag doc)) paths) (\<lambda>rs.
         Inr (concat (map fst rs), concat (map snd rs)))
     | _ \<Rightarrow> Inr ([], [''no '' @ squoted ''paths'' @ '' object found''])))"

section \<open>HAR\<close>

definition named_param :: "string \<Rightarrow> string \<Rightarrow> string \<Rightarrow> jv \<Rightarrow> exn + dict list" where
  "named_param key place ty v = sum_bind (obj ''get'' v) (\<lambda>q.
     Inr (if truthy (jget q key) then [found_param (jget q key) place ty] else []))"

definition named_params :: "string \<Rightarrow> string \<Rightarrow> string \<Rightarrow> jv list \<Rightarrow> exn + dict list" where
  "named_params key place ty vs = sum_bind (mapM_sum (named_param key place ty) vs) (\<lambda>pss. Inr (concat pss))"

definition har_post :: "jv \<Rightarrow> exn + dict list \<times> dict" where
  "har_post v = (case v of
     JDict post \<Rightarrow>
       sum_bind (items_or_none (jget_or post ''params'' (JList []))) (\<lambda>ps.
       sum_bind (named_params ''name'' ''body'' ''string'' ps) (\<lambda>params.
       Inr (params, if truthy (jget post ''mimeType'') then [(''content_type'', jget post ''mimeType'')] else [])))
   | _ \<Rightarrow> Inr ([], []))"

definition names_header :: "string \<Rightarrow> string list \<Rightarrow> jv \<Rightarrow> exn + bool" where
  "names_header key headers h = sum_bind (obj ''get'' h) (\<lambda>d.
     sum_bind (text_of ''lower'' (jget_or d key (JStr []))) (\<lambda>n. Inr (str_lower n \<in> set headers)))"

definition har_entry :: "string list \<Rightarrow> jv \<Rightarrow> exn + discovered_endpoint list" where
  "har_entry in_scope_hosts entry =
     sum_bind (obj ''get'' entry) (\<lambda>en.
     sum_bind (obj ''get'' (jget_or en ''request'' (JDict []))) (\<lambda>req.
     let url = jget_or req ''url'' (JStr []) in
     if \<not> truthy url then Inr []
     else
       sum_bind (text_of ''decode'' url) (\<lambda>u.
       sum_bind (hostname_of u) (\<lambda>host.
       if in_scope_hosts \<noteq> [] \<and> str_lower host \<notin> set in_scope_hosts then Inr []
       else
         sum_bind (items_of (jget_or req ''queryString'' (JList []))) (\<lambda>qs.
         sum_bind (named_params ''name'' ''query'' ''string'' qs) (\<lambda>query.
         sum_bind (har_post (jget req ''postData'')) (\<lambda>(posted, body).
         sum_bind (items_of (jget_or req ''headers'' (JList []))) (\<lambda>hs.
         sum_bind (any_sum (names_header ''name'' [''authorization'', ''cookie'']) hs) (\<lambda>auth.
         sum_bind (checked_endpoint (jget_or req ''method'' (JStr ''GET'')) url HAR (query @ posted) body auth) (\<lambda>e.
         Inr [e]))))))))))"

text \<open>A malformed entry is skipped with a warning.\<close>

definition har_step :: "string list \<Rightarrow> jv \<Rightarrow> parse_result" where
  "har_step in_scope_hosts entry = (case har_entry in_scope_hosts entry of
     Inr es \<Rightarrow> (es, []) | Inl e \<Rightarrow> ([], [''skipped malformed HAR entry: '' @ exn_message e]))"

definition parse_har :: "(string \<Rightarrow> string + jv) \<Rightarrow> string \<Rightarrow> string list \<Rightarrow> exn + parse_result" where
  "parse_har yaml content in_scope_hosts = with_root yaml content ''HAR root is not an object'' (\<lambda>doc.
     case (case jget doc ''log'' of JDict l \<Rightarrow> jget l ''entries'' | _ \<Rightarrow> JNull) of
       JList entries \<Rightarrow>
         let rs = map (har_step in_scope_hosts) entries in Inr (concat (map fst rs), concat (map snd rs))
     | _ \<Rightarrow> Inr ([], [''HAR has no log.entries array'']))"

section \<open>Postman\<close>

type_synonym variables = "(jv \<times> jv) list"

definition add_variable :: "variables \<Rightarrow> jv \<Rightarrow> exn + variables" where
  "add_variable vars v = (case v of
     JDict d \<Rightarrow> sum_bind (hash_key (jget d ''key'')) (\<lambda>k. Inr (dset vars k (jget d ''value'')))
   | _ \<Rightarrow> Inr vars)"

definition resolve_text :: "variables \<Rightarrow> string \<Rightarrow> string" where
  "resolve_text vars s = foldl (\<lambda>s (k, v). if truthy k \<and> v \<noteq> JNull
     then str_replace (''{{'' @ str_jv k @ ''}}'') (str_jv v) s else s) s vars"

definition resolve_raw :: "variables \<Rightarrow> jv \<Rightarrow> jv" where
  "resolve_raw vars v = (case (if truthy v then v else JStr []) of JStr s \<Rightarrow> JStr (resolve_text vars s) | w \<Rightarrow> w)"

definition postman_query :: "jv \<Rightarrow> dict list" where
  "postman_query v = (case v of
     JDict q \<Rightarrow> if truthy (jget q ''key'') then [found_param (jget q ''key'') ''query'' ''string''] else []
   | _ \<Rightarrow> [])"

definition postman_auth :: "dict \<Rightarrow> exn + bool" where
  "postman_auth req =
     (if truthy (jget req ''auth'') then Inr True
      else sum_bind (items_of (jget_or req ''header'' (JList []))) (\<lambda>hs.
        any_sum (names_header ''key'' [''authorization'']) (filter (\<lambda>h. case h of JDict _ \<Rightarrow> True | _ \<Rightarrow> False) hs)))"

definition postman_request :: "variables \<Rightarrow> dict \<Rightarrow> exn + discovered_endpoint list" where
  "postman_request vars req =
     (let url = jget req ''url'';
          raw = resolve_raw vars (case url of JDict u \<Rightarrow> jget u ''raw'' | _ \<Rightarrow> url) in
      if \<not> truthy raw then Inr []
      else
        sum_bind (case url of JDict u \<Rightarrow> sum_bind (items_or_none (jget_or u ''query'' (JList []))) (\<lambda>qs. Inr (concat (map postman_query qs)))
                    | _ \<Rightarrow> Inr []) (\<lambda>params.
        sum_bind (postman_auth req) (\<lambda>auth.
        sum_bind (checked_endpoint (jget_or req ''method'' (JStr ''GET'')) raw POSTMAN params
          (case jget req ''body'' of JDict b \<Rightarrow> if truthy (jget b ''mode'') then [(''content_type'', jget b ''mode'')] else [] | _ \<Rightarrow> [])
          auth) (\<lambda>e. Inr [e]))))"

text \<open>The items of a folder; what iterating over an object or a text yields is no object and skipped.\<close>

definition folder_items :: "jv \<Rightarrow> exn + jv list" where
  "folder_items v = (if \<not> truthy v then Inr [] else case v of
     JList xs \<Rightarrow> Inr xs | JDict d \<Rightarrow> Inr [] | JStr s \<Rightarrow> Inr []
   | _ \<Rightarrow> Inl (OtherError (''TypeError: '' @ squoted (type_name v) @ '' object is not iterable'')))"

lemma item_size: "map_of d k = Some v \<Longrightarrow> size v < size (JDict d)"
  by (induction d) (auto split: if_splits)

lemma folder_size: "folder_items v = Inr xs \<Longrightarrow> size_list size xs \<le> size v"
  by (auto simp: folder_items_def split: if_splits jv.splits)

function walk_items :: "variables \<Rightarrow> jv list \<Rightarrow> exn + discovered_endpoint list" where
  "walk_items vars [] = Inr []"
| "walk_items vars (it # its) =
     sum_bind (case it of
         JDict d \<Rightarrow>
           (case dget d ''item'' of
              Some v \<Rightarrow> (case folder_items v of Inl e \<Rightarrow> Inl e | Inr sub \<Rightarrow> walk_items vars sub)
            | None \<Rightarrow> (case jget d ''request'' of JDict req \<Rightarrow> postman_request vars req | _ \<Rightarrow> Inr []))
       | _ \<Rightarrow> Inr []) (\<lambda>es.
     sum_bind (walk_items vars its) (\<lambda>more. Inr (es @ more)))"
  by pat_completeness auto
termination
proof (relation "measure (\<lambda>(vars, its). size_list size its)", goal_cases)
  case (2 vars it its d v sub)
  then have "size v < size it" "size_list size sub \<le> size v"
    using item_size [of d "''item''" v] folder_size [of v sub] by (auto simp: dget_def)
  then show ?case by simp
qed auto

declare walk_items.simps [simp del]

definition parse_postman :: "(string \<Rightarrow> string + jv) \<Rightarrow> string \<Rightarrow> exn + parse_result" where
  "parse_postman yaml content = with_root yaml content ''Postman root is not an object'' (\<lambda>doc.
     sum_bind (items_of (jget_or doc ''variable'' (JList []))) (\<lambda>vs.
     sum_bind (foldM_sum add_variable [] vs) (\<lambda>vars.
     sum_bind (folder_items (jget_or doc ''item'' (JList []))) (\<lambda>its.
     sum_bind (walk_items vars its) (\<lambda>es.
     Inr (es, if es = [] then [''no requests found in Postman collection''] else []))))))"

section \<open>GraphQL introspection\<close>

definition add_type :: "(jv \<times> dict) list \<Rightarrow> jv \<Rightarrow> exn + (jv \<times> dict) list" where
  "add_type types t = (case t of
     JDict d \<Rightarrow> sum_bind (hash_key (jget d ''name'')) (\<lambda>k. Inr (dset types k d))
   | _ \<Rightarrow> Inr types)"

definition graphql_field :: "string \<Rightarrow> string \<Rightarrow> jv \<Rightarrow> exn + discovered_endpoint list" where
  "graphql_field endpoint_url root_key v =
     sum_bind (obj ''get'' v) (\<lambda>fld.
     let name = jget fld ''name'' in
     if \<not> truthy name then Inr []
     else
       sum_bind (items_of (jget_or fld ''args'' (JList []))) (\<lambda>args.
       sum_bind (named_params ''name'' ''body'' ''graphql'' args) (\<lambda>params.
       sum_bind (new_endpoint ((plain_endpoint ''POST'' endpoint_url GRAPHQL params)
         \<lparr>de_path_template := ''/graphql#'' @ root_key @ ''.'' @ str_jv name,
          de_request_body_schema := [(''operation'', JStr root_key), (''field'', name)], de_auth_required := True\<rparr>)) (\<lambda>e.
       Inr [e]))))"

definition graphql_root :: "string \<Rightarrow> dict \<Rightarrow> (jv \<times> dict) list \<Rightarrow> string \<Rightarrow> exn + discovered_endpoint list" where
  "graphql_root endpoint_url schema types root_key = (case jget schema root_key of
     JDict r \<Rightarrow>
       sum_bind (hash_key (jget r ''name'')) (\<lambda>k.
       case dget types k of
         Some (t # ts) \<Rightarrow>
           sum_bind (items_or_none (jget_or (t # ts) ''fields'' (JList []))) (\<lambda>flds.
           sum_bind (mapM_sum (graphql_field endpoint_url root_key) flds) (\<lambda>ess. Inr (concat ess)))
       | _ \<Rightarrow> Inr [])
   | _ \<Rightarrow> Inr [])"

definition parse_graphql_introspection :: "(string \<Rightarrow> string + jv) \<Rightarrow> string \<Rightarrow> string \<Rightarrow> exn + parse_result" where
  "parse_graphql_introspection yaml content endpoint_url =
     with_root yaml content ''GraphQL introspection root is not an object'' (\<lambda>doc.
       sum_bind (case dget doc ''data'' of
           Some v \<Rightarrow> sum_bind (obj ''get'' v) (\<lambda>d. Inr (jget d ''__schema''))
         | None \<Rightarrow> Inr (jget doc ''__schema'')) (\<lambda>s. case s of
         JDict schema \<Rightarrow>
           sum_bind (items_of (jget_or schema ''types'' (JList []))) (\<lambda>ts.
           sum_bind (foldM_sum add_type [] ts) (\<lambda>types.
           sum_bind (mapM_sum (graphql_root endpoint_url schema types) [''queryType'', ''mutationType'']) (\<lambda>ess.
           Inr (concat ess, []))))
       | _ \<Rightarrow> Inr ([], [''no __schema in introspection result''])))"

definition parse_artifact ::
  "(string \<Rightarrow> string + jv) \<Rightarrow> string \<Rightarrow> string \<Rightarrow> string \<Rightarrow> string list \<Rightarrow> string \<Rightarrow> exn + parse_result" where
  "parse_artifact yaml kind content base_url in_scope_hosts endpoint_url =
     (let k = str_lower kind in
      if k \<in> {''openapi'', ''swagger''} then parse_openapi yaml content base_url
      else if k = ''har'' then parse_har yaml content in_scope_hosts
      else if k = ''postman'' then parse_postman yaml content
      else if k = ''graphql'' then parse_graphql_introspection yaml content endpoint_url
      else Inr ([], [''unknown artifact kind '' @ py_repr k]))"

section \<open>What the parsers produce\<close>

definition endpoint_ok :: "discovered_endpoint \<Rightarrow> bool" where
  "endpoint_ok e \<longleftrightarrow> de_method e \<noteq> [] \<and> str_upper (de_method e) = de_method e \<and> de_path_template e \<noteq> [] \<and>
     de_confidence e = PROVENANCE_CONFIDENCE (de_provenance e) \<and> list_all (\<lambda>p. truthy (jget p ''name'')) (de_parameters e)"

definition sound :: "(discovered_endpoint \<Rightarrow> bool) \<Rightarrow> exn + discovered_endpoint list \<Rightarrow> bool" where
  "sound P r \<longleftrightarrow> (\<forall>es. r = Inr es \<longrightarrow> (\<forall>e \<in> set es. P e))"

lemma soundD: "sound P r \<Longrightarrow> r = Inr es \<Longrightarrow> e \<in> set es \<Longrightarrow> P e"
  by (auto simp: sound_def)

lemma sound_intros:
  "sound P (Inl x)" "sound P (Inr [])"
  "(\<And>v. m = Inr v \<Longrightarrow> sound P (f v)) \<Longrightarrow> sound P (sum_bind m f)"
  "(b \<Longrightarrow> sound P r) \<Longrightarrow> (\<not> b \<Longrightarrow> sound P q) \<Longrightarrow> sound P (if b then r else q)"
  by (cases m; auto simp: sound_def)+

lemma sound_concat:
  assumes "\<And>x. x \<in> set xs \<Longrightarrow> sound P (f x)"
  shows "sound P (sum_bind (mapM_sum f xs) (\<lambda>ess. Inr (concat ess)))"
  using assms by (induction xs) (auto simp: sound_def sum_bind_def split: sum.splits, fastforce)

lemma sound_mapM: "(\<And>x e. f x = Inr e \<Longrightarrow> P e) \<Longrightarrow> sound P (mapM_sum f xs)"
  by (induction xs) (auto simp: sound_def split: sum.splits)

lemma mapM_sum_mem: "mapM_sum f xs = Inr ys \<Longrightarrow> y \<in> set ys \<Longrightarrow> \<exists>x \<in> set xs. f x = Inr y"
  by (induction xs arbitrary: ys) (auto split: sum.splits)

lemma sound_append: "sound P m \<Longrightarrow> sound P n \<Longrightarrow> sound P (sum_bind m (\<lambda>es. sum_bind n (\<lambda>more. Inr (es @ more))))"
  by (auto simp: sound_def sum_bind_Inr)

lemma templatize_nonempty: "templatize_path p \<noteq> []"
  by (simp add: templatize_path_def Let_def)

lemma known_confidence: "PROVENANCE_CONFIDENCE p \<noteq> 1 / 2"
  by (cases p) simp_all

lemma new_endpoint_ok:
  assumes "new_endpoint e = Inr e'" "de_confidence e = 1 / 2" "list_all (\<lambda>p. truthy (jget p ''name'')) (de_parameters e)"
  shows "endpoint_ok e' \<and> de_provenance e' = de_provenance e \<and> de_url e' = de_url e"
proof -
  let ?m = "str_upper (if de_method e = [] then ''GET'' else de_method e)"
  let ?e1 = "e\<lparr>de_method := ?m\<rparr>"
  define same where "same x \<longleftrightarrow> de_method x = ?m \<and> de_provenance x = de_provenance e \<and> de_url x = de_url e \<and>
    de_parameters x = de_parameters e \<and> de_path_template x \<noteq> [] \<and> de_confidence x = 1 / 2" for x :: discovered_endpoint
  obtain e2 e3 where
    e2: "(if de_path_template ?e1 \<noteq> [] then Inr ?e1
       else sum_bind (urlsplit (de_url ?e1)) (\<lambda>u. Inr (?e1\<lparr>de_path_template := templatize_path (or_slash (u_path u))\<rparr>))) = Inr e2" and
    e3: "(if de_api_version e2 \<noteq> [] then Inr e2
       else sum_bind (urlsplit (de_url e2)) (\<lambda>u. Inr (e2\<lparr>de_api_version := infer_version (u_path u)\<rparr>))) = Inr e3" and
    e': "e' = (if de_confidence e3 = 1 / 2 then e3\<lparr>de_confidence := PROVENANCE_CONFIDENCE (de_provenance e3)\<rparr> else e3)"
    using assms(1) unfolding new_endpoint_def Let_def sum_bind_Inr by auto
  have "same e2"
  proof (cases "de_path_template e = []")
    case True
    with e2 obtain u where "urlsplit (de_url e) = Inr u" "e2 = ?e1\<lparr>de_path_template := templatize_path (or_slash (u_path u))\<rparr>"
      by (auto simp: sum_bind_Inr)
    with assms(2) templatize_nonempty show ?thesis by (simp add: same_def)
  next
    case False
    with e2 have "e2 = ?e1" by simp
    with assms(2) False show ?thesis by (simp add: same_def)
  qed
  then have "same e3"
    using e3 by (cases "de_api_version e2 = []") (auto simp: sum_bind_Inr same_def)
  moreover have "?m \<noteq> []" by (simp add: str_upper_def)
  ultimately show ?thesis using assms(3) by (simp add: e' same_def endpoint_ok_def str_upper_idem)
qed

text \<open>What each parser's endpoints satisfy: their shape, their provenance and, for HAR, their host.\<close>

definition from_artifact :: "provenance \<Rightarrow> discovered_endpoint \<Rightarrow> bool" where
  "from_artifact prov e \<longleftrightarrow> endpoint_ok e \<and> de_provenance e = prov"

definition from_har :: "string list \<Rightarrow> discovered_endpoint \<Rightarrow> bool" where
  "from_har hosts e \<longleftrightarrow> from_artifact HAR e \<and>
     (hosts = [] \<or> (\<exists>h. hostname_of (de_url e) = Inr h \<and> str_lower h \<in> set hosts))"

definition named :: "dict list \<Rightarrow> bool" where
  "named ps \<longleftrightarrow> list_all (\<lambda>p. truthy (jget p ''name'')) ps"

lemma named_intros [intro]: "named []" "named ps \<Longrightarrow> named qs \<Longrightarrow> named (ps @ qs)" "(\<And>x. named (f x)) \<Longrightarrow> named (concat (map f xs))"
  by (auto simp: named_def list_all_iff)

lemma found_param_named: "truthy v \<Longrightarrow> named [found_param v place ty]"
  by (simp add: named_def found_param_def jget_def dget_def)

lemma named_params_named: "named_params key place ty vs = Inr ps \<Longrightarrow> named ps"
proof (induction vs arbitrary: ps)
  case (Cons v vs)
  then show ?case
    by (auto simp: named_params_def named_param_def sum_bind_Inr found_param_named split: sum.splits if_splits
        intro!: named_intros)
qed (auto simp: named_params_def)

lemma openapi_params_named: "named (collect_openapi_params raw)"
  unfolding collect_openapi_params_def
  by (rule named_intros) (auto simp: openapi_param_def named_def Let_def jget_def dget_def split: jv.splits)

lemma postman_query_named: "named (postman_query v)"
  by (auto simp: postman_query_def found_param_named split: jv.splits)

lemma built_ok:
  assumes "new_endpoint ((plain_endpoint m u prov ps)\<lparr>de_path_template := t, de_request_body_schema := body,
      de_auth_required := auth, de_roles := roles, de_api_version := v\<rparr>) = Inr e" "named ps"
  shows "from_artifact prov e \<and> de_url e = u"
  using new_endpoint_ok [OF assms(1)] assms(2) by (simp add: plain_endpoint_def from_artifact_def named_def)

lemma checked_ok:
  assumes "checked_endpoint method url prov ps body auth = Inr e" "named ps"
  shows "from_artifact prov e \<and> url = JStr (de_url e)"
proof -
  from assms(1) obtain m u where u: "text_of ''decode'' url = Inr u" and
    e: "new_endpoint ((plain_endpoint m u prov ps)\<lparr>de_request_body_schema := body, de_auth_required := auth\<rparr>) = Inr e"
    by (auto simp: checked_endpoint_def sum_bind_Inr)
  have "(plain_endpoint m u prov ps)\<lparr>de_request_body_schema := body, de_auth_required := auth\<rparr> =
    (plain_endpoint m u prov ps)\<lparr>de_path_template := [], de_request_body_schema := body,
      de_auth_required := auth, de_roles := [], de_api_version := []\<rparr>" by (simp add: plain_endpoint_def)
  with e have "from_artifact prov e \<and> de_url e = u" using built_ok assms(2) by metis
  with u show ?thesis by (auto simp: text_of_def split: jv.splits)
qed

lemma openapi_endpoint_ok: "named ps \<Longrightarrow> openapi_endpoint path m ps body auth roles v srv = Inr e \<Longrightarrow> from_artifact OPENAPI e"
  using built_ok [where t = "[]"] by (auto simp: openapi_endpoint_def sum_bind_Inr plain_endpoint_def)

lemma openapi_operation_sound: "sound (from_artifact OPENAPI) (openapi_operation doc servers v path shared item)"
proof (cases item)
  case (Pair m w)
  have ok: "sound (from_artifact OPENAPI) (mapM_sum (openapi_endpoint path m ps body auth roles v) servers)"
    if "named ps" for ps body auth roles
    by (rule sound_mapM) (rule openapi_endpoint_ok [OF that])
  show ?thesis
    by (cases w) (auto simp: Pair openapi_operation_def openapi_params_named split: jv.splits
        intro!: sound_intros ok)
qed

lemma openapi_path_sound:
  "sound (from_artifact OPENAPI) (sum_bind (openapi_path doc servers v path) (\<lambda>r. Inr (fst r)))"
proof (cases path)
  case (Pair p item)
  have ops: "sound (from_artifact OPENAPI) (sum_bind (mapM_sum (openapi_operation doc servers v p shared) ops)
      (\<lambda>ess. Inr (concat ess)))" for shared ops
    by (rule sound_concat) (rule openapi_operation_sound)
  show ?thesis
    using ops by (cases item) (auto simp: Pair openapi_path_def sound_def sum_bind_Inr)
qed

lemma openapi_paths_sound:
  assumes "mapM_sum (openapi_path doc servers v) paths = Inr rs" "e \<in> set (concat (map fst rs))"
  shows "from_artifact OPENAPI e"
proof -
  from assms(2) obtain r where r: "r \<in> set rs" "e \<in> set (fst r)" by auto
  from mapM_sum_mem [OF assms(1) r(1)] obtain q where "openapi_path doc servers v q = Inr r" by blast
  with openapi_path_sound [of doc servers v q] r(2) show ?thesis by (auto simp: sound_def)
qed

lemma har_post_named: "har_post v = Inr (ps, body) \<Longrightarrow> named ps"
  by (cases v) (auto simp: har_post_def sum_bind_Inr dest: named_params_named intro: named_intros)

lemma har_entry_sound: "sound (from_har hosts) (har_entry hosts entry)"
  unfolding sound_def
proof (intro allI impI ballI)
  fix es e assume "har_entry hosts entry = Inr es" "e \<in> set es"
  then obtain url u host qs query post posted body auth mth where
    u: "text_of ''decode'' url = Inr u" "hostname_of u = Inr host" "hosts = [] \<or> str_lower host \<in> set hosts" and
    query: "named_params ''name'' ''query'' ''string'' qs = Inr query" and posted: "har_post post = Inr (posted, body)" and
    e: "checked_endpoint mth url HAR (query @ posted) body auth = Inr e"
    by (auto simp: har_entry_def Let_def sum_bind_Inr split: if_splits)
  have "named (query @ posted)"
    using named_params_named [OF query] har_post_named [OF posted] by blast
  from checked_ok [OF e this] u show "from_har hosts e" by (auto simp: from_har_def text_of_def)
qed

lemma postman_request_sound: "sound (from_artifact POSTMAN) (postman_request vars req)"
  unfolding sound_def
proof (intro allI impI ballI)
  fix es e assume "postman_request vars req = Inr es" "e \<in> set es"
  then obtain mth raw_url params body auth where
    params: "(case jget req ''url'' of
        JDict u \<Rightarrow> sum_bind (items_or_none (jget_or u ''query'' (JList []))) (\<lambda>qs. Inr (concat (map postman_query qs)))
      | _ \<Rightarrow> Inr []) = Inr params" and
    e: "checked_endpoint mth raw_url POSTMAN params body auth = Inr e"
    by (auto simp: postman_request_def Let_def sum_bind_Inr split: if_splits)
  from params have ps: "named params"
    by (auto simp: sum_bind_Inr split: jv.splits intro!: named_intros postman_query_named)
  from checked_ok [OF e ps] show "from_artifact POSTMAN e" by simp
qed

lemma walk_sound: "sound (from_artifact POSTMAN) (walk_items vars its)"
proof (induction vars its rule: walk_items.induct)
  case (2 vars it its)
  show ?case
    unfolding walk_items.simps(2)
    by (rule sound_append, use 2 in \<open>auto split: jv.splits option.splits sum.splits intro: sound_intros(1,2) postman_request_sound\<close>)
qed (simp add: walk_items.simps sound_def)

lemma graphql_field_sound: "sound (from_artifact GRAPHQL) (graphql_field url key v)"
  unfolding sound_def
proof (intro allI impI ballI)
  fix es e assume "graphql_field url key v = Inr es" "e \<in> set es"
  then obtain ps t body where "named ps"
    "new_endpoint ((plain_endpoint ''POST'' url GRAPHQL ps)\<lparr>de_path_template := t, de_request_body_schema := body,
       de_auth_required := True\<rparr>) = Inr e"
    by (auto simp: graphql_field_def Let_def sum_bind_Inr dest: named_params_named split: if_splits)
  then show "from_artifact GRAPHQL e"
    using built_ok [where roles = "[]" and v = "[]" and auth = True] by (simp add: plain_endpoint_def)
qed

lemma graphql_root_sound: "sound (from_artifact GRAPHQL) (graphql_root url schema types key)"
  unfolding graphql_root_def
  by (auto split: jv.splits option.splits list.splits intro!: sound_intros sound_concat graphql_field_sound)

text \<open>The same for whole results.\<close>

definition yields :: "(discovered_endpoint \<Rightarrow> bool) \<Rightarrow> exn + parse_result \<Rightarrow> bool" where
  "yields P r \<longleftrightarrow> (\<forall>es ws. r = Inr (es, ws) \<longrightarrow> (\<forall>e \<in> set es. P e))"

lemma yieldsD: "yields P r \<Longrightarrow> r = Inr (es, ws) \<Longrightarrow> e \<in> set es \<Longrightarrow> P e"
  by (auto simp: yields_def)

lemma yields_intros:
  "yields P (Inl x)" "(\<And>e. e \<in> set es \<Longrightarrow> P e) \<Longrightarrow> yields P (Inr (es, ws))"
  "(\<And>v. m = Inr v \<Longrightarrow> yields P (f v)) \<Longrightarrow> yields P (sum_bind m f)"
  by (cases m; auto simp: yields_def)+

lemma yields_root: "(\<And>doc. yields P (f doc)) \<Longrightarrow> yields P (with_root yaml content missing f)"
  by (auto simp: with_root_def yields_def split: sum.splits jv.splits)

lemma yields_object:
  "(\<And>d. yields P (f d)) \<Longrightarrow> yields P (case v of JDict d \<Rightarrow> f d | _ \<Rightarrow> Inr ([], ws))"
  by (cases v) (auto simp: yields_def)

lemma graphql_yields: "yields (from_artifact GRAPHQL) (parse_graphql_introspection yaml content url)"
  unfolding parse_graphql_introspection_def
proof (intro yields_root yields_intros yields_object)
  fix schema types ess e
  assume "mapM_sum (graphql_root url schema types) [''queryType'', ''mutationType''] = Inr ess" "e \<in> set (concat ess)"
  moreover have "sound (from_artifact GRAPHQL) (sum_bind (mapM_sum (graphql_root url schema types)
      [''queryType'', ''mutationType'']) (\<lambda>ess. Inr (concat ess)))"
    by (rule sound_concat) (rule graphql_root_sound)
  ultimately show "from_artifact GRAPHQL e" by (simp only: sound_def sum_bind_simps)
qed

lemma openapi_yields: "yields (from_artifact OPENAPI) (parse_openapi yaml content base)"
  unfolding parse_openapi_def
  by (intro yields_root yields_intros yields_object) (rule openapi_paths_sound)

lemma postman_yields: "yields (from_artifact POSTMAN) (parse_postman yaml content)"
  unfolding parse_postman_def
  by (intro yields_root yields_intros) (rule soundD [OF walk_sound])

lemma har_total: "\<exists>r. parse_har yaml content hosts = Inr r"
  by (auto simp: parse_har_def with_root_def Let_def split: sum.splits jv.splits)

lemma har_step_sound: "e \<in> set (fst (har_step hosts entry)) \<Longrightarrow> from_har hosts e"
  using soundD [OF har_entry_sound] by (auto simp: har_step_def split: sum.splits)

lemma har_yields: "yields (from_har hosts) (parse_har yaml content hosts)"
  unfolding parse_har_def Let_def
proof (rule yields_root)
  fix doc
  show "yields (from_har hosts) (case (case jget doc ''log'' of JDict l \<Rightarrow> jget l ''entries'' | _ \<Rightarrow> JNull) of
      JList entries \<Rightarrow> Inr (concat (map fst (map (har_step hosts) entries)), concat (map snd (map (har_step hosts) entries)))
    | _ \<Rightarrow> Inr ([], [''HAR has no log.entries array'']))"
    by (cases "case jget doc ''log'' of JDict l \<Rightarrow> jget l ''entries'' | _ \<Rightarrow> JNull")
      (auto intro!: yields_intros dest: har_step_sound)
qed

definition ARTIFACT_PROVENANCE :: "(string \<times> provenance) list" where
  "ARTIFACT_PROVENANCE = [(''openapi'', OPENAPI), (''swagger'', OPENAPI), (''har'', HAR), (''postman'', POSTMAN), (''graphql'', GRAPHQL)]"

section \<open>Theorems\<close>

text \<open>
  C33: what a parser returns is a well-formed inventory, whatever the artifact says. Every endpoint has a
  non-empty upper-case method, a path template, the provenance of its artifact's kind with that provenance's
  confidence, and only parameters that have a name; an endpoint from a HAR is on one of the given hosts, if any are given.
\<close>

theorem parsed_endpoints_wellformed:
  assumes "parse_artifact yaml kind content base_url hosts endpoint_url = Inr (es, warnings)" "e \<in> set es"
  shows "de_method e \<noteq> [] \<and> str_upper (de_method e) = de_method e \<and> de_path_template e \<noteq> [] \<and>
    dget ARTIFACT_PROVENANCE (str_lower kind) = Some (de_provenance e) \<and>
    de_confidence e = PROVENANCE_CONFIDENCE (de_provenance e) \<and>
    list_all (\<lambda>p. truthy (jget p ''name'')) (de_parameters e) \<and>
    (str_lower kind \<noteq> ''har'' \<or> hosts = [] \<or> (\<exists>h. hostname_of (de_url e) = Inr h \<and> str_lower h \<in> set hosts))"
proof -
  let ?k = "str_lower kind"
  consider "?k = ''openapi'' \<or> ?k = ''swagger''" "parse_openapi yaml content base_url = Inr (es, warnings)"
    | "?k = ''har''" "parse_har yaml content hosts = Inr (es, warnings)"
    | "?k = ''postman''" "parse_postman yaml content = Inr (es, warnings)"
    | "?k = ''graphql''" "parse_graphql_introspection yaml content endpoint_url = Inr (es, warnings)"
    using assms by (auto simp: parse_artifact_def Let_def split: if_splits)
  then show ?thesis
  proof cases
    case 1
    with yieldsD [OF openapi_yields _ assms(2)] show ?thesis
      by (auto simp: from_artifact_def endpoint_ok_def ARTIFACT_PROVENANCE_def dget_def)
  next
    case 2
    with yieldsD [OF har_yields _ assms(2)] show ?thesis
      by (fastforce simp: from_har_def from_artifact_def endpoint_ok_def ARTIFACT_PROVENANCE_def dget_def)
  next
    case 3
    with yieldsD [OF postman_yields _ assms(2)] show ?thesis
      by (auto simp: from_artifact_def endpoint_ok_def ARTIFACT_PROVENANCE_def dget_def)
  next
    case 4
    with yieldsD [OF graphql_yields _ assms(2)] show ?thesis
      by (auto simp: from_artifact_def endpoint_ok_def ARTIFACT_PROVENANCE_def dget_def)
  qed
qed

definition demo_har :: string where
  "demo_har = json_dumps (JDict [(''log'', JDict [(''entries'', JList
     [JDict [(''request'', JDict [(''method'', JStr ''post''), (''url'', JStr ''http://app.test/users/42''),
        (''queryString'', JList [JDict [(''name'', JStr ''q'')], JDict []])])],
      JDict [(''request'', JDict [(''url'', JStr ''http://evil.test/'')])], JNull])])])"

definition no_yaml :: "string \<Rightarrow> string + jv" where
  "no_yaml text = Inl ''no YAML''"

theorem parsed_endpoints_wellformed_witness:
  "\<exists>e w. parse_artifact no_yaml ''HAR'' demo_har [] [''app.test''] [] = Inr ([e], [w]) \<and>
     de_method e = ''POST'' \<and> de_path_template e = ''/users/{id}'' \<and> str_upper (de_method e) = de_method e \<and>
     dget ARTIFACT_PROVENANCE ''har'' = Some (de_provenance e)"
proof -
  let ?r = "parse_artifact no_yaml ''HAR'' demo_har [] [''app.test''] []"
  have shape: "case ?r of Inr (es, ws) \<Rightarrow> length es = 1 \<and> length ws = 1 \<and> de_method (hd es) = ''POST'' \<and>
      de_path_template (hd es) = ''/users/{id}'' | _ \<Rightarrow> False"
    by code_simp
  then obtain e w where r: "?r = Inr ([e], [w])" "de_method e = ''POST''" "de_path_template e = ''/users/{id}''"
    by (auto split: sum.splits simp: length_Suc_conv)
  have "str_lower ''HAR'' = ''har''" by code_simp
  with parsed_endpoints_wellformed [OF r(1)] r show ?thesis by auto
qed

definition no_data :: string where
  "no_data = json_dumps (JDict [(''data'', JNull)])"

definition null_parameters :: string where
  "null_parameters = json_dumps (JDict [(''paths'', JDict [(''/x'', JDict [(''get'', JDict [(''parameters'', JNull)])])])])"

text \<open>
  Of the parsers only the HAR parser keeps its word never to raise. It returns for every text; a GraphQL
  answer whose data is null and an OpenAPI operation whose parameters are null make their parsers raise.
\<close>

theorem only_har_never_raises:
  "(\<exists>es ws. parse_artifact yaml ''har'' content base_url hosts endpoint_url = Inr (es, ws)) \<and>
   parse_artifact yaml ''graphql'' no_data base_url hosts endpoint_url = Inl (attribute_error JNull ''get'') \<and>
   (\<exists>e. parse_artifact yaml ''openapi'' null_parameters base_url hosts endpoint_url = Inl e)"
proof (intro conjI)
  have low: "str_lower ''har'' = ''har''" "str_lower ''graphql'' = ''graphql''" "str_lower ''openapi'' = ''openapi''" by code_simp+
  have strip: "str_strip no_data = no_data" "str_strip null_parameters = null_parameters" "no_data \<noteq> []" "null_parameters \<noteq> []"
    by code_simp+
  have json: "json_loads no_data = Some (JDict [(''data'', JNull)])"
    "json_loads null_parameters = Some (JDict [(''paths'', JDict [(''/x'', JDict [(''get'', JDict [(''parameters'', JNull)])])])])"
    by code_simp+
  show "\<exists>es ws. parse_artifact yaml ''har'' content base_url hosts endpoint_url = Inr (es, ws)"
    using har_total [of yaml content hosts] by (auto simp: parse_artifact_def low)
  have doc: "load_doc yaml no_data = Inr (JDict [(''data'', JNull)])"
    "load_doc yaml null_parameters = Inr (JDict [(''paths'', JDict [(''/x'', JDict [(''get'', JDict [(''parameters'', JNull)])])])])"
    by (simp_all add: load_doc_def strip json)
  show "parse_artifact yaml ''graphql'' no_data base_url hosts endpoint_url = Inl (attribute_error JNull ''get'')"
    by (simp add: parse_artifact_def low parse_graphql_introspection_def with_root_def doc dget_def obj_def)
  have get: "str_lower ''get'' \<in> set HTTP_METHODS" by code_simp
  show "\<exists>e. parse_artifact yaml ''openapi'' null_parameters base_url hosts endpoint_url = Inl e"
    by (cases "openapi_servers [(''paths'', JDict [(''/x'', JDict [(''get'', JDict [(''parameters'', JNull)])])])] base_url")
      (use get in \<open>simp_all add: parse_artifact_def low parse_openapi_def with_root_def doc jget_def jget_or_def dget_def
        openapi_path_def openapi_operation_def\<close>)
qed

end
