(* ===== verification/Sessions.thy ===== *)
theory Sessions
  imports Parsers Store
begin

text \<open>
  \<open>app/services/sessions.py\<close>: from a test account to a session. The decryption of the stored secret, base64
  and the login client (\<open>httpx\<close>, which follows redirects on its own) are parameters, and so is the moment at
  which a session is established, in microseconds; the clock does not move meanwhile. A template's fields are
  bare names; keys of configured payloads are strings.
\<close>

record session_state =
  ss_account_id :: string
  ss_role_name :: string
  ss_label :: string
  ss_status :: string
  ss_headers :: dict
  ss_cookies :: dict
  ss_owns_object_ids :: "jv list"
  ss_mfa_token :: jv
  ss_mfa_url :: jv
  ss_expires_at :: "int option"
  ss_detail :: string

record login_reply =
  lr_status :: int
  lr_json :: "jv option"
  lr_text :: string
  lr_cookies :: "(string \<times> string) list"

record login_world =
  lw_now :: int
  lw_decrypt :: "string \<Rightarrow> exn + string"
  lw_base64 :: "string \<Rightarrow> string"
  lw_post :: "jv \<Rightarrow> dict \<Rightarrow> bool \<Rightarrow> exn + login_reply"

definition is_expired :: "int \<Rightarrow> session_state \<Rightarrow> bool" where
  "is_expired now s \<longleftrightarrow> (case ss_expires_at s of None \<Rightarrow> False | Some t \<Rightarrow> now \<ge> t)"

definition to_auth_session :: "int \<Rightarrow> session_state \<Rightarrow> auth_session" where
  "to_auth_session now s =
     \<lparr>au_role_name = ss_role_name s, au_label = ss_label s, au_headers = ss_headers s, au_cookies = ss_cookies s,
      au_owns_object_ids = ss_owns_object_ids s, au_expired = (ss_status s \<noteq> ''active'' \<or> is_expired now s)\<rparr>"

fun follow_path :: "jv \<Rightarrow> string list \<Rightarrow> jv" where
  "follow_path cur [] = cur"
| "follow_path cur (part # parts) = (case cur of
     JDict d \<Rightarrow> (case dget d part of Some v \<Rightarrow> follow_path v parts | None \<Rightarrow> JNull)
   | _ \<Rightarrow> JNull)"

definition json_path :: "dict \<Rightarrow> jv \<Rightarrow> exn + jv" where
  "json_path data path = sum_bind (text_of ''split'' path) (\<lambda>p. Inr (follow_path (JDict data) (split_char (CHR ''.'') p)))"

definition day_us :: int where
  "day_us = 24 * 60 * 60 * 1000000"

definition secret_is_stale :: "int \<Rightarrow> test_account \<Rightarrow> bool" where
  "secret_is_stale now acc =
     (if ta_secret_ttl_days acc \<le> 0 then False
      else case ta_secret_rotated_at acc of None \<Rightarrow> True | Some r \<Rightarrow> now > dt_us r + ta_secret_ttl_days acc * day_us)"

text \<open>\<open>template.format(name=value)\<close>.\<close>

function format_field :: "string \<Rightarrow> string \<Rightarrow> string \<Rightarrow> exn + string" where
  "format_field name value [] = Inr []"
| "format_field name value (c # s) =
     (if c = CHR ''{'' then
        (if starts_with s ''{'' then sum_bind (format_field name value (tl s)) (\<lambda>r. Inr (c # r))
         else if CHR ''}'' \<notin> set s then Inl (ValueError ''expected } before end of string'')
         else if takeWhile (\<lambda>x. x \<noteq> CHR ''}'') s = name
         then sum_bind (format_field name value (tl (dropWhile (\<lambda>x. x \<noteq> CHR ''}'') s))) (\<lambda>r. Inr (value @ r))
         else Inl (OtherError (''KeyError: '' @ squoted (takeWhile (\<lambda>x. x \<noteq> CHR ''}'') s))))
      else if c = CHR ''}'' then
        (if starts_with s ''}'' then sum_bind (format_field name value (tl s)) (\<lambda>r. Inr (c # r))
         else Inl (ValueError ''Single brace encountered in format string''))
      else sum_bind (format_field name value s) (\<lambda>r. Inr (c # r)))"
  by pat_completeness auto
termination
  by (relation "measure (\<lambda>(n, v, s). length s)") (auto simp: less_Suc_eq_le le_diff_conv intro: le_SucI length_dropWhile_le)

text \<open>\<open>int(v)\<close>.\<close>

definition int_of :: "jv \<Rightarrow> exn + int" where
  "int_of v = (case v of
     JInt i \<Rightarrow> Inr i | JBool b \<Rightarrow> Inr (if b then 1 else 0)
   | JNum r \<Rightarrow> Inr (if r < 0 then - \<lfloor>- r\<rfloor> else \<lfloor>r\<rfloor>)
   | JStr s \<Rightarrow> (let t = str_strip s; (neg, ds) = (if starts_with t ''-'' then (True, tl t) else (False, t)) in
       if ds \<noteq> [] \<and> list_all is_digit ds then Inr (if neg then - digits_val ds else digits_val ds)
       else Inl (ValueError (''invalid literal for int() with base 10: '' @ py_repr s)))
   | _ \<Rightarrow> Inl (OtherError ''TypeError: int() argument must be a string or a real number''))"

definition safe_json :: "login_reply \<Rightarrow> jv" where
  "safe_json r = (case lr_json r of Some v \<Rightarrow> v | None \<Rightarrow> JDict [(''_raw'', JStr (take 2000 (lr_text r)))])"

section \<open>Establishing a session\<close>

definition owned_ids :: "dict \<Rightarrow> jv \<Rightarrow> exn + jv list option" where
  "owned_ids cfg body =
     (if truthy (jget cfg ''owns_object_json_path'') then
        (case body of JDict b \<Rightarrow> sum_bind (json_path b (jget cfg ''owns_object_json_path'')) (\<lambda>v.
             Inr (case v of JNull \<Rightarrow> None | JList xs \<Rightarrow> Some xs | w \<Rightarrow> Some [w]))
         | _ \<Rightarrow> Inr None)
      else Inr None)"

definition activate :: "int \<Rightarrow> dict \<Rightarrow> session_state \<Rightarrow> jv \<Rightarrow> exn + session_state" where
  "activate now cfg s body =
     sum_bind (int_of (jget_or cfg ''session_ttl_seconds'' (JInt 3600))) (\<lambda>ttl.
     sum_bind (owned_ids cfg body) (\<lambda>owned.
       Inr (s\<lparr>ss_expires_at := Some (now + ttl * 1000000), ss_status := ''active'', ss_detail := ''authenticated'',
              ss_owns_object_ids := (case owned of None \<Rightarrow> ss_owns_object_ids s | Some ids \<Rightarrow> ids)\<rparr>)))"

definition bearer_token :: "dict \<Rightarrow> jv \<Rightarrow> exn + jv" where
  "bearer_token cfg body = (case body of
     JDict b \<Rightarrow> json_path b (jget_or cfg ''token_json_path'' (JStr ''token'')) | _ \<Rightarrow> Inr JNull)"

definition apply_success :: "int \<Rightarrow> test_account \<Rightarrow> dict \<Rightarrow> session_state \<Rightarrow> login_reply \<Rightarrow> exn + session_state" where
  "apply_success now acc cfg s resp =
     (let body = safe_json resp in
      if ta_auth_type acc = ''bearer'' then
        sum_bind (bearer_token cfg body) (\<lambda>token.
        if \<not> truthy token
        then Inr (s\<lparr>ss_detail := ''login succeeded but no token at '' @ repr_jv (jget_or cfg ''token_json_path'' (JStr ''token''))\<rparr>)
        else
          sum_bind (text_of ''format'' (jget_or cfg ''token_template'' (JStr ''Bearer {token}''))) (\<lambda>template.
          sum_bind (format_field ''token'' (str_jv token) template) (\<lambda>value.
          activate now cfg (s\<lparr>ss_headers := [(str_jv (jget_or cfg ''token_header'' (JStr ''Authorization'')), JStr value)]\<rparr>) body)))
      else
        (let cookies = foldl (\<lambda>d (k, v). dset d k v) [] (lr_cookies resp) in
         if cookies = [] then Inr (s\<lparr>ss_detail := ''login succeeded but no session cookie set''\<rparr>)
         else activate now cfg (s\<lparr>ss_cookies := map (\<lambda>(k, v). (k, JStr v)) cookies,
                ss_headers := [(''Cookie'', JStr (join_with ''; '' (map (\<lambda>(k, v). k @ ''='' @ v) cookies)))]\<rparr>) body))"

definition login_payload :: "test_account \<Rightarrow> string \<Rightarrow> dict \<Rightarrow> exn + dict" where
  "login_payload acc secret cfg =
     sum_bind (obj ''keys'' (jget_or cfg ''extra_fields'' (JDict []))) (\<lambda>extra.
       Inr (foldl (\<lambda>d (k, v). dset d k v)
         (dset [(str_jv (jget_or cfg ''username_field'' (JStr ''username'')), JStr (ta_username acc))]
            (str_jv (jget_or cfg ''password_field'' (JStr ''password''))) (JStr secret)) extra))"

definition asks_mfa :: "dict \<Rightarrow> jv \<Rightarrow> bool" where
  "asks_mfa cfg body = (case body of
     JDict b \<Rightarrow> truthy (jget b (str_jv (jget_or cfg ''mfa_flag_field'' (JStr ''mfa_required'')))) | _ \<Rightarrow> False)"

definition login :: "login_world \<Rightarrow> test_account \<Rightarrow> string \<Rightarrow> dict \<Rightarrow> session_state \<Rightarrow> exn + session_state" where
  "login w acc secret cfg s =
     (if \<not> truthy (jget cfg ''login_url'')
      then Inr (s\<lparr>ss_detail := ''login_config.login_url required for bearer/form auth''\<rparr>)
      else
        sum_bind (login_payload acc secret cfg) (\<lambda>payload.
        sum_bind (lw_post w (jget cfg ''login_url'') payload
          (truthy (jget_or cfg ''send_json'' (JBool (ta_auth_type acc = ''bearer''))))) (\<lambda>resp.
        if asks_mfa cfg (safe_json resp)
        then Inr (s\<lparr>ss_status := ''pending_mfa'',
          ss_mfa_token := (case safe_json resp of JDict b \<Rightarrow> jget b (str_jv (jget_or cfg ''mfa_token_field'' (JStr ''mfa_token''))) | _ \<Rightarrow> JNull),
          ss_mfa_url := jget_or cfg ''mfa_url'' (jget cfg ''login_url''),
          ss_detail := ''MFA required; supply code via complete_mfa''\<rparr>)
        else if lr_status resp \<ge> 400
        then Inr (s\<lparr>ss_detail := ''login failed with status '' @ int_str (lr_status resp)\<rparr>)
        else apply_success (lw_now w) acc cfg s resp)))"

definition failed_session :: "test_account \<Rightarrow> session_state" where
  "failed_session acc =
     \<lparr>ss_account_id = ta_id acc, ss_role_name = ta_role_name acc, ss_label = ta_label acc, ss_status = ''failed'',
      ss_headers = [], ss_cookies = [], ss_owns_object_ids = ta_owns_object_ids acc, ss_mfa_token = JNull,
      ss_mfa_url = JNull, ss_expires_at = None, ss_detail = []\<rparr>"

definition open_session :: "login_world \<Rightarrow> test_account \<Rightarrow> string \<Rightarrow> session_state \<Rightarrow> exn + session_state" where
  "open_session w acc secret s =
     (let cfg = ta_login_config acc; ty = ta_auth_type acc in
      if ty = ''basic'' then
        Inr (s\<lparr>ss_headers := [(''Authorization'', JStr (''Basic '' @ lw_base64 w (ta_username acc @ '':'' @ secret)))],
               ss_status := ''active'', ss_detail := ''basic auth header set''\<rparr>)
      else if ty = ''header'' then
        sum_bind (text_of ''format'' (jget_or cfg ''value_template'' (JStr ''Bearer {secret}''))) (\<lambda>template.
        sum_bind (format_field ''secret'' secret template) (\<lambda>value.
          Inr (s\<lparr>ss_headers := [(str_jv (jget_or cfg ''header_name'' (JStr ''Authorization'')), JStr value)],
                 ss_status := ''active'', ss_detail := ''static header set''\<rparr>)))
      else if ty \<in> {''bearer'', ''form''} then login w acc secret cfg s
      else Inr (s\<lparr>ss_detail := ''unsupported auth_type '' @ py_repr ty\<rparr>))"

definition establish_session :: "login_world \<Rightarrow> test_account \<Rightarrow> exn + session_state" where
  "establish_session w acc =
     (let s = failed_session acc in
      if secret_is_stale (lw_now w) acc
      then Inr (s\<lparr>ss_status := ''stale'', ss_detail := ''stored secret is past its '' @ int_str (ta_secret_ttl_days acc)
             @ ''-day TTL; rotate it via POST /v1/targets/{id}/test-accounts/{id}/rotate-secret''\<rparr>)
      else case (if ta_secret_enc acc = [] then Inr [] else lw_decrypt w (ta_secret_enc acc)) of
        Inl (ValueError m) \<Rightarrow> Inr (s\<lparr>ss_detail := ''could not decrypt credentials: '' @ m\<rparr>)
      | Inl e \<Rightarrow> Inl e
      | Inr secret \<Rightarrow> (case open_session w acc secret s of
            Inl (HttpError m) \<Rightarrow> Inr (s\<lparr>ss_detail := ''login request failed: '' @ m\<rparr>)
          | r \<Rightarrow> r))"

definition complete_mfa :: "login_world \<Rightarrow> test_account \<Rightarrow> session_state \<Rightarrow> string \<Rightarrow> exn + session_state" where
  "complete_mfa w acc s code =
     (let cfg = ta_login_config acc in
      if ss_status s \<noteq> ''pending_mfa'' \<or> \<not> truthy (ss_mfa_url s) then Inr (s\<lparr>ss_detail := ''no pending MFA challenge''\<rparr>)
      else
        case sum_bind (lw_post w (ss_mfa_url s)
            (dset [(str_jv (jget_or cfg ''mfa_code_field'' (JStr ''code'')), JStr code)]
               (str_jv (jget_or cfg ''mfa_token_field'' (JStr ''mfa_token''))) (ss_mfa_token s)) True) (\<lambda>resp.
          if lr_status resp \<ge> 400
          then Inr (s\<lparr>ss_status := ''failed'', ss_detail := ''MFA verification failed ('' @ int_str (lr_status resp) @ '')''\<rparr>)
          else apply_success (lw_now w) acc cfg s resp) of
          Inl (HttpError m) \<Rightarrow> Inr (s\<lparr>ss_status := ''failed'', ss_detail := ''MFA request failed: '' @ m\<rparr>)
        | r \<Rightarrow> r)"

section \<open>What an active session has behind it\<close>

lemma activate_active: "activate now cfg s body = Inr s' \<Longrightarrow> ss_status s' = ''active'' \<and> ss_headers s' = ss_headers s"
  by (auto simp: activate_def sum_bind_Inr)

lemma apply_success_status:
  assumes "apply_success now acc cfg s resp = Inr s'"
  shows "(ss_status s' = ''active'' \<and> ss_headers s' \<noteq> []) \<or> (ss_status s' = ss_status s \<and> ss_headers s' = ss_headers s)"
  using assms by (auto simp: apply_success_def Let_def sum_bind_Inr split: if_splits dest!: activate_active)

lemma login_status:
  assumes "login w acc secret cfg s = Inr s'" "ss_status s' = ''active''" "ss_status s = ''failed''"
  shows "ss_headers s' \<noteq> [] \<and> (\<exists>url payload json resp. lw_post w url payload json = Inr resp \<and> lr_status resp < 400 \<and>
    \<not> asks_mfa cfg (safe_json resp))"
  using assms apply_success_status
  by (fastforce simp: login_def sum_bind_Inr not_le split: if_splits)

lemma open_session_status:
  assumes "open_session w acc secret s = Inr s'" "ss_status s' = ''active''" "ss_status s = ''failed''"
  shows "ss_headers s' \<noteq> [] \<and> (ta_auth_type acc \<in> {''basic'', ''header''} \<or>
    (\<exists>url payload json resp. lw_post w url payload json = Inr resp \<and> lr_status resp < 400 \<and>
      \<not> asks_mfa (ta_login_config acc) (safe_json resp)))"
  using assms by (auto simp: open_session_def Let_def sum_bind_Inr split: if_splits dest!: login_status)

text \<open>
  A session that checks may use rests on a fresh secret that could be decrypted and, for a login, on an answer of
  the target that neither failed nor asked for a second factor; it carries headers. In every other case the
  session is marked expired.
\<close>

theorem usable_session_is_backed:
  assumes "establish_session w acc = Inr s" "\<not> au_expired (to_auth_session now s)"
  shows "\<not> secret_is_stale (lw_now w) acc \<and> ss_headers s \<noteq> [] \<and>
    (ta_secret_enc acc = [] \<or> (\<exists>secret. lw_decrypt w (ta_secret_enc acc) = Inr secret)) \<and>
    (ta_auth_type acc \<in> {''basic'', ''header''} \<or>
      (\<exists>url payload json resp. lw_post w url payload json = Inr resp \<and> lr_status resp < 400 \<and>
         \<not> asks_mfa (ta_login_config acc) (safe_json resp)))"
proof -
  from assms(2) have active: "ss_status s = ''active''" by (simp add: to_auth_session_def)
  with assms(1) have fresh: "\<not> secret_is_stale (lw_now w) acc"
    by (auto simp: establish_session_def Let_def)
  with assms(1) active obtain secret where
    secret: "(if ta_secret_enc acc = [] then Inr [] else lw_decrypt w (ta_secret_enc acc)) = Inr secret" and
    s: "open_session w acc secret (failed_session acc) = Inr s"
    by (auto simp: establish_session_def Let_def failed_session_def split: sum.splits exn.splits)
  from open_session_status [OF s active] fresh secret show ?thesis
    by (auto simp: failed_session_def split: if_splits)
qed

definition demo_login :: login_world where
  "demo_login = \<lparr>lw_now = 0, lw_decrypt = (\<lambda>s. Inr (drop 4 s)), lw_base64 = (\<lambda>s. s),
     lw_post = (\<lambda>url payload json. Inr \<lparr>lr_status = 200, lr_json = Some (JDict [(''token'', JStr ''t1'')]), lr_text = [], lr_cookies = []\<rparr>)\<rparr>"

definition demo_account :: test_account where
  "demo_account = \<lparr>ta_id = ''acc1'', ta_org_id = ''o1'', ta_target_id = ''t1'', ta_label = ''alice'', ta_role_name = ''user'',
     ta_auth_type = ''bearer'', ta_username = ''alice'', ta_secret_enc = ''enc:pw'',
     ta_login_config = [(''login_url'', JStr ''http://app.test/login'')], ta_owns_object_ids = [JStr ''7''],
     ta_secret_rotated_at = None, ta_secret_ttl_days = 0\<rparr>"

theorem usable_session_is_backed_witness:
  "\<exists>s. establish_session demo_login demo_account = Inr s \<and> ss_headers s = [(''Authorization'', JStr ''Bearer t1'')] \<and>
     \<not> secret_is_stale 0 demo_account"
proof -
  let ?s = "(failed_session demo_account)\<lparr>ss_headers := [(''Authorization'', JStr ''Bearer t1'')], ss_expires_at := Some 3600000000,
     ss_status := ''active'', ss_detail := ''authenticated''\<rparr>"
  have s: "establish_session demo_login demo_account = Inr ?s" "\<not> au_expired (to_auth_session 0 ?s)"
    by code_simp+
  from usable_session_is_backed [OF this] s(1) show ?thesis by (auto simp: demo_login_def)
qed

end
