(* ===== verification/Host.thy ===== *)
theory Host
  imports Lifecycle Sessions Crawler Planning Http_Client
begin

text \<open>
  What the phases of a run share (\<open>app/orchestration/engine.py\<close>): the surroundings of the engine, its access to
  the guarded client and to a brain, the checks frozen for the run, and the sessions of the test accounts.
  The surroundings hold the parameters of the model: the network, the brain, the login client, the hash
  functions, the YAML reader, the re-ranking agent, which waiting agent of a pool ends next, and what operators
  do while a phase runs.
\<close>

datatype operator_act = DecideStep string string | RequestCancel

record host =
  ht_settings :: settings
  ht_world :: world
  ht_checks :: "http_client check_registry"
  ht_make :: "declarative \<Rightarrow> http_client check"
  ht_rx :: rx_engine
  ht_sha1 :: "string \<Rightarrow> string"
  ht_sha256 :: "string \<Rightarrow> string"
  ht_yaml :: "string \<Rightarrow> string + jv"
  ht_decide :: decider
  ht_hooks :: hook_registry
  ht_rerank :: reranker
  ht_logins :: "nat \<Rightarrow> login_world"
  ht_turn :: "nat \<Rightarrow> nat"
  ht_waits :: "operator_act list list"
  ht_during :: "string \<Rightarrow> operator_act list"

type_synonym 'a run = "(http_client engine, 'a) act"

text \<open>An operator decides on a held step or asks for cancellation.\<close>

fun operate :: "string \<Rightarrow> operator_act \<Rightarrow> db \<Rightarrow> db" where
  "operate aid (DecideStep sid status) d = d\<lparr>db_steps := change_row ps_id sid (\<lambda>x. x\<lparr>ps_status := status\<rparr>) (db_steps d)\<rparr>"
| "operate aid RequestCancel d = d\<lparr>db_assessments := change_row a_id aid (\<lambda>x. x\<lparr>a_cancel_requested := True\<rparr>) (db_assessments d)\<rparr>"

definition operates :: "string \<Rightarrow> operator_act list \<Rightarrow> db \<Rightarrow> db" where
  "operates aid acts d = foldl (\<lambda>d a. operate aid a d) d acts"

section \<open>The client\<close>

text \<open>\<open>_persist_request_count\<close>: every tenth count the client notified is stored.\<close>

definition persist_request_count :: "string \<Rightarrow> int \<Rightarrow> db \<Rightarrow> db" where
  "persist_request_count aid n d =
     (if n mod 10 \<noteq> 0 then d
      else d\<lparr>db_assessments := change_row a_id aid (\<lambda>x. x\<lparr>a_requests_made := n\<rparr>) (db_assessments d)\<rparr>)"

definition persist_exact_count :: "string \<Rightarrow> int \<Rightarrow> (db, unit) act" where
  "persist_exact_count aid n = transaction
     (bind_act (get_assessment aid) (\<lambda>_. set_assessment aid (\<lambda>x. x\<lparr>a_requests_made := n\<rparr>)))"

definition put_client :: "string \<Rightarrow> http_client \<Rightarrow> http_client engine \<Rightarrow> http_client engine" where
  "put_client aid c s = s\<lparr>en_client := Some (c\<lparr>cl_notified := []\<rparr>),
     en_db := foldl (\<lambda>d n. persist_request_count aid n d) (en_db s) (cl_notified c)\<rparr>"

definition on_client :: "string \<Rightarrow> (http_client, 'a) act \<Rightarrow> 'a run" where
  "on_client aid m s = (case en_client s of
     None \<Rightarrow> (Inl (RuntimeError ''client not opened''), s)
   | Some c \<Rightarrow> (case m c of (r, c') \<Rightarrow> (r, put_client aid c' s)))"

definition make_sandbox :: "settings \<Rightarrow> guard \<Rightarrow> sandbox option" where
  "make_sandbox st g = (if sandbox_mode st = ''none'' then None else Some (sandbox_for st (g_record g)))"

definition open_client :: "host \<Rightarrow> guard \<Rightarrow> exn + http_client" where
  "open_client env g = Inr (aenter (new_client (ht_world env) 0 g True (make_sandbox (ht_settings env) g)))"

text \<open>What is left of the record's budget.\<close>

definition budget_left :: "http_client \<Rightarrow> int" where
  "budget_left c = max 0 (az_max_requests (g_record (cl_guard c)) - g_requests_made (cl_guard c))"

section \<open>Agents that take one decision\<close>

definition agent_ident :: "string \<Rightarrow> string run" where
  "agent_ident role = bind_act (with_db new_id) (\<lambda>i. ret (role @ ''-'' @ take 8 i))"

definition ask_agent :: "host \<Rightarrow> string \<Rightarrow> string \<Rightarrow> brain_task \<Rightarrow> string \<Rightarrow> brain_decision run" where
  "ask_agent env ident role task phase s =
     (case consult (ht_decide env) ident role task phase \<lparr>as_brain = en_brain s, as_decisions = [], as_work = ()\<rparr> of
        (r, t) \<Rightarrow> (r, s\<lparr>en_brain := as_brain t\<rparr>))"

definition agent_decision :: "host \<Rightarrow> string \<Rightarrow> string \<Rightarrow> string \<Rightarrow> brain_task \<Rightarrow> string \<Rightarrow> brain_decision run" where
  "agent_decision env aid org role task phase =
     bind_act (agent_ident role) (\<lambda>ident.
     bind_act (ask_agent env ident role task phase) (\<lambda>d.
     bind_act (with_db (transaction (write_audit org (Some aid) ident ''agent.decision''
       [(''phase'', JStr phase), (''action'', JStr (bd_action d)), (''brain_source'', JStr (bd_source d)),
        (''reasoning'', JStr (bd_reasoning d))]))) (\<lambda>_.
     ret d)))"

definition phase_task :: "string \<Rightarrow> string \<Rightarrow> dict \<Rightarrow> string list \<Rightarrow> brain_task" where
  "phase_task role instruction context actions =
     \<lparr>bt_role = role, bt_instruction = instruction, bt_context = context, bt_allowed_actions = actions, bt_max_tokens = 512\<rparr>"

section \<open>The checks of a run\<close>

text \<open>\<open>_declaratives\<close>: loaded once and frozen, afterwards rebuilt from what was frozen.\<close>

definition frozen_checks :: "(string \<Rightarrow> string) \<Rightarrow> string \<Rightarrow> string option \<Rightarrow> (db, loaded list) act" where
  "frozen_checks sha256 aid org = transaction
     (bind_act (get_assessment aid) (\<lambda>a.
      if a_skill_snapshot a \<noteq> [] then ret (checks_from_snapshot (a_skill_snapshot a))
      else
        bind_act (gets (load_declarative_checks sha256 org)) (\<lambda>r.
        bind_act (lift_sum r) (\<lambda>checks.
        bind_act (set_assessment aid (\<lambda>x. x\<lparr>a_skill_snapshot := snapshot_specs checks\<rparr>)) (\<lambda>_. ret checks)))))"

definition skill_refs :: "loaded list \<Rightarrow> (string \<times> string) list" where
  "skill_refs checks = foldl (\<lambda>d (spec, c). dset d (dc_name c) (str_jv (jget_or spec ''skill_ref'' (JStr [])))) [] checks"

definition declaratives :: "host \<Rightarrow> string \<Rightarrow> string \<Rightarrow> loaded list run" where
  "declaratives env aid org =
     bind_act (with_db (frozen_checks (ht_sha256 env) aid (Some org))) (\<lambda>checks.
     bind_act (modify (\<lambda>s. s\<lparr>en_refs := skill_refs checks\<rparr>)) (\<lambda>_. ret checks))"

section \<open>Sessions\<close>

text \<open>A session that is expired or failed at once is renewed once; account \<open>n\<close> logs in as the logins \<open>2n\<close> and \<open>2n+1\<close>.\<close>

definition account_session :: "host \<Rightarrow> string \<Rightarrow> nat \<Rightarrow> test_account \<Rightarrow> auth_session run" where
  "account_session env aid n acc =
     bind_act (lift_sum (establish_session (ht_logins env (2 * n)) acc)) (\<lambda>s1.
     let first = to_auth_session (lw_now (ht_logins env (2 * n))) s1 in
     if au_expired first \<and> ss_status s1 \<noteq> ''pending_mfa''
     then
       bind_act (lift_sum (establish_session (ht_logins env (2 * n + 1)) acc)) (\<lambda>s2.
       let again = to_auth_session (lw_now (ht_logins env (2 * n + 1))) s2 in
       if au_expired again then ret first
       else
         bind_act (with_db (transaction
           (bind_act (get_assessment aid) (\<lambda>a.
            write_audit (a_org_id a) (Some aid) ''system'' ''session.renewed''
              [(''role'', JStr (ta_role_name acc)), (''label'', JStr (ta_label acc))])))) (\<lambda>_. ret again))
     else ret first)"

fun account_sessions :: "host \<Rightarrow> string \<Rightarrow> nat \<Rightarrow> test_account list \<Rightarrow> auth_session list run" where
  "account_sessions env aid n [] = ret []"
| "account_sessions env aid n (acc # accs) =
     bind_act (account_session env aid n acc) (\<lambda>x.
     bind_act (account_sessions env aid (Suc n) accs) (\<lambda>xs. ret (x # xs)))"

definition build_sessions :: "host \<Rightarrow> string \<Rightarrow> auth_session list run" where
  "build_sessions env aid =
     bind_act (with_db (get_assessment aid)) (\<lambda>a.
     bind_act (gets (\<lambda>s. filter (\<lambda>x. ta_target_id x = a_target_id a) (db_accounts (en_db s)))) (\<lambda>accs.
     account_sessions env aid 0 accs))"

section \<open>Rows as the checks see them\<close>

definition endpoint_view_of :: "endpoint \<Rightarrow> endpoint_view" where
  "endpoint_view_of e =
     \<lparr>ev_id = ep_id e, ev_method = ep_method e, ev_url = ep_url e, ev_path_template = ep_path_template e,
      ev_parameters = ep_parameters e, ev_request_body_schema = ep_request_body_schema e,
      ev_auth_required = ep_auth_required e, ev_fingerprint = ep_fingerprint e\<rparr>"

definition endpoint_signature :: "(string \<Rightarrow> string) \<Rightarrow> endpoint \<Rightarrow> exn + string" where
  "endpoint_signature sha1 e =
     endpoint_surface_signature sha1 (ep_method e) (ep_url e) (ep_path_template e) (ep_parameters e)
       (ep_auth_required e) (ep_roles e) (ep_request_body_schema e) (ep_api_version e)"

fun map_act :: "('a \<Rightarrow> ('s, 'b) act) \<Rightarrow> 'a list \<Rightarrow> ('s, 'b list) act" where
  "map_act f [] = ret []"
| "map_act f (x # xs) = bind_act (f x) (\<lambda>y. bind_act (map_act f xs) (\<lambda>ys. ret (y # ys)))"

section \<open>The assessment's row stays\<close>

lemma keeps_map_act: "(\<And>x. keeps (kept aid) (f x)) \<Longrightarrow> keeps (kept aid) (map_act f xs)"
  by (induction xs) (auto intro!: kept_frame.keeps_bind kept_frame.keeps_ret)

lemma has_row_change:
  "(\<And>a. a_id (f a) = a_id a) \<Longrightarrow> has_row aid (d\<lparr>db_assessments := change_row a_id aid' f (db_assessments d)\<rparr>) \<longleftrightarrow> has_row aid d"
  by (simp add: has_row_def find_change_assessment)

lemma persist_request_count_row: "has_row aid (persist_request_count aid' n d) \<longleftrightarrow> has_row aid d"
  by (simp add: persist_request_count_def has_row_change)

lemma persist_counts_row: "has_row aid (foldl (\<lambda>d n. persist_request_count aid' n d) d ns) \<longleftrightarrow> has_row aid d"
  by (induction ns arbitrary: d) (simp_all add: persist_request_count_row)

lemma operates_row: "has_row aid (operates aid' acts d) \<longleftrightarrow> has_row aid d"
proof -
  have "has_row aid (operate aid' a d) \<longleftrightarrow> has_row aid d" for a d
    by (cases a) (simp_all add: has_row_change, simp add: has_row_def)
  then show ?thesis unfolding operates_def by (induction acts arbitrary: d) simp_all
qed

lemma put_client_kept: "kept aid s (put_client aid' c s)"
  by (simp add: kept_def row_kept_def put_client_def persist_counts_row)

lemma keeps_on_client: "keeps (kept aid) (on_client aid' m)"
  by (auto simp: keeps_def on_client_def put_client_kept kept_frame.refl split: option.splits prod.splits)

lemma keeps_ask: "keeps (kept aid) (ask_agent env ident role task phase)"
  by (auto simp: keeps_def ask_agent_def kept_def row_kept_def split: prod.splits)

lemma keeps_audit: "keeps (kept aid) (with_db (transaction (write_audit org a actor event data)))"
  by (intro keeps_with_db row_rules)

lemma keeps_agent_decision: "keeps (kept aid) (agent_decision env aid' org role task phase)"
  unfolding agent_decision_def agent_ident_def
  by (intro kept_frame.keeps_bind kept_frame.keeps_ret keeps_with_db keeps_ask row_rules)

lemma row_get_assessment: "keeps (row_kept aid) (get_assessment aid')"
  unfolding get_assessment_def by (rule row_frame.keeps_fetch)

lemma row_modify: "(\<And>d. db_assessments (f d) = db_assessments d) \<Longrightarrow> keeps (row_kept aid) (modify f)"
  by (rule row_frame.keeps_modify) (simp add: row_kept_def has_row_def)

lemma kept_modify: "(\<And>s. en_db (f s) = en_db s) \<Longrightarrow> keeps (kept aid) (modify f)"
  by (rule kept_frame.keeps_modify) (simp add: kept_def row_kept_def)

lemma kept_operates: "keeps (kept aid) (modify (\<lambda>s. s\<lparr>en_db := operates aid' acts (en_db s)\<rparr>))"
  by (rule kept_frame.keeps_modify) (simp add: kept_def row_kept_def operates_row)

lemma keeps_declaratives: "keeps (kept aid) (declaratives env aid' org)"
  unfolding declaratives_def frozen_checks_def
  by (intro kept_frame.keeps_bind kept_frame.keeps_ret kept_modify keeps_with_db row_rules row_get_assessment) simp_all

lemma keeps_account_session: "keeps (kept aid) (account_session env aid' n acc)"
  unfolding account_session_def Let_def
  by (intro kept_frame.keeps_bind kept_frame.keeps_if kept_frame.keeps_ret kept_frame.keeps_lift keeps_with_db
      row_rules row_get_assessment)

lemma keeps_account_sessions: "keeps (kept aid) (account_sessions env aid' n accs)"
  by (induction accs arbitrary: n)
    (auto intro!: kept_frame.keeps_bind kept_frame.keeps_ret keeps_account_session)

lemma keeps_build_sessions: "keeps (kept aid) (build_sessions env aid')"
  unfolding build_sessions_def
  by (intro kept_frame.keeps_bind kept_frame.keeps_gets keeps_with_db row_get_assessment keeps_account_sessions)

lemmas run_rules = kept_frame.keeps_bind kept_frame.keeps_ret kept_frame.keeps_raise kept_frame.keeps_lift kept_frame.keeps_gets
  kept_frame.keeps_if kept_frame.keeps_option kept_frame.keeps_catch keeps_on_client keeps_agent_decision keeps_declaratives
  keeps_build_sessions keeps_map_act keeps_audit

end
