(* ===== verification/Discovery.thy ===== *)
theory Discovery
  imports Host
begin

text \<open>
  The discovery, planning and policy phases of \<open>app/orchestration/engine.py\<close>. Warnings stored with an artifact are
  set in a session that is closed without a commit, so they do not reach the database. The members of a set are
  taken in the order of the list they came from.
\<close>

section \<open>Discovery\<close>

definition parse_artifacts :: "host \<Rightarrow> string list \<Rightarrow> string \<Rightarrow> discovery_artifact list \<Rightarrow> exn + parse_result" where
  "parse_artifacts env hosts base arts =
     sum_bind (mapM_sum (\<lambda>art. parse_artifact (ht_yaml env) (art_kind art) (art_content art) base hosts
         (if art_endpoint_url art \<noteq> [] then art_endpoint_url art else base)) arts) (\<lambda>rs.
       Inr (concat (map fst rs), concat (map snd rs)))"

text \<open>\<open>_crawl_runner\<close>: whatever stops the crawl is a warning.\<close>

definition crawl_target :: "host \<Rightarrow> string \<Rightarrow> parse_result run" where
  "crawl_target env aid =
     bind_act (with_db (get_assessment aid)) (\<lambda>a.
     bind_act (with_db (fetch db_targets tg_id (a_target_id a) ''target'')) (\<lambda>t.
     catch_act (on_client aid (crawl (guarded_web (ht_world env)) (tg_base_url t)
         (crawl_max_pages (ht_settings env)) (crawl_max_depth (ht_settings env))))
       (\<lambda>e. case e of
          ScopeViolation reason _ _ \<Rightarrow> ret ([], [''crawl blocked: '' @ reason])
        | _ \<Rightarrow> ret ([], [''crawl error: '' @ exn_message e]))))"

text \<open>Only hosts of the record enter the inventory; the request check is made for its reason.\<close>

definition scope_filter :: "host \<Rightarrow> discovered_endpoint \<Rightarrow> (http_client, parse_result) act" where
  "scope_filter env e =
     bind_act (scope_check (ht_world env) (de_method e) (de_url e) False) (\<lambda>d.
     bind_act (lift_sum (url_host (de_url e))) (\<lambda>host.
     bind_act (gets cl_guard) (\<lambda>g.
     if sd_allowed (evaluate_new_asset g host) then ret ([e], [])
     else if sd_code d = ''host_out_of_scope'' then ret ([], [''excluded out-of-scope asset: '' @ host])
     else ret ([], []))))"

fun save_endpoints ::
  "(string \<Rightarrow> string) \<Rightarrow> string \<Rightarrow> string \<Rightarrow> string list \<Rightarrow> discovered_endpoint list \<Rightarrow> (db, string list) act" where
  "save_endpoints sha1 org aid known [] = ret []"
| "save_endpoints sha1 org aid known (e # es) =
     bind_act (lift_sum (fingerprint sha1 e)) (\<lambda>fp.
     if fp \<in> set known then save_endpoints sha1 org aid known es
     else
       bind_act new_id (\<lambda>i.
       bind_act (modify (\<lambda>d. d\<lparr>db_endpoints := db_endpoints d @ [endpoint_row i org aid e fp]\<rparr>)) (\<lambda>_.
       bind_act (save_endpoints sha1 org aid (fp # known) es) (\<lambda>ids. ret (i # ids)))))"

definition store_inventory :: "host \<Rightarrow> string \<Rightarrow> discovered_endpoint list \<Rightarrow> string list \<Rightarrow> (db, string list) act" where
  "store_inventory env aid in_scope warnings = transaction
     (bind_act (get_assessment aid) (\<lambda>a.
      bind_act (modify (\<lambda>d. d\<lparr>db_artifacts := map (\<lambda>r. if art_assessment_id r = aid then r\<lparr>art_parsed := True\<rparr> else r) (db_artifacts d)\<rparr>)) (\<lambda>_.
      bind_act (lift_sum (merge_endpoints (ht_sha1 env) in_scope)) (\<lambda>merged.
      bind_act (gets (\<lambda>d. map ep_fingerprint (endpoints_of aid d))) (\<lambda>known.
      bind_act (save_endpoints (ht_sha1 env) (a_org_id a) aid known merged) (\<lambda>ids.
      bind_act (write_audit (a_org_id a) (Some aid) ''system'' ''discovery.completed''
        [(''endpoints'', JInt (int (length ids))), (''warnings'', JList (map JStr (take 50 warnings)))]) (\<lambda>_.
      ret ids)))))))"

definition crawl_task :: "nat \<Rightarrow> nat \<Rightarrow> brain_task" where
  "crawl_task artifacts found = phase_task ''discovery'' ''Decide whether to actively crawl the target for more endpoints.''
     [(''artifacts'', JInt (int artifacts)), (''endpoints_from_artifacts'', JInt (int found))] discovery_allowed"

definition do_discovery :: "host \<Rightarrow> string \<Rightarrow> string list run" where
  "do_discovery env aid =
     bind_act (with_db (get_assessment aid)) (\<lambda>a.
     bind_act (with_db (fetch db_targets tg_id (a_target_id a) ''target'')) (\<lambda>t.
     bind_act (gets (\<lambda>s. filter (\<lambda>r. art_assessment_id r = aid) (db_artifacts (en_db s)))) (\<lambda>arts.
     bind_act (on_client aid (gets (\<lambda>c. az_allowed_hosts (g_record (cl_guard c))))) (\<lambda>hosts.
     bind_act (lift_sum (parse_artifacts env hosts (tg_base_url t) arts)) (\<lambda>(found, warned).
     bind_act (agent_decision env aid (a_org_id a) ''discovery'' (crawl_task (length arts) (length found)) ''discovery'') (\<lambda>d.
     bind_act (if bd_action d = ''skip'' then ret ([], [''discovery agent elected to skip active crawl'']) else crawl_target env aid)
       (\<lambda>(crawled, more).
     bind_act (map_act (\<lambda>e. on_client aid (scope_filter env e)) (found @ crawled)) (\<lambda>rs.
     with_db (store_inventory env aid (concat (map fst rs)) (warned @ more @ concat (map snd rs)))))))))))"

section \<open>Planning\<close>

text \<open>The surface to plan for: in an incremental retest only what is new or changed.\<close>

definition plan_surface :: "(string \<Rightarrow> string) \<Rightarrow> assessment \<Rightarrow> endpoint list \<Rightarrow> db \<Rightarrow> exn + endpoint list" where
  "plan_surface sha1 a rows d = (case a_previous_assessment_id a of
     Some prev \<Rightarrow>
       if a_incremental a \<and> prev \<noteq> []
       then
         sum_bind (mapM_sum (endpoint_signature sha1) (endpoints_of prev d)) (\<lambda>old.
         sum_bind (mapM_sum (\<lambda>e. sum_bind (endpoint_signature sha1 e) (\<lambda>sig. Inr (e, sig))) rows) (\<lambda>signed.
         Inr (map fst (filter (\<lambda>(e, sig). sig \<notin> set old) signed))))
       else Inr rows
   | None \<Rightarrow> Inr rows)"

definition new_step :: "string \<Rightarrow> string \<Rightarrow> string \<Rightarrow> planned_step \<Rightarrow> plan_step" where
  "new_step i org aid p =
     \<lparr>ps_id = i, ps_org_id = org, ps_assessment_id = aid, ps_endpoint_id = Some (pl_endpoint_id p),
      ps_check_class = pl_check_class p, ps_check_name = pl_check_name p, ps_rationale = pl_rationale p,
      ps_priority = pl_priority p, ps_intensity = pl_intensity p, ps_status = ''planned'', ps_policy_decision = []\<rparr>"

definition add_step :: "(string \<Rightarrow> plan_step) \<Rightarrow> (db, string) act" where
  "add_step row = bind_act new_id (\<lambda>i. bind_act (modify (\<lambda>d. d\<lparr>db_steps := db_steps d @ [row i]\<rparr>)) (\<lambda>_. ret i))"

fun add_steps :: "(string \<Rightarrow> plan_step) list \<Rightarrow> (db, string list) act" where
  "add_steps [] = ret []"
| "add_steps (r # rs) = bind_act (add_step r) (\<lambda>i. bind_act (add_steps rs) (\<lambda>is. ret (i # is)))"

definition store_plan :: "string \<Rightarrow> planned_step list \<Rightarrow> int \<Rightarrow> (db, string list) act" where
  "store_plan aid planned skipped = transaction
     (bind_act (get_assessment aid) (\<lambda>a.
      bind_act (add_steps (map (\<lambda>p i. new_step i (a_org_id a) aid p) planned)) (\<lambda>ids.
      bind_act (write_audit (a_org_id a) (Some aid) ''system'' ''planning.completed''
        [(''steps'', JInt (int (length ids))), (''incremental_skipped_endpoints'', JInt skipped)]) (\<lambda>_. ret ids))))"

definition do_planning :: "host \<Rightarrow> string \<Rightarrow> string list \<Rightarrow> string list run" where
  "do_planning env aid ids =
     bind_act (with_db (get_assessment aid)) (\<lambda>a.
     bind_act (with_db (fetch db_records az_id (a_authorization_id a) ''authorizationrecord'')) (\<lambda>record.
     bind_act (gets (\<lambda>s. length (filter (\<lambda>x. ta_target_id x = a_target_id a) (db_accounts (en_db s))))) (\<lambda>accounts.
     bind_act (gets (\<lambda>s. filter (\<lambda>e. ep_id e \<in> set ids) (db_endpoints (en_db s)))) (\<lambda>rows.
     bind_act (gets (\<lambda>s. plan_surface (ht_sha1 env) a rows (en_db s))) (\<lambda>r.
     bind_act (lift_sum r) (\<lambda>surface.
     let classes = effective_classes (a_requested_check_classes a) (az_allowed_check_classes record) in
     bind_act (declaratives env aid (a_org_id a)) (\<lambda>decls.
     let planned = build_plan (ht_checks env) (map endpoint_view_of surface) classes (coerce_intensity (az_intensity record))
           (accounts \<ge> 2) (map (\<lambda>(spec, d). ht_make env d) decls) in
     bind_act (agent_decision env aid (a_org_id a) ''planner''
       (phase_task ''planner'' ''Choose a prioritization strategy for the assessment plan.''
          [(''steps'', JInt (int (length planned))), (''check_classes'', JList (map JStr (sort classes)))] planner_allowed)
       ''planning'') (\<lambda>d.
     with_db (store_plan aid (rerank_plan (ht_settings env) (ht_rerank env) (apply_strategy planned (bd_action d))
         [(''assessment_id'', JStr aid), (''classes'', JList (map JStr (sort classes)))])
       (int (length rows) - int (length surface)))))))))))"

section \<open>Policy\<close>

definition do_policy :: "host \<Rightarrow> string \<Rightarrow> bool \<Rightarrow> string list \<Rightarrow> string list run" where
  "do_policy env aid wait ids =
     bind_act (with_db (get_assessment aid)) (\<lambda>a.
     bind_act (declaratives env aid (a_org_id a)) (\<lambda>decls.
     bind_act (on_client aid (gets cl_guard)) (\<lambda>g.
     bind_act (with_db (transaction (phase_policy aid
         (judge_step (ht_settings env) (ht_checks env) (ht_make env) decls g) ids))) (\<lambda>(ok, held).
     bind_act (if held \<noteq> [] \<and> wait then with_db (await_step_approvals aid (map (operates aid) (ht_waits env)) held) else ret []) (\<lambda>late.
     gets (\<lambda>s. map ps_id (reload_steps (ok @ late) (en_db s))))))))"

section \<open>The assessment's row stays\<close>

lemma keeps_save_endpoints: "keeps (row_kept aid) (save_endpoints sha1 org aid' known es)"
proof (induction es arbitrary: known)
  case Nil
  then show ?case by (simp only: save_endpoints.simps row_frame.keeps_ret)
next
  case (Cons e es)
  then show ?case
    by (simp only: save_endpoints.simps)
      (intro row_frame.keeps_bind row_frame.keeps_if row_frame.keeps_ret row_frame.keeps_lift row_frame.keeps_new_id row_modify, simp_all)
qed

lemma row_set_step: "keeps (row_kept aid) (set_step sid f)"
  unfolding set_step_def by (rule row_modify) simp

lemma keeps_add_steps: "keeps (row_kept aid) (add_steps rs)"
proof (induction rs)
  case Nil
  then show ?case by (simp only: add_steps.simps row_frame.keeps_ret)
next
  case (Cons r rs)
  then show ?case
    by (simp only: add_steps.simps add_step_def)
      (intro row_frame.keeps_bind row_frame.keeps_ret row_frame.keeps_new_id row_modify, simp_all)
qed

lemma keeps_policy_loop: "keeps (row_kept aid) (policy_loop judge ids)"
proof (induction ids)
  case Nil
  then show ?case by (simp only: policy_loop.simps row_frame.keeps_ret)
next
  case (Cons i ids)
  then show ?case
    by (simp only: policy_loop.simps split_def Let_def)
      (intro row_rules row_set_step, simp_all)
qed

lemma row_operates: "keeps (row_kept aid) (modify (operates aid' acts))"
  by (rule row_frame.keeps_modify) (simp add: row_kept_def operates_row)

lemma keeps_await: "keeps (row_kept aid) (await_step_approvals aid' (map (operates aid'') waits) pending)"
proof (induction waits arbitrary: pending)
  case Nil
  then show ?case by (cases pending) (simp_all only: list.map await_step_approvals.simps row_frame.keeps_ret row_frame.keeps_gets)
next
  case (Cons w ws)
  show ?case
  proof (cases pending)
    case (Cons p ps)
    show ?thesis
      unfolding Cons list.map await_step_approvals.simps
      by (rule row_frame.keeps_bind, rule row_frame.keeps_gets)
        (auto split: prod.split intro!: row_rules row_get_assessment row_operates Cons.IH)
  qed (simp only: list.map await_step_approvals.simps row_frame.keeps_ret)
qed

lemma keeps_pair: "(\<And>x y. keeps R (f x y)) \<Longrightarrow> keeps R (case p of (x, y) \<Rightarrow> f x y)"
  by (cases p) simp

lemma keeps_crawl_target: "keeps (kept aid) (crawl_target env aid')"
  unfolding crawl_target_def
  by (intro run_rules keeps_with_db row_get_assessment row_frame.keeps_fetch) (auto split: exn.split intro: run_rules)

lemma row_store_inventory: "keeps (row_kept aid) (store_inventory env aid' eps ws)"
  unfolding store_inventory_def
  by (intro row_rules row_get_assessment row_modify keeps_save_endpoints) simp

lemma row_store_plan: "keeps (row_kept aid) (store_plan aid' planned n)"
  unfolding store_plan_def by (intro row_rules row_get_assessment keeps_add_steps)

lemma row_phase_policy: "keeps (row_kept aid) (phase_policy aid' judge ids)"
  unfolding phase_policy_def
  by (intro row_rules row_get_assessment keeps_policy_loop keeps_pair)

lemma keeps_do_discovery: "keeps (kept aid) (do_discovery env aid')"
  unfolding do_discovery_def
  by (intro run_rules keeps_pair keeps_with_db row_get_assessment row_frame.keeps_fetch keeps_crawl_target row_store_inventory)

lemma keeps_do_planning: "keeps (kept aid) (do_planning env aid' ids)"
  unfolding do_planning_def Let_def
  by (intro run_rules keeps_with_db row_get_assessment row_frame.keeps_fetch row_store_plan)

lemma keeps_do_policy: "keeps (kept aid) (do_policy env aid' wait ids)"
  unfolding do_policy_def
  by (intro run_rules keeps_pair keeps_with_db row_get_assessment row_frame.keeps_transaction row_phase_policy keeps_await)

end
