(* ===== verification/Execution.thy ===== *)
theory Execution
  imports Discovery Pool
begin

text \<open>
  The execution phase of \<open>app/orchestration/engine.py\<close>: one specialist per approved step, run under the pool,
  with retries, the finding signals of the bus, and replanning of coverage gaps. Agents are taken one after
  another: the schedule \<open>ht_turn\<close> says which of the waiting agents runs next, and an agent runs to its end
  within its time limit. Agents that still run when the stream is left are not followed. What operators do
  meanwhile happens just before an agent's result is looked at. The members of a set of classes are taken in the
  order of the record.
\<close>

section \<open>Agents of steps\<close>

record runner =
  ru_step :: plan_step
  ru_ident :: string
  ru_check :: "http_client check"
  ru_state :: "http_client check_work agent_state"

definition engine_specialist :: "host \<Rightarrow> string \<Rightarrow> string \<Rightarrow> http_client check \<Rightarrow> (http_client check_work) agent" where
  "engine_specialist env aid ident c =
     (specialist (ht_hooks env) aid None ident c)
       \<lparr>ag_max_steps := max_recursion_depth (ht_settings env),
        ag_inspect := (\<lambda>w. ag_inspect (specialist (ht_hooks env) aid (Some (Inr (budget_left (cw_world w)))) ident c) w)\<rparr>"

definition step_context :: "http_client check \<Rightarrow> endpoint_view \<Rightarrow> auth_session list \<Rightarrow> check_context" where
  "step_context c ev sessions =
     \<lparr>cc_endpoint = ev, cc_intensity = ck_intensity c, cc_base_url = ev_url ev, cc_sessions = sessions, cc_max_payloads = 12\<rparr>"

definition make_runner :: "host \<Rightarrow> string \<Rightarrow> auth_session list \<Rightarrow> loaded list \<Rightarrow> plan_step \<Rightarrow> runner list run" where
  "make_runner env aid sessions decls step = (case ps_endpoint_id step of None \<Rightarrow> ret []
   | Some eid \<Rightarrow>
       bind_act (with_db (fetch db_endpoints ep_id eid ''endpoint'')) (\<lambda>e.
       case resolve_check (ht_checks env) (ht_make env) decls (ps_check_name step) (ps_check_class step) of None \<Rightarrow> ret []
       | Some rn \<Rightarrow>
           bind_act (agent_ident (specialist_role (rn_check rn))) (\<lambda>ident.
           bind_act (gets en_brain) (\<lambda>b.
           bind_act (on_client aid (gets (\<lambda>c. c))) (\<lambda>c.
           ret [\<lparr>ru_step = step, ru_ident = ident, ru_check = rn_check rn,
                 ru_state = \<lparr>as_brain = b, as_decisions = [],
                   as_work = \<lparr>cw_ctx = step_context (rn_check rn) (endpoint_view_of e) sessions, cw_probes = 0,
                     cw_bus = None, cw_runs = 0, cw_world = c\<rparr>\<rparr>\<rparr>])))))"

definition make_runners :: "host \<Rightarrow> string \<Rightarrow> auth_session list \<Rightarrow> loaded list \<Rightarrow> plan_step list \<Rightarrow> runner list run" where
  "make_runners env aid sessions decls steps =
     bind_act (map_act (make_runner env aid sessions decls) steps) (\<lambda>rs. ret (concat rs))"

text \<open>\<open>agent.run(ctx)\<close>: the agent keeps its trail and context between runs; brain, client and bus are shared.\<close>

definition run_agent ::
  "host \<Rightarrow> string \<Rightarrow> message_bus option \<Rightarrow> runner \<Rightarrow> (agent_result \<times> message_bus option \<times> runner) run" where
  "run_agent env aid bus r s = (case en_client s of
     None \<Rightarrow> (Inl (RuntimeError ''client not opened''), s)
   | Some c \<Rightarrow>
       (case agent_run (ht_decide env) (engine_specialist env aid (ru_ident r) (ru_check r))
            ((ru_state r)\<lparr>as_brain := en_brain s, as_work := (as_work (ru_state r))\<lparr>cw_bus := bus, cw_world := c\<rparr>\<rparr>) of
          (res, t) \<Rightarrow>
            (Inr (res, cw_bus (as_work t), r\<lparr>ru_state := t\<rparr>), (put_client aid (cw_world (as_work t)) s)\<lparr>en_brain := as_brain t\<rparr>)))"

section \<open>The controller\<close>

definition run_deadline :: "settings \<Rightarrow> guard \<Rightarrow> rat \<Rightarrow> rat" where
  "run_deadline st g now =
     now + of_int (min (if az_max_duration_seconds (g_record g) \<noteq> 0 then az_max_duration_seconds (g_record g) else max_assessment_seconds st)
                       (max_assessment_seconds st))"

definition start_controller :: "host \<Rightarrow> string \<Rightarrow> rat run" where
  "start_controller env aid =
     bind_act (on_client aid (observe (wd_monotonic (ht_world env)))) (\<lambda>now.
     bind_act (on_client aid (gets cl_guard)) (\<lambda>g. ret (run_deadline (ht_settings env) g now)))"

definition past_deadline :: "host \<Rightarrow> string \<Rightarrow> rat \<Rightarrow> bool run" where
  "past_deadline env aid deadline =
     bind_act (on_client aid (observe (wd_monotonic (ht_world env)))) (\<lambda>now. ret (now > deadline))"

definition should_stop :: "host \<Rightarrow> string \<Rightarrow> rat \<Rightarrow> bool run" where
  "should_stop env aid deadline =
     bind_act (past_deadline env aid deadline) (\<lambda>late. if late then ret True else on_client aid (gets unhealthy))"

definition stop_or_cancelled :: "host \<Rightarrow> string \<Rightarrow> rat \<Rightarrow> bool run" where
  "stop_or_cancelled env aid deadline =
     bind_act (should_stop env aid deadline) (\<lambda>stop. if stop then ret True else with_db (cancelled aid))"

text \<open>Why the main pass is left, if it is.\<close>

definition halt_reason :: "host \<Rightarrow> string \<Rightarrow> rat \<Rightarrow> string run" where
  "halt_reason env aid deadline =
     bind_act (with_db (cancelled aid)) (\<lambda>c. if c then ret ''cancelled'' else
     bind_act (past_deadline env aid deadline) (\<lambda>late. if late then ret ''deadline_exceeded'' else
     bind_act (on_client aid (gets unhealthy)) (\<lambda>u. ret (if u then ''target_unhealthy'' else []))))"

section \<open>The stream of results\<close>

record stream =
  sm_bus :: "message_bus option"
  sm_stats :: pool_stats
  sm_errored :: "runner list"

definition start_stream :: "message_bus option \<Rightarrow> nat \<Rightarrow> stream" where
  "start_stream bus n = \<lparr>sm_bus = bus, sm_stats = no_stats\<lparr>ps_instantiated := int n\<rparr>, sm_errored = []\<rparr>"

definition enter_pool :: "host \<Rightarrow> string \<Rightarrow> rat \<Rightarrow> stream \<Rightarrow> runner \<Rightarrow> (agent_result \<times> runner \<times> stream) run" where
  "enter_pool env aid deadline sm r =
     bind_act (should_stop env aid deadline) (\<lambda>stop.
     if stop
     then (case skip_cancelled (ru_ident r) (specialist_role (ru_check r)) (sm_stats sm) of
             (res, st) \<Rightarrow> ret (res, r, sm\<lparr>sm_stats := st\<rparr>))
     else
       bind_act (run_agent env aid (sm_bus sm) r) (\<lambda>(res, bus, r').
       case conclude (ru_ident r) (specialist_role (ru_check r)) (Finished res) (sm_stats sm) of
         (res', st) \<Rightarrow> ret (res', r', sm\<lparr>sm_bus := bus, sm_stats := st\<rparr>)))"

definition operators_act :: "host \<Rightarrow> string \<Rightarrow> string \<Rightarrow> unit run" where
  "operators_act env aid moment = modify (\<lambda>s. s\<lparr>en_db := operates aid (ht_during env moment) (en_db s)\<rparr>)"

definition keep_result :: "host \<Rightarrow> string \<Rightarrow> string \<Rightarrow> int \<Rightarrow> runner \<Rightarrow> agent_result \<Rightarrow> unit run" where
  "keep_result env aid org attempts r res =
     bind_act (gets en_refs) (\<lambda>refs.
     with_db (persist_agent_result (ht_sha1 env) (skill_ref_for (ht_checks env) refs) org aid (Some (ru_step r)) res attempts))"

definition note_error :: "runner \<Rightarrow> agent_result \<Rightarrow> stream \<Rightarrow> stream" where
  "note_error r res sm = (if ar_error res \<noteq> [] then sm\<lparr>sm_errored := sm_errored sm @ [r]\<rparr> else sm)"

text \<open>By the number of agents that wait; a result is kept only if the run goes on.\<close>

fun stream_pool :: "host \<Rightarrow> string \<Rightarrow> string \<Rightarrow> rat \<Rightarrow> string run \<Rightarrow> nat \<Rightarrow> runner list \<Rightarrow> stream \<Rightarrow> (string \<times> stream) run" where
  "stream_pool env aid org deadline halt 0 waiting sm = ret ([], sm)"
| "stream_pool env aid org deadline halt (Suc n) waiting sm =
     (let i = ht_turn env n mod length waiting in
      bind_act (enter_pool env aid deadline sm (waiting ! i)) (\<lambda>(res, r, sm').
      bind_act (operators_act env aid (ru_ident r)) (\<lambda>_.
      bind_act halt (\<lambda>reason.
      if reason \<noteq> [] then ret (reason, sm')
      else
        bind_act (keep_result env aid org 1 r res) (\<lambda>_.
        stream_pool env aid org deadline halt n (take i waiting @ drop (Suc i) waiting) (note_error r res sm'))))))"

section \<open>Retries\<close>

fun retry_round :: "host \<Rightarrow> string \<Rightarrow> string \<Rightarrow> int \<Rightarrow> message_bus option \<Rightarrow> runner list \<Rightarrow> (message_bus option \<times> runner list) run" where
  "retry_round env aid org attempt bus [] = ret (bus, [])"
| "retry_round env aid org attempt bus (r # rs) =
     bind_act (run_agent env aid bus r) (\<lambda>(res, bus', r').
     bind_act (keep_result env aid org attempt r' res) (\<lambda>_.
     bind_act (retry_round env aid org attempt bus' rs) (\<lambda>(bus'', again).
     ret (bus'', if ar_error res \<noteq> [] then r' # again else again))))"

fun retries :: "host \<Rightarrow> string \<Rightarrow> string \<Rightarrow> rat \<Rightarrow> nat \<Rightarrow> int \<Rightarrow> message_bus option \<Rightarrow> runner list \<Rightarrow> (message_bus option) run" where
  "retries env aid org deadline 0 attempt bus errored = ret bus"
| "retries env aid org deadline (Suc n) attempt bus errored =
     (if errored = [] then ret bus
      else
        bind_act (stop_or_cancelled env aid deadline) (\<lambda>stop.
        if stop then ret bus
        else
          bind_act (retry_round env aid org attempt bus errored) (\<lambda>(bus', again).
          retries env aid org deadline n (attempt + 1) bus' again)))"

section \<open>Replanning\<close>

definition execute_step_batch ::
  "host \<Rightarrow> string \<Rightarrow> string \<Rightarrow> rat \<Rightarrow> auth_session list \<Rightarrow> loaded list \<Rightarrow> plan_step list \<Rightarrow> int run" where
  "execute_step_batch env aid org deadline sessions decls steps =
     bind_act (make_runners env aid sessions decls steps) (\<lambda>agents.
     if agents = [] then ret 0
     else
       bind_act (stream_pool env aid org deadline
           (bind_act (stop_or_cancelled env aid deadline) (\<lambda>stop. ret (if stop then ''stopped'' else [])))
           (length agents) agents (start_stream None (length agents))) (\<lambda>(reason, sm).
       ret (ps_findings (sm_stats sm))))"

text \<open>\<open>xs[:n]\<close>.\<close>

definition py_upto :: "int \<Rightarrow> 'a list \<Rightarrow> 'a list" where
  "py_upto n xs = (if n < 0 then take (length xs - nat (- n)) xs else take (nat n) xs)"

definition replan_task :: "nat \<Rightarrow> int \<Rightarrow> brain_task" where
  "replan_task gaps left = phase_task ''coordinator'' ''Replan to close coverage gaps, or stop.''
     [(''gaps'', JInt (int gaps)), (''budget_remaining'', JInt left)] [''replan'', ''stop'']"

definition store_gap_steps ::
  "host \<Rightarrow> string \<Rightarrow> string \<Rightarrow> loaded list \<Rightarrow> (string \<times> string \<times> string) list \<Rightarrow> plan_step list run" where
  "store_gap_steps env aid org decls batch =
     bind_act (with_db (transaction (add_steps (map (\<lambda>gap i. gap_step (ht_checks env) (ht_make env) decls i org aid gap) batch)))) (\<lambda>ids.
     gets (\<lambda>s. reload_steps ids (en_db s)))"

fun maybe_replan ::
  "host \<Rightarrow> string \<Rightarrow> string \<Rightarrow> rat \<Rightarrow> auth_session list \<Rightarrow> loaded list \<Rightarrow> nat \<Rightarrow> int \<Rightarrow> unit run" where
  "maybe_replan env aid org deadline sessions decls 0 iteration = ret ()"
| "maybe_replan env aid org deadline sessions decls (Suc n) iteration =
     bind_act (stop_or_cancelled env aid deadline) (\<lambda>stop.
     if stop then ret ()
     else
       bind_act (on_client aid (gets cl_guard)) (\<lambda>g.
       if az_max_requests (g_record g) \<noteq> 0 \<and> g_requests_made g \<ge> az_max_requests (g_record g) then ret ()
       else
         bind_act (with_db (get_assessment aid)) (\<lambda>a.
         bind_act (with_db (fetch db_records az_id (a_authorization_id a) ''authorization'')) (\<lambda>record.
         bind_act (gets (\<lambda>s. coverage_gaps (ht_checks env) (ht_make env) decls g (remdups (az_allowed_check_classes record)) aid (en_db s))) (\<lambda>gaps.
         if gaps = [] then ret ()
         else
           bind_act (on_client aid (gets budget_left)) (\<lambda>left.
           bind_act (agent_decision env aid org ''coordinator'' (replan_task (length gaps) left) ''replan'') (\<lambda>d.
           if bd_action d = ''stop'' \<and> \<not> auto_replan_on_coverage_gap (ht_settings env) then ret ()
           else
             bind_act (store_gap_steps env aid org decls (py_upto (replan_batch (ht_settings env)) gaps)) (\<lambda>steps.
             bind_act (execute_step_batch env aid org deadline sessions decls steps) (\<lambda>found.
             bind_act (with_db (transaction (write_audit org (Some aid) ''system'' ''execution.replanned''
               [(''iteration'', JInt (iteration + 1)),
                (''gap_steps'', JInt (int (length (py_upto (replan_batch (ht_settings env)) gaps)))),
                (''new_findings'', JInt found)]))) (\<lambda>_.
             maybe_replan env aid org deadline sessions decls n (iteration + 1)))))))))))"

section \<open>The phase\<close>

definition no_execution :: "string \<Rightarrow> unit run" where
  "no_execution note = modify (\<lambda>s. s\<lparr>en_note := note\<rparr>)"

definition coordinator_task :: "nat \<Rightarrow> int \<Rightarrow> llm_budget option \<Rightarrow> brain_task" where
  "coordinator_task approved left ledger = phase_task ''coordinator'' ''Decide whether to continue into execution, stop, or replan.''
     [(''approved_steps'', JInt (int approved)), (''budget_remaining'', JInt left),
      (''llm_budget_exceeded'', JBool (case ledger of None \<Rightarrow> False | Some b \<Rightarrow> exceeded b)),
      (''llm_tokens_used'', JInt (case ledger of None \<Rightarrow> 0 | Some b \<Rightarrow> total_tokens b))] [''continue'', ''stop'', ''replan'']"

definition counts_dict :: "(string \<times> int) list \<Rightarrow> jv" where
  "counts_dict d = JDict (map (\<lambda>(k, n). (k, JInt n)) d)"

definition finding_signals :: "message_bus option \<Rightarrow> agent_message list" where
  "finding_signals bus = (case bus of None \<Rightarrow> [] | Some b \<Rightarrow> mb_queues b 0)"

definition audit_signals :: "string \<Rightarrow> string \<Rightarrow> agent_message list \<Rightarrow> unit run" where
  "audit_signals aid org signals =
     (if signals = [] then ret ()
      else with_db (transaction (write_audit org (Some aid) ''coordinator'' ''a2a.finding_signals''
        [(''messages'', JInt (int (length signals))),
         (''by_severity'', counts_dict (foldl (\<lambda>d m. count_in d (str_jv (jget_or (am_payload m) ''severity'' (JStr ''unknown'')))) [] signals))])))"

definition audit_stop :: "string \<Rightarrow> string \<Rightarrow> string \<Rightarrow> unit run" where
  "audit_stop aid org reason =
     (if reason = [] then ret ()
      else
        bind_act (no_execution (''partial:'' @ reason)) (\<lambda>_.
        bind_act (on_client aid (gets cl_consecutive_errors)) (\<lambda>n.
        with_db (transaction (write_audit org (Some aid) ''system'' ''execution.stopped''
          [(''reason'', JStr reason), (''health_errors'', JInt n)])))))"

definition finish_execution :: "string \<Rightarrow> string \<Rightarrow> pool_stats \<Rightarrow> (db, unit) act" where
  "finish_execution aid org st = transaction
     (bind_act (write_audit org (Some aid) ''system'' ''execution.completed''
        [(''agents'', JInt (ps_instantiated st)), (''findings'', JInt (ps_findings st)),
         (''brain_sources'', counts_dict (ps_brain_sources st)), (''by_role'', counts_dict (ps_by_role st))]) (\<lambda>_.
      bind_act (get_assessment aid) (\<lambda>_.
      set_assessment aid (\<lambda>x. x\<lparr>a_summary := dset (dset (a_summary x) ''agents_instantiated'' (JInt (ps_instantiated st)))
        ''brain_sources'' (counts_dict (ps_brain_sources st))\<rparr>))))"

definition run_steps :: "host \<Rightarrow> string \<Rightarrow> string \<Rightarrow> plan_step list \<Rightarrow> unit run" where
  "run_steps env aid org steps =
     bind_act (build_sessions env aid) (\<lambda>sessions.
     bind_act (start_controller env aid) (\<lambda>deadline.
     bind_act (with_db (get_assessment aid)) (\<lambda>_.
     bind_act (declaratives env aid org) (\<lambda>decls.
     bind_act (make_runners env aid sessions decls steps) (\<lambda>agents.
     let bus = snd (subscribe (new_bus 1000) ''findings'') in
     bind_act (stream_pool env aid org deadline (halt_reason env aid deadline) (length agents) agents
         (start_stream (Some bus) (length agents))) (\<lambda>(reason, sm).
     bind_act (if reason \<noteq> [] then ret (sm_bus sm)
         else retries env aid org deadline (nat (max_step_retries (ht_settings env))) 2 (sm_bus sm) (sm_errored sm)) (\<lambda>bus'.
     bind_act (audit_stop aid org reason) (\<lambda>_.
     bind_act (audit_signals aid org (finding_signals bus')) (\<lambda>_.
     bind_act (if reason \<noteq> [] then ret ()
         else maybe_replan env aid org deadline sessions decls (nat (max_replans (ht_settings env))) 0) (\<lambda>_.
     with_db (finish_execution aid org (sm_stats sm))))))))))))"

definition do_execute :: "host \<Rightarrow> string \<Rightarrow> string list \<Rightarrow> unit run" where
  "do_execute env aid ids =
     bind_act (gets (\<lambda>s. reload_steps ids (en_db s))) (\<lambda>steps.
     if steps = [] then no_execution ''no_execution:no_approved_steps''
     else
       bind_act (with_db (get_assessment aid)) (\<lambda>a.
       bind_act (on_client aid (gets budget_left)) (\<lambda>left.
       bind_act (gets (\<lambda>s. bs_budget (en_brain s))) (\<lambda>ledger.
       bind_act (agent_decision env aid (a_org_id a) ''coordinator'' (coordinator_task (length steps) left ledger) ''coordinate'') (\<lambda>d.
       if bd_action d = ''stop''
       then
         bind_act (no_execution ''no_execution:coordinator_stop'') (\<lambda>_.
         with_db (transaction (write_audit (a_org_id a) (Some aid) ''system'' ''execution.skipped''
           [(''reason'', JStr ''coordinator elected to stop''), (''brain_reasoning'', JStr (bd_reasoning d))])))
       else run_steps env aid (a_org_id a) steps)))))"

section \<open>The assessment's row stays\<close>

lemma keeps_run_agent: "keeps (kept aid) (run_agent env aid' bus r)"
proof -
  have "kept aid s ((put_client aid' c s)\<lparr>en_brain := b\<rparr>)" for c s b
    using put_client_kept [of aid s aid' c] by (simp add: kept_def)
  then show ?thesis
    by (auto simp: keeps_def run_agent_def kept_frame.refl split: option.splits prod.splits)
qed

lemma kept_cancelled: "keeps (kept aid) (with_db (cancelled aid'))"
  by (intro keeps_with_db row_transitions)

lemma keeps_stops:
  "keeps (kept aid) (past_deadline env aid' deadline)"
  "keeps (kept aid) (should_stop env aid' deadline)"
  "keeps (kept aid) (stop_or_cancelled env aid' deadline)"
  "keeps (kept aid) (halt_reason env aid' deadline)"
  "keeps (kept aid) (start_controller env aid')"
  unfolding past_deadline_def should_stop_def stop_or_cancelled_def halt_reason_def start_controller_def
  by (intro run_rules kept_cancelled)+

lemma keeps_make_runners: "keeps (kept aid) (make_runners env aid' sessions decls steps)"
  unfolding make_runners_def make_runner_def agent_ident_def
  by (intro run_rules keeps_with_db row_frame.keeps_fetch row_frame.keeps_new_id)

lemma row_set_finding:
  "keeps (row_kept aid) (set_finding fid f)"
  unfolding set_finding_def by (rule row_modify) simp

lemma row_persist_finding: "keeps (row_kept aid) (persist_finding sha1 ref_of org aid' step rf)"
  unfolding persist_finding_def endpoint_fp_of_def add_evidence_def Let_def
  by (intro row_rules row_frame.keeps_for_each row_modify; simp split: option.split list.split add: row_rules)

lemma row_audit_decisions: "keeps (row_kept aid) (audit_decisions org aid' actor ds)"
  unfolding audit_decisions_def by (intro row_rules row_frame.keeps_for_each)

lemma row_persist_agent_result: "keeps (row_kept aid) (persist_agent_result sha1 ref_of org aid' step result attempts)"
  unfolding persist_agent_result_def mark_step_def
  by (intro row_rules row_audit_decisions row_set_step row_frame.keeps_for_each row_persist_finding row_modify) simp

lemma keeps_keep_result: "keeps (kept aid) (keep_result env aid' org attempts r res)"
  unfolding keep_result_def by (intro run_rules keeps_with_db row_persist_agent_result)

lemma keeps_enter_pool: "keeps (kept aid) (enter_pool env aid' deadline sm r)"
  unfolding enter_pool_def by (intro run_rules keeps_stops keeps_pair keeps_run_agent)

lemma keeps_operators_act: "keeps (kept aid) (operators_act env aid' moment)"
  unfolding operators_act_def by (rule kept_operates)

lemma keeps_stream_pool:
  assumes "\<And>aid. keeps (kept aid) halt"
  shows "keeps (kept aid) (stream_pool env aid' org deadline halt n waiting sm)"
proof (induction n arbitrary: waiting sm)
  case 0
  then show ?case by (simp only: stream_pool.simps kept_frame.keeps_ret)
next
  case (Suc n)
  show ?case
    unfolding stream_pool.simps Let_def
    by (intro run_rules keeps_pair keeps_enter_pool keeps_operators_act keeps_keep_result assms Suc.IH)
qed

lemma keeps_retry_round: "keeps (kept aid) (retry_round env aid' org attempt bus rs)"
proof (induction rs arbitrary: bus)
  case Nil
  then show ?case by (simp only: retry_round.simps kept_frame.keeps_ret)
next
  case (Cons r rs)
  show ?case
    unfolding retry_round.simps
    by (intro run_rules keeps_pair keeps_run_agent keeps_keep_result Cons.IH)
qed

lemma keeps_retries: "keeps (kept aid) (retries env aid' org deadline n attempt bus errored)"
proof (induction n arbitrary: attempt bus errored)
  case 0
  then show ?case by (simp only: retries.simps kept_frame.keeps_ret)
next
  case (Suc n)
  show ?case
    unfolding retries.simps
    by (intro run_rules keeps_pair keeps_stops keeps_retry_round Suc.IH)
qed

lemma keeps_batch: "keeps (kept aid) (execute_step_batch env aid' org deadline sessions decls steps)"
  unfolding execute_step_batch_def
  by (intro run_rules keeps_make_runners keeps_stream_pool keeps_pair keeps_stops)

lemma keeps_store_gap_steps: "keeps (kept aid) (store_gap_steps env aid' org decls batch)"
  unfolding store_gap_steps_def by (intro run_rules keeps_with_db row_rules keeps_add_steps)

lemma keeps_maybe_replan: "keeps (kept aid) (maybe_replan env aid' org deadline sessions decls n iteration)"
proof (induction n arbitrary: iteration)
  case 0
  then show ?case by (simp only: maybe_replan.simps kept_frame.keeps_ret)
next
  case (Suc n)
  show ?case
    unfolding maybe_replan.simps
    by (intro run_rules keeps_stops keeps_with_db row_get_assessment row_frame.keeps_fetch keeps_store_gap_steps keeps_batch Suc.IH)
qed

lemma keeps_notes:
  "keeps (kept aid) (no_execution n)"
  "keeps (kept aid) (audit_signals aid' org signals)"
  "keeps (kept aid) (audit_stop aid' org reason)"
  unfolding no_execution_def audit_signals_def audit_stop_def by (intro run_rules kept_modify; simp)+

lemma row_finish_execution: "keeps (row_kept aid) (finish_execution aid' org st)"
  unfolding finish_execution_def by (intro row_rules row_get_assessment) simp

lemma keeps_run_steps: "keeps (kept aid) (run_steps env aid' org steps)"
  unfolding run_steps_def Let_def
  by (intro run_rules keeps_pair keeps_stops keeps_with_db row_get_assessment keeps_make_runners keeps_stream_pool
      keeps_retries keeps_notes keeps_maybe_replan row_finish_execution)

lemma keeps_do_execute: "keeps (kept aid) (do_execute env aid' ids)"
  unfolding do_execute_def
  by (intro run_rules keeps_with_db row_get_assessment keeps_run_steps keeps_notes)

end
