(* ===== verification/Engine.thy ===== *)
theory Engine
  imports Execution Validation
begin

text \<open>
  The last phases of \<open>app/orchestration/engine.py\<close>, the eight phases put together, and the execution of steps an
  operator approved after the run. The contract of the driver in \<open>Lifecycle\<close> is discharged for these phases.
\<close>

section \<open>Validation\<close>

definition validate_on_client ::
  "host \<Rightarrow> string \<Rightarrow> dict \<Rightarrow> auth_session list \<Rightarrow> (http_client agent_state, validation_outcome) act" where
  "validate_on_client env cls repro sessions s =
     (case validate_finding (ht_rx env) (guarded_web (ht_world env)) cls repro sessions (as_work s) of
        (r, c) \<Rightarrow> (r, s\<lparr>as_work := c\<rparr>))"

definition run_validator ::
  "host \<Rightarrow> string \<Rightarrow> string \<Rightarrow> string \<Rightarrow> dict \<Rightarrow> auth_session list \<Rightarrow> (validation_outcome option \<times> decision_record list) run" where
  "run_validator env aid ident cls repro sessions s = (case en_client s of
     None \<Rightarrow> (Inl (RuntimeError ''client not opened''), s)
   | Some c \<Rightarrow>
       (case agent_validate (ht_decide env) ident aid (Some (Inr (budget_left c)))
            [(''check_class'', JStr cls), (''detector'', jget_or repro ''detector'' (JStr []))]
            (validate_on_client env cls repro sessions) \<lparr>as_brain = en_brain s, as_decisions = [], as_work = c\<rparr> of
          (r, t) \<Rightarrow>
            (Inr (case r of Inl e \<Rightarrow> None | Inr out \<Rightarrow> Some out, as_decisions t),
             (put_client aid (as_work t) s)\<lparr>en_brain := as_brain t\<rparr>)))"

fun validate_all :: "host \<Rightarrow> string \<Rightarrow> string \<Rightarrow> auth_session list \<Rightarrow> (string \<times> string \<times> dict) list \<Rightarrow> unit run" where
  "validate_all env aid org sessions [] = ret ()"
| "validate_all env aid org sessions ((fid, cls, repro) # rest) =
     bind_act (with_db (cancelled aid)) (\<lambda>stop.
     if stop then ret ()
     else
       bind_act (agent_ident ''validator'') (\<lambda>ident.
       bind_act (run_validator env aid ident cls repro sessions) (\<lambda>(out, ds).
       bind_act (with_db (persist_outcome org aid fid ident out ds)) (\<lambda>_.
       validate_all env aid org sessions rest))))"

definition suspected :: "string \<Rightarrow> db \<Rightarrow> (string \<times> string \<times> dict) list" where
  "suspected aid d = map (\<lambda>f. (fd_id f, fd_check_class f, fd_reproduction f))
     (filter (\<lambda>f. fd_status f = finding_status_value SUSPECTED) (findings_of aid d))"

definition do_validate :: "host \<Rightarrow> string \<Rightarrow> unit run" where
  "do_validate env aid =
     bind_act (with_db (get_assessment aid)) (\<lambda>a.
     bind_act (gets (\<lambda>s. suspected aid (en_db s))) (\<lambda>work.
     bind_act (if list_ex (\<lambda>(_, cls, _). cls = ''bola'') work then build_sessions env aid else ret []) (\<lambda>sessions.
     validate_all env aid (a_org_id a) sessions work)))"

section \<open>Scoring and report\<close>

definition do_score :: "host \<Rightarrow> string \<Rightarrow> unit run" where
  "do_score env aid = with_db (phase_score (check_classes (ht_checks env)) aid)"

definition reporter_task :: "string \<Rightarrow> nat \<Rightarrow> nat \<Rightarrow> brain_task" where
  "reporter_task aid confirmed found = phase_task ''reporter''
     (''Choose the report emphasis: '' @ py_repr ''risk-first'' @ '' leads with confirmed findings; ''
        @ py_repr ''coverage-first'' @ '' leads with tested/untested surface.'')
     [(''assessment_id'', JStr aid), (''confirmed_findings'', JInt (int confirmed)), (''total_findings'', JInt (int found))]
     reporter_emphases"

definition do_report :: "host \<Rightarrow> string \<Rightarrow> unit run" where
  "do_report env aid =
     bind_act (with_db (get_assessment aid)) (\<lambda>a.
     bind_act (gets (\<lambda>s. findings_of aid (en_db s))) (\<lambda>fs.
     bind_act (agent_decision env aid (a_org_id a) ''reporter''
       (reporter_task aid (length (filter (\<lambda>f. fd_status f = finding_status_value CONFIRMED) fs)) (length fs)) ''report'') (\<lambda>d.
     let emphasis = (if bd_action d \<in> set reporter_emphases then bd_action d else ''risk-first'') in
     with_db (transaction
       (bind_act (get_assessment aid) (\<lambda>_.
        bind_act (set_assessment aid (\<lambda>x. x\<lparr>a_summary := dset (a_summary x) ''report_emphasis'' (JStr emphasis)\<rparr>)) (\<lambda>_.
        write_audit (a_org_id a) (Some aid) ''system'' ''reporting.ready'' [(''emphasis'', JStr emphasis)])))))))"

section \<open>The phases of a run\<close>

definition engine_phases :: "host \<Rightarrow> string \<Rightarrow> http_client phases" where
  "engine_phases env aid =
     \<lparr>ph_open = open_client env, ph_discovery = do_discovery env aid, ph_planning = do_planning env aid,
      ph_policy = do_policy env aid True, ph_execute = do_execute env aid, ph_validate = do_validate env aid,
      ph_score = do_score env aid, ph_report = do_report env aid\<rparr>"

section \<open>Steps approved after the run\<close>

definition block_step :: "string \<Rightarrow> plan_step \<Rightarrow> (db, unit) act" where
  "block_step reason s =
     bind_act (fetch db_steps ps_id (ps_id s) ''planstep'') (\<lambda>_.
     set_step (ps_id s) (\<lambda>x. x\<lparr>ps_status := ''skipped'',
       ps_policy_decision := dset (ps_policy_decision x) ''post_approval_block'' (JStr reason)\<rparr>))"

definition on_scope_violation :: "'a run \<Rightarrow> 'a \<Rightarrow> 'a run" where
  "on_scope_violation m x = catch_act m (\<lambda>e. case e of ScopeViolation _ _ _ \<Rightarrow> ret x | _ \<Rightarrow> raise_exn e)"

definition approved_batch :: "host \<Rightarrow> string \<Rightarrow> string \<Rightarrow> plan_step list \<Rightarrow> int run" where
  "approved_batch env aid org steps =
     bind_act (build_sessions env aid) (\<lambda>sessions.
     bind_act (start_controller env aid) (\<lambda>deadline.
     bind_act (declaratives env aid org) (\<lambda>decls.
     execute_step_batch env aid org deadline sessions decls steps)))"

definition execute_approved_steps :: "host \<Rightarrow> string \<Rightarrow> string list \<Rightarrow> int run" where
  "execute_approved_steps env aid ids =
     bind_act (gets (\<lambda>s. filter (\<lambda>x. ps_status x = ''approved'') (reload_steps ids (en_db s)))) (\<lambda>steps.
     if steps = [] then ret 0
     else
       bind_act (with_db (make_guard (ht_settings env) aid)) (\<lambda>g.
       bind_act (with_db clock) (\<lambda>now.
       let precheck = check_record_active g (dt_us now) in
       bind_act (with_db (get_assessment aid)) (\<lambda>a.
       if \<not> sd_allowed precheck \<or> a_org_id a = []
       then bind_act (with_db (transaction (for_each (block_step (sd_reason precheck)) steps))) (\<lambda>_. ret 0)
       else
         bind_act (lift_sum (open_client env g)) (\<lambda>c.
         bind_act (modify (\<lambda>s. s\<lparr>en_client := Some c\<rparr>)) (\<lambda>_.
         on_scope_violation
           (bind_act (approved_batch env aid (a_org_id a) steps) (\<lambda>found.
            on_scope_violation
              (bind_act (do_validate env aid) (\<lambda>_.
               bind_act (do_score env aid) (\<lambda>_.
               bind_act (with_db (transaction (write_audit (a_org_id a) (Some aid) ''system'' ''execution.approved_steps''
                 [(''steps'', JList (map (JStr \<circ> ps_id) steps)), (''new_findings'', JInt found)]))) (\<lambda>_. ret found))))
              found)) 0))))))"

section \<open>The phases keep the contract of the driver\<close>

lemma keeps_run_validator: "keeps (kept aid) (run_validator env aid' ident cls repro sessions)"
proof -
  have "kept aid s ((put_client aid' c s)\<lparr>en_brain := b\<rparr>)" for c s b
    using put_client_kept [of aid s aid' c] by (simp add: kept_def)
  then show ?thesis
    by (auto simp: keeps_def run_validator_def kept_frame.refl split: option.splits prod.splits)
qed

lemma row_persist_outcome: "keeps (row_kept aid) (persist_outcome org aid' fid agent_id out ds)"
  unfolding persist_outcome_def add_validation_evidence_def Let_def
  by (intro row_rules row_set_finding row_audit_decisions row_modify keeps_pair; simp)

lemma keeps_validate_all: "keeps (kept aid) (validate_all env aid' org sessions work)"
proof (induction work)
  case Nil
  then show ?case by (simp only: validate_all.simps kept_frame.keeps_ret)
next
  case (Cons w work)
  obtain fid cls repro where w: "w = (fid, cls, repro)" by (cases w) auto
  show ?case
    unfolding w validate_all.simps agent_ident_def
    by (intro run_rules kept_cancelled keeps_with_db row_frame.keeps_new_id keeps_pair keeps_run_validator
        row_persist_outcome Cons.IH)
qed

lemma keeps_do_validate: "keeps (kept aid) (do_validate env aid')"
  unfolding do_validate_def by (intro run_rules keeps_with_db row_get_assessment keeps_validate_all)

lemma row_store_risk: "keeps (row_kept aid) (store_risk aid' org endpoints steps)"
  unfolding store_risk_def by (intro row_rules) simp

lemma row_store_coverage: "keeps (row_kept aid) (store_coverage aid' org classes endpoints steps)"
  unfolding store_coverage_def add_coverage_def
  by (intro row_rules row_frame.keeps_for_each row_modify) simp

lemma row_phase_score: "keeps (row_kept aid) (phase_score classes aid')"
  unfolding phase_score_def apply_known_false_positives_def store_scores_def
  by (intro row_rules row_get_assessment row_modify row_store_risk row_store_coverage; simp)

lemma keeps_do_score: "keeps (kept aid) (do_score env aid')"
  unfolding do_score_def by (intro keeps_with_db row_phase_score)

lemma keeps_do_report: "keeps (kept aid) (do_report env aid')"
  unfolding do_report_def Let_def
  by (intro run_rules keeps_with_db row_rules row_get_assessment) simp

interpretation live: live_phases aid' "engine_phases env aid" for aid' env aid
  by unfold_locales
    (simp_all only: engine_phases_def phases.simps keeps_do_discovery keeps_do_planning keeps_do_policy keeps_do_execute
      keeps_do_validate keeps_do_score keeps_do_report)

end
