(* ===== verification/Callers.thy ===== *)
theory Callers
  imports Engine
begin

text \<open>
  What may call a target: the built-in and the declarative checks, the crawler and the validators. The locale
  \<open>callers\<close> states what they rely on, a relation between states that every call and every draw of a random token
  keeps, and proves that they keep it too: their only effect is through the client they are given.
\<close>

definition check_keeps :: "('s \<Rightarrow> 's \<Rightarrow> bool) \<Rightarrow> 's check \<Rightarrow> bool" where
  "check_keeps R c \<longleftrightarrow> (\<forall>ctx. keeps R (ck_applies c ctx) \<and> keeps R (ck_run c ctx))"

lemma registered_mem: "(n, c) \<in> set (foldl register_check r cs) \<Longrightarrow> c \<in> set cs \<or> (\<exists>m. (m, c) \<in> set r)"
proof (induction cs arbitrary: r)
  case (Cons k cs)
  from Cons.IH [of "register_check r k"] Cons.prems show ?case
    by (auto simp: register_check_def dest: dset_mem)
qed auto

locale callers = frame R for R :: "'s \<Rightarrow> 's \<Rightarrow> bool" +
  fixes web :: "'s web" and fresh :: "('s, string) act"
  assumes web: "keeps R (web c)" and fresh: "keeps R fresh"
begin

lemma keeps_unreachable: "keeps R m \<Longrightarrow> (\<And>msg. keeps R (h msg)) \<Longrightarrow> keeps R (unless_unreachable m h)"
  by (rule keeps_unless_unreachable) (auto intro: frame_axioms)

lemma keeps_scope_handler:
  "(\<And>m c d. keeps R (f m c d)) \<Longrightarrow> (\<And>m. keeps R (g m)) \<Longrightarrow>
   keeps R (case e of ScopeViolation m c d \<Rightarrow> f m c d | TargetUnreachable m \<Rightarrow> g m | _ \<Rightarrow> raise_exn e)"
  by (cases e) (simp_all add: keeps_raise)

lemma keeps_violation_handler:
  "(\<And>m c d. keeps R (f m c d)) \<Longrightarrow> keeps R (case e of ScopeViolation m c d \<Rightarrow> f m c d | _ \<Rightarrow> raise_exn e)"
  by (cases e) (simp_all add: keeps_raise)

lemma keeps_try_call: "keeps R (try_call web c)"
  unfolding try_call_def by (intro keeps_unreachable keeps_bind web keeps_ret)

lemmas call_rules = keeps_bind keeps_if keeps_option keeps_pair keeps_ret keeps_lift web fresh keeps_try_call

lemma keeps_probe_each: "(\<And>p. keeps R (probe p)) \<Longrightarrow> keeps R (probe_each probe ps)"
  by (induction ps) (simp_all only: probe_each.simps call_rules)

subsection \<open>The checks\<close>

lemma keeps_bola_pairs: "keeps R (bola_pairs web ctx ps)"
proof (induction ps)
  case (Cons p ps)
  obtain attacker victim where p: "p = (attacker, victim)" by fastforce
  show ?case
    unfolding p bola_pairs.simps bola_attempt_def
    by (intro call_rules Cons.IH)
qed (simp only: bola_pairs.simps keeps_ret)

lemma keeps_bounds_values: "keeps R (bounds_values web ctx name baseline vs)"
proof (induction vs)
  case (Cons v vs)
  show ?case unfolding bounds_values.simps by (intro call_rules Cons.IH)
qed (simp only: bounds_values.simps keeps_ret)

lemma keeps_bounds_probe: "keeps R (bounds_probe web ctx p)"
  unfolding bounds_probe_def by (intro call_rules keeps_bounds_values)

lemma keeps_sqli_error_probes: "keeps R (sqli_error_probes web ctx name ps)"
proof (induction ps)
  case (Cons p ps)
  show ?case unfolding sqli_error_probes.simps by (intro call_rules Cons.IH)
qed (simp only: sqli_error_probes.simps keeps_ret)

lemma keeps_sqli_probe: "keeps R (sqli_probe web ctx p)"
  unfolding sqli_probe_def sqli_boolean_probe_def by (intro call_rules keeps_sqli_error_probes)

lemma keeps_xss_probe: "keeps R (xss_probe web fresh ctx p)"
  unfolding xss_probe_def by (intro call_rules)

lemma keeps_gated_call: "keeps R (gated_call web c)"
  unfolding gated_call_def by (intro keeps_catch keeps_bind web keeps_ret keeps_scope_handler)

lemma keeps_gated: "(\<And>r. keeps R (f r)) \<Longrightarrow> keeps R m \<Longrightarrow> keeps R n \<Longrightarrow>
    keeps R (case g of Answered r \<Rightarrow> f r | Blocked \<Rightarrow> m | Unreachable \<Rightarrow> n)"
  by (cases g) simp_all

lemma keeps_redirect_probe: "keeps R (redirect_probe web ctx p)"
  unfolding redirect_probe_def Let_def by (intro call_rules keeps_gated_call keeps_gated)

lemma keeps_flow_steps: "keeps R (flow_steps web origin watched ss vars seen ev)"
proof (induction ss arbitrary: vars seen ev)
  case (Cons s ss)
  show ?case unfolding flow_steps.simps Let_def by (intro call_rules Cons.IH)
qed (simp only: flow_steps.simps keeps_ret)

lemma builtin_keeps: "(n, c) \<in> set (builtin_checks web fresh) \<Longrightarrow> check_keeps R c"
proof -
  have "check_keeps R (bola_check web)" "check_keeps R (bounds_check web)" "check_keeps R (flow_check web)"
    "check_keeps R (headers_check web)" "check_keeps R (prompt_check web)" "check_keeps R (redirect_check web)"
    "check_keeps R (sqli_check web)" "check_keeps R (xss_check web fresh)"
    unfolding check_keeps_def bola_check_def bounds_check_def flow_check_def headers_check_def prompt_check_def
      redirect_check_def sqli_check_def xss_check_def check.simps flow_run_def prompt_run_def Let_def
    by (intro allI conjI call_rules keeps_bola_pairs keeps_probe_each keeps_bounds_probe keeps_flow_steps
        keeps_sqli_probe keeps_xss_probe keeps_redirect_probe)+
  moreover assume "(n, c) \<in> set (builtin_checks web fresh)"
  then have "c \<in> set [bola_check web, bounds_check web, flow_check web, headers_check web, prompt_check web,
      redirect_check web, sqli_check web, xss_check web fresh]"
    unfolding builtin_checks_def using registered_mem by fastforce
  ultimately show ?thesis by auto
qed

lemma keeps_try_payloads: "keeps R (try_payloads web ctx name hit ps)"
proof (induction ps)
  case (Cons p ps)
  show ?case unfolding try_payloads.simps by (intro call_rules Cons.IH)
qed (simp only: try_payloads.simps keeps_ret)

lemma keeps_try_params: "keeps R (try_params web ctx hit payloads ps)"
proof (induction ps)
  case (Cons p ps)
  show ?case unfolding try_params.simps by (intro call_rules keeps_try_payloads Cons.IH)
qed (simp only: try_params.simps keeps_ret)

lemma keeps_reflection_params: "keeps R (reflection_params web fresh c ctx template ps)"
proof (induction ps)
  case (Cons p ps)
  show ?case unfolding reflection_params.simps by (intro call_rules Cons.IH)
qed (simp only: reflection_params.simps keeps_ret)

lemma declarative_keeps: "check_keeps R (declarative_check engine web fresh d)"
  unfolding check_keeps_def declarative_check_def check.simps declarative_run_def run_error_signature_def
    run_reflection_def run_status_code_def run_header_presence_def run_header_reflects_def Let_def
  by (intro allI conjI keeps_unreachable call_rules keeps_try_params keeps_reflection_params)

subsection \<open>Crawler and validators\<close>

lemma keeps_visit: "keeps R (visit web url)"
  unfolding visit_def by (intro keeps_catch keeps_bind web keeps_ret keeps_scope_handler)

lemma keeps_crawl_loop: "w = web \<Longrightarrow> keeps R (crawl_loop w sh mp md queue seen eps warns)"
proof (induction w sh mp md queue seen eps warns rule: crawl_loop.induct)
  case (1 w sh mp md queue seen eps warns)
  show ?case
  proof (cases queue)
    case Nil
    show ?thesis unfolding Nil by (subst crawl_loop.simps) (simp only: list.case keeps_ret)
  next
    case (Cons p rest)
    obtain url depth where p: "p = (url, depth)" by fastforce
    note again = "1.IH" [OF Cons p [symmetric]]
    show ?thesis
      unfolding Cons p "1.prems"
      by (subst crawl_loop.simps, simp only: list.case prod.case)
        (intro keeps_if keeps_ret keeps_bind keeps_lift keeps_visit keeps_sum keeps_pair;
          (rule again [unfolded "1.prems"], (assumption | rule HOL.refl "1.prems")+))
  qed
qed

lemma keeps_crawl: "keeps R (crawl web url mp md)"
  unfolding crawl_def by (intro keeps_bind keeps_lift keeps_crawl_loop) simp

lemma keeps_replay: "keeps R (replay web repro v)"
  unfolding replay_def by (rule web)

lemma keeps_replay_steps: "keeps R (replay_steps web origin watched ss vars seen)"
proof (induction ss arbitrary: vars seen)
  case (Cons s ss)
  show ?case unfolding replay_steps.simps by (intro call_rules keeps_sum Cons.IH)
qed (simp only: replay_steps.simps keeps_ret)

lemmas validator_rules = call_rules keeps_replay keeps_replay_steps

lemma keeps_open_redirect: "keeps R (validate_open_redirect web repro)"
  unfolding validate_open_redirect_def Let_def
  by (intro validator_rules keeps_catch keeps_violation_handler)

lemma keeps_validate_finding: "keeps R (validate_finding engine web cls repro sessions)"
  unfolding validate_finding_def validate_class_def validate_sqli_def validate_sqli_error_def validate_sqli_boolean_def
    validate_xss_def validate_bola_def validate_business_logic_def validate_business_flow_def validate_prompt_injection_def
    validate_headers_def validate_declarative_def validate_status_code_def validate_error_signature_def
    validate_reflection_def Let_def
  by (intro keeps_catch keeps_scope_handler validator_rules keeps_open_redirect)

end

end
