(* ===== verification/Traffic.thy ===== *)
theory Traffic
  imports Callers
begin

text \<open>
  What a whole run may send. The built-in checks, the declarative checks, the crawler and the validators reach the
  network only through the guarded client; so does every phase of the engine. Whatever the brain decides, the target
  answers, the artifacts say and the operators do, the requests of a run are authorized by the record it started
  with and stay within its budget.
\<close>

section \<open>What the guarded client does to itself\<close>

definition traffic :: "world \<Rightarrow> http_client \<Rightarrow> http_client \<Rightarrow> bool" where
  "traffic w c c' \<longleftrightarrow> (\<exists>reqs k.
     cl_sent c' = cl_sent c @ reqs \<and> cl_guard c' = note_requests (int k) (cl_guard c) \<and> length reqs \<le> k \<and>
     (\<forall>req \<in> set reqs. authorized_request w (cl_guard c) req) \<and>
     (budget_limit (cl_guard c) = 0 \<or> k = 0 \<or> g_requests_made (cl_guard c) + int k \<le> budget_limit (cl_guard c)))"

lemma traffic_refl: "cl_sent c' = cl_sent c \<Longrightarrow> cl_guard c' = cl_guard c \<Longrightarrow> traffic w c c'"
  unfolding traffic_def by (intro exI [of _ "[]"] exI [of _ 0]) (simp add: note_requests_def)

lemma budget_limit_note: "budget_limit (note_requests n g) = budget_limit g"
  by (simp add: budget_limit_def note_requests_def)

lemma requests_made_note: "g_requests_made (note_requests n g) = g_requests_made g + n"
  by (simp add: note_requests_def)

lemma traffic_trans:
  assumes "traffic w c t" "traffic w t u"
  shows "traffic w c u"
proof -
  obtain rs k where k: "cl_sent t = cl_sent c @ rs" "cl_guard t = note_requests (int k) (cl_guard c)" "length rs \<le> k"
    "\<forall>req \<in> set rs. authorized_request w (cl_guard c) req"
    "budget_limit (cl_guard c) = 0 \<or> k = 0 \<or> g_requests_made (cl_guard c) + int k \<le> budget_limit (cl_guard c)"
    using assms(1) unfolding traffic_def by blast
  obtain qs l where l: "cl_sent u = cl_sent t @ qs" "cl_guard u = note_requests (int l) (cl_guard t)" "length qs \<le> l"
    "\<forall>req \<in> set qs. authorized_request w (cl_guard t) req"
    "budget_limit (cl_guard t) = 0 \<or> l = 0 \<or> g_requests_made (cl_guard t) + int l \<le> budget_limit (cl_guard t)"
    using assms(2) unfolding traffic_def by blast
  have auth: "\<forall>req \<in> set (rs @ qs). authorized_request w (cl_guard c) req"
    using k(4) l(4) by (auto simp: k(2))
  have "budget_limit (cl_guard c) = 0 \<or> k + l = 0 \<or> g_requests_made (cl_guard c) + int (k + l) \<le> budget_limit (cl_guard c)"
    using k(5) l(5) by (auto simp: k(2) budget_limit_note requests_made_note)
  with k l auth show ?thesis
    unfolding traffic_def
    by (intro exI [of _ "rs @ qs"] exI [of _ "k + l"]) (simp add: note_requests_add)
qed

interpretation traffic_frame: frame "traffic w" for w
  by unfold_locales (auto intro: traffic_refl traffic_trans)

lemma quiet_traffic: "keeps quiet m \<Longrightarrow> keeps (traffic w) m"
  by (auto simp: keeps_def quiet_def intro: traffic_refl)

lemma traffic_request: "keeps (traffic w) (guarded_web w c)"
  unfolding keeps_def
proof
  fix s
  obtain r s' where run: "guarded_web w c s = (r, s')" by fastforce
  from request_progress [OF run [unfolded guarded_web_def]]
  show "traffic w s (snd (guarded_web w c s))"
  proof (elim disjE exE conjE)
    assume "quiet s s'"
    then show ?thesis unfolding run by (simp add: traffic_refl quiet_def)
  next
    fix s2
    assume b: "sd_allowed (check_budget (cl_guard s) 1)"
      and s2: "cl_guard s2 = note_requests 1 (cl_guard s)" "cl_sent s2 = cl_sent s"
      and p: "progress w (nat (ca_max_redirects c)) s2 s'"
    then obtain k reqs where k: "cl_guard s' = note_requests (int k) (cl_guard s2)" "cl_sent s' = cl_sent s2 @ reqs"
      "length reqs \<le> Suc k" "\<forall>req \<in> set reqs. authorized_request w (cl_guard s2) req"
      "budget_limit (cl_guard s2) = 0 \<or> k = 0 \<or> g_requests_made (cl_guard s2) + int k \<le> budget_limit (cl_guard s2)"
      unfolding progress_def by blast
    then show ?thesis
      unfolding run traffic_def snd_conv using s2 b
      by (intro exI [of _ reqs] exI [of _ "Suc k"])
        (auto simp: note_requests_add budget_limit_note requests_made_note check_budget_iff)
  qed
qed

lemma traffic_observe: "keeps (traffic w) (observe f)"
  by (rule quiet_traffic [OF quiet_observe])

lemma traffic_scope_check: "keeps (traffic w) (scope_check w m url red)"
  by (rule quiet_traffic [OF quiet_scope_check])

interpretation guarded: callers "traffic w" "guarded_web w" "observe tokens" for w tokens
  by unfold_locales (auto intro: traffic_request traffic_observe)

section \<open>The program's checks\<close>

definition program_host :: "(nat \<Rightarrow> string) \<Rightarrow> host \<Rightarrow> host" where
  "program_host tokens env =
     env\<lparr>ht_checks := builtin_checks (guarded_web (ht_world env)) (observe tokens),
         ht_make := declarative_check (ht_rx env) (guarded_web (ht_world env)) (observe tokens)\<rparr>"

definition host_ok :: "host \<Rightarrow> bool" where
  "host_ok env \<longleftrightarrow> (\<forall>(n, c) \<in> set (ht_checks env). check_keeps (traffic (ht_world env)) c) \<and>
     (\<forall>d. check_keeps (traffic (ht_world env)) (ht_make env d))"

lemma program_host_ok: "host_ok (program_host tokens env)"
  by (auto simp: host_ok_def program_host_def guarded.declarative_keeps intro: guarded.builtin_keeps)

lemma resolved_keeps:
  assumes "host_ok env" "resolve_check (ht_checks env) (ht_make env) decls name cls = Some rn"
  shows "check_keeps (traffic (ht_world env)) (rn_check rn)"
proof -
  have pick: "check_keeps (traffic (ht_world env)) (rn_check rn)" if "pick_check (ht_checks env) cls = Some rn"
  proof -
    from that obtain c cs where c: "by_class (ht_checks env) cls = c # cs" "rn = \<lparr>rn_check = c, rn_declared = None\<rparr>"
      by (auto simp: pick_check_def split: list.splits)
    then have "c \<in> set (by_class (ht_checks env) cls)" by simp
    then show ?thesis using assms(1) c(2) by (auto simp: by_class_def all_checks_def host_ok_def)
  qed
  show ?thesis
  proof (cases "name = [] \<or> (get_check (ht_checks env) name = None \<and> List.find (\<lambda>(spec, d). dc_name d = name) decls = None)")
    case True
    with assms(2) have "pick_check (ht_checks env) cls = Some rn" by (auto simp: resolve_check_def split: if_splits)
    then show ?thesis by (rule pick)
  next
    case False
    show ?thesis
    proof (cases "get_check (ht_checks env) name")
      case None
      with False obtain spec d where "List.find (\<lambda>(spec, d). dc_name d = name) decls = Some (spec, d)" by auto
      with None False assms show ?thesis by (auto simp: resolve_check_def host_ok_def)
    next
      case (Some c)
      then have "(name, c) \<in> set (ht_checks env)" unfolding get_check_def by (rule dget_mem)
      with Some False assms show ?thesis by (auto simp: resolve_check_def host_ok_def)
    qed
  qed
qed

section \<open>Agents\<close>

definition work_traffic :: "world \<Rightarrow> http_client check_work agent_state \<Rightarrow> http_client check_work agent_state \<Rightarrow> bool" where
  "work_traffic w s s' \<longleftrightarrow> traffic w (cw_world (as_work s)) (cw_world (as_work s'))"

interpretation work_frame: frame "work_traffic w" for w
  by unfold_locales (auto simp: work_traffic_def intro: traffic_frame.refl traffic_frame.trans)

lemma work_modify_keeps:
  "(\<And>x. cw_world (f x) = cw_world x) \<Longrightarrow> keeps (work_traffic w) (work_modify f)"
  unfolding work_modify_def by (rule work_frame.keeps_modify) (simp add: work_traffic_def traffic_frame.refl)

lemma work_on_world: "keeps (traffic w) m \<Longrightarrow> keeps (work_traffic w) (on_world m)"
  by (auto simp: keeps_def on_world_def work_traffic_def split: prod.splits) (metis snd_conv)

lemma work_note: "keeps (work_traffic w) (note_decision d)"
  unfolding note_decision_def by (rule work_frame.keeps_modify) (simp add: work_traffic_def traffic_frame.refl)

lemma work_consult: "keeps (work_traffic w) (consult decide ident role task phase)"
  unfolding consult_def count_consult_def
  by (intro work_frame.keeps_bind work_frame.keeps_ret work_note work_frame.keeps_modify)
    (auto simp: keeps_def ask_brain_def work_traffic_def traffic_frame.refl split: prod.splits)

lemma work_act:
  assumes "check_keeps (traffic w) c"
  shows "keeps (work_traffic w) (specialist_act reg aid ident c d)"
proof -
  have c: "keeps (traffic w) (ck_applies c ctx)" "keeps (traffic w) (ck_run c ctx)" for ctx
    using assms by (auto simp: check_keeps_def)
  show ?thesis
    unfolding specialist_act_def hooked_run_def run_check_def
    by (intro work_frame.keeps_if work_frame.keeps_bind work_frame.keeps_ret work_frame.keeps_gets work_frame.keeps_lift
        work_modify_keeps work_on_world work_note c)
      (simp_all add: deepen_def set_parameters_def)
qed

lemma work_verify: "keeps (work_traffic w) (specialist_verify ident fs)"
  unfolding specialist_verify_def Let_def
  by (intro work_frame.keeps_bind work_frame.keeps_ret work_modify_keeps) (simp add: publish_findings_def)

lemma work_loop:
  assumes "\<And>d. keeps (work_traffic w) (ag_act a d)" "\<And>fs. keeps (work_traffic w) (ag_verify a fs)"
  shows "keeps (work_traffic w) (agent_loop decide a left step observation)"
proof (induction left arbitrary: step observation)
  case 0
  show ?case by (simp only: agent_loop.simps work_frame.keeps_ret)
next
  case (Suc left)
  show ?case
    unfolding agent_loop.simps
    by (intro work_frame.keeps_bind work_frame.keeps_if work_frame.keeps_ret work_frame.keeps_gets work_consult assms Suc.IH)
qed

lemma agent_run_traffic:
  assumes "check_keeps (traffic w) c"
  shows "work_traffic w s (snd (agent_run decide (engine_specialist env aid ident c) s))"
proof -
  let ?a = "engine_specialist env aid ident c"
  have "keeps (work_traffic w) (agent_loop decide ?a (nat (ag_max_steps ?a)) 0 [])"
    by (rule work_loop) (simp_all add: engine_specialist_def work_act [OF assms] work_verify)
  then show ?thesis by (auto simp: agent_run_def keeps_def split: prod.splits sum.splits) (metis snd_conv)+
qed

section \<open>Results that a computation can have\<close>

definition gives :: "('a \<Rightarrow> bool) \<Rightarrow> ('s, 'a) act \<Rightarrow> bool" where
  "gives P m \<longleftrightarrow> (\<forall>s x s'. m s = (Inr x, s') \<longrightarrow> P x)"

lemma gives_ret: "P x \<Longrightarrow> gives P (ret x)"
  by (simp add: gives_def)

lemma gives_after: "(\<And>x. gives P (f x)) \<Longrightarrow> gives P (bind_act m f)"
  unfolding gives_def bind_act_Inr by blast

lemma gives_bind: "gives Q m \<Longrightarrow> (\<And>x. Q x \<Longrightarrow> gives P (f x)) \<Longrightarrow> gives P (bind_act m f)"
  unfolding gives_def bind_act_Inr by blast

lemma gives_if: "(b \<Longrightarrow> gives P m) \<Longrightarrow> (\<not> b \<Longrightarrow> gives P n) \<Longrightarrow> gives P (if b then m else n)"
  by simp

context frame begin

lemma keeps_given:
  assumes "keeps R m" "gives P m" "\<And>x. P x \<Longrightarrow> keeps R (f x)"
  shows "keeps R (bind_act m f)"
  unfolding keeps_def
proof
  fix s
  obtain r s' where m: "m s = (r, s')" by fastforce
  then have R: "R s s'" using assms(1) by (auto dest: keepsD)
  show "R s (snd (bind_act m f s))"
  proof (cases r)
    case (Inr x)
    with assms(2) m have "P x" by (auto simp: gives_def)
    with assms(3) have "R s' (snd (f x s'))" by (simp add: keeps_def)
    with R show ?thesis unfolding bind_act_def m Inr by (simp add: local.trans)
  qed (simp add: bind_act_def m R)
qed

end

section \<open>Runs\<close>

text \<open>A run that has a client keeps one, with authorized traffic only; one that has none gets none.\<close>

definition run_traffic :: "world \<Rightarrow> http_client engine \<Rightarrow> http_client engine \<Rightarrow> bool" where
  "run_traffic w s s' \<longleftrightarrow> (case en_client s of None \<Rightarrow> en_client s' = None
     | Some c \<Rightarrow> (\<exists>c'. en_client s' = Some c' \<and> traffic w c c'))"

lemma run_traffic_same: "en_client s' = en_client s \<Longrightarrow> run_traffic w s s'"
  by (auto simp: run_traffic_def traffic_frame.refl split: option.split)

lemma run_traffic_trans:
  assumes "run_traffic w s t" "run_traffic w t u"
  shows "run_traffic w s u"
proof (cases "en_client s")
  case None
  with assms show ?thesis by (simp add: run_traffic_def)
next
  case (Some c)
  with assms(1) obtain c1 where c1: "en_client t = Some c1" "traffic w c c1" by (auto simp: run_traffic_def)
  with assms(2) obtain c2 where "en_client u = Some c2" "traffic w c1 c2" by (auto simp: run_traffic_def)
  with Some c1 show ?thesis by (auto simp: run_traffic_def intro: traffic_trans)
qed

interpretation run_frame: frame "run_traffic w" for w
  by unfold_locales (auto intro: run_traffic_same run_traffic_trans)

lemma t_with_db: "keeps (run_traffic w) (with_db m)"
  by (auto simp: keeps_def with_db_def intro: run_traffic_same split: prod.splits)

lemma t_modify: "(\<And>s. en_client (f s) = en_client s) \<Longrightarrow> keeps (run_traffic w) (modify f)"
  by (rule run_frame.keeps_modify) (simp add: run_traffic_same)

lemma traffic_put: "traffic w c (c'\<lparr>cl_notified := xs\<rparr>) \<longleftrightarrow> traffic w c c'"
  by (simp add: traffic_def)

lemma t_on_client: "keeps (traffic w) m \<Longrightarrow> keeps (run_traffic w) (on_client aid m)"
  by (auto simp: keeps_def on_client_def put_client_def run_traffic_def traffic_put split: option.splits prod.splits)
    (metis snd_conv)

lemma t_client_gets: "keeps (run_traffic w) (on_client aid (gets f))"
  by (intro t_on_client traffic_frame.keeps_gets)

lemma t_client_observe: "keeps (run_traffic w) (on_client aid (observe f))"
  by (intro t_on_client traffic_observe)

lemma t_ask: "keeps (run_traffic w) (ask_agent env ident role task phase)"
  by (auto simp: keeps_def ask_agent_def intro: run_traffic_same split: prod.splits)

lemmas t_rules = run_frame.keeps_bind run_frame.keeps_ret run_frame.keeps_raise run_frame.keeps_lift run_frame.keeps_gets
  run_frame.keeps_if run_frame.keeps_option run_frame.keeps_catch keeps_pair t_with_db t_client_gets t_client_observe t_ask

lemma t_map_act: "(\<And>x. keeps (run_traffic w) (f x)) \<Longrightarrow> keeps (run_traffic w) (map_act f xs)"
  by (induction xs) (simp_all only: map_act.simps run_frame.keeps_ret run_frame.keeps_bind)

lemma t_decision: "keeps (run_traffic w) (agent_decision env aid org role task phase)"
  unfolding agent_decision_def agent_ident_def by (intro t_rules)

lemma t_declaratives: "keeps (run_traffic w) (declaratives env aid org)"
  unfolding declaratives_def by (intro t_rules t_modify) simp

lemma t_account_sessions: "keeps (run_traffic w) (account_sessions env aid n accs)"
proof (induction accs arbitrary: n)
  case (Cons acc accs)
  show ?case unfolding account_sessions.simps account_session_def Let_def by (intro t_rules Cons.IH)
qed (simp only: account_sessions.simps run_frame.keeps_ret)

lemma t_sessions: "keeps (run_traffic w) (build_sessions env aid)"
  unfolding build_sessions_def by (intro t_rules t_account_sessions)

lemma t_discovery: "keeps (run_traffic (ht_world env)) (do_discovery env aid)"
proof -
  have crawl: "keeps (run_traffic (ht_world env)) (crawl_target env aid)"
    unfolding crawl_target_def
    by (intro t_rules t_on_client guarded.keeps_crawl) (simp split: exn.split add: run_frame.keeps_ret)
  have "keeps (traffic (ht_world env)) (scope_filter env e)" for e
    unfolding scope_filter_def
    by (intro traffic_frame.keeps_bind traffic_scope_check traffic_frame.keeps_lift traffic_frame.keeps_gets
        traffic_frame.keeps_if traffic_frame.keeps_ret)
  then show ?thesis
    unfolding do_discovery_def by (intro t_rules t_decision crawl t_map_act t_on_client)
qed

lemma t_planning: "keeps (run_traffic w) (do_planning env aid ids)"
  unfolding do_planning_def Let_def by (intro t_rules t_declaratives t_decision)

lemma t_policy: "keeps (run_traffic w) (do_policy env aid wait ids)"
  unfolding do_policy_def by (intro t_rules t_declaratives)

section \<open>Execution\<close>

definition fit :: "world \<Rightarrow> runner \<Rightarrow> bool" where
  "fit w r \<longleftrightarrow> check_keeps (traffic w) (ru_check r)"

lemma t_run_agent:
  assumes "fit w r"
  shows "keeps (run_traffic w) (run_agent env aid bus r)"
  unfolding keeps_def
proof
  fix s
  show "run_traffic w s (snd (run_agent env aid bus r s))"
  proof (cases "en_client s")
    case (Some c)
    let ?t = "(ru_state r)\<lparr>as_brain := en_brain s, as_work := (as_work (ru_state r))\<lparr>cw_bus := bus, cw_world := c\<rparr>\<rparr>"
    obtain res t where t: "agent_run (ht_decide env) (engine_specialist env aid (ru_ident r) (ru_check r)) ?t = (res, t)" by fastforce
    have "work_traffic w ?t t"
      using agent_run_traffic [OF assms [unfolded fit_def], where s = ?t] t by (metis snd_conv)
    with Some t show ?thesis
      by (simp add: run_agent_def run_traffic_def put_client_def work_traffic_def traffic_put)
  qed (simp add: run_agent_def run_traffic_def)
qed

lemma run_agent_fit: "fit w r \<Longrightarrow> gives (\<lambda>(res, bus, r'). fit w r') (run_agent env aid bus r)"
  by (auto simp: gives_def run_agent_def fit_def split: option.splits prod.splits)

lemma t_stops:
  "keeps (run_traffic w) (past_deadline env aid deadline)"
  "keeps (run_traffic w) (should_stop env aid deadline)"
  "keeps (run_traffic w) (stop_or_cancelled env aid deadline)"
  "keeps (run_traffic w) (halt_reason env aid deadline)"
  "keeps (run_traffic w) (start_controller env aid)"
  unfolding past_deadline_def should_stop_def stop_or_cancelled_def halt_reason_def start_controller_def
  by (intro t_rules)+

lemma t_make_runner: "keeps (run_traffic w) (make_runner env aid sessions decls step)"
  unfolding make_runner_def agent_ident_def by (intro t_rules)

lemma make_runner_fit:
  assumes "host_ok env"
  shows "gives (list_all (fit (ht_world env))) (make_runner env aid sessions decls step)"
  unfolding make_runner_def
  by (auto simp: gives_def bind_act_Inr fit_def split: option.splits, erule resolved_keeps [OF assms])

lemma map_act_all:
  assumes "\<And>x. gives (list_all P) (f x)"
  shows "gives (list_all (list_all P)) (map_act f xs)"
proof (induction xs)
  case (Cons x xs)
  show ?case
    unfolding map_act.simps
    by (rule gives_bind [OF assms], rule gives_bind [OF Cons.IH]) (simp add: gives_ret)
qed (simp add: gives_def)

lemma t_make_runners: "keeps (run_traffic w) (make_runners env aid sessions decls steps)"
  unfolding make_runners_def by (intro t_rules t_map_act t_make_runner)

lemma make_runners_fit:
  assumes "host_ok env"
  shows "gives (list_all (fit (ht_world env))) (make_runners env aid sessions decls steps)"
proof -
  have "list_all (list_all P) rss \<Longrightarrow> list_all P (concat rss)" for P :: "runner \<Rightarrow> bool" and rss
    by (induction rss) simp_all
  then show ?thesis
    unfolding make_runners_def
    by (intro gives_bind [OF map_act_all [OF make_runner_fit [OF assms]]] gives_ret)
qed

lemma t_enter_pool: "fit w r \<Longrightarrow> keeps (run_traffic w) (enter_pool env aid deadline sm r)"
  unfolding enter_pool_def by (intro t_rules t_stops t_run_agent)

lemma enter_pool_fit:
  assumes "fit w r"
  shows "gives (\<lambda>(res, r', sm'). fit w r' \<and> sm_errored sm' = sm_errored sm) (enter_pool env aid deadline sm r)"
  unfolding enter_pool_def
proof (rule gives_after, rule gives_if)
  show "gives (\<lambda>(res, r', sm'). fit w r' \<and> sm_errored sm' = sm_errored sm)
      (case skip_cancelled (ru_ident r) (specialist_role (ru_check r)) (sm_stats sm) of (res, st) \<Rightarrow> ret (res, r, sm\<lparr>sm_stats := st\<rparr>))"
    using assms by (auto simp: gives_def split: prod.splits)
  show "gives (\<lambda>(res, r', sm'). fit w r' \<and> sm_errored sm' = sm_errored sm)
      (bind_act (run_agent env aid (sm_bus sm) r) (\<lambda>(res, bus, r').
       case conclude (ru_ident r) (specialist_role (ru_check r)) (Finished res) (sm_stats sm) of
         (res', st) \<Rightarrow> ret (res', r', sm\<lparr>sm_bus := bus, sm_stats := st\<rparr>)))"
    by (rule gives_bind [OF run_agent_fit [OF assms]]) (auto simp: gives_def split: prod.splits)
qed

lemma t_operators_act: "keeps (run_traffic w) (operators_act env aid moment)"
  unfolding operators_act_def by (rule t_modify) simp

lemma t_keep_result: "keeps (run_traffic w) (keep_result env aid org attempts r res)"
  unfolding keep_result_def by (intro t_rules)

lemma nth_fit: "list_all P xs \<Longrightarrow> xs \<noteq> [] \<Longrightarrow> P (xs ! (n mod length xs))"
  by (simp add: list_all_length)

lemma taken_fit: "list_all P xs \<Longrightarrow> list_all P (take i xs @ drop (Suc i) xs)"
  by (auto simp: list_all_iff dest: in_set_takeD in_set_dropD)

text \<open>The stream keeps the traffic, and the agents it reports as failed are among those it was given.\<close>

lemma t_stream_pool:
  assumes "keeps (run_traffic w) halt"
  shows "length waiting = n \<Longrightarrow> list_all (fit w) waiting \<Longrightarrow> list_all (fit w) (sm_errored sm) \<Longrightarrow>
    keeps (run_traffic w) (stream_pool env aid org deadline halt n waiting sm) \<and>
    gives (\<lambda>(reason, sm'). list_all (fit w) (sm_errored sm')) (stream_pool env aid org deadline halt n waiting sm)"
proof (induction n arbitrary: waiting sm)
  case 0
  then show ?case by (simp add: gives_def keeps_def run_frame.refl)
next
  case (Suc n)
  let ?i = "ht_turn env n mod length waiting"
  have ne: "waiting \<noteq> []" using Suc.prems(1) by auto
  have r: "fit w (waiting ! ?i)" by (rule nth_fit [OF Suc.prems(2) ne])
  have len: "length (take ?i waiting @ drop (Suc ?i) waiting) = n"
    using Suc.prems(1) ne mod_less_divisor [of "length waiting" "ht_turn env n"] by (simp del: mod_less_divisor)
  have next_ok: "keeps (run_traffic w) (stream_pool env aid org deadline halt n (take ?i waiting @ drop (Suc ?i) waiting) (note_error r' res sm')) \<and>
      gives (\<lambda>(reason, sm'). list_all (fit w) (sm_errored sm'))
        (stream_pool env aid org deadline halt n (take ?i waiting @ drop (Suc ?i) waiting) (note_error r' res sm'))"
    if "fit w r' \<and> sm_errored sm' = sm_errored sm" for r' res sm'
    using that Suc.prems(3) by (intro Suc.IH len taken_fit [OF Suc.prems(2)]) (simp add: note_error_def)
  show ?case
    unfolding stream_pool.simps Let_def
  proof (intro conjI)
    show "keeps (run_traffic w) (bind_act (enter_pool env aid deadline sm (waiting ! ?i)) (\<lambda>(res, r, sm').
      bind_act (operators_act env aid (ru_ident r)) (\<lambda>_. bind_act halt (\<lambda>reason.
      if reason \<noteq> [] then ret (reason, sm')
      else bind_act (keep_result env aid org 1 r res) (\<lambda>_.
        stream_pool env aid org deadline halt n (take ?i waiting @ drop (Suc ?i) waiting) (note_error r res sm'))))))"
    proof (rule run_frame.keeps_given [OF t_enter_pool [OF r] enter_pool_fit [OF r]], clarify)
      fix res r' and sm' :: stream
      assume "fit w r'" "sm_errored sm' = sm_errored sm"
      with next_ok show "keeps (run_traffic w) (bind_act (operators_act env aid (ru_ident r')) (\<lambda>_. bind_act halt (\<lambda>reason.
        if reason \<noteq> [] then ret (reason, sm')
        else bind_act (keep_result env aid org 1 r' res) (\<lambda>_.
          stream_pool env aid org deadline halt n (take ?i waiting @ drop (Suc ?i) waiting) (note_error r' res sm')))))"
        by (intro t_rules t_operators_act assms t_keep_result) blast
    qed
    show "gives (\<lambda>(reason, sm'). list_all (fit w) (sm_errored sm')) (bind_act (enter_pool env aid deadline sm (waiting ! ?i)) (\<lambda>(res, r, sm').
      bind_act (operators_act env aid (ru_ident r)) (\<lambda>_. bind_act halt (\<lambda>reason.
      if reason \<noteq> [] then ret (reason, sm')
      else bind_act (keep_result env aid org 1 r res) (\<lambda>_.
        stream_pool env aid org deadline halt n (take ?i waiting @ drop (Suc ?i) waiting) (note_error r res sm'))))))"
    proof (rule gives_bind [OF enter_pool_fit [OF r]], clarify)
      fix res r' and sm' :: stream
      assume "fit w r'" "sm_errored sm' = sm_errored sm"
      with next_ok Suc.prems(3) show "gives (\<lambda>(reason, sm'). list_all (fit w) (sm_errored sm'))
        (bind_act (operators_act env aid (ru_ident r')) (\<lambda>_. bind_act halt (\<lambda>reason.
        if reason \<noteq> [] then ret (reason, sm')
        else bind_act (keep_result env aid org 1 r' res) (\<lambda>_.
          stream_pool env aid org deadline halt n (take ?i waiting @ drop (Suc ?i) waiting) (note_error r' res sm')))))"
        by (intro gives_after gives_if) (simp_all add: gives_ret)
    qed
  qed
qed

lemma t_retry_round:
  "list_all (fit w) rs \<Longrightarrow> keeps (run_traffic w) (retry_round env aid org attempt bus rs) \<and>
    gives (\<lambda>(bus', again). list_all (fit w) again) (retry_round env aid org attempt bus rs)"
proof (induction rs arbitrary: bus)
  case Nil
  then show ?case by (simp add: gives_def keeps_def run_frame.refl)
next
  case (Cons r rs)
  then have r: "fit w r" and rs: "list_all (fit w) rs" by simp_all
  show ?case
    unfolding retry_round.simps
  proof (intro conjI)
    show "keeps (run_traffic w) (bind_act (run_agent env aid bus r) (\<lambda>(res, bus', r').
     bind_act (keep_result env aid org attempt r' res) (\<lambda>_.
     bind_act (retry_round env aid org attempt bus' rs) (\<lambda>(bus'', again).
     ret (bus'', if ar_error res \<noteq> [] then r' # again else again)))))"
      by (intro t_rules t_run_agent [OF r] t_keep_result conjunct1 [OF Cons.IH] rs)
    show "gives (\<lambda>(bus', again). list_all (fit w) again) (bind_act (run_agent env aid bus r) (\<lambda>(res, bus', r').
     bind_act (keep_result env aid org attempt r' res) (\<lambda>_.
     bind_act (retry_round env aid org attempt bus' rs) (\<lambda>(bus'', again).
     ret (bus'', if ar_error res \<noteq> [] then r' # again else again)))))"
    proof (rule gives_bind [OF run_agent_fit [OF r]], clarify)
      fix res bus' r'
      assume r': "fit w r'"
      show "gives (\<lambda>(bus', again). list_all (fit w) again) (bind_act (keep_result env aid org attempt r' res) (\<lambda>_.
     bind_act (retry_round env aid org attempt bus' rs) (\<lambda>(bus'', again).
     ret (bus'', if ar_error res \<noteq> [] then r' # again else again))))"
        by (rule gives_after, rule gives_bind [OF conjunct2 [OF Cons.IH [OF rs]]]) (auto simp: gives_def r')
    qed
  qed
qed

lemma t_retries:
  "list_all (fit w) errored \<Longrightarrow> keeps (run_traffic w) (retries env aid org deadline n attempt bus errored)"
proof (induction n arbitrary: attempt bus errored)
  case 0
  show ?case by (simp only: retries.simps run_frame.keeps_ret)
next
  case (Suc n)
  note round = t_retry_round [OF Suc.prems]
  show ?case
    unfolding retries.simps
    by (rule run_frame.keeps_if, rule run_frame.keeps_ret, rule run_frame.keeps_bind, rule t_stops,
        rule run_frame.keeps_if, rule run_frame.keeps_ret, rule run_frame.keeps_given [OF conjunct1 [OF round] conjunct2 [OF round]], clarify, rule Suc.IH)
qed

lemma t_batch:
  assumes "host_ok env"
  shows "keeps (run_traffic (ht_world env)) (execute_step_batch env aid org deadline sessions decls steps)"
  unfolding execute_step_batch_def
  by (rule run_frame.keeps_given [OF t_make_runners make_runners_fit [OF assms]])
    (intro t_rules t_stops conjunct1 [OF t_stream_pool]; simp add: start_stream_def)

lemma t_replan:
  assumes "host_ok env"
  shows "keeps (run_traffic (ht_world env)) (maybe_replan env aid org deadline sessions decls n iteration)"
proof (induction n arbitrary: iteration)
  case 0
  show ?case by (simp only: maybe_replan.simps run_frame.keeps_ret)
next
  case (Suc n)
  show ?case
    unfolding maybe_replan.simps store_gap_steps_def
    by (intro t_rules t_stops t_decision t_batch [OF assms] Suc.IH)
qed

lemma t_notes:
  "keeps (run_traffic w) (no_execution n)"
  "keeps (run_traffic w) (audit_signals aid org signals)"
  "keeps (run_traffic w) (audit_stop aid org reason)"
  unfolding no_execution_def audit_signals_def audit_stop_def by (intro t_rules t_modify; simp)+

lemma t_run_steps:
  assumes "host_ok env"
  shows "keeps (run_traffic (ht_world env)) (run_steps env aid org steps)"
  unfolding run_steps_def Let_def
proof (rule run_frame.keeps_bind, rule t_sessions, rule run_frame.keeps_bind, rule t_stops, rule run_frame.keeps_bind,
    rule t_with_db, rule run_frame.keeps_bind, rule t_declaratives, rule run_frame.keeps_given [OF t_make_runners make_runners_fit [OF assms]])
  fix sessions deadline a decls and agents :: "runner list"
  let ?w = "ht_world env" and ?sm = "start_stream (Some (snd (subscribe (new_bus 1000) ''findings''))) (length agents)"
  assume fit: "list_all (fit ?w) agents"
  have stream: "keeps (run_traffic ?w) (stream_pool env aid org deadline (halt_reason env aid deadline) (length agents) agents ?sm) \<and>
      gives (\<lambda>(reason, sm'). list_all (fit ?w) (sm_errored sm'))
        (stream_pool env aid org deadline (halt_reason env aid deadline) (length agents) agents ?sm)"
    by (rule t_stream_pool [OF t_stops(4)]) (simp_all add: fit start_stream_def)
  show "keeps (run_traffic ?w) (bind_act (stream_pool env aid org deadline (halt_reason env aid deadline) (length agents) agents ?sm) (\<lambda>(reason, sm).
     bind_act (if reason \<noteq> [] then ret (sm_bus sm)
         else retries env aid org deadline (nat (max_step_retries (ht_settings env))) 2 (sm_bus sm) (sm_errored sm)) (\<lambda>bus'.
     bind_act (audit_stop aid org reason) (\<lambda>_.
     bind_act (audit_signals aid org (finding_signals bus')) (\<lambda>_.
     bind_act (if reason \<noteq> [] then ret ()
         else maybe_replan env aid org deadline sessions decls (nat (max_replans (ht_settings env))) 0) (\<lambda>_.
     with_db (finish_execution aid org (sm_stats sm))))))))"
    by (rule run_frame.keeps_given [OF conjunct1 [OF stream] conjunct2 [OF stream]], clarify)
      (intro t_rules t_retries t_notes t_replan [OF assms])
qed

lemma t_execute:
  assumes "host_ok env"
  shows "keeps (run_traffic (ht_world env)) (do_execute env aid ids)"
  unfolding do_execute_def by (intro t_rules t_notes t_decision t_run_steps [OF assms])

section \<open>The last phases\<close>

definition client_traffic :: "world \<Rightarrow> http_client agent_state \<Rightarrow> http_client agent_state \<Rightarrow> bool" where
  "client_traffic w s s' \<longleftrightarrow> traffic w (as_work s) (as_work s')"

interpretation validator_frame: frame "client_traffic w" for w
  by unfold_locales (auto simp: client_traffic_def intro: traffic_frame.refl traffic_frame.trans)

lemma validator_consult: "keeps (client_traffic w) (consult decide ident role task phase)"
  unfolding consult_def count_consult_def note_decision_def
  by (intro validator_frame.keeps_bind validator_frame.keeps_ret validator_frame.keeps_modify)
    (auto simp: keeps_def ask_brain_def client_traffic_def traffic_frame.refl split: prod.splits)

lemma validator_keeps:
  "keeps (client_traffic (ht_world env)) (agent_validate decide ident aid getter extra (validate_on_client env cls repro sessions))"
proof -
  have "traffic (ht_world env) c (snd (validate_finding (ht_rx env) (guarded_web (ht_world env)) cls repro sessions c))" for c
    using guarded.keeps_validate_finding by (simp add: keeps_def)
  then have "keeps (client_traffic (ht_world env)) (validate_on_client env cls repro sessions)"
    by (auto simp: keeps_def validate_on_client_def client_traffic_def split: prod.splits) (metis snd_conv)
  then show ?thesis
    unfolding agent_validate_def
    by (intro validator_frame.keeps_bind validator_consult validator_frame.keeps_if validator_frame.keeps_ret)
qed

lemma t_run_validator: "keeps (run_traffic (ht_world env)) (run_validator env aid ident cls repro sessions)"
  unfolding keeps_def
proof
  fix s
  show "run_traffic (ht_world env) s (snd (run_validator env aid ident cls repro sessions s))"
  proof (cases "en_client s")
    case (Some c)
    let ?t = "\<lparr>as_brain = en_brain s, as_decisions = [], as_work = c\<rparr>"
    let ?m = "agent_validate (ht_decide env) ident aid (Some (Inr (budget_left c)))
            [(''check_class'', JStr cls), (''detector'', jget_or repro ''detector'' (JStr []))]
            (validate_on_client env cls repro sessions)"
    obtain r t where t: "?m ?t = (r, t)" by fastforce
    have "client_traffic (ht_world env) ?t t" by (rule keepsD [OF validator_keeps t])
    with Some t show ?thesis
      by (simp add: run_validator_def run_traffic_def put_client_def client_traffic_def traffic_put)
  qed (simp add: run_validator_def run_traffic_def)
qed

lemma t_validate: "keeps (run_traffic (ht_world env)) (do_validate env aid)"
proof -
  have "keeps (run_traffic (ht_world env)) (validate_all env aid org sessions work)" for org sessions work
  proof (induction work)
    case (Cons x work)
    obtain fid cls repro where x: "x = (fid, cls, repro)" by (cases x) auto
    show ?case
      unfolding x validate_all.simps agent_ident_def by (intro t_rules t_run_validator Cons.IH)
  qed (simp only: validate_all.simps run_frame.keeps_ret)
  then show ?thesis unfolding do_validate_def by (intro t_rules t_sessions)
qed

lemma t_report: "keeps (run_traffic w) (do_report env aid)"
  unfolding do_report_def Let_def by (intro t_rules t_decision)

lemma t_enter: "keeps (run_traffic w) (enter_state aid st started finished)" "keeps (run_traffic w) (enter_phase aid st)"
  unfolding enter_phase_def enter_state_def by (intro t_rules)+

lemma t_unless_cancelled: "keeps (run_traffic w) m \<Longrightarrow> keeps (run_traffic w) (unless_cancelled aid m)"
  unfolding unless_cancelled_def by (intro t_rules)

lemma t_run_phases:
  assumes "host_ok env"
  shows "keeps (run_traffic (ht_world env)) (run_phases aid (engine_phases env aid))"
  unfolding run_phases_def last_phases_def engine_phases_def phases.simps do_score_def
  by (intro t_rules t_enter t_unless_cancelled t_discovery t_planning t_policy t_execute [OF assms] t_validate t_report)

section \<open>The start of a run\<close>

text \<open>What the guard of a run is made of does not change before it is made.\<close>

definition grants_of :: "string \<Rightarrow> db \<Rightarrow> (string \<times> int) option" where
  "grants_of aid d = map_option (\<lambda>a. (a_authorization_id a, a_requests_made a)) (find_row a_id aid (db_assessments d))"

definition same_grants :: "db \<Rightarrow> db \<Rightarrow> bool" where
  "same_grants d d' \<longleftrightarrow> db_records d' = db_records d \<and> (\<forall>i. grants_of i d' = grants_of i d)"

interpretation grants_frame: db_frame same_grants UNIV
  by unfold_locales (auto simp: same_grants_def grants_of_def)

lemma grants_change:
  assumes "\<And>a. a_id (f a) = a_id a" "\<And>a. a_authorization_id (f a) = a_authorization_id a"
    "\<And>a. a_requests_made (f a) = a_requests_made a"
  shows "keeps same_grants (set_assessment aid f)"
  unfolding set_assessment_def
  by (rule grants_frame.keeps_modify)
    (auto simp: same_grants_def grants_of_def find_change_assessment [of f, OF assms(1)] assms option.map_comp comp_def)

lemma grants_set_state: "keeps same_grants (set_state note aid st started finished)"
  unfolding set_state_def
  by (intro grants_frame.keeps_transaction grants_frame.keeps_bind grants_frame.keeps_gets grants_frame.keeps_option
      grants_frame.keeps_ret grants_frame.keeps_if grants_frame.keeps_clock grants_frame.keeps_write_audit grants_change)
    simp_all

definition unopened :: "http_client engine \<Rightarrow> http_client engine \<Rightarrow> bool" where
  "unopened s t \<longleftrightarrow> en_client t = en_client s \<and> same_grants (en_db s) (en_db t)"

interpretation unopened_frame: frame unopened
  by unfold_locales (auto simp: unopened_def same_grants_def)

lemma unopened_with_db: "keeps same_grants m \<Longrightarrow> keeps unopened (with_db m)"
  by (auto simp: keeps_def with_db_def unopened_def split: prod.splits) (metis snd_conv)+

lemma unopened_enter: "keeps unopened (enter_state aid st started finished)"
  unfolding enter_state_def
  by (intro unopened_frame.keeps_bind unopened_frame.keeps_gets unopened_with_db grants_set_state)

lemma unopened_reads:
  "keeps unopened (with_db (cancelled aid))" "keeps unopened (with_db clock)" "keeps unopened (with_db (make_guard st aid))"
  unfolding cancelled_def make_guard_def get_assessment_def
  by (intro unopened_with_db grants_frame.keeps_bind grants_frame.keeps_db grants_frame.keeps_ret)+

lemma bind_post:
  assumes "m s = (r, t)" "\<And>e. r = Inl e \<Longrightarrow> Q t" "\<And>x. r = Inr x \<Longrightarrow> Q (snd (f x t))"
  shows "Q (snd (bind_act m f s))"
  using assms by (cases r) (auto simp: bind_act_def)

definition granted :: "settings \<Rightarrow> string \<Rightarrow> db \<Rightarrow> guard \<Rightarrow> bool" where
  "granted st aid d g \<longleftrightarrow> (\<exists>a record now. find_row a_id aid (db_assessments d) = Some a \<and>
     find_row az_id (a_authorization_id a) (db_records d) = Some record \<and>
     g = new_guard st record (a_requests_made a) \<and> sd_allowed (check_record_active g now))"

lemma granted_same: "same_grants d d' \<Longrightarrow> granted st aid d' g \<Longrightarrow> granted st aid d g"
proof -
  assume s: "same_grants d d'" and "granted st aid d' g"
  then obtain a row now where g: "find_row a_id aid (db_assessments d') = Some a"
    "find_row az_id (a_authorization_id a) (db_records d') = Some row"
    "g = new_guard st row (a_requests_made a)" "sd_allowed (check_record_active g now)"
    by (auto simp: granted_def)
  from s have "grants_of aid d' = grants_of aid d" by (simp add: same_grants_def)
  with g(1) obtain b where "find_row a_id aid (db_assessments d) = Some b"
    "a_authorization_id b = a_authorization_id a" "a_requests_made b = a_requests_made a"
    by (cases "find_row a_id aid (db_assessments d)") (auto simp: grants_of_def)
  with g s show ?thesis by (auto simp: granted_def same_grants_def)
qed

definition fresh_client :: "host \<Rightarrow> guard \<Rightarrow> http_client" where
  "fresh_client env g = aenter (new_client (ht_world env) 0 g True (make_sandbox (ht_settings env) g))"

definition sends_granted :: "settings \<Rightarrow> host \<Rightarrow> string \<Rightarrow> db \<Rightarrow> http_client engine \<Rightarrow> bool" where
  "sends_granted st env aid d s \<longleftrightarrow> (case en_client s of None \<Rightarrow> True
     | Some c \<Rightarrow> \<exists>g. granted st aid d g \<and> traffic (ht_world env) (fresh_client env g) c)"

lemma run_inner_granted:
  assumes ok: "host_ok env" and none: "en_client s = None"
  shows "sends_granted st env aid (en_db s) (snd (run_inner st aid (engine_phases env aid) s))"
proof -
  let ?Q = "sends_granted st env aid (en_db s)"
  have idle: "?Q t" if "unopened s t" for t
    using that none by (simp add: sends_granted_def unopened_def)
  have later: "?Q (snd (m t))" if "unopened s t" "keeps (run_traffic (ht_world env)) m" for t and m :: "unit run"
  proof -
    from that(2) have "run_traffic (ht_world env) t (snd (m t))" by (simp add: keeps_def)
    with that(1) none have "en_client (snd (m t)) = None" by (simp add: unopened_def run_traffic_def)
    then show ?thesis by (simp add: sends_granted_def)
  qed
  show ?thesis
  proof (cases "find_row a_id aid (db_assessments (en_db s)) = None")
    case True
    then show ?thesis using idle [OF unopened_frame.refl] by (simp add: run_inner_def bind_act_def)
  next
    case False
    let ?ph = "engine_phases env aid"
    let ?open = "\<lambda>g. bind_act (lift_sum (ph_open ?ph g)) (\<lambda>c.
            bind_act (modify (\<lambda>s. s\<lparr>en_client := Some c\<rparr>)) (\<lambda>_.
            catch_act (run_phases aid ?ph) (\<lambda>e. with_db (mark_failed aid (failure_text e)))))"
    have opened: "?Q (snd (?open g t))" if "unopened s t" "granted st aid (en_db t) g" for g t
    proof -
      let ?t = "t\<lparr>en_client := Some (fresh_client env g)\<rparr>"
      have "keeps (run_traffic (ht_world env)) (catch_act (run_phases aid ?ph) (\<lambda>e. with_db (mark_failed aid (failure_text e))))"
        by (intro run_frame.keeps_catch t_run_phases [OF ok] t_with_db)
      then have "run_traffic (ht_world env) ?t (snd (?open g t))"
        by (simp add: keeps_def bind_act_def engine_phases_def open_client_def fresh_client_def)
      then obtain c where "en_client (snd (?open g t)) = Some c" "traffic (ht_world env) (fresh_client env g) c"
        by (auto simp: run_traffic_def)
      moreover have "granted st aid (en_db s) g"
        by (rule granted_same [OF _ that(2)]) (use that(1) in \<open>simp add: unopened_def\<close>)
      ultimately show ?thesis by (auto simp: sends_granted_def)
    qed
    have guarded: "?Q (snd (bind_act (with_db clock) (\<lambda>now.
          let precheck = check_record_active g (dt_us now) in
          if \<not> sd_allowed precheck
          then with_db (mark_failed aid (''authorization not usable: '' @ sd_reason precheck))
          else ?open g) t))" if "unopened s t" "\<And>now. sd_allowed (check_record_active g now) \<Longrightarrow> granted st aid (en_db t) g" for g t
    proof (rule bind_post [OF surjective_pairing])
      have u: "unopened s (snd (with_db clock t))"
        using unopened_reads(2) that(1) unopened_frame.trans by (auto simp: keeps_def)
      then show "?Q (snd (with_db clock t))" by (rule idle)
      fix now
      have "granted st aid (en_db (snd (with_db clock t))) g" if "sd_allowed (check_record_active g (dt_us now))"
        using \<open>\<And>now. sd_allowed (check_record_active g now) \<Longrightarrow> granted st aid (en_db t) g\<close> [OF that]
        by (simp add: with_db_def clock_def granted_def)
      with u show "?Q (snd ((let precheck = check_record_active g (dt_us now) in
          if \<not> sd_allowed precheck
          then with_db (mark_failed aid (''authorization not usable: '' @ sd_reason precheck))
          else ?open g) (snd (with_db clock t))))"
        by (simp only: Let_def if_distrib [of "\<lambda>m. ?Q (snd (m (snd (with_db clock t))))"])
          (auto intro: later [OF u t_with_db] opened)
    qed
    have made: "?Q (snd (bind_act (with_db (make_guard st aid)) (\<lambda>g. bind_act (with_db clock) (\<lambda>now.
          let precheck = check_record_active g (dt_us now) in
          if \<not> sd_allowed precheck
          then with_db (mark_failed aid (''authorization not usable: '' @ sd_reason precheck))
          else ?open g)) t))" if "unopened s t" for t
    proof (rule bind_post [OF surjective_pairing])
      have u: "unopened s (snd (with_db (make_guard st aid) t))"
        using unopened_reads(3) that unopened_frame.trans by (auto simp: keeps_def)
      then show "?Q (snd (with_db (make_guard st aid) t))" by (rule idle)
      fix g
      assume g: "fst (with_db (make_guard st aid) t) = Inr g"
      have "granted st aid (en_db (snd (with_db (make_guard st aid) t))) g" if "sd_allowed (check_record_active g now)" for now
        using g that
        by (auto simp: with_db_def make_guard_def get_assessment_def fetch_def require_def bind_act_def granted_def split: option.splits)
      then show "?Q (snd (bind_act (with_db clock) (\<lambda>now.
          let precheck = check_record_active g (dt_us now) in
          if \<not> sd_allowed precheck
          then with_db (mark_failed aid (''authorization not usable: '' @ sd_reason precheck))
          else ?open g) (snd (with_db (make_guard st aid) t))))"
        by (rule guarded [OF u])
    qed
    have unless: "?Q (snd (unless_cancelled aid m t))" if "unopened s t" "\<And>t. unopened s t \<Longrightarrow> ?Q (snd (m t))" for m t
      unfolding unless_cancelled_def
    proof (rule bind_post [OF surjective_pairing])
      have u: "unopened s (snd (with_db (cancelled aid) t))"
        using unopened_reads(1) that(1) unopened_frame.trans by (auto simp: keeps_def)
      then show "?Q (snd (with_db (cancelled aid) t))" by (rule idle)
      fix stop
      have "?Q (snd (bind_act (gets en_note) (\<lambda>note. with_db (finish_cancelled note aid)) (snd (with_db (cancelled aid) t))))"
        by (rule later [OF u]) (intro t_rules)
      with that(2) [OF u] show "?Q (snd ((if stop then bind_act (gets en_note) (\<lambda>note. with_db (finish_cancelled note aid)) else m)
          (snd (with_db (cancelled aid) t))))" by simp
    qed
    let ?rest = "\<lambda>_. unless_cancelled aid (bind_act (with_db (make_guard st aid)) (\<lambda>g. bind_act (with_db clock) (\<lambda>now.
          let precheck = check_record_active g (dt_us now) in
          if \<not> sd_allowed precheck
          then with_db (mark_failed aid (''authorization not usable: '' @ sd_reason precheck))
          else ?open g)))"
    have "?Q (snd (bind_act (enter_state aid AUTHORIZED True False) ?rest s))"
    proof (rule bind_post [OF surjective_pairing])
      have u: "unopened s (snd (enter_state aid AUTHORIZED True False s))"
        using unopened_enter by (auto simp: keeps_def)
      then show "?Q (snd (enter_state aid AUTHORIZED True False s))" by (rule idle)
      show "?Q (snd (?rest x (snd (enter_state aid AUTHORIZED True False s))))" for x
        by (rule unless [OF u made])
    qed
    with False show ?thesis by (auto simp: run_inner_def bind_act_def [of "gets f" for f])
  qed
qed

lemma client_with_db: "en_client (snd (with_db m s)) = en_client s"
  by (simp add: with_db_def split: prod.splits)

lemma supervise_client:
  "en_client (snd (supervise st aid ph s)) =
    (if has_row aid (en_db s) then en_client (snd (run_inner st aid ph s)) else en_client s)"
proof -
  have get: "with_db (get_assessment aid) s =
      (require (find_row a_id aid (db_assessments (en_db s))) ''assessment'', s)"
    by (simp add: with_db_def get_assessment_def fetch_def bind_act_def)
  obtain r1 s1 where inner: "run_inner st aid ph s = (r1, s1)" by fastforce
  define s2 where "s2 = snd (with_db (persist_llm_budget aid (bs_budget (en_brain s1))) s1)"
  have run: "run_engine st aid ph s = (r1, s2)" by (simp add: run_engine_def inner s2_def)
  have "en_client s2 = en_client s1" by (simp add: s2_def client_with_db)
  then have "en_client (snd (catch_act (run_engine st aid ph) (\<lambda>e. with_db (mark_failed aid (''engine crash: '' @ exn_text e))) s)) = en_client s1"
    by (cases r1) (simp_all add: catch_act_def run client_with_db)
  then show ?thesis
    by (cases "find_row a_id aid (db_assessments (en_db s))")
      (simp_all add: supervise_def bind_act_def inner get require_def has_row_def)
qed

section \<open>Properties of a run\<close>



section \<open>Witnesses\<close>

definition demo_host :: host where
  "demo_host = \<lparr>ht_settings = default_settings, ht_world = demo_world, ht_checks = [],
     ht_make = (\<lambda>d. headers_check (guarded_web demo_world)), ht_rx = (\<lambda>_. Inl (ValueError [])),
     ht_sha1 = (\<lambda>s. s), ht_sha256 = (\<lambda>s. s), ht_yaml = (\<lambda>_. Inl []), ht_decide = (\<lambda>t b. (det_decide t, b)),
     ht_hooks = new_registry, ht_rerank = (\<lambda>_ _. None),
     ht_logins = (\<lambda>_. \<lparr>lw_now = 0, lw_decrypt = Inr, lw_base64 = (\<lambda>s. s), lw_post = (\<lambda>_ _ _. Inl (HttpError []))\<rparr>),
     ht_turn = (\<lambda>_. 0), ht_waits = [], ht_during = (\<lambda>_. [])\<rparr>"

definition demo_engine :: "http_client engine" where
  "demo_engine = \<lparr>en_db = empty_db\<lparr>db_assessments := [new_assessment ''a1'' ''o1'' ''t1'' ''z1'' []],
       db_records := [demo_authorization\<lparr>az_id := ''z1''\<rparr>],
       db_targets := [\<lparr>tg_id = ''t1'', tg_org_id = ''o1'', tg_name = ''t'', tg_base_url = ''http://app.test:8080/new'',
         tg_environment = ''staging'', tg_description = []\<rparr>]\<rparr>,
     en_client = None, en_brain = \<lparr>bs_budget = None, bs_posted = []\<rparr>, en_note = [], en_refs = []\<rparr>"

definition demo_supervised :: "(exn + unit) \<times> http_client engine" where
  "demo_supervised =
     supervise default_settings ''a1'' (engine_phases (program_host (\<lambda>_. ''x'') demo_host) ''a1'') demo_engine"

definition demo_steps :: "http_client engine \<times> http_client engine \<times> http_client engine \<times> http_client engine" where
  "demo_steps =
     (let e1 = snd (enter_state ''a1'' AUTHORIZED True False demo_engine); e2 = snd (with_db (cancelled ''a1'') e1);
          e3 = snd (with_db (make_guard default_settings ''a1'') e2); e4 = snd (with_db clock e3) in (e1, e2, e3, e4))"

lemma demo_opens: "\<exists>c. en_client (snd demo_supervised) = Some c"
proof -
  let ?env = "program_host (\<lambda>_. ''x'') demo_host"
  let ?ph = "engine_phases ?env ''a1''"
  let ?g = "new_guard default_settings (demo_authorization\<lparr>az_id := ''z1''\<rparr>) 0"
  obtain e1 e2 e3 e4 where e: "demo_steps = (e1, e2, e3, e4)" by (cases demo_steps) auto
  have "fst (enter_state ''a1'' AUTHORIZED True False demo_engine) = Inr ()" "fst (with_db (cancelled ''a1'') (fst demo_steps)) = Inr False"
    "fst (with_db (make_guard default_settings ''a1'') (fst (snd demo_steps))) = Inr ?g"
    "fst (with_db clock (fst (snd (snd demo_steps)))) = Inr \<lparr>dt_us = 1, dt_naive = False, dt_iso = []\<rparr>"
    by code_simp+
  with e have steps: "enter_state ''a1'' AUTHORIZED True False demo_engine = (Inr (), e1)" "with_db (cancelled ''a1'') e1 = (Inr False, e2)"
    "with_db (make_guard default_settings ''a1'') e2 = (Inr ?g, e3)"
    "with_db clock e3 = (Inr \<lparr>dt_us = 1, dt_naive = False, dt_iso = []\<rparr>, e4)"
    by (auto simp: demo_steps_def Let_def prod_eq_iff)
  have a: "sd_allowed (check_record_active ?g 1)" "find_row a_id ''a1'' (db_assessments (en_db demo_engine)) \<noteq> None"
    by code_simp+
  let ?t = "e4\<lparr>en_client := Some (fresh_client ?env ?g)\<rparr>"
  let ?m = "catch_act (run_phases ''a1'' ?ph) (\<lambda>e. with_db (mark_failed ''a1'' (failure_text e)))"
  have "run_inner default_settings ''a1'' ?ph demo_engine = ?m ?t"
    using a steps
    by (auto simp: run_inner_def unless_cancelled_def bind_act_def engine_phases_def open_client_def fresh_client_def)
  moreover have "keeps (run_traffic (ht_world ?env)) ?m"
    by (intro run_frame.keeps_catch t_run_phases [OF program_host_ok] t_with_db)
  ultimately have "run_traffic (ht_world ?env) ?t (snd (run_inner default_settings ''a1'' ?ph demo_engine))"
    by (simp add: keeps_def)
  moreover have "en_client (snd demo_supervised) = en_client (snd (run_inner default_settings ''a1'' ?ph demo_engine))"
    using a by (simp add: demo_supervised_def supervise_client has_row_def)
  ultimately show ?thesis by (auto simp: run_traffic_def)
qed



end
