(* ===== verification/Graph.thy ===== *)
theory Graph
  imports Traffic
begin

text \<open>
  The durable workflow of \<open>app/orchestration/graph.py\<close> over the node wrappers of \<open>engine.py\<close>. LangGraph runs the
  nodes one after another along the conditional edges and saves the state before each node; the snapshot it holds of
  a thread, the nodes still to run and the state, is an argument. A node that interrupts is run again from its top
  when the thread is resumed. Choosing and opening the checkpointer is not modelled.
\<close>

section \<open>Nodes\<close>

datatype node = Authorize | Discover | Plan | PolicyGate | Execute | Validate | Score | Report

fun node_name :: "node \<Rightarrow> string" where
  "node_name Authorize = ''authorize''"
| "node_name Discover = ''discover''"
| "node_name Plan = ''plan''"
| "node_name PolicyGate = ''policy''"
| "node_name Execute = ''execute''"
| "node_name Validate = ''validate''"
| "node_name Score = ''score''"
| "node_name Report = ''report''"

text \<open>Each network phase has a client of its own, whose count is stored when the phase returns.\<close>

definition with_client :: "host \<Rightarrow> string \<Rightarrow> 'a run \<Rightarrow> unit run" where
  "with_client env aid m =
     bind_act (with_db (make_guard (ht_settings env) aid)) (\<lambda>g.
     bind_act (lift_sum (open_client env g)) (\<lambda>c.
     bind_act (modify (\<lambda>s. s\<lparr>en_client := Some c\<rparr>)) (\<lambda>_.
     bind_act m (\<lambda>_.
     bind_act (on_client aid (gets (\<lambda>c. g_requests_made (cl_guard c)))) (\<lambda>n.
     with_db (persist_exact_count aid n))))))"

definition node_authorize :: "host \<Rightarrow> string \<Rightarrow> string run" where
  "node_authorize env aid =
     bind_act (enter_state aid AUTHORIZED True False) (\<lambda>_.
     bind_act (with_db (make_guard (ht_settings env) aid)) (\<lambda>g.
     bind_act (with_db clock) (\<lambda>now.
     let precheck = check_record_active g (dt_us now) in
     ret (if sd_allowed precheck then ''ok'' else sd_reason precheck))))"

definition steps_with :: "string \<Rightarrow> string \<Rightarrow> db \<Rightarrow> string list" where
  "steps_with aid status d = map ps_id (filter (\<lambda>s. ps_status s = status) (steps_of aid d))"

definition node_discover :: "host \<Rightarrow> string \<Rightarrow> unit run" where
  "node_discover env aid = bind_act (enter_phase aid DISCOVERING) (\<lambda>_. with_client env aid (do_discovery env aid))"

definition node_plan :: "host \<Rightarrow> string \<Rightarrow> unit run" where
  "node_plan env aid =
     bind_act (enter_phase aid PLANNING) (\<lambda>_.
     bind_act (gets (\<lambda>s. map ep_id (endpoints_of aid (en_db s)))) (\<lambda>ids.
     bind_act (do_planning env aid ids) (\<lambda>_. ret ())))"

definition node_policy :: "host \<Rightarrow> string \<Rightarrow> string list run" where
  "node_policy env aid =
     bind_act (enter_phase aid POLICY_CHECK) (\<lambda>_.
     bind_act (with_db (make_guard (ht_settings env) aid)) (\<lambda>g.
     bind_act (gets (\<lambda>s. steps_with aid ''planned'' (en_db s))) (\<lambda>ids.
     bind_act (with_db (get_assessment aid)) (\<lambda>a.
     bind_act (declaratives env aid (a_org_id a)) (\<lambda>decls.
     bind_act (with_db (transaction (phase_policy aid
         (judge_step (ht_settings env) (ht_checks env) (ht_make env) decls g) ids))) (\<lambda>_.
     gets (\<lambda>s. held_step_ids aid (en_db s))))))))"

definition node_execute :: "host \<Rightarrow> string \<Rightarrow> unit run" where
  "node_execute env aid =
     bind_act (enter_phase aid EXECUTING) (\<lambda>_.
     bind_act (gets (\<lambda>s. steps_with aid ''approved'' (en_db s))) (\<lambda>ids.
     with_client env aid (do_execute env aid ids)))"

definition node_validate :: "host \<Rightarrow> string \<Rightarrow> unit run" where
  "node_validate env aid = bind_act (enter_phase aid VALIDATING) (\<lambda>_. with_client env aid (do_validate env aid))"

definition node_score :: "host \<Rightarrow> string \<Rightarrow> unit run" where
  "node_score env aid = bind_act (enter_phase aid SCORING) (\<lambda>_. do_score env aid)"

definition node_report :: "host \<Rightarrow> string \<Rightarrow> unit run" where
  "node_report env aid =
     bind_act (enter_phase aid REPORTING) (\<lambda>_. bind_act (do_report env aid) (\<lambda>_. enter_state aid COMPLETED False True))"

section \<open>The graph\<close>

record graph_state =
  gs_status :: string
  gs_error :: string
  gs_last_phase :: string
  gs_awaiting :: "string list"

definition started :: graph_state where
  "started = \<lparr>gs_status = ''running'', gs_error = [], gs_last_phase = [], gs_awaiting = []\<rparr>"

text \<open>What the work of a node comes to: it goes on, the record is refused, or steps are held.\<close>

datatype work_end = GoOn | Refused string | Held "string list"

definition node_work :: "host \<Rightarrow> string \<Rightarrow> node \<Rightarrow> work_end run" where
  "node_work env aid n = (case n of
     Authorize \<Rightarrow> bind_act (node_authorize env aid) (\<lambda>r. ret (if r = ''ok'' then GoOn else Refused r))
   | Discover \<Rightarrow> bind_act (node_discover env aid) (\<lambda>_. ret GoOn)
   | Plan \<Rightarrow> bind_act (node_plan env aid) (\<lambda>_. ret GoOn)
   | PolicyGate \<Rightarrow>
       bind_act (node_policy env aid) (\<lambda>held.
       if held = [] then ret GoOn
       else bind_act (with_db (mark_parked aid held)) (\<lambda>_. ret (Held held)))
   | Execute \<Rightarrow> bind_act (node_execute env aid) (\<lambda>_. ret GoOn)
   | Validate \<Rightarrow> bind_act (node_validate env aid) (\<lambda>_. ret GoOn)
   | Score \<Rightarrow> bind_act (node_score env aid) (\<lambda>_. ret GoOn)
   | Report \<Rightarrow> bind_act (node_report env aid) (\<lambda>_. ret GoOn))"

text \<open>\<open>_node\<close>: the state after the node, or None where it interrupts.\<close>

definition run_node :: "host \<Rightarrow> string \<Rightarrow> node \<Rightarrow> graph_state \<Rightarrow> graph_state option run" where
  "run_node env aid n st =
     (if gs_status st \<noteq> ''running'' then ret (Some st)
      else
        bind_act (with_db (cancelled aid)) (\<lambda>stop.
        if stop then ret (Some (st\<lparr>gs_status := ''cancelled'', gs_last_phase := node_name n\<rparr>))
        else
          catch_act
            (bind_act (node_work env aid n) (\<lambda>e. ret (case e of
                GoOn \<Rightarrow> Some (st\<lparr>gs_status := ''running'', gs_last_phase := node_name n, gs_awaiting := []\<rparr>)
              | Refused r \<Rightarrow> Some (st\<lparr>gs_status := ''failed'', gs_error := r, gs_last_phase := node_name n\<rparr>)
              | Held held \<Rightarrow> None)))
            (\<lambda>e. bind_act (with_db (mark_failed aid (exn_text e))) (\<lambda>_.
              ret (Some (st\<lparr>gs_status := ''failed'', gs_error := exn_message e, gs_last_phase := node_name n\<rparr>))))))"

definition workflow :: "node list" where
  "workflow = [Authorize, Discover, Plan, PolicyGate, Execute, Validate, Score, Report]"

text \<open>A run from a list of nodes: what is still to run when it stops, and the state. The edges leave a failed or
  cancelled run.\<close>

fun run_nodes :: "host \<Rightarrow> string \<Rightarrow> node list \<Rightarrow> graph_state \<Rightarrow> (node list \<times> graph_state) run" where
  "run_nodes env aid [] st = ret ([], st)"
| "run_nodes env aid (n # ns) st =
     bind_act (run_node env aid n st) (\<lambda>r. case r of
        None \<Rightarrow> ret (n # ns, st)
      | Some st' \<Rightarrow> if gs_status st' \<in> {''cancelled'', ''failed''} then ret ([], st') else run_nodes env aid ns st')"

record graph_outcome =
  go_mode :: string
  go_parked :: bool
  go_status :: string

text \<open>\<open>run_via_langgraph\<close>: a pending thread is continued, any other is started afresh.\<close>

definition run_via_langgraph ::
  "host \<Rightarrow> string \<Rightarrow> node list \<times> graph_state \<Rightarrow> (graph_outcome \<times> node list \<times> graph_state) run" where
  "run_via_langgraph env aid snapshot =
     (let (mode, todo, st) = (case snapshot of (pending, saved) \<Rightarrow>
            if pending \<noteq> [] then (''resume'', pending, saved) else (''fresh'', workflow, saved\<lparr>gs_status := ''running''\<rparr>))
      in
      bind_act (run_nodes env aid todo st) (\<lambda>(rest, st').
      if rest \<noteq> [] then ret (\<lparr>go_mode = mode, go_parked = True, go_status = ''parked''\<rparr>, rest, st')
      else
        bind_act (if gs_status st' = ''cancelled'' then bind_act (gets en_note) (\<lambda>note. with_db (finish_cancelled note aid)) else ret ())
          (\<lambda>_. ret (\<lparr>go_mode = mode, go_parked = False, go_status = gs_status st'\<rparr>, [], st'))))"

definition graph_run :: "host \<Rightarrow> string \<Rightarrow> node list \<times> graph_state \<Rightarrow> (graph_outcome \<times> node list \<times> graph_state) run" where
  "graph_run env aid snapshot s =
     (case run_via_langgraph env aid snapshot s of (r, s1) \<Rightarrow>
        (r, snd (with_db (persist_llm_budget aid (bs_budget (en_brain s1))) s1)))"

section \<open>Properties\<close>

lemma mark_parked_steps: "db_steps (snd (mark_parked aid held d)) = db_steps d"
  by (auto simp: mark_parked_def transaction_def bind_act_def write_audit_def new_id_def split: option.splits)

lemma work_held:
  assumes "node_work env aid n s = (Inr (Held held), s')"
  shows "n = PolicyGate \<and> held_step_ids aid (en_db s') \<noteq> []"
proof (cases n)
  case PolicyGate
  with assms obtain t where t: "node_policy env aid s = (Inr held, t)" "held \<noteq> []"
    "with_db (mark_parked aid held) t = (Inr (), s')"
    by (auto simp: node_work_def bind_act_Inr split: if_splits)
  from t(1) have "held = held_step_ids aid (en_db t)"
    unfolding node_policy_def bind_act_Inr act_simps by blast
  moreover have "db_steps (en_db s') = db_steps (en_db t)"
    using t(3) mark_parked_steps [of aid held "en_db t"] by (auto simp: with_db_def split: prod.splits)
  ultimately show ?thesis using t(2) PolicyGate by (simp add: held_step_ids_def)
qed (use assms in \<open>auto simp: node_work_def bind_act_Inr split: if_splits\<close>)

lemma run_node_parks:
  assumes "run_node env aid n st s = (Inr None, s')"
  shows "n = PolicyGate \<and> held_step_ids aid (en_db s') \<noteq> []"
proof -
  from assms obtain t held where "node_work env aid n t = (Inr (Held held), s')"
    by (auto simp: run_node_def bind_act_def catch_act_def split: if_splits prod.splits sum.splits work_end.splits)
  then show ?thesis by (rule work_held)
qed

lemma authorized_row:
  assumes "find_row a_id aid (db_assessments d) = Some a"
  shows "\<exists>d' b. set_state note aid AUTHORIZED True False d = (Inr (), d') \<and> db_records d' = db_records d \<and>
    find_row a_id aid (db_assessments d') = Some b \<and> a_state b = ''authorized'' \<and> a_error b = a_error a \<and>
    a_finished_at b = a_finished_at a \<and> a_authorization_id b = a_authorization_id a \<and> a_cancel_requested b = a_cancel_requested a"
  using assms unfolding set_state_def
  by (auto simp: transaction_def bind_act_def set_assessment_def clock_def write_audit_def new_id_def find_change_assessment)

lemma node_authorize_refuses:
  assumes a: "find_row a_id aid (db_assessments (en_db s)) = Some a"
    and z: "find_row az_id (a_authorization_id a) (db_records (en_db s)) = Some row"
    and v: "az_status row \<noteq> verification_status_value VS_VERIFIED"
  shows "\<exists>s' b r. node_authorize env aid s = (Inr r, s') \<and> r \<noteq> ''ok'' \<and> find_row a_id aid (db_assessments (en_db s')) = Some b \<and>
    a_state b = ''authorized'' \<and> a_error b = a_error a \<and> a_finished_at b = a_finished_at a"
proof -
  obtain d b where d: "set_state (en_note s) aid AUTHORIZED True False (en_db s) = (Inr (), d)" "db_records d = db_records (en_db s)"
    "find_row a_id aid (db_assessments d) = Some b" "a_state b = ''authorized''" "a_error b = a_error a"
    "a_finished_at b = a_finished_at a" "a_authorization_id b = a_authorization_id a"
    using authorized_row [OF a, of "en_note s"] by blast
  then show ?thesis
    using z v
    by (simp add: node_authorize_def enter_state_def bind_act_def with_db_def make_guard_def get_assessment_def fetch_def
        require_def clock_def check_record_active_def new_guard_def deny_def)
qed

text \<open>
  C34: a workflow parks only at the policy gate, and only while steps are held. When a run of the graph stops with nodes
  still to run, these are a tail of the nodes it was to run that begins with the policy gate, and at that moment a
  step of the assessment awaits approval; no later node has run.
\<close>

theorem graph_parks_only_on_held_steps:
  assumes "run_nodes env aid ns st s = (Inr (rest, st'), s')" "rest \<noteq> []"
  shows "(\<exists>before. ns = before @ rest) \<and> hd rest = PolicyGate \<and> held_step_ids aid (en_db s') \<noteq> []"
  using assms
proof (induction ns arbitrary: st s)
  case (Cons n ns)
  from Cons.prems(1) obtain r s1 where n: "run_node env aid n st s = (Inr r, s1)"
    and go: "(case r of None \<Rightarrow> ret (n # ns, st)
      | Some st' \<Rightarrow> if gs_status st' \<in> {''cancelled'', ''failed''} then ret ([], st') else run_nodes env aid ns st') s1 = (Inr (rest, st'), s')"
    unfolding run_nodes.simps bind_act_Inr by blast
  show ?case
  proof (cases r)
    case None
    with go have "rest = n # ns" "s1 = s'" by simp_all
    with run_node_parks n None show ?thesis by auto
  next
    case (Some t)
    with go Cons.prems(2) have "run_nodes env aid ns t s1 = (Inr (rest, st'), s')" by (auto split: if_splits)
    with Cons.IH Cons.prems(2) obtain before where "ns = before @ rest" "hd rest = PolicyGate" "held_step_ids aid (en_db s') \<noteq> []"
      by blast
    then show ?thesis by (auto intro: exI [of _ "n # before"])
  qed
qed simp

text \<open>
  The durable workflow strands a run whose authorization is refused. When the record is not verified, the graph ends
  with the status failed, but the assessment's row is left in the state authorized, without an error and without the
  time it finished, where the inline engine marks it failed.
\<close>

theorem graph_refusal_strands_run:
  assumes "find_row a_id aid (db_assessments (en_db s)) = Some a" "\<not> a_cancel_requested a"
    and "find_row az_id (a_authorization_id a) (db_records (en_db s)) = Some record"
    and "az_status record \<noteq> verification_status_value VS_VERIFIED"
  shows "\<exists>out st' s' b. run_via_langgraph env aid ([], started) s = (Inr (out, [], st'), s') \<and> go_status out = ''failed'' \<and>
    find_row a_id aid (db_assessments (en_db s')) = Some b \<and> a_state b = ''authorized'' \<and>
    a_error b = a_error a \<and> a_finished_at b = a_finished_at a"
proof -
  obtain s1 b r where w: "node_authorize env aid s = (Inr r, s1)" "r \<noteq> ''ok''" "find_row a_id aid (db_assessments (en_db s1)) = Some b"
    "a_state b = ''authorized''" "a_error b = a_error a" "a_finished_at b = a_finished_at a"
    using node_authorize_refuses [OF assms(1,3,4)] by blast
  have c: "with_db (cancelled aid) s = (Inr False, s)"
    using assms(1,2) by (simp add: with_db_def cancelled_def get_assessment_def fetch_def require_def bind_act_def)
  have "run_node env aid Authorize started s =
      (Inr (Some (started\<lparr>gs_status := ''failed'', gs_error := r, gs_last_phase := ''authorize''\<rparr>)), s1)"
    using w(1,2) c by (simp add: run_node_def started_def bind_act_def catch_act_def node_work_def)
  with w show ?thesis
    by (simp add: run_via_langgraph_def workflow_def started_def bind_act_def)
qed

section \<open>Witnesses\<close>

definition held_host :: host where
  "held_host = demo_host\<lparr>ht_settings := default_settings\<lparr>step_approval_required := True\<rparr>,
     ht_checks := [(''sqli.write'', (headers_check (guarded_web demo_world))
       \<lparr>ck_name := ''sqli.write'', ck_class := ''sqli'', ck_state_changing := True\<rparr>)]\<rparr>"

definition held_engine :: "http_client engine" where
  "held_engine = demo_engine\<lparr>en_db := (en_db demo_engine)\<lparr>db_steps := [demo_step ''s1'' ''sqli.write'' ''sqli'']\<rparr>\<rparr>"

theorem graph_parks_only_on_held_steps_witness:
  "held_step_ids ''a1'' (en_db (snd (run_nodes held_host ''a1'' [PolicyGate, Execute] started held_engine))) \<noteq> [] \<and>
   fst (run_nodes held_host ''a1'' [PolicyGate, Execute] started held_engine) = Inr ([PolicyGate, Execute], started)"
proof -
  let ?r = "run_nodes held_host ''a1'' [PolicyGate, Execute] started held_engine"
  have r: "fst ?r = Inr ([PolicyGate, Execute], started)" by code_simp
  then have e: "?r = (Inr ([PolicyGate, Execute], started), snd ?r)" by (metis prod.collapse)
  from graph_parks_only_on_held_steps [OF e] r show ?thesis by simp
qed

theorem graph_refusal_strands_run_witness:
  "\<exists>out st' s'. run_via_langgraph demo_host ''a1'' ([], started)
      (demo_engine\<lparr>en_db := (en_db demo_engine)\<lparr>db_records := [demo_authorization\<lparr>az_id := ''z1'', az_status := ''revoked''\<rparr>]\<rparr>\<rparr>)
      = (Inr (out, [], st'), s') \<and> go_status out = ''failed''"
proof -
  let ?s = "demo_engine\<lparr>en_db := (en_db demo_engine)\<lparr>db_records := [demo_authorization\<lparr>az_id := ''z1'', az_status := ''revoked''\<rparr>]\<rparr>\<rparr>"
  have "find_row a_id ''a1'' (db_assessments (en_db ?s)) = Some (new_assessment ''a1'' ''o1'' ''t1'' ''z1'' [])"
    "\<not> a_cancel_requested (new_assessment ''a1'' ''o1'' ''t1'' ''z1'' [])"
    "find_row az_id (a_authorization_id (new_assessment ''a1'' ''o1'' ''t1'' ''z1'' [])) (db_records (en_db ?s)) =
       Some (demo_authorization\<lparr>az_id := ''z1'', az_status := ''revoked''\<rparr>)"
    "az_status (demo_authorization\<lparr>az_id := ''z1'', az_status := ''revoked''\<rparr>) \<noteq> verification_status_value VS_VERIFIED"
    by code_simp+
  from graph_refusal_strands_run [OF this, of demo_host] show ?thesis by blast
qed

end
