(* ===== verification/Ownership.thy ===== *)
theory Ownership
  imports Parsers
begin

text \<open>
  \<open>app/services/ownership.py\<close>: proofs of control over a target, and \<open>app/services/cloud_assets.py\<close>: assets of a
  cloud provider before the scope guard. What the DNS library, the HTTP library and SHA-256 answer is the
  caller's; TXT strings are decoded already. The HTTP library's own errors are \<open>HttpError\<close>.
\<close>

datatype txt_answer = NoDnsLibrary | DnsError string | TxtValues "string list"

record proof_world =
  pw_settings :: settings
  pw_sha256 :: "string \<Rightarrow> string"
  pw_txt :: "string \<Rightarrow> txt_answer"
  pw_fetch :: "string \<Rightarrow> exn + (int \<times> string)"

record verification_outcome =
  vf_status :: verification_status
  vf_detail :: string

definition outcome :: "verification_status \<Rightarrow> string \<Rightarrow> verification_outcome" where
  "outcome s detail = \<lparr>vf_status = s, vf_detail = detail\<rparr>"

definition expected_dns_value :: "settings \<Rightarrow> string \<Rightarrow> string" where
  "expected_dns_value st token = ownership_dns_token_prefix st @ ''='' @ token"

definition host_of :: "string \<Rightarrow> exn + string" where
  "host_of base_url = sum_bind (hostname_of base_url) (\<lambda>h. Inr (str_lower h))"

definition verify_lab :: "string \<Rightarrow> verification_outcome" where
  "verify_lab host =
     (if host \<in> {''127.0.0.1'', ''localhost'', ''::1''} \<or> starts_with host ''127.''
      then outcome VS_VERIFIED ''bundled lab target on loopback''
      else outcome VS_FAILED ''lab_bundled method only valid for loopback controlled apps'')"

definition verify_attestation :: "proof_world \<Rightarrow> string option \<Rightarrow> verification_outcome" where
  "verify_attestation w attestation = (case attestation of
     None \<Rightarrow> outcome VS_FAILED ''manual attestation requires a signed statement of >= 32 chars''
   | Some a \<Rightarrow>
       if a = [] \<or> length (str_strip a) < 32
       then outcome VS_FAILED ''manual attestation requires a signed statement of >= 32 chars''
       else outcome VS_VERIFIED (''attestation recorded (sha256='' @ take 16 (pw_sha256 w a) @ ''...)''))"

definition verify_dns :: "proof_world \<Rightarrow> string \<Rightarrow> string \<Rightarrow> verification_outcome" where
  "verify_dns w host token =
     (let want = expected_dns_value (pw_settings w) token in
      case pw_txt w host of
        NoDnsLibrary \<Rightarrow> outcome VS_PENDING (''dnspython not installed; cannot check TXT automatically. Add TXT record: '' @ want)
      | DnsError e \<Rightarrow> outcome VS_FAILED (''DNS lookup failed: '' @ e)
      | TxtValues values \<Rightarrow>
          if list_ex (\<lambda>v. contains_str v want) values then outcome VS_VERIFIED (''TXT record matched on '' @ host)
          else outcome VS_FAILED (''expected TXT '' @ py_repr want @ '' not found (saw '' @ repr_list (take 5 values) @ '')''))"

definition verify_http_file :: "proof_world \<Rightarrow> string \<Rightarrow> string \<Rightarrow> exn + verification_outcome" where
  "verify_http_file w base_url token =
     sum_bind (urlsplit base_url) (\<lambda>parts.
     let url = u_scheme parts @ ''://'' @ u_netloc parts @ ownership_http_well_known_path (pw_settings w) in
     case pw_fetch w url of
       Inl (HttpError e) \<Rightarrow> Inr (outcome VS_FAILED (''could not fetch '' @ url @ '': '' @ e))
     | Inl e \<Rightarrow> Inl e
     | Inr (status, text) \<Rightarrow> Inr
         (if status = 200 \<and> contains_str text token then outcome VS_VERIFIED (''token found at '' @ url)
          else outcome VS_FAILED (''token not found at '' @ url @ '' (status='' @ int_str status @ '')'')))"

definition verify_ownership ::
  "proof_world \<Rightarrow> ownership_method \<Rightarrow> string \<Rightarrow> string \<Rightarrow> string \<Rightarrow> string option \<Rightarrow> exn + verification_outcome" where
  "verify_ownership w method host token base_url attestation = (case method of
     LAB_BUNDLED \<Rightarrow> Inr (verify_lab host)
   | MANUAL_ATTESTATION \<Rightarrow> Inr (verify_attestation w attestation)
   | DNS_TXT \<Rightarrow> Inr (verify_dns w host token)
   | HTTP_FILE \<Rightarrow> verify_http_file w base_url token)"

definition resolves :: "dns \<Rightarrow> string \<Rightarrow> bool" where
  "resolves dns host \<longleftrightarrow> dns host 0 \<noteq> None"

section \<open>Cloud assets\<close>

record cloud_asset =
  as_asset_id :: string
  as_kind :: string
  as_host :: string
  as_metadata :: dict

record asset_evaluation =
  av_asset :: cloud_asset
  av_authorized :: bool
  av_reason :: string
  av_code :: string

definition fake_assets :: "cloud_asset list" where
  "fake_assets =
     [\<lparr>as_asset_id = ''s3-001'', as_kind = ''s3_bucket'', as_host = ''assets.example-corp.com'', as_metadata = [(''region'', JStr ''us-east-1'')]\<rparr>,
      \<lparr>as_asset_id = ''ec2-001'', as_kind = ''ec2_instance'', as_host = ''10.0.4.17'', as_metadata = [(''vpc'', JStr ''vpc-lab'')]\<rparr>,
      \<lparr>as_asset_id = ''okta-001'', as_kind = ''okta_app'', as_host = ''login.example-corp.com'', as_metadata = [(''app'', JStr ''sso'')]\<rparr>]"

definition get_provider :: "string \<Rightarrow> exn + cloud_asset list" where
  "get_provider kind =
     (if kind = ''fake'' then Inr fake_assets
      else Inl (ValueError (''unknown cloud-asset provider '' @ py_repr kind @ '' (available: fake)'')))"

definition evaluate_assets :: "guard \<Rightarrow> cloud_asset list \<Rightarrow> asset_evaluation list" where
  "evaluate_assets g assets = map (\<lambda>a. let d = evaluate_new_asset g (as_host a) in
     \<lparr>av_asset = a, av_authorized = sd_allowed d, av_reason = sd_reason d, av_code = sd_code d\<rparr>) assets"

section \<open>What a proof shows\<close>

text \<open>
  The evidence behind a verified outcome, by method: a text record of the host that contains the token, an answer
  with status 200 from the target's own origin that contains it, a statement of 32 characters, or, for a lab
  target, nothing but the host's name.
\<close>

definition proof_given :: "proof_world \<Rightarrow> ownership_method \<Rightarrow> string \<Rightarrow> string \<Rightarrow> string \<Rightarrow> string option \<Rightarrow> bool" where
  "proof_given w method host token base_url attestation \<longleftrightarrow> (case method of
     DNS_TXT \<Rightarrow> \<exists>values. pw_txt w host = TxtValues values \<and>
       (\<exists>v \<in> set values. contains_str v (ownership_dns_token_prefix (pw_settings w) @ ''='' @ token))
   | HTTP_FILE \<Rightarrow> \<exists>parts text. urlsplit base_url = Inr parts \<and> contains_str text token \<and>
       pw_fetch w (u_scheme parts @ ''://'' @ u_netloc parts @ ownership_http_well_known_path (pw_settings w)) = Inr (200, text)
   | MANUAL_ATTESTATION \<Rightarrow> \<exists>statement. attestation = Some statement \<and> length (str_strip statement) \<ge> 32
   | LAB_BUNDLED \<Rightarrow> host \<in> {''localhost'', ''::1''} \<or> starts_with host ''127.'')"

lemma outcome_status [simp]: "vf_status (outcome s d) = s"
  by (simp add: outcome_def)

lemma file_proof:
  assumes "verify_http_file w base_url token = Inr out" "vf_status out = VS_VERIFIED"
  shows "proof_given w HTTP_FILE host token base_url attestation"
proof -
  from assms(1) obtain parts where parts: "urlsplit base_url = Inr parts"
    by (cases "urlsplit base_url") (simp_all add: verify_http_file_def sum_bind_def)
  let ?url = "u_scheme parts @ ''://'' @ u_netloc parts @ ownership_http_well_known_path (pw_settings w)"
  show ?thesis
  proof (cases "pw_fetch w ?url")
    case (Inl e)
    with assms parts show ?thesis by (cases e) (auto simp: verify_http_file_def sum_bind_def Let_def)
  next
    case (Inr a)
    obtain st body where a: "a = (st, body)" by fastforce
    from assms parts Inr a have "st = 200 \<and> contains_str body token"
      by (auto simp: verify_http_file_def sum_bind_def Let_def split: if_split_asm)
    with parts Inr a show ?thesis unfolding proof_given_def by simp
  qed
qed

lemma verified_has_proof:
  assumes "verify_ownership w m host token base_url attestation = Inr out" "vf_status out = VS_VERIFIED"
  shows "proof_given w m host token base_url attestation"
proof (cases m)
  case DNS_TXT
  with assms show ?thesis
    by (auto simp: verify_ownership_def verify_dns_def expected_dns_value_def proof_given_def Let_def list_ex_iff
        split: txt_answer.splits if_split_asm)
next
  case HTTP_FILE
  with assms file_proof show ?thesis by (simp add: verify_ownership_def)
next
  case MANUAL_ATTESTATION
  with assms show ?thesis
    by (auto simp: verify_ownership_def verify_attestation_def proof_given_def not_less
        split: option.splits if_split_asm)
next
  case LAB_BUNDLED
  with assms show ?thesis
    by (auto simp: verify_ownership_def verify_lab_def proof_given_def split: if_split_asm)
qed

end
