(* ===== verification/Targets.thy ===== *)
theory Targets
  imports Api Sessions Ownership
begin

text \<open>
  \<open>app/api/routers/targets.py\<close> with its request bodies of \<open>app/api/schemas.py\<close>: targets, proofs of ownership,
  authorization records and test accounts. A route acts on the database; the world of a request holds what the
  proofs and logins meet outside, the encryption of secrets and the random token drawn. Where the program
  renders a row the answer is its identifier and what a client decides on.
\<close>

section \<open>Request bodies\<close>

record target_create =
  tc_name :: string
  tc_base_url :: string
  tc_environment :: string
  tc_description :: string

definition target_create_ok :: "target_create \<Rightarrow> bool" where
  "target_create_ok b \<longleftrightarrow> 1 \<le> length (tc_name b) \<and> length (tc_name b) \<le> 200 \<and>
     3 \<le> length (tc_base_url b) \<and> length (tc_base_url b) \<le> 1000"

record ownership_start =
  os_method :: string
  os_attestation :: "string option"

record authorization_create =
  ac_environment :: string
  ac_intensity :: string
  ac_allowed_hosts :: "string list"
  ac_allowed_ports :: "int list"
  ac_allowed_methods :: "string list"
  ac_allowed_check_classes :: "string list"
  ac_path_allowlist :: "string list"
  ac_path_denylist :: "string list"
  ac_max_requests :: int
  ac_rate_limit_per_sec :: rat
  ac_max_duration_seconds :: int
  ac_window_start :: "datetime option"
  ac_window_end :: "datetime option"
  ac_allow_state_changing :: bool
  ac_authorized_by :: string
  ac_notes :: string

definition default_authorization_create :: authorization_create where
  "default_authorization_create =
     \<lparr>ac_environment = ''lab'', ac_intensity = ''safe_active'', ac_allowed_hosts = [], ac_allowed_ports = [],
      ac_allowed_methods = [''GET'', ''POST''], ac_allowed_check_classes = [], ac_path_allowlist = [],
      ac_path_denylist = [], ac_max_requests = 2000, ac_rate_limit_per_sec = 10, ac_max_duration_seconds = 900,
      ac_window_start = None, ac_window_end = None, ac_allow_state_changing = False, ac_authorized_by = [], ac_notes = []\<rparr>"

record test_account_create =
  tac_label :: string
  tac_role_name :: string
  tac_auth_type :: string
  tac_username :: string
  tac_secret :: string
  tac_login_config :: dict
  tac_owns_object_ids :: "jv list"

record target_world =
  tw_proof :: proof_world
  tw_login :: login_world
  tw_encrypt :: "string \<Rightarrow> string"
  tw_token :: string

section \<open>Targets\<close>

definition create_target :: "principal \<Rightarrow> target_create \<Rightarrow> (db, dict) act" where
  "create_target p body =
     bind_act (need (target_create_ok body) 422 ''request validation failed'') (\<lambda>_.
     bind_act (lift_sum (host_of (tc_base_url body))) (\<lambda>host.
     bind_act (need (host \<noteq> []) 422 ''base_url must be an absolute http(s) URL'') (\<lambda>_.
     bind_act (need (environment_of (tc_environment body) \<noteq> None) 422 (''invalid environment '' @ py_repr (tc_environment body))) (\<lambda>_.
     bind_act new_id (\<lambda>i.
     bind_act (modify (\<lambda>d. d\<lparr>db_targets := db_targets d @
       [\<lparr>tg_id = i, tg_org_id = pr_org_id p, tg_name = tc_name body, tg_base_url = tc_base_url body,
         tg_environment = tc_environment body, tg_description = tc_description body\<rparr>]\<rparr>)) (\<lambda>_.
     ret [(''id'', JStr i)]))))))"

definition list_targets :: "principal \<Rightarrow> (db, target list) act" where
  "list_targets p = gets (\<lambda>d. filter (\<lambda>t. tg_org_id t = pr_org_id p) (db_targets d))"

definition own_target :: "principal \<Rightarrow> string \<Rightarrow> (db, target) act" where
  "own_target p tid = bind_act (gets (\<lambda>d. find_row tg_id tid (db_targets d))) (\<lambda>t. case t of
     None \<Rightarrow> raise_exn (HTTPException 404 ''target not found'')
   | Some x \<Rightarrow> if tg_org_id x \<noteq> pr_org_id p then raise_exn (HTTPException 404 ''target not found'') else ret x)"

section \<open>Cloud assets\<close>

definition cloud_record :: "principal \<Rightarrow> string \<Rightarrow> string option \<Rightarrow> (db, authorization_record) act" where
  "cloud_record p tid authorization_id = (case authorization_id of
     Some (c # cs) \<Rightarrow> bind_act (gets (\<lambda>d. find_row az_id (c # cs) (db_records d))) (\<lambda>r. case r of
         None \<Rightarrow> raise_exn (HTTPException 404 ''authorization not found for target'')
       | Some x \<Rightarrow>
         if az_org_id x \<noteq> pr_org_id p \<or> az_target_id x \<noteq> tid
         then raise_exn (HTTPException 404 ''authorization not found for target'') else ret x)
   | _ \<Rightarrow> bind_act (gets (\<lambda>d. filter (\<lambda>r. az_target_id r = tid \<and> az_org_id r = pr_org_id p \<and>
            az_status r = verification_status_value VS_VERIFIED) (db_records d))) (\<lambda>rows.
         if rows = [] then raise_exn (HTTPException 409 ''a verified authorization record is required to evaluate assets'')
         else ret (last rows)))"

definition evaluate_cloud_assets ::
  "settings \<Rightarrow> principal \<Rightarrow> string \<Rightarrow> string \<Rightarrow> string option \<Rightarrow> (db, dict) act" where
  "evaluate_cloud_assets st p tid provider authorization_id =
     bind_act (own_target p tid) (\<lambda>_.
     bind_act (cloud_record p tid authorization_id) (\<lambda>record.
     bind_act (lift_sum (case get_provider provider of Inl (ValueError m) \<Rightarrow> Inl (HTTPException 422 m) | r \<Rightarrow> r)) (\<lambda>assets.
     let evaluations = evaluate_assets (new_guard st record 0) assets in
     bind_act (write_audit (pr_org_id p) None ''system'' ''cloud_assets.evaluated''
       [(''provider'', JStr provider), (''assets'', JInt (int (length assets))),
        (''authorized'', JInt (int (length (filter av_authorized evaluations))))]) (\<lambda>_.
     ret [(''provider'', JStr provider), (''authorization_id'', JStr (az_id record)),
          (''assets'', JList (map (\<lambda>e. JDict [(''asset_id'', JStr (as_asset_id (av_asset e))), (''kind'', JStr (as_kind (av_asset e))),
             (''host'', JStr (as_host (av_asset e))), (''authorized'', JBool (av_authorized e)), (''reason'', JStr (av_reason e)),
             (''code'', JStr (av_code e))]) evaluations))]))))"

section \<open>Ownership\<close>

definition instructions :: "settings \<Rightarrow> ownership_method \<Rightarrow> string \<Rightarrow> string \<Rightarrow> string" where
  "instructions st method host token = (case method of
     DNS_TXT \<Rightarrow> ''Add DNS TXT record on '' @ host @ '': '' @ ownership_dns_token_prefix st @ ''='' @ token
   | HTTP_FILE \<Rightarrow> ''Serve token at https://'' @ host @ ownership_http_well_known_path st @ '' (content: '' @ token @ '')''
   | MANUAL_ATTESTATION \<Rightarrow> ''Submit a signed delegated-permission attestation (>=32 chars) in '' @ squoted ''attestation'' @ ''.''
   | LAB_BUNDLED \<Rightarrow> ''Bundled lab target on loopback '' @ utf8 8212 @ '' auto-verified.'')"

definition set_ownership :: "string \<Rightarrow> verification_outcome \<Rightarrow> (db, unit) act" where
  "set_ownership oid out = modify (\<lambda>d. d\<lparr>db_ownerships := change_row ov_id oid
     (\<lambda>r. r\<lparr>ov_status := verification_status_value (vf_status out), ov_detail := vf_detail out\<rparr>) (db_ownerships d)\<rparr>)"

definition ownership_status :: "string \<Rightarrow> (db, string) act" where
  "ownership_status oid = gets (\<lambda>d. case find_row ov_id oid (db_ownerships d) of Some r \<Rightarrow> ov_status r | None \<Rightarrow> [])"

definition checked_environment :: "target \<Rightarrow> exn + environment" where
  "checked_environment t = (case environment_of (tg_environment t) of
     Some e \<Rightarrow> Inr e | None \<Rightarrow> Inl (ValueError (py_repr (tg_environment t) @ '' is not a valid Environment'')))"

definition start_ownership :: "target_world \<Rightarrow> principal \<Rightarrow> string \<Rightarrow> ownership_start \<Rightarrow> (db, dict) act" where
  "start_ownership w p tid body =
     bind_act (own_target p tid) (\<lambda>target.
     case ownership_method_of (os_method body) of
       None \<Rightarrow> raise_exn (HTTPException 422 (''invalid method '' @ py_repr (os_method body)))
     | Some method \<Rightarrow>
       bind_act (lift_sum (host_of (tg_base_url target))) (\<lambda>host.
       bind_act new_id (\<lambda>i.
       bind_act (modify (\<lambda>d. d\<lparr>db_ownerships := db_ownerships d @
         [\<lparr>ov_id = i, ov_org_id = pr_org_id p, ov_target_id = tid, ov_method = ownership_method_value method, ov_token = tw_token w,
           ov_host = host, ov_status = verification_status_value VS_PENDING, ov_detail = []\<rparr>]\<rparr>)) (\<lambda>_.
       bind_act (if method \<in> {LAB_BUNDLED, MANUAL_ATTESTATION}
          then bind_act (lift_sum (checked_environment target)) (\<lambda>_.
               bind_act (lift_sum (verify_ownership (tw_proof w) method host (tw_token w) (tg_base_url target) (os_attestation body))) (\<lambda>out.
               set_ownership i out))
          else ret ()) (\<lambda>_.
       bind_act (ownership_status i) (\<lambda>status.
       bind_act (write_audit (pr_org_id p) None ''system'' ''ownership.started''
         [(''target_id'', JStr tid), (''method'', JStr (ownership_method_value method)), (''status'', JStr status)]) (\<lambda>_.
       ret [(''id'', JStr i), (''token'', JStr (tw_token w)), (''status'', JStr status),
            (''instructions'', JStr (instructions (pw_settings (tw_proof w)) method host (tw_token w)))])))))))"

definition verify_ownership_route :: "target_world \<Rightarrow> principal \<Rightarrow> string \<Rightarrow> string \<Rightarrow> (db, dict) act" where
  "verify_ownership_route w p tid oid =
     bind_act (own_target p tid) (\<lambda>target.
     bind_act (gets (\<lambda>d. find_row ov_id oid (db_ownerships d))) (\<lambda>ro. case ro of
       None \<Rightarrow> raise_exn (HTTPException 404 ''ownership record not found'')
     | Some row \<Rightarrow>
       if ov_target_id row \<noteq> tid \<or> ov_org_id row \<noteq> pr_org_id p then raise_exn (HTTPException 404 ''ownership record not found'')
       else (case ownership_method_of (ov_method row) of
         None \<Rightarrow> raise_exn (ValueError (py_repr (ov_method row) @ '' is not a valid OwnershipMethod''))
       | Some method \<Rightarrow>
         bind_act (lift_sum (checked_environment target)) (\<lambda>_.
         bind_act (lift_sum (verify_ownership (tw_proof w) method (ov_host row) (ov_token row) (tg_base_url target) None)) (\<lambda>out.
         bind_act (set_ownership oid out) (\<lambda>_.
         bind_act (write_audit (pr_org_id p) None ''system'' ''ownership.verified''
           [(''target_id'', JStr tid), (''status'', JStr (verification_status_value (vf_status out)))]) (\<lambda>_.
         ret [(''id'', JStr oid), (''token'', JStr (ov_token row)), (''status'', JStr (verification_status_value (vf_status out))),
              (''detail'', JStr (vf_detail out)),
              (''instructions'', JStr (instructions (pw_settings (tw_proof w)) method (ov_host row) (ov_token row)))])))))))"

section \<open>Authorization records\<close>

definition verified_own :: "string \<Rightarrow> db \<Rightarrow> ownership_verification option" where
  "verified_own tid d =
     List.find (\<lambda>v. ov_target_id v = tid \<and> ov_status v = verification_status_value VS_VERIFIED) (db_ownerships d)"

definition authorization_row ::
  "string \<Rightarrow> principal \<Rightarrow> string \<Rightarrow> string list \<Rightarrow> ownership_verification option \<Rightarrow> authorization_create \<Rightarrow> authorization_record" where
  "authorization_row i p tid hosts own body =
     \<lparr>az_id = i, az_org_id = pr_org_id p, az_target_id = tid,
      az_status = verification_status_value (if own = None then VS_PENDING else VS_VERIFIED),
      az_environment = ac_environment body, az_intensity = ac_intensity body, az_allowed_hosts = hosts,
      az_allowed_ports = ac_allowed_ports body, az_allowed_methods = map str_upper (ac_allowed_methods body),
      az_allowed_check_classes = ac_allowed_check_classes body, az_path_allowlist = ac_path_allowlist body,
      az_path_denylist = ac_path_denylist body, az_max_requests = ac_max_requests body,
      az_rate_limit_per_sec = ac_rate_limit_per_sec body, az_max_duration_seconds = ac_max_duration_seconds body,
      az_window_start = ac_window_start body, az_window_end = ac_window_end body,
      az_allow_state_changing = ac_allow_state_changing body, az_ownership_verification_id = map_option ov_id own,
      az_authorized_by = (if ac_authorized_by body = [] then pr_user_id p else ac_authorized_by body),
      az_signature = [], az_notes = ac_notes body\<rparr>"

definition create_authorization :: "principal \<Rightarrow> string \<Rightarrow> authorization_create \<Rightarrow> (db, dict) act" where
  "create_authorization p tid body =
     bind_act (own_target p tid) (\<lambda>target.
     bind_act (lift_sum (host_of (tg_base_url target))) (\<lambda>host.
     bind_act (gets (verified_own tid)) (\<lambda>own.
     let hosts = (if ac_allowed_hosts body = [] then [host] else ac_allowed_hosts body) in
     bind_act (need (host \<in> set hosts \<or> own \<noteq> None) 422 ''target host must be in allowed_hosts, or verify ownership first'') (\<lambda>_.
     bind_act (need (\<not> (ac_intensity body = ''invasive'' \<and> ac_environment body = ''production'')) 422
       ''invasive intensity forbidden in production'') (\<lambda>_.
     bind_act new_id (\<lambda>i.
     let row = authorization_row i p tid hosts own body in
     bind_act (modify (\<lambda>d. d\<lparr>db_records := db_records d @ [row]\<rparr>)) (\<lambda>_.
     bind_act (write_audit (pr_org_id p) None ''system'' ''authorization.created''
       [(''target_id'', JStr tid), (''status'', JStr (az_status row)), (''intensity'', JStr (ac_intensity body)),
        (''allowed_hosts'', JList (map JStr hosts))]) (\<lambda>_.
     ret [(''id'', JStr i), (''status'', JStr (az_status row))]))))))))"

definition list_authorizations :: "principal \<Rightarrow> string \<Rightarrow> (db, authorization_record list) act" where
  "list_authorizations p tid =
     bind_act (own_target p tid) (\<lambda>_.
     gets (\<lambda>d. filter (\<lambda>r. az_target_id r = tid \<and> az_org_id r = pr_org_id p) (db_records d)))"

section \<open>Test accounts\<close>

definition create_test_account :: "target_world \<Rightarrow> principal \<Rightarrow> string \<Rightarrow> test_account_create \<Rightarrow> (db, dict) act" where
  "create_test_account w p tid body =
     bind_act (own_target p tid) (\<lambda>_.
     bind_act (need (tac_auth_type body \<in> {''form'', ''bearer'', ''basic'', ''header''}) 422
       (''invalid auth_type '' @ py_repr (tac_auth_type body))) (\<lambda>_.
     bind_act new_id (\<lambda>i.
     bind_act (modify (\<lambda>d. d\<lparr>db_accounts := db_accounts d @
       [\<lparr>ta_id = i, ta_org_id = pr_org_id p, ta_target_id = tid, ta_label = tac_label body, ta_role_name = tac_role_name body,
         ta_auth_type = tac_auth_type body, ta_username = tac_username body,
         ta_secret_enc = (if tac_secret body = [] then [] else tw_encrypt w (tac_secret body)),
         ta_login_config = tac_login_config body, ta_owns_object_ids = tac_owns_object_ids body,
         ta_secret_rotated_at = None, ta_secret_ttl_days = 0\<rparr>]\<rparr>)) (\<lambda>_.
     ret [(''id'', JStr i)]))))"

definition list_test_accounts :: "principal \<Rightarrow> string \<Rightarrow> (db, test_account list) act" where
  "list_test_accounts p tid =
     bind_act (own_target p tid) (\<lambda>_.
     gets (\<lambda>d. filter (\<lambda>r. ta_target_id r = tid \<and> ta_org_id r = pr_org_id p) (db_accounts d)))"

definition own_account :: "principal \<Rightarrow> string \<Rightarrow> string \<Rightarrow> (db, test_account) act" where
  "own_account p tid acc =
     bind_act (own_target p tid) (\<lambda>_.
     bind_act (gets (\<lambda>d. find_row ta_id acc (db_accounts d))) (\<lambda>a. case a of
       None \<Rightarrow> raise_exn (HTTPException 404 ''test account not found'')
     | Some x \<Rightarrow>
       if ta_org_id x \<noteq> pr_org_id p \<or> ta_target_id x \<noteq> tid then raise_exn (HTTPException 404 ''test account not found'')
       else ret x))"

definition mfa_login :: "login_world \<Rightarrow> test_account \<Rightarrow> string \<Rightarrow> exn + session_state" where
  "mfa_login w acc code = sum_bind (establish_session w acc) (\<lambda>s.
     if ss_status s = ''pending_mfa'' then complete_mfa w acc s code else Inr s)"

text \<open>The audit row is committed before a login that failed is answered with an error.\<close>

definition complete_account_mfa :: "target_world \<Rightarrow> principal \<Rightarrow> string \<Rightarrow> string \<Rightarrow> dict \<Rightarrow> (db, session_state) act" where
  "complete_account_mfa w p tid acc body =
     bind_act (own_account p tid acc) (\<lambda>account.
     let code = str_strip (str_jv (jget_or body ''code'' (JStr []))) in
     bind_act (need (code \<noteq> []) 422 (squoted ''code'' @ '' is required'')) (\<lambda>_.
     bind_act (lift_sum (mfa_login (tw_login w) account code)) (\<lambda>s.
     bind_act (write_audit (pr_org_id p) None ''system'' ''test_account.mfa_completed''
       [(''account_id'', JStr acc), (''status'', JStr (ss_status s))]) (\<lambda>_. ret s))))"

definition mfa_answer :: "string \<Rightarrow> session_state \<Rightarrow> exn + dict" where
  "mfa_answer acc s =
     (if ss_status s \<noteq> ''active'' then Inl (HTTPException 400 (''MFA/login not completed: '' @ ss_detail s))
      else Inr [(''account_id'', JStr acc), (''status'', JStr (ss_status s)), (''role_name'', JStr (ss_role_name s)),
                (''detail'', JStr (ss_detail s))])"

definition rotate_account_secret :: "target_world \<Rightarrow> principal \<Rightarrow> string \<Rightarrow> string \<Rightarrow> dict \<Rightarrow> (db, dict) act" where
  "rotate_account_secret w p tid acc body =
     bind_act (own_account p tid acc) (\<lambda>account.
     let secret = jget body ''secret'' in
     bind_act (need (truthy secret) 422 (squoted ''secret'' @ '' is required'')) (\<lambda>_.
     bind_act (lift_sum (int_of (jget_or body ''ttl_days'' (JInt (ta_secret_ttl_days account))))) (\<lambda>ttl.
     bind_act clock (\<lambda>now.
     bind_act (lift_sum (text_of ''encode'' secret)) (\<lambda>plain.
     bind_act (modify (\<lambda>d. d\<lparr>db_accounts := change_row ta_id acc
       (\<lambda>r. r\<lparr>ta_secret_enc := tw_encrypt w plain, ta_secret_rotated_at := Some now, ta_secret_ttl_days := ttl\<rparr>) (db_accounts d)\<rparr>)) (\<lambda>_.
     bind_act (write_audit (pr_org_id p) None ''system'' ''test_account.secret_rotated''
       [(''account_id'', JStr acc), (''ttl_days'', JInt ttl)]) (\<lambda>_.
     ret [(''account_id'', JStr acc), (''rotated_at'', JStr (dt_iso now)), (''ttl_days'', JInt ttl)])))))))"

section \<open>Requests\<close>

datatype target_request =
    TgCreate target_create
  | TgCloud string string "string option"
  | TgOwn string ownership_start
  | TgVerify string string
  | TgAuthorize string authorization_create
  | TgAccount string test_account_create
  | TgMfa string string dict
  | TgRotate string string dict

fun target_work :: "target_world \<Rightarrow> principal \<Rightarrow> target_request \<Rightarrow> (db, dict) act" where
  "target_work w p (TgCreate body) = transaction (create_target p body)"
| "target_work w p (TgCloud tid provider az) = transaction (evaluate_cloud_assets (pw_settings (tw_proof w)) p tid provider az)"
| "target_work w p (TgOwn tid body) = transaction (start_ownership w p tid body)"
| "target_work w p (TgVerify tid oid) = transaction (verify_ownership_route w p tid oid)"
| "target_work w p (TgAuthorize tid body) = transaction (create_authorization p tid body)"
| "target_work w p (TgAccount tid body) = transaction (create_test_account w p tid body)"
| "target_work w p (TgMfa tid acc body) =
     bind_act (transaction (complete_account_mfa w p tid acc body)) (\<lambda>s. lift_sum (mfa_answer acc s))"
| "target_work w p (TgRotate tid acc body) = transaction (rotate_account_secret w p tid acc body)"

definition handle_target :: "target_world \<Rightarrow> principal \<Rightarrow> target_request \<Rightarrow> (db, dict) act" where
  "handle_target w p req = bind_act (lift_sum (require_role OPERATOR p)) (\<lambda>_. target_work w p req)"

end
