(* ===== verification/Authority.thy ===== *)
theory Authority
  imports Targets
begin

text \<open>
  Where verified authorization records come from. Requests to the routes of \<open>Targets\<close> are served one after
  another, each in its own world; a record is verified only if one of them proved control over the record's
  target. The shortest such proof is also shown: the name of a host.
\<close>

type_synonym event = "target_world \<times> principal \<times> target_request"

fun serve :: "event list \<Rightarrow> db \<Rightarrow> db" where
  "serve [] d = d"
| "serve ((w, p, req) # es) d = serve es (snd (handle_target w p req d))"

definition attested :: "target_request \<Rightarrow> string option" where
  "attested req = (case req of TgOwn _ body \<Rightarrow> os_attestation body | _ \<Rightarrow> None)"

text \<open>
  The row of a proof belongs to a target of its organisation and names its host; it was proved if some request
  of the organisation met the evidence.
\<close>

definition placed :: "db \<Rightarrow> ownership_verification \<Rightarrow> bool" where
  "placed d v \<longleftrightarrow> (case find_row tg_id (ov_target_id v) (db_targets d) of None \<Rightarrow> False
     | Some t \<Rightarrow> tg_org_id t = ov_org_id v \<and> host_of (tg_base_url t) = Inr (ov_host v))"

definition proved :: "event set \<Rightarrow> db \<Rightarrow> ownership_verification \<Rightarrow> bool" where
  "proved es d v \<longleftrightarrow> (\<exists>w p req m t. (w, p, req) \<in> es \<and> pr_org_id p = ov_org_id v \<and>
     find_row tg_id (ov_target_id v) (db_targets d) = Some t \<and> ownership_method_of (ov_method v) = Some m \<and>
     proof_given (tw_proof w) m (ov_host v) (ov_token v) (tg_base_url t) (attested req))"

definition vouched :: "event set \<Rightarrow> db \<Rightarrow> authorization_record \<Rightarrow> bool" where
  "vouched es d r \<longleftrightarrow> (\<exists>v \<in> set (db_ownerships d). az_ownership_verification_id r = Some (ov_id v) \<and>
     az_target_id r = ov_target_id v \<and> placed d v \<and> proved es d v)"

definition good_proof :: "event set \<Rightarrow> db \<Rightarrow> ownership_verification \<Rightarrow> bool" where
  "good_proof es d v \<longleftrightarrow> ov_id v \<in> db_uuid d ` {..< db_drawn d} \<and> placed d v \<and>
     (ov_status v = verification_status_value VS_VERIFIED \<longrightarrow> proved es d v)"

definition sound_db :: "event set \<Rightarrow> db \<Rightarrow> bool" where
  "sound_db es d \<longleftrightarrow>
     inj (db_uuid d) \<and> distinct (map ov_id (db_ownerships d)) \<and> (\<forall>v \<in> set (db_ownerships d). good_proof es d v) \<and>
     (\<forall>r \<in> set (db_records d). az_status r = verification_status_value VS_VERIFIED \<longrightarrow> vouched es d r)"

section \<open>What leaves proofs alone\<close>

text \<open>Identifiers are only drawn, targets only added; proofs and records stay.\<close>

definition grows :: "db \<Rightarrow> db \<Rightarrow> bool" where
  "grows d d' \<longleftrightarrow> db_uuid d' = db_uuid d \<and> db_drawn d \<le> db_drawn d' \<and> (\<exists>ts. db_targets d' = db_targets d @ ts)"

definition idle :: "db \<Rightarrow> db \<Rightarrow> bool" where
  "idle d d' \<longleftrightarrow> grows d d' \<and> db_ownerships d' = db_ownerships d \<and> db_records d' = db_records d"

lemma grows_refl [simp]: "grows d d"
  by (simp add: grows_def)

lemma grows_trans: "grows a b \<Longrightarrow> grows b c \<Longrightarrow> grows a c"
  by (auto simp: grows_def)

lemma find_row_append: "find_row key k xs = Some r \<Longrightarrow> find_row key k (xs @ ys) = Some r"
  by (induction xs) (auto simp: find_row_def)

lemma grows_find: "grows d d' \<Longrightarrow> find_row tg_id k (db_targets d) = Some t \<Longrightarrow> find_row tg_id k (db_targets d') = Some t"
  by (auto simp: grows_def find_row_append)

lemma grows_placed: "grows d d' \<Longrightarrow> placed d v \<Longrightarrow> placed d' v"
  by (auto simp: placed_def grows_find split: option.splits)

lemma grows_proved: "grows d d' \<Longrightarrow> es \<subseteq> es' \<Longrightarrow> proved es d v \<Longrightarrow> proved es' d' v"
  unfolding proved_def using grows_find by blast

lemma drawn_mono: "grows d d' \<Longrightarrow> db_uuid d ` {..< db_drawn d} \<subseteq> db_uuid d' ` {..< db_drawn d'}"
  by (auto simp: grows_def)

lemma grows_good: "grows d d' \<Longrightarrow> es \<subseteq> es' \<Longrightarrow> good_proof es d v \<Longrightarrow> good_proof es' d' v"
  using grows_placed [of d d' v] grows_proved [of d d' es es' v] drawn_mono [of d d'] by (auto simp: good_proof_def)

text \<open>The columns of a proof that never change.\<close>

definition core :: "ownership_verification \<Rightarrow> string list" where
  "core v = [ov_id v, ov_target_id v, ov_org_id v, ov_method v, ov_token v, ov_host v]"

lemma core_proof: "core v' = core v \<Longrightarrow> placed d v' = placed d v \<and> proved es d v' = proved es d v"
  by (simp add: core_def placed_def proved_def split: option.split)

lemma vouched_mono:
  assumes "grows d d'" "es \<subseteq> es'" "core ` set (db_ownerships d) \<subseteq> core ` set (db_ownerships d')" "vouched es d r"
  shows "vouched es' d' r"
proof -
  from assms(4) obtain v where v: "v \<in> set (db_ownerships d)" "az_ownership_verification_id r = Some (ov_id v)"
    "az_target_id r = ov_target_id v" "placed d v" "proved es d v" by (auto simp: vouched_def)
  with assms(3) obtain v' where v': "v' \<in> set (db_ownerships d')" "core v' = core v" by (force simp: image_iff)
  then have "ov_id v' = ov_id v" "ov_target_id v' = ov_target_id v" by (simp_all add: core_def)
  with v v' core_proof [OF v'(2)] grows_placed [OF assms(1)] grows_proved [OF assms(1,2)] show ?thesis
    unfolding vouched_def by metis
qed

lemma idle_sound:
  assumes "idle d d'" "es \<subseteq> es'" "sound_db es d"
  shows "sound_db es' d'"
  using assms grows_good [of d d' es es'] vouched_mono [of d d' es es']
  by (auto simp: sound_db_def idle_def grows_def)

interpretation idle_frame: frame idle
  by unfold_locales (auto simp: idle_def intro: grows_trans)

lemma idle_new_id: "keeps idle new_id"
  by (simp add: keeps_def new_id_def idle_def grows_def)

lemma idle_clock: "keeps idle clock"
  by (simp add: keeps_def clock_def idle_def grows_def)

lemma idle_audit: "keeps idle (write_audit org aid actor event data)"
  unfolding write_audit_def
  by (intro idle_frame.keeps_bind idle_new_id idle_frame.keeps_modify) (simp add: idle_def grows_def)

lemma idle_need: "keeps idle (need b st m)"
  by (simp add: need_def idle_frame.keeps_ret idle_frame.keeps_raise)

text \<open>A transaction that fails has only drawn identifiers.\<close>

lemma failed_idle: "idle d d1 \<Longrightarrow> idle d (d\<lparr>db_drawn := db_drawn d1, db_reads := db_reads d1\<rparr>)"
  by (simp add: idle_def grows_def)

lemma idle_transaction:
  assumes "keeps idle m"
  shows "keeps idle (transaction m)"
  unfolding keeps_def
proof
  fix d
  obtain r d' where "m d = (r, d')" by fastforce
  with keepsD [OF assms this] show "idle d (snd (transaction m d))"
    by (cases r) (auto simp: transaction_def failed_idle)
qed

lemma idle_own: "keeps idle (own_target p tid)" "keeps idle (own_account p tid acc)"
  unfolding own_target_def own_account_def
  by (intro idle_frame.keeps_bind idle_frame.keeps_gets idle_frame.keeps_option idle_frame.keeps_if
      idle_frame.keeps_raise idle_frame.keeps_ret)+

lemmas idle_rules = idle_frame.keeps_ret idle_frame.keeps_raise idle_frame.keeps_lift idle_frame.keeps_gets
  idle_frame.keeps_bind idle_frame.keeps_if idle_new_id idle_clock idle_audit idle_need idle_own

lemma idle_create_target: "keeps idle (create_target p body)"
  unfolding create_target_def
  by (intro idle_rules idle_frame.keeps_modify) (simp add: idle_def grows_def)

lemma idle_cloud: "keeps idle (evaluate_cloud_assets st p tid provider az)"
  unfolding evaluate_cloud_assets_def cloud_record_def Let_def
  by (intro idle_rules; simp split: option.split list.split; intro conjI allI impI idle_rules idle_frame.keeps_option)

lemma idle_account: "keeps idle (create_test_account w p tid body)"
  unfolding create_test_account_def
  by (intro idle_rules idle_frame.keeps_modify) (simp add: idle_def grows_def)

lemma idle_mfa: "keeps idle (complete_account_mfa w p tid acc body)"
  unfolding complete_account_mfa_def Let_def by (intro idle_rules)

lemma idle_rotate: "keeps idle (rotate_account_secret w p tid acc body)"
  unfolding rotate_account_secret_def Let_def
  by (intro idle_rules idle_frame.keeps_modify) (simp add: idle_def grows_def)

section \<open>The three routes that matter\<close>

interpretation grows_frame: frame grows
  by unfold_locales (auto intro: grows_trans)

lemma idle_grows: "keeps idle m \<Longrightarrow> keeps grows m"
  by (simp add: keeps_def idle_def)

lemmas grows_rules = grows_frame.keeps_ret grows_frame.keeps_raise grows_frame.keeps_lift grows_frame.keeps_gets
  grows_frame.keeps_bind grows_frame.keeps_if idle_grows [OF idle_new_id] idle_grows [OF idle_audit]
  idle_grows [OF idle_need] idle_grows [OF idle_own(1)]

lemma grows_set_ownership: "keeps grows (set_ownership oid out)"
  unfolding set_ownership_def by (rule grows_frame.keeps_modify) (simp add: grows_def)

lemma grows_start: "keeps grows (start_ownership w p tid body)"
  unfolding start_ownership_def ownership_status_def
  by (intro grows_rules grows_frame.keeps_option grows_frame.keeps_modify grows_set_ownership) (simp add: grows_def)

lemma grows_verify: "keeps grows (verify_ownership_route w p tid oid)"
  unfolding verify_ownership_route_def
  by (intro grows_rules grows_frame.keeps_option grows_set_ownership)

lemma grows_authorize: "keeps grows (create_authorization p tid body)"
  unfolding create_authorization_def Let_def
  by (intro grows_rules grows_frame.keeps_modify) (simp add: grows_def)

lemma transaction_cases:
  assumes "keeps grows m" "\<And>x d'. m d = (Inr x, d') \<Longrightarrow> Q d'" "\<And>d'. idle d d' \<Longrightarrow> Q d'"
  shows "Q (snd (transaction m d))"
proof -
  obtain r d1 where m: "m d = (r, d1)" by fastforce
  with keepsD [OF assms(1) this] show ?thesis
    using assms(2,3) by (cases r) (auto simp: transaction_def idle_def grows_def)
qed

lemma own_target_Inr:
  "own_target p tid d = (Inr t, d') \<longleftrightarrow> d' = d \<and> find_row tg_id tid (db_targets d) = Some t \<and> tg_org_id t = pr_org_id p"
  by (auto simp: own_target_def bind_act_Inr split: option.splits)

lemma need_Inr: "need b st m d = (Inr u, d') \<longleftrightarrow> b \<and> d' = d"
  by (auto simp: need_def)

lemma audit_Inr:
  assumes "write_audit org aid actor event data d = (Inr u, d')"
  shows "db_ownerships d' = db_ownerships d \<and> db_records d' = db_records d \<and> db_targets d' = db_targets d \<and>
    db_uuid d' = db_uuid d \<and> db_drawn d \<le> db_drawn d'"
  using assms by (auto simp: write_audit_def bind_act_Inr new_id_def)

lemma change_row_fresh: "k \<notin> key ` set rows \<Longrightarrow> change_row key k f rows = rows"
  by (induction rows) (auto simp: change_row_def)

lemma change_row_append: "change_row key k f (xs @ ys) = change_row key k f xs @ change_row key k f ys"
  by (simp add: change_row_def)

lemma start_ok:
  assumes "start_ownership w p tid body d = (Inr ans, d')"
  obtains t m host st det where
    "find_row tg_id tid (db_targets d) = Some t" "tg_org_id t = pr_org_id p" "ownership_method_of (os_method body) = Some m"
    "host_of (tg_base_url t) = Inr host" "db_records d' = db_records d" "db_targets d' = db_targets d"
    "db_uuid d' = db_uuid d" "Suc (db_drawn d) \<le> db_drawn d'"
    "db_ownerships d' = db_ownerships d @ [\<lparr>ov_id = db_uuid d (db_drawn d), ov_org_id = pr_org_id p, ov_target_id = tid,
       ov_method = ownership_method_value m, ov_token = tw_token w, ov_host = host, ov_status = st, ov_detail = det\<rparr>] \<or>
     db_uuid d (db_drawn d) \<in> ov_id ` set (db_ownerships d)"
    "st = verification_status_value VS_VERIFIED \<Longrightarrow>
     proof_given (tw_proof w) m host (tw_token w) (tg_base_url t) (os_attestation body)"
proof -
  let ?i = "db_uuid d (db_drawn d)"
  from assms obtain t m where t: "find_row tg_id tid (db_targets d) = Some t" "tg_org_id t = pr_org_id p" and
    m: "ownership_method_of (os_method body) = Some m"
    by (auto simp: start_ownership_def bind_act_Inr own_target_Inr split: option.splits)
  let ?row = "\<lambda>host st det. \<lparr>ov_id = ?i, ov_org_id = pr_org_id p, ov_target_id = tid, ov_method = ownership_method_value m,
    ov_token = tw_token w, ov_host = host, ov_status = st, ov_detail = det\<rparr>"
  let ?d1 = "\<lambda>host. d\<lparr>db_drawn := Suc (db_drawn d), db_ownerships := db_ownerships d @ [?row host ''pending'' []]\<rparr>"
  from assms t m obtain host d2 u where host: "host_of (tg_base_url t) = Inr host" and
    d2: "(if m \<in> {LAB_BUNDLED, MANUAL_ATTESTATION}
          then bind_act (lift_sum (checked_environment t)) (\<lambda>_.
               bind_act (lift_sum (verify_ownership (tw_proof w) m host (tw_token w) (tg_base_url t) (os_attestation body))) (\<lambda>out.
               set_ownership ?i out))
          else ret ()) (?d1 host) = (Inr u, d2)" and
    rest: "db_ownerships d' = db_ownerships d2" "db_records d' = db_records d2" "db_targets d' = db_targets d2"
      "db_uuid d' = db_uuid d2" "db_drawn d2 \<le> db_drawn d'"
    by (auto simp: start_ownership_def bind_act_Inr own_target_Inr new_id_def ownership_status_def dest!: audit_Inr)
  show ?thesis
  proof (cases "m \<in> {LAB_BUNDLED, MANUAL_ATTESTATION}")
    case False
    with d2 rest have "db_ownerships d' = db_ownerships d @ [?row host ''pending'' []]" "db_records d' = db_records d"
      "db_targets d' = db_targets d" "db_uuid d' = db_uuid d" "Suc (db_drawn d) \<le> db_drawn d'" by auto
    with t m host show ?thesis by (intro that [of t m host "''pending''" "[]"]) simp_all
  next
    case True
    with d2 obtain out where out: "verify_ownership (tw_proof w) m host (tw_token w) (tg_base_url t) (os_attestation body) = Inr out"
      and d2: "d2 = snd (set_ownership ?i out (?d1 host))"
      by (auto simp: bind_act_Inr)
    let ?st = "verification_status_value (vf_status out)"
    have "db_ownerships d' = db_ownerships d @ [?row host ?st (vf_detail out)] \<or> ?i \<in> ov_id ` set (db_ownerships d)"
      using rest(1) unfolding d2
      by (cases "?i \<in> ov_id ` set (db_ownerships d)")
        (simp_all add: set_ownership_def change_row_append change_row_fresh change_row_def [of ov_id ?i f "[r]" for f r])
    moreover have "?st = verification_status_value VS_VERIFIED \<Longrightarrow>
        proof_given (tw_proof w) m host (tw_token w) (tg_base_url t) (os_attestation body)"
      using verified_has_proof [OF out] by (cases "vf_status out") simp_all
    ultimately show ?thesis using t m host rest unfolding d2
      by (intro that [of t m host ?st "vf_detail out"]) (simp_all add: set_ownership_def)
  qed
qed


lemma verify_ok:
  assumes "verify_ownership_route w p tid oid d = (Inr ans, d')"
  obtains t row m out where
    "find_row tg_id tid (db_targets d) = Some t" "tg_org_id t = pr_org_id p" "find_row ov_id oid (db_ownerships d) = Some row"
    "ov_target_id row = tid" "ov_org_id row = pr_org_id p" "ownership_method_of (ov_method row) = Some m"
    "verify_ownership (tw_proof w) m (ov_host row) (ov_token row) (tg_base_url t) None = Inr out"
    "db_records d' = db_records d" "db_targets d' = db_targets d" "db_uuid d' = db_uuid d" "db_drawn d \<le> db_drawn d'"
    "db_ownerships d' = change_row ov_id oid
       (\<lambda>r. r\<lparr>ov_status := verification_status_value (vf_status out), ov_detail := vf_detail out\<rparr>) (db_ownerships d)"
proof -
  from assms obtain t where t: "find_row tg_id tid (db_targets d) = Some t" "tg_org_id t = pr_org_id p"
    by (auto simp: verify_ownership_route_def bind_act_Inr own_target_Inr)
  with assms obtain row where
    row: "find_row ov_id oid (db_ownerships d) = Some row" "ov_target_id row = tid" "ov_org_id row = pr_org_id p"
    by (cases "find_row ov_id oid (db_ownerships d)")
      (auto simp: verify_ownership_route_def bind_act_Inr own_target_Inr split: if_split_asm)
  with assms t obtain m where m: "ownership_method_of (ov_method row) = Some m"
    by (cases "ownership_method_of (ov_method row)")
      (auto simp: verify_ownership_route_def bind_act_Inr own_target_Inr)
  from assms t row m obtain out where
    out: "verify_ownership (tw_proof w) m (ov_host row) (ov_token row) (tg_base_url t) None = Inr out" and
    rest: "db_ownerships d' = change_row ov_id oid
       (\<lambda>r. r\<lparr>ov_status := verification_status_value (vf_status out), ov_detail := vf_detail out\<rparr>) (db_ownerships d)"
      "db_records d' = db_records d" "db_targets d' = db_targets d" "db_uuid d' = db_uuid d" "db_drawn d \<le> db_drawn d'"
    by (auto simp: verify_ownership_route_def bind_act_Inr own_target_Inr set_ownership_def dest!: audit_Inr)
  show ?thesis by (rule that [OF t row m out rest(2-5) rest(1)])
qed

lemma authorize_ok:
  assumes "create_authorization p tid body d = (Inr ans, d')"
  obtains i hosts where
    "db_records d' = db_records d @ [authorization_row i p tid hosts (verified_own tid d) body]"
    "db_ownerships d' = db_ownerships d" "db_targets d' = db_targets d" "db_uuid d' = db_uuid d" "db_drawn d \<le> db_drawn d'"
  using assms
  by (auto simp: create_authorization_def bind_act_Inr own_target_Inr need_Inr new_id_def Let_def dest!: audit_Inr)

section \<open>Every request\<close>

lemma method_value_of: "ownership_method_of (ownership_method_value m) = Some m"
  by (cases m) (simp_all add: ownership_method_of_def enum_of_def ownership_method_members_def)

lemma sound_mono: "es \<subseteq> es' \<Longrightarrow> sound_db es d \<Longrightarrow> sound_db es' d"
  by (rule idle_sound [OF idle_frame.refl])

lemma start_sound:
  assumes "sound_db es d" "(w, p, TgOwn tid body) \<in> es" "start_ownership w p tid body d = (Inr ans, d')"
  shows "sound_db es d'"
  using assms(3)
proof (rule start_ok)
  fix t m host st det
  let ?v = "\<lparr>ov_id = db_uuid d (db_drawn d), ov_org_id = pr_org_id p, ov_target_id = tid,
       ov_method = ownership_method_value m, ov_token = tw_token w, ov_host = host, ov_status = st, ov_detail = det\<rparr>"
  assume t: "find_row tg_id tid (db_targets d) = Some t" "tg_org_id t = pr_org_id p" "host_of (tg_base_url t) = Inr host"
    and same: "db_records d' = db_records d" "db_targets d' = db_targets d" "db_uuid d' = db_uuid d" "Suc (db_drawn d) \<le> db_drawn d'"
    and new: "db_ownerships d' = db_ownerships d @ [?v] \<or> db_uuid d (db_drawn d) \<in> ov_id ` set (db_ownerships d)"
    and ev: "st = verification_status_value VS_VERIFIED \<Longrightarrow>
      proof_given (tw_proof w) m host (tw_token w) (tg_base_url t) (os_attestation body)"
  have fresh: "db_uuid d (db_drawn d) \<notin> ov_id ` set (db_ownerships d)"
    using assms(1) by (fastforce simp: sound_db_def good_proof_def inj_eq)
  with new have own: "db_ownerships d' = db_ownerships d @ [?v]" by blast
  have g: "grows d d'" using same by (simp add: grows_def)
  have "placed d' ?v" using t same by (simp add: placed_def)
  moreover have "proved es d' ?v" if "st = verification_status_value VS_VERIFIED"
    unfolding proved_def using ev [OF that] t same assms(2)
    by (intro exI [of _ w] exI [of _ p] exI [of _ "TgOwn tid body"] exI [of _ m] exI [of _ t])
      (simp add: method_value_of attested_def)
  moreover have "db_uuid d (db_drawn d) \<in> db_uuid d' ` {..< db_drawn d'}" using same by auto
  ultimately have "good_proof es d' ?v" by (simp add: good_proof_def)
  moreover have "core ` set (db_ownerships d) \<subseteq> core ` set (db_ownerships d')" by (auto simp: own)
  ultimately show ?thesis
    using assms(1) fresh same own grows_good [OF g subset_refl] vouched_mono [OF g subset_refl]
    by (auto simp: sound_db_def)
qed

lemma verify_sound:
  assumes "sound_db es d" "(w, p, TgVerify tid oid) \<in> es" "verify_ownership_route w p tid oid d = (Inr ans, d')"
  shows "sound_db es d'"
  using assms(3)
proof (rule verify_ok)
  fix t row m and out :: verification_outcome
  let ?f = "\<lambda>r. r\<lparr>ov_status := verification_status_value (vf_status out), ov_detail := vf_detail out\<rparr>"
  assume t: "find_row tg_id tid (db_targets d) = Some t" "tg_org_id t = pr_org_id p"
    and row: "find_row ov_id oid (db_ownerships d) = Some row" "ov_target_id row = tid" "ov_org_id row = pr_org_id p"
    and m: "ownership_method_of (ov_method row) = Some m"
    and out: "verify_ownership (tw_proof w) m (ov_host row) (ov_token row) (tg_base_url t) None = Inr out"
    and same: "db_records d' = db_records d" "db_targets d' = db_targets d" "db_uuid d' = db_uuid d" "db_drawn d \<le> db_drawn d'"
    and own: "db_ownerships d' = change_row ov_id oid ?f (db_ownerships d)"
  have g: "grows d d'" using same by (simp add: grows_def)
  have core: "core (?f r) = core r" for r by (simp add: core_def)
  have dist: "distinct (map ov_id (db_ownerships d))" using assms(1) by (simp add: sound_db_def)
  have "good_proof es d' v'" if "v' \<in> set (db_ownerships d')" for v'
  proof -
    from that own obtain v where v: "v \<in> set (db_ownerships d)" "v' = (if ov_id v = oid then ?f v else v)"
      by (auto simp: change_row_def)
    then have good: "good_proof es d' v" using assms(1) grows_good [OF g subset_refl] by (simp add: sound_db_def)
    show ?thesis
    proof (cases "ov_id v = oid")
      case True
      then have "v = row"
        using v(1) find_row_mem [OF row(1)] find_row_key [OF row(1)] dist by (metis inj_onD distinct_map)
      then have "proved es d' (?f v)" if "vf_status out = VS_VERIFIED"
        unfolding proved_def using verified_has_proof [OF out that] t row m same assms(2)
        by (intro exI [of _ w] exI [of _ p] exI [of _ "TgVerify tid oid"] exI [of _ m] exI [of _ t]) (simp add: attested_def)
      then have "ov_status (?f v) = verification_status_value VS_VERIFIED \<longrightarrow> proved es d' (?f v)"
        by (cases "vf_status out") simp_all
      with good True v(2) core_proof [OF core, of d' v es] show ?thesis by (simp add: good_proof_def)
    qed (use good v(2) in simp)
  qed
  moreover have "map core (db_ownerships d') = map core (db_ownerships d)"
    by (simp add: own change_row_def core)
  then have "core ` set (db_ownerships d') = core ` set (db_ownerships d)"
    by (metis list.set_map)
  moreover have "map ov_id (db_ownerships d') = map ov_id (db_ownerships d)"
    unfolding own by (rule change_row_keys) simp
  ultimately show ?thesis
    using assms(1) same vouched_mono [OF g subset_refl] by (auto simp: sound_db_def)
qed

lemma authorize_sound:
  assumes "sound_db es d" "create_authorization p tid body d = (Inr ans, d')"
  shows "sound_db es d'"
  using assms(2)
proof (rule authorize_ok)
  fix i hosts
  assume rows: "db_records d' = db_records d @ [authorization_row i p tid hosts (verified_own tid d) body]"
    and same: "db_ownerships d' = db_ownerships d" "db_targets d' = db_targets d" "db_uuid d' = db_uuid d" "db_drawn d \<le> db_drawn d'"
  have g: "grows d d'" using same by (simp add: grows_def)
  have "vouched es d' (authorization_row i p tid hosts (Some v) body)" if "verified_own tid d = Some v" for v
  proof -
    from that have "v \<in> set (db_ownerships d)" "ov_target_id v = tid" "ov_status v = verification_status_value VS_VERIFIED"
      by (auto simp: verified_own_def dest: find_SomeD)
    moreover from this have "placed d v" "proved es d v" using assms(1) by (simp_all add: sound_db_def good_proof_def)
    ultimately show ?thesis
      using same grows_placed [OF g] grows_proved [OF g subset_refl] by (auto simp: vouched_def authorization_row_def)
  qed
  then have "az_status (authorization_row i p tid hosts (verified_own tid d) body) = verification_status_value VS_VERIFIED \<longrightarrow>
      vouched es d' (authorization_row i p tid hosts (verified_own tid d) body)"
    by (cases "verified_own tid d") (simp_all add: authorization_row_def)
  then show ?thesis
    using assms(1) same rows grows_good [OF g subset_refl] vouched_mono [OF g subset_refl] by (auto simp: sound_db_def)
qed

lemma request_sound:
  assumes "sound_db es d"
  shows "sound_db (insert (w, p, req) es) (snd (handle_target w p req d))"
proof -
  let ?es = "insert (w, p, req) es"
  have base: "sound_db ?es d" using sound_mono [OF subset_insertI assms] .
  have quiet: "sound_db ?es (snd (m d))" if "keeps idle m" for m :: "(db, dict) act"
    using that idle_sound [OF _ subset_refl base] by (simp add: keeps_def)
  have "sound_db ?es (snd (target_work w p req d))"
  proof (cases req)
    case (TgOwn tid body)
    show ?thesis unfolding TgOwn target_work.simps
      by (rule transaction_cases [OF grows_start])
        (use start_sound [OF base] idle_sound [OF _ subset_refl base] TgOwn in blast)+
  next
    case (TgVerify tid oid)
    show ?thesis unfolding TgVerify target_work.simps
      by (rule transaction_cases [OF grows_verify])
        (use verify_sound [OF base] idle_sound [OF _ subset_refl base] TgVerify in blast)+
  next
    case (TgAuthorize tid body)
    show ?thesis unfolding TgAuthorize target_work.simps
      by (rule transaction_cases [OF grows_authorize])
        (use authorize_sound [OF base] idle_sound [OF _ subset_refl base] TgAuthorize in blast)+
  next
    case (TgMfa tid acc body)
    show ?thesis
      using quiet [OF idle_frame.keeps_bind [OF idle_transaction [OF idle_mfa] idle_frame.keeps_lift]]
      unfolding TgMfa target_work.simps .
  next
    case (TgCreate body)
    show ?thesis using quiet [OF idle_transaction [OF idle_create_target]] unfolding TgCreate target_work.simps .
  next
    case (TgCloud tid provider az)
    show ?thesis using quiet [OF idle_transaction [OF idle_cloud]] unfolding TgCloud target_work.simps .
  next
    case (TgAccount tid body)
    show ?thesis using quiet [OF idle_transaction [OF idle_account]] unfolding TgAccount target_work.simps .
  next
    case (TgRotate tid acc body)
    show ?thesis using quiet [OF idle_transaction [OF idle_rotate]] unfolding TgRotate target_work.simps .
  qed
  with base show ?thesis by (cases "require_role OPERATOR p") (simp_all add: handle_target_def bind_act_def)
qed

lemma serve_sound: "sound_db es d \<Longrightarrow> sound_db (set evs \<union> es) (serve evs d)"
proof (induction evs arbitrary: es d)
  case (Cons e evs)
  obtain w p req where e: "e = (w, p, req)" by (cases e)
  have "set (e # evs) \<union> es = set evs \<union> insert (w, p, req) es" by (auto simp: e)
  with Cons.IH [OF request_sound [OF Cons.prems, of w p req]] show ?case by (simp only: e serve.simps)
qed simp

section \<open>Verified records\<close>


definition operator :: principal where
  "operator = \<lparr>pr_org_id = ''o1'', pr_user_id = ''u1'', pr_role = OPERATOR, pr_auth_method = ''jwt''\<rparr>"

definition demo_proofs :: proof_world where
  "demo_proofs = \<lparr>pw_settings = default_settings, pw_sha256 = (\<lambda>s. s), pw_txt = (\<lambda>h. TxtValues [''sentrik-site-verification=tok'']),
     pw_fetch = (\<lambda>url. Inl (HttpError ''refused''))\<rparr>"

definition demo_targets :: target_world where
  "demo_targets = \<lparr>tw_proof = demo_proofs, tw_login = demo_login, tw_encrypt = (\<lambda>s. ''enc:'' @ s), tw_token = ''tok''\<rparr>"

definition onboarding :: "string \<Rightarrow> string \<Rightarrow> event list" where
  "onboarding url method = map (\<lambda>req. (demo_targets, operator, req))
     [TgCreate \<lparr>tc_name = ''t'', tc_base_url = url, tc_environment = ''lab'', tc_description = []\<rparr>,
      TgOwn ''id-0'' \<lparr>os_method = method, os_attestation = None\<rparr>,
      TgVerify ''id-0'' ''id-1'',
      TgAuthorize ''id-0'' default_authorization_create]"

lemma ids_inj: "inj (db_uuid empty_db)"
proof (rule injI)
  fix m n assume "db_uuid empty_db m = db_uuid empty_db n"
  then have "digits_val (digits_str (int m)) = digits_val (digits_str (int n))"
    by (simp add: empty_db_def int_str_def)
  then show "m = n" by (simp add: digits_val_digits_str)
qed


text \<open>
  A public host can pass for a lab target. The proof for lab targets reads only the host's name, and a name such
  as 127.evil.test is no address: with that base URL the verification asks for nothing, the authorization is
  verified, and the scope guard of its record allows a request that the resolver sends to a public address.
\<close>

theorem lab_proof_admits_public_host:
  "let d = serve (onboarding ''http://127.evil.test/'' ''lab_bundled'') empty_db; r = hd (db_records d);
       g = new_guard default_settings r 0
   in az_status r = ''verified'' \<and> map ov_method (db_ownerships d) = [''lab_bundled''] \<and>
      ip_address ''127.evil.test'' = None \<and> sd_allowed (check_record_active g 0) \<and>
      (case check_request (\<lambda>h p. Some [''93.184.216.34'']) g ''GET'' ''http://127.evil.test/login'' False of
         Inr dec \<Rightarrow> sd_allowed dec \<and> jget (sd_details dec) ''ips'' = JList [JStr ''93.184.216.34'']
       | Inl e \<Rightarrow> False)"
  by code_simp

text \<open>
  A proof that is checked again and fails leaves the authorizations that rest on it verified; and an attested proof
  always fails when checked again, as the statement is not stored.
\<close>

theorem failed_proof_keeps_authorization:
  "let d = serve (onboarding ''https://app.test/'' ''dns_txt'' @
        [(demo_targets\<lparr>tw_proof := demo_proofs\<lparr>pw_txt := (\<lambda>h. TxtValues [])\<rparr>\<rparr>, operator, TgVerify ''id-0'' ''id-1'')]) empty_db
   in map ov_status (db_ownerships d) = [''failed''] \<and> map az_status (db_records d) = [''verified'']"
  "vf_status (verify_attestation w None) = VS_FAILED"
  by (code_simp, simp add: verify_attestation_def)

end
