(* ===== verification/Codecs.thy ===== *)
theory Codecs
  imports Prelude
begin

text \<open>
  The byte codecs the program takes from the standard library: UTF-8 between bytes and code points, with strict and
  with replacing decoding, Base64 (\<open>b64encode\<close>, and \<open>b64decode\<close> without validation), and percent decoding. Bytes
  are characters, text is a list of code points.
\<close>

section \<open>UTF-8\<close>

text \<open>The continuation bytes a lead byte announces, the range of the first of them, and the lead's own bits.\<close>

definition utf8_lead :: "char \<Rightarrow> (nat \<times> int \<times> int \<times> int) option" where
  "utf8_lead c = (let b = ord c in
     if b < 128 then Some (0, 128, 191, b)
     else if b < 194 then None
     else if b < 224 then Some (1, 128, 191, b - 192)
     else if b < 240 then Some (2, if b = 224 then 160 else 128, if b = 237 then 159 else 191, b - 224)
     else if b < 245 then Some (3, if b = 240 then 144 else 128, if b = 244 then 143 else 191, b - 240)
     else None)"

fun cont_run :: "nat \<Rightarrow> int \<Rightarrow> int \<Rightarrow> string \<Rightarrow> nat" where
  "cont_run (Suc n) lo hi (c # cs) = (if lo \<le> ord c \<and> ord c \<le> hi then Suc (cont_run n 128 191 cs) else 0)"
| "cont_run _ _ _ _ = 0"

definition cont_value :: "int \<Rightarrow> string \<Rightarrow> int" where
  "cont_value v cs = foldl (\<lambda>a c. 64 * a + (ord c - 128)) v cs"

text \<open>The code points of a byte string; None for each maximal ill-formed part.\<close>

function utf8_scan :: "string \<Rightarrow> int option list" where
  "utf8_scan [] = []"
| "utf8_scan (c # cs) = (case utf8_lead c of
     None \<Rightarrow> None # utf8_scan cs
   | Some (n, lo, hi, v) \<Rightarrow>
       let k = cont_run n lo hi cs in
       (if k = n then Some (cont_value v (take n cs)) else None) # utf8_scan (drop k cs))"
  by pat_completeness auto
termination
  by (relation "measure length") (auto simp: less_Suc_eq_le)

definition utf8_decode :: "string \<Rightarrow> int list option" where
  "utf8_decode b = (let ps = utf8_scan b in if None \<in> set ps then None else Some (map the ps))"

definition utf8_replace :: "string \<Rightarrow> int list" where
  "utf8_replace b = map (\<lambda>p. case p of None \<Rightarrow> 65533 | Some n \<Rightarrow> n) (utf8_scan b)"

definition encode_point :: "int \<Rightarrow> string" where
  "encode_point n =
     (if n < 128 then [chr n]
      else if n < 2048 then [chr (192 + n div 64), chr (128 + n mod 64)]
      else if n < 65536 then [chr (224 + n div 4096), chr (128 + n div 64 mod 64), chr (128 + n mod 64)]
      else [chr (240 + n div 262144), chr (128 + n div 4096 mod 64), chr (128 + n div 64 mod 64), chr (128 + n mod 64)])"

definition utf8_encode :: "int list \<Rightarrow> exn + string" where
  "utf8_encode ps =
     (if list_ex (\<lambda>n. 55296 \<le> n \<and> n < 57344) ps then Inl (ValueError ''surrogates not allowed'')
      else Inr (concat (map encode_point ps)))"

section \<open>Base64\<close>

definition B64 :: string where
  "B64 = ''ABCDEFGHIJKLMNOPQRSTUVWXYZabcdefghijklmnopqrstuvwxyz0123456789+/''"

definition b64_char :: "int \<Rightarrow> char" where
  "b64_char i = B64 ! nat i"

definition b64_val :: "char \<Rightarrow> int option" where
  "b64_val c = (if c \<in> set B64 then Some (int (length (takeWhile (\<lambda>x. x \<noteq> c) B64))) else None)"

fun b64encode :: "string \<Rightarrow> string" where
  "b64encode [] = []"
| "b64encode [a] = [b64_char (ord a div 4), b64_char (ord a mod 4 * 16), CHR ''='', CHR ''='']"
| "b64encode [a, b] = [b64_char (ord a div 4), b64_char (ord a mod 4 * 16 + ord b div 16), b64_char (ord b mod 16 * 4), CHR ''='']"
| "b64encode (a # b # c # cs) =
     b64_char (ord a div 4) # b64_char (ord a mod 4 * 16 + ord b div 16) # b64_char (ord b mod 16 * 4 + ord c div 64) #
     b64_char (ord c mod 64) # b64encode cs"

text \<open>
  The decoder's loop: the position in the group of four, the bits left over and the padding seen. What is not in
  the alphabet is skipped; padding that completes a group ends the input.
\<close>

fun b64_run :: "nat \<Rightarrow> int \<Rightarrow> nat \<Rightarrow> string \<Rightarrow> exn + string" where
  "b64_run q l pads [] =
     (if q = 0 then Inr []
      else if q = 1 then Inl (ValueError ''Invalid base64-encoded string: number of data characters cannot be 1 more than a multiple of 4'')
      else Inl (ValueError ''Incorrect padding''))"
| "b64_run q l pads (c # cs) =
     (if c = CHR ''='' then
        (if q \<ge> 2 then (if q + Suc pads \<ge> 4 then Inr [] else b64_run q l (Suc pads) cs) else b64_run q l pads cs)
      else (case b64_val c of
        None \<Rightarrow> b64_run q l pads cs
      | Some v \<Rightarrow>
          if q = 0 then b64_run 1 v 0 cs
          else if q = 1 then sum_bind (b64_run 2 (v mod 16) 0 cs) (\<lambda>out. Inr (chr (l * 4 + v div 16) # out))
          else if q = 2 then sum_bind (b64_run 3 (v mod 4) 0 cs) (\<lambda>out. Inr (chr (l * 16 + v div 4) # out))
          else sum_bind (b64_run 0 0 0 cs) (\<lambda>out. Inr (chr (l * 64 + v) # out))))"

definition b64decode :: "string \<Rightarrow> exn + string" where
  "b64decode s = b64_run 0 0 0 s"

section \<open>Percent encoding\<close>

definition hex_of :: "char \<Rightarrow> int option" where
  "hex_of c = (if is_digit c then Some (ord c - 48)
     else let l = lower_char c in if l \<in> set ''abcdef'' then Some (ord l - 87) else None)"

fun percent_bytes :: "string \<Rightarrow> string" where
  "percent_bytes (c # a # b # cs) =
     (if c = CHR ''%'' then (case (hex_of a, hex_of b) of
        (Some x, Some y) \<Rightarrow> chr (16 * x + y) # percent_bytes cs
      | _ \<Rightarrow> c # percent_bytes (a # b # cs))
      else c # percent_bytes (a # b # cs))"
| "percent_bytes cs = cs"

section \<open>Round trips\<close>

lemma ord_lt: "0 \<le> ord c" "ord c < 256"
  using of_char_of [where ?'a = int] by (simp_all add: ord_def of_char_def horner_sum_bit_eq_take_bit char.case_eq_if)

lemma b64_chars: "list_all (\<lambda>i. b64_val (b64_char i) = Some i \<and> b64_char i \<noteq> CHR ''='') [0..63]"
  by code_simp

lemma b64_char_val: "0 \<le> i \<Longrightarrow> i < 64 \<Longrightarrow> b64_val (b64_char i) = Some i"
  and b64_char_pad: "0 \<le> i \<Longrightarrow> i < 64 \<Longrightarrow> b64_char i \<noteq> CHR ''=''"
  using b64_chars by (simp_all add: list_all_iff)

lemma pack:
  fixes x y k :: int
  assumes "0 \<le> y" "y < k"
  shows "(x * k + y) div k = x" "(x * k + y) mod k = y"
  using assms by (simp_all add: div_pos_pos_trivial mod_pos_pos_trivial)

lemma byte_parts:
  fixes a :: int
  assumes "0 \<le> a" "a < 256"
  shows "0 \<le> a div 4" "a div 4 < 64" "0 \<le> a div 16" "a div 16 < 16" "0 \<le> a div 64" "a div 64 < 4"
    "0 \<le> a mod 4" "a mod 4 < 4" "0 \<le> a mod 16" "a mod 16 < 16" "0 \<le> a mod 64" "a mod 64 < 64"
  using assms by simp_all

lemma first_byte:
  assumes "0 \<le> y" "y < 16"
  shows "chr (ord a div 4 * 4 + (ord a mod 4 * 16 + y) div 16) = a"
    "0 \<le> ord a mod 4 * 16 + y" "ord a mod 4 * 16 + y < 64" "(ord a mod 4 * 16 + y) mod 16 = y"
proof -
  show "chr (ord a div 4 * 4 + (ord a mod 4 * 16 + y) div 16) = a"
    unfolding pack(1) [OF assms] by (simp add: div_mult_mod_eq)
  show "(ord a mod 4 * 16 + y) mod 16 = y" by (rule pack(2) [OF assms])
  show "0 \<le> ord a mod 4 * 16 + y" using assms(1) byte_parts(7) [OF ord_lt, of a] by linarith
  show "ord a mod 4 * 16 + y < 64" using assms(2) byte_parts(8) [OF ord_lt, of a] by linarith
qed

lemma second_byte:
  assumes "0 \<le> y" "y < 4"
  shows "chr (ord b div 16 * 16 + (ord b mod 16 * 4 + y) div 4) = b"
    "0 \<le> ord b mod 16 * 4 + y" "ord b mod 16 * 4 + y < 64" "(ord b mod 16 * 4 + y) mod 4 = y"
proof -
  show "chr (ord b div 16 * 16 + (ord b mod 16 * 4 + y) div 4) = b"
    unfolding pack(1) [OF assms] by (simp add: div_mult_mod_eq)
  show "(ord b mod 16 * 4 + y) mod 4 = y" by (rule pack(2) [OF assms])
  show "0 \<le> ord b mod 16 * 4 + y" using assms(1) byte_parts(9) [OF ord_lt, of b] by linarith
  show "ord b mod 16 * 4 + y < 64" using assms(2) byte_parts(10) [OF ord_lt, of b] by linarith
qed

lemma third_byte: "chr (ord c div 64 * 64 + ord c mod 64) = c"
  by (simp add: div_mult_mod_eq)

lemma b64_digit:
  assumes "0 \<le> v" "v < 64"
  shows "b64_run 0 l pads (b64_char v # cs) = b64_run 1 v 0 cs"
    "b64_run 1 l pads (b64_char v # cs) = sum_bind (b64_run 2 (v mod 16) 0 cs) (\<lambda>out. Inr (chr (l * 4 + v div 16) # out))"
    "b64_run 2 l pads (b64_char v # cs) = sum_bind (b64_run 3 (v mod 4) 0 cs) (\<lambda>out. Inr (chr (l * 16 + v div 4) # out))"
    "b64_run 3 l pads (b64_char v # cs) = sum_bind (b64_run 0 0 0 cs) (\<lambda>out. Inr (chr (l * 64 + v) # out))"
  using b64_char_val [OF assms] b64_char_pad [OF assms] by simp_all

lemma b64_pads: "b64_run 2 l 0 ''=='' = Inr []" "b64_run 3 l 0 ''='' = Inr []"
  by simp_all

lemma sum_bind_Inr_eq: "sum_bind (Inr x) f = f x"
  by (simp add: sum_bind_def)

lemma b64_roundtrip: "b64decode (b64encode s) = Inr s"
  unfolding b64decode_def
proof (induction s rule: b64encode.induct)
  case (2 a)
  note x = first_byte [of 0 a, simplified add_0_right]
  note b = byte_parts [OF ord_lt, of a]
  show ?case
    by (simp only: b64encode.simps b64_digit(1) [OF b(1,2)] b64_digit(2) [OF x(2,3)] b64_pads sum_bind_Inr_eq x(1))
next
  case (3 a b)
  note p = byte_parts [OF ord_lt, of a] byte_parts [OF ord_lt, of b]
  note x = first_byte [OF p(15,16), of a]
  note y = second_byte [of 0 b, simplified add_0_right]
  show ?case
    by (simp only: b64encode.simps b64_digit(1) [OF p(1,2)] b64_digit(2) [OF x(2,3)] x(4) b64_digit(3) [OF y(2,3)]
        b64_pads sum_bind_Inr_eq x(1) y(1))
next
  case (4 a b c cs)
  note p = byte_parts [OF ord_lt, of a] byte_parts [OF ord_lt, of b] byte_parts [OF ord_lt, of c]
  note x = first_byte [OF p(15,16), of a]
  note y = second_byte [OF p(29,30), of b]
  show ?case
    by (simp only: b64encode.simps b64_digit(1) [OF p(1,2)] b64_digit(2) [OF x(2,3)] x(4) b64_digit(3) [OF y(2,3)] y(4)
        b64_digit(4) [OF p(35,36)] 4 sum_bind_Inr_eq x(1) y(1) third_byte)
qed simp

lemma b64_codes: "list_all (\<lambda>i. ord (b64_char i) \<le> 127) [0..63]"
  by code_simp

lemma b64_low: "0 \<le> i \<Longrightarrow> i < 64 \<Longrightarrow> ord (b64_char i) \<le> 127" "ord (CHR ''='') \<le> 127"
  using b64_codes by (simp_all add: list_all_iff ord_def)

lemma b64_ascii: "list_all (\<lambda>c. ord c \<le> 127) (b64encode s)"
proof (induction s rule: b64encode.induct)
  case (2 a)
  note p = byte_parts [OF ord_lt, of a] and x = first_byte [of 0 a, simplified add_0_right]
  show ?case by (simp only: b64encode.simps list.pred_inject simp_thms b64_low(2) b64_low(1) [OF p(1,2)] b64_low(1) [OF x(2,3)])
next
  case (3 a b)
  note p = byte_parts [OF ord_lt, of a] byte_parts [OF ord_lt, of b]
  note x = first_byte [OF p(15,16), of a] and y = second_byte [of 0 b, simplified add_0_right]
  show ?case
    by (simp only: b64encode.simps list.pred_inject simp_thms b64_low(2) b64_low(1) [OF p(1,2)] b64_low(1) [OF x(2,3)] b64_low(1) [OF y(2,3)])
next
  case (4 a b c cs)
  note p = byte_parts [OF ord_lt, of a] byte_parts [OF ord_lt, of b] byte_parts [OF ord_lt, of c]
  note x = first_byte [OF p(15,16), of a] and y = second_byte [OF p(29,30), of b]
  show ?case
    by (simp only: b64encode.simps list.pred_inject simp_thms b64_low(1) [OF p(1,2)] b64_low(1) [OF x(2,3)] b64_low(1) [OF y(2,3)]
        b64_low(1) [OF p(35,36)] 4)
qed simp

lemma split64:
  fixes v x :: int
  assumes "0 \<le> x" "x < 64"
  shows "(64 * v + x) div 64 = v" "(64 * v + x) mod 64 = x"
  using pack [OF assms, of v] by (simp_all add: mult.commute)

lemma div_twice: "n div (4096::int) = n div 64 div 64" "n div (262144::int) = n div 64 div 64 div 64"
  using zdiv_zmult2_eq [of 64 n 64] zdiv_zmult2_eq [of 64 "n div 64" 64] zdiv_zmult2_eq [of 4096 n 64] by simp_all

lemma encode_points:
  fixes v x y z :: int
  shows "0 \<le> v \<Longrightarrow> v < 128 \<Longrightarrow> encode_point v = [chr v]"
    "2 \<le> v \<Longrightarrow> v < 32 \<Longrightarrow> 0 \<le> x \<Longrightarrow> x < 64 \<Longrightarrow> encode_point (64 * v + x) = [chr (192 + v), chr (128 + x)]"
    "32 \<le> 64 * v + x \<Longrightarrow> v < 16 \<Longrightarrow> 0 \<le> x \<Longrightarrow> x < 64 \<Longrightarrow> 0 \<le> y \<Longrightarrow> y < 64 \<Longrightarrow>
      encode_point (64 * (64 * v + x) + y) = [chr (224 + v), chr (128 + x), chr (128 + y)]"
    "16 \<le> 64 * v + x \<Longrightarrow> 0 \<le> x \<Longrightarrow> x < 64 \<Longrightarrow> 0 \<le> y \<Longrightarrow> y < 64 \<Longrightarrow> 0 \<le> z \<Longrightarrow> z < 64 \<Longrightarrow>
      encode_point (64 * (64 * (64 * v + x) + y) + z) = [chr (240 + v), chr (128 + x), chr (128 + y), chr (128 + z)]"
proof -
  show "0 \<le> v \<Longrightarrow> v < 128 \<Longrightarrow> encode_point v = [chr v]" by (simp add: encode_point_def)
  show "2 \<le> v \<Longrightarrow> v < 32 \<Longrightarrow> 0 \<le> x \<Longrightarrow> x < 64 \<Longrightarrow> encode_point (64 * v + x) = [chr (192 + v), chr (128 + x)]"
    unfolding encode_point_def by (simp only: split64) simp
  assume x: "0 \<le> x" "x < 64" and y: "0 \<le> y" "y < 64"
  show "32 \<le> 64 * v + x \<Longrightarrow> v < 16 \<Longrightarrow>
      encode_point (64 * (64 * v + x) + y) = [chr (224 + v), chr (128 + x), chr (128 + y)]"
    using x y unfolding encode_point_def by (simp only: div_twice split64) simp
  assume z: "0 \<le> z" "z < 64"
  show "16 \<le> 64 * v + x \<Longrightarrow>
      encode_point (64 * (64 * (64 * v + x) + y) + z) = [chr (240 + v), chr (128 + x), chr (128 + y), chr (128 + z)]"
    using x y z unfolding encode_point_def by (simp only: div_twice split64) simp
qed

lemma cont_run_Suc: "cont_run (Suc n) lo hi cs = Suc n \<longleftrightarrow>
    (\<exists>c cs'. cs = c # cs' \<and> lo \<le> ord c \<and> ord c \<le> hi \<and> cont_run n 128 191 cs' = n)"
  by (cases cs) auto

text \<open>A well-formed sequence is the encoding of its code point, which is no surrogate.\<close>

lemma sequence_roundtrip:
  assumes "utf8_lead c = Some (n, lo, hi, v)" "cont_run n lo hi cs = n"
  shows "encode_point (cont_value v (take n cs)) = c # take n cs"
    "\<not> (55296 \<le> cont_value v (take n cs) \<and> cont_value v (take n cs) < 57344)"
proof -
  from assms(1) consider (one) "ord c < 128" "n = 0" "v = ord c"
    | (two) "194 \<le> ord c" "ord c < 224" "n = 1" "lo = 128" "hi = 191" "v = ord c - 192"
    | (three) "224 \<le> ord c" "ord c < 240" "n = 2" "lo = (if ord c = 224 then 160 else 128)" "hi = (if ord c = 237 then 159 else 191)"
        "v = ord c - 224"
    | (four) "240 \<le> ord c" "n = 3" "lo = (if ord c = 240 then 144 else 128)" "hi = (if ord c = 244 then 143 else 191)" "v = ord c - 240"
    by (auto simp: utf8_lead_def Let_def split: if_split_asm)
  then have "encode_point (cont_value v (take n cs)) = c # take n cs \<and>
      \<not> (55296 \<le> cont_value v (take n cs) \<and> cont_value v (take n cs) < 57344)"
  proof cases
    case one
    then show ?thesis using ord_lt [of c] encode_points(1) [of v] by (simp add: cont_value_def)
  next
    case two
    with assms(2) obtain d ds where d: "cs = d # ds" "128 \<le> ord d" "ord d \<le> 191" by (auto simp: cont_run_Suc)
    with two encode_points(2) [of v "ord d - 128"] show ?thesis by (simp add: cont_value_def)
  next
    case three
    with assms(2) obtain d e ds where d: "cs = d # e # ds" "lo \<le> ord d" "ord d \<le> hi" "128 \<le> ord e" "ord e \<le> 191"
      by (auto simp: cont_run_Suc numeral_2_eq_2)
    have x: "0 \<le> ord d - 128" "ord d - 128 < 64" "0 \<le> ord e - 128" "ord e - 128 < 64" "v < 16" "32 \<le> 64 * v + (ord d - 128)"
      using three d by (auto split: if_split_asm)
    have "\<not> (55296 \<le> 64 * (64 * v + (ord d - 128)) + (ord e - 128) \<and> 64 * (64 * v + (ord d - 128)) + (ord e - 128) < 57344)"
      using three d x by (auto split: if_split_asm)
    with encode_points(3) [OF x(6) x(5) x(1-4)] d three show ?thesis by (simp add: cont_value_def)
  next
    case four
    with assms(2) obtain d e f ds where
      d: "cs = d # e # f # ds" "lo \<le> ord d" "ord d \<le> hi" "128 \<le> ord e" "ord e \<le> 191" "128 \<le> ord f" "ord f \<le> 191"
      by (auto simp: cont_run_Suc numeral_3_eq_3)
    have x: "0 \<le> ord d - 128" "ord d - 128 < 64" "0 \<le> ord e - 128" "ord e - 128 < 64" "0 \<le> ord f - 128" "ord f - 128 < 64"
      "16 \<le> 64 * v + (ord d - 128)"
      using four d by (auto split: if_split_asm)
    with encode_points(4) [OF x(7) x(1-6)] d four show ?thesis by (simp add: cont_value_def)
  qed
  then show "encode_point (cont_value v (take n cs)) = c # take n cs"
    "\<not> (55296 \<le> cont_value v (take n cs) \<and> cont_value v (take n cs) < 57344)" by simp_all
qed

lemma scan_encode:
  "None \<notin> set (utf8_scan b) \<Longrightarrow> concat (map (\<lambda>p. encode_point (the p)) (utf8_scan b)) = b \<and>
     (\<forall>p \<in> set (utf8_scan b). \<not> (55296 \<le> the p \<and> the p < 57344))"
proof (induction b rule: utf8_scan.induct)
  case (2 c cs)
  then obtain n lo hi v where lead: "utf8_lead c = Some (n, lo, hi, v)"
    by (cases "utf8_lead c") auto
  with 2 have run: "cont_run n lo hi cs = n" by (auto simp: Let_def split: if_split_asm)
  with 2(3) lead have tail: "None \<notin> set (utf8_scan (drop n cs))" by simp
  from 2(2) [OF lead HOL.refl HOL.refl HOL.refl HOL.refl] run tail
  have "concat (map (\<lambda>p. encode_point (the p)) (utf8_scan (drop n cs))) = drop n cs \<and>
     (\<forall>p \<in> set (utf8_scan (drop n cs)). \<not> (55296 \<le> the p \<and> the p < 57344))" by simp
  with sequence_roundtrip [OF lead run] show ?case by (simp add: lead run)
qed simp

lemma utf8_roundtrip: "utf8_decode b = Some ps \<Longrightarrow> utf8_encode ps = Inr b"
  using scan_encode [of b]
  by (auto simp: utf8_decode_def utf8_encode_def Let_def comp_def list_ex_iff split: if_split_asm)

end
