(* ===== verification/Storage.thy ===== *)
theory Storage
  imports Codecs Config
begin

text \<open>
  \<open>app/services/storage.py\<close>: object storage for reports and evidence. Bytes are characters, inline text is a list of
  code points. The file system is the map from path components below the current directory to contents; the bucket
  service is a parameter. A float, a wrong type or a key that is no string cannot occur here.
\<close>

record object_ref =
  ob_backend :: string
  ob_key :: "string option"
  ob_url :: "string option"
  ob_inline :: "int list option"
  ob_encoding :: "string option"

section \<open>Keys\<close>

definition sanitize_key :: "string \<Rightarrow> exn + string list" where
  "sanitize_key key =
     (if key = [] then Inl (ValueError ''storage key must be a non-empty string'')
      else
        let normalized = str_strip (replace_char (chr 92) ''/'' key) in
        if normalized = [] then Inl (ValueError ''storage key must not be blank'')
        else if starts_with normalized ''/'' then Inl (ValueError (''storage key must not be absolute (leading '' @ py_repr ''/'' @ '')''))
        else if length normalized \<ge> 2 \<and> normalized ! 1 = CHR '':'' then Inl (ValueError ''storage key must not contain a drive letter'')
        else
          let parts = filter (\<lambda>p. p \<noteq> [] \<and> p \<noteq> ''.'') (split_char (CHR ''/'') normalized) in
          if parts = [] then Inl (ValueError ''storage key resolves to an empty path'')
          else if ''..'' \<in> set parts then Inl (ValueError (''storage key must not contain '' @ py_repr ''..'' @ '' path traversal''))
          else Inr parts)"

definition key_str :: "string list \<Rightarrow> string" where
  "key_str parts = join_with ''/'' parts"

section \<open>The backends\<close>

definition db_put :: "string \<Rightarrow> object_ref" where
  "db_put raw = (case utf8_decode raw of
     Some t \<Rightarrow> \<lparr>ob_backend = ''db'', ob_key = None, ob_url = None, ob_inline = Some t, ob_encoding = Some ''utf-8''\<rparr>
   | None \<Rightarrow> \<lparr>ob_backend = ''db'', ob_key = None, ob_url = None, ob_inline = Some (map ord (b64encode raw)),
       ob_encoding = Some ''base64''\<rparr>)"

definition db_get :: "object_ref \<Rightarrow> exn + string" where
  "db_get ref = (case ob_inline ref of
     None \<Rightarrow> Inr []
   | Some inline \<Rightarrow>
       let encoding = (case ob_encoding ref of None \<Rightarrow> ''utf-8'' | Some e \<Rightarrow> if e = [] then ''utf-8'' else e) in
       if encoding = ''base64'' then
         (if list_ex (\<lambda>n. n > 127) inline then Inl (ValueError ''string argument should contain only ASCII characters'')
          else b64decode (map chr inline))
       else if encoding = ''utf-8'' then utf8_encode inline
       else Inl (ValueError (''unknown inline_encoding: '' @ py_repr encoding)))"

text \<open>The root, as a path below the current directory; what the operating system does to a path on the way.\<close>

definition storage_root :: "settings \<Rightarrow> string" where
  "storage_root st = (if storage_local_dir st = [] then ''./sentrik_storage'' else storage_local_dir st)"

type_synonym files = "(string list \<times> string) list"

definition resolve_path :: "settings \<Rightarrow> string \<Rightarrow> exn + string list" where
  "resolve_path st key = sum_bind (sanitize_key key) (\<lambda>parts. Inr (storage_root st # parts))"

definition proper_prefixes :: "'a list \<Rightarrow> 'a list list" where
  "proper_prefixes xs = map (\<lambda>n. take n xs) [0..<length xs]"

definition write_file :: "string list \<Rightarrow> string \<Rightarrow> files \<Rightarrow> exn + files" where
  "write_file path raw fs =
     (if list_ex (\<lambda>q. dget fs q \<noteq> None) (proper_prefixes path) then Inl (OtherError ''FileExistsError: a parent is a file'')
      else if list_ex (\<lambda>(q, _). path \<in> set (proper_prefixes q)) fs then Inl (OtherError ''IsADirectoryError: the path is a directory'')
      else Inr (dset fs path raw))"

definition read_file :: "string list \<Rightarrow> files \<Rightarrow> exn + string" where
  "read_file path fs = (case dget fs path of
     Some raw \<Rightarrow> Inr raw | None \<Rightarrow> Inl (OtherError ''FileNotFoundError: no such file''))"

definition local_put :: "settings \<Rightarrow> (string list \<Rightarrow> string) \<Rightarrow> string \<Rightarrow> string \<Rightarrow> files \<Rightarrow> exn + (object_ref \<times> files)" where
  "local_put st uri key raw fs =
     sum_bind (resolve_path st key) (\<lambda>path.
     sum_bind (write_file path raw fs) (\<lambda>fs'.
     sum_bind (sanitize_key key) (\<lambda>parts.
       Inr (\<lparr>ob_backend = ''local'', ob_key = Some (key_str parts), ob_url = Some (uri path), ob_inline = None,
             ob_encoding = None\<rparr>, fs'))))"

definition local_get :: "settings \<Rightarrow> object_ref \<Rightarrow> files \<Rightarrow> exn + string" where
  "local_get st ref fs = (case ob_key ref of
     Some (c # cs) \<Rightarrow> sum_bind (resolve_path st (c # cs)) (\<lambda>path. read_file path fs)
   | _ \<Rightarrow> Inl (ValueError (''local ref is missing '' @ py_repr ''key'')))"

record 's bucket =
  bk_put :: "string \<Rightarrow> string \<Rightarrow> string \<Rightarrow> string \<Rightarrow> 's \<Rightarrow> exn + 's"
  bk_get :: "string \<Rightarrow> string \<Rightarrow> 's \<Rightarrow> exn + string"

definition s3_open :: "settings \<Rightarrow> bool \<Rightarrow> exn + string" where
  "s3_open st boto3 =
     (if \<not> boto3 then Inl (RuntimeError (''S3 storage backend requires boto3; install it with `pip install boto3` or set SENTINEL_STORAGE_BACKEND to ''
          @ py_repr ''db'' @ ''/'' @ py_repr ''local'' @ ''.''))
      else if s3_bucket st = [] then Inl (RuntimeError ''S3 storage backend requires SENTINEL_S3_BUCKET to be set.'')
      else Inr (s3_bucket st))"

definition s3_client_args :: "settings \<Rightarrow> (string \<times> string) list" where
  "s3_client_args st =
     (if s3_endpoint_url st = [] then [] else [(''endpoint_url'', s3_endpoint_url st)]) @
     (if s3_region st = [] then [] else [(''region_name'', s3_region st)]) @
     (if s3_access_key st = [] then [] else [(''aws_access_key_id'', s3_access_key st)]) @
     (if s3_secret_key st = [] then [] else [(''aws_secret_access_key'', s3_secret_key st)])"

definition s3_put :: "'s bucket \<Rightarrow> string \<Rightarrow> string \<Rightarrow> string \<Rightarrow> string \<Rightarrow> 's \<Rightarrow> exn + (object_ref \<times> 's)" where
  "s3_put svc bucket key raw content_type s =
     sum_bind (sanitize_key key) (\<lambda>parts.
     sum_bind (bk_put svc bucket (key_str parts) raw (if content_type = [] then ''application/octet-stream'' else content_type) s) (\<lambda>s'.
       Inr (\<lparr>ob_backend = ''s3'', ob_key = Some (key_str parts), ob_url = Some (''s3://'' @ bucket @ ''/'' @ key_str parts),
             ob_inline = None, ob_encoding = None\<rparr>, s')))"

definition s3_get :: "'s bucket \<Rightarrow> string \<Rightarrow> object_ref \<Rightarrow> 's \<Rightarrow> exn + string" where
  "s3_get svc bucket ref s = (case ob_key ref of
     Some (c # cs) \<Rightarrow> sum_bind (sanitize_key (c # cs)) (\<lambda>parts. bk_get svc bucket (key_str parts) s)
   | _ \<Rightarrow> Inl (ValueError (''s3 ref is missing '' @ py_repr ''key'')))"

text \<open>The process-wide backend, chosen once.\<close>

datatype backend = DbBackend | LocalBackend settings | S3Backend string settings

definition get_storage :: "settings \<Rightarrow> bool \<Rightarrow> backend option \<Rightarrow> exn + backend" where
  "get_storage st boto3 cached = (case cached of
     Some b \<Rightarrow> Inr b
   | None \<Rightarrow>
       let kind = str_lower (str_strip (if storage_backend st = [] then ''db'' else storage_backend st)) in
       if kind = ''local'' then Inr (LocalBackend st)
       else if kind = ''s3'' then sum_bind (s3_open st boto3) (\<lambda>bucket. Inr (S3Backend bucket st))
       else if kind = ''db'' then Inr DbBackend
       else Inl (ValueError (''unknown storage_backend '' @ py_repr kind @ '' (expected '' @ py_repr ''db'' @ '', '' @ py_repr ''local'' @
              '' or '' @ py_repr ''s3'' @ '')'')))"

section \<open>Keys stay below the root\<close>

lemma split_no_sep: "p \<in> set (split_char c s) \<Longrightarrow> c \<notin> set p"
proof (induction s arbitrary: p)
  case (Cons x s)
  then show ?case by (cases "split_char c s") (auto split: if_split_asm)
qed simp

definition safe_parts :: "string list \<Rightarrow> bool" where
  "safe_parts parts \<longleftrightarrow> parts \<noteq> [] \<and> (\<forall>p \<in> set parts. p \<notin> {[], ''.'', ''..''} \<and> CHR ''/'' \<notin> set p \<and> chr 92 \<notin> set p)"

lemma set_strip: "set (str_strip s) \<subseteq> set s"
  by (auto simp: str_strip_def dest!: set_dropWhileD)

lemma split_chars: "p \<in> set (split_char c s) \<Longrightarrow> set p \<subseteq> set s"
proof (induction s arbitrary: p)
  case (Cons x s)
  obtain y ys where split: "split_char c s = y # ys" by (cases "split_char c s") auto
  with Cons.IH have "set q \<subseteq> set s" if "q = y \<or> q \<in> set ys" for q using that by simp
  with Cons.prems split show ?case by (fastforce split: if_split_asm)
qed simp

lemma backslash: "chr 92 \<noteq> CHR ''/''"
  by code_simp

lemma sanitize_safe: "sanitize_key key = Inr parts \<Longrightarrow> safe_parts parts"
proof -
  let ?n = "str_strip (replace_char (chr 92) ''/'' key)"
  assume "sanitize_key key = Inr parts"
  then have parts: "parts = filter (\<lambda>p. p \<noteq> [] \<and> p \<noteq> ''.'') (split_char (CHR ''/'') ?n)" "parts \<noteq> []" "''..'' \<notin> set parts"
    by (auto simp: sanitize_key_def Let_def split: if_split_asm)
  have "chr 92 \<notin> set (replace_char (chr 92) ''/'' key)" by (auto simp: replace_char_def backslash split: if_split_asm)
  then have "chr 92 \<notin> set p" if "p \<in> set parts" for p
    using that split_chars [of p "CHR ''/''" ?n] set_strip [of "replace_char (chr 92) ''/'' key"] by (auto simp: parts(1))
  with parts show ?thesis by (auto simp: safe_parts_def dest: split_no_sep)
qed

lemma split_join:
  assumes "ps \<noteq> []" "\<forall>p \<in> set ps. c \<notin> set p"
  shows "split_char c (join_with [c] ps) = ps"
proof -
  have plain: "split_char c p = [p]" if "c \<notin> set p" for p
    using that by (induction p) auto
  have step: "split_char c (p @ c # s) = p # split_char c s" if "c \<notin> set p" for p s
    using that by (induction p) auto
  show ?thesis
    using assms by (induction ps rule: induct_list012) (auto simp: plain step)
qed

definition stable_key :: "string \<Rightarrow> bool" where
  "stable_key k \<longleftrightarrow> str_strip k = k \<and> \<not> (length k \<ge> 2 \<and> k ! 1 = CHR '':'')"

lemma chars_join: "x \<in> set (join_with sep ps) \<Longrightarrow> x \<in> set sep \<or> (\<exists>p \<in> set ps. x \<in> set p)"
  by (induction sep ps rule: join_with.induct) auto

lemma join_head:
  assumes "ps \<noteq> []" "hd ps \<noteq> []"
  shows "join_with sep ps \<noteq> [] \<and> hd (join_with sep ps) = hd (hd ps)"
proof (cases ps)
  case (Cons p qs)
  with assms show ?thesis by (cases qs) auto
qed (use assms in simp)

lemma replace_absent: "c \<notin> set s \<Longrightarrow> replace_char c q s = s"
  by (induction s) (auto simp: replace_char_def)

text \<open>A key in its normal form is read as the path it names, unless it looks blank-padded or like a drive.\<close>

lemma sanitize_again:
  assumes "safe_parts parts" "stable_key (key_str parts)"
  shows "sanitize_key (key_str parts) = Inr parts"
proof -
  let ?k = "key_str parts"
  have "chr 92 \<notin> set ?k"
    using assms(1) chars_join [of "chr 92" "''/''" parts] backslash by (auto simp: key_str_def safe_parts_def)
  then have same: "str_strip (replace_char (chr 92) ''/'' ?k) = ?k"
    using assms(2) by (simp add: replace_absent stable_key_def)
  have first: "hd parts \<noteq> []" "hd (hd parts) \<noteq> CHR ''/''"
    using assms(1) by (cases parts; cases "hd parts"; auto simp: safe_parts_def)+
  with join_head [of parts "''/''"] assms(1) have k: "?k \<noteq> []" "hd ?k \<noteq> CHR ''/''"
    by (auto simp: key_str_def safe_parts_def)
  have "split_char (CHR ''/'') ?k = parts"
    unfolding key_str_def using assms(1) by (intro split_join) (auto simp: safe_parts_def)
  moreover have "filter (\<lambda>p. p \<noteq> [] \<and> p \<noteq> ''.'') parts = parts" "''..'' \<notin> set parts" "parts \<noteq> []"
    using assms(1) by (auto simp: safe_parts_def intro: filter_True)
  moreover have "\<not> starts_with ?k ''/''" using k by (cases ?k) auto
  ultimately show ?thesis
    unfolding sanitize_key_def Let_def same using k(1) assms(2) by (simp add: stable_key_def)
qed

section \<open>Theorems\<close>

lemma db_roundtrip: "db_get (db_put raw) = Inr raw"
proof (cases "utf8_decode raw")
  case None
  have "\<not> list_ex (\<lambda>n. n > 127) (map ord (b64encode raw))"
    using b64_ascii [of raw] by (force simp: list_ex_iff list_all_iff)
  moreover have "map chr (map ord (b64encode raw)) = b64encode raw" by (simp add: comp_def)
  ultimately show ?thesis using None by (simp add: db_put_def db_get_def b64_roundtrip Let_def)
next
  case (Some ps)
  then show ?thesis by (simp add: db_put_def db_get_def utf8_roundtrip)
qed

lemma local_put_ok:
  assumes "local_put st uri key raw fs = Inr (ref, fs')"
  obtains parts where "sanitize_key key = Inr parts" "safe_parts parts" "ob_key ref = Some (key_str parts)"
    "ob_backend ref = ''local''" "fs' = dset fs (storage_root st # parts) raw"
  using assms
  by (auto simp: local_put_def resolve_path_def sum_bind_Inr write_file_def sanitize_safe split: if_split_asm)

text \<open>
  C35: what is stored is read back, and stays below the storage root. Inline storage returns every byte string, as
  text when it is well-formed UTF-8 and through Base64 otherwise. A file is written below the root, at a path
  without empty, dot or parent components and without separators, no other file changes, and the
  reference that is returned leads back to the same bytes, if the normal form of the key is itself a key that is
  not stripped and not taken for a drive.
\<close>

theorem stored_objects_read_back:
  "db_get (db_put raw) = Inr raw \<and>
   (case local_put st uri key raw fs of Inl e \<Rightarrow> True
    | Inr (ref, fs') \<Rightarrow>
        (\<exists>parts. safe_parts parts \<and> dget fs' (storage_root st # parts) = Some raw \<and>
           (\<forall>path. path = storage_root st # parts \<or> dget fs' path = dget fs path)) \<and>
        (stable_key (the (ob_key ref)) \<longrightarrow> local_get st ref fs' = Inr raw))"
proof (cases "local_put st uri key raw fs")
  case (Inr r)
  obtain ref fs' where r: "r = (ref, fs')" by fastforce
  from Inr r obtain parts where p: "safe_parts parts" "ob_key ref = Some (key_str parts)" "fs' = dset fs (storage_root st # parts) raw"
    by (auto elim: local_put_ok)
  have "local_get st ref fs' = Inr raw" if "stable_key (key_str parts)"
  proof -
    from join_head [of parts "''/''"] p(1) have "key_str parts \<noteq> []"
      by (cases parts) (auto simp: safe_parts_def key_str_def)
    then obtain c cs where k: "key_str parts = c # cs" by (cases "key_str parts") auto
    from sanitize_again [OF p(1) that] show ?thesis
      by (simp add: local_get_def p(2,3) k resolve_path_def sum_bind_def read_file_def dget_dset)
  qed
  with p show ?thesis by (auto simp: Inr r db_roundtrip dget_dset)
qed (simp add: db_roundtrip)

theorem stored_objects_read_back_witness:
  "case local_put default_settings (\<lambda>p. []) ''reports//a1/./r.json'' ''data'' [] of
     Inr (ref, fs) \<Rightarrow> ob_key ref = Some ''reports/a1/r.json'' \<and> local_get default_settings ref fs = Inr ''data''
   | Inl e \<Rightarrow> False"
proof -
  have put: "local_put default_settings (\<lambda>p. []) ''reports//a1/./r.json'' ''data'' [] =
      Inr (\<lparr>ob_backend = ''local'', ob_key = Some ''reports/a1/r.json'', ob_url = Some [], ob_inline = None, ob_encoding = None\<rparr>,
           [([''./sentrik_storage'', ''reports'', ''a1'', ''r.json''], ''data'')])"
    by code_simp
  have "stable_key ''reports/a1/r.json''" by code_simp
  with stored_objects_read_back [where raw = "''data''" and st = default_settings and uri = "\<lambda>p. []" and key = "''reports//a1/./r.json''" and fs = "[]"] show ?thesis
    unfolding put by simp
qed

text \<open>
  A key whose normal form begins with a blank is stored at one path and looked for at another: what was just
  written is not found.
\<close>

theorem blank_key_is_lost:
  "case local_put default_settings (\<lambda>p. []) ''./ a'' ''data'' [] of
     Inr (ref, fs) \<Rightarrow> local_get default_settings ref fs = Inl (OtherError ''FileNotFoundError: no such file'')
   | Inl e \<Rightarrow> False"
  by code_simp

end
