(* ===== verification/Mcp.thy ===== *)
theory Mcp
  imports Traffic Codecs
begin

text \<open>
  \<open>app/integrations/protocol_auth.py\<close> and \<open>app/integrations/mcp_server.py\<close>: the authentication of protocol
  requests and the checks published as MCP tools. The MCP and ASGI libraries are not modelled: a tool call is its
  arguments and the organisation of its caller, an ASGI application what the middleware lets through to it.
\<close>

section \<open>Authentication of protocol requests\<close>

definition PROTECTED_PREFIXES :: "string list" where
  "PROTECTED_PREFIXES = [''/mcp'', ''/a2a'']"

definition no_principal :: "exn + principal \<Rightarrow> exn + principal option" where
  "no_principal r = (case r of Inl (HTTPException st m) \<Rightarrow> Inr None | Inl e \<Rightarrow> Inl e | Inr p \<Rightarrow> Inr (Some p))"

definition resolve_principal :: "auth_env \<Rightarrow> string option \<Rightarrow> string option \<Rightarrow> db \<Rightarrow> exn + principal option" where
  "resolve_principal env x_api_key authorization d =
     (case x_api_key of
        Some (c # cs) \<Rightarrow> no_principal (principal_from_api_key env (str_strip (c # cs)) d)
      | _ \<Rightarrow>
        (case authorization of
           Some (c # cs) \<Rightarrow>
             (case partition_char (CHR '' '') (c # cs) of
                (scheme, _, token) \<Rightarrow>
                  if str_lower scheme = ''bearer'' \<and> token \<noteq> []
                  then no_principal (principal_from_jwt env (str_strip token) d) else Inr None)
         | _ \<Rightarrow> Inr None))"

text \<open>
  What the middleware does with a request: it passes through untouched, is refused with 401, or runs as a principal,
  whose organisation and role the application sees.
\<close>

datatype passage = Untouched | Refused | RunsAs principal

definition protocol_gate ::
  "auth_env \<Rightarrow> string list \<Rightarrow> string \<Rightarrow> string \<Rightarrow> string option \<Rightarrow> string option \<Rightarrow> db \<Rightarrow> exn + passage" where
  "protocol_gate env protected type path x_api_key authorization d =
     (if type \<noteq> ''http'' \<or> \<not> list_ex (\<lambda>p. starts_with path p) protected then Inr Untouched
      else sum_bind (resolve_principal env x_api_key authorization d) (\<lambda>p.
        Inr (case p of None \<Rightarrow> Refused | Some q \<Rightarrow> RunsAs q)))"

definition current_org_id :: "passage \<Rightarrow> string option" where
  "current_org_id g = (case g of RunsAs p \<Rightarrow> Some (pr_org_id p) | _ \<Rightarrow> None)"

definition auth_scopes :: "principal \<Rightarrow> string list" where
  "auth_scopes p = [''authenticated'', ''role:'' @ role_value (pr_role p)]"

section \<open>Tools\<close>

definition json_field :: "string \<Rightarrow> string \<times> jv" where
  "json_field ty = (''type'', JStr ty)"

definition auth_required_field :: "string \<Rightarrow> jv" where
  "auth_required_field text = JDict ([json_field ''boolean'', (''default'', JBool False)] @
     (if text = [] then [] else [(''description'', JStr text)]))"

definition run_check_tool :: "'s check_registry \<Rightarrow> jv" where
  "run_check_tool reg = JDict
     [(''name'', JStr ''run_check''),
      (''description'', JStr ''Run a named security check against a URL within an authorized assessment scope. Enforced by the deterministic scope guard.''),
      (''inputSchema'', JDict
         [json_field ''object'',
          (''properties'', JDict
             [(''authorization_id'', JDict [json_field ''string'', (''description'', JStr ''A verified AuthorizationRecord id (scope binding).'')]),
              (''check_name'', JDict [json_field ''string'', (''enum'', JList (map (\<lambda>c. JStr (ck_name c)) (all_checks reg)))]),
              (''url'', JDict [json_field ''string'', (''description'', JStr ''Target URL (must be in scope).'')]),
              (''method'', JDict [json_field ''string'', (''default'', JStr ''GET'')]),
              (''auth_required'', auth_required_field
                 ''Caller-declared: whether the endpoint requires authentication. Feeds exposure scoring; not verified here.'')]),
          (''required'', JList [JStr ''authorization_id'', JStr ''check_name'', JStr ''url''])])]"

definition check_tool :: "'s check \<Rightarrow> jv" where
  "check_tool c = JDict
     [(''name'', JStr (''check.'' @ ck_name c)),
      (''description'', JStr (ck_class c @ '' check ('' @ test_intensity_value (ck_intensity c) @ '', '' @ ck_cwe c @ ''). Bound to an authorized scope.'')),
      (''inputSchema'', JDict
         [json_field ''object'',
          (''properties'', JDict [(''authorization_id'', JDict [json_field ''string'']), (''url'', JDict [json_field ''string'']),
             (''auth_required'', auth_required_field [])]),
          (''required'', JList [JStr ''authorization_id'', JStr ''url''])])]"

definition build_tools :: "'s check_registry \<Rightarrow> jv list" where
  "build_tools reg = run_check_tool reg # map check_tool (all_checks reg)"

section \<open>The parameters of a URL\<close>

text \<open>\<open>unquote\<close>: percent sequences within a run of ASCII characters are bytes of UTF-8.\<close>

function unquote :: "string \<Rightarrow> string" where
  "unquote [] = []"
| "unquote (c # cs) =
     (if is_ascii c
      then concat (map utf8 (utf8_replace (percent_bytes (takeWhile is_ascii (c # cs))))) @ unquote (dropWhile is_ascii (c # cs))
      else c # unquote cs)"
  by pat_completeness auto
termination
  by (relation "measure length") (auto simp: le_imp_less_Suc length_dropWhile_le)

text \<open>\<open>parse_qs(...).keys()\<close>: fields without a value are dropped.\<close>

definition query_keys :: "string \<Rightarrow> exn + string list" where
  "query_keys url = sum_bind (urlsplit url) (\<lambda>u. Inr (rev (remdups (rev (concat (map (\<lambda>field.
     (case partition_char (CHR ''='') field of
        (name, found, value) \<Rightarrow> if found \<and> value \<noteq> [] then [unquote (replace_char (CHR ''+'') '' '' name)] else []))
     (split_char (CHR ''&'') (u_query u))))))))"

section \<open>Running a check\<close>

definition finding_payload :: "raw_finding \<Rightarrow> jv" where
  "finding_payload f = JDict
     [(''title'', JStr (rf_title f)), (''severity'', JStr (severity_value (rf_severity f))),
      (''confidence'', JStr (confidence_value (rf_confidence f))), (''cwe'', JStr (rf_cwe f)),
      (''check_class'', JStr (rf_check_class f)), (''description'', JStr (rf_description f)),
      (''remediation'', JStr (rf_remediation f)), (''endpoint_url'', JStr (rf_endpoint_url f)),
      (''reproduction'', JDict (rf_reproduction f)),
      (''evidence'', JList (map (\<lambda>e. JDict [(''kind'', JStr (re_kind e)), (''note'', JStr (re_note e)),
         (''request'', JDict (re_request e)), (''response'', JDict (re_response e))]) (rf_evidence f)))]"

definition error_result :: "string \<Rightarrow> dict" where
  "error_result text = [(''error'', JStr text)]"

definition adhoc_view :: "(string \<Rightarrow> string) \<Rightarrow> string \<Rightarrow> string \<Rightarrow> bool \<Rightarrow> exn + endpoint_view" where
  "adhoc_view sha1 url mth auth_required =
     sum_bind (endpoint_fingerprint sha1 mth url []) (\<lambda>fp.
     sum_bind (urlsplit url) (\<lambda>u.
     sum_bind (query_keys url) (\<lambda>keys.
       Inr \<lparr>ev_id = ''adhoc-'' @ take 16 fp, ev_method = str_upper mth, ev_url = url,
            ev_path_template = templatize_path (or_slash (u_path u)),
            ev_parameters = map (\<lambda>k. [(''name'', JStr k), (''in'', JStr ''query''), (''type'', JStr ''string''), (''required'', JBool False)]) keys,
            ev_request_body_schema = [], ev_auth_required = auth_required, ev_fingerprint = fp\<rparr>)))"

definition adhoc_run :: "http_client check \<Rightarrow> endpoint_view \<Rightarrow> (http_client, bool \<times> jv list) act" where
  "adhoc_run c ev =
     (let ctx = step_context c ev [] in
      bind_act (ck_applies c ctx) (\<lambda>applied.
      if applied then bind_act (ck_run c ctx) (\<lambda>fs. ret (True, map finding_payload fs)) else ret (False, [])))"

text \<open>
  \<open>_run_check_bound\<close>: the result, and the client it opened, if it got that far. The guard reads the clock and
  resolves before the client is made; the client's own readings follow.
\<close>

definition run_check_bound ::
  "settings \<Rightarrow> (string \<Rightarrow> string) \<Rightarrow> world \<Rightarrow> http_client check_registry \<Rightarrow> string \<Rightarrow> string \<Rightarrow> string \<Rightarrow> string \<Rightarrow> bool \<Rightarrow>
   string option \<Rightarrow> db \<Rightarrow> (exn + dict) \<times> http_client option" where
  "run_check_bound st sha1 w reg authorization_id check_name url mth auth_required org d =
     (case get_check reg check_name of
        None \<Rightarrow> (Inr (error_result (''unknown check '' @ py_repr check_name)), None)
      | Some c \<Rightarrow>
        (case find_row az_id authorization_id (db_records d) of
           None \<Rightarrow> (Inr (error_result ''authorization record not found''), None)
         | Some record \<Rightarrow>
           if (case org of None \<Rightarrow> False | Some o' \<Rightarrow> o' \<noteq> [] \<and> az_org_id record \<noteq> o')
           then (Inr (error_result ''authorization record not found''), None)
           else
             let g = new_guard st record 0; active = check_record_active g (wd_now w 0); allowed = check_class_allowed g (ck_class c) (ck_intensity c) in
             if \<not> sd_allowed active then (Inr (error_result (''authorization not usable: '' @ sd_reason active)), None)
             else if \<not> sd_allowed allowed then (Inr (error_result (''check not permitted: '' @ sd_reason allowed)), None)
             else (case check_request (wd_dns w 0) g mth url False of
               Inl e \<Rightarrow> (Inl e, None)
             | Inr req \<Rightarrow>
               if \<not> sd_allowed req then (Inr (error_result (''out of scope: '' @ sd_reason req)), None)
               else (case adhoc_view sha1 url mth auth_required of
                 Inl e \<Rightarrow> (Inl e, None)
               | Inr ev \<Rightarrow>
                 (case adhoc_run c ev (aenter (new_client w 1 g False None)) of
                    (Inl (ScopeViolation reason code details), cl) \<Rightarrow> (Inr (error_result (''scope violation: '' @ reason)), Some cl)
                  | (Inl e, cl) \<Rightarrow> (Inl e, Some cl)
                  | (Inr (applied, findings), cl) \<Rightarrow>
                      (Inr [(''check'', JStr check_name), (''url'', JStr url), (''endpoint_id'', JStr (ev_id ev)),
                            (''applicable'', JBool applied), (''auth_required_declared'', JBool auth_required),
                            (''findings'', JList findings), (''requests_made'', JInt (g_requests_made (cl_guard cl)))], Some cl))))))"

definition raise_on_error :: "dict \<Rightarrow> exn + dict" where
  "raise_on_error result = (case dget result ''error'' of
     Some v \<Rightarrow> Inl (OtherError (''ToolError: '' @ str_jv v)) | None \<Rightarrow> Inr result)"

text \<open>A tool call of an authenticated or local caller.\<close>

definition mcp_tool ::
  "settings \<Rightarrow> (string \<Rightarrow> string) \<Rightarrow> world \<Rightarrow> http_client check_registry \<Rightarrow> passage \<Rightarrow> string \<Rightarrow> string \<Rightarrow> string \<Rightarrow> string \<Rightarrow>
   bool \<Rightarrow> db \<Rightarrow> (exn + dict) \<times> http_client option" where
  "mcp_tool st sha1 w reg g authorization_id check_name url mth auth_required d =
     (case run_check_bound st sha1 w reg authorization_id check_name url mth auth_required (current_org_id g) d of
        (r, cl) \<Rightarrow> (sum_bind r raise_on_error, cl))"

definition check_tool_call ::
  "settings \<Rightarrow> (string \<Rightarrow> string) \<Rightarrow> world \<Rightarrow> http_client check_registry \<Rightarrow> passage \<Rightarrow> string \<Rightarrow> string \<Rightarrow> string \<Rightarrow> bool \<Rightarrow> db \<Rightarrow>
   (exn + dict) \<times> http_client option" where
  "check_tool_call st sha1 w reg g check_name authorization_id url auth_required d =
     mcp_tool st sha1 w reg g authorization_id check_name url ''GET'' auth_required d"

text \<open>The hosts and origins the HTTP transport accepts; sorted, without duplicates.\<close>

definition transport_hosts :: "settings \<Rightarrow> exn + (string list \<times> string list)" where
  "transport_hosts st =
     sum_bind (urlsplit (public_base_url st)) (\<lambda>u.
     let host = url_hostname u; extras = filter (\<lambda>e. e \<noteq> []) (map str_strip (split_char (CHR '','') (mcp_allowed_hosts st))) in
     Inr (sorted_set ([''127.0.0.1'', ''127.0.0.1:*'', ''localhost'', ''localhost:*'', ''testserver''] @
            (if host = [] then [] else [host, host @ '':*'']) @ concat (map (\<lambda>e. [e, e @ '':*'']) extras)),
          sorted_set ([''http://127.0.0.1'', ''http://localhost''] @
            (if host = [] then [] else [u_scheme u @ ''://'' @ u_netloc u]) @
            concat (map (\<lambda>e. [''http://'' @ e, ''https://'' @ e]) extras))))"

section \<open>Who may run what\<close>

lemma no_principal_Some: "no_principal r = Inr (Some p) \<longleftrightarrow> r = Inr p"
  by (cases r) (auto simp: no_principal_def split: exn.splits)

lemma gate_backed:
  assumes "protocol_gate env protected type path key authorization d = Inr (RunsAs p)"
  shows "backed env d p"
proof -
  have "resolve_principal env key authorization d = Inr (Some p)"
    using assms by (auto simp: protocol_gate_def sum_bind_Inr split: if_split_asm option.split_asm)
  then show ?thesis
    by (auto simp: resolve_principal_def no_principal_Some api_key_backed jwt_backed
        split: option.split_asm list.split_asm prod.split_asm if_split_asm)
qed

lemma adhoc_traffic: "check_keeps (traffic w) c \<Longrightarrow> keeps (traffic w) (adhoc_run c ev)"
  unfolding adhoc_run_def check_keeps_def Let_def
  by (intro traffic_frame.keeps_bind traffic_frame.keeps_if traffic_frame.keeps_ret) simp_all

definition same_org :: "string option \<Rightarrow> authorization_record \<Rightarrow> bool" where
  "same_org org record \<longleftrightarrow> (case org of None \<Rightarrow> True | Some o' \<Rightarrow> o' = [] \<or> az_org_id record = o')"

lemma tool_run:
  assumes "run_check_bound st sha1 w reg authorization_id check_name url mth auth org d = (r, Some cl)"
  obtains c az ev where "get_check reg check_name = Some c" "find_row az_id authorization_id (db_records d) = Some az"
    "same_org org az" "sd_allowed (check_record_active (new_guard st az 0) (wd_now w 0))"
    "sd_allowed (check_class_allowed (new_guard st az 0) (ck_class c) (ck_intensity c))"
    "cl = snd (adhoc_run c ev (aenter (new_client w 1 (new_guard st az 0) False None)))"
proof -
  from assms obtain c where c: "get_check reg check_name = Some c"
    by (auto simp: run_check_bound_def split: option.split_asm)
  with assms obtain az where az: "find_row az_id authorization_id (db_records d) = Some az"
    by (auto simp: run_check_bound_def split: option.split_asm)
  let ?g = "new_guard st az 0"
  have ok: "same_org org az" "sd_allowed (check_record_active ?g (wd_now w 0))"
      "sd_allowed (check_class_allowed ?g (ck_class c) (ck_intensity c))"
    using assms c az by (auto simp: run_check_bound_def same_org_def Let_def split: option.splits if_split_asm)
  from assms c az ok obtain req where req: "check_request (wd_dns w 0) ?g mth url False = Inr req" "sd_allowed req"
    by (auto simp: run_check_bound_def same_org_def Let_def split: option.splits if_split_asm sum.split_asm)
  with assms c az ok obtain ev where ev: "adhoc_view sha1 url mth auth = Inr ev"
    by (auto simp: run_check_bound_def same_org_def Let_def split: option.splits if_split_asm sum.split_asm)
  obtain r1 cl1 where run: "adhoc_run c ev (aenter (new_client w 1 ?g False None)) = (r1, cl1)" by fastforce
  from assms c az ok req ev have "cl = cl1"
    by (auto simp: run_check_bound_def same_org_def Let_def run [unfolded One_nat_def] split: option.splits if_split_asm sum.split_asm exn.split_asm prod.split_asm)
  with run have "cl = snd (adhoc_run c ev (aenter (new_client w 1 ?g False None)))" by simp
  from that [OF c az ok this] show ?thesis .
qed

text \<open>Behind the gates a call opens its client, whatever the check does.\<close>

lemma tool_opens:
  assumes "get_check reg check_name = Some c" "find_row az_id authorization_id (db_records d) = Some az"
    and "same_org org az" "sd_allowed (check_record_active (new_guard st az 0) (wd_now w 0))"
    and "sd_allowed (check_class_allowed (new_guard st az 0) (ck_class c) (ck_intensity c))"
    and "check_request (wd_dns w 0) (new_guard st az 0) mth url False = Inr req" "sd_allowed req"
    and "adhoc_view sha1 url mth auth = Inr ev"
  shows "snd (run_check_bound st sha1 w reg authorization_id check_name url mth auth org d) =
    Some (snd (adhoc_run c ev (aenter (new_client w 1 (new_guard st az 0) False None))))"
proof -
  obtain r cl where run: "adhoc_run c ev (aenter (new_client w 1 (new_guard st az 0) False None)) = (r, cl)" by fastforce
  from assms(3) have org: "\<not> (case org of None \<Rightarrow> False | Some o' \<Rightarrow> o' \<noteq> [] \<and> az_org_id az \<noteq> o')"
    by (simp add: same_org_def split: option.splits)
  show ?thesis
    unfolding run_check_bound_def run
    using assms(4-7) by (simp only: assms(1,2,8) org Let_def option.case if_False if_True simp_thms sum.case)
      (cases r; simp add: run [unfolded One_nat_def] split: exn.split prod.split)
qed

lemma fresh_traffic:
  assumes "traffic w (aenter (new_client w n (new_guard st az 0) False None)) cl"
  shows "(\<forall>req \<in> set (cl_sent cl). authorized_request w (new_guard st az 0) req) \<and>
    (budget_limit (new_guard st az 0) \<noteq> 0 \<longrightarrow> cl_sent cl = [] \<or> int (length (cl_sent cl)) \<le> budget_limit (new_guard st az 0))"
  using assms by (fastforce simp: traffic_def aenter_def new_client_def new_guard_def)

lemma builtin_found:
  "get_check (builtin_checks (guarded_web w) (observe tokens)) name = Some c \<Longrightarrow> check_keeps (traffic w) c"
  unfolding get_check_def by (rule guarded.builtin_keeps [OF dget_mem])

text \<open>
  C4: a tool call over the network is confined to what a verified authorization of the caller's own organisation
  grants. Whatever tool, URL and method a client names and whatever the target answers, if the call opens a
  client at all then the middleware identified the caller by a row of the database, the record it named is of the
  caller's organisation, verified, inside its window and allows the check; every request sent is authorized by that
  record, hop by hop, and one call sends no more than the record's budget.
\<close>

theorem mcp_call_confined:
  assumes "protocol_gate env PROTECTED_PREFIXES ''http'' path key authorization d = Inr (RunsAs p)" "pr_org_id p \<noteq> []"
    and "mcp_tool st sha1 w (builtin_checks (guarded_web w) (observe tokens)) (RunsAs p) aid name url mth auth d = (r, Some cl)"
  shows "backed env d p \<and> (\<exists>az c. az \<in> set (db_records d) \<and> az_id az = aid \<and> az_org_id az = pr_org_id p \<and>
    az_status az = ''verified'' \<and> window_open az (wd_now w 0) \<and>
    get_check (builtin_checks (guarded_web w) (observe tokens)) name = Some c \<and>
    sd_allowed (check_class_allowed (new_guard st az 0) (ck_class c) (ck_intensity c)) \<and>
    (\<forall>req \<in> set (cl_sent cl). authorized_request w (new_guard st az 0) req) \<and>
    (budget_limit (new_guard st az 0) \<noteq> 0 \<longrightarrow> cl_sent cl = [] \<or> int (length (cl_sent cl)) \<le> budget_limit (new_guard st az 0)))"
proof
  show "backed env d p" by (rule gate_backed [OF assms(1)])
  let ?reg = "builtin_checks (guarded_web w) (observe tokens)"
  from assms(3) have "\<exists>r'. run_check_bound st sha1 w ?reg aid name url mth auth (Some (pr_org_id p)) d = (r', Some cl)"
    by (auto simp: mcp_tool_def current_org_id_def split: prod.split_asm)
  then obtain r' where "run_check_bound st sha1 w ?reg aid name url mth auth (Some (pr_org_id p)) d = (r', Some cl)" by blast
  then show "\<exists>az c. az \<in> set (db_records d) \<and> az_id az = aid \<and> az_org_id az = pr_org_id p \<and>
    az_status az = ''verified'' \<and> window_open az (wd_now w 0) \<and> get_check ?reg name = Some c \<and>
    sd_allowed (check_class_allowed (new_guard st az 0) (ck_class c) (ck_intensity c)) \<and>
    (\<forall>req \<in> set (cl_sent cl). authorized_request w (new_guard st az 0) req) \<and>
    (budget_limit (new_guard st az 0) \<noteq> 0 \<longrightarrow> cl_sent cl = [] \<or> int (length (cl_sent cl)) \<le> budget_limit (new_guard st az 0))"
  proof (rule tool_run)
    fix c az ev
    assume c: "get_check ?reg name = Some c" and row: "find_row az_id aid (db_records d) = Some az"
      and org: "same_org (Some (pr_org_id p)) az"
      and active: "sd_allowed (check_record_active (new_guard st az 0) (wd_now w 0))"
      and cls: "sd_allowed (check_class_allowed (new_guard st az 0) (ck_class c) (ck_intensity c))"
      and cl: "cl = snd (adhoc_run c ev (aenter (new_client w 1 (new_guard st az 0) False None)))"
    have "traffic w (aenter (new_client w 1 (new_guard st az 0) False None)) cl"
      using adhoc_traffic [OF builtin_found [OF c]] by (simp add: keeps_def cl)
    from fresh_traffic [OF this] c find_row_mem [OF row] find_row_key [OF row] org assms(2) active cls show ?thesis
      by (auto simp: same_org_def check_record_active_iff new_guard_def)
  qed
qed

section \<open>A viewer's call\<close>

text \<open>
  A viewer of the organisation calls the tool of the header check. The gates before the client are evaluated; what
  the check then asks for is sent.
\<close>

definition demo_tools :: "http_client check_registry" where
  "demo_tools = builtin_checks (guarded_web demo_world) (observe (\<lambda>_. ''x''))"

definition viewer :: principal where
  "viewer = \<lparr>pr_org_id = ''o1'', pr_user_id = ''u1'', pr_role = VIEWER, pr_auth_method = ''api_key''\<rparr>"

definition demo_record :: authorization_record where
  "demo_record = demo_authorization\<lparr>az_id := ''z1'', az_max_requests := 1, az_allowed_check_classes := []\<rparr>"

definition demo_store :: db where
  "demo_store = empty_db\<lparr>db_keys := [demo_key\<lparr>key_role := ''viewer''\<rparr>], db_records := [demo_record]\<rparr>"

definition tool_client :: http_client where
  "tool_client = aenter (new_client demo_world 1 (new_guard default_settings demo_record 0) False None)"

definition demo_call :: "(exn + dict) \<times> http_client option" where
  "demo_call = mcp_tool default_settings (\<lambda>s. s) demo_world demo_tools (RunsAs viewer) ''z1'' ''headers.security''
     ''http://app.test:8080/shop'' ''GET'' False demo_store"

lemma try_call_state: "snd (try_call web c s) = snd (web c s)"
  by (simp add: try_call_def unless_unreachable_def catch_act_def bind_act_def split: prod.split sum.split exn.split)

lemma headers_state:
  assumes "ev_method ev = ''GET''"
  shows "snd (adhoc_run (headers_check web) ev s) = snd (web (get_call (ev_url ev) []) s)"
proof -
  obtain r s' where t: "try_call web (get_call (ev_url ev) []) s = (r, s')" by fastforce
  with try_call_state [of web "get_call (ev_url ev) []" s] have "s' = snd (web (get_call (ev_url ev) []) s)" by simp
  with t assms show ?thesis
    by (cases r) (simp_all add: adhoc_run_def headers_check_def step_context_def Let_def bind_act_def)
qed

lemma tool_client_sends: "cl_sent (snd (guarded_web demo_world (get_call ''http://app.test:8080/shop'' []) tool_client)) \<noteq> []"
proof -
  let ?d = "allow ''request in scope''
       [(''host'', JStr ''app.test''), (''port'', JInt 8080), (''ips'', JList [JStr ''93.184.216.34''])]"
  have gates: "sd_allowed (check_record_active (cl_guard tool_client) 0)" "sd_allowed (check_budget (cl_guard tool_client) 1)"
    "check_request demo_dns (cl_guard tool_client) ''GET'' ''http://app.test:8080/shop'' False = Inr ?d"
    "assert_no_rebinding demo_dns ''http://app.test:8080/shop'' [''93.184.216.34''] = Inr ()"
    by code_simp+
  have "cl_sent (snd (request demo_world ''GET'' ''http://app.test:8080/shop'' [] [] JNull JNull 3 tool_client)) \<noteq> cl_sent tool_client"
    by (rule authorized_call_is_sent [where d = ?d])
      (use gates in \<open>simp_all add: demo_world_def decision_ips_def, simp_all add: tool_client_def aenter_def new_client_def\<close>)
  then show ?thesis by (simp add: guarded_web_def get_call_def tool_client_def aenter_def new_client_def)
qed

lemma demo_opens_client: "\<exists>r cl. demo_call = (r, Some cl) \<and> cl_sent cl \<noteq> []"
proof -
  have found: "get_check demo_tools ''headers.security'' = Some (headers_check (guarded_web demo_world))"
    by (simp add: demo_tools_def builtin_checks_def register_check_def get_check_def bola_check_def bounds_check_def flow_check_def
        headers_check_def prompt_check_def redirect_check_def sqli_check_def xss_check_def)
  have gates: "find_row az_id ''z1'' (db_records demo_store) = Some demo_record" "az_org_id demo_record = ''o1''"
    "sd_allowed (check_record_active (new_guard default_settings demo_record 0) 0)"
    "sd_allowed (check_class_allowed (new_guard default_settings demo_record 0) ''security_headers'' PASSIVE)"
    by code_simp+
  have req: "case check_request demo_dns (new_guard default_settings demo_record 0) ''GET'' ''http://app.test:8080/shop'' False of
      Inr r \<Rightarrow> sd_allowed r | Inl e \<Rightarrow> False" by code_simp
  have view: "case adhoc_view (\<lambda>s. s) ''http://app.test:8080/shop'' ''GET'' False of
      Inr ev \<Rightarrow> ev_method ev = ''GET'' \<and> ev_url ev = ''http://app.test:8080/shop'' | Inl e \<Rightarrow> False" by code_simp
  from req obtain r where r: "check_request demo_dns (new_guard default_settings demo_record 0) ''GET'' ''http://app.test:8080/shop'' False = Inr r"
    "sd_allowed r" by (auto split: sum.split_asm)
  from view obtain ev where ev: "adhoc_view (\<lambda>s. s) ''http://app.test:8080/shop'' ''GET'' False = Inr ev" "ev_method ev = ''GET''"
    "ev_url ev = ''http://app.test:8080/shop''" by (auto split: sum.split_asm)
  have cls: "ck_class (headers_check (guarded_web demo_world)) = ''security_headers''" "ck_intensity (headers_check (guarded_web demo_world)) = PASSIVE"
    by (simp_all add: headers_check_def)
  have moments: "wd_now demo_world n = 0" "wd_dns demo_world n = demo_dns" for n
    by (simp_all add: demo_world_def)
  have "snd (run_check_bound default_settings (\<lambda>s. s) demo_world demo_tools ''z1'' ''headers.security'' ''http://app.test:8080/shop''
      ''GET'' False (Some ''o1'') demo_store) = Some (snd (adhoc_run (headers_check (guarded_web demo_world)) ev tool_client))"
    unfolding tool_client_def
    by (rule tool_opens [OF found gates(1) _ _ _ _ r(2) ev(1)]; simp only: same_org_def option.case gates moments cls r(1); simp?)
  moreover have "cl_sent (snd (adhoc_run (headers_check (guarded_web demo_world)) ev tool_client)) \<noteq> []"
    using headers_state [OF ev(2), of "guarded_web demo_world" tool_client] tool_client_sends by (simp add: ev(3))
  ultimately show ?thesis
    by (auto simp: demo_call_def mcp_tool_def current_org_id_def viewer_def split: prod.split)
qed

theorem mcp_call_confined_witness:
  "\<exists>r cl. demo_call = (r, Some cl) \<and> length (cl_sent cl) = 1 \<and>
     list_all (authorized_request demo_world (new_guard default_settings demo_record 0)) (cl_sent cl)"
proof -
  obtain r cl where call: "demo_call = (r, Some cl)" and sent: "cl_sent cl \<noteq> []"
    using demo_opens_client by blast
  have gate: "protocol_gate demo_auth PROTECTED_PREFIXES ''http'' ''/mcp/'' (Some ''sk_ab12_s_1'') None demo_store = Inr (RunsAs viewer)"
    by code_simp
  have org: "pr_org_id viewer \<noteq> []" by (simp add: viewer_def)
  have limit: "budget_limit (new_guard default_settings demo_record 0) = 1" by code_simp
  from mcp_call_confined [OF gate org call [unfolded demo_call_def demo_tools_def]]
  have auth: "\<forall>req \<in> set (cl_sent cl). authorized_request demo_world (new_guard default_settings demo_record 0) req"
    and "int (length (cl_sent cl)) \<le> 1"
    using limit sent by (auto simp: demo_store_def)
  with sent have "length (cl_sent cl) = 1" by (cases "cl_sent cl") auto
  with call auth show ?thesis by (auto simp: list_all_iff)
qed

end
