(* ===== verification/Identity.thy ===== *)
theory Identity
  imports Api
begin

text \<open>
  \<open>app/api/routers/identity.py\<close> and \<open>app/core/oidc.py\<close>: sign-up, login, API keys and single sign-on. Random parts,
  the signing of tokens (jose), and what a provider answers are the caller's; the key sets fetched from providers are
  cached in the process. The HTTP library's own errors are \<open>HttpError\<close>, a body that is no JSON is a \<open>ValueError\<close>.
\<close>

section \<open>Single sign-on\<close>

type_synonym jwks_cache = "(string \<times> (rat \<times> jv)) list"

record oidc_world =
  ow_get :: "string \<Rightarrow> exn + jv"
  ow_monotonic :: rat
  ow_stored :: rat
  ow_header :: "string \<Rightarrow> string + dict"
  ow_decode :: "string \<Rightarrow> jv \<Rightarrow> string \<Rightarrow> string \<Rightarrow> string + dict"

definition ALLOWED_ALGS :: "string list" where
  "ALLOWED_ALGS = [''RS256'', ''RS384'', ''RS512'', ''ES256'', ''ES384'', ''ES512'']"

definition fetch_json :: "oidc_world \<Rightarrow> string \<Rightarrow> exn + jv" where
  "fetch_json w url = (case ow_get w url of
     Inl (HttpError e) \<Rightarrow> Inl (ValueError (''OIDC network error fetching '' @ py_repr url @ '': '' @ e))
   | Inl (ValueError e) \<Rightarrow> Inl (ValueError (''OIDC: invalid JSON from '' @ py_repr url @ '': '' @ e))
   | r \<Rightarrow> r)"

text \<open>The key set's address from the discovery document.\<close>

definition discovered_url :: "string \<Rightarrow> jv \<Rightarrow> exn + string" where
  "discovered_url discovery_url doc = (case doc of
     JDict d \<Rightarrow> (case jget_or d ''jwks_uri'' (JStr []) of
         JStr u \<Rightarrow> if str_strip u = []
           then Inl (ValueError (''OIDC discovery at '' @ py_repr discovery_url @ '' did not provide a '' @ squoted ''jwks_uri''))
           else Inr (str_strip u)
       | _ \<Rightarrow> Inl (OtherError ''AttributeError: strip''))
   | _ \<Rightarrow> Inl (OtherError ''AttributeError: get''))"

definition has_keys :: "jv \<Rightarrow> bool" where
  "has_keys jwks \<longleftrightarrow> (case jwks of JDict d \<Rightarrow> truthy (jget d ''keys'') | _ \<Rightarrow> False)"

definition fetch_jwks :: "settings \<Rightarrow> oidc_world \<Rightarrow> (jwks_cache, jv) act" where
  "fetch_jwks st w =
     (let jwks_url = str_strip (oidc_jwks_url st); issuer = str_strip (oidc_issuer st);
          key = (if jwks_url = [] then issuer else jwks_url) in
      if key = [] then raise_exn (ValueError ''OIDC: neither oidc_jwks_url nor oidc_issuer is configured'')
      else bind_act (gets (\<lambda>cache. dget cache key)) (\<lambda>cached.
        case (case cached of Some (until, jwks) \<Rightarrow> if until > ow_monotonic w then Some jwks else None | None \<Rightarrow> None) of
          Some jwks \<Rightarrow> ret jwks
        | None \<Rightarrow>
          let discovery_url = rstrip_char (CHR ''/'') issuer @ ''/.well-known/openid-configuration'' in
          bind_act (lift_sum (if jwks_url = [] then sum_bind (fetch_json w discovery_url) (discovered_url discovery_url)
             else Inr jwks_url)) (\<lambda>url.
          bind_act (lift_sum (fetch_json w url)) (\<lambda>jwks.
          if \<not> has_keys jwks then raise_exn (ValueError (''OIDC JWKS at '' @ py_repr url @ '' has no '' @ squoted ''keys''))
          else bind_act (modify (\<lambda>cache. dset cache key (ow_stored w + 300, jwks))) (\<lambda>_. ret jwks)))))"

fun keyed_key :: "jv \<Rightarrow> jv list \<Rightarrow> exn + jv" where
  "keyed_key kid [] = Inl (ValueError (''OIDC: no JWKS key matches token kid '' @ repr_jv kid))"
| "keyed_key kid (k # ks) = (case k of
     JDict d \<Rightarrow> if jget d ''kid'' = kid then Inr k else keyed_key kid ks
   | _ \<Rightarrow> Inl (OtherError ''AttributeError: get''))"

definition select_key :: "jv \<Rightarrow> jv \<Rightarrow> exn + jv" where
  "select_key jwks kid = (case jwks of
     JDict d \<Rightarrow>
       (let keys = (if truthy (jget d ''keys'') then jget d ''keys'' else JList []) in
        if truthy kid then sum_bind (iter_items keys) (keyed_key kid)
        else sum_bind (iter_items keys) (\<lambda>ks.
          if length ks = 1 then (case keys of JDict _ \<Rightarrow> Inl (OtherError ''KeyError: 0'') | _ \<Rightarrow> Inr (hd ks))
          else Inl (ValueError (''OIDC: token has no '' @ squoted ''kid'' @ '' and JWKS has multiple keys''))))
   | _ \<Rightarrow> Inl (OtherError ''AttributeError: get''))"

definition verify_id_token :: "settings \<Rightarrow> oidc_world \<Rightarrow> string \<Rightarrow> (jwks_cache, dict) act" where
  "verify_id_token st w token =
     (if token = [] then raise_exn (ValueError ''OIDC: empty id_token'')
      else (case ow_header w token of
        Inl e \<Rightarrow> raise_exn (ValueError (''OIDC: malformed token header: '' @ e))
      | Inr header \<Rightarrow>
        if jget header ''alg'' \<notin> JStr ` set ALLOWED_ALGS
        then raise_exn (ValueError (''OIDC: refusing token with algorithm '' @ repr_jv (jget header ''alg'') @
          ''; only asymmetric '' @ repr_list ALLOWED_ALGS @ '' accepted''))
        else if str_strip (oidc_audience st) = [] then raise_exn (ValueError ''OIDC: oidc_audience is not configured'')
        else if str_strip (oidc_issuer st) = [] then raise_exn (ValueError ''OIDC: oidc_issuer is not configured'')
        else
          bind_act (fetch_jwks st w) (\<lambda>jwks.
          bind_act (lift_sum (select_key jwks (jget header ''kid''))) (\<lambda>key.
          lift_sum (case ow_decode w token key (oidc_audience st) (oidc_issuer st) of
            Inl e \<Rightarrow> Inl (ValueError (''OIDC: id_token verification failed: '' @ e)) | Inr claims \<Rightarrow> Inr claims)))))"

section \<open>Requests and rows\<close>

record org_signup =
  sg_org_name :: string
  sg_org_slug :: string
  sg_admin_email :: string
  sg_admin_password :: string

definition slug_ok :: "string \<Rightarrow> bool" where
  "slug_ok s \<longleftrightarrow> (case s of [] \<Rightarrow> False
     | c # cs \<Rightarrow> (is_lower_ascii c \<or> is_digit c) \<and> list_all (\<lambda>x. is_lower_ascii x \<or> is_digit x \<or> x = CHR ''-'') cs)"

definition org_signup_ok :: "org_signup \<Rightarrow> bool" where
  "org_signup_ok b \<longleftrightarrow> length (sg_org_name b) \<in> {2..200} \<and> length (sg_org_slug b) \<in> {2..80} \<and> slug_ok (sg_org_slug b) \<and>
     length (sg_admin_email b) \<in> {3..320} \<and> length (sg_admin_password b) \<in> {8..200}"

record login_request =
  lr_org_slug :: string
  lr_email :: string
  lr_password :: string

record api_key_create =
  kc_name :: string
  kc_role :: string

record identity_world =
  iw_settings :: settings
  iw_auth :: auth_env
  iw_encode :: "dict \<Rightarrow> string"
  iw_jti :: string
  iw_prefix :: string
  iw_secret :: string
  iw_oidc :: oidc_world

definition new_key :: "identity_world \<Rightarrow> string \<Rightarrow> string \<Rightarrow> string \<Rightarrow> string \<Rightarrow> string \<Rightarrow> api_key" where
  "new_key w i org user name role =
     \<lparr>key_id = i, key_org_id = org, key_user_id = user, key_name = name, key_prefix = iw_prefix w,
      key_secret_hash = ae_hash (iw_auth w) (iw_secret w), key_role = role, key_revoked = False\<rparr>"

definition create_access_token :: "identity_world \<Rightarrow> string \<Rightarrow> string \<Rightarrow> string \<Rightarrow> (db, string) act" where
  "create_access_token w org user role = bind_act clock (\<lambda>now. ret (iw_encode w
     (token_claims org user role (dt_us now div 1000000) (access_token_ttl_minutes (iw_settings w)) (iw_jti w))))"

section \<open>Routes\<close>

definition signup_rows :: "identity_world \<Rightarrow> org_signup \<Rightarrow> (db, string \<times> string) act" where
  "signup_rows w body =
     bind_act (gets (\<lambda>d. filter (\<lambda>r. org_slug r = sg_org_slug body) (db_orgs d))) (\<lambda>rows.
     bind_act (lift_sum (one_or_none rows)) (\<lambda>existing.
     bind_act (need (existing = None) 409 ''org slug already taken'') (\<lambda>_.
     bind_act (lift_sum (case hash_password (iw_auth w) (sg_admin_password body) of
        Inl (ValueError m) \<Rightarrow> Inl (HTTPException 422 m) | r \<Rightarrow> r)) (\<lambda>pw.
     bind_act new_id (\<lambda>i.
     bind_act (modify (\<lambda>d. d\<lparr>db_orgs := db_orgs d @
       [\<lparr>org_id = i, org_name = sg_org_name body, org_slug = sg_org_slug body, org_settings = []\<rparr>]\<rparr>)) (\<lambda>_.
     bind_act new_id (\<lambda>u.
     bind_act (modify (\<lambda>d. d\<lparr>db_users := db_users d @
       [\<lparr>us_id = u, us_org_id = i, us_email = str_lower (sg_admin_email body), us_password_hash = pw,
         us_role = role_value OWNER, us_is_active = True\<rparr>]\<rparr>)) (\<lambda>_.
     bind_act new_id (\<lambda>k.
     bind_act (modify (\<lambda>d. d\<lparr>db_keys := db_keys d @ [new_key w k i u ''bootstrap'' (role_value OWNER)]\<rparr>)) (\<lambda>_.
     ret (i, u)))))))))))"

definition signup :: "identity_world \<Rightarrow> org_signup \<Rightarrow> (db, dict) act" where
  "signup w body =
     bind_act (need (org_signup_ok body) 422 ''request validation failed'') (\<lambda>_.
     bind_act (transaction (signup_rows w body)) (\<lambda>(i, u).
     bind_act (create_access_token w i u (role_value OWNER)) (\<lambda>token.
     ret [(''org_id'', JStr i), (''user_id'', JStr u), (''access_token'', JStr token),
          (''api_key'', JStr (fst (generate_api_key (iw_prefix w) (iw_secret w))))])))"

definition token_result :: "string \<Rightarrow> string \<Rightarrow> string \<Rightarrow> dict" where
  "token_result token org role =
     [(''access_token'', JStr token), (''token_type'', JStr ''bearer''), (''org_id'', JStr org), (''role'', JStr role)]"

definition sign_in :: "identity_world \<Rightarrow> login_request \<Rightarrow> (db, user) act" where
  "sign_in w body =
     bind_act (gets (\<lambda>d. filter (\<lambda>r. org_slug r = lr_org_slug body) (db_orgs d))) (\<lambda>rows.
     bind_act (lift_sum (one_or_none rows)) (\<lambda>org_row. case org_row of
       None \<Rightarrow> raise_exn (HTTPException 401 ''invalid credentials'')
     | Some org \<Rightarrow>
       bind_act (gets (\<lambda>d. filter (\<lambda>u. us_org_id u = org_id org \<and> us_email u = str_lower (lr_email body)) (db_users d))) (\<lambda>us.
       bind_act (lift_sum (one_or_none us)) (\<lambda>found. case found of
         None \<Rightarrow> raise_exn (HTTPException 401 ''invalid credentials'')
       | Some u \<Rightarrow>
         bind_act (need (us_is_active u \<and> ae_verify (iw_auth w) (lr_password body) (us_password_hash u)) 401 ''invalid credentials'')
           (\<lambda>_. ret u)))))"

definition login_route :: "identity_world \<Rightarrow> login_request \<Rightarrow> (db, dict) act" where
  "login_route w body =
     bind_act (sign_in w body) (\<lambda>u.
     bind_act (create_access_token w (us_org_id u) (us_id u) (us_role u)) (\<lambda>token.
     ret (token_result token (us_org_id u) (us_role u))))"

definition create_api_key :: "identity_world \<Rightarrow> principal \<Rightarrow> api_key_create \<Rightarrow> (db, dict) act" where
  "create_api_key w p body =
     bind_act (lift_sum (require_role ADMIN p)) (\<lambda>_.
     case role_of (kc_role body) of
       None \<Rightarrow> raise_exn (HTTPException 422 (''invalid role '' @ py_repr (kc_role body)))
     | Some role \<Rightarrow>
       bind_act new_id (\<lambda>i.
       bind_act (modify (\<lambda>d. d\<lparr>db_keys := db_keys d @
         [new_key w i (pr_org_id p) (pr_user_id p) (kc_name body) (role_value role)]\<rparr>)) (\<lambda>_.
       ret [(''id'', JStr i), (''api_key'', JStr (fst (generate_api_key (iw_prefix w) (iw_secret w)))),
            (''prefix'', JStr (iw_prefix w)), (''role'', JStr (role_value role))])))"

definition revoke_api_key :: "principal \<Rightarrow> string \<Rightarrow> (db, unit) act" where
  "revoke_api_key p kid =
     bind_act (lift_sum (require_role ADMIN p)) (\<lambda>_.
     bind_act (gets (\<lambda>d. find_row key_id kid (db_keys d))) (\<lambda>row. case row of
       None \<Rightarrow> raise_exn (HTTPException 404 ''not found'')
     | Some k \<Rightarrow>
       bind_act (need (key_org_id k = pr_org_id p) 404 ''not found'') (\<lambda>_.
       modify (\<lambda>d. d\<lparr>db_keys := change_row key_id kid (\<lambda>k. k\<lparr>key_revoked := True\<rparr>) (db_keys d)\<rparr>))))"

definition whoami :: "principal \<Rightarrow> dict" where
  "whoami p = [(''org_id'', JStr (pr_org_id p)), (''user_id'', JStr (pr_user_id p)), (''role'', JStr (role_value (pr_role p))),
     (''auth_method'', JStr (pr_auth_method p))]"

text \<open>What a route sees: the database and the cache of key sets.\<close>

record identity_state =
  is_db :: db
  is_cache :: jwks_cache

definition in_db :: "(db, 'a) act \<Rightarrow> (identity_state, 'a) act" where
  "in_db m s = (case m (is_db s) of (r, d) \<Rightarrow> (r, s\<lparr>is_db := d\<rparr>))"

definition in_cache :: "(jwks_cache, 'a) act \<Rightarrow> (identity_state, 'a) act" where
  "in_cache m s = (case m (is_cache s) of (r, c) \<Rightarrow> (r, s\<lparr>is_cache := c\<rparr>))"

definition active_user :: "string \<Rightarrow> db \<Rightarrow> user option" where
  "active_user email d = List.find us_is_active (filter (\<lambda>u. str_lower (us_email u) = email) (db_users d))"

definition login_with_id_token :: "identity_world \<Rightarrow> string \<Rightarrow> (identity_state, dict) act" where
  "login_with_id_token w id_token =
     (let st = iw_settings w; email_claim = (if oidc_email_claim st = [] then ''email'' else oidc_email_claim st) in
      if \<not> oidc_enabled st then raise_exn (ValueError ''OIDC not enabled'')
      else
        bind_act (in_cache (verify_id_token st (iw_oidc w) id_token)) (\<lambda>claims.
        case jget claims email_claim of
          JStr (c # cs) \<Rightarrow>
            bind_act (gets (\<lambda>s. active_user (str_lower (str_strip (c # cs))) (is_db s))) (\<lambda>found. case found of
              None \<Rightarrow> raise_exn (ValueError ''no provisioned user for this identity'')
            | Some u \<Rightarrow>
              bind_act (in_db (create_access_token w (us_org_id u) (us_id u) (us_role u))) (\<lambda>token.
              ret (token_result token (us_org_id u) (us_role u) @ [(''user_id'', JStr (us_id u)), (''email'', JStr (us_email u))])))
        | _ \<Rightarrow> raise_exn (ValueError (''OIDC: token has no usable '' @ py_repr email_claim @ '' claim''))))"

definition oidc_login :: "identity_world \<Rightarrow> dict \<Rightarrow> (identity_state, dict) act" where
  "oidc_login w body =
     (let id_token = str_strip (str_jv (jget_or body ''id_token'' (JStr []))) in
      if id_token = [] then raise_exn (HTTPException 422 (squoted ''id_token'' @ '' is required''))
      else bind_act (catch_act (login_with_id_token w id_token)
          (\<lambda>e. raise_exn (case e of ValueError m \<Rightarrow> HTTPException 401 m | _ \<Rightarrow> e))) (\<lambda>result.
        ret (token_result (jstr (jget result ''access_token'')) (jstr (jget result ''org_id'')) (jstr (jget result ''role'')))))"

datatype identity_request =
    IdSignup org_signup
  | IdLogin login_request
  | IdOidc dict
  | IdCreateKey api_key_create
  | IdRevokeKey string
  | IdWhoami

definition as_caller ::
  "identity_world \<Rightarrow> string option \<Rightarrow> string option \<Rightarrow> (principal \<Rightarrow> (db, 'a) act) \<Rightarrow> (identity_state, 'a) act" where
  "as_caller w authorization x_api_key m = in_db (bind_act (gets (get_principal (iw_auth w) authorization x_api_key)) (\<lambda>r.
     bind_act (lift_sum r) (\<lambda>p. transaction (m p))))"

fun handle_identity ::
  "identity_world \<Rightarrow> string option \<Rightarrow> string option \<Rightarrow> identity_request \<Rightarrow> (identity_state, dict) act" where
  "handle_identity w auth key (IdSignup body) = in_db (signup w body)"
| "handle_identity w auth key (IdLogin body) = in_db (login_route w body)"
| "handle_identity w auth key (IdOidc body) = oidc_login w body"
| "handle_identity w auth key (IdCreateKey body) = as_caller w auth key (\<lambda>p. create_api_key w p body)"
| "handle_identity w auth key (IdRevokeKey kid) =
     as_caller w auth key (\<lambda>p. bind_act (revoke_api_key p kid) (\<lambda>_. ret []))"
| "handle_identity w auth key IdWhoami = as_caller w auth key (\<lambda>p. ret (whoami p))"


section \<open>Who may change identities\<close>

definition caller :: "identity_world \<Rightarrow> string option \<Rightarrow> string option \<Rightarrow> db \<Rightarrow> string \<Rightarrow> string \<Rightarrow> bool" where
  "caller w auth key d org user \<longleftrightarrow> (\<exists>p. get_principal (iw_auth w) auth key d = Inr p \<and> ROLE_RANK ADMIN \<le> ROLE_RANK (pr_role p) \<and>
     pr_org_id p = org \<and> pr_user_id p = user)"

text \<open>
  The difference between two states: organisations with new slugs, owners of these organisations, and keys, each of a
  new organisation or of the calling administrator; old keys are at most revoked, by an administrator of their
  organisation. Nothing else differs.
\<close>

definition accounted :: "identity_world \<Rightarrow> string option \<Rightarrow> string option \<Rightarrow> db \<Rightarrow> db \<Rightarrow> bool" where
  "accounted w auth key d d' \<longleftrightarrow> (\<exists>os us olds ks n m.
     d' = d\<lparr>db_orgs := db_orgs d @ os, db_users := db_users d @ us, db_keys := olds @ ks, db_drawn := n, db_reads := m\<rparr> \<and>
     (\<forall>org \<in> set os. org_slug org \<notin> org_slug ` set (db_orgs d)) \<and>
     (\<forall>u \<in> set us. us_org_id u \<in> org_id ` set os) \<and>
     (\<forall>k \<in> set ks. key_org_id k \<in> org_id ` set os \<or> caller w auth key d (key_org_id k) (key_user_id k)) \<and>
     list_all2 (\<lambda>k k'. k' = k \<or> k' = k\<lparr>key_revoked := True\<rparr> \<and> (\<exists>user. caller w auth key d (key_org_id k) user))
       (db_keys d) olds)"

definition quiet :: "db \<Rightarrow> db \<Rightarrow> bool" where
  "quiet d d' \<longleftrightarrow> (\<exists>n m. d' = d\<lparr>db_drawn := n, db_reads := m\<rparr>)"

lemma quiet_refl: "quiet d d"
  unfolding quiet_def by (rule exI [of _ "db_drawn d"], rule exI [of _ "db_reads d"]) simp

lemma quiet_trans: "quiet a b \<Longrightarrow> quiet b c \<Longrightarrow> quiet a c"
  unfolding quiet_def by (elim exE) (simp, blast)

lemma quietI: "quiet d (d\<lparr>db_drawn := n, db_reads := m\<rparr>)"
  unfolding quiet_def by blast

interpretation quiet_frame: db_frame quiet "{}"
  by unfold_locales (auto intro: quiet_refl quietI quiet_trans)

lemma keys_same: "list_all2 (\<lambda>k k'. k' = k \<or> Q k k') ks ks"
  by (simp add: list_all2_same)

lemma accounted_quiet: "quiet d d' \<Longrightarrow> accounted w auth key d d'"
  unfolding quiet_def accounted_def
  by (elim exE, rule exI [of _ "[]"], rule exI [of _ "[]"], rule exI [of _ "db_keys d"], rule exI [of _ "[]"]) (auto simp: keys_same)

lemma keeps_sign_in: "keeps quiet (sign_in w body)"
  unfolding sign_in_def need_def
  by (intro quiet_frame.keeps_rules quiet_frame.keeps_option quiet_frame.keeps_if)

lemma keeps_token: "keeps quiet (create_access_token w org user role)"
  unfolding create_access_token_def by (intro quiet_frame.keeps_rules quiet_frame.keeps_clock)

lemma keeps_login: "keeps quiet (login_route w body)"
  unfolding login_route_def by (intro quiet_frame.keeps_rules keeps_sign_in keeps_token)

text \<open>The same for the state with the cache, of which nothing is asked.\<close>

interpretation calm: frame "\<lambda>s t. quiet (is_db s) (is_db t)"
  by unfold_locales (auto intro: quiet_refl quiet_frame.trans)

lemma calm_in_db: "keeps quiet m \<Longrightarrow> keeps (\<lambda>s t. quiet (is_db s) (is_db t)) (in_db m)"
  by (auto simp: keeps_def in_db_def split: prod.split) (metis snd_conv)

lemma calm_in_cache: "keeps (\<lambda>s t. quiet (is_db s) (is_db t)) (in_cache m)"
  by (auto simp: keeps_def in_cache_def quiet_refl split: prod.split)

lemma keeps_text_case:
  "keeps R e \<Longrightarrow> (\<And>c cs. keeps R (f c cs)) \<Longrightarrow> keeps R (case v of JStr (c # cs) \<Rightarrow> f c cs | _ \<Rightarrow> e)"
  by (simp split: jv.split list.split)

lemma calm_oidc: "keeps (\<lambda>s t. quiet (is_db s) (is_db t)) (oidc_login w body)"
  unfolding oidc_login_def login_with_id_token_def Let_def
  by (intro keeps_text_case calm.keeps_rules calm_in_db calm_in_cache keeps_token)


lemma in_db_snd: "is_db (snd (in_db m s)) = snd (m (is_db s))"
  by (simp add: in_db_def split: prod.split)

lemma calm_run: "keeps (\<lambda>s t. quiet (is_db s) (is_db t)) m \<Longrightarrow> quiet (is_db s) (is_db (snd (m s)))"
  by (simp add: keeps_def)

lemma caller_run:
  assumes "\<And>p. get_principal (iw_auth w) auth key (is_db s) = Inr p \<Longrightarrow> accounted w auth key (is_db s) (snd (transaction (m p) (is_db s)))"
  shows "accounted w auth key (is_db s) (is_db (snd (as_caller w auth key m s)))"
  using assms
  by (cases "get_principal (iw_auth w) auth key (is_db s)")
    (simp_all add: as_caller_def in_db_snd bind_act_def accounted_quiet quiet_refl)

lemma transaction_accounted:
  assumes "\<And>x d'. m d = (Inr x, d') \<Longrightarrow> accounted w auth key d d'"
  shows "accounted w auth key d (snd (transaction m d))"
proof (cases "m d")
  case (Pair r d')
  then show ?thesis
    by (cases r) (simp_all add: accounted_quiet quietI transaction_def assms)
qed

lemma accountedI:
  assumes "d' = d\<lparr>db_orgs := db_orgs d @ os, db_users := db_users d @ us, db_keys := olds @ ks, db_drawn := db_drawn d',
      db_reads := db_reads d'\<rparr>"
    and "\<forall>org \<in> set os. org_slug org \<notin> org_slug ` set (db_orgs d)" "\<forall>u \<in> set us. us_org_id u \<in> org_id ` set os"
    and "\<forall>k \<in> set ks. key_org_id k \<in> org_id ` set os \<or> caller w auth key d (key_org_id k) (key_user_id k)"
    and "list_all2 (\<lambda>k k'. k' = k \<or> k' = k\<lparr>key_revoked := True\<rparr> \<and> (\<exists>user. caller w auth key d (key_org_id k) user))
       (db_keys d) olds"
  shows "accounted w auth key d d'"
  unfolding accounted_def using assms by blast

lemma signup_rows_ok:
  assumes "signup_rows w body d = (Inr x, d')"
  shows "accounted w auth key d d'"
proof -
  let ?row = "\<lparr>org_id = db_uuid d (db_drawn d), org_name = sg_org_name body, org_slug = sg_org_slug body, org_settings = []\<rparr>"
  from assms obtain pw where slug: "filter (\<lambda>r. org_slug r = sg_org_slug body) (db_orgs d) = []"
    and d': "d' = d\<lparr>db_orgs := db_orgs d @ [?row],
       db_users := db_users d @ [\<lparr>us_id = db_uuid d (Suc (db_drawn d)), us_org_id = db_uuid d (db_drawn d),
         us_email = str_lower (sg_admin_email body), us_password_hash = pw, us_role = role_value OWNER, us_is_active = True\<rparr>],
       db_drawn := Suc (Suc (Suc (db_drawn d))),
       db_keys := db_keys d @ [new_key w (db_uuid d (Suc (Suc (db_drawn d)))) (db_uuid d (db_drawn d))
         (db_uuid d (Suc (db_drawn d))) ''bootstrap'' (role_value OWNER)]\<rparr>"
    by (auto simp: signup_rows_def bind_act_Inr one_or_none_def need_def new_id_def split: list.split_asm if_split_asm)
  show ?thesis
    by (rule accountedI [where os = "[?row]" and olds = "db_keys d"], unfold d', rule db.equality)
      (use slug in \<open>auto simp: keys_same filter_empty_conv new_key_def\<close>)
qed

lemma accounted_then: "accounted w auth key d d1 \<Longrightarrow> quiet d1 d2 \<Longrightarrow> accounted w auth key d d2"
  unfolding accounted_def quiet_def by (elim exE conjE) (intro exI conjI, auto)

lemma signup_ok: "accounted w auth key d (snd (signup w body d))"
proof (cases "org_signup_ok body")
  case True
  define next_step where "next_step = (\<lambda>(i, u). bind_act (create_access_token w i u (role_value OWNER)) (\<lambda>token.
     ret [(''org_id'', JStr i), (''user_id'', JStr u), (''access_token'', JStr token),
          (''api_key'', JStr (fst (generate_api_key (iw_prefix w) (iw_secret w))))]))"
  have step: "keeps quiet (next_step p)" for p
    by (cases p) (auto simp: next_step_def intro!: quiet_frame.keeps_bind quiet_frame.keeps_ret keeps_token)
  have run: "signup w body d = bind_act (transaction (signup_rows w body)) next_step d"
    by (simp add: signup_def need_def True bind_act_def next_step_def)
  obtain r d1 where t: "transaction (signup_rows w body) d = (r, d1)" by fastforce
  have "accounted w auth key d (snd (transaction (signup_rows w body) d))"
    by (rule transaction_accounted [OF signup_rows_ok])
  then have rows: "accounted w auth key d d1" by (simp add: t)
  show ?thesis
    unfolding run by (rule accounted_then [OF rows], rule quiet_frame.after_bind [where f = next_step], rule t, rule step)
qed (simp add: signup_def need_def bind_act_def accounted_quiet quiet_refl)

lemma create_key_ok:
  assumes "create_api_key w p body d = (Inr x, d')" "get_principal (iw_auth w) auth key d = Inr p"
  shows "accounted w auth key d d'"
proof -
  from assms obtain role where admin: "ROLE_RANK ADMIN \<le> ROLE_RANK (pr_role p)"
    and d': "d' = d\<lparr>db_drawn := Suc (db_drawn d), db_keys := db_keys d @
      [new_key w (db_uuid d (db_drawn d)) (pr_org_id p) (pr_user_id p) (kc_name body) (role_value role)]\<rparr>"
    by (auto simp: create_api_key_def bind_act_Inr require_role_def new_id_def split: option.split_asm if_split_asm)
  then show ?thesis
    by (intro accountedI [where os = "[]" and us = "[]" and olds = "db_keys d"] db.equality)
      (use assms(2) in \<open>auto simp: keys_same new_key_def caller_def\<close>)
qed

lemma revoke_key_ok:
  assumes "revoke_api_key p kid d = (Inr x, d')" "get_principal (iw_auth w) auth key d = Inr p"
    and "distinct (map key_id (db_keys d))"
  shows "accounted w auth key d d'"
proof -
  from assms(1) obtain k where admin: "ROLE_RANK ADMIN \<le> ROLE_RANK (pr_role p)"
    and k: "find_row key_id kid (db_keys d) = Some k" "key_org_id k = pr_org_id p"
    and d': "d' = d\<lparr>db_keys := change_row key_id kid (\<lambda>k. k\<lparr>key_revoked := True\<rparr>) (db_keys d)\<rparr>"
    by (auto simp: revoke_api_key_def bind_act_Inr require_role_def need_def split: option.split_asm if_split_asm)
  have "caller w auth key d (key_org_id r) (pr_user_id p)" if "r \<in> set (db_keys d)" "key_id r = kid" for r
  proof -
    from that find_row_mem [OF k(1)] find_row_key [OF k(1)] assms(3) have "r = k"
      by (auto simp: distinct_map inj_on_def)
    with k(2) admin assms(2) show ?thesis by (auto simp: caller_def)
  qed
  then have "list_all2 (\<lambda>k k'. k' = k \<or> k' = k\<lparr>key_revoked := True\<rparr> \<and> (\<exists>user. caller w auth key d (key_org_id k) user))
      (db_keys d) (change_row key_id kid (\<lambda>k. k\<lparr>key_revoked := True\<rparr>) (db_keys d))"
    by (auto simp: change_row_def list_all2_map2 list_all2_same)
  then show ?thesis
    by (intro accountedI [where os = "[]" and us = "[]" and ks = "[]"
          and olds = "change_row key_id kid (\<lambda>k. k\<lparr>key_revoked := True\<rparr>) (db_keys d)"] db.equality)
      (simp_all add: d')
qed


section \<open>Theorems\<close>

text \<open>
  C36: identities change only at the hands of those entitled to it. Whatever request reaches the identity routes, with
  whatever credentials, and however it ends: a new organisation has a new slug, new users belong to an organisation
  the request created, a new key belongs to such an organisation or to the calling administrator and his
  organisation, a key is revoked only by an administrator of its organisation, and nothing else in the database
  differs. Logins, single sign-on included, change nothing.
\<close>

theorem identity_changes_authorized:
  assumes "distinct (map key_id (db_keys (is_db s)))"
  shows "accounted w auth key (is_db s) (is_db (snd (handle_identity w auth key req s))) \<and>
    ((\<exists>body. req = IdLogin body) \<or> (\<exists>body. req = IdOidc body) \<longrightarrow>
       quiet (is_db s) (is_db (snd (handle_identity w auth key req s))))"
proof (cases req)
  case (IdSignup body)
  then show ?thesis by (simp add: in_db_snd signup_ok)
next
  case (IdLogin body)
  have "quiet (is_db s) (snd (login_route w body (is_db s)))" using keeps_login by (simp add: keeps_def)
  then show ?thesis by (simp add: IdLogin in_db_snd accounted_quiet)
next
  case (IdOidc body)
  then show ?thesis using calm_run [OF calm_oidc] by (simp add: accounted_quiet)
next
  case (IdCreateKey body)
  then show ?thesis by (auto intro!: caller_run transaction_accounted create_key_ok)
next
  case (IdRevokeKey kid)
  then show ?thesis using assms by (auto simp: bind_act_Inr intro!: caller_run transaction_accounted revoke_key_ok)
next
  case IdWhoami
  then show ?thesis by (simp add: caller_run transaction_def accounted_quiet quiet_refl)
qed


text \<open>The claims a user's next token carries.\<close>

definition next_claims :: "identity_world \<Rightarrow> db \<Rightarrow> user \<Rightarrow> dict" where
  "next_claims w d u = token_claims (us_org_id u) (us_id u) (us_role u) (dt_us (db_clock d (db_reads d)) div 1000000)
     (access_token_ttl_minutes (iw_settings w)) (iw_jti w)"

lemma only_row: "distinct (map key rows) \<Longrightarrow> r \<in> set rows \<Longrightarrow> Q r \<Longrightarrow> filter (\<lambda>x. key x = key r \<and> Q x) rows = [r]"
  by (induction rows) (auto simp: filter_empty_conv image_iff)

text \<open>
  C37: a token that login hands out authenticates the user who logged in. If login answers, the slug named the user's
  organisation, the address is the user's, the user is active and the password fits the stored hash; and presenting
  the token, as long as the library decodes what it encoded, makes the caller that user, in that organisation, with the
  role of the user's row.
\<close>

theorem issued_token_authenticates:
  assumes "login_route w body d = (Inr answer, d')"
    and "\<And>u. u \<in> set (db_users d) \<Longrightarrow> ae_decode (iw_auth w) (iw_encode w (next_claims w d u)) = Inr (next_claims w d u)"
    and "\<And>u. iw_encode w (next_claims w d u) \<noteq> [] \<and> str_strip (iw_encode w (next_claims w d u)) = iw_encode w (next_claims w d u)"
    and "distinct (map us_id (db_users d))" "\<And>u. u \<in> set (db_users d) \<Longrightarrow> us_id u \<noteq> [] \<and> us_org_id u \<noteq> []"
  shows "\<exists>u \<in> set (db_users d). \<exists>org \<in> set (db_orgs d). org_slug org = lr_org_slug body \<and> us_org_id u = org_id org \<and>
    us_email u = str_lower (lr_email body) \<and> us_is_active u \<and> ae_verify (iw_auth w) (lr_password body) (us_password_hash u) \<and>
    get_principal (iw_auth w) (Some (''Bearer '' @ jstr (jget answer ''access_token''))) None d' =
      Inr \<lparr>pr_org_id = us_org_id u, pr_user_id = us_id u, pr_role = role_or_viewer (JStr (us_role u)), pr_auth_method = ''jwt''\<rparr>"
proof -
  from assms(1) obtain org u where org: "one_or_none (filter (\<lambda>r. org_slug r = lr_org_slug body) (db_orgs d)) = Inr (Some org)"
    and u: "one_or_none (filter (\<lambda>u. us_org_id u = org_id org \<and> us_email u = str_lower (lr_email body)) (db_users d)) = Inr (Some u)"
    and ok: "us_is_active u" "ae_verify (iw_auth w) (lr_password body) (us_password_hash u)"
    and d': "d' = d\<lparr>db_reads := Suc (db_reads d)\<rparr>"
    and token: "jstr (jget answer ''access_token'') = iw_encode w (next_claims w d u)"
    by (auto simp: login_route_def sign_in_def create_access_token_def clock_def need_def bind_act_Inr token_result_def jget_def
        next_claims_def split: option.split_asm if_split_asm)
  from one_or_none_mem [OF u] have u_in: "u \<in> set (db_users d)" "us_org_id u = org_id org" "us_email u = str_lower (lr_email body)"
    by auto
  have "filter (\<lambda>x. us_id x = us_id u \<and> us_org_id x = us_org_id u) (db_users d) = [u]"
    by (rule only_row [OF assms(4) u_in(1)]) simp
  moreover have "jget (next_claims w d u) ''org'' = JStr (us_org_id u)" "jget (next_claims w d u) ''sub'' = JStr (us_id u)"
    "jget_or (next_claims w d u) ''role'' (JStr ''viewer'') = JStr (us_role u)"
    by (simp_all add: next_claims_def token_claims_def jget_def jget_or_def)
  ultimately have "principal_from_jwt (iw_auth w) (iw_encode w (next_claims w d u)) d' =
      Inr \<lparr>pr_org_id = us_org_id u, pr_user_id = us_id u, pr_role = role_or_viewer (JStr (us_role u)), pr_auth_method = ''jwt''\<rparr>"
    using assms(5) [OF u_in(1)] ok
    by (simp add: principal_from_jwt_def decode_access_token_def assms(2) [OF u_in(1)] one_or_none_def d')
  moreover have scheme: "str_lower ''Bearer'' = ''bearer''" by code_simp
  ultimately have "get_principal (iw_auth w) (Some (''Bearer '' @ iw_encode w (next_claims w d u))) None d' =
      Inr \<lparr>pr_org_id = us_org_id u, pr_user_id = us_id u, pr_role = role_or_viewer (JStr (us_role u)), pr_auth_method = ''jwt''\<rparr>"
    using assms(3) [of u] scheme by (simp add: get_principal_def)
  with one_or_none_mem [OF org] u_in ok show ?thesis unfolding token by blast
qed

section \<open>Examples\<close>

definition demo_identity :: identity_world where
  "demo_identity = \<lparr>iw_settings = default_settings\<lparr>oidc_enabled := True, oidc_issuer := ''https://idp.test'', oidc_audience := ''sentrik''\<rparr>,
     iw_auth = demo_auth\<lparr>ae_verify := (\<lambda>s h. h = ''h''),
       ae_decode := (\<lambda>t. Inr (token_claims ''id-0'' ''id-1'' ''owner'' 0 720 ''j''))\<rparr>,
     iw_encode = (\<lambda>_. ''t''), iw_jti = ''j'', iw_prefix = ''ab12'', iw_secret = ''s_1'',
     iw_oidc = \<lparr>ow_get = (\<lambda>url. Inr (JDict [(''jwks_uri'', JStr ''https://idp.test/keys''), (''keys'', JList [JDict []])])),
       ow_monotonic = 0, ow_stored = 0, ow_header = (\<lambda>t. Inr [(''alg'', JStr ''RS256'')]),
       ow_decode = (\<lambda>t key aud iss. Inr [(''email'', JStr ''Ann@corp.test'')])\<rparr>\<rparr>"

definition onboard :: "string \<Rightarrow> string \<Rightarrow> org_signup" where
  "onboard slug email = \<lparr>sg_org_name = slug, sg_org_slug = slug, sg_admin_email = email, sg_admin_password = ''password''\<rparr>"

definition blank_state :: identity_state where
  "blank_state = \<lparr>is_db = empty_db, is_cache = []\<rparr>"

fun serve_identity :: "identity_request list \<Rightarrow> identity_state \<Rightarrow> (exn + dict) \<times> identity_state" where
  "serve_identity [] s = (Inr [], s)"
| "serve_identity (req # reqs) s =
     (case handle_identity demo_identity None None req s of (r, s') \<Rightarrow> if reqs = [] then (r, s') else serve_identity reqs s')"

theorem identity_changes_authorized_witness:
  "map org_slug (db_orgs (is_db (snd (handle_identity demo_identity None None (IdSignup (onboard ''corp'' ''a@b.test'')) blank_state)))) = [''corp''] \<and>
   accounted demo_identity None None empty_db
     (is_db (snd (handle_identity demo_identity None None (IdSignup (onboard ''corp'' ''a@b.test'')) blank_state)))"
proof -
  have "map org_slug (db_orgs (is_db (snd (handle_identity demo_identity None None (IdSignup (onboard ''corp'' ''a@b.test'')) blank_state)))) = [''corp'']"
    by code_simp
  moreover have "distinct (map key_id (db_keys (is_db blank_state)))" by (simp add: blank_state_def empty_db_def)
  from identity_changes_authorized [OF this, of demo_identity None None "IdSignup (onboard ''corp'' ''a@b.test'')"]
  have "accounted demo_identity None None empty_db
     (is_db (snd (handle_identity demo_identity None None (IdSignup (onboard ''corp'' ''a@b.test'')) blank_state)))"
    by (simp add: blank_state_def)
  ultimately show ?thesis by blast
qed

definition corp_db :: db where
  "corp_db = is_db (snd (handle_identity demo_identity None None (IdSignup (onboard ''corp'' ''a@b.test'')) blank_state))"

definition corp_owner :: user where
  "corp_owner = \<lparr>us_id = ''id-1'', us_org_id = ''id-0'', us_email = ''a@b.test'', us_password_hash = ''h'', us_role = ''owner'',
     us_is_active = True\<rparr>"

definition corp_login :: login_request where
  "corp_login = \<lparr>lr_org_slug = ''corp'', lr_email = ''A@b.test'', lr_password = ''password''\<rparr>"

theorem issued_token_authenticates_witness:
  "case login_route demo_identity corp_login corp_db of
     (Inr answer, d) \<Rightarrow> get_principal (iw_auth demo_identity) (Some (''Bearer '' @ jstr (jget answer ''access_token''))) None d =
        Inr \<lparr>pr_org_id = ''id-0'', pr_user_id = ''id-1'', pr_role = OWNER, pr_auth_method = ''jwt''\<rparr>
   | (Inl e, d) \<Rightarrow> False"
proof -
  have users: "db_users corp_db = [corp_owner]" by code_simp
  have claims: "next_claims demo_identity corp_db corp_owner = token_claims ''id-0'' ''id-1'' ''owner'' 0 720 ''j''" by code_simp
  have "\<not> isl (fst (login_route demo_identity corp_login corp_db))" by code_simp
  then obtain answer d where run: "login_route demo_identity corp_login corp_db = (Inr answer, d)"
    by (cases "login_route demo_identity corp_login corp_db"; cases "fst (login_route demo_identity corp_login corp_db)") auto
  have strip: "str_strip ''t'' = ''t''" and role: "role_or_viewer (JStr ''owner'') = OWNER" by code_simp+
  have ids: "us_id corp_owner = ''id-1''" "us_org_id corp_owner = ''id-0''" "us_role corp_owner = ''owner''"
    by (simp_all add: corp_owner_def)
  have "\<exists>u \<in> set (db_users corp_db). \<exists>org \<in> set (db_orgs corp_db). org_slug org = lr_org_slug corp_login \<and> us_org_id u = org_id org \<and>
    us_email u = str_lower (lr_email corp_login) \<and> us_is_active u \<and>
    ae_verify (iw_auth demo_identity) (lr_password corp_login) (us_password_hash u) \<and>
    get_principal (iw_auth demo_identity) (Some (''Bearer '' @ jstr (jget answer ''access_token''))) None d =
      Inr \<lparr>pr_org_id = us_org_id u, pr_user_id = us_id u, pr_role = role_or_viewer (JStr (us_role u)), pr_auth_method = ''jwt''\<rparr>"
    by (rule issued_token_authenticates [OF run]) (auto simp: users claims ids strip, simp_all add: demo_identity_def strip)
  then show ?thesis by (auto simp: run users ids role)
qed

text \<open>
  Single sign-on can end in a stranger's organisation. Anyone may sign up an organisation with any address, the
  address is not verified, and single sign-on takes the first active user with the address in whatever organisation. If a
  stranger registered the address of Ann before her own organisation did, Ann's login is answered with a token of the
  stranger's organisation.
\<close>

theorem sso_login_captured:
  "case serve_identity [IdSignup (onboard ''stranger'' ''ann@corp.test''), IdSignup (onboard ''corp'' ''ann@corp.test''),
     IdOidc [(''id_token'', JStr ''x'')]] blank_state of
     (Inr answer, s) \<Rightarrow> map (\<lambda>r. (org_slug r, org_id r)) (db_orgs (is_db s)) = [(''stranger'', ''id-0''), (''corp'', ''id-3'')] \<and>
        jget answer ''org_id'' = JStr ''id-0''
   | (Inl e, s) \<Rightarrow> False"
  by code_simp

text \<open>An administrator makes a key of a higher role than his own.\<close>

theorem admin_mints_owner_key:
  "case create_api_key demo_identity \<lparr>pr_org_id = ''o1'', pr_user_id = ''u1'', pr_role = ADMIN, pr_auth_method = ''jwt''\<rparr>
      \<lparr>kc_name = ''k'', kc_role = ''owner''\<rparr> empty_db of
     (Inr answer, d) \<Rightarrow> map (\<lambda>k. (key_org_id k, key_role k)) (db_keys d) = [(''o1'', ''owner'')]
   | (Inl e, d) \<Rightarrow> False"
  by code_simp

end
