(* ===== verification/Chat.thy ===== *)
theory Chat
  imports Registry Api
begin

text \<open>
  \<open>app/api/routers/chat.py\<close>: the conversational interface, which maps a message to an action by its words, and the
  routes of the skill registry. Risk scores are rationals, a risk grade is a text. The routes work on the state of
  \<open>Api\<close>; what the database has done is lost when a message ends with an exception, what was launched is not.
\<close>

section \<open>Intents\<close>

definition ID_PATTERN :: rx where
  "ID_PATTERN = Cat Wordb (Cat (Grp 1 (Rep 32 (Some 32) True (Cls (\<lambda>c. is_digit c \<or> c \<in> set ''abcdef'')))) Wordb)"

definition extract_id :: "string \<Rightarrow> string option" where
  "extract_id message = (case rx_search ID_PATTERN message of None \<Rightarrow> None | Some m \<Rightarrow> rx_group m 1)"

definition meant_id :: "string \<Rightarrow> string option \<Rightarrow> string" where
  "meant_id message assessment_id = (case extract_id message of Some i \<Rightarrow> i
     | None \<Rightarrow> (case assessment_id of Some i \<Rightarrow> i | None \<Rightarrow> []))"

definition mentions :: "string \<Rightarrow> string list \<Rightarrow> bool" where
  "mentions text ws \<longleftrightarrow> list_ex (contains_str text) ws"

definition action :: "string \<Rightarrow> (string \<times> jv) list \<Rightarrow> dict" where
  "action kind args = (''type'', JStr kind) # args"

definition risk_grade :: "assessment \<Rightarrow> exn + string" where
  "risk_grade a = (case jget_or (a_summary a) ''risk'' (JDict []) of
     JDict r \<Rightarrow> Inr (str_jv (jget_or r ''grade'' (JStr ''n/a''))) | _ \<Rightarrow> Inl (OtherError ''AttributeError: get''))"

definition say_status :: "principal \<Rightarrow> string \<Rightarrow> (db, string \<times> dict list) act" where
  "say_status p aid =
     (let unknown = (''Tell me which assessment (id) you'' @ [chr 39] @ ''d like the status of.'', []) in
      if aid = [] then ret unknown
      else bind_act (gets (\<lambda>d. find_row a_id aid (db_assessments d))) (\<lambda>row. case row of
        None \<Rightarrow> ret unknown
      | Some a \<Rightarrow>
        if a_org_id a \<noteq> pr_org_id p then ret unknown
        else
          bind_act (gets (\<lambda>d. length (findings_of aid d))) (\<lambda>n.
          bind_act (lift_sum (risk_grade a)) (\<lambda>grade.
          ret (''Assessment '' @ aid @ '' is in state '' @ squoted (a_state a) @ '' with '' @ int_str (a_requests_made a) @
            '' requests made and '' @ nat_str n @ '' findings so far. Risk grade: '' @ grade @ ''.'',
            [action ''get_status'' [(''assessment_id'', JStr aid)]])))))"

definition chat_start :: "principal \<Rightarrow> string \<Rightarrow> (api, string \<times> dict list) act" where
  "chat_start p aid =
     (if aid = [] then ret (''Which assessment id should I start?'', [])
      else bind_act (gets (\<lambda>s. find_row a_id aid (db_assessments (ap_db s)))) (\<lambda>row. case row of
        None \<Rightarrow> ret (''I couldn'' @ [chr 39] @ ''t find assessment '' @ aid @ ''.'', [])
      | Some a \<Rightarrow>
        if a_org_id a \<noteq> pr_org_id p then ret (''I couldn'' @ [chr 39] @ ''t find assessment '' @ aid @ ''.'', [])
        else if a_state a \<notin> {assessment_state_value CREATED, assessment_state_value FAILED}
        then ret (''Assessment '' @ aid @ '' is already '' @ a_state a @ ''; cannot start.'', [])
        else if pr_role p = VIEWER then ret (''You need at least the operator role to start an assessment.'', [])
        else bind_act (start_assessment aid) (\<lambda>_.
          ret (''Started assessment '' @ aid @ ''. Ask me for its status any time.'',
            [action ''start_assessment'' [(''assessment_id'', JStr aid)]]))))"

definition say_targets :: "principal \<Rightarrow> (db, string \<times> dict list) act" where
  "say_targets p =
     bind_act (gets (\<lambda>d. filter (\<lambda>t. tg_org_id t = pr_org_id p) (db_targets d))) (\<lambda>rows.
     ret (if rows = [] then ''You have no targets yet. Create one via POST /v1/targets.''
       else ''You have '' @ nat_str (length rows) @ '' target(s): '' @
         join_with '', '' (map (\<lambda>t. tg_name t @ '' ('' @ tg_id t @ '')'') (take 10 rows)) @ ''.'',
       [action ''list_targets'' [(''count'', JInt (int (length rows)))]]))"

definition by_severity :: "finding list \<Rightarrow> dict" where
  "by_severity fs = foldl (\<lambda>d f. dset d (fd_severity f)
     (case jget_or d (fd_severity f) (JInt 0) of JInt n \<Rightarrow> JInt (n + 1) | v \<Rightarrow> v)) [] fs"

definition say_findings :: "string \<Rightarrow> (db, string \<times> dict list) act" where
  "say_findings aid =
     (if aid = [] then ret (''Which assessment'' @ [chr 39] @ ''s findings should I summarize?'', [])
      else bind_act (gets (findings_of aid)) (\<lambda>fs.
        ret (if fs = [] then ''No findings recorded for '' @ aid @ '' yet.''
          else nat_str (length fs) @ '' findings by severity '' @ repr_jv (JDict (by_severity fs)) @ ''. Top: '' @
            join_with ''; '' (map (\<lambda>t. fd_title t @ '' ('' @ fd_severity t @ '', '' @ fd_status t @ '')'')
              (take 3 (sort_key (\<lambda>f. - fd_risk_score f) fs))) @ ''.'',
          [action ''summarize_findings'' [(''assessment_id'', JStr aid)]])))"

definition HELP :: string where
  "HELP = ''I can: list targets, start an assessment, report assessment status, and summarize findings. Try '' @
     squoted ''start assessment <id>'' @ '' or '' @ squoted ''status of <id>'' @
     ''. For onboarding, authorization, and discovery use the documented /v1 APIs.''"

definition handle_intent :: "principal \<Rightarrow> string \<Rightarrow> string option \<Rightarrow> (api, string \<times> dict list) act" where
  "handle_intent p message assessment_id =
     (let text = str_strip (str_lower message); aid = meant_id message assessment_id in
      if mentions text [''status'', ''progress'', ''how is'', ''where is''] then on_db (say_status p aid)
      else if starts_with text ''start'' \<or> mentions text [''run assessment'', ''begin assessment''] then chat_start p aid
      else if mentions text [''target''] \<and> mentions text [''list'', ''show'', ''what''] then on_db (say_targets p)
      else if mentions text [''finding'', ''vulnerab'', ''summar''] then on_db (say_findings aid)
      else ret (HELP, []))"

section \<open>The conversation\<close>

record chat_request =
  cq_message :: string
  cq_session_id :: "string option"
  cq_assessment_id :: "string option"

definition chat_session_of :: "principal \<Rightarrow> chat_request \<Rightarrow> (db, string) act" where
  "chat_session_of p body =
     bind_act (gets (\<lambda>d. case cq_session_id body of
        Some (c # cs) \<Rightarrow> find_row ch_id (c # cs) (db_chats d) | _ \<Rightarrow> None)) (\<lambda>row. case row of
       Some s \<Rightarrow> bind_act (need (ch_org_id s = pr_org_id p) 404 ''chat session not found'') (\<lambda>_. ret (ch_id s))
     | None \<Rightarrow>
       bind_act new_id (\<lambda>i.
       bind_act (modify (\<lambda>d. d\<lparr>db_chats := db_chats d @
         [\<lparr>ch_id = i, ch_org_id = pr_org_id p, ch_assessment_id = cq_assessment_id body, ch_title = take 60 (cq_message body)\<rparr>]\<rparr>)) (\<lambda>_.
       ret i)))"

definition add_message :: "string \<Rightarrow> string \<Rightarrow> string \<Rightarrow> dict list \<Rightarrow> (db, unit) act" where
  "add_message sid role content actions =
     bind_act new_id (\<lambda>i. modify (\<lambda>d. d\<lparr>db_messages := db_messages d @
       [\<lparr>cmsg_id = i, cmsg_session_id = sid, cmsg_role = role, cmsg_content = content, cmsg_actions = actions\<rparr>]\<rparr>))"

definition api_transaction :: "(api, 'a) act \<Rightarrow> (api, 'a) act" where
  "api_transaction m s = (case m s of
     (Inl e, s') \<Rightarrow> (Inl e, s'\<lparr>ap_db := (ap_db s)\<lparr>db_drawn := db_drawn (ap_db s'), db_reads := db_reads (ap_db s')\<rparr>\<rparr>)
   | (Inr x, s') \<Rightarrow> (Inr x, s'))"

definition chat :: "principal \<Rightarrow> chat_request \<Rightarrow> (api, dict) act" where
  "chat p body = api_transaction
     (bind_act (on_db (chat_session_of p body)) (\<lambda>sid.
      bind_act (on_db (add_message sid ''user'' (cq_message body) [])) (\<lambda>_.
      bind_act (handle_intent p (cq_message body) (cq_assessment_id body)) (\<lambda>(reply, actions).
      bind_act (on_db (add_message sid ''assistant'' reply actions)) (\<lambda>_.
      ret [(''session_id'', JStr sid), (''reply'', JStr reply), (''actions'', JList (map JDict actions))])))))"

section \<open>Skills\<close>

definition skill_out :: "agent_skill \<Rightarrow> dict" where
  "skill_out r = [(''id'', JStr (sk_id r)), (''name'', JStr (sk_name r)), (''version'', JStr (sk_version r)),
     (''check_class'', JStr (sk_check_class r)), (''enabled'', JBool (sk_enabled r)), (''provenance'', JStr (sk_provenance r)),
     (''manifest'', JDict (sk_manifest r))]"

definition list_skills :: "'c check_registry \<Rightarrow> principal \<Rightarrow> (db, dict list) act" where
  "list_skills reg p =
     bind_act (transaction (seed_builtin_skills reg)) (\<lambda>_.
     gets (\<lambda>d. map skill_out (filter (\<lambda>r. sk_org_id r = None \<or> sk_org_id r = Some (pr_org_id p)) (db_skills d))))"

definition register_skill ::
  "(string \<Rightarrow> jv option) \<Rightarrow> (string \<Rightarrow> string option) \<Rightarrow> (string \<Rightarrow> string) \<Rightarrow> 'c check_registry \<Rightarrow> principal \<Rightarrow> string \<Rightarrow> (db, dict) act" where
  "register_skill yaml rx_error sha256 reg p skill_md =
     bind_act (lift_sum (require_role ADMIN p)) (\<lambda>_. transaction
     (bind_act (seed_builtin_skills reg) (\<lambda>_.
      bind_act (lift_sum (parse_skill_md yaml rx_error reg skill_md)) (\<lambda>m.
      bind_act (catch_act (register_manifest sha256 m ''skill_md'' (Some (pr_org_id p)))
        (\<lambda>e. raise_exn (case e of ValueError msg \<Rightarrow> HTTPException 409 msg | _ \<Rightarrow> e))) (\<lambda>i.
      bind_act (fetch db_skills sk_id i ''skill'') (\<lambda>r. ret (skill_out r)))))))"


section \<open>What a message may do\<close>

definition own_chat :: "principal \<Rightarrow> db \<Rightarrow> string \<Rightarrow> bool" where
  "own_chat p d sid \<longleftrightarrow> (\<exists>c \<in> set (db_chats d). ch_id c = sid \<and> ch_org_id c = pr_org_id p)"

text \<open>Only conversations of the caller's organisation grow.\<close>

definition talk :: "principal \<Rightarrow> db \<Rightarrow> db \<Rightarrow> bool" where
  "talk p d d' \<longleftrightarrow> (\<exists>cs ms n m. d' = d\<lparr>db_chats := db_chats d @ cs, db_messages := db_messages d @ ms, db_drawn := n, db_reads := m\<rparr> \<and>
     (\<forall>c \<in> set cs. ch_org_id c = pr_org_id p) \<and> (\<forall>x \<in> set ms. own_chat p d' (cmsg_session_id x)))"

lemma talkI:
  assumes "d' = d\<lparr>db_chats := db_chats d @ cs, db_messages := db_messages d @ ms, db_drawn := db_drawn d', db_reads := db_reads d'\<rparr>"
    and "\<forall>c \<in> set cs. ch_org_id c = pr_org_id p" "\<forall>x \<in> set ms. own_chat p d' (cmsg_session_id x)"
  shows "talk p d d'"
  unfolding talk_def using assms by blast

lemma talk_trans:
  assumes "talk p a b" "talk p b c"
  shows "talk p a c"
proof -
  from assms(1) obtain cs ms n m where b: "b = a\<lparr>db_chats := db_chats a @ cs, db_messages := db_messages a @ ms, db_drawn := n, db_reads := m\<rparr>"
    and ab: "\<forall>x \<in> set cs. ch_org_id x = pr_org_id p" "\<forall>x \<in> set ms. own_chat p b (cmsg_session_id x)"
    unfolding talk_def by blast
  from assms(2) obtain cs' ms' n' m' where c: "c = b\<lparr>db_chats := db_chats b @ cs', db_messages := db_messages b @ ms', db_drawn := n', db_reads := m'\<rparr>"
    and bc: "\<forall>x \<in> set cs'. ch_org_id x = pr_org_id p" "\<forall>x \<in> set ms'. own_chat p c (cmsg_session_id x)"
    unfolding talk_def by blast
  have "c = a\<lparr>db_chats := db_chats a @ (cs @ cs'), db_messages := db_messages a @ (ms @ ms'), db_drawn := n', db_reads := m'\<rparr>"
    by (simp add: c b)
  moreover have "db_chats c = db_chats b @ cs'" by (simp add: c)
  then have "\<forall>x \<in> set (ms @ ms'). own_chat p c (cmsg_session_id x)" using ab(2) bc(2) by (auto simp: own_chat_def)
  moreover have "\<forall>x \<in> set (cs @ cs'). ch_org_id x = pr_org_id p" using ab(1) bc(1) by auto
  ultimately show ?thesis unfolding talk_def by blast
qed

lemma talk_draws: "talk p d (d\<lparr>db_drawn := n, db_reads := m\<rparr>)"
  by (rule talkI [where cs = "[]" and ms = "[]"]) simp_all

lemma talk_refl: "talk p d d"
  using talk_draws [where d = d and n = "db_drawn d" and m = "db_reads d"] by simp

lemma session_ok:
  assumes "chat_session_of p body d = (Inr sid, d')"
  shows "talk p d d' \<and> own_chat p d' sid"
proof (cases "case cq_session_id body of Some (c # cs) \<Rightarrow> find_row ch_id (c # cs) (db_chats d) | _ \<Rightarrow> None")
  case None
  then have "d' = d\<lparr>db_drawn := Suc (db_drawn d), db_chats := db_chats d @
      [\<lparr>ch_id = sid, ch_org_id = pr_org_id p, ch_assessment_id = cq_assessment_id body, ch_title = take 60 (cq_message body)\<rparr>]\<rparr>"
    using assms by (auto simp: chat_session_of_def bind_act_Inr new_id_def)
  then show ?thesis
    by (auto simp: own_chat_def intro!: talkI [where cs = "[\<lparr>ch_id = sid, ch_org_id = pr_org_id p,
        ch_assessment_id = cq_assessment_id body, ch_title = take 60 (cq_message body)\<rparr>]" and ms = "[]"] db.equality)
next
  case (Some c)
  then have "c \<in> set (db_chats d)"
    by (auto simp: find_row_def dest: find_SomeD split: option.split_asm list.split_asm)
  with Some assms show ?thesis
    by (auto simp: chat_session_of_def bind_act_Inr need_def own_chat_def talk_refl split: if_split_asm)
qed

lemma session_fails: "chat_session_of p body d = (Inl e, d') \<Longrightarrow> d' = d"
  by (auto simp: chat_session_of_def bind_act_Inl need_def new_id_def split: option.split_asm if_split_asm list.split_asm)

lemma message_ok:
  assumes "own_chat p d sid"
  shows "\<exists>d'. add_message sid role content actions d = (Inr (), d') \<and> talk p d d' \<and> own_chat p d' sid"
proof -
  let ?m = "\<lparr>cmsg_id = db_uuid d (db_drawn d), cmsg_session_id = sid, cmsg_role = role, cmsg_content = content, cmsg_actions = actions\<rparr>"
  let ?d = "d\<lparr>db_drawn := Suc (db_drawn d), db_messages := db_messages d @ [?m]\<rparr>"
  have "add_message sid role content actions d = (Inr (), ?d)"
    by (simp add: add_message_def bind_act_def new_id_def)
  moreover have "talk p d ?d"
    by (rule talkI [where cs = "[]" and ms = "[?m]"]) (use assms in \<open>auto simp: own_chat_def intro: db.equality\<close>)
  ultimately show ?thesis using assms by (auto simp: own_chat_def)
qed


section \<open>What a message may start\<close>

definition may_start :: "principal \<Rightarrow> string \<Rightarrow> db \<Rightarrow> bool" where
  "may_start p aid d \<longleftrightarrow> ROLE_RANK OPERATOR \<le> ROLE_RANK (pr_role p) \<and>
     (case find_row a_id aid (db_assessments d) of None \<Rightarrow> False
      | Some a \<Rightarrow> a_org_id a = pr_org_id p \<and> a_state a \<in> {assessment_state_value CREATED, assessment_state_value FAILED})"

text \<open>The typed route answers exactly then.\<close>

lemma route_start_iff: "fst (route_start p aid s) = Inr [(''id'', JStr aid)] \<longleftrightarrow> may_start p aid (ap_db s)"
  by (auto simp: route_start_def bind_act_def require_role_def on_db_def transaction_def own_assessment_def need_def
      set_assessment_def start_assessment_def may_start_def not_less split: option.split)

definition started :: "principal \<Rightarrow> db \<Rightarrow> launch list \<Rightarrow> launch list \<Rightarrow> bool" where
  "started p d ls ls' \<longleftrightarrow> ls' = ls \<or> (\<exists>aid. ls' = ls @ [LaunchRun aid] \<and> may_start p aid d)"

lemma viewer_rank: "pr_role p \<noteq> VIEWER \<Longrightarrow> Suc 0 \<le> ROLE_RANK (pr_role p)"
  by (cases "pr_role p") simp_all

lemma start_effect:
  "chat_start p aid s = (r, s') \<Longrightarrow> ap_db s' = ap_db s \<and> started p (ap_db s) (ap_launched s) (ap_launched s')"
  by (auto simp: chat_start_def bind_act_def start_assessment_def started_def may_start_def viewer_rank
      split: option.split_asm if_split_asm)

lemma reads_only:
  "snd (say_status p aid d) = d" "snd (say_targets p d) = d" "snd (say_findings aid d) = d"
  by (auto simp: say_status_def say_targets_def say_findings_def bind_act_def Let_def split: option.split sum.split prod.split)

lemma on_db_reads: "snd (m (ap_db s)) = ap_db s \<Longrightarrow> on_db m s = (r, s') \<Longrightarrow> s' = s"
  by (auto simp: on_db_def split: prod.split_asm)

lemma intent_effect:
  assumes "handle_intent p message aid s = (r, s')"
  shows "ap_db s' = ap_db s \<and> started p (ap_db s) (ap_launched s) (ap_launched s')"
proof -
  have "started p (ap_db s) (ap_launched s) (ap_launched s)" by (simp add: started_def)
  then show ?thesis
    using assms start_effect [of p "meant_id message aid" s r s']
    by (auto simp: handle_intent_def Let_def split: if_split_asm
        dest!: on_db_reads [where m = "say_status _ _", OF reads_only(1)] on_db_reads [where m = "say_targets _", OF reads_only(2)]
          on_db_reads [where m = "say_findings _", OF reads_only(3)])
qed


section \<open>Where the two differ\<close>

definition stray_id :: string where
  "stray_id = concat (replicate 8 ''ab12'')"

definition two_orgs :: api where
  "two_orgs = \<lparr>ap_db = empty_db\<lparr>db_assessments := [(new_assessment stray_id ''o2'' ''t2'' ''z2'' [])
     \<lparr>a_state := ''failed'', a_cancel_requested := True, a_error := ''lost''\<rparr>]\<rparr>, ap_running = [], ap_launched = []\<rparr>"

definition talker :: "string \<Rightarrow> role \<Rightarrow> principal" where
  "talker org role = \<lparr>pr_org_id = org, pr_user_id = ''u1'', pr_role = role, pr_auth_method = ''jwt''\<rparr>"

definition say :: "string \<Rightarrow> chat_request" where
  "say text = \<lparr>cq_message = text, cq_session_id = None, cq_assessment_id = None\<rparr>"

definition secret_finding :: finding where
  "secret_finding = \<lparr>fd_id = ''f1'', fd_org_id = ''o2'', fd_assessment_id = stray_id, fd_endpoint_id = None, fd_check_class = ''sqli'',
     fd_title = ''secret hole'', fd_severity = ''high'', fd_confidence = ''high'', fd_status = ''confirmed'', fd_cwe = [], fd_description = [],
     fd_remediation = [], fd_dedup_key = ''k'', fd_risk_score = 9, fd_risk_breakdown = [], fd_reproduction = [], fd_skill_ref = []\<rparr>"

text \<open>
  A summary is given to strangers. The typed routes and the status intent look for the organisation of an
  assessment, the summary does not: a viewer of one organisation who knows the identifier of another's assessment is told
  the titles of its findings.
\<close>

theorem chat_tells_strangers:
  "let s = two_orgs\<lparr>ap_db := (ap_db two_orgs)\<lparr>db_findings := [secret_finding]\<rparr>\<rparr>
   in case fst (chat (talker ''o1'' VIEWER) (say (''summarize '' @ stray_id)) s) of
        Inr answer \<Rightarrow> contains_str (jstr (jget answer ''reply'')) ''secret hole (high, confirmed)''
      | Inl e \<Rightarrow> False"
  by code_simp

text \<open>
  A start by message is not the start of the typed route: that one clears a request to cancel and the last error, the
  message leaves both, so a run that was cancelled and is started again by a message cancels itself.
\<close>

theorem chat_start_keeps_cancellation:
  "let s = snd (chat (talker ''o2'' OPERATOR) (say (''start '' @ stray_id)) two_orgs)
   in ap_launched s = [LaunchRun stray_id] \<and> map a_cancel_requested (db_assessments (ap_db s)) = [True]"
  "let s = snd (route_start (talker ''o2'' OPERATOR) stray_id two_orgs)
   in ap_launched s = [LaunchRun stray_id] \<and> map a_cancel_requested (db_assessments (ap_db s)) = [False]"
  by code_simp+

end
