(* ===== verification/Memory.thy ===== *)
theory Memory
  imports Api
begin

text \<open>
  \<open>app/api/routers/memory.py\<close>: the facts an organisation keeps for its next assessments. The database lists the rows a
  query selects by their time of change, which the rows do not hold: that order is the caller's. A limit below zero is
  no limit, as in SQLite. A key, target or kind that is no string is refused by the database.
\<close>

section \<open>Routes\<close>

definition list_memory ::
  "(project_memory list \<Rightarrow> project_memory list) \<Rightarrow> principal \<Rightarrow> string option \<Rightarrow> string option \<Rightarrow> int \<Rightarrow> int \<Rightarrow>
   (db, project_memory list) act" where
  "list_memory recent p target_id key limit offset =
     bind_act (need (limit \<le> 500 \<and> offset \<ge> 0) 422 ''request validation failed'') (\<lambda>_.
     gets (\<lambda>d.
       let rows = recent (filter (\<lambda>r. pm_org_id r = pr_org_id p \<and>
             (target_id = None \<or> target_id = Some [] \<or> pm_target_id r = target_id) \<and>
             (key = None \<or> key = Some [] \<or> Some (pm_key r) = key)) (db_memory d));
           page = drop (nat offset) rows
       in if limit < 0 then page else take (nat limit) page))"

definition text_column :: "jv \<Rightarrow> exn + string" where
  "text_column v = (case v of JStr s \<Rightarrow> Inr s | _ \<Rightarrow> Inl (OtherError ''the column is a text''))"

definition optional_text :: "jv \<Rightarrow> exn + string option" where
  "optional_text v = (case v of JNull \<Rightarrow> Inr None | _ \<Rightarrow> sum_bind (text_column v) (\<lambda>s. Inr (Some s)))"

definition set_memory :: "string \<Rightarrow> (project_memory \<Rightarrow> project_memory) \<Rightarrow> (db, unit) act" where
  "set_memory i f = modify (\<lambda>d. d\<lparr>db_memory := change_row pm_id i f (db_memory d)\<rparr>)"

definition selects :: "principal \<Rightarrow> string option \<Rightarrow> string \<Rightarrow> project_memory \<Rightarrow> bool" where
  "selects p target_id key r \<longleftrightarrow> pm_org_id r = pr_org_id p \<and> pm_target_id r = target_id \<and> pm_key r = key"

definition store_memory ::
  "principal \<Rightarrow> string option \<Rightarrow> string \<Rightarrow> dict \<Rightarrow> project_memory option \<Rightarrow> (db, project_memory) act" where
  "store_memory p target_id key body existing = (case existing of
     Some r \<Rightarrow>
       bind_act (lift_sum (text_column (jget_or body ''kind'' (JStr (pm_kind r))))) (\<lambda>kind.
       let r' = r\<lparr>pm_value := jget_or body ''value'' (pm_value r), pm_kind := kind\<rparr> in
       bind_act (set_memory (pm_id r) (\<lambda>_. r')) (\<lambda>_. ret r'))
   | None \<Rightarrow>
       bind_act (lift_sum (text_column (jget_or body ''kind'' (JStr ''note'')))) (\<lambda>kind.
       bind_act new_id (\<lambda>i.
       let r' = \<lparr>pm_id = i, pm_org_id = pr_org_id p, pm_target_id = target_id, pm_key = key,
                 pm_value = jget_or body ''value'' (JDict []), pm_kind = kind\<rparr> in
       bind_act (modify (\<lambda>d. d\<lparr>db_memory := db_memory d @ [r']\<rparr>)) (\<lambda>_. ret r'))))"

definition upsert_memory :: "principal \<Rightarrow> dict \<Rightarrow> (db, dict) act" where
  "upsert_memory p body =
     bind_act (lift_sum (require_role OPERATOR p)) (\<lambda>_.
     bind_act (need (truthy (jget body ''key'')) 422 (squoted ''key'' @ '' is required'')) (\<lambda>_.
     bind_act (lift_sum (text_column (jget body ''key''))) (\<lambda>key.
     bind_act (lift_sum (optional_text (jget body ''target_id''))) (\<lambda>target_id.
     bind_act (gets (\<lambda>d. filter (selects p target_id key) (db_memory d))) (\<lambda>rows.
     bind_act (lift_sum (one_or_none rows)) (\<lambda>existing.
     bind_act (store_memory p target_id key body existing) (\<lambda>row.
     bind_act (write_audit (pr_org_id p) None ''system'' ''memory.upsert''
       [(''key'', JStr key), (''target_id'', jget body ''target_id'')]) (\<lambda>_.
     ret [(''id'', JStr (pm_id row)), (''key'', JStr (pm_key row)), (''target_id'', jget body ''target_id''),
          (''value'', pm_value row), (''kind'', JStr (pm_kind row))]))))))))"

definition delete_memory :: "principal \<Rightarrow> string \<Rightarrow> (db, unit) act" where
  "delete_memory p i =
     bind_act (lift_sum (require_role OPERATOR p)) (\<lambda>_.
     bind_act (gets (\<lambda>d. find_row pm_id i (db_memory d))) (\<lambda>row. case row of
       None \<Rightarrow> raise_exn (HTTPException 404 ''not found'')
     | Some r \<Rightarrow>
       bind_act (need (pm_org_id r = pr_org_id p) 404 ''not found'') (\<lambda>_.
       modify (\<lambda>d. d\<lparr>db_memory := filter (\<lambda>x. pm_id x \<noteq> i) (db_memory d)\<rparr>))))"

section \<open>What is kept\<close>

lemma change_row_absent: "(\<And>x. x \<in> set rows \<Longrightarrow> key x \<noteq> i) \<Longrightarrow> change_row key i f rows = rows"
  by (auto simp: change_row_def intro!: map_idI)

lemma replaced_row:
  assumes "distinct (map key rows)" "r \<in> set rows" "Q r'" "\<And>x. x \<in> set rows \<Longrightarrow> Q x \<Longrightarrow> x = r"
  shows "filter Q (change_row key (key r) (\<lambda>_. r') rows) = [r']"
  using assms
proof (induction rows)
  case (Cons x rows)
  show ?case
  proof (cases "x = r")
    case True
    with Cons.prems(1) have other: "\<And>y. y \<in> set rows \<Longrightarrow> key y \<noteq> key r" by (auto simp: image_iff)
    then have "filter Q rows = []"
      using Cons.prems(4) by (fastforce simp: filter_empty_conv)
    with change_row_absent [of rows key "key r", OF other] show ?thesis
      using Cons.prems(3) True by (simp add: change_row_def)
  next
    case False
    with Cons.prems(2) have r: "r \<in> set rows" by simp
    have "key x \<noteq> key r" using Cons.prems(1) r by (auto simp: image_iff)
    moreover have "\<not> Q x" using Cons.prems(4) [of x] False by auto
    ultimately show ?thesis using Cons.IH Cons.prems r by (simp add: change_row_def)
  qed
qed simp

lemma filter_replaced:
  "(\<And>x. x \<in> set rows \<Longrightarrow> key x = k \<Longrightarrow> \<not> Q x) \<Longrightarrow> \<not> Q r' \<Longrightarrow> filter Q (change_row key k (\<lambda>_. r') rows) = filter Q rows"
  by (induction rows) (simp_all add: change_row_def)

lemma replaced_other:
  assumes "distinct (map key rows)" "r \<in> set rows" "\<not> Q r" "\<not> Q r'"
  shows "filter Q (change_row key (key r) (\<lambda>_. r') rows) = filter Q rows"
  by (rule filter_replaced) (use assms in \<open>auto simp: distinct_map inj_on_def\<close>)

lemma store_ok:
  assumes "store_memory p target_id key body existing d = (Inr row, d')" "distinct (map pm_id (db_memory d))"
    and "one_or_none (filter (selects p target_id key) (db_memory d)) = Inr existing"
  shows "selects p target_id key row" "dget body ''value'' = Some v \<Longrightarrow> pm_value row = v"
    "filter (selects p target_id key) (db_memory d') = [row]"
    "o' \<noteq> pr_org_id p \<Longrightarrow> filter (\<lambda>r. pm_org_id r = o') (db_memory d') = filter (\<lambda>r. pm_org_id r = o') (db_memory d)"
proof -
  have "selects p target_id key row \<and> (dget body ''value'' = Some v \<longrightarrow> pm_value row = v) \<and>
    filter (selects p target_id key) (db_memory d') = [row] \<and>
    (o' \<noteq> pr_org_id p \<longrightarrow> filter (\<lambda>r. pm_org_id r = o') (db_memory d') = filter (\<lambda>r. pm_org_id r = o') (db_memory d))"
  proof (cases existing)
    case None
    with assms(3) have "filter (selects p target_id key) (db_memory d) = []" by (auto simp: one_or_none_def split: list.split_asm)
    with assms(1) show ?thesis
      by (auto simp: store_memory_def None bind_act_Inr new_id_def Let_def selects_def jget_or_def)
  next
    case (Some r)
    with assms(3) have only: "filter (selects p target_id key) (db_memory d) = [r]" by (auto simp: one_or_none_def split: list.split_asm)
    then have r: "r \<in> set (db_memory d)" "selects p target_id key r" by (auto simp: filter_eq_Cons_iff)
    have single: "x = r" if "x \<in> set (db_memory d)" "selects p target_id key x" for x
    proof -
      from that have "x \<in> set (filter (selects p target_id key) (db_memory d))" by simp
      then show ?thesis by (simp add: only)
    qed
    from assms(1) obtain kind where row: "row = r\<lparr>pm_value := jget_or body ''value'' (pm_value r), pm_kind := kind\<rparr>"
      and d': "d' = d\<lparr>db_memory := change_row pm_id (pm_id r) (\<lambda>_. row) (db_memory d)\<rparr>"
      by (auto simp: store_memory_def Some bind_act_Inr Let_def set_memory_def)
    have "selects p target_id key row" using r(2) by (simp add: row selects_def)
    moreover have "filter (selects p target_id key) (change_row pm_id (pm_id r) (\<lambda>_. row) (db_memory d)) = [row]"
      by (rule replaced_row [OF assms(2) r(1)]) (use \<open>selects p target_id key row\<close> single in auto)
    moreover have "filter (\<lambda>x. pm_org_id x = o') (change_row pm_id (pm_id r) (\<lambda>_. row) (db_memory d)) =
        filter (\<lambda>x. pm_org_id x = o') (db_memory d)" if "o' \<noteq> pr_org_id p"
      by (rule replaced_other [OF assms(2) r(1)]) (use that r(2) in \<open>auto simp: row selects_def\<close>)
    ultimately show ?thesis by (auto simp: d' row jget_or_def)
  qed
  then show "selects p target_id key row" "dget body ''value'' = Some v \<Longrightarrow> pm_value row = v"
    "filter (selects p target_id key) (db_memory d') = [row]"
    "o' \<noteq> pr_org_id p \<Longrightarrow> filter (\<lambda>r. pm_org_id r = o') (db_memory d') = filter (\<lambda>r. pm_org_id r = o') (db_memory d)"
    by blast+
qed


text \<open>
  C40: what an organisation remembers is what it stored last. If storing a fact is answered, exactly one row carries
  the key for the target in the caller's organisation, with the value that was given, and it is the row the answer
  names; a query for that target and key lists this row alone, whatever the order of rows; and the rows of every other
  organisation are the same as before.
\<close>

theorem memory_read_back:
  assumes "upsert_memory p body d = (Inr answer, d')" "distinct (map pm_id (db_memory d))"
    and "jget body ''key'' = JStr key" "jget body ''target_id'' = JStr target" "target \<noteq> []" "dget body ''value'' = Some v"
    and "\<And>rows. set (recent rows) = set rows \<and> length (recent rows) = length rows"
  shows "\<exists>row. filter (selects p (Some target) key) (db_memory d') = [row] \<and> pm_value row = v \<and>
     jget answer ''id'' = JStr (pm_id row) \<and>
     fst (list_memory recent p (Some target) (Some key) 100 0 d') = Inr [row] \<and>
     (\<forall>o'. o' \<noteq> pr_org_id p \<longrightarrow> filter (\<lambda>r. pm_org_id r = o') (db_memory d') = filter (\<lambda>r. pm_org_id r = o') (db_memory d))"
proof -
  from assms(1,3,4) obtain existing row d1 where key: "key \<noteq> []"
    and one: "one_or_none (filter (selects p (Some target) key) (db_memory d)) = Inr existing"
    and store: "store_memory p (Some target) key body existing d = (Inr row, d1)"
    and audit: "db_memory d' = db_memory d1" and answer: "jget answer ''id'' = JStr (pm_id row)"
    by (auto simp: upsert_memory_def bind_act_Inr text_column_def optional_text_def need_def write_audit_def new_id_def jget_def
        split: if_split_asm)
  have kept: "filter (\<lambda>r. pm_org_id r = o') (db_memory d') = filter (\<lambda>r. pm_org_id r = o') (db_memory d)" if "o' \<noteq> pr_org_id p" for o'
    using store_ok(4) [OF store assms(2) one that] by (simp add: audit)
  have found: "filter (selects p (Some target) key) (db_memory d') = [row]" "pm_value row = v"
    using store_ok(2,3) [OF store assms(2) one] assms(6) by (auto simp: audit)
  then have "recent (filter (selects p (Some target) key) (db_memory d')) = [row]"
    using assms(7) [of "[row]"] by (auto simp: length_Suc_conv)
  moreover have "filter (\<lambda>r. pm_org_id r = pr_org_id p \<and> pm_target_id r = Some target \<and> pm_key r = key) (db_memory d') =
      filter (selects p (Some target) key) (db_memory d')"
    by (rule arg_cong [where f = "\<lambda>Q. filter Q (db_memory d')"]) (auto simp: selects_def)
  ultimately have "fst (list_memory recent p (Some target) (Some key) 100 0 d') = Inr [row]"
    using key assms(5) by (simp add: list_memory_def need_def bind_act_def Let_def)
  with kept found answer show ?thesis by blast
qed

definition clerk :: principal where
  "clerk = \<lparr>pr_org_id = ''o1'', pr_user_id = ''u1'', pr_role = OPERATOR, pr_auth_method = ''jwt''\<rparr>"

theorem memory_read_back_witness:
  "case upsert_memory clerk [(''key'', JStr ''k''), (''target_id'', JStr ''t1''), (''value'', JInt 1)] empty_db of
     (Inr answer, d) \<Rightarrow> \<exists>row. pm_value row = JInt 1 \<and> fst (list_memory rev clerk (Some ''t1'') (Some ''k'') 100 0 d) = Inr [row]
   | (Inl e, d) \<Rightarrow> False"
proof -
  let ?body = "[(''key'', JStr ''k''), (''target_id'', JStr ''t1''), (''value'', JInt 1)]"
  have "\<not> isl (fst (upsert_memory clerk ?body empty_db))" by code_simp
  then obtain answer d where run: "upsert_memory clerk ?body empty_db = (Inr answer, d)"
    by (cases "upsert_memory clerk ?body empty_db"; cases "fst (upsert_memory clerk ?body empty_db)") auto
  have "\<exists>row. filter (selects clerk (Some ''t1'') ''k'') (db_memory d) = [row] \<and> pm_value row = JInt 1 \<and>
     jget answer ''id'' = JStr (pm_id row) \<and> fst (list_memory rev clerk (Some ''t1'') (Some ''k'') 100 0 d) = Inr [row] \<and>
     (\<forall>o'. o' \<noteq> pr_org_id clerk \<longrightarrow> filter (\<lambda>r. pm_org_id r = o') (db_memory d) = filter (\<lambda>r. pm_org_id r = o') (db_memory empty_db))"
    by (rule memory_read_back [OF run]) (simp_all add: empty_db_def jget_def)
  then show ?thesis unfolding run by auto
qed

text \<open>
  Triage adds a row each time it rejects a finding. A finding rejected twice leaves two rows with one key, and from then
  on storing that key is answered by no row but by an internal error.
\<close>

definition rejected_twice :: db where
  "rejected_twice = (let row = \<lparr>pm_id = ''m1'', pm_org_id = ''o1'', pm_target_id = Some ''t1'', pm_key = ''known_fp:k'', pm_value = JNull,
     pm_kind = ''false_positive''\<rparr> in empty_db\<lparr>db_memory := [row, row\<lparr>pm_id := ''m2''\<rparr>]\<rparr>)"

theorem duplicate_memory_is_stuck:
  "fst (upsert_memory clerk [(''key'', JStr ''known_fp:k''), (''target_id'', JStr ''t1'')] rejected_twice) =
     Inl (OtherError ''MultipleResultsFound: Multiple rows were found when one or none was required'')"
  by code_simp

end
