(* ===== verification/Connectors.thy ===== *)
theory Connectors
  imports Memory
begin

text \<open>
  \<open>app/api/routers/connectors.py\<close>: assessments made from a document behind a URL and the retest a build pipeline triggers.
  The resolver and what the HTTP library answers are the caller's. The classes a body asks for are a list of texts,
  any other list is taken as an error; the latest assessment is the last row.
\<close>

section \<open>Fetching\<close>

record fetch_world =
  fw_dns :: dns
  fw_get :: "string \<Rightarrow> exn + (int \<times> string)"

definition guarded_fetch :: "fetch_world \<Rightarrow> string \<Rightarrow> exn + string" where
  "guarded_fetch w url =
     sum_bind (case sum_bind (parse_url url) (\<lambda>(scheme, host, port, path). resolve_host (fw_dns w) host port True) of
        Inl (NetGuardError m) \<Rightarrow> Inl (HTTPException 422 (''invalid/unsafe URL: '' @ m)) | r \<Rightarrow> r) (\<lambda>info.
     if is_hard_blocked info \<or> is_private info \<or> is_loopback info
     then Inl (HTTPException 422 ''connector fetch destination is private/loopback/metadata (refused)'')
     else (case fw_get w url of
        Inl (HttpError e) \<Rightarrow> Inl (HTTPException 422 (''connector fetch error: '' @ e))
      | Inl e \<Rightarrow> Inl e
      | Inr (status, text) \<Rightarrow>
          if status \<ge> 400 then Inl (HTTPException 422 (''connector fetch failed: HTTP '' @ int_str status)) else Inr text))"

section \<open>Rows\<close>

definition conn_target :: "principal \<Rightarrow> string \<Rightarrow> (db, target) act" where
  "conn_target p tid = bind_act (gets (\<lambda>d. find_row tg_id tid (db_targets d))) (\<lambda>t. case t of
     None \<Rightarrow> raise_exn (HTTPException 404 ''target not found'')
   | Some x \<Rightarrow> if tg_org_id x \<noteq> pr_org_id p then raise_exn (HTTPException 404 ''target not found'') else ret x)"

definition verified_authz :: "principal \<Rightarrow> string \<Rightarrow> string \<Rightarrow> (db, authorization_record) act" where
  "verified_authz p tid aid = bind_act (gets (\<lambda>d. find_row az_id aid (db_records d))) (\<lambda>r. case r of
     None \<Rightarrow> raise_exn (HTTPException 404 ''authorization not found for target'')
   | Some x \<Rightarrow>
     if az_org_id x \<noteq> pr_org_id p \<or> az_target_id x \<noteq> tid
     then raise_exn (HTTPException 404 ''authorization not found for target'')
     else if az_status x \<noteq> verification_status_value VS_VERIFIED then raise_exn (HTTPException 403 ''authorization not verified'')
     else ret x)"

definition classes_of :: "jv \<Rightarrow> exn + string list" where
  "classes_of v = (if \<not> truthy v then Inr [] else case v of
     JList vs \<Rightarrow> mapM_sum text_column vs | _ \<Rightarrow> Inl (OtherError ''no list of texts''))"

definition new_run :: "(string \<Rightarrow> assessment) \<Rightarrow> (string \<Rightarrow> (db, 'a) act) \<Rightarrow> (db, 'a) act" where
  "new_run f g = bind_act new_id (\<lambda>i. bind_act (modify (\<lambda>d. d\<lparr>db_assessments := db_assessments d @ [f i]\<rparr>)) (\<lambda>_. g i))"

definition add_document :: "principal \<Rightarrow> string \<Rightarrow> string \<Rightarrow> string \<Rightarrow> string \<Rightarrow> (db, string) act" where
  "add_document p kind content filename i =
     bind_act new_id (\<lambda>j.
     bind_act (modify (\<lambda>d. d\<lparr>db_artifacts := db_artifacts d @
       [\<lparr>art_id = j, art_org_id = pr_org_id p, art_assessment_id = i, art_kind = kind, art_filename = filename,
         art_content = content, art_endpoint_url = [], art_parsed = False, art_warnings = []\<rparr>]\<rparr>)) (\<lambda>_.
     bind_act (write_audit (pr_org_id p) (Some i) ''system'' ''connector.ingested''
       [(''kind'', JStr kind), (''filename'', JStr filename)]) (\<lambda>_. ret i)))"

definition assessment_with_artifact ::
  "principal \<Rightarrow> string \<Rightarrow> string \<Rightarrow> string \<Rightarrow> string \<Rightarrow> string \<Rightarrow> string list \<Rightarrow> (db, string) act" where
  "assessment_with_artifact p tid authz kind content filename requested =
     new_run (\<lambda>i. new_assessment i (pr_org_id p) tid authz requested) (add_document p kind content filename)"

section \<open>Routes\<close>

text \<open>
  The two imports differ in the name of the URL field and in the last field of their answer. The transaction ends
  before the run is launched.
\<close>

definition imported :: "fetch_world \<Rightarrow> principal \<Rightarrow> string \<Rightarrow> string \<Rightarrow> dict \<Rightarrow> (db, string \<times> string \<times> string) act" where
  "imported w p tid url_field body =
     (let url = jget body url_field; authz = jget body ''authorization_id'' in
      bind_act (need (truthy url \<and> truthy authz) 422 (url_field @ '' and authorization_id are required'')) (\<lambda>_.
      bind_act (conn_target p tid) (\<lambda>_.
      bind_act (lift_sum (text_column authz)) (\<lambda>aid.
      bind_act (verified_authz p tid aid) (\<lambda>_.
      bind_act (lift_sum (text_column url)) (\<lambda>u.
      bind_act (lift_sum (guarded_fetch w u)) (\<lambda>content.
      bind_act (lift_sum (text_column (jget_or body ''kind'' (JStr ''openapi'')))) (\<lambda>kind.
      bind_act (lift_sum (classes_of (jget body ''requested_check_classes''))) (\<lambda>requested.
      bind_act (assessment_with_artifact p tid aid kind content u requested) (\<lambda>i. ret (i, u, kind)))))))))))"

definition launch_if :: "bool \<Rightarrow> string \<Rightarrow> (api, unit) act" where
  "launch_if b i = (if b then start_assessment i else ret ())"

definition connect_spec_url :: "fetch_world \<Rightarrow> principal \<Rightarrow> string \<Rightarrow> dict \<Rightarrow> (api, dict) act" where
  "connect_spec_url w p tid body =
     bind_act (lift_sum (require_role OPERATOR p)) (\<lambda>_.
     bind_act (on_db (transaction (imported w p tid ''url'' body))) (\<lambda>(i, u, kind).
     bind_act (launch_if (truthy (jget body ''start'')) i) (\<lambda>_.
     ret [(''assessment_id'', JStr i), (''state'', JStr (assessment_state_value CREATED)), (''source'', JStr u), (''kind'', JStr kind)])))"

definition connect_repo :: "fetch_world \<Rightarrow> principal \<Rightarrow> string \<Rightarrow> dict \<Rightarrow> (api, dict) act" where
  "connect_repo w p tid body =
     bind_act (lift_sum (require_role OPERATOR p)) (\<lambda>_.
     bind_act (on_db (transaction (imported w p tid ''raw_spec_url'' body))) (\<lambda>(i, u, kind).
     bind_act (launch_if (truthy (jget body ''start'')) i) (\<lambda>_.
     ret [(''assessment_id'', JStr i), (''state'', JStr (assessment_state_value CREATED)), (''source'', JStr u), (''connector'', JStr ''repo'')])))"

definition carry_forward :: "principal \<Rightarrow> string \<Rightarrow> jv \<Rightarrow> string \<Rightarrow> (db, string \<times> string) act" where
  "carry_forward p prev event i =
     bind_act (gets (\<lambda>d. filter (\<lambda>x. art_assessment_id x = prev) (db_artifacts d))) (\<lambda>arts.
     bind_act (for_each (copy_artifact (pr_org_id p) i) arts) (\<lambda>_.
     bind_act (write_audit (pr_org_id p) (Some i) ''system'' ''connector.ci_triggered''
       [(''event'', event), (''previous'', JStr prev)]) (\<lambda>_. ret (i, prev))))"

definition retested :: "principal \<Rightarrow> string \<Rightarrow> dict \<Rightarrow> (db, string \<times> string) act" where
  "retested p tid body =
     bind_act (conn_target p tid) (\<lambda>_.
     bind_act (gets (\<lambda>d. filter (\<lambda>a. a_target_id a = tid \<and> a_org_id a = pr_org_id p) (db_assessments d))) (\<lambda>rows.
     bind_act (need (rows \<noteq> []) 404 ''no prior assessment to retest for this target'') (\<lambda>_.
     let prev = last rows in
     bind_act (lift_sum (text_column (jget_or body ''authorization_id'' (JStr (a_authorization_id prev))))) (\<lambda>aid.
     bind_act (verified_authz p tid aid) (\<lambda>_.
     bind_act (lift_sum (case dget body ''requested_check_classes'' of
        None \<Rightarrow> Inr (a_requested_check_classes prev) | Some v \<Rightarrow> classes_of v)) (\<lambda>requested.
     new_run (\<lambda>i. (new_assessment i (pr_org_id p) tid aid requested)
       \<lparr>a_is_retest := True, a_previous_assessment_id := Some (a_id prev)\<rparr>)
       (carry_forward p (a_id prev) (jget_or body ''event'' (JStr ''ci'')))))))))"

definition ci_webhook :: "principal \<Rightarrow> string \<Rightarrow> dict \<Rightarrow> (api, dict) act" where
  "ci_webhook p tid body =
     bind_act (lift_sum (require_role OPERATOR p)) (\<lambda>_.
     bind_act (on_db (transaction (retested p tid body))) (\<lambda>(i, prev).
     bind_act (launch_if (truthy (jget_or body ''start'' (JBool True))) i) (\<lambda>_.
     ret [(''assessment_id'', JStr i), (''is_retest'', JBool True), (''previous_assessment_id'', JStr prev),
          (''triggered_by'', jget_or body ''event'' (JStr ''ci''))])))"

datatype connector_request = SpecUrl string dict | Repo string dict | CiHook string dict

fun handle_connector :: "fetch_world \<Rightarrow> principal \<Rightarrow> connector_request \<Rightarrow> (api, dict) act" where
  "handle_connector w p (SpecUrl tid body) = connect_spec_url w p tid body"
| "handle_connector w p (Repo tid body) = connect_repo w p tid body"
| "handle_connector w p (CiHook tid body) = ci_webhook p tid body"

section \<open>What a connector may create\<close>

text \<open>
  One assessment at most, of the caller's organisation, for a target of that organisation and under a record that is
  verified for the target; artifacts and audit rows of that organisation. Nothing else changes.
\<close>

definition entitled :: "principal \<Rightarrow> db \<Rightarrow> assessment \<Rightarrow> bool" where
  "entitled p d a \<longleftrightarrow> a_org_id a = pr_org_id p \<and> a_state a = assessment_state_value CREATED \<and>
     (\<exists>t \<in> set (db_targets d). tg_id t = a_target_id a \<and> tg_org_id t = pr_org_id p) \<and>
     (\<exists>r \<in> set (db_records d). az_id r = a_authorization_id a \<and> az_target_id r = a_target_id a \<and> az_org_id r = pr_org_id p \<and>
        az_status r = verification_status_value VS_VERIFIED)"

definition adds :: "principal \<Rightarrow> assessment list \<Rightarrow> db \<Rightarrow> db \<Rightarrow> bool" where
  "adds p as d d' \<longleftrightarrow> (\<exists>arts rows n m. d' = d\<lparr>db_assessments := db_assessments d @ as, db_artifacts := db_artifacts d @ arts,
       db_audit := db_audit d @ rows, db_drawn := n, db_reads := m\<rparr> \<and>
     (\<forall>x \<in> set arts. art_org_id x = pr_org_id p) \<and> (\<forall>x \<in> set rows. au_org_id x = pr_org_id p))"

lemma addsI:
  assumes "d' = d\<lparr>db_assessments := db_assessments d @ as, db_artifacts := db_artifacts d @ arts,
       db_audit := db_audit d @ rows, db_drawn := db_drawn d', db_reads := db_reads d'\<rparr>"
    and "\<forall>x \<in> set arts. art_org_id x = pr_org_id p" "\<forall>x \<in> set rows. au_org_id x = pr_org_id p"
  shows "adds p as d d'"
  unfolding adds_def using assms by blast

lemma adds_trans: "adds p as a b \<Longrightarrow> adds p bs b c \<Longrightarrow> adds p (as @ bs) a c"
  unfolding adds_def by (elim exE conjE) (intro exI conjI, force+)

lemma adds_draws: "adds p [] d (d\<lparr>db_drawn := n, db_reads := m\<rparr>)"
  by (rule addsI [where arts = "[]" and rows = "[]"]) simp_all

lemma adds_refl: "adds p [] d d"
  using adds_draws [where d = d and n = "db_drawn d" and m = "db_reads d"] by simp

interpretation adding: db_frame "adds p []" "{pr_org_id p}" for p
proof unfold_locales
  fix d :: db and row :: audit_log assume "au_org_id row \<in> {pr_org_id p}"
  then show "adds p [] d (d\<lparr>db_audit := db_audit d @ [row]\<rparr>)"
    by (intro addsI [where arts = "[]" and rows = "[row]"] db.equality) simp_all
qed (auto simp: adds_refl adds_draws dest: adds_trans)


text \<open>The steps before a row is written read only.\<close>

lemma conn_target_Inr:
  "conn_target p tid d = (Inr t, d') \<longleftrightarrow> d' = d \<and> find_row tg_id tid (db_targets d) = Some t \<and> tg_org_id t = pr_org_id p"
  by (auto simp: conn_target_def bind_act_Inr split: option.split_asm if_split_asm)

lemma verified_authz_Inr:
  "verified_authz p tid aid d = (Inr r, d') \<longleftrightarrow> d' = d \<and> find_row az_id aid (db_records d) = Some r \<and> az_org_id r = pr_org_id p \<and>
     az_target_id r = tid \<and> az_status r = verification_status_value VS_VERIFIED"
  by (auto simp: verified_authz_def bind_act_Inr split: option.split_asm if_split_asm)

lemma entitledI:
  assumes "find_row tg_id tid (db_targets d) = Some t" "tg_org_id t = pr_org_id p"
    and "find_row az_id aid (db_records d) = Some r" "az_org_id r = pr_org_id p" "az_target_id r = tid"
    and "az_status r = verification_status_value VS_VERIFIED"
    and "a_org_id a = pr_org_id p" "a_state a = assessment_state_value CREATED" "a_target_id a = tid" "a_authorization_id a = aid"
  shows "entitled p d a"
  using assms find_row_mem [OF assms(1)] find_row_key [OF assms(1)] find_row_mem [OF assms(3)] find_row_key [OF assms(3)]
  by (auto simp: entitled_def)

lemma artifact_row:
  "art_org_id x = pr_org_id p \<Longrightarrow> adds p [] d (d\<lparr>db_artifacts := db_artifacts d @ [x]\<rparr>)"
  by (intro addsI [where arts = "[x]" and rows = "[]"] db.equality) simp_all

lemma assessment_row: "adds p [a] d (d\<lparr>db_assessments := db_assessments d @ [a]\<rparr>)"
  by (intro addsI [where arts = "[]" and rows = "[]"] db.equality) simp_all

lemma keeps_copy: "keeps (adds p []) (copy_artifact (pr_org_id p) i art)"
  unfolding copy_artifact_def by (intro adding.keeps_bind adding.keeps_new_id adding.keeps_modify artifact_row) simp

lemma written_after:
  assumes "new_run f g d = (Inr x, d')"
    and "\<And>i. keeps (adds p []) (g i)" "\<And>i y e e'. g i e = (Inr y, e') \<Longrightarrow> h y = i"
  shows "adds p [f (h x)] d d'"
proof -
  let ?i = "db_uuid d (db_drawn d)"
  let ?e = "d\<lparr>db_drawn := Suc (db_drawn d)\<rparr>"
  from assms(1) have g: "g ?i (?e\<lparr>db_assessments := db_assessments ?e @ [f ?i]\<rparr>) = (Inr x, d')"
    by (simp add: new_run_def bind_act_def new_id_def)
  from assms(3) [OF g] have x: "h x = ?i" .
  have "adds p ([] @ [f ?i]) d (?e\<lparr>db_assessments := db_assessments ?e @ [f ?i]\<rparr>)"
    by (rule adds_trans [OF adding.draws1 assessment_row])
  from adds_trans [OF this keepsD [OF assms(2) g]] show ?thesis by (simp add: x)
qed

lemma keeps_document: "keeps (adds p []) (add_document p kind content u i)"
  unfolding add_document_def
  by (intro adding.keeps_bind adding.keeps_new_id adding.keeps_modify adding.keeps_ret adding.keeps_write_audit artifact_row) simp_all

lemma document_id: "add_document p kind content u i e = (Inr y, e') \<Longrightarrow> y = i"
  by (auto simp: add_document_def bind_act_Inr)

lemma keeps_carry: "keeps (adds p []) (carry_forward p prev event i)"
  unfolding carry_forward_def
  by (intro adding.keeps_bind adding.keeps_gets adding.keeps_for_each adding.keeps_ret adding.keeps_write_audit keeps_copy) simp

lemma carry_id: "carry_forward p prev event i e = (Inr y, e') \<Longrightarrow> fst y = i"
  by (auto simp: carry_forward_def bind_act_Inr)

lemma imported_ok:
  assumes "imported w p tid field body d = (Inr (i, u, kind), d')"
  shows "\<exists>a. a_id a = i \<and> entitled p d a \<and> adds p [a] d d'"
proof -
  from assms obtain aid content requested t r where
    t: "find_row tg_id tid (db_targets d) = Some t" "tg_org_id t = pr_org_id p"
    and r: "find_row az_id aid (db_records d) = Some r" "az_org_id r = pr_org_id p" "az_target_id r = tid"
      "az_status r = verification_status_value VS_VERIFIED"
    and run: "assessment_with_artifact p tid aid kind content u requested d = (Inr i, d')"
    by (auto simp: imported_def Let_def bind_act_Inr need_def conn_target_Inr verified_authz_Inr split: if_split_asm)
  let ?a = "\<lambda>i. new_assessment i (pr_org_id p) tid aid requested"
  have "adds p [?a (id i)] d d'"
    by (rule written_after [OF run [unfolded assessment_with_artifact_def] keeps_document]) (simp add: document_id)
  moreover have "entitled p d (?a i)" by (rule entitledI [OF t r]) (simp_all add: new_assessment_def)
  ultimately show ?thesis by (intro exI [of _ "?a i"]) (simp add: new_assessment_def)
qed

lemma retested_ok:
  assumes "retested p tid body d = (Inr (i, prev), d')"
  shows "\<exists>a. a_id a = i \<and> entitled p d a \<and> adds p [a] d d'"
proof -
  let ?prev = "last (filter (\<lambda>a. a_target_id a = tid \<and> a_org_id a = pr_org_id p) (db_assessments d))"
  let ?a = "\<lambda>aid requested i. (new_assessment i (pr_org_id p) tid aid requested)
    \<lparr>a_is_retest := True, a_previous_assessment_id := Some (a_id ?prev)\<rparr>"
  from assms obtain aid requested t r where
    t: "find_row tg_id tid (db_targets d) = Some t" "tg_org_id t = pr_org_id p"
    and r: "find_row az_id aid (db_records d) = Some r" "az_org_id r = pr_org_id p" "az_target_id r = tid"
      "az_status r = verification_status_value VS_VERIFIED"
    and run: "new_run (?a aid requested) (carry_forward p (a_id ?prev) (jget_or body ''event'' (JStr ''ci''))) d = (Inr (i, prev), d')"
    by (auto simp: retested_def Let_def bind_act_Inr need_def conn_target_Inr verified_authz_Inr split: if_split_asm)
  have "adds p [?a aid requested (fst (i, prev))] d d'"
    by (rule written_after [OF run keeps_carry]) (rule carry_id)
  moreover have "entitled p d (?a aid requested i)" by (rule entitledI [OF t r]) (simp_all add: new_assessment_def)
  ultimately show ?thesis by (intro exI [of _ "?a aid requested i"]) (simp add: new_assessment_def)
qed

text \<open>The common shape of the three routes: one assessment, which the answer names, or an exception and none.\<close>

definition bound_to_record :: "principal \<Rightarrow> api \<Rightarrow> (exn + dict) \<times> api \<Rightarrow> bool" where
  "bound_to_record p s res \<longleftrightarrow> (case res of
     (Inl e, s') \<Rightarrow> adds p [] (ap_db s) (ap_db s') \<and> ap_launched s' = ap_launched s
   | (Inr answer, s') \<Rightarrow> ROLE_RANK OPERATOR \<le> ROLE_RANK (pr_role p) \<and>
       (\<exists>a. jget answer ''assessment_id'' = JStr (a_id a) \<and> entitled p (ap_db s) a \<and> adds p [a] (ap_db s) (ap_db s') \<and>
          (ap_launched s' = ap_launched s \<or> ap_launched s' = ap_launched s @ [LaunchRun (a_id a)])))"

lemma nothing_done: "bound_to_record p s (Inl e, s\<lparr>ap_db := (ap_db s)\<lparr>db_drawn := n, db_reads := m\<rparr>\<rparr>)"
  by (simp add: bound_to_record_def adds_draws)

lemma route_bound:
  assumes "\<And>x d'. m (ap_db s) = (Inr x, d') \<Longrightarrow> \<exists>a. a_id a = h x \<and> entitled p (ap_db s) a \<and> adds p [a] (ap_db s) d'"
    and "\<And>x. \<exists>g. f x = bind_act (launch_if b (h x)) (\<lambda>_. ret g) \<and> jget g ''assessment_id'' = JStr (h x)"
  shows "bound_to_record p s (bind_act (lift_sum (require_role OPERATOR p)) (\<lambda>_. bind_act (on_db (transaction m)) f) s)"
proof (cases "ROLE_RANK (pr_role p) < ROLE_RANK OPERATOR")
  case True
  then show ?thesis by (simp add: bind_act_def require_role_def bound_to_record_def adds_refl)
next
  case False
  obtain r d' where m: "m (ap_db s) = (r, d')" by fastforce
  show ?thesis
  proof (cases r)
    case (Inl e)
    then show ?thesis using False by (simp add: bind_act_def require_role_def on_db_def transaction_def m nothing_done)
  next
    case (Inr x)
    with assms(1) m obtain a where a: "a_id a = h x" "entitled p (ap_db s) a" "adds p [a] (ap_db s) d'" by blast
    from assms(2) obtain g where f: "f x = bind_act (launch_if b (h x)) (\<lambda>_. ret g)" "jget g ''assessment_id'' = JStr (h x)" by blast
    from a False f(2) show ?thesis
      by (auto simp: bind_act_def require_role_def on_db_def transaction_def m Inr bound_to_record_def f(1) launch_if_def
          start_assessment_def intro!: exI [of _ a])
  qed
qed

text \<open>
  C39: what a connector starts is bound to a verified record. Whatever a request to the import and pipeline routes holds, and
  whatever the fetched server answers: an answered request came from an operator at least and created exactly one
  assessment, the one the answer names, for a target of the caller's organisation and under a record of that organisation
  that is verified for that target; a refused one created none. Artifacts and audit rows are the organisation's, nothing
  else in the database changes, and no other run is launched than the one created.
\<close>

theorem connector_bound_to_record:
  "bound_to_record p s (handle_connector w p req s)"
proof (cases req)
  case (SpecUrl tid body)
  show ?thesis
    unfolding SpecUrl handle_connector.simps connect_spec_url_def
    by (rule route_bound [where h = fst and b = "truthy (jget body ''start'')"])
      (auto split: prod.split dest: imported_ok simp: jget_def dget_def)
next
  case (Repo tid body)
  show ?thesis
    unfolding Repo handle_connector.simps connect_repo_def
    by (rule route_bound [where h = fst and b = "truthy (jget body ''start'')"])
      (auto split: prod.split dest: imported_ok simp: jget_def dget_def)
next
  case (CiHook tid body)
  show ?thesis
    unfolding CiHook handle_connector.simps ci_webhook_def
    by (rule route_bound [where h = fst and b = "truthy (jget_or body ''start'' (JBool True))"])
      (auto split: prod.split dest: retested_ok simp: jget_def dget_def)
qed

end
