(* ===== verification/Siem.thy ===== *)
theory Siem
  imports Api Storage Json_Roundtrip
begin

text \<open>
  \<open>app/services/siem.py\<close>: findings as security events, in the Elastic schema one JSON object per line, or as CEF lines, and
  the route of \<open>app/api/routers/assessments.py\<close> that exports them. The time of export, the HTTP library and what the
  storage backend answers are the caller's.
\<close>

section \<open>Events\<close>

record security_event =
  se_event_id :: string
  se_assessment_id :: string
  se_org_id :: string
  se_check_class :: string
  se_title :: string
  se_severity :: string
  se_status :: string
  se_cwe :: string
  se_endpoint_url :: jv
  se_skill_ref :: string
  se_detected_at :: string

definition severity_num :: "string \<Rightarrow> int" where
  "severity_num s = (case dget [(''critical'', 10), (''high'', 8), (''medium'', 5), (''low'', 3), (''info'', 1)] s of
     Some n \<Rightarrow> n | None \<Rightarrow> 1)"

definition to_ecs :: "security_event \<Rightarrow> jv" where
  "to_ecs e = JDict
     [(''@timestamp'', JStr (se_detected_at e)),
      (''event'', JDict [(''kind'', JStr ''alert''), (''category'', JList [JStr ''vulnerability'']), (''type'', JList [JStr ''info'']),
         (''id'', JStr (se_event_id e)), (''severity'', JInt (severity_num (se_severity e))), (''provider'', JStr ''sentrik''),
         (''dataset'', JStr ''sentrik.finding'')]),
      (''vulnerability'', JDict [(''category'', JList [JStr (se_check_class e)]), (''classification'', JStr (se_cwe e)),
         (''severity'', JStr (se_severity e)), (''description'', JStr (se_title e)),
         (''scanner'', JDict [(''vendor'', JStr ''Sentrik'')])]),
      (''url'', JDict [(''full'', se_endpoint_url e)]),
      (''organization'', JDict [(''id'', JStr (se_org_id e))]),
      (''sentrik'', JDict [(''assessment_id'', JStr (se_assessment_id e)), (''status'', JStr (se_status e)),
         (''skill_ref'', JStr (se_skill_ref e))])]"

definition to_cef :: "security_event \<Rightarrow> string" where
  "to_cef e =
     (let name = replace_char (CHR ''='') [chr 92, CHR ''=''] (replace_char (CHR ''|'') [chr 92, CHR ''|''] (se_title e));
          ext = ''cs1Label=assessmentId cs1='' @ se_assessment_id e @ '' cs2Label=cwe cs2='' @ se_cwe e @
            '' cs3Label=skillRef cs3='' @ se_skill_ref e @ '' request='' @ str_jv (se_endpoint_url e) @
            '' outcome='' @ se_status e @ '' rt='' @ se_detected_at e in
      str_strip (''CEF:0|Sentrik|Sentrik|1.0|'' @ se_check_class e @ ''|'' @ name @ ''|'' @ int_str (severity_num (se_severity e)) @
        ''|'' @ ext))"

definition finding_event :: "string \<Rightarrow> string \<Rightarrow> string \<Rightarrow> finding \<Rightarrow> security_event" where
  "finding_event detected aid org f =
     \<lparr>se_event_id = fd_id f, se_assessment_id = aid, se_org_id = org, se_check_class = fd_check_class f, se_title = fd_title f,
      se_severity = fd_severity f, se_status = fd_status f, se_cwe = fd_cwe f,
      se_endpoint_url = jget_or (fd_reproduction f) ''url'' (JStr []), se_skill_ref = fd_skill_ref f, se_detected_at = detected\<rparr>"

definition findings_to_events :: "string \<Rightarrow> string \<Rightarrow> string \<Rightarrow> finding list \<Rightarrow> security_event list" where
  "findings_to_events detected aid org fs = map (finding_event detected aid org) fs"

definition lines_of :: "string list \<Rightarrow> string" where
  "lines_of xs = join_with [chr 10] xs @ (if xs = [] then [] else [chr 10])"

definition serialize :: "security_event list \<Rightarrow> string \<Rightarrow> string \<times> string" where
  "serialize es fmt =
     (if fmt = ''cef'' then (lines_of (map to_cef es), ''text/plain'')
      else (lines_of (map (json_dumps \<circ> to_ecs) es), ''application/x-ndjson''))"

section \<open>Sinks\<close>

definition ref_jv :: "object_ref \<Rightarrow> jv" where
  "ref_jv r = JDict
     [(''backend'', JStr (ob_backend r)), (''key'', case ob_key r of None \<Rightarrow> JNull | Some k \<Rightarrow> JStr k),
      (''url'', case ob_url r of None \<Rightarrow> JNull | Some u \<Rightarrow> JStr u),
      (''inline'', case ob_inline r of None \<Rightarrow> JNull | Some t \<Rightarrow> JStr (concat (map utf8 t))),
      (''inline_encoding'', case ob_encoding r of None \<Rightarrow> JNull | Some e \<Rightarrow> JStr e)]"

definition response_emit :: "string \<Rightarrow> dict" where
  "response_emit payload = [(''sink'', JStr ''response''), (''bytes'', JInt (int (length payload)))]"

definition file_emit :: "(string \<Rightarrow> string \<Rightarrow> string \<Rightarrow> exn + object_ref) \<Rightarrow> string \<Rightarrow> string \<Rightarrow> string \<Rightarrow> exn + dict" where
  "file_emit put payload content_type key =
     sum_bind (put key payload content_type) (\<lambda>ref. Inr [(''sink'', JStr ''file''), (''ref'', ref_jv ref)])"

definition webhook_emit :: "dns \<Rightarrow> (string \<Rightarrow> string \<Rightarrow> string \<Rightarrow> exn + int) \<Rightarrow> string \<Rightarrow> string \<Rightarrow> string \<Rightarrow> exn + dict" where
  "webhook_emit dns post url payload content_type =
     sum_bind (case sum_bind (parse_url url) (\<lambda>(scheme, host, port, path). resolve_host dns host port True) of
        Inl (NetGuardError m) \<Rightarrow> Inl (ValueError (''unsafe SIEM webhook URL: '' @ m)) | r \<Rightarrow> r) (\<lambda>info.
     if is_hard_blocked info \<or> is_private info \<or> is_loopback info
     then Inl (ValueError ''SIEM webhook destination is private/loopback/metadata (refused)'')
     else sum_bind (post url payload content_type) (\<lambda>status. Inr [(''sink'', JStr ''webhook''), (''status'', JInt status)]))"

definition export_siem ::
  "(string \<Rightarrow> string \<Rightarrow> string \<Rightarrow> exn + object_ref) \<Rightarrow> string \<Rightarrow> principal \<Rightarrow> string \<Rightarrow> string \<Rightarrow> string \<Rightarrow> bool \<Rightarrow> (db, dict) act" where
  "export_siem put detected p aid fmt sink confirmed_only =
     bind_act (lift_sum (require_role OPERATOR p)) (\<lambda>_.
     bind_act (need (fmt \<in> {''ecs'', ''cef''} \<and> sink \<in> {''response'', ''file''}) 422 ''request validation failed'') (\<lambda>_.
     bind_act (own_assessment p aid) (\<lambda>_.
     bind_act (gets (\<lambda>d. filter (\<lambda>f. confirmed_only \<longrightarrow> fd_status f = ''confirmed'') (findings_of aid d))) (\<lambda>fs.
     let events = findings_to_events detected aid (pr_org_id p) fs in
     (case serialize events fmt of (payload, content_type) \<Rightarrow>
       bind_act (lift_sum (if sink = ''file'' then file_emit put payload content_type (''siem/'' @ aid @ ''/events.'' @ fmt)
          else Inr (response_emit payload))) (\<lambda>result.
       bind_act (write_audit (pr_org_id p) (Some aid) ''system'' ''siem.exported''
         [(''fmt'', JStr fmt), (''sink'', JStr sink), (''events'', JInt (int (length events)))]) (\<lambda>_.
       ret ([(''events'', JInt (int (length events))), (''format'', JStr fmt), (''sink'', JDict result)] @
         (if sink = ''response'' then [(''payload'', JStr payload)] else [])))))))))"

section \<open>One event per line\<close>

lemma newline_hex: "0 \<le> k \<Longrightarrow> k < 16 \<Longrightarrow> hex_digit k \<noteq> chr 10"
proof -
  assume "0 \<le> k" "k < 16"
  then have "k \<in> set [0..15]" by simp
  moreover have "list_all (\<lambda>k. hex_digit k \<noteq> chr 10) [0..15]" by code_simp
  ultimately show ?thesis by (simp only: list_all_iff) blast
qed

lemma newline_fixed:
  "chr 10 \<notin> set [chr 92, CHR ''n'', CHR ''r'', CHR ''t'', CHR ''f'', CHR ''b'', CHR ''u'', CHR ''0'', chr 34, CHR ''['', CHR '']'', CHR ''{'', CHR ''}'',
     CHR '','', CHR '' '', CHR '':'', CHR ''-'']" "chr 10 \<notin> set ''null''" "chr 10 \<notin> set ''true''" "chr 10 \<notin> set ''false''"
  by code_simp+

lemma newline_json_char: "chr 10 \<notin> set (json_char c)"
proof -
  have "0 \<le> ord c" "ord c < 256" using ord_lt [of c] by (simp_all add: ord_def)
  then have "0 \<le> ord c div 16" "ord c div 16 < 16" "0 \<le> ord c mod 16" "ord c mod 16 < 16" by simp_all
  then have hex: "hex_digit (ord c div 16) \<noteq> chr 10" "hex_digit (ord c mod 16) \<noteq> chr 10" by (simp_all add: newline_hex)
  have self: "c = chr 10 \<Longrightarrow> ord c = 10" by (simp add: ord_chr)
  show ?thesis
    using hex self newline_fixed by (auto simp: json_char_def Let_def)
qed

lemma newline_join: "chr 10 \<notin> set sep \<Longrightarrow> (\<And>x. x \<in> set xs \<Longrightarrow> chr 10 \<notin> set x) \<Longrightarrow> chr 10 \<notin> set (join_with sep xs)"
  by (induction sep xs rule: join_with.induct) auto

lemma newline_str: "chr 10 \<notin> set (json_str s)"
  using newline_fixed(1) newline_json_char by (auto simp: json_str_def)

lemma newline_int: "chr 10 \<notin> set (int_str i)"
proof -
  have "is_digit (chr 10) = False" by code_simp
  with digits_str_digits [of "\<bar>i\<bar>" "chr 10"] newline_fixed(1) show ?thesis by (auto simp: int_str_def)
qed

lemma newline_dumps: "plain_json v \<Longrightarrow> chr 10 \<notin> set (json_dumps v)"
proof (induction v)
  case (JList xs)
  then have "chr 10 \<notin> set (join_with '', '' (map json_dumps xs))"
    using newline_fixed(1) by (intro newline_join) (auto simp: list_all_iff)
  with newline_fixed(1) show ?case by simp
next
  case (JDict d)
  then have "chr 10 \<notin> set (join_with '', '' (map (\<lambda>(k, v). json_str k @ '': '' @ json_dumps v) d))"
    using newline_fixed(1) newline_str by (intro newline_join) (fastforce simp: list_all_iff)+
  with newline_fixed(1) show ?case by simp
qed (use newline_fixed newline_int newline_str in auto)

lemma join_snoc: "xs \<noteq> [] \<Longrightarrow> join_with sep (xs @ [y]) = join_with sep xs @ sep @ y"
  by (induction xs rule: list_nonempty_induct) (auto simp: neq_Nil_conv)

lemma lines_split:
  assumes "xs \<noteq> []" "\<And>x. x \<in> set xs \<Longrightarrow> chr 10 \<notin> set x"
  shows "split_char (chr 10) (lines_of xs) = xs @ [[]]"
proof -
  have "lines_of xs = join_with [chr 10] (xs @ [[]])"
    using assms(1) by (simp add: lines_of_def join_snoc)
  with split_join [of "xs @ [[]]" "chr 10"] assms(2) show ?thesis by auto
qed

text \<open>
  The events exported in the Elastic schema are what a collector reads. Whatever titles, classes and identifiers the
  findings carry, the export of a list of events, cut at its line ends, is one line per event and nothing after the last line
  end, and parsing the lines as JSON gives the documents of the events, in their order; nothing in a finding can start
  a line of its own.
\<close>

theorem siem_lines_read_back:
  assumes "es \<noteq> []" "\<forall>e \<in> set es. plain_json (se_endpoint_url e)"
  shows "\<exists>ls. split_char (chr 10) (fst (serialize es ''ecs'')) = ls @ [[]] \<and> map json_loads ls = map (Some \<circ> to_ecs) es"
proof -
  have plain: "plain_json (to_ecs e)" if "e \<in> set es" for e
    using assms(2) that by (simp add: to_ecs_def dwf_def dkeys_def)
  have "split_char (chr 10) (lines_of (map (json_dumps \<circ> to_ecs) es)) = map (json_dumps \<circ> to_ecs) es @ [[]]"
    by (rule lines_split) (use assms(1) plain newline_dumps in auto)
  then show ?thesis by (simp add: serialize_def json_roundtrip plain)
qed

definition forged :: security_event where
  "forged = \<lparr>se_event_id = ''f1'', se_assessment_id = ''a1'', se_org_id = ''o1'', se_check_class = ''sqli'',
     se_title = ''x'' @ [chr 10] @ ''CEF:0;other'', se_severity = ''high'', se_status = ''confirmed'', se_cwe = [],
     se_endpoint_url = JStr ''https://app.test/'', se_skill_ref = [], se_detected_at = ''now''\<rparr>"

theorem siem_lines_read_back_witness:
  "\<exists>l. split_char (chr 10) (fst (serialize [forged] ''ecs'')) = [l, []] \<and> json_loads l = Some (to_ecs forged)"
proof -
  have "\<exists>ls. split_char (chr 10) (fst (serialize [forged] ''ecs'')) = ls @ [[]] \<and> map json_loads ls = map (Some \<circ> to_ecs) [forged]"
    by (rule siem_lines_read_back) (simp_all add: forged_def)
  then show ?thesis by (auto simp: map_eq_Cons_conv)
qed

text \<open>In the CEF export the same title starts a line of its own.\<close>

theorem cef_line_forged:
  "length (split_char (chr 10) (fst (serialize [forged] ''cef''))) = 3 \<and>
   starts_with (split_char (chr 10) (fst (serialize [forged] ''cef'')) ! 1) ''CEF:0''"
  by code_simp

end
