(* ===== verification/Spec2Isabelle.thy ===== *)
theory Spec2Isabelle
  imports Http_Client Pool Planning Scoring Crawler Regression Declarative Decisions Isolation Recovery Parsers Graph
    Authority Storage Mcp Identity Chat Connectors Siem
begin

text \<open>
  A verification development for Sentrik, a service that tests web applications its users are authorized to test.

  \<^bold>\<open>The program.\<close> An organisation registers a target, proves that it owns it, and creates an authorization record: hosts,
  ports, methods, check classes, intensity, a time window, a request budget. An assessment binds a target to a
  record. The engine (\<open>app/orchestration/engine.py\<close>) takes it through eight phases: it authorizes the run, discovers
  endpoints, plans one step per endpoint and check, judges every step by policy, executes the approved steps with one
  agent each, proves the findings again, scores them and reports. All traffic goes through one client
  (\<open>app/security/http_client.py\<close>), which asks a guard made from the record (\<open>scope.py\<close>), a sandbox made from the same
  record (\<open>sandbox.py\<close>) and a token bucket before it sends. Language models advise agents (\<open>app/agents/brain.py\<close>); they
  choose from what the engine allows. The REST routes, chat messages, the MCP server and a workflow on LangGraph drive the
  engine.

  \<^bold>\<open>Theories and sources.\<close>

  \<^item> \<open>Prelude\<close>, \<open>Effects\<close>: strings, JSON values, exceptions as the left of a sum; operations that change a state
    and may raise, and the locale \<open>frame\<close>: if every step of an operation moves the state along a reflexive
    and transitive relation, so does the operation.
  \<^item> \<open>Regex\<close>, \<open>Render\<close>, \<open>Json\<close>, \<open>Json_Roundtrip\<close>, \<open>Urljoin\<close>, \<open>Codecs\<close>: what the program takes from the
    standard library (\<open>re\<close>, \<open>str\<close> and \<open>repr\<close>, \<open>json\<close>, \<open>urllib.parse\<close>, UTF-8 and Base64).
  \<^item> \<open>Enums\<close>, \<open>Config\<close>, \<open>Models\<close>, \<open>Store\<close>: \<open>core/enums.py\<close>, \<open>core/config.py\<close>, \<open>models/models.py\<close>; the database as a record
    of tables, with \<open>services/audit.py\<close>.
  \<^item> \<open>Netguard\<close>, \<open>Scope\<close>, \<open>Sandbox\<close>, \<open>Http_Client\<close>, \<open>Redaction\<close>, \<open>Web\<close>: \<open>app/security\<close>.
  \<^item> \<open>Auth\<close>, \<open>Api\<close>, \<open>Isolation\<close>: \<open>core/auth.py\<close>, \<open>api/routers/assessments.py\<close> with \<open>services/assessment_service.py\<close>, and
    the isolation of tenants over those routes.
  \<^item> \<open>Ownership\<close>, \<open>Targets\<close>, \<open>Authority\<close>: \<open>services/ownership.py\<close>, \<open>services/cloud_assets.py\<close>, \<open>api/routers/targets.py\<close>, and where
    verified records come from.
  \<^item> \<open>Identity\<close>, \<open>Memory\<close>, \<open>Chat\<close>, \<open>Connectors\<close>: the routers of those names in \<open>app/api/routers\<close>, the first with \<open>core/oidc.py\<close>.
  \<^item> \<open>Normalize\<close>, \<open>Parsers\<close>, \<open>Crawler\<close>: \<open>app/discovery\<close>.
  \<^item> \<open>Checks_Base\<close>, \<open>Checks_Injection\<close>, \<open>Checks_Access\<close>, \<open>Checks_Flow\<close>, \<open>Declarative\<close>, \<open>Registry\<close>: \<open>app/checks\<close> and
    \<open>agents/registry.py\<close>.
  \<^item> \<open>Brain\<close>, \<open>Decisions\<close>, \<open>Hooks\<close>, \<open>A2a\<close>, \<open>Agents\<close>, \<open>Pool\<close>: \<open>app/agents\<close> and \<open>orchestration/hooks.py\<close>.
  \<^item> \<open>Planning\<close>, \<open>Scoring\<close>, \<open>Validation\<close>, \<open>Regression\<close>, \<open>Remediation\<close>, \<open>Sessions\<close>, \<open>Storage\<close>, \<open>Siem\<close>: the modules of those
    names in \<open>app/services\<close>.
  \<^item> \<open>Policy\<close>, \<open>Results\<close>, \<open>Lifecycle\<close>, \<open>Recovery\<close>, \<open>Host\<close>, \<open>Discovery\<close>, \<open>Execution\<close>, \<open>Engine\<close>, \<open>Graph\<close>: \<open>orchestration/engine.py\<close>
    in the order of a run, and \<open>orchestration/graph.py\<close>.
  \<^item> \<open>Callers\<close>, \<open>Traffic\<close>: what a run may send.
  \<^item> \<open>Mcp\<close>: \<open>integrations/protocol_auth.py\<close> and \<open>integrations/mcp_server.py\<close>.

  A record of the model is a class or a row of the source with a prefix on its fields; a definition has the name of
  the function it models, without a leading underscore; a group of definitions follows the order of the code.

  \<^bold>\<open>What is shown.\<close>

  \<^item> Traffic: each guard is characterised; the client sends nothing that fails one of them, also after
    redirects and between two resolutions of a name; a whole run, whatever checks, brains and targets do, and every MCP
    call send only requests the record authorizes, within its budget; a supervised run ends in a final state.
  \<^item> Authority: a principal is backed by a row; a verified record goes back to evidence of control; policy
    executes exactly what record, approvals and manifests allow, also when the plan grows; tenants do not
    change each other's rows; users and keys are made by those entitled to; messages and connectors start no run
    that the caller could not start, and none without a verified record.
  \<^item> Advice: brains stay in the allowed set and stop at their budgets; agents only reorder and deepen what was planned.
  \<^item> Results: plans are exact and sorted; findings are stored once, reported only if they confirm, agree with
    their regression tests, and are graded without hiding what was not tested; secrets do not reach evidence.
  \<^item> Data: decisions, stored objects, facts, exported events and JSON are read back; endpoints are merged and signed exactly.
  \<^item> What does not hold: some theorems show where the code departs from its own comments, with a concrete run.

  \<^bold>\<open>Bounds and fuel.\<close> An unbounded repetition of a regular expression runs at most as often as the subject has
  characters, and repeated expressions consume. JSON values are parsed with fuel twice the length of the text plus two,
  as every call spends one unit and at least every second call of a chain consumes a character. A format string
  is expanded with its length as fuel, a character for each unit. Redirects, retries and agents' loops count
  down the limits of the code. Every other recursion is structural or has a termination proof, the crawl among them.

  \<^bold>\<open>Parameters.\<close> Code that is not in the repository is an argument: the name resolver, the clocks, the HTTP library and
  the servers behind it, SHA-1 and SHA-256, identifiers and random tokens, the YAML reader, the engine for operators' own
  regular expressions, password hashing and tokens, the re-ranking agent, the login client, the iteration order of sets,
  the schedule of the pool, the snapshots of LangGraph, the DNS library, encryption, and the bucket service. What a
  theorem needs of one is a premise, and a witness instantiates it.

  \<^bold>\<open>Simplifications.\<close> Agents of a pool are taken one after another, each as one step, and none exceeds its time limit;
  agents that are still running when the stream is left are not followed. Characters are below 256 and a text
  outside that range is its UTF-8 bytes. Floats are rationals. A transaction is atomic. Warnings the engine sets on
  artifacts are not stored, as in the code they are never committed.

  \<^bold>\<open>Not modelled.\<close> The A2A server, encryption, reports as HTML, SARIF or PDF, pull requests, metrics, and the assembly of the
  application: adapters over modelled operations, wrappers of a library, or output.
\<close>

end
